(* ===== verification/Sentinel_Prelude.thy ===== *)
theory Sentinel_Prelude
  imports Main "HOL-Library.Word"
begin

text \<open>
  The prelude of the development: the names of the machine types, the parts of the
  Rust standard library the program relies on (saturating arithmetic, string search,
  splitting and replacement, decimal printing and parsing, monotonic time), and the
  generic lemmas the component theories share.

  Conventions.  A \<open>String\<close> is a \<^typ>\<open>string\<close>, read as its bytes; the Unicode-aware
  operations (\<open>to_lowercase\<close>, \<open>trim\<close>) are modelled on ASCII text.  An unsigned integer
  of width \<open>w\<close> is a \<open>w word\<close>; a signed one is a \<open>w word\<close> read with \<^const>\<open>sint\<close>.  An
  \<open>Instant\<close> is a number of nanoseconds of the monotonic clock.  A handler that reads the
  clock several times takes a function from the number of the reading to its value.
\<close>

section \<open>Machine types\<close>

type_synonym u8 = "8 word"
type_synonym u16 = "16 word"
type_synonym u32 = "32 word"
type_synonym u64 = "64 word"
type_synonym i32 = "32 word"
type_synonym usize = "64 word"

named_theorems word_facts "facts that move word statements to nat"
named_theorems string_facts "facts about the string operations"

section \<open>Saturating and checked arithmetic\<close>

definition saturating_add :: "'a::len word \<Rightarrow> 'a word \<Rightarrow> 'a word" where
  "saturating_add a b = (if unat a + unat b < 2 ^ LENGTH('a) then a + b else - 1)"

definition saturating_sub :: "'a::len word \<Rightarrow> 'a word \<Rightarrow> 'a word" where
  "saturating_sub a b = (if b \<le> a then a - b else 0)"

lemma unat_saturating_add [word_facts]:
  "unat (saturating_add a b) = min (unat a + unat b) (2 ^ LENGTH('a) - 1)"
  for a b :: "'a::len word"
  by (auto simp: saturating_add_def unat_word_ariths unsigned_minus_1_eq_mask mask_eq_exp_minus_1)

lemma unat_saturating_sub [word_facts]:
  "unat (saturating_sub a b) = unat a - unat b"
  by (auto simp: saturating_sub_def word_le_nat_alt unat_sub)

lemma saturating_add_increases: "a \<le> saturating_add a b" for a b :: "'a::len word"
proof -
  have "unat a < 2 ^ LENGTH('a)" by (rule unsigned_less)
  then have "unat a \<le> 2 ^ LENGTH('a) - 1" by linarith
  then show ?thesis by (simp add: word_le_nat_alt word_facts del: unsigned_less)
qed

lemma saturating_add_mono: "a \<le> b \<Longrightarrow> saturating_add a c \<le> saturating_add b c"
  by (simp add: word_le_nat_alt word_facts)

lemma saturating_sub_decreases: "saturating_sub a b \<le> a"
  by (simp add: word_le_nat_alt word_facts)

section \<open>Time\<close>

type_synonym instant = int
type_synonym clock = "nat \<Rightarrow> instant"

abbreviation nanos_per_sec :: nat where
  "nanos_per_sec \<equiv> 1000000000"

text \<open>\<open>Duration::from_secs\<close>, \<open>Instant::elapsed\<close> (which saturates at zero) and \<open>as_secs\<close>.\<close>

definition from_secs :: "u64 \<Rightarrow> nat" where
  "from_secs s = unat s * nanos_per_sec"

definition elapsed :: "instant \<Rightarrow> instant \<Rightarrow> nat" where
  "elapsed now t = nat (now - t)"

definition as_secs :: "nat \<Rightarrow> nat" where
  "as_secs d = d div nanos_per_sec"

lemma elapsed_self [simp]: "elapsed t t = 0"
  by (simp add: elapsed_def)

lemma elapsed_mono: "now \<le> now' \<Longrightarrow> elapsed now t \<le> elapsed now' t"
  by (simp add: elapsed_def)

lemma as_secs_mono: "d \<le> d' \<Longrightarrow> as_secs d \<le> as_secs d'"
  by (simp add: as_secs_def div_le_mono)

section \<open>Strings\<close>

text \<open>\<open>str::starts_with\<close>, \<open>str::ends_with\<close>, \<open>str::find\<close>, \<open>str::rfind\<close>, \<open>str::contains\<close>.\<close>

definition starts_with :: "string \<Rightarrow> string \<Rightarrow> bool" where
  "starts_with s p \<longleftrightarrow> take (length p) s = p"

definition ends_with :: "string \<Rightarrow> string \<Rightarrow> bool" where
  "ends_with s p \<longleftrightarrow> length p \<le> length s \<and> drop (length s - length p) s = p"

fun str_find :: "string \<Rightarrow> string \<Rightarrow> nat option" where
  "str_find [] p = (if p = [] then Some 0 else None)"
| "str_find (c # cs) p =
     (if starts_with (c # cs) p then Some 0 else map_option Suc (str_find cs p))"

definition str_contains :: "string \<Rightarrow> string \<Rightarrow> bool" where
  "str_contains s p \<longleftrightarrow> str_find s p \<noteq> None"

text \<open>Position of the first and the last byte that satisfies a predicate.\<close>

fun find_char :: "(char \<Rightarrow> bool) \<Rightarrow> string \<Rightarrow> nat option" where
  "find_char P [] = None"
| "find_char P (c # cs) = (if P c then Some 0 else map_option Suc (find_char P cs))"

definition rfind_char :: "(char \<Rightarrow> bool) \<Rightarrow> string \<Rightarrow> nat option" where
  "rfind_char P s = map_option (\<lambda>i. length s - 1 - i) (find_char P (rev s))"

text \<open>\<open>str::replace\<close>: non-overlapping matches from the left; an empty pattern matches
  around every character.\<close>

function str_replace :: "string \<Rightarrow> string \<Rightarrow> string \<Rightarrow> string" where
  "str_replace s p r =
     (if p = [] then r @ concat (map (\<lambda>c. c # r) s)
      else case s of
        [] \<Rightarrow> []
      | c # cs \<Rightarrow> (if starts_with s p then r @ str_replace (drop (length p) s) p r
                   else c # str_replace cs p r))"
  by pat_completeness auto
termination
  by (relation "measure (\<lambda>(s, p, r). length s)") auto

declare str_replace.simps [simp del]

text \<open>\<open>str::split\<close> on a character predicate: always at least one piece.\<close>

fun str_split :: "(char \<Rightarrow> bool) \<Rightarrow> string \<Rightarrow> string list" where
  "str_split P [] = [[]]"
| "str_split P (c # cs) =
     (if P c then [] # str_split P cs
      else case str_split P cs of [] \<Rightarrow> [[c]] | w # ws \<Rightarrow> (c # w) # ws)"

fun str_join :: "string \<Rightarrow> string list \<Rightarrow> string" where
  "str_join sep [] = []"
| "str_join sep [w] = w"
| "str_join sep (w # ws) = w @ sep @ str_join sep ws"

definition trim_matches :: "(char \<Rightarrow> bool) \<Rightarrow> string \<Rightarrow> string" where
  "trim_matches P s = rev (dropWhile P (rev (dropWhile P s)))"

definition is_whitespace :: "char \<Rightarrow> bool" where
  "is_whitespace c \<longleftrightarrow> c = CHR '' '' \<or> (let n = of_char c :: nat in 9 \<le> n \<and> n \<le> 13)"

definition str_trim :: "string \<Rightarrow> string" where
  "str_trim = trim_matches is_whitespace"

definition char_lower :: "char \<Rightarrow> char" where
  "char_lower c = (let n = of_char c :: nat in if 65 \<le> n \<and> n \<le> 90 then char_of (n + 32) else c)"

definition char_upper :: "char \<Rightarrow> char" where
  "char_upper c = (let n = of_char c :: nat in if 97 \<le> n \<and> n \<le> 122 then char_of (n - 32) else c)"

definition to_lowercase :: "string \<Rightarrow> string" where
  "to_lowercase = map char_lower"

definition to_ascii_uppercase :: "string \<Rightarrow> string" where
  "to_ascii_uppercase = map char_upper"

lemma str_split_nonempty [simp]: "str_split P s \<noteq> []"
  by (induction s) (auto split: list.splits)

lemma str_split_no_sep: "w \<in> set (str_split P s) \<Longrightarrow> c \<in> set w \<Longrightarrow> \<not> P c"
  by (induction s arbitrary: w) (auto split: if_splits list.splits, metis)

lemma str_split_chars: "w \<in> set (str_split P s) \<Longrightarrow> set w \<subseteq> set s"
  by (induction s arbitrary: w)
    (auto split: if_splits list.splits, metis (no_types, lifting) list.set_intros subset_iff)

lemma length_str_split: "length (str_split P s) = Suc (length (filter P s))"
  by (induction s) (auto split: list.splits)

lemma str_join_split: "str_join [d] (str_split (\<lambda>c. c = d) s) = s"
proof (induction s)
  case (Cons c cs)
  then show ?case
    by (cases "str_split (\<lambda>c. c = d) cs" rule: remdups_adj.cases) auto
qed simp

lemma str_split_append:
  "(\<And>c. c \<in> set w \<Longrightarrow> \<not> P c) \<Longrightarrow> P d \<Longrightarrow> str_split P (w @ d # s) = w # str_split P s"
  by (induction w) auto

lemma str_split_single: "(\<And>c. c \<in> set w \<Longrightarrow> \<not> P c) \<Longrightarrow> str_split P w = [w]"
  by (induction w) auto

lemma trim_matches_none:
  assumes "\<And>c. c \<in> set s \<Longrightarrow> \<not> P c"
  shows "trim_matches P s = s"
proof -
  have d: "dropWhile P t = t" if "set t = set s" for t
    using that assms by (cases t) auto
  show ?thesis by (simp add: trim_matches_def d)
qed

lemma starts_with_append [simp]: "starts_with (p @ s) p"
  by (simp add: starts_with_def)

lemma starts_with_iff: "starts_with s p \<longleftrightarrow> (\<exists>t. s = p @ t)"
  by (metis append_eq_conv_conj append_take_drop_id starts_with_def)

lemma ends_with_append [simp]: "ends_with (s @ p) p"
  by (simp add: ends_with_def)

lemma str_find_Some: "str_find s p = Some i \<Longrightarrow> i + length p \<le> length s \<and> take (length p) (drop i s) = p"
proof (induction s arbitrary: i)
  case (Cons c cs)
  then show ?case
    by (auto simp: starts_with_iff split: if_splits dest: arg_cong [where f = length])
qed (auto split: if_splits)

section \<open>Decimal numbers\<close>

text \<open>\<open>to_string\<close> of an unsigned integer and \<open>str::parse\<close> into one: an optional \<open>+\<close>, at
  least one digit, digits only, and the value in range.\<close>

definition digit_char :: "nat \<Rightarrow> char" where
  "digit_char d = char_of (48 + d)"

fun show_nat :: "nat \<Rightarrow> string" where
  "show_nat n = (if n < 10 then [digit_char n] else show_nat (n div 10) @ [digit_char (n mod 10)])"

declare show_nat.simps [simp del]

definition show_word :: "'a::len word \<Rightarrow> string" where
  "show_word w = show_nat (unat w)"

definition is_digit :: "char \<Rightarrow> bool" where
  "is_digit c \<longleftrightarrow> (let n = of_char c :: nat in 48 \<le> n \<and> n \<le> 57)"

definition digit_value :: "char \<Rightarrow> nat" where
  "digit_value c = of_char c - 48"

definition digits_value :: "string \<Rightarrow> nat" where
  "digits_value s = foldl (\<lambda>n c. n * 10 + digit_value c) 0 s"

definition parse_nat :: "nat \<Rightarrow> string \<Rightarrow> nat option" where
  "parse_nat limit s =
     (let ds = (case s of [] \<Rightarrow> [] | c # cs \<Rightarrow> if c = CHR ''+'' then cs else s)
      in if ds \<noteq> [] \<and> list_all is_digit ds \<and> digits_value ds < limit
         then Some (digits_value ds) else None)"

definition parse_u32 :: "string \<Rightarrow> u32 option" where
  "parse_u32 s = map_option of_nat (parse_nat (2 ^ 32) s)"

lemma of_char_digit [simp]: "d < 10 \<Longrightarrow> (of_char (digit_char d) :: nat) = 48 + d"
  by (simp add: digit_char_def)

lemma is_digit_digit_char [simp]: "d < 10 \<Longrightarrow> is_digit (digit_char d)"
  by (simp add: is_digit_def)

lemma show_nat_digits: "list_all is_digit (show_nat n)"
  by (induction n rule: show_nat.induct) (subst show_nat.simps, auto)

lemma show_nat_nonempty [simp]: "show_nat n \<noteq> []"
  by (subst show_nat.simps) simp

lemma digits_value_show_nat [simp]: "digits_value (show_nat n) = n"
  by (induction n rule: show_nat.induct)
    (subst show_nat.simps, auto simp: digits_value_def digit_value_def)

lemma show_nat_no_plus: "hd (show_nat n) \<noteq> CHR ''+''"
proof -
  have "is_digit (hd (show_nat n))"
    using show_nat_digits [of n] by (cases "show_nat n") auto
  then show ?thesis by (auto simp: is_digit_def)
qed

lemma parse_show_nat:
  assumes "n < limit"
  shows "parse_nat limit (show_nat n) = Some n"
proof -
  have "(case show_nat n of [] \<Rightarrow> [] | c # cs \<Rightarrow> if c = CHR ''+'' then cs else show_nat n) = show_nat n"
    using show_nat_no_plus [of n] by (cases "show_nat n") auto
  then show ?thesis
    using assms show_nat_digits [of n] by (simp add: parse_nat_def)
qed

lemma parse_u32_show_word: "parse_u32 (show_word w) = Some w" for w :: u32
proof -
  have "unat w < 2 ^ LENGTH(32)"
    by (rule unsigned_less)
  then have "unat w < 2 ^ 32" by simp
  then show ?thesis
    by (simp add: parse_u32_def show_word_def parse_show_nat)
qed

lemma parse_nat_empty [simp]: "parse_nat limit [] = None"
  by (simp add: parse_nat_def)


text \<open>Signed numbers.\<close>

definition show_int :: "int \<Rightarrow> string" where
  "show_int n = (if n < 0 then CHR ''-'' # show_nat (nat (- n)) else show_nat (nat n))"

definition read_int :: "string \<Rightarrow> int option" where
  "read_int s = (case s of [] \<Rightarrow> None
     | c # cs \<Rightarrow> if c = CHR ''-'' then Some (- int (digits_value cs)) else Some (int (digits_value s)))"

lemma show_nat_hd_digit: "show_nat n = c # cs \<Longrightarrow> c \<noteq> CHR ''-'' \<and> c \<noteq> CHR '','' \<and> \<not> is_whitespace c"
  using show_nat_digits [of n] by (auto simp: is_digit_def is_whitespace_def Let_def)

lemma read_show_int [simp]: "read_int (show_int n) = Some n"
proof (cases "n < 0")
  case True
  then show ?thesis by (simp add: show_int_def read_int_def)
next
  case False
  obtain c cs where "show_nat (nat n) = c # cs" by (cases "show_nat (nat n)") auto
  with False show_nat_hd_digit [OF this] digits_value_show_nat [of "nat n"] show ?thesis
    by (simp add: show_int_def read_int_def)
qed

lemma show_nat_clean: "c \<in> set (show_nat n) \<Longrightarrow> c \<noteq> CHR '','' \<and> c \<noteq> CHR ''?'' \<and> \<not> is_whitespace c"
  using show_nat_digits [of n] by (auto simp: is_digit_def is_whitespace_def list_all_iff Let_def)

section \<open>Keyed stores\<close>

text \<open>
  The contract of the registries of the program (collectors, agents, plugins, schemas):
  a store of values under the key each value carries.  Registering a value replaces the
  one with the same key and touches nothing else.
\<close>

locale keyed_store =
  fixes key :: "'v \<Rightarrow> 'k"
    and lookup :: "'s \<Rightarrow> 'k \<Rightarrow> 'v option"
    and register :: "'s \<Rightarrow> 'v \<Rightarrow> 's"
  assumes lookup_register: "lookup (register s v) k = (if k = key v then Some v else lookup s k)"
begin

lemma lookup_register_same: "lookup (register s v) (key v) = Some v"
  by (simp add: lookup_register)

lemma lookup_register_other: "k \<noteq> key v \<Longrightarrow> lookup (register s v) k = lookup s k"
  by (simp add: lookup_register)

text \<open>After any sequence of registrations the last value of each key is found.\<close>

lemma lookup_register_all:
  "lookup (foldl register s vs) k =
     (case find (\<lambda>v. key v = k) (rev vs) of Some v \<Rightarrow> Some v | None \<Rightarrow> lookup s k)"
  by (induction vs rule: rev_induct) (auto simp: lookup_register)

lemma register_keeps:
  assumes "\<And>k v. lookup s k = Some v \<Longrightarrow> key v = k" and "lookup (register s w) k = Some v"
  shows "key v = k"
  using assms by (auto simp: lookup_register split: if_splits)

end

text \<open>A store whose entries can also be changed in place; an absent key is ignored.\<close>

locale updatable_store = keyed_store +
  fixes modify :: "('v \<Rightarrow> 'v) \<Rightarrow> 's \<Rightarrow> 'k \<Rightarrow> 's"
    and fits :: "('v \<Rightarrow> 'v) \<Rightarrow> bool"
  assumes lookup_modify:
    "fits f \<Longrightarrow> lookup (modify f s k) k' = (if k' = k then map_option f (lookup s k) else lookup s k')"
begin

lemma modify_no_new_key: "fits f \<Longrightarrow> lookup (modify f s k) k' = None \<longleftrightarrow> lookup s k' = None"
  by (simp add: lookup_modify)

lemma modify_absent: "fits f \<Longrightarrow> lookup s k = None \<Longrightarrow> lookup (modify f s k) = lookup s"
  by (rule ext) (simp add: lookup_modify)

lemma modify_keeps:
  assumes "fits f" and "\<And>v. key (f v) = key v"
    and "\<And>k v. lookup s k = Some v \<Longrightarrow> key v = k" and "lookup (modify f s k0) k = Some v"
  shows "key v = k"
  using assms by (auto simp: lookup_modify split: if_splits)

end


section \<open>Bands\<close>

text \<open>
  The program often sorts a measured value into bands by descending thresholds (severity
  of a score, backpressure of a queue, status by age).  What it relies on is that a larger
  value never falls into a lower band.
\<close>

locale banding =
  fixes band :: "'s::linorder \<Rightarrow> 'b"
    and rank :: "'b \<Rightarrow> nat"
  assumes band_mono: "x \<le> y \<Longrightarrow> rank (band x) \<le> rank (band y)"
begin

lemma band_strict: "rank (band x) < rank (band y) \<Longrightarrow> x < y"
  using band_mono [of y x] by (meson leD not_le_imp_less)

lemma band_between:
  "x \<le> y \<Longrightarrow> y \<le> z \<Longrightarrow> rank (band x) = rank (band z) \<Longrightarrow> rank (band y) = rank (band x)"
  using band_mono [of x y] band_mono [of y z] by simp

lemma band_max: "rank (band (max x y)) = max (rank (band x)) (rank (band y))"
  using band_mono [of x y] band_mono [of y x] by (auto simp: max_def)

text \<open>Once a band is reached it is kept by every non-decreasing sequence of values.\<close>

lemma band_upward: "k \<le> rank (band x) \<Longrightarrow> sorted (x # ys) \<Longrightarrow> y \<in> set ys \<Longrightarrow> k \<le> rank (band y)"
  using band_mono [of x y] by force

end

end
