(* ===== verification/Core_Types.thy ===== *)
theory Core_Types
  imports Sentinel_Prelude "HOL-Library.Char_ord" "HOL-Library.List_Lexorder"
begin

text \<open>
  The shared vocabulary of crates/sentinel-core/src/lib.rs: severities and their rule-file
  names, channel and backpressure configuration, and the registry of collectors.
\<close>

section \<open>Severity (lib.rs)\<close>

datatype severity = Debug | Info | Notice | Warning | Error | Critical | Alert | Emergency

fun severity_code :: "severity \<Rightarrow> u8" where
  "severity_code Debug = 1"
| "severity_code Info = 2"
| "severity_code Notice = 3"
| "severity_code Warning = 4"
| "severity_code Error = 5"
| "severity_code Critical = 6"
| "severity_code Alert = 7"
| "severity_code Emergency = 8"

definition severity_default :: severity where
  "severity_default = Info"

fun severity_as_str :: "severity \<Rightarrow> string" where
  "severity_as_str Debug = ''DEBUG''"
| "severity_as_str Info = ''INFO''"
| "severity_as_str Notice = ''NOTICE''"
| "severity_as_str Warning = ''WARNING''"
| "severity_as_str Error = ''ERROR''"
| "severity_as_str Critical = ''CRITICAL''"
| "severity_as_str Alert = ''ALERT''"
| "severity_as_str Emergency = ''EMERGENCY''"

text \<open>\<open>Severity::deserialize\<close>: \<open>None\<close> is the unknown-variant error.\<close>

definition severity_deserialize :: "string \<Rightarrow> severity option" where
  "severity_deserialize s =
     (let u = to_ascii_uppercase s in
      if u = ''DEBUG'' then Some Debug
      else if u = ''INFO'' \<or> u = ''LOW'' then Some Info
      else if u = ''NOTICE'' then Some Notice
      else if u = ''WARNING'' \<or> u = ''MEDIUM'' then Some Warning
      else if u = ''ERROR'' \<or> u = ''HIGH'' then Some Error
      else if u = ''CRITICAL'' then Some Critical
      else if u = ''ALERT'' then Some Alert
      else if u = ''EMERGENCY'' then Some Emergency
      else None)"

text \<open>The derived order is the order of the discriminants.\<close>

definition severity_le :: "severity \<Rightarrow> severity \<Rightarrow> bool" where
  "severity_le a b \<longleftrightarrow> severity_code a \<le> severity_code b"

instantiation severity :: linorder
begin

definition less_eq_severity :: "severity \<Rightarrow> severity \<Rightarrow> bool" where
  "less_eq_severity a b \<longleftrightarrow> severity_le a b"

definition less_severity :: "severity \<Rightarrow> severity \<Rightarrow> bool" where
  "less_severity a b \<longleftrightarrow> \<not> severity_le b a"

instance
proof
  fix x y z :: severity
  show "x < y \<longleftrightarrow> x \<le> y \<and> \<not> y \<le> x"
    by (auto simp: less_eq_severity_def less_severity_def severity_le_def)
  show "x \<le> x" by (simp add: less_eq_severity_def severity_le_def)
  show "x \<le> y \<Longrightarrow> y \<le> z \<Longrightarrow> x \<le> z"
    by (auto simp: less_eq_severity_def severity_le_def)
  show "x \<le> y \<Longrightarrow> y \<le> x \<Longrightarrow> x = y"
    by (cases x; cases y) (simp_all add: less_eq_severity_def severity_le_def word_le_nat_alt)
  show "x \<le> y \<or> y \<le> x"
    by (auto simp: less_eq_severity_def severity_le_def)
qed

end

lemma upper_idem [string_facts]: "to_ascii_uppercase (to_ascii_uppercase s) = to_ascii_uppercase s"
proof -
  have "char_upper (char_upper c) = char_upper c" for c
    by (auto simp: char_upper_def Let_def)
  then show ?thesis by (simp add: to_ascii_uppercase_def)
qed

lemma severity_deserialize_case_insensitive:
  "severity_deserialize (to_ascii_uppercase s) = severity_deserialize s"
  by (simp add: severity_deserialize_def string_facts)

lemma severity_deserialize_as_str: "severity_deserialize (severity_as_str v) = Some v"
  by (cases v)
    (simp_all add: severity_deserialize_def to_ascii_uppercase_def char_upper_def Let_def)

lemma severity_code_range: "1 \<le> severity_code v \<and> severity_code v \<le> 8"
  by (cases v) simp_all

lemma severity_as_str_inj: "severity_as_str v = severity_as_str w \<Longrightarrow> v = w"
  by (metis option.inject severity_deserialize_as_str)


section \<open>Lifecycle, channels and backpressure (lib.rs)\<close>

datatype system_state =
  Initializing | Starting | Running | Degraded_State | Stopping | Stopped | Crashed

datatype backpressure_signal =
  Normal | Elevated | High | Critical_Pressure | Overflow

record channel_config =
  cc_ingest :: usize
  cc_broadcast :: usize
  cc_storage :: usize
  cc_plugin :: usize
  cc_ipc :: usize

definition channel_config_default :: channel_config where
  "channel_config_default =
     \<lparr> cc_ingest = 10000, cc_broadcast = 1000, cc_storage = 5000, cc_plugin = 2000, cc_ipc = 500 \<rparr>"

record backpressure_config =
  bp_elevated :: u8
  bp_high :: u8
  bp_critical :: u8

definition backpressure_config_default :: backpressure_config where
  "backpressure_config_default = \<lparr> bp_elevated = 50, bp_high = 75, bp_critical = 90 \<rparr>"


section \<open>Collector registry (lib.rs)\<close>

text \<open>Wall-clock times are nanoseconds as well.\<close>

type_synonym datetime = int

record collector_status =
  cs_id :: string
  cs_name :: string
  cs_description :: string
  cs_state :: string
  cs_events_produced :: u64
  cs_errors :: u64
  cs_started_at :: "datetime option"
  cs_last_event_at :: "datetime option"

definition collector_status_new :: "datetime \<Rightarrow> string \<Rightarrow> string \<Rightarrow> string \<Rightarrow> collector_status" where
  "collector_status_new now cid name description =
     \<lparr> cs_id = cid, cs_name = name, cs_description = description, cs_state = ''running'',
       cs_events_produced = 0, cs_errors = 0, cs_started_at = Some now, cs_last_event_at = None \<rparr>"

type_synonym collector_registry = "string \<rightharpoonup> collector_status"

definition collector_registry_new :: collector_registry where
  "collector_registry_new = Map.empty"

definition collector_register :: "collector_registry \<Rightarrow> collector_status \<Rightarrow> collector_registry" where
  "collector_register c status = c(cs_id status \<mapsto> status)"

definition collector_get :: "collector_registry \<Rightarrow> string \<Rightarrow> collector_status option" where
  "collector_get c cid = c cid"

text \<open>\<open>list\<close> returns the values in an unspecified order: a set.\<close>

definition collector_list :: "collector_registry \<Rightarrow> collector_status set" where
  "collector_list c = ran c"

definition collector_update_state :: "string \<Rightarrow> string \<Rightarrow> collector_registry \<Rightarrow> collector_registry" where
  "collector_update_state cid st c =
     (case c cid of None \<Rightarrow> c | Some s \<Rightarrow> c(cid \<mapsto> s\<lparr> cs_state := st \<rparr>))"

text \<open>The counter wraps as the release build's \<open>+=\<close> does.\<close>

definition collector_increment_events ::
    "datetime \<Rightarrow> string \<Rightarrow> u64 \<Rightarrow> collector_registry \<Rightarrow> collector_registry" where
  "collector_increment_events now cid count c =
     (case c cid of None \<Rightarrow> c
      | Some s \<Rightarrow> c(cid \<mapsto> s\<lparr> cs_events_produced := cs_events_produced s + count,
                                cs_last_event_at := Some now \<rparr>))"

text \<open>Both mutations are one pattern: change the entry if it is there.\<close>

definition collector_modify ::
    "(collector_status \<Rightarrow> collector_status) \<Rightarrow> collector_registry \<Rightarrow> string \<Rightarrow> collector_registry" where
  "collector_modify f c cid = (case c cid of None \<Rightarrow> c | Some s \<Rightarrow> c(cid \<mapsto> f s))"

lemma update_state_modify:
  "collector_update_state cid st c = collector_modify (cs_state_update (\<lambda>_. st)) c cid"
  by (simp add: collector_update_state_def collector_modify_def)

lemma increment_events_modify:
  "collector_increment_events now cid n c =
     collector_modify (\<lambda>s. s\<lparr> cs_events_produced := cs_events_produced s + n,
                               cs_last_event_at := Some now \<rparr>) c cid"
  by (simp add: collector_increment_events_def collector_modify_def)

interpretation collectors: updatable_store cs_id collector_get collector_register
    collector_modify "\<lambda>f. \<forall>s. cs_id (f s) = cs_id s"
  by unfold_locales
    (auto simp: collector_get_def collector_register_def collector_modify_def split: option.splits)

inductive registry_reachable :: "collector_registry \<Rightarrow> bool" where
  reg_new: "registry_reachable collector_registry_new"
| reg_register: "registry_reachable c \<Longrightarrow> registry_reachable (collector_register c s)"
| reg_state: "registry_reachable c \<Longrightarrow> registry_reachable (collector_update_state cid st c)"
| reg_events: "registry_reachable c \<Longrightarrow> registry_reachable (collector_increment_events now cid n c)"

lemma registry_keyed:
  assumes "registry_reachable c"
  shows "collector_get c cid = Some s \<Longrightarrow> cs_id s = cid"
  using assms
proof (induction arbitrary: cid s)
  case reg_new
  then show ?case by (simp add: collector_get_def collector_registry_new_def)
next
  case (reg_register c v)
  then show ?case by (metis collectors.register_keeps)
next
  case (reg_state c k st)
  show ?case
    by (rule collectors.modify_keeps [of "cs_state_update (\<lambda>_. st)" c k])
      (use reg_state in \<open>simp_all add: update_state_modify\<close>)
next
  case (reg_events c now k n)
  show ?case
    by (rule collectors.modify_keeps [of "\<lambda>s. s\<lparr> cs_events_produced := cs_events_produced s + n,
                               cs_last_event_at := Some now \<rparr>" c k])
      (use reg_events in \<open>simp_all add: increment_events_modify\<close>)
qed

text \<open>
  In every reachable collector registry an entry is stored under its own id, so the
  status list holds at most one status for each id, and a counter update reaches exactly
  the collector it names.
\<close>

theorem registry_ids_unique:
  assumes "registry_reachable c" and "s \<in> collector_list c"
  shows "collector_get c (cs_id s) = Some s \<and>
    collector_get (collector_increment_events now (cs_id s) n c) k =
      (if k = cs_id s
       then Some (s\<lparr> cs_events_produced := cs_events_produced s + n, cs_last_event_at := Some now \<rparr>)
       else collector_get c k)"
proof -
  have "collector_get c (cs_id s) = Some s"
    using registry_keyed [OF assms(1)] assms(2)
    by (auto simp: collector_list_def collector_get_def ran_def)
  then show ?thesis
    unfolding increment_events_modify by (subst collectors.lookup_modify) simp_all
qed

lemma registry_ids_unique_witness:
  "collector_get (collector_register collector_registry_new (collector_status_new 7 ''p'' ''P'' ''d'')) ''p''
     = Some (collector_status_new 7 ''p'' ''P'' ''d'')"
  using registry_ids_unique [OF reg_register [OF reg_new],
      of "collector_status_new 7 ''p'' ''P'' ''d''" "collector_status_new 7 ''p'' ''P'' ''d''"]
  by (simp add: collector_list_def collector_register_def collector_registry_new_def
      collector_status_new_def)

end
