(* ===== verification/Float64.thy ===== *)
theory Float64
  imports Sentinel_Prelude Complex_Main "HOL-Library.Log_Nat"
begin

text \<open>
  IEEE-754 binary64 as the scoring code uses it (Rust's \<open>f64\<close>).  A value is a rational, an
  infinity or a NaN; every operation computes exactly and rounds once, to the nearest
  representable value with ties to even.  The exponent range is the one of binary64
  (smallest exponent \<open>-1074\<close>, largest finite value \<open>(2 ^ 53 - 1) * 2 ^ 971\<close>).  The sign of zero
  is not modelled: the program never divides by a zero of its own making and never
  inspects the sign.

  The scoring lemmas need only two laws of rounding: it is monotone and it fixes every
  integer of magnitude up to \<open>2 ^ 53\<close>.  They are the locale \<open>rounding\<close>, whose lemmas the risk
  and rule engines use through the interpretation \<open>f64r\<close> on the rounding defined here.
\<close>

section \<open>Rounding\<close>

definition ilog2 :: "rat \<Rightarrow> int" where
  "ilog2 x =
     (let (p, q) = quotient_of x; k = bitlen p - bitlen q
      in if 2 powi k \<le> x then k else k - 1)"

definition round_even :: "rat \<Rightarrow> int" where
  "round_even x =
     (let n = \<lfloor>x\<rfloor>; d = x - of_int n
      in if d < 1 / 2 then n else if 1 / 2 < d then n + 1 else if even n then n else n + 1)"

definition ulp_exp :: "rat \<Rightarrow> int" where
  "ulp_exp x = max (ilog2 x - 52) (- 1074)"

definition rnd_pos :: "rat \<Rightarrow> rat" where
  "rnd_pos x = of_int (round_even (x / 2 powi ulp_exp x)) * 2 powi ulp_exp x"

definition rnd64 :: "rat \<Rightarrow> rat" where
  "rnd64 x = (if x = 0 then 0 else if 0 < x then rnd_pos x else - rnd_pos (- x))"

locale rounding =
  fixes rnd :: "rat \<Rightarrow> rat"
  assumes rnd_mono: "x \<le> y \<Longrightarrow> rnd x \<le> rnd y"
    and rnd_int: "\<bar>n\<bar> \<le> 2 ^ 53 \<Longrightarrow> rnd (of_int n) = of_int n"
begin

lemma rnd_zero: "rnd 0 = 0"
  using rnd_int [of 0] by simp

lemma rnd_le_int: "x \<le> of_int n \<Longrightarrow> \<bar>n\<bar> \<le> 2 ^ 53 \<Longrightarrow> rnd x \<le> of_int n"
  using rnd_mono [of x "of_int n"] rnd_int [of n] by simp

lemma rnd_ge_int: "of_int n \<le> x \<Longrightarrow> \<bar>n\<bar> \<le> 2 ^ 53 \<Longrightarrow> of_int n \<le> rnd x"
  using rnd_mono [of "of_int n" x] rnd_int [of n] by simp

lemma rnd_nonneg: "0 \<le> x \<Longrightarrow> 0 \<le> rnd x"
  using rnd_ge_int [of 0 x] by simp

lemma rnd_scale_le:
  assumes "0 \<le> p" and "p \<le> 1" and "int n \<le> 2 ^ 53"
  shows "rnd (of_nat n * p) \<le> of_nat n"
proof -
  have "of_nat n * p \<le> of_int (int n)"
    using assms(1,2) by (simp add: mult_left_le)
  moreover have "\<bar>int n\<bar> \<le> 2 ^ 53"
    using assms(3) by simp
  ultimately have "rnd (of_nat n * p) \<le> of_int (int n)"
    by (rule rnd_le_int)
  then show ?thesis by simp
qed

end

subsection \<open>The logarithm brackets its argument\<close>

lemma ilog2_bounds:
  assumes "0 < x"
  shows "2 powi ilog2 x \<le> x" and "x < 2 powi (ilog2 x + 1)"
proof -
  obtain p q where pq: "quotient_of x = (p, q)" by fastforce
  then have q: "0 < q" and x: "x = of_int p / of_int q"
    by (auto simp: quotient_of_denom_pos quotient_of_div)
  with assms have p: "0 < p" by (simp add: zero_less_divide_iff)
  have bp: "(2::rat) powi (bitlen p - 1) \<le> of_int p" "(of_int p :: rat) < 2 powi bitlen p"
    if "0 < p" for p
  proof -
    have b: "2 ^ nat (bitlen p - 1) \<le> p \<and> p < 2 ^ nat (bitlen p)"
      using bitlen_bounds [OF that] .
    have pos: "0 < bitlen p" using that bitlen_nonneg [of p] bitlen_eq_zero_iff [of p] by linarith
    from b have "(of_int (2 ^ nat (bitlen p - 1)) :: rat) \<le> of_int p"
      and "(of_int p :: rat) < of_int (2 ^ nat (bitlen p))"
      by (simp_all only: of_int_le_iff of_int_less_iff)
    then show "(2::rat) powi (bitlen p - 1) \<le> of_int p" "(of_int p :: rat) < 2 powi bitlen p"
      using pos by (auto simp: power_int_def)
  qed
  define k where "k = bitlen p - bitlen q"
  have up: "x < 2 powi (k + 1)"
  proof -
    have "2 powi (k + 1) * (2::rat) powi (bitlen q - 1) = 2 powi bitlen p"
      by (simp add: power_int_add [symmetric] k_def)
    moreover have "2 powi (k + 1) * (2::rat) powi (bitlen q - 1) \<le> 2 powi (k + 1) * of_int q"
      using bp(1) [OF q] by (intro mult_left_mono) auto
    ultimately have "of_int p < 2 powi (k + 1) * (of_int q :: rat)"
      using bp(2) [OF p] by linarith
    with q show ?thesis by (simp add: x divide_less_eq)
  qed
  have lo: "2 powi (k - 1) \<le> x"
  proof -
    have "2 powi (k - 1) * (2::rat) powi bitlen q = 2 powi (bitlen p - 1)"
      by (simp add: power_int_add [symmetric] k_def)
    moreover have "2 powi (k - 1) * of_int q \<le> 2 powi (k - 1) * (2::rat) powi bitlen q"
      using bp(2) [OF q] by (intro mult_left_mono) auto
    ultimately have "2 powi (k - 1) * (of_int q :: rat) \<le> of_int p"
      using bp(1) [OF p] by linarith
    with q show ?thesis by (simp add: x le_divide_eq)
  qed
  show "2 powi ilog2 x \<le> x" and "x < 2 powi (ilog2 x + 1)"
    using up lo by (auto simp: ilog2_def pq k_def [symmetric])
qed

lemma ilog2_mono:
  assumes "0 < x" and "x \<le> y"
  shows "ilog2 x \<le> ilog2 y"
proof (rule ccontr)
  assume "\<not> ?thesis"
  then have "ilog2 y + 1 \<le> ilog2 x" by simp
  then have "(2::rat) powi (ilog2 y + 1) \<le> 2 powi ilog2 x"
    by (simp add: power_int_increasing)
  with ilog2_bounds(1) [OF assms(1)] ilog2_bounds(2) [of y] assms show False
    by linarith
qed

subsection \<open>Rounding to an integer\<close>

lemma round_even_of_int [simp]: "round_even (of_int n) = n"
  by (simp add: round_even_def)

lemma round_even_mono:
  assumes "x \<le> y"
  shows "round_even x \<le> round_even y"
proof (cases "\<lfloor>x\<rfloor> = \<lfloor>y\<rfloor>")
  case True
  with assms show ?thesis by (auto simp: round_even_def Let_def)
next
  case False
  with floor_mono [OF assms] have "\<lfloor>x\<rfloor> + 1 \<le> \<lfloor>y\<rfloor>" by simp
  then show ?thesis by (auto simp: round_even_def Let_def)
qed


lemma round_even_le_int: "x \<le> of_int n \<Longrightarrow> round_even x \<le> n"
  using round_even_mono [of x "of_int n"] by simp

lemma round_even_ge_int: "of_int n \<le> x \<Longrightarrow> n \<le> round_even x"
  using round_even_mono [of "of_int n" x] by simp

subsection \<open>Rounding positive values is monotone and keeps the integers\<close>

lemma power2_int_quotient:
  assumes "j \<le> i"
  shows "(2::rat) powi i / 2 powi j = of_int (2 ^ nat (i - j))"
proof -
  have "(2::rat) powi i / 2 powi j = 2 powi (i - j)"
    by (simp add: power_int_diff)
  then show ?thesis
    using assms by (simp add: power_int_def)
qed

lemma power2_int_split:
  assumes "j \<le> i"
  shows "of_int (2 ^ nat (i - j)) * 2 powi j = (2::rat) powi i"
  using power2_int_quotient [OF assms] by (simp add: field_simps)

lemma rnd_pos_mono:
  assumes "0 < x" and "x \<le> y"
  shows "rnd_pos x \<le> rnd_pos y"
proof (cases "ulp_exp x = ulp_exp y")
  case True
  have "round_even (x / 2 powi ulp_exp x) \<le> round_even (y / 2 powi ulp_exp x)"
    using assms(2) by (intro round_even_mono divide_right_mono) auto
  then show ?thesis
    by (simp add: rnd_pos_def True [symmetric] mult_right_mono)
next
  case False
  define l where "l = ilog2 y"
  have lx: "ilog2 x < l" and ey: "ulp_exp y = l - 52" and exl: "ulp_exp x \<le> l"
    using False ilog2_mono [OF assms] by (auto simp: ulp_exp_def l_def)
  have "x < 2 powi (ilog2 x + 1)"
    using ilog2_bounds(2) [OF assms(1)] .
  also have "\<dots> \<le> (2::rat) powi l"
    using lx by (simp add: power_int_increasing)
  finally have "x / 2 powi ulp_exp x \<le> 2 powi l / 2 powi ulp_exp x"
    by (simp add: divide_right_mono)
  then have "round_even (x / 2 powi ulp_exp x) \<le> 2 ^ nat (l - ulp_exp x)"
    using exl by (intro round_even_le_int) (simp only: power2_int_quotient)
  then have "rnd_pos x \<le> of_int (2 ^ nat (l - ulp_exp x)) * 2 powi ulp_exp x"
    unfolding rnd_pos_def by (intro mult_right_mono) (simp_all only: of_int_le_iff, simp)
  also have "\<dots> = 2 powi l"
    using exl by (rule power2_int_split)
  finally have up: "rnd_pos x \<le> 2 powi l" .
  have "2 powi l / 2 powi (l - 52) \<le> y / 2 powi (l - 52)"
    using ilog2_bounds(1) [of y] assms by (intro divide_right_mono) (auto simp: l_def)
  then have "2 ^ nat (l - (l - 52)) \<le> round_even (y / 2 powi (l - 52))"
    by (intro round_even_ge_int) (simp add: power2_int_quotient)
  then have "of_int (2 ^ nat (l - (l - 52))) * 2 powi (l - 52) \<le> rnd_pos y"
    unfolding rnd_pos_def ey by (intro mult_right_mono) (simp_all only: of_int_le_iff, simp)
  moreover have "of_int (2 ^ nat (l - (l - 52))) * 2 powi (l - 52) = (2::rat) powi l"
    by (rule power2_int_split) simp
  ultimately show ?thesis using up by simp
qed

lemma ilog2_less:
  assumes "0 < x" and "x < 2 powi k"
  shows "ilog2 x < k"
proof (rule ccontr)
  assume "\<not> ?thesis"
  then have "(2::rat) powi k \<le> 2 powi ilog2 x"
    by (simp add: power_int_increasing)
  with ilog2_bounds(1) [OF assms(1)] assms(2) show False by linarith
qed

lemma rnd_pos_multiple:
  assumes "x / 2 powi ulp_exp x = of_int m"
  shows "rnd_pos x = x"
proof -
  have "rnd_pos x = of_int m * 2 powi ulp_exp x"
    by (simp add: rnd_pos_def assms)
  also have "\<dots> = x"
    using assms by (simp add: field_simps)
  finally show ?thesis .
qed

lemma rnd_pos_int:
  assumes "0 < n" and "n \<le> 2 ^ 53"
  shows "rnd_pos (of_int n) = of_int n"
proof (cases "n = 2 ^ 53")
  case True
  have "ilog2 (of_int n) \<le> 53"
    using ilog2_less [of "of_int n" 54] True by (simp add: power_int_def)
  then have "ulp_exp (of_int n) \<le> 53"
    by (simp add: ulp_exp_def)
  then have "of_int n / 2 powi ulp_exp (of_int n) = (of_int (2 ^ nat (53 - ulp_exp (of_int n))) :: rat)"
    using power2_int_quotient [of "ulp_exp (of_int n)" 53] True by (simp add: power_int_def)
  then show ?thesis by (rule rnd_pos_multiple)
next
  case False
  have "(of_int n :: rat) < of_int (2 ^ 53)"
    using assms False by (simp only: of_int_less_iff)
  then have "ilog2 (of_int n) < 53"
    using assms by (intro ilog2_less) (auto simp: power_int_def)
  then have "ulp_exp (of_int n) \<le> 0"
    by (simp add: ulp_exp_def)
  then have q: "2 powi 0 / 2 powi ulp_exp (of_int n) = (of_int (2 ^ nat (0 - ulp_exp (of_int n))) :: rat)"
    by (rule power2_int_quotient)
  have "of_int n / 2 powi ulp_exp (of_int n) = of_int n * ((2::rat) powi 0 / 2 powi ulp_exp (of_int n))"
    by simp
  also have "\<dots> = of_int (n * 2 ^ nat (0 - ulp_exp (of_int n)))"
    unfolding q by simp
  finally have "of_int n / 2 powi ulp_exp (of_int n)
      = (of_int (n * 2 ^ nat (0 - ulp_exp (of_int n))) :: rat)" .
  then show ?thesis by (rule rnd_pos_multiple)
qed

lemma rnd_pos_nonneg: "0 < x \<Longrightarrow> 0 \<le> rnd_pos x"
  by (auto simp: rnd_pos_def intro!: mult_nonneg_nonneg round_even_ge_int divide_nonneg_nonneg)

lemma rnd64_mono: "x \<le> y \<Longrightarrow> rnd64 x \<le> rnd64 y"
  using rnd_pos_mono [of x y] rnd_pos_mono [of "- y" "- x"] rnd_pos_nonneg [of y]
    rnd_pos_nonneg [of "- x"]
  by (auto simp: rnd64_def)

lemma rnd64_int: "\<bar>n\<bar> \<le> 2 ^ 53 \<Longrightarrow> rnd64 (of_int n) = of_int n"
  using rnd_pos_int [of n] rnd_pos_int [of "- n"]
  by (auto simp: rnd64_def)

lemma rnd64_pow2: "rnd64 (2 ^ n) = 2 ^ n"
proof -
  have "ilog2 (2 ^ n) < int n + 1"
    by (rule ilog2_less) (simp_all add: power_int_def nat_add_distrib)
  then have "ulp_exp (2 ^ n) \<le> int n"
    by (simp add: ulp_exp_def)
  then have "2 powi int n / 2 powi ulp_exp (2 ^ n) = (of_int (2 ^ nat (int n - ulp_exp (2 ^ n))) :: rat)"
    by (rule power2_int_quotient)
  then have "rnd_pos (2 ^ n) = 2 ^ n"
    by (intro rnd_pos_multiple) simp
  then show ?thesis by (simp add: rnd64_def)
qed

interpretation f64r: rounding rnd64
  by unfold_locales (auto intro: rnd64_mono rnd64_int)


section \<open>Values and operations\<close>

datatype f64 = NaN | PInf | NInf | Fin rat

definition f64_max :: rat where
  "f64_max = (2 ^ 53 - 1) * 2 ^ 971"

text \<open>The value of an exact rational result: rounded, and infinite beyond the largest
  finite value.  A literal such as \<open>0.8\<close> is \<open>f64_of (8 / 10)\<close>.\<close>

definition f64_of :: "rat \<Rightarrow> f64" where
  "f64_of x = (let r = rnd64 x in if f64_max < r then PInf else if r < - f64_max then NInf else Fin r)"

definition f64_of_u32 :: "u32 \<Rightarrow> f64" where
  "f64_of_u32 n = Fin (of_nat (unat n))"

definition f64_of_nat :: "nat \<Rightarrow> f64" where
  "f64_of_nat n = f64_of (of_nat n)"

fun f64_mul :: "f64 \<Rightarrow> f64 \<Rightarrow> f64" where
  "f64_mul NaN _ = NaN"
| "f64_mul _ NaN = NaN"
| "f64_mul (Fin a) (Fin b) = f64_of (a * b)"
| "f64_mul (Fin a) PInf = (if a = 0 then NaN else if 0 < a then PInf else NInf)"
| "f64_mul (Fin a) NInf = (if a = 0 then NaN else if 0 < a then NInf else PInf)"
| "f64_mul PInf (Fin b) = (if b = 0 then NaN else if 0 < b then PInf else NInf)"
| "f64_mul NInf (Fin b) = (if b = 0 then NaN else if 0 < b then NInf else PInf)"
| "f64_mul PInf PInf = PInf"
| "f64_mul PInf NInf = NInf"
| "f64_mul NInf PInf = NInf"
| "f64_mul NInf NInf = PInf"

text \<open>Division, used with a finite dividend and a finite divisor.\<close>

fun f64_div_fin :: "f64 \<Rightarrow> f64 \<Rightarrow> f64" where
  "f64_div_fin (Fin a) (Fin b) =
     (if b = 0 then (if a = 0 then NaN else if 0 < a then PInf else NInf) else f64_of (a / b))"
| "f64_div_fin _ _ = NaN"

text \<open>\<open>f64::min\<close> returns the other argument when one is NaN.\<close>

fun f64_min :: "f64 \<Rightarrow> f64 \<Rightarrow> f64" where
  "f64_min NaN y = y"
| "f64_min x NaN = x"
| "f64_min NInf _ = NInf"
| "f64_min _ NInf = NInf"
| "f64_min PInf y = y"
| "f64_min x PInf = x"
| "f64_min (Fin a) (Fin b) = Fin (min a b)"

fun f64_le :: "f64 \<Rightarrow> f64 \<Rightarrow> bool" where
  "f64_le NaN _ = False"
| "f64_le _ NaN = False"
| "f64_le NInf _ = True"
| "f64_le _ PInf = True"
| "f64_le PInf _ = False"
| "f64_le _ NInf = False"
| "f64_le (Fin a) (Fin b) = (a \<le> b)"

definition f64_lt :: "f64 \<Rightarrow> f64 \<Rightarrow> bool" where
  "f64_lt x y \<longleftrightarrow> f64_le x y \<and> \<not> f64_le y x"

text \<open>\<open>as u32\<close>: truncation towards zero, saturating at the bounds, NaN to zero.\<close>

fun f64_to_u32 :: "f64 \<Rightarrow> u32" where
  "f64_to_u32 NaN = 0"
| "f64_to_u32 PInf = - 1"
| "f64_to_u32 NInf = 0"
| "f64_to_u32 (Fin a) =
     (if a \<le> 0 then 0 else if 2 ^ 32 \<le> \<lfloor>a\<rfloor> then - 1 else word_of_int \<lfloor>a\<rfloor>)"

lemma unat_u32_less: "unat w < 4294967296" for w :: u32
proof -
  have "unat w < 2 ^ LENGTH(32)" by (rule unsigned_less)
  then show ?thesis by simp
qed

lemma int_unat_u32_bound: "\<bar>int (unat w)\<bar> \<le> 2 ^ 53" for w :: u32
proof -
  have "int (unat w) < 4294967296" using unat_u32_less [of w] by presburger
  moreover have "(4294967296 :: int) \<le> 2 ^ 53" by simp
  ultimately show ?thesis by arith
qed

lemma of_unat_u32_less: "(of_nat (unat w) :: rat) < 4294967296" for w :: u32
proof -
  have "(of_nat (unat w) :: rat) < of_nat 4294967296"
    by (simp only: of_nat_less_iff unat_u32_less)
  then show ?thesis by simp
qed

lemma f64_to_u32_fin:
  assumes "0 < a" and "\<lfloor>a\<rfloor> < 2 ^ 32"
  shows "unat (f64_to_u32 (Fin a)) = nat \<lfloor>a\<rfloor>"
proof -
  have "0 \<le> \<lfloor>a\<rfloor>" using assms(1) by simp
  then have "uint (word_of_int \<lfloor>a\<rfloor> :: u32) = \<lfloor>a\<rfloor>"
    using assms(2) by (subst uint_word_of_int_eq) (simp add: take_bit_int_eq_self)
  then have "unat (word_of_int \<lfloor>a\<rfloor> :: u32) = nat \<lfloor>a\<rfloor>"
    by (simp only: unat_eq_nat_uint)
  then show ?thesis using assms by simp
qed

lemma f64_to_u32_le:
  assumes "a \<le> of_nat n" and "n < 2 ^ 32"
  shows "unat (f64_to_u32 (Fin a)) \<le> n"
proof (cases "a \<le> 0")
  case False
  have "\<lfloor>a\<rfloor> \<le> int n"
    using floor_mono [OF assms(1)] by simp
  moreover have "\<lfloor>a\<rfloor> < 2 ^ 32"
  proof -
    have "int n < 2 ^ 32" using assms(2) by simp
    then show ?thesis using calculation by linarith
  qed
  ultimately show ?thesis
    using False f64_to_u32_fin [of a] by (simp del: f64_to_u32.simps)
qed simp

text \<open>Scaling a \<^typ>\<open>u32\<close> by a factor in \<open>[0, 1]\<close> and truncating never increases it.\<close>

lemma f64_scale_le:
  assumes "0 \<le> p" and "p \<le> 1"
  shows "f64_to_u32 (f64_mul (f64_of_u32 n) (Fin p)) \<le> n"
proof -
  let ?r = "rnd64 (of_nat (unat n) * p)"
  have n: "int (unat n) \<le> 2 ^ 53"
    using int_unat_u32_bound [of n] by linarith
  have up: "?r \<le> of_nat (unat n)"
    using f64r.rnd_scale_le [OF assms n] by (simp del: of_nat_unat)
  have "(4294967296 :: rat) \<le> f64_max" by (simp add: f64_max_def)
  then have "?r \<le> f64_max"
    using up of_unat_u32_less [of n] by linarith
  moreover have "- f64_max \<le> ?r"
  proof -
    have "0 \<le> ?r"
      by (rule f64r.rnd_nonneg) (simp add: assms del: of_nat_unat)
    moreover have "- f64_max \<le> 0" by (simp add: f64_max_def)
    ultimately show ?thesis by linarith
  qed
  ultimately have "f64_mul (f64_of_u32 n) (Fin p) = Fin ?r"
    by (simp add: f64_of_u32_def f64_of_def Let_def del: of_nat_unat)
  then show ?thesis
    using f64_to_u32_le [OF up] unat_u32_less [of n]
    by (simp add: word_le_nat_alt del: of_nat_unat f64_to_u32.simps)
qed

text \<open>Capping at an integer bound holds for every factor, infinities and NaN included.\<close>

lemma f64_capped_le:
  assumes "n < 2 ^ 32"
  shows "unat (f64_to_u32 (f64_min x (Fin (of_nat n)))) \<le> n"
  using assms
  by (cases x) (simp_all add: f64_to_u32_le del: f64_to_u32.simps(4))

text \<open>Multiplying by one changes nothing.\<close>

lemma f64_mul_one: "f64_mul (f64_of_u32 n) (Fin 1) = f64_of_u32 n"
proof -
  have "rnd64 (of_int (int (unat n))) = of_int (int (unat n))"
    by (rule rnd64_int [OF int_unat_u32_bound])
  then have r: "rnd64 (of_nat (unat n)) = of_nat (unat n)"
    by (simp del: of_nat_unat)
  have "(4294967296 :: rat) \<le> f64_max" "0 \<le> f64_max" by (simp_all add: f64_max_def)
  moreover have "0 \<le> (of_nat (unat n) :: rat)" by (rule of_nat_0_le_iff)
  ultimately have "\<not> f64_max < (of_nat (unat n) :: rat)" "\<not> (of_nat (unat n) :: rat) < - f64_max"
    using of_unat_u32_less [of n] by linarith+
  then show ?thesis
    by (simp add: f64_of_u32_def f64_of_def Let_def r del: of_nat_unat)
qed

lemma f64_to_u32_of_u32 [simp]: "f64_to_u32 (f64_of_u32 n) = n"
proof (cases "unat n = 0")
  case True
  then have "n = 0" by (simp add: unat_eq_0)
  then show ?thesis by (simp add: f64_of_u32_def)
next
  case False
  have "unat (f64_to_u32 (Fin (of_nat (unat n)))) = nat \<lfloor>of_nat (unat n) :: rat\<rfloor>"
    using False unat_u32_less [of n] by (intro f64_to_u32_fin) (simp_all del: of_nat_unat)
  then have "unat (f64_to_u32 (f64_of_u32 n)) = unat n"
    by (simp only: f64_of_u32_def floor_of_nat nat_int)
  then show ?thesis by (simp only: word_unat_eq_iff)
qed

lemma f64_capped_u32:
  assumes "k < 2 ^ 32"
  shows "f64_to_u32 (f64_min (f64_of_u32 n) (Fin (of_nat k))) = (if unat n \<le> k then n else of_nat k)"
proof -
  have k: "Fin (of_nat k) = f64_of_u32 (of_nat k)"
    using assms by (simp add: f64_of_u32_def unat_of_nat take_bit_nat_eq_self del: of_nat_unat)
  have "f64_min (f64_of_u32 n) (Fin (of_nat k)) = (if unat n \<le> k then f64_of_u32 n else Fin (of_nat k))"
    by (simp add: f64_of_u32_def min_def del: of_nat_unat)
  then show ?thesis by (simp add: k)
qed

end
