(* ===== verification/Health.thy ===== *)
theory Health
  imports Core_Types Float64
begin

text \<open>
  Health monitoring of crates/sentinel-core/src/health.rs: component reports, their
  aggregation into the status of the system, the composite check and the CPU estimate.
  The aggregation is characterised as a maximum in the order of badness.
\<close>

datatype health_status = Healthy | Degraded | Unhealthy | Unknown

text \<open>The \<open>Debug\<close> text of a status, used in the details of a composite check.\<close>

fun health_debug :: "health_status \<Rightarrow> string" where
  "health_debug Healthy = ''Healthy''"
| "health_debug Degraded = ''Degraded''"
| "health_debug Unhealthy = ''Unhealthy''"
| "health_debug Unknown = ''Unknown''"

record component_metrics =
  cm_cpu_percent :: "f64 option"
  cm_memory_bytes :: "u64 option"
  cm_queue_depth :: "usize option"
  cm_events_per_second :: "f64 option"
  cm_error_rate :: "f64 option"
  cm_latency_p99_ms :: "f64 option"

record component_health =
  ch_name :: string
  ch_status :: health_status
  ch_message :: "string option"
  ch_details :: "string \<rightharpoonup> string"
  ch_last_check :: datetime
  ch_metrics :: "component_metrics option"

definition health_healthy :: "datetime \<Rightarrow> string \<Rightarrow> component_health" where
  "health_healthy now name =
     \<lparr> ch_name = name, ch_status = Healthy, ch_message = None, ch_details = Map.empty,
       ch_last_check = now, ch_metrics = None \<rparr>"

definition health_degraded :: "datetime \<Rightarrow> string \<Rightarrow> string \<Rightarrow> component_health" where
  "health_degraded now name message =
     \<lparr> ch_name = name, ch_status = Degraded, ch_message = Some message, ch_details = Map.empty,
       ch_last_check = now, ch_metrics = None \<rparr>"

definition health_unhealthy :: "datetime \<Rightarrow> string \<Rightarrow> string \<Rightarrow> component_health" where
  "health_unhealthy now name message =
     \<lparr> ch_name = name, ch_status = Unhealthy, ch_message = Some message, ch_details = Map.empty,
       ch_last_check = now, ch_metrics = None \<rparr>"

definition with_detail :: "component_health \<Rightarrow> string \<Rightarrow> string \<Rightarrow> component_health" where
  "with_detail c key value = c\<lparr> ch_details := (ch_details c)(key \<mapsto> value) \<rparr>"

definition with_metrics :: "component_health \<Rightarrow> component_metrics \<Rightarrow> component_health" where
  "with_metrics c m = c\<lparr> ch_metrics := Some m \<rparr>"

record system_health =
  sh_status :: health_status
  sh_components :: "component_health list"
  sh_timestamp :: datetime
  sh_uptime_seconds :: u64

definition system_health_new :: "datetime \<Rightarrow> component_health list \<Rightarrow> u64 \<Rightarrow> system_health" where
  "system_health_new now components uptime =
     (let status =
        if list_ex (\<lambda>c. ch_status c = Unhealthy) components then Unhealthy
        else if list_ex (\<lambda>c. ch_status c = Degraded) components then Degraded
        else if list_all (\<lambda>c. ch_status c = Healthy) components then Healthy
        else Unknown
      in \<lparr> sh_status = status, sh_components = components, sh_timestamp = now,
           sh_uptime_seconds = uptime \<rparr>)"

definition unhealthy_components :: "system_health \<Rightarrow> component_health list" where
  "unhealthy_components h = filter (\<lambda>c. ch_status c = Unhealthy) (sh_components h)"

definition degraded_components :: "system_health \<Rightarrow> component_health list" where
  "degraded_components h = filter (\<lambda>c. ch_status c = Degraded) (sh_components h)"

text \<open>\<open>CompositeHealthCheck::check\<close> on the results of its checks; a component with unknown
  health counts as healthy here, unlike in \<^const>\<open>system_health_new\<close>.\<close>

definition composite_check :: "datetime \<Rightarrow> component_health list \<Rightarrow> component_health" where
  "composite_check now results =
     (let overall =
        if list_ex (\<lambda>r. ch_status r = Unhealthy) results then Unhealthy
        else if list_ex (\<lambda>r. ch_status r = Degraded) results then Degraded
        else Healthy
      in \<lparr> ch_name = ''composite'', ch_status = overall, ch_message = None,
           ch_details = foldl (\<lambda>d r. d(ch_name r \<mapsto> health_debug (ch_status r))) Map.empty results,
           ch_last_check = now, ch_metrics = None \<rparr>)"

text \<open>
  \<open>ResourceTracker::cpu_percent\<close> on Linux.  The text of \<open>/proc/<pid>/stat\<close> and the uptime
  are inputs; \<open>None\<close> as text is a failed read.  Fields are separated by runs of blanks.
\<close>

definition split_whitespace :: "string \<Rightarrow> string list" where
  "split_whitespace s = filter (\<lambda>w. w \<noteq> []) (str_split is_whitespace s)"

definition parse_u64 :: "string \<Rightarrow> u64 option" where
  "parse_u64 s = map_option of_nat (parse_nat (2 ^ 64) s)"

definition cpu_percent :: "string option \<Rightarrow> u64 \<Rightarrow> f64 option" where
  "cpu_percent content uptime =
     (case content of None \<Rightarrow> None
      | Some text \<Rightarrow>
          let parts = split_whitespace text in
          if 17 \<le> length parts then
            case parse_u64 (parts ! 13) of None \<Rightarrow> None
            | Some utime \<Rightarrow>
                case parse_u64 (parts ! 14) of None \<Rightarrow> None
                | Some stime \<Rightarrow>
                    let total = utime + stime;
                        elapsed = f64_of_nat (unat uptime)
                    in if f64_lt (Fin 0) elapsed
                       then Some (f64_mul (f64_div_fin (f64_div_fin (f64_of_nat (unat total)) (Fin 100))
                                             elapsed) (Fin 100))
                       else None
          else None)"

section \<open>Aggregation\<close>

text \<open>How bad a status is for the system: unhealthy beats degraded beats unknown beats healthy.\<close>

fun badness :: "health_status \<Rightarrow> nat" where
  "badness Healthy = 0"
| "badness Unknown = 1"
| "badness Degraded = 2"
| "badness Unhealthy = 3"

lemma badness_inj: "badness a = badness b \<Longrightarrow> a = b"
  by (cases a; cases b) simp_all

lemma badness_le_3: "badness s \<le> 3"
  by (cases s) simp_all

lemma badness_eq [simp]:
  "badness s = 3 \<longleftrightarrow> s = Unhealthy" "badness s = 0 \<longleftrightarrow> s = Healthy"
  "badness s = 2 \<longleftrightarrow> s = Degraded" "badness s = 1 \<longleftrightarrow> s = Unknown"
  by (cases s; simp)+

lemma system_status_badness:
  "badness (sh_status (system_health_new now cs up)) =
     Max (insert 0 ((badness \<circ> ch_status) ` set cs))" (is "?l = Max ?S")
proof (rule Max_eqI [symmetric])
  show "finite ?S" by simp
next
  fix y assume "y \<in> ?S"
  moreover have "\<And>c. c \<in> set cs \<Longrightarrow> badness (ch_status c) \<le> ?l"
  proof -
    fix c assume "c \<in> set cs"
    then show "badness (ch_status c) \<le> ?l"
      by (cases "ch_status c") (force simp: system_health_new_def list_ex_iff list_all_iff Let_def)+
  qed
  ultimately show "y \<le> ?l" by auto
next
  have "?l = 0 \<or> (\<exists>c \<in> set cs. ?l = badness (ch_status c))"
  proof (cases "\<exists>c \<in> set cs. ch_status c = Unhealthy \<or> ch_status c = Degraded")
    case True
    then show ?thesis
      by (auto simp: system_health_new_def list_ex_iff Let_def)
  next
    case False
    then have hu: "\<And>c. c \<in> set cs \<Longrightarrow> ch_status c = Healthy \<or> ch_status c = Unknown"
      by (metis health_status.exhaust)
    show ?thesis
    proof (cases "\<forall>c \<in> set cs. ch_status c = Healthy")
      case True
      then show ?thesis by (simp add: system_health_new_def list_ex_iff list_all_iff Let_def)
    next
      case F: False
      then obtain c where "c \<in> set cs" "ch_status c = Unknown" using hu by blast
      moreover have "?l = 1"
        using False F by (auto simp: system_health_new_def list_ex_iff list_all_iff Let_def)
      ultimately show ?thesis by force
    qed
  qed
  then show "?l \<in> ?S" by (auto simp: image_iff)
qed

text \<open>
  The status of the system is the worst status of its components, in the order healthy,
  unknown, degraded, unhealthy, and a system without components is healthy.
\<close>

theorem system_health_is_worst:
  "badness (sh_status (system_health_new now cs up)) = fold max (map (badness \<circ> ch_status) cs) 0"
proof -
  have "fold max (map (badness \<circ> ch_status) cs) 0 = Max (insert 0 ((badness \<circ> ch_status) ` set cs))"
    by (subst Max.set_eq_fold [of 0 "map (badness \<circ> ch_status) cs", symmetric]) simp
  then show ?thesis by (simp only: system_status_badness)
qed

text \<open>The composite check agrees with the system status except that it hides unknown parts.\<close>

lemma composite_agrees:
  "ch_status (composite_check now rs) =
     (let s = sh_status (system_health_new now rs up) in if s = Unknown then Healthy else s)"
  by (auto simp: composite_check_def system_health_new_def Let_def)

lemma composite_hides_unknown:
  "ch_status (composite_check now [\<lparr> ch_name = ''x'', ch_status = Unknown, ch_message = None,
     ch_details = Map.empty, ch_last_check = now, ch_metrics = None \<rparr>]) = Healthy"
  by (simp add: composite_check_def)

lemma unhealthy_components_iff:
  "unhealthy_components (system_health_new now cs up) \<noteq> [] \<longleftrightarrow>
     sh_status (system_health_new now cs up) = Unhealthy"
  by (auto simp: unhealthy_components_def system_health_new_def list_ex_iff filter_empty_conv Let_def)

end
