(* ===== verification/Errors.thy ===== *)
theory Errors
  imports Sentinel_Prelude
begin

text \<open>
  The error taxonomy of crates/sentinel-core/src/errors.rs: one datatype per error enum
  with its Display text, the conversions the question-mark operator applies, and the three
  classification predicates.  An error value of a third-party crate (I/O, join, JSON,
  Protobuf, TOML, Bincode) is represented by its own Display text.
\<close>

datatype config_error =
    CE_NotFound string
  | CE_Parse string
  | CE_Validation string
  | CE_Migration string
  | CE_SecretDecryption string
  | CE_EnvVar string
  | CE_HotReload string

fun config_error_display :: "config_error \<Rightarrow> string" where
  "config_error_display (CE_NotFound m) = ''Config file not found: '' @ m"
| "config_error_display (CE_Parse m) = ''Config parse error: '' @ m"
| "config_error_display (CE_Validation m) = ''Config validation error: '' @ m"
| "config_error_display (CE_Migration m) = ''Config migration error: '' @ m"
| "config_error_display (CE_SecretDecryption m) = ''Secret decryption error: '' @ m"
| "config_error_display (CE_EnvVar m) = ''Environment variable error: '' @ m"
| "config_error_display (CE_HotReload m) = ''Hot reload error: '' @ m"

datatype storage_error =
    SE_Connection string
  | SE_Query string
  | SE_Migration string
  | SE_Transaction string
  | SE_Constraint string
  | SE_NotFound string
  | SE_Serialization string
  | SE_Retention string

fun storage_error_display :: "storage_error \<Rightarrow> string" where
  "storage_error_display (SE_Connection m) = ''Database connection error: '' @ m"
| "storage_error_display (SE_Query m) = ''Query error: '' @ m"
| "storage_error_display (SE_Migration m) = ''Migration error: '' @ m"
| "storage_error_display (SE_Transaction m) = ''Transaction error: '' @ m"
| "storage_error_display (SE_Constraint m) = ''Constraint violation: '' @ m"
| "storage_error_display (SE_NotFound m) = ''Not found: '' @ m"
| "storage_error_display (SE_Serialization m) = ''Serialization error: '' @ m"
| "storage_error_display (SE_Retention m) = ''Retention policy error: '' @ m"

datatype event_bus_error =
    BE_ChannelFull string
  | BE_Subscription string
  | BE_BackpressureCritical string
  | BE_EventTooLarge usize usize
  | BE_NoSubscribers string

fun event_bus_error_display :: "event_bus_error \<Rightarrow> string" where
  "event_bus_error_display (BE_ChannelFull m) = ''Channel full: '' @ m"
| "event_bus_error_display (BE_Subscription m) = ''Subscription error: '' @ m"
| "event_bus_error_display (BE_BackpressureCritical m) = ''Backpressure critical: '' @ m"
| "event_bus_error_display (BE_EventTooLarge n limit) = ''Event too large: '' @ show_word n @ '' > '' @ show_word limit"
| "event_bus_error_display (BE_NoSubscribers m) = ''No subscribers for event type: '' @ m"

datatype rule_engine_error =
    RE_CelCompilation string
  | RE_CelEvaluation string
  | RE_RuleNotFound string
  | RE_Validation string
  | RE_ActionExecution string
  | RE_Suppression string

fun rule_engine_error_display :: "rule_engine_error \<Rightarrow> string" where
  "rule_engine_error_display (RE_CelCompilation m) = ''CEL compilation error: '' @ m"
| "rule_engine_error_display (RE_CelEvaluation m) = ''CEL evaluation error: '' @ m"
| "rule_engine_error_display (RE_RuleNotFound m) = ''Rule not found: '' @ m"
| "rule_engine_error_display (RE_Validation m) = ''Rule validation error: '' @ m"
| "rule_engine_error_display (RE_ActionExecution m) = ''Action execution error: '' @ m"
| "rule_engine_error_display (RE_Suppression m) = ''Suppression error: '' @ m"

datatype collector_error =
    CoE_NotFound string
  | CoE_AlreadyRunning string
  | CoE_StartFailed string
  | CoE_StopFailed string
  | CoE_OsApi string
  | CoE_PermissionDenied string
  | CoE_Configuration string
  | CoE_EventGeneration string
  | CoE_UnsupportedPlatform

fun collector_error_display :: "collector_error \<Rightarrow> string" where
  "collector_error_display (CoE_NotFound m) = ''Collector not found: '' @ m"
| "collector_error_display (CoE_AlreadyRunning m) = ''Collector already running: '' @ m"
| "collector_error_display (CoE_StartFailed m) = ''Collector start failed: '' @ m"
| "collector_error_display (CoE_StopFailed m) = ''Collector stop failed: '' @ m"
| "collector_error_display (CoE_OsApi m) = ''OS API error: '' @ m"
| "collector_error_display (CoE_PermissionDenied m) = ''Permission denied: '' @ m"
| "collector_error_display (CoE_Configuration m) = ''Configuration error: '' @ m"
| "collector_error_display (CoE_EventGeneration m) = ''Event generation error: '' @ m"
| "collector_error_display CoE_UnsupportedPlatform = ''Unsupported platform''"

datatype plugin_error =
    PE_NotFound string
  | PE_AlreadyLoaded string
  | PE_LoadFailed string
  | PE_UnloadFailed string
  | PE_InitFailed string
  | PE_ExecutionFailed string
  | PE_CapabilityDenied string
  | PE_Communication string
  | PE_SandboxViolation string
  | PE_InvalidManifest string

fun plugin_error_display :: "plugin_error \<Rightarrow> string" where
  "plugin_error_display (PE_NotFound m) = ''Plugin not found: '' @ m"
| "plugin_error_display (PE_AlreadyLoaded m) = ''Plugin already loaded: '' @ m"
| "plugin_error_display (PE_LoadFailed m) = ''Plugin load failed: '' @ m"
| "plugin_error_display (PE_UnloadFailed m) = ''Plugin unload failed: '' @ m"
| "plugin_error_display (PE_InitFailed m) = ''Plugin initialization failed: '' @ m"
| "plugin_error_display (PE_ExecutionFailed m) = ''Plugin execution failed: '' @ m"
| "plugin_error_display (PE_CapabilityDenied m) = ''Capability denied: '' @ m"
| "plugin_error_display (PE_Communication m) = ''Plugin communication error: '' @ m"
| "plugin_error_display (PE_SandboxViolation m) = ''Plugin sandbox violation: '' @ m"
| "plugin_error_display (PE_InvalidManifest m) = ''Invalid plugin manifest: '' @ m"

datatype ai_engine_error =
    AE_ModelNotAvailable string
  | AE_ModelLoadFailed string
  | AE_InferenceFailed string
  | AE_ContextBuildingFailed string
  | AE_ResponseValidationFailed string
  | AE_GuardrailViolation string
  | AE_ProviderError string
  | AE_TokenLimitExceeded string

fun ai_engine_error_display :: "ai_engine_error \<Rightarrow> string" where
  "ai_engine_error_display (AE_ModelNotAvailable m) = ''Model not available: '' @ m"
| "ai_engine_error_display (AE_ModelLoadFailed m) = ''Model load failed: '' @ m"
| "ai_engine_error_display (AE_InferenceFailed m) = ''Inference failed: '' @ m"
| "ai_engine_error_display (AE_ContextBuildingFailed m) = ''Context building failed: '' @ m"
| "ai_engine_error_display (AE_ResponseValidationFailed m) = ''Response validation failed: '' @ m"
| "ai_engine_error_display (AE_GuardrailViolation m) = ''Guardrail violation: '' @ m"
| "ai_engine_error_display (AE_ProviderError m) = ''Provider error: '' @ m"
| "ai_engine_error_display (AE_TokenLimitExceeded m) = ''Token limit exceeded: '' @ m"

datatype correlation_error =
    XE_ChainNotFound string
  | XE_GraphCorruption string
  | XE_FlowTracking string
  | XE_ChainAnalysis string

fun correlation_error_display :: "correlation_error \<Rightarrow> string" where
  "correlation_error_display (XE_ChainNotFound m) = ''Chain not found: '' @ m"
| "correlation_error_display (XE_GraphCorruption m) = ''Graph corruption: '' @ m"
| "correlation_error_display (XE_FlowTracking m) = ''Flow tracking error: '' @ m"
| "correlation_error_display (XE_ChainAnalysis m) = ''Chain analysis failed: '' @ m"

datatype risk_error =
    KE_ScoringFailed string
  | KE_AlertGeneration string
  | KE_ThresholdConfig string
  | KE_TemporalDecay string

fun risk_error_display :: "risk_error \<Rightarrow> string" where
  "risk_error_display (KE_ScoringFailed m) = ''Scoring failed: '' @ m"
| "risk_error_display (KE_AlertGeneration m) = ''Alert generation failed: '' @ m"
| "risk_error_display (KE_ThresholdConfig m) = ''Threshold configuration error: '' @ m"
| "risk_error_display (KE_TemporalDecay m) = ''Temporal decay error: '' @ m"

datatype api_error =
    PiE_InvalidRequest string
  | PiE_Authentication string
  | PiE_Authorization string
  | PiE_RateLimited string
  | PiE_MethodNotAllowed string
  | PiE_Internal string

fun api_error_display :: "api_error \<Rightarrow> string" where
  "api_error_display (PiE_InvalidRequest m) = ''Invalid request: '' @ m"
| "api_error_display (PiE_Authentication m) = ''Authentication failed: '' @ m"
| "api_error_display (PiE_Authorization m) = ''Authorization failed: '' @ m"
| "api_error_display (PiE_RateLimited m) = ''Rate limited: '' @ m"
| "api_error_display (PiE_MethodNotAllowed m) = ''Method not allowed: '' @ m"
| "api_error_display (PiE_Internal m) = ''Internal server error: '' @ m"

datatype os_abstraction_error =
    OE_UnsupportedPlatform string
  | OE_ApiCallFailed string
  | OE_InsufficientPrivileges string
  | OE_ResourceNotFound string
  | OE_PlatformSpecific string

fun os_abstraction_error_display :: "os_abstraction_error \<Rightarrow> string" where
  "os_abstraction_error_display (OE_UnsupportedPlatform m) = ''Unsupported platform: '' @ m"
| "os_abstraction_error_display (OE_ApiCallFailed m) = ''API call failed: '' @ m"
| "os_abstraction_error_display (OE_InsufficientPrivileges m) = ''Insufficient privileges: '' @ m"
| "os_abstraction_error_display (OE_ResourceNotFound m) = ''Resource not found: '' @ m"
| "os_abstraction_error_display (OE_PlatformSpecific m) = ''Platform-specific error: '' @ m"

datatype serialization_error =
    ZE_Json string
  | ZE_Protobuf string
  | ZE_Toml string
  | ZE_TomlParse string
  | ZE_Bincode string

fun serialization_error_display :: "serialization_error \<Rightarrow> string" where
  "serialization_error_display (ZE_Json m) = ''JSON error: '' @ m"
| "serialization_error_display (ZE_Protobuf m) = ''Protobuf error: '' @ m"
| "serialization_error_display (ZE_Toml m) = ''TOML error: '' @ m"
| "serialization_error_display (ZE_TomlParse m) = ''TOML parse error: '' @ m"
| "serialization_error_display (ZE_Bincode m) = ''Bincode error: '' @ m"

datatype sentinel_error =
    Err_Config config_error
  | Err_Storage storage_error
  | Err_EventBus event_bus_error
  | Err_RuleEngine rule_engine_error
  | Err_Collector collector_error
  | Err_Plugin plugin_error
  | Err_AiEngine ai_engine_error
  | Err_Correlation correlation_error
  | Err_Risk risk_error
  | Err_Api api_error
  | Err_OsAbstraction os_abstraction_error
  | Err_Serialization serialization_error
  | Err_Validation string
  | Err_NotFound string
  | Err_AlreadyExists string
  | Err_PermissionDenied string
  | Err_ResourceExhausted string
  | Err_Timeout string
  | Err_Internal string
  | Err_Io string
  | Err_Join string
  | Err_ChannelSend string
  | Err_ChannelRecv string
  | Err_Parse string
  | Err_Migration string
  | Err_Encryption string
  | Err_HealthCheck string

fun sentinel_error_display :: "sentinel_error \<Rightarrow> string" where
  "sentinel_error_display (Err_Config e) = ''Configuration error: '' @ config_error_display e"
| "sentinel_error_display (Err_Storage e) = ''Storage error: '' @ storage_error_display e"
| "sentinel_error_display (Err_EventBus e) = ''Event bus error: '' @ event_bus_error_display e"
| "sentinel_error_display (Err_RuleEngine e) = ''Rule engine error: '' @ rule_engine_error_display e"
| "sentinel_error_display (Err_Collector e) = ''Collector error: '' @ collector_error_display e"
| "sentinel_error_display (Err_Plugin e) = ''Plugin error: '' @ plugin_error_display e"
| "sentinel_error_display (Err_AiEngine e) = ''AI engine error: '' @ ai_engine_error_display e"
| "sentinel_error_display (Err_Correlation e) = ''Correlation engine error: '' @ correlation_error_display e"
| "sentinel_error_display (Err_Risk e) = ''Risk engine error: '' @ risk_error_display e"
| "sentinel_error_display (Err_Api e) = ''API error: '' @ api_error_display e"
| "sentinel_error_display (Err_OsAbstraction e) = ''OS abstraction error: '' @ os_abstraction_error_display e"
| "sentinel_error_display (Err_Serialization e) = ''Serialization error: '' @ serialization_error_display e"
| "sentinel_error_display (Err_Validation m) = ''Validation error: '' @ m"
| "sentinel_error_display (Err_NotFound m) = ''Not found: '' @ m"
| "sentinel_error_display (Err_AlreadyExists m) = ''Already exists: '' @ m"
| "sentinel_error_display (Err_PermissionDenied m) = ''Permission denied: '' @ m"
| "sentinel_error_display (Err_ResourceExhausted m) = ''Resource exhausted: '' @ m"
| "sentinel_error_display (Err_Timeout m) = ''Timeout: '' @ m"
| "sentinel_error_display (Err_Internal m) = ''Internal error: '' @ m"
| "sentinel_error_display (Err_Io m) = ''IO error: '' @ m"
| "sentinel_error_display (Err_Join m) = ''Join error: '' @ m"
| "sentinel_error_display (Err_ChannelSend m) = ''Channel send error: '' @ m"
| "sentinel_error_display (Err_ChannelRecv m) = ''Channel recv error: '' @ m"
| "sentinel_error_display (Err_Parse m) = ''Parse error: '' @ m"
| "sentinel_error_display (Err_Migration m) = ''Migration error: '' @ m"
| "sentinel_error_display (Err_Encryption m) = ''Encryption error: '' @ m"
| "sentinel_error_display (Err_HealthCheck m) = ''Health check failed: '' @ m"

section \<open>Classification and conversions\<close>

fun is_retryable :: "sentinel_error \<Rightarrow> bool" where
  "is_retryable (Err_Io _) = True"
| "is_retryable (Err_Timeout _) = True"
| "is_retryable (Err_ResourceExhausted _) = True"
| "is_retryable (Err_ChannelSend _) = True"
| "is_retryable (Err_ChannelRecv _) = True"
| "is_retryable _ = False"

fun is_not_found :: "sentinel_error \<Rightarrow> bool" where
  "is_not_found (Err_NotFound _) = True"
| "is_not_found _ = False"

fun is_validation :: "sentinel_error \<Rightarrow> bool" where
  "is_validation (Err_Validation _) = True"
| "is_validation _ = False"

text \<open>\<open>From<anyhow::Error>\<close> for the main error and for the storage error.\<close>

definition sentinel_error_of_anyhow :: "string \<Rightarrow> sentinel_error" where
  "sentinel_error_of_anyhow m = Err_Internal m"

definition storage_error_of_anyhow :: "string \<Rightarrow> storage_error" where
  "storage_error_of_anyhow m = SE_Query m"

text \<open>The result type of the fallible operations.\<close>

type_synonym 'a result = "sentinel_error + 'a"

definition bind_result :: "'e + 'a \<Rightarrow> ('a \<Rightarrow> 'e + 'b) \<Rightarrow> 'e + 'b" where
  "bind_result r f = (case r of Inl e \<Rightarrow> Inl e | Inr x \<Rightarrow> f x)"

lemma bind_result_simps [simp]:
  "bind_result (Inl e) f = Inl e"
  "bind_result (Inr x) f = f x"
  by (simp_all add: bind_result_def)

lemma bind_result_Inr: "bind_result r f = Inr y \<longleftrightarrow> (\<exists>x. r = Inr x \<and> f x = Inr y)"
  by (cases r) simp_all

lemma classes_disjoint:
  "is_retryable e \<Longrightarrow> \<not> is_not_found e \<and> \<not> is_validation e"
  by (cases e) simp_all

text \<open>An error that went through \<open>anyhow\<close> has lost its class: nothing retries it.\<close>

lemma anyhow_not_retryable:
  "\<not> is_retryable (sentinel_error_of_anyhow m)"
  by (simp add: sentinel_error_of_anyhow_def)

end
