(* ===== verification/Response.thy ===== *)
theory Response
  imports Core_Types
begin

text \<open>
  The response engine of crates/sentinel-core/src/response.rs: response commands with their
  tier, the confirmations they collect, and the engine that holds the pending ones.  The
  main results say what a released command has been through: enough distinct people have
  confirmed it under its own id, and nothing releases or drops a command in any other way.
\<close>

section \<open>Commands\<close>

datatype response_tier = T1Auto | T2Confirm | T3Quorum | T4BreakGlass

definition requires_human :: "response_tier \<Rightarrow> bool" where
  "requires_human t \<longleftrightarrow> t = T2Confirm \<or> t = T3Quorum \<or> t = T4BreakGlass"

fun confirmation_count :: "response_tier \<Rightarrow> nat" where
  "confirmation_count T1Auto = 0"
| "confirmation_count T2Confirm = 1"
| "confirmation_count T3Quorum = 2"
| "confirmation_count T4BreakGlass = 1"

datatype edr_action =
  KillProcess u32
| QuarantineFile string "string option"
| BlockNetwork string "u16 option"
| IsolateHost u64
| CollectSnapshot
| RemoteShell u64
| NotifyAll "string list"

record edr_command =
  ec_id :: string
  ec_action :: edr_action
  ec_tier :: response_tier
  ec_triggered_by :: string
  ec_host_id :: string
  ec_reason :: string
  ec_confirmations :: "string list"
  ec_created_at :: datetime
  ec_expires_at :: datetime
  ec_executed :: bool

text \<open>The confirmation window of each tier, in seconds.\<close>

fun tier_timeout :: "response_tier \<Rightarrow> int" where
  "tier_timeout T1Auto = 60"
| "tier_timeout T2Confirm = 300"
| "tier_timeout T3Quorum = 600"
| "tier_timeout T4BreakGlass = 1800"

text \<open>\<open>EdrCommand::new\<close>; the generated ULID and the time are inputs.\<close>

definition edr_command_new ::
    "string \<Rightarrow> datetime \<Rightarrow> edr_action \<Rightarrow> response_tier \<Rightarrow> string \<Rightarrow> string \<Rightarrow> string \<Rightarrow> edr_command" where
  "edr_command_new ulid now action tier triggered_by host_id reason =
     \<lparr> ec_id = ulid, ec_action = action, ec_tier = tier, ec_triggered_by = triggered_by,
       ec_host_id = host_id, ec_reason = reason, ec_confirmations = [], ec_created_at = now,
       ec_expires_at = now + tier_timeout tier * int nanos_per_sec, ec_executed = False \<rparr>"

definition is_expired :: "datetime \<Rightarrow> edr_command \<Rightarrow> bool" where
  "is_expired now c \<longleftrightarrow> ec_expires_at c < now"

definition command_confirm :: "string \<Rightarrow> edr_command \<Rightarrow> edr_command" where
  "command_confirm user c =
     (if user \<in> set (ec_confirmations c) then c
      else c\<lparr> ec_confirmations := ec_confirmations c @ [user] \<rparr>)"

definition is_confirmed :: "edr_command \<Rightarrow> bool" where
  "is_confirmed c \<longleftrightarrow> confirmation_count (ec_tier c) \<le> length (ec_confirmations c)"

definition requires_confirmation :: "edr_command \<Rightarrow> bool" where
  "requires_confirmation c = requires_human (ec_tier c)"

section \<open>The engine\<close>

record response_engine =
  re_pending :: "edr_command list"
  re_executed :: "edr_command list"

definition response_engine_new :: response_engine where
  "response_engine_new = \<lparr> re_pending = [], re_executed = [] \<rparr>"

definition enqueue :: "edr_command \<Rightarrow> response_engine \<Rightarrow> string \<times> response_engine" where
  "enqueue c e = (ec_id c, e\<lparr> re_pending := re_pending e @ [c] \<rparr>)"

text \<open>\<open>iter_mut().find\<close>: change the first command with the id, and return it as changed.\<close>

fun update_first :: "(edr_command \<Rightarrow> bool) \<Rightarrow> (edr_command \<Rightarrow> edr_command) \<Rightarrow> edr_command list
    \<Rightarrow> (edr_command \<times> edr_command list) option" where
  "update_first P f [] = None"
| "update_first P f (c # cs) =
     (if P c then Some (f c, f c # cs)
      else map_option (\<lambda>(d, ds). (d, c # ds)) (update_first P f cs))"

definition engine_confirm ::
    "string \<Rightarrow> string \<Rightarrow> response_engine \<Rightarrow> edr_command option \<times> response_engine" where
  "engine_confirm command_id username e =
     (case update_first (\<lambda>c. ec_id c = command_id) (command_confirm username) (re_pending e) of
        None \<Rightarrow> (None, e)
      | Some (cmd, pending) \<Rightarrow>
          if is_confirmed cmd \<and> \<not> requires_confirmation cmd
          then (Some cmd, e\<lparr> re_pending := pending \<rparr>)
          else if is_confirmed cmd
          then (Some cmd, e\<lparr> re_pending := filter (\<lambda>c. ec_id c \<noteq> command_id) pending \<rparr>)
          else (None, e\<lparr> re_pending := pending \<rparr>))"

text \<open>\<open>expire_pending\<close> reads the clock once for each pending command.\<close>

fun partition_expired :: "clock \<Rightarrow> nat \<Rightarrow> edr_command list \<Rightarrow> edr_command list \<times> edr_command list" where
  "partition_expired clk i [] = ([], [])"
| "partition_expired clk i (c # cs) =
     (let (ex, ac) = partition_expired clk (Suc i) cs
      in if is_expired (clk i) c then (c # ex, ac) else (ex, c # ac))"

definition expire_pending :: "clock \<Rightarrow> response_engine \<Rightarrow> edr_command list \<times> response_engine" where
  "expire_pending clk e =
     (let (expired, active) = partition_expired clk 0 (re_pending e)
      in (expired, e\<lparr> re_pending := active \<rparr>))"

definition pending_commands :: "response_engine \<Rightarrow> edr_command list" where
  "pending_commands e = re_pending e"

definition engine_execute :: "edr_command \<Rightarrow> response_engine \<Rightarrow> response_engine" where
  "engine_execute c e = e\<lparr> re_executed := re_executed e @ [c] \<rparr>"

section \<open>Confirmations\<close>

lemma command_confirm_simps [simp]:
  "ec_id (command_confirm u c) = ec_id c"
  "ec_tier (command_confirm u c) = ec_tier c"
  "set (ec_confirmations (command_confirm u c)) = insert u (set (ec_confirmations c))"
  by (auto simp: command_confirm_def)

lemma command_confirm_distinct [intro, simp]:
  "distinct (ec_confirmations c) \<Longrightarrow> distinct (ec_confirmations (command_confirm u c))"
  by (simp add: command_confirm_def)

lemma update_first_Some:
  assumes "update_first P f cs = Some (d, ds)"
  obtains xs c ys where "cs = xs @ c # ys" "\<forall>x \<in> set xs. \<not> P x" "P c" "d = f c" "ds = xs @ f c # ys"
proof -
  have "\<exists>xs c ys. cs = xs @ c # ys \<and> (\<forall>x \<in> set xs. \<not> P x) \<and> P c \<and> d = f c \<and> ds = xs @ f c # ys"
    using assms
  proof (induction cs arbitrary: d ds)
    case (Cons a cs)
    show ?case
    proof (cases "P a")
      case True
      with Cons.prems have "a # cs = [] @ a # cs \<and> (\<forall>x \<in> set []. \<not> P x) \<and> P a \<and> d = f a
          \<and> ds = [] @ f a # cs" by auto
      then show ?thesis by blast
    next
      case False
      with Cons.prems obtain es where es: "update_first P f cs = Some (d, es)" "ds = a # es"
        by auto
      from Cons.IH [OF es(1)] obtain xs c ys where
        "cs = xs @ c # ys \<and> (\<forall>x \<in> set xs. \<not> P x) \<and> P c \<and> d = f c \<and> es = xs @ f c # ys"
        by blast
      with False es(2) have "a # cs = (a # xs) @ c # ys \<and> (\<forall>x \<in> set (a # xs). \<not> P x) \<and> P c
          \<and> d = f c \<and> ds = (a # xs) @ f c # ys" by simp
      then show ?thesis by blast
    qed
  qed simp
  then show ?thesis using that by blast
qed

lemma update_first_None: "update_first P f cs = None \<longleftrightarrow> (\<forall>c \<in> set cs. \<not> P c)"
  by (induction cs) auto

section \<open>What a released command has been through\<close>

text \<open>The operations on an engine; any command may be enqueued, also one that carries confirmations.\<close>

datatype engine_op =
  Enqueue edr_command
| Confirm string string
| Expire clock
| Execute edr_command

fun engine_apply :: "response_engine \<Rightarrow> engine_op \<Rightarrow> response_engine" where
  "engine_apply e (Enqueue c) = snd (enqueue c e)"
| "engine_apply e (Confirm cid user) = snd (engine_confirm cid user e)"
| "engine_apply e (Expire clk) = snd (expire_pending clk e)"
| "engine_apply e (Execute c) = engine_execute c e"

definition engine_run :: "engine_op list \<Rightarrow> response_engine" where
  "engine_run ops = foldl engine_apply response_engine_new ops"

lemma engine_run_snoc [simp]: "engine_run (ops @ [op]) = engine_apply (engine_run ops) op"
  by (simp add: engine_run_def)

text \<open>A command that comes from an enqueued one: only the confirmations are changed, those added were
  given under its id, and none was added twice.\<close>

definition comes_from :: "engine_op list \<Rightarrow> edr_command \<Rightarrow> edr_command \<Rightarrow> bool" where
  "comes_from ops d c \<longleftrightarrow> Enqueue d \<in> set ops \<and> c = d\<lparr> ec_confirmations := ec_confirmations c \<rparr>
     \<and> set (ec_confirmations c) \<subseteq> set (ec_confirmations d) \<union> {u. Confirm (ec_id d) u \<in> set ops}
     \<and> (distinct (ec_confirmations d) \<longrightarrow> distinct (ec_confirmations c))"

lemma comes_from_snoc: "comes_from ops d c \<Longrightarrow> comes_from (ops @ [op]) d c"
  by (auto simp: comes_from_def)

lemma comes_from_id: "comes_from ops d c \<Longrightarrow> ec_id c = ec_id d \<and> ec_tier c = ec_tier d"
  unfolding comes_from_def by (metis edr_command.select_convs(1,3) edr_command.surjective edr_command.update_convs(7))

lemma comes_from_enqueued: "comes_from (ops @ [Enqueue c]) c c"
  by (simp add: comes_from_def)

lemma comes_from_confirm:
  assumes "comes_from ops d c"
  shows "comes_from (ops @ [Confirm (ec_id d) user]) d (command_confirm user c)"
proof -
  obtain cs where "c = d\<lparr> ec_confirmations := cs \<rparr>" using assms unfolding comes_from_def by blast
  with assms show ?thesis by (auto simp: comes_from_def command_confirm_def)
qed

lemma partition_expired_sets:
  "set (fst (partition_expired clk i cs)) \<union> set (snd (partition_expired clk i cs)) = set cs"
  by (induction clk i cs rule: partition_expired.induct) (simp_all add: case_prod_beta)

lemma pending_after_confirm:
  assumes "c \<in> set (re_pending (snd (engine_confirm cid user e)))"
  shows "c \<in> set (re_pending e) \<or> (\<exists>b \<in> set (re_pending e). ec_id b = cid \<and> c = command_confirm user b)"
proof (cases "update_first (\<lambda>c. ec_id c = cid) (command_confirm user) (re_pending e)")
  case None
  with assms show ?thesis by (simp add: engine_confirm_def)
next
  case (Some r)
  obtain d ds where r: "r = (d, ds)" by force
  from assms have "c \<in> set ds" by (auto simp: engine_confirm_def Some r split: if_splits)
  with Some r show ?thesis by (auto elim!: update_first_Some)
qed

lemma pending_comes_from: "c \<in> set (re_pending (engine_run ops)) \<Longrightarrow> \<exists>d. comes_from ops d c"
proof (induction ops arbitrary: c rule: rev_induct)
  case Nil
  then show ?case by (simp add: engine_run_def response_engine_new_def)
next
  case (snoc op ops)
  have old: "\<exists>d. comes_from (ops @ [op]) d b" if "b \<in> set (re_pending (engine_run ops))" for b
    using snoc.IH [OF that] comes_from_snoc by blast
  show ?case
  proof (cases op)
    case (Enqueue d)
    with snoc.prems old comes_from_enqueued show ?thesis by (auto simp: enqueue_def)
  next
    case (Confirm cid user)
    with snoc.prems consider "c \<in> set (re_pending (engine_run ops))"
      | b where "b \<in> set (re_pending (engine_run ops))" "ec_id b = cid" "c = command_confirm user b"
      using pending_after_confirm by fastforce
    then show ?thesis
    proof cases
      case 2
      from snoc.IH [OF 2(1)] obtain d where d: "comes_from ops d b" by blast
      from comes_from_confirm [OF this, of user] comes_from_id [OF d] 2 Confirm show ?thesis by auto
    qed (rule old)
  next
    case (Expire clk)
    with snoc.prems have "c \<in> set (re_pending (engine_run ops))"
      using partition_expired_sets [of clk 0 "re_pending (engine_run ops)"]
      by (auto simp: expire_pending_def case_prod_beta)
    then show ?thesis by (rule old)
  next
    case (Execute d)
    with snoc.prems old show ?thesis by (simp add: engine_execute_def)
  qed
qed

text \<open>
  C4: A command that the engine releases on a confirmation is a command that was enqueued
  under that id, changed in its confirmations only.  It carries at least as many confirmations as
  its tier asks for; each of them was really given to the engine as a confirmation of that
  command id, or was in the command already when it was enqueued; and they are distinct when
  those it was enqueued with are.  So a quorum command as \<open>EdrCommand::new\<close> builds it, which
  has none, is never released by one person alone, however the operations are interleaved.
\<close>

theorem released_command_was_confirmed:
  assumes "fst (engine_confirm cid user (engine_run ops)) = Some c"
  shows "confirmation_count (ec_tier c) \<le> length (ec_confirmations c)
    \<and> (\<exists>d. Enqueue d \<in> set ops \<and> ec_id d = cid \<and> c = d\<lparr> ec_confirmations := ec_confirmations c \<rparr>
        \<and> (distinct (ec_confirmations d) \<longrightarrow> distinct (ec_confirmations c))
        \<and> (\<forall>u \<in> set (ec_confirmations c).
             u \<in> set (ec_confirmations d) \<or> Confirm cid u \<in> set (ops @ [Confirm cid user])))"
proof -
  from assms obtain ds where u: "update_first (\<lambda>c. ec_id c = cid) (command_confirm user)
      (re_pending (engine_run ops)) = Some (c, ds)" and conf: "is_confirmed c"
    by (auto simp: engine_confirm_def split: option.splits if_splits)
  from u obtain xs b ys where s: "re_pending (engine_run ops) = xs @ b # ys" "ec_id b = cid"
      "c = command_confirm user b"
    by (auto elim: update_first_Some)
  from pending_comes_from [of b ops] s obtain d where d: "comes_from ops d b" by auto
  have i: "ec_id d = cid" using comes_from_id [OF d] s by simp
  have "comes_from (ops @ [Confirm cid user]) d c" using comes_from_confirm [OF d] i s by simp
  then show ?thesis
    using conf i by (auto simp: comes_from_def is_confirmed_def)
qed

definition demo_ops :: "engine_op list" where
  "demo_ops = [Enqueue (edr_command_new ''c1'' 0 CollectSnapshot T3Quorum ''r'' ''h'' ''why''), Confirm ''c1'' ''ann'']"

lemma released_command_was_confirmed_witness:
  "\<exists>c. fst (engine_confirm ''c1'' ''bob'' (engine_run demo_ops)) = Some c
     \<and> distinct (ec_confirmations c) \<and> ec_tier c = T3Quorum
     \<and> (\<forall>u \<in> set (ec_confirmations c). Confirm ''c1'' u \<in> set (demo_ops @ [Confirm ''c1'' ''bob'']))
     \<and> confirmation_count (ec_tier c) \<le> length (ec_confirmations c)"
proof -
  let ?c = "(edr_command_new ''c1'' 0 CollectSnapshot T3Quorum ''r'' ''h'' ''why'')
      \<lparr> ec_confirmations := [''ann'', ''bob''] \<rparr>"
  have "fst (engine_confirm ''c1'' ''bob'' (engine_run demo_ops)) = Some ?c"
    by (simp add: demo_ops_def engine_run_def enqueue_def engine_confirm_def edr_command_new_def
        response_engine_new_def command_confirm_def is_confirmed_def requires_confirmation_def
        requires_human_def)
  from released_command_was_confirmed [OF this] this show ?thesis
    by (auto simp: demo_ops_def edr_command_new_def)
qed

text \<open>
  Progress of the quorum: in a state where a human-tier command is the first pending
  one with its id and lacks exactly one confirmation, a confirmation by a person who has
  not confirmed yet releases it and removes every pending command with that id.
\<close>

theorem last_confirmation_releases:
  assumes "re_pending e = xs @ c # ys" and "\<forall>x \<in> set xs. ec_id x \<noteq> ec_id c"
    and "requires_confirmation c"
    and "Suc (length (ec_confirmations c)) = confirmation_count (ec_tier c)"
    and "user \<notin> set (ec_confirmations c)"
  shows "fst (engine_confirm (ec_id c) user e) = Some (command_confirm user c)
    \<and> re_pending (snd (engine_confirm (ec_id c) user e))
        = xs @ filter (\<lambda>d. ec_id d \<noteq> ec_id c) ys"
proof -
  have u: "update_first (\<lambda>d. ec_id d = ec_id c) (command_confirm user) (xs @ c # ys)
      = Some (command_confirm user c, xs @ command_confirm user c # ys)"
    using assms(2) by (induction xs) auto
  have "is_confirmed (command_confirm user c)"
    using assms(4,5) by (simp add: is_confirmed_def command_confirm_def)
  moreover have "requires_confirmation (command_confirm user c)"
    using assms(3) by (simp add: requires_confirmation_def)
  moreover have "filter (\<lambda>d. ec_id d \<noteq> ec_id c) xs = xs"
    using assms(2) by (simp add: filter_id_conv)
  ultimately show ?thesis
    using u assms(1) by (simp add: engine_confirm_def)
qed

lemma last_confirmation_releases_witness:
  "fst (engine_confirm ''c1'' ''ann''
     \<lparr> re_pending = [edr_command_new ''c1'' 0 CollectSnapshot T2Confirm ''r'' ''h'' ''w''],
       re_executed = [] \<rparr>) \<noteq> None"
  using last_confirmation_releases [of "\<lparr> re_pending =
      [edr_command_new ''c1'' 0 CollectSnapshot T2Confirm ''r'' ''h'' ''w''], re_executed = [] \<rparr>"
      "[]" "edr_command_new ''c1'' 0 CollectSnapshot T2Confirm ''r'' ''h'' ''w''" "[]" "''ann''"]
  by (simp add: edr_command_new_def requires_confirmation_def requires_human_def)

section \<open>Expiry\<close>

lemma partition_expired_const:
  "partition_expired (\<lambda>_. now) i cs = (filter (is_expired now) cs, filter (\<lambda>c. \<not> is_expired now c) cs)"
  by (induction "\<lambda>_ :: nat. now" i cs rule: partition_expired.induct) simp_all

text \<open>Nothing is lost or duplicated by an expiry pass, whatever the clock does meanwhile.\<close>

lemma partition_expired_length:
  "length (fst (partition_expired clk i cs)) + length (snd (partition_expired clk i cs)) = length cs"
  by (induction clk i cs rule: partition_expired.induct) (simp_all add: case_prod_beta)

text \<open>
  An expiry pass splits the pending commands: those past their deadline at the reading of
  the clock are returned, the others stay pending in their order, and with a clock that does
  not move during the pass the two parts are exactly the two filters.
\<close>

theorem expire_pending_partition:
  "length (fst (expire_pending clk e)) + length (re_pending (snd (expire_pending clk e)))
     = length (re_pending e)
   \<and> set (fst (expire_pending clk e)) \<union> set (re_pending (snd (expire_pending clk e))) = set (re_pending e)
   \<and> expire_pending (\<lambda>_. now) e = (filter (is_expired now) (re_pending e),
        e\<lparr> re_pending := filter (\<lambda>c. \<not> is_expired now c) (re_pending e) \<rparr>)"
proof -
  obtain ex ac where p: "partition_expired clk 0 (re_pending e) = (ex, ac)" by force
  show ?thesis
    using partition_expired_length [of clk 0 "re_pending e"]
      partition_expired_sets [of clk 0 "re_pending e"]
    by (simp add: expire_pending_def partition_expired_const p)
qed

text \<open>The deadline is not consulted on a confirmation: a command whose window is over is still
  released when the last confirmation comes before the next expiry pass.\<close>

lemma expired_command_released:
  assumes "now = 1000 * int nanos_per_sec"
    and "c = edr_command_new ''c1'' 0 CollectSnapshot T2Confirm ''r'' ''h'' ''why''"
  shows "is_expired now c \<and>
    fst (engine_confirm ''c1'' ''ann'' (snd (enqueue c response_engine_new))) = Some (command_confirm ''ann'' c)"
  using assms
  by (simp add: is_expired_def edr_command_new_def enqueue_def response_engine_new_def
      engine_confirm_def is_confirmed_def requires_confirmation_def requires_human_def
      command_confirm_def)

text \<open>An automatic command is returned by every confirmation and never leaves the queue.\<close>

lemma automatic_command_stays:
  assumes "re_pending e = [c]" and "ec_tier c = T1Auto"
  shows "fst (engine_confirm (ec_id c) user e) = Some (command_confirm user c)
    \<and> re_pending (snd (engine_confirm (ec_id c) user e)) = [command_confirm user c]"
  using assms
  by (simp add: engine_confirm_def is_confirmed_def requires_confirmation_def requires_human_def)

end
