(* ===== verification/Events.thy ===== *)
theory Events
  imports Core_Types Float64
begin

text \<open>
  The event model of proto/sentinel/events/v1/event.proto, as the messages the crates
  receive: a message is a record, a nested message an option, an enum field its 32-bit
  code, the payload a sum of the eight event kinds.  The process context nests through its
  parent, so it is a datatype with named fields.  Each message has its all-default value,
  as the generated code has.
\<close>

section \<open>Well-known types\<close>

record timestamp =
  ts_seconds :: int
  ts_nanos :: int

text \<open>A dynamic value; its kind may be unset.\<close>

datatype pvalue =
  PUnset
| PNull
| PNumber f64
| PString string
| PBool bool
| PStruct "(string \<times> pvalue) list"
| PList "pvalue list"

text \<open>The fields of a struct, in the order of a sorted map.\<close>

type_synonym pstruct = "(string \<times> pvalue) list"

section \<open>Messages\<close>

record user_context =
  uc_sid :: string
  uc_username :: string
  uc_domain :: string
  uc_is_elevated :: bool
  uc_is_system :: bool

definition user_context_default :: user_context where
  "user_context_default = \<lparr> uc_sid = [], uc_username = [], uc_domain = [], uc_is_elevated = False,
     uc_is_system = False \<rparr>"

record code_signing_info =
  si_is_signed :: bool
  si_is_trusted :: bool
  si_publisher :: string
  si_issuer :: string
  si_timestamp :: "timestamp option"
  si_certificates :: "string list"

definition code_signing_info_default :: code_signing_info where
  "code_signing_info_default = \<lparr> si_is_signed = False, si_is_trusted = False, si_publisher = [], si_issuer = [],
     si_timestamp = None, si_certificates = [] \<rparr>"

datatype process_context = ProcessContext
  (pc_pid: u32)
  (pc_ppid: u32)
  (pc_name: string)
  (pc_path: string)
  (pc_command_line: string)
  (pc_cwd: string)
  (pc_user: "user_context option")
  (pc_integrity_level: string)
  (pc_signing: "code_signing_info option")
  (pc_mitre_techniques: "string list")
  (pc_tree_depth: u32)
  (pc_sha256: string)
  (pc_parent: "process_context option")

definition process_context_default :: process_context where
  "process_context_default = ProcessContext 0 0 [] [] [] [] None [] None [] 0 [] None"

record correlation_context =
  cx_session_id :: string
  cx_cause_event_id :: string
  cx_root_event_id :: string
  cx_correlation_id :: string
  cx_flow_id :: string
  cx_sequence :: u32

definition correlation_context_default :: correlation_context where
  "correlation_context_default = \<lparr> cx_session_id = [], cx_cause_event_id = [], cx_root_event_id = [],
     cx_correlation_id = [], cx_flow_id = [], cx_sequence = 0 \<rparr>"

record process_event =
  pe_action :: i32
  pe_target :: "process_context option"
  pe_desired_access :: u32

definition process_event_default :: process_event where
  "process_event_default = \<lparr> pe_action = 0, pe_target = None, pe_desired_access = 0 \<rparr>"

record network_event =
  ne_direction :: i32
  ne_protocol :: i32
  ne_action :: i32
  ne_local_addr :: string
  ne_local_port :: u32
  ne_remote_addr :: string
  ne_remote_port :: u32
  ne_bytes_sent :: u64
  ne_bytes_received :: u64
  ne_dns_query :: string
  ne_http_method :: string
  ne_http_url :: string
  ne_http_status :: u32
  ne_hostname :: string
  ne_ja3_fingerprint :: string
  ne_ja3s_fingerprint :: string

definition network_event_default :: network_event where
  "network_event_default = \<lparr> ne_direction = 0, ne_protocol = 0, ne_action = 0, ne_local_addr = [],
     ne_local_port = 0, ne_remote_addr = [], ne_remote_port = 0, ne_bytes_sent = 0,
     ne_bytes_received = 0, ne_dns_query = [], ne_http_method = [], ne_http_url = [],
     ne_http_status = 0, ne_hostname = [], ne_ja3_fingerprint = [],
     ne_ja3s_fingerprint = [] \<rparr>"

record file_attributes =
  fa_readonly :: bool
  fa_hidden :: bool
  fa_system :: bool
  fa_archive :: bool
  fa_compressed :: bool
  fa_encrypted :: bool
  fa_created :: "timestamp option"
  fa_modified :: "timestamp option"
  fa_accessed :: "timestamp option"

definition file_attributes_default :: file_attributes where
  "file_attributes_default = \<lparr> fa_readonly = False, fa_hidden = False, fa_system = False, fa_archive = False,
     fa_compressed = False, fa_encrypted = False, fa_created = None,
     fa_modified = None, fa_accessed = None \<rparr>"

record file_event =
  fe_action :: i32
  fe_path :: string
  fe_destination :: string
  fe_size :: u64
  fe_sha256 :: string
  fe_entropy :: string
  fe_attributes :: "file_attributes option"
  fe_is_executable :: bool
  fe_mime_type :: string
  fe_is_sensitive_path :: bool

definition file_event_default :: file_event where
  "file_event_default = \<lparr> fe_action = 0, fe_path = [], fe_destination = [], fe_size = 0, fe_sha256 = [],
     fe_entropy = [], fe_attributes = None, fe_is_executable = False,
     fe_mime_type = [], fe_is_sensitive_path = False \<rparr>"

record registry_value_data =
  rv_type :: i32
  rv_data :: "u8 list"

definition registry_value_data_default :: registry_value_data where
  "registry_value_data_default = \<lparr> rv_type = 0, rv_data = [] \<rparr>"

record registry_event =
  ge_action :: i32
  ge_hive :: i32
  ge_key_path :: string
  ge_value_name :: string
  ge_value_data :: "registry_value_data option"
  ge_old_value :: string

definition registry_event_default :: registry_event where
  "registry_event_default = \<lparr> ge_action = 0, ge_hive = 0, ge_key_path = [], ge_value_name = [],
     ge_value_data = None, ge_old_value = [] \<rparr>"

record usb_event =
  ue_action :: i32
  ue_device_id :: string
  ue_vendor_id :: string
  ue_product_id :: string
  ue_serial_number :: string
  ue_manufacturer :: string
  ue_product :: string
  ue_mount_point :: string
  ue_is_encrypted :: bool
  ue_file_hashes :: "string list"

definition usb_event_default :: usb_event where
  "usb_event_default = \<lparr> ue_action = 0, ue_device_id = [], ue_vendor_id = [], ue_product_id = [],
     ue_serial_number = [], ue_manufacturer = [], ue_product = [],
     ue_mount_point = [], ue_is_encrypted = False, ue_file_hashes = [] \<rparr>"

record browser_event =
  be_browser :: i32
  be_action :: i32
  be_url :: string
  be_title :: string
  be_referrer :: string
  be_download_path :: string
  be_download_hash :: string
  be_extension_id :: string
  be_extension_name :: string
  be_is_incognito :: bool

definition browser_event_default :: browser_event where
  "browser_event_default = \<lparr> be_browser = 0, be_action = 0, be_url = [], be_title = [], be_referrer = [],
     be_download_path = [], be_download_hash = [], be_extension_id = [],
     be_extension_name = [], be_is_incognito = False \<rparr>"

record startup_event =
  se_action :: i32
  se_location :: i32
  se_name :: string
  se_command :: string
  se_arguments :: string
  se_user :: string
  se_is_signed :: bool
  se_publisher :: string

definition startup_event_default :: startup_event where
  "startup_event_default = \<lparr> se_action = 0, se_location = 0, se_name = [], se_command = [], se_arguments = [],
     se_user = [], se_is_signed = False, se_publisher = [] \<rparr>"

record generic_event =
  xe_custom_type :: string
  xe_data :: "pstruct option"

definition generic_event_default :: generic_event where
  "generic_event_default = \<lparr> xe_custom_type = [], xe_data = None \<rparr>"

datatype payload =
  ProcessPayload process_event
| NetworkPayload network_event
| FilePayload file_event
| RegistryPayload registry_event
| UsbPayload usb_event
| BrowserPayload browser_event
| StartupPayload startup_event
| GenericPayload generic_event

record event =
  ev_id :: string
  ev_type :: string
  ev_source :: string
  ev_timestamp :: "timestamp option"
  ev_ingest_timestamp :: "timestamp option"
  ev_severity :: i32
  ev_process :: "process_context option"
  ev_payload :: "payload option"
  ev_tags :: "string list"
  ev_metadata :: "pstruct option"
  ev_risk_score :: u32
  ev_correlation :: "correlation_context option"
  ev_host_id :: string
  ev_schema_version :: u32

definition event_default :: event where
  "event_default = \<lparr> ev_id = [], ev_type = [], ev_source = [], ev_timestamp = None,
     ev_ingest_timestamp = None, ev_severity = 0, ev_process = None,
     ev_payload = None, ev_tags = [], ev_metadata = None, ev_risk_score = 0,
     ev_correlation = None, ev_host_id = [], ev_schema_version = 0 \<rparr>"

section \<open>Parents of a process\<close>

text \<open>\<open>as u8\<close> of an enum field keeps the low eight bits.\<close>

definition as_u8 :: "i32 \<Rightarrow> u8" where
  "as_u8 w = ucast w"

definition severity_i32 :: "severity \<Rightarrow> i32" where
  "severity_i32 s = ucast (severity_code s)"

lemma as_u8_severity [simp]: "as_u8 (severity_i32 s) = severity_code s"
  by (cases s) (simp_all add: as_u8_def severity_i32_def)

fun ancestors :: "process_context \<Rightarrow> process_context list" where
  "ancestors (ProcessContext pid ppid name path cmd cwd user integrity signing mitre depth sha parent) =
     (case parent of None \<Rightarrow> [] | Some p \<Rightarrow> p # ancestors p)"

end
