(* ===== verification/Event_Bus.thy ===== *)
theory Event_Bus
  imports Events Errors "HOL-Library.Multiset"
begin

text \<open>
  The in-memory event bus of crates/sentinel-event-bus/src/lib.rs.

  A subscription channel is named by a number; what was sent on it is part of the history
  \<open>eb_delivered\<close>.  A publisher that waits for room in the ingest channel is in
  \<open>eb_waiting\<close>.  Routing is one step of the processing loop: the loop is the only reader of
  the ingest channel and does not take the next event before the last send is over, so
  the sends of two events never overlap; a loop that is stopped in the middle of them is \<open>process_cut\<close>.  Publishers, subscribers and the backpressure
  monitor run between the steps in any order.
\<close>

section \<open>Filters\<close>

record event_filter =
  ef_event_types :: "string list option"
  ef_sources :: "string list option"
  ef_min_severity :: "severity option"
  ef_process_names :: "string list option"
  ef_correlation_id :: "string option"
  ef_flow_id :: "string option"
  ef_min_risk_score :: "u32 option"

definition event_filter_default :: event_filter where
  "event_filter_default = \<lparr> ef_event_types = None, ef_sources = None, ef_min_severity = None,
     ef_process_names = None, ef_correlation_id = None, ef_flow_id = None, ef_min_risk_score = None \<rparr>"

definition matches_filter :: "event_filter \<Rightarrow> event \<Rightarrow> bool" where
  "matches_filter f e \<longleftrightarrow>
     (case ef_event_types f of None \<Rightarrow> True
      | Some types \<Rightarrow> list_ex (\<lambda>t. t = ev_type e \<or> t = ''*'') types)
   \<and> (case ef_sources f of None \<Rightarrow> True
      | Some sources \<Rightarrow> list_ex (\<lambda>s. s = ev_source e \<or> s = ''*'') sources)
   \<and> (case ef_min_severity f of None \<Rightarrow> True
      | Some sev \<Rightarrow> \<not> as_u8 (ev_severity e) < severity_code sev)
   \<and> (case ef_process_names f of None \<Rightarrow> True
      | Some names \<Rightarrow>
          (case ev_process e of None \<Rightarrow> False
           | Some p \<Rightarrow> list_ex (\<lambda>n. n = pc_name p \<or> n = ''*'') names))
   \<and> (case ef_correlation_id f of None \<Rightarrow> True
      | Some cid \<Rightarrow>
          (case ev_correlation e of None \<Rightarrow> False | Some c \<Rightarrow> cx_correlation_id c = cid))
   \<and> (case ef_flow_id f of None \<Rightarrow> True
      | Some fid \<Rightarrow> (case ev_correlation e of None \<Rightarrow> False | Some c \<Rightarrow> cx_flow_id c = fid))
   \<and> (case ef_min_risk_score f of None \<Rightarrow> True
      | Some min_risk \<Rightarrow> \<not> ev_risk_score e < min_risk)"

section \<open>The router\<close>

record subscriber =
  sub_filter :: event_filter
  sub_sender :: nat

record topic_router =
  tr_subscribers :: "string \<rightharpoonup> subscriber list"
  tr_wildcard :: "subscriber list"

definition topic_router_new :: topic_router where
  "topic_router_new = \<lparr> tr_subscribers = Map.empty, tr_wildcard = [] \<rparr>"

definition exact_subscribers :: "topic_router \<Rightarrow> string \<Rightarrow> subscriber list" where
  "exact_subscribers r ty = (case tr_subscribers r ty of None \<Rightarrow> [] | Some subs \<Rightarrow> subs)"

definition add_wildcard :: "subscriber \<Rightarrow> topic_router \<Rightarrow> topic_router" where
  "add_wildcard sub r = r\<lparr> tr_wildcard := tr_wildcard r @ [sub] \<rparr>"

text \<open>One round of the loop over the event types of a subscription.\<close>

definition add_type :: "subscriber \<Rightarrow> topic_router \<Rightarrow> string \<Rightarrow> topic_router" where
  "add_type sub r et =
     (if et = ''*'' \<or> ends_with et ''*'' then add_wildcard sub r
      else r\<lparr> tr_subscribers := (tr_subscribers r)(et \<mapsto> exact_subscribers r et @ [sub]) \<rparr>)"

definition router_subscribe :: "event_filter \<Rightarrow> nat \<Rightarrow> topic_router \<Rightarrow> topic_router" where
  "router_subscribe filt sender r =
     (let sub = \<lparr> sub_filter = filt, sub_sender = sender \<rparr> in
      case ef_event_types filt of
        Some types \<Rightarrow> foldl (add_type sub) r types
      | None \<Rightarrow> add_wildcard sub r)"

definition route_targets :: "topic_router \<Rightarrow> event \<Rightarrow> subscriber list" where
  "route_targets r e =
     filter (\<lambda>s. matches_filter (sub_filter s) e) (exact_subscribers r (ev_type e) @ tr_wildcard r)"

text \<open>\<open>route\<close>: send to every target; a send on a closed channel counts as dropped.\<close>

definition route :: "(nat \<Rightarrow> bool) \<Rightarrow> topic_router \<Rightarrow> event \<Rightarrow> (nat \<times> event) list \<times> nat" where
  "route shut r e =
     (let targets = route_targets r e
      in (map (\<lambda>s. (sub_sender s, e)) (filter (\<lambda>s. \<not> shut (sub_sender s)) targets),
          length (filter (\<lambda>s. shut (sub_sender s)) targets)))"

section \<open>The bus\<close>

record event_bus =
  eb_config :: channel_config
  eb_router :: topic_router
  eb_waiting :: "event list"
  eb_ingest :: "event list"
  eb_depth :: usize
  eb_events_published :: u64
  eb_events_dropped :: u64
  eb_queue_depth :: usize
  eb_active_subscriptions :: usize
  eb_signal :: backpressure_signal
  eb_delivered :: "(nat \<times> event) list"

definition ingest_capacity :: "channel_config \<Rightarrow> usize" where
  "ingest_capacity c = max (cc_ingest c) 1"

definition event_bus_new :: "channel_config \<Rightarrow> event_bus" where
  "event_bus_new config = \<lparr> eb_config = config, eb_router = topic_router_new, eb_waiting = [],
     eb_ingest = [], eb_depth = 0, eb_events_published = 0, eb_events_dropped = 0,
     eb_queue_depth = 0, eb_active_subscriptions = 0, eb_signal = Normal, eb_delivered = [] \<rparr>"

text \<open>\<open>publish\<close> counts the event and then waits for room in the channel.  The bus holds the
  receiver of the channel, so the send cannot fail while the bus can be published to.\<close>

definition publish_begin :: "event \<Rightarrow> event_bus \<Rightarrow> event_bus" where
  "publish_begin e b = b\<lparr> eb_depth := eb_depth b + 1, eb_waiting := eb_waiting b @ [e] \<rparr>"

definition publish_accept :: "nat \<Rightarrow> event_bus \<Rightarrow> event_bus option" where
  "publish_accept i b =
     (if i < length (eb_waiting b) \<and> length (eb_ingest b) < unat (ingest_capacity (eb_config b))
      then Some (b\<lparr> eb_waiting := take i (eb_waiting b) @ drop (Suc i) (eb_waiting b),
                    eb_ingest := eb_ingest b @ [eb_waiting b ! i] \<rparr>)
      else None)"

definition process_one :: "(nat \<Rightarrow> bool) \<Rightarrow> event_bus \<Rightarrow> event_bus option" where
  "process_one shut b =
     (case eb_ingest b of [] \<Rightarrow> None
      | e # rest \<Rightarrow>
          (let (sent, dropped) = route shut (eb_router b) e
           in Some (b\<lparr> eb_ingest := rest,
                       eb_events_published := eb_events_published b + 1,
                       eb_depth := eb_depth b - 1,
                       eb_events_dropped := eb_events_dropped b + of_nat dropped,
                       eb_delivered := eb_delivered b @ sent \<rparr>)))"

text \<open>\<open>publish\<close> is a future: dropped while it waits, it leaves the counter as it was and its event is gone.\<close>

definition publish_cancel :: "nat \<Rightarrow> event_bus \<Rightarrow> event_bus option" where
  "publish_cancel i b =
     (if i < length (eb_waiting b)
      then Some (b\<lparr> eb_waiting := take i (eb_waiting b) @ drop (Suc i) (eb_waiting b) \<rparr>)
      else None)"

text \<open>A send through \<open>ingest_sender\<close>, from when the channel takes the event: it is not counted in.\<close>

definition ingest_send :: "event \<Rightarrow> event_bus \<Rightarrow> event_bus option" where
  "ingest_send e b =
     (if length (eb_ingest b) < unat (ingest_capacity (eb_config b))
      then Some (b\<lparr> eb_ingest := eb_ingest b @ [e] \<rparr>) else None)"

text \<open>The end of \<open>run\<close> drops the loop where it is: the event it has taken reaches the first \<open>k\<close> of its
  targets only.\<close>

definition process_cut :: "(nat \<Rightarrow> bool) \<Rightarrow> nat \<Rightarrow> event_bus \<Rightarrow> event_bus option" where
  "process_cut shut k b =
     (case eb_ingest b of [] \<Rightarrow> None
      | e # rest \<Rightarrow>
          (let targets = take k (route_targets (eb_router b) e)
           in Some (b\<lparr> eb_ingest := rest,
                       eb_events_published := eb_events_published b + 1,
                       eb_depth := eb_depth b - 1,
                       eb_events_dropped := eb_events_dropped b + of_nat (length (filter (\<lambda>s. shut (sub_sender s)) targets)),
                       eb_delivered := eb_delivered b
                         @ map (\<lambda>s. (sub_sender s, e)) (filter (\<lambda>s. \<not> shut (sub_sender s)) targets) \<rparr>)))"

definition default_backpressure :: backpressure_config where
  "default_backpressure = \<lparr> bp_elevated = 50, bp_high = 75, bp_critical = 90 \<rparr>"

text \<open>The percentage is computed in 64 bits and then cut to eight.  The product wraps, as in an optimised build;
  only direct sends let the counter get so large.\<close>

definition usage_percent :: "usize \<Rightarrow> usize \<Rightarrow> u8" where
  "usage_percent d capacity = (if 0 < capacity then ucast ((d * 100) div capacity) else 0)"

definition classify_usage :: "backpressure_config \<Rightarrow> u8 \<Rightarrow> backpressure_signal" where
  "classify_usage bp usage =
     (if bp_critical bp \<le> usage then Critical_Pressure
      else if bp_high bp \<le> usage then High
      else if bp_elevated bp \<le> usage then Elevated
      else Normal)"

definition monitor_tick :: "event_bus \<Rightarrow> event_bus" where
  "monitor_tick b =
     (let d = eb_depth b; capacity = ingest_capacity (eb_config b)
      in b\<lparr> eb_queue_depth := d,
            eb_signal := classify_usage default_backpressure (usage_percent d capacity) \<rparr>)"

definition bus_subscribe :: "event_filter \<Rightarrow> nat \<Rightarrow> event_bus \<Rightarrow> event_bus" where
  "bus_subscribe filt sender b =
     b\<lparr> eb_router := router_subscribe filt sender (eb_router b),
        eb_active_subscriptions := eb_active_subscriptions b + 1 \<rparr>"

definition bus_subscribe_type :: "string \<Rightarrow> nat \<Rightarrow> event_bus \<Rightarrow> event_bus" where
  "bus_subscribe_type ty sender b =
     bus_subscribe (event_filter_default\<lparr> ef_event_types := Some [ty] \<rparr>) sender b"

record event_bus_stats =
  bs_ingest_queue_depth :: usize
  bs_broadcast_queue_depths :: "usize list"
  bs_storage_queue_depth :: usize
  bs_plugin_queue_depth :: usize
  bs_ipc_queue_depth :: usize
  bs_events_published :: u64
  bs_events_dropped :: u64

definition bus_stats :: "event_bus \<Rightarrow> event_bus_stats" where
  "bus_stats b = \<lparr> bs_ingest_queue_depth = eb_queue_depth b, bs_broadcast_queue_depths = [],
     bs_storage_queue_depth = 0, bs_plugin_queue_depth = 0, bs_ipc_queue_depth = 0,
     bs_events_published = eb_events_published b, bs_events_dropped = eb_events_dropped b \<rparr>"

section \<open>How often a subscription receives an event\<close>

text \<open>The entries a subscription makes for an event of type \<open>ty\<close>: one for each of its types
  that is the event type or a pattern, and one when it names no types at all.\<close>

definition subscription_entries :: "event_filter \<Rightarrow> string \<Rightarrow> nat" where
  "subscription_entries filt ty =
     (case ef_event_types filt of None \<Rightarrow> 1
      | Some types \<Rightarrow> length (filter (\<lambda>t. ends_with t ''*'' \<or> t = ty) types))"

abbreviation listening :: "topic_router \<Rightarrow> string \<Rightarrow> subscriber list" where
  "listening r ty \<equiv> exact_subscribers r ty @ tr_wildcard r"

lemma ends_with_star [simp]: "ends_with ''*'' ''*''"
  by (simp add: ends_with_def)

lemma add_type_count:
  "count_list (listening (add_type sub r et) ty) s =
     count_list (listening r ty) s +
       (if s = sub \<and> (ends_with et ''*'' \<or> et = ty) then 1 else 0)"
  by (auto simp: add_type_def add_wildcard_def exact_subscribers_def)

lemma add_types_count:
  "count_list (listening (foldl (add_type sub) r types) ty) s =
     count_list (listening r ty) s +
       (if s = sub then length (filter (\<lambda>t. ends_with t ''*'' \<or> t = ty) types) else 0)"
proof (induction types arbitrary: r)
  case (Cons t ts)
  have "count_list (listening (foldl (add_type sub) r (t # ts)) ty) s =
      count_list (listening (add_type sub r t) ty) s +
        (if s = sub then length (filter (\<lambda>t. ends_with t ''*'' \<or> t = ty) ts) else 0)"
    unfolding foldl.simps by (rule Cons.IH)
  then show ?case
    unfolding add_type_count by simp
qed simp

lemma subscribe_count:
  "count_list (listening (router_subscribe filt sender r) ty) s =
     count_list (listening r ty) s +
       (if s = \<lparr> sub_filter = filt, sub_sender = sender \<rparr> then subscription_entries filt ty else 0)"
proof (cases "ef_event_types filt")
  case None
  then show ?thesis
    by (simp add: router_subscribe_def add_wildcard_def exact_subscribers_def subscription_entries_def)
next
  case (Some types)
  show ?thesis
    unfolding router_subscribe_def subscription_entries_def Let_def Some option.case
    by (rule add_types_count)
qed

text \<open>The router after a list of subscriptions, and what it delivers to one of them.\<close>

definition router_of :: "(event_filter \<times> nat) list \<Rightarrow> topic_router" where
  "router_of subs = foldl (\<lambda>r (f, s). router_subscribe f s r) topic_router_new subs"

lemma router_of_count:
  "count_list (listening (router_of subs) ty) s =
     length (filter (\<lambda>(f, n). s = \<lparr> sub_filter = f, sub_sender = n \<rparr>) subs)
       * subscription_entries (sub_filter s) ty"
proof (induction subs rule: rev_induct)
  case Nil
  then show ?case
    by (simp add: router_of_def topic_router_new_def exact_subscribers_def)
next
  case (snoc x xs)
  obtain f n where x: "x = (f, n)" by force
  have "count_list (listening (router_of (xs @ [x])) ty) s =
      count_list (listening (router_of xs) ty) s +
       (if s = \<lparr> sub_filter = f, sub_sender = n \<rparr> then subscription_entries f ty else 0)"
    unfolding x router_of_def foldl_append foldl.simps prod.case by (rule subscribe_count)
  then show ?case
    unfolding snoc.IH by (auto simp: x)
qed

lemma listening_origin:
  assumes "s \<in> set (listening (router_of subs) ty)"
  shows "(sub_filter s, sub_sender s) \<in> set subs"
proof -
  have "0 < count_list (listening (router_of subs) ty) s"
    using assms count_list_0_iff [of "listening (router_of subs) ty" s] by (metis neq0_conv)
  then have "filter (\<lambda>(f, n). s = \<lparr> sub_filter = f, sub_sender = n \<rparr>) subs \<noteq> []"
    unfolding router_of_count by auto
  then show ?thesis by (auto simp: filter_empty_conv)
qed

lemma length_filter_single:
  assumes "\<And>x. x \<in> set xs \<Longrightarrow> P x \<longleftrightarrow> x = a"
  shows "length (filter P xs) = count_list xs a"
proof -
  have "filter P xs = filter ((=) a) xs"
    using assms by (auto intro!: filter_cong)
  then show ?thesis by (simp add: count_list_eq_length_filter)
qed

lemma filter_distinct_one: "distinct xs \<Longrightarrow> a \<in> set xs \<Longrightarrow> filter (\<lambda>x. x = a) xs = [a]"
  by (induction xs) (auto simp: filter_empty_conv)

lemma filter_distinct_snd:
  assumes "distinct (map snd subs)" and "(f, n) \<in> set subs"
  shows "length (filter (\<lambda>(g, m). \<lparr> sub_filter = f, sub_sender = n \<rparr> = \<lparr> sub_filter = g, sub_sender = m \<rparr>) subs) = 1"
proof -
  have "filter (\<lambda>(g, m). \<lparr> sub_filter = f, sub_sender = n \<rparr> = \<lparr> sub_filter = g, sub_sender = m \<rparr>) subs
      = filter (\<lambda>x. x = (f, n)) subs"
    by (auto intro!: filter_cong)
  moreover have "distinct subs"
    using assms(1) by (simp add: distinct_map)
  ultimately show ?thesis
    using filter_distinct_one [of subs "(f, n)"] assms(2) by simp
qed

text \<open>
  C5: Routing refines matching on the flat list of subscriptions: after any sequence of
  subscriptions with distinct channels, a channel subscribed with a filter is sent an event
  once for every type entry of the filter that selects it, provided the whole filter
  matches and the channel is open, and not at all otherwise.
\<close>

theorem route_refines_subscriptions:
  assumes "distinct (map snd subs)" and "(filt, n) \<in> set subs"
  shows "length (filter (\<lambda>d. d = (n, e)) (fst (route shut (router_of subs) e))) =
    (if matches_filter filt e \<and> \<not> shut n then subscription_entries filt (ev_type e) else 0)"
proof -
  let ?L = "listening (router_of subs) (ev_type e)"
  let ?s = "\<lparr> sub_filter = filt, sub_sender = n \<rparr>"
  have only: "sub_sender s = n \<longleftrightarrow> s = ?s" if "s \<in> set ?L" for s
  proof
    assume n: "sub_sender s = n"
    have "sub_filter s = filt"
      using listening_origin [OF that] assms n
      by (metis distinct_map eq_key_imp_eq_value inj_onD prod.inject snd_conv)
    with n show "s = ?s" by simp
  qed simp
  have "length (filter (\<lambda>d. d = (n, e)) (fst (route shut (router_of subs) e))) =
      length (filter (\<lambda>s. sub_sender s = n \<and> \<not> shut n \<and> matches_filter (sub_filter s) e) ?L)"
  proof -
    have "filter (\<lambda>x. matches_filter (sub_filter x) e \<and> \<not> shut (sub_sender x) \<and> sub_sender x = n) xs
        = filter (\<lambda>s. sub_sender s = n \<and> \<not> shut n \<and> matches_filter (sub_filter s) e) xs" for xs :: "subscriber list"
      by (rule filter_cong) auto
    then show ?thesis
      by (simp add: route_def route_targets_def filter_map o_def Let_def)
  qed
  also have "\<dots> = (if matches_filter filt e \<and> \<not> shut n then count_list ?L ?s else 0)"
  proof (cases "matches_filter filt e \<and> \<not> shut n")
    case True
    then have "length (filter (\<lambda>s. sub_sender s = n \<and> \<not> shut n \<and> matches_filter (sub_filter s) e) ?L)
        = count_list ?L ?s"
      using only by (intro length_filter_single) auto
    with True show ?thesis by simp
  next
    case False
    then have "filter (\<lambda>s. sub_sender s = n \<and> \<not> shut n \<and> matches_filter (sub_filter s) e) ?L = []"
      using only by (auto simp: filter_empty_conv)
    with False show ?thesis by auto
  qed
  also have "count_list ?L ?s = subscription_entries filt (ev_type e)"
    unfolding router_of_count filter_distinct_snd [OF assms] by simp
  finally show ?thesis .
qed


lemma route_refines_subscriptions_witness:
  "length (filter (\<lambda>d. d = (7, event_default\<lparr> ev_type := ''usb.connect'' \<rparr>))
     (fst (route (\<lambda>_. False)
        (router_of [(event_filter_default\<lparr> ef_event_types := Some [''usb.connect'', ''*''] \<rparr>, 7)])
        (event_default\<lparr> ev_type := ''usb.connect'' \<rparr>)))) = 2"
  using route_refines_subscriptions [of
      "[(event_filter_default\<lparr> ef_event_types := Some [''usb.connect'', ''*''] \<rparr>, 7)]"
      "event_filter_default\<lparr> ef_event_types := Some [''usb.connect'', ''*''] \<rparr>" 7
      "event_default\<lparr> ev_type := ''usb.connect'' \<rparr>" "\<lambda>_. False"]
  by (simp add: matches_filter_def event_filter_default_def subscription_entries_def ends_with_def)

text \<open>A subscription to a prefix pattern is filed with the wildcards, but the filter compares
  the pattern literally, so it never receives an event of the family it names.\<close>

lemma prefix_pattern_never_matches:
  assumes "ef_event_types f = Some [p]" and "p \<noteq> ''*''" and "p \<noteq> ev_type e"
  shows "\<not> matches_filter f e"
  using assms by (simp add: matches_filter_def)

section \<open>Runs of the bus\<close>

text \<open>What a run has done besides the state of the bus: the events of the publications begun, of those
  cancelled while they waited, of the sends through \<open>ingest_sender\<close>, and those the loop has taken.\<close>

record bus_ledger =
  bl_published :: "event list"
  bl_cancelled :: "event list"
  bl_direct :: "event list"
  bl_taken :: "event list"

definition bus_ledger_new :: bus_ledger where
  "bus_ledger_new = \<lparr> bl_published = [], bl_cancelled = [], bl_direct = [], bl_taken = [] \<rparr>"

inductive bus_trace :: "channel_config \<Rightarrow> event_bus \<Rightarrow> bus_ledger \<Rightarrow> bool"
  for config where
  bt_new: "bus_trace config (event_bus_new config) bus_ledger_new"
| bt_begin: "bus_trace config b l \<Longrightarrow>
    bus_trace config (publish_begin e b) (l\<lparr> bl_published := bl_published l @ [e] \<rparr>)"
| bt_accept: "bus_trace config b l \<Longrightarrow> publish_accept i b = Some b' \<Longrightarrow> bus_trace config b' l"
| bt_cancel: "bus_trace config b l \<Longrightarrow> publish_cancel i b = Some b' \<Longrightarrow>
    bus_trace config b' (l\<lparr> bl_cancelled := bl_cancelled l @ [eb_waiting b ! i] \<rparr>)"
| bt_direct: "bus_trace config b l \<Longrightarrow> ingest_send e b = Some b' \<Longrightarrow>
    bus_trace config b' (l\<lparr> bl_direct := bl_direct l @ [e] \<rparr>)"
| bt_process: "bus_trace config b l \<Longrightarrow> eb_ingest b = e # rest \<Longrightarrow> process_one shut b = Some b' \<Longrightarrow>
    bus_trace config b' (l\<lparr> bl_taken := bl_taken l @ [e] \<rparr>)"
| bt_cut: "bus_trace config b l \<Longrightarrow> eb_ingest b = e # rest \<Longrightarrow> process_cut shut k b = Some b' \<Longrightarrow>
    bus_trace config b' (l\<lparr> bl_taken := bl_taken l @ [e] \<rparr>)"
| bt_tick: "bus_trace config b l \<Longrightarrow> bus_trace config (monitor_tick b) l"
| bt_subscribe: "bus_trace config b l \<Longrightarrow> bus_trace config (bus_subscribe f n b) l"

text \<open>Taking the \<open>i\<close>-th event out of a list.\<close>

lemma mset_without_nth:
  assumes "i < length xs"
  shows "mset xs = mset (take i xs @ drop (Suc i) xs) + {# xs ! i #}"
proof -
  have "mset xs = mset (take i xs @ xs ! i # drop (Suc i) xs)"
    using assms by (simp only: id_take_nth_drop [symmetric])
  then show ?thesis by simp
qed

lemma publish_accept_Some:
  assumes "publish_accept i b = Some b'"
  shows "mset (eb_waiting b') + mset (eb_ingest b') = mset (eb_waiting b) + mset (eb_ingest b)
    \<and> length (eb_ingest b') \<le> unat (ingest_capacity (eb_config b))
    \<and> eb_depth b' = eb_depth b \<and> eb_config b' = eb_config b \<and> eb_router b' = eb_router b
    \<and> eb_events_published b' = eb_events_published b \<and> eb_delivered b' = eb_delivered b"
proof -
  from assms have i: "i < length (eb_waiting b)"
      "length (eb_ingest b) < unat (ingest_capacity (eb_config b))"
    and b': "b' = b\<lparr> eb_waiting := take i (eb_waiting b) @ drop (Suc i) (eb_waiting b),
                    eb_ingest := eb_ingest b @ [eb_waiting b ! i] \<rparr>"
    by (auto simp: publish_accept_def split: if_splits)
  show ?thesis using i(2) mset_without_nth [OF i(1)] by (simp add: b')
qed

lemma publish_cancel_Some:
  assumes "publish_cancel i b = Some b'"
  shows "mset (eb_waiting b) = mset (eb_waiting b') + {# eb_waiting b ! i #}
    \<and> (\<exists>ws. b' = b\<lparr> eb_waiting := ws \<rparr>)"
proof -
  from assms have i: "i < length (eb_waiting b)"
    and b': "b' = b\<lparr> eb_waiting := take i (eb_waiting b) @ drop (Suc i) (eb_waiting b) \<rparr>"
    by (auto simp: publish_cancel_def split: if_splits)
  show ?thesis using mset_without_nth [OF i] by (auto simp: b')
qed

lemma ingest_send_Some:
  "ingest_send e b = Some b' \<Longrightarrow> b' = b\<lparr> eb_ingest := eb_ingest b @ [e] \<rparr>
     \<and> length (eb_ingest b') \<le> unat (ingest_capacity (eb_config b))"
  by (auto simp: ingest_send_def split: if_splits)

lemma process_one_Some:
  assumes "process_one shut b = Some b'" and "eb_ingest b = e # rest"
  shows "eb_ingest b' = rest \<and> eb_waiting b' = eb_waiting b \<and> eb_depth b' = eb_depth b - 1
    \<and> eb_config b' = eb_config b \<and> eb_events_published b' = eb_events_published b + 1
    \<and> eb_router b' = eb_router b
    \<and> eb_delivered b' = eb_delivered b @ fst (route shut (eb_router b) e)"
  using assms by (auto simp: process_one_def split: prod.splits)

lemma sent_subset: "set (map f (filter P (take k xs))) \<subseteq> set (map f (filter P xs))"
  unfolding set_map by (rule image_mono) (auto dest: in_set_takeD)

lemma process_cut_Some:
  assumes "process_cut shut k b = Some b'" and "eb_ingest b = e # rest"
  shows "eb_ingest b' = rest \<and> eb_waiting b' = eb_waiting b \<and> eb_depth b' = eb_depth b - 1
    \<and> eb_config b' = eb_config b \<and> eb_events_published b' = eb_events_published b + 1
    \<and> eb_router b' = eb_router b
    \<and> (\<exists>sent. eb_delivered b' = eb_delivered b @ sent \<and> set sent \<subseteq> set (fst (route shut (eb_router b) e)))"
proof -
  let ?sent = "map (\<lambda>s. (sub_sender s, e)) (filter (\<lambda>s. \<not> shut (sub_sender s)) (take k (route_targets (eb_router b) e)))"
  have "set ?sent \<subseteq> set (fst (route shut (eb_router b) e))"
    unfolding route_def Let_def fst_conv by (rule sent_subset)
  moreover have "eb_delivered b' = eb_delivered b @ ?sent"
    using assms by (auto simp: process_cut_def Let_def)
  ultimately show ?thesis using assms by (auto simp: process_cut_def Let_def simp del: set_map)
qed

text \<open>Processing all of the targets is the cut after the last.\<close>

lemma process_one_is_full_cut:
  "eb_ingest b = e # rest \<Longrightarrow> process_cut shut (length (route_targets (eb_router b) e)) b = process_one shut b"
  by (simp add: process_cut_def process_one_def route_def Let_def)

text \<open>
  C2: Conservation and accounting on every run, with publications that are cancelled while they wait,
  sends through the sender that bypasses \<open>publish\<close>, and a loop that is stopped in the middle of an event.  Each
  event whose publication has begun or that was sent directly is waiting, queued, cancelled or taken by
  the loop, exactly once.  The depth counter is the number of waiting, queued and cancelled events
  less the directly sent ones (modulo the width of the counter), so it is exact when there are none of the
  last two; the published counter is the number of events taken, and the ingest channel never holds
  more than its capacity.
\<close>

theorem bus_conservation:
  assumes "bus_trace config b l"
  shows "mset (bl_published l) + mset (bl_direct l)
      = mset (eb_waiting b) + mset (eb_ingest b) + mset (bl_cancelled l) + mset (bl_taken l)
    \<and> eb_depth b = of_nat (length (eb_waiting b) + length (eb_ingest b) + length (bl_cancelled l))
        - of_nat (length (bl_direct l))
    \<and> eb_events_published b = of_nat (length (bl_taken l))
    \<and> length (eb_ingest b) \<le> unat (ingest_capacity config) \<and> eb_config b = config"
  using assms
proof induction
  case bt_new
  then show ?case by (simp add: event_bus_new_def bus_ledger_new_def)
next
  case (bt_begin b l e)
  then show ?case by (simp add: publish_begin_def)
next
  case (bt_accept b l i b')
  note a = publish_accept_Some [OF bt_accept(2)]
  then have "length (eb_waiting b') + length (eb_ingest b') = length (eb_waiting b) + length (eb_ingest b)"
    by (metis mset_append size_mset length_append)
  with bt_accept a show ?case by (auto simp flip: of_nat_add)
next
  case (bt_cancel b l i b')
  note c = publish_cancel_Some [OF bt_cancel(2)]
  then have "length (eb_waiting b) = Suc (length (eb_waiting b'))"
    by (metis add.commute add_mset_add_single plus_1_eq_Suc size_add_mset size_mset)
  with bt_cancel c show ?case by auto
next
  case (bt_direct b l e b')
  with ingest_send_Some [OF bt_direct(2)] show ?case by auto
next
  case (bt_process b l e rest shut b')
  with process_one_Some [OF bt_process(3) bt_process(2)] show ?case by simp
next
  case (bt_cut b l e rest shut k b')
  with process_cut_Some [OF bt_cut(3) bt_cut(2)] show ?case by simp
next
  case (bt_tick b l)
  then show ?case by (simp add: monitor_tick_def Let_def)
next
  case (bt_subscribe b l f n)
  then show ?case by (simp add: bus_subscribe_def)
qed

text \<open>An event sent directly and not yet taken: the counter is at its largest value.\<close>

definition direct_bus :: event_bus where
  "direct_bus = (event_bus_new channel_config_default)\<lparr> eb_ingest := [event_default] \<rparr>"

lemma direct_bus_reached:
  "bus_trace channel_config_default direct_bus (bus_ledger_new\<lparr> bl_direct := [event_default] \<rparr>)"
proof -
  have "ingest_send event_default (event_bus_new channel_config_default) = Some direct_bus"
    by (simp add: ingest_send_def direct_bus_def event_bus_new_def channel_config_default_def ingest_capacity_def)
  from bt_direct [OF bt_new this] show ?thesis by (simp add: bus_ledger_new_def)
qed

lemma bus_conservation_witness:
  "length (eb_ingest direct_bus) \<le> unat (ingest_capacity channel_config_default) \<and> eb_depth direct_bus = 1 - 1"
  using bus_conservation [OF direct_bus_reached] by (simp add: direct_bus_def bus_ledger_new_def)

text \<open>Once the loop has taken it the counter is below zero and wraps, and the monitor sees a full queue.\<close>

lemma direct_send_wraps_depth:
  assumes "process_one shut direct_bus = Some b"
  shows "eb_depth b = - 1 \<and> eb_ingest b = [] \<and> eb_waiting b = []"
  using process_one_Some [OF assms, of event_default "[]"] by (simp add: direct_bus_def event_bus_new_def)

text \<open>A cancelled publication is counted for ever.\<close>

lemma cancelled_publish_counts:
  "publish_cancel 0 (publish_begin e (event_bus_new config)) = Some b \<Longrightarrow>
     eb_depth b = 1 \<and> eb_waiting b = [] \<and> eb_ingest b = []"
  by (auto simp: publish_cancel_def publish_begin_def event_bus_new_def)

text \<open>A subscription that was made at some point of the run.\<close>

lemma subscribed_origin:
  assumes "s \<in> set (listening (router_subscribe filt n r) ty)"
  shows "s \<in> set (listening r ty) \<or> s = \<lparr> sub_filter = filt, sub_sender = n \<rparr>"
proof (rule ccontr)
  assume c: "\<not> ?thesis"
  have "0 < count_list (listening (router_subscribe filt n r) ty) s"
    using assms count_list_0_iff by (metis neq0_conv)
  with c show False
    unfolding subscribe_count using count_list_0_iff [of "listening r ty" s] by auto
qed

text \<open>
  Only what was asked for is delivered: in every run, each event sent on a channel was
  processed by the loop and matches a filter with which that channel is subscribed.
\<close>

theorem bus_delivers_only_matches:
  assumes "bus_trace config b l" and "(n, e) \<in> set (eb_delivered b)"
  shows "e \<in> set (bl_taken l) \<and> (\<exists>s \<in> set (listening (eb_router b) (ev_type e)).
           sub_sender s = n \<and> matches_filter (sub_filter s) e)"
  using assms
proof (induction arbitrary: n e)
  case bt_new
  then show ?case by (simp add: event_bus_new_def)
next
  case (bt_begin b l e')
  then show ?case by (simp add: publish_begin_def)
next
  case (bt_accept b l i b')
  with publish_accept_Some [OF bt_accept(2)] show ?case by simp
next
  case (bt_cancel b l i b')
  with publish_cancel_Some [OF bt_cancel(2)] show ?case by auto
next
  case (bt_direct b l e' b')
  with ingest_send_Some [OF bt_direct(2)] show ?case by auto
next
  case (bt_process b l e' rest shut b')
  note p = process_one_Some [OF bt_process(3) bt_process(2)]
  show ?case
  proof (cases "(n, e) \<in> set (eb_delivered b)")
    case False
    with bt_process.prems p have "(n, e) \<in> set (fst (route shut (eb_router b) e'))" by auto
    with p show ?thesis by (auto simp: route_def route_targets_def Let_def)
  qed (use bt_process.IH p in auto)
next
  case (bt_cut b l e' rest shut k b')
  note p = process_cut_Some [OF bt_cut(3) bt_cut(2)]
  show ?case
  proof (cases "(n, e) \<in> set (eb_delivered b)")
    case False
    with bt_cut.prems p have "(n, e) \<in> set (fst (route shut (eb_router b) e'))" by auto
    with p show ?thesis by (auto simp: route_def route_targets_def Let_def)
  qed (use bt_cut.IH p in auto)
next
  case (bt_tick b l)
  then show ?case by (simp add: monitor_tick_def Let_def)
next
  case (bt_subscribe b l f m)
  have "s \<in> set (listening (router_subscribe f m r) ty)" if "s \<in> set (listening r ty)" for s r ty
  proof -
    have "0 < count_list (listening r ty) s"
      using that count_list_0_iff by (metis neq0_conv)
    then have "0 < count_list (listening (router_subscribe f m r) ty) s"
      unfolding subscribe_count by simp
    then show ?thesis using count_list_0_iff by (metis neq0_conv)
  qed
  with bt_subscribe show ?case by (simp add: bus_subscribe_def) blast
qed

lemma bus_delivers_only_matches_witness:
  "\<exists>b. bus_trace channel_config_default b (bus_ledger_new\<lparr> bl_published := [event_default], bl_taken := [event_default] \<rparr>)
     \<and> (7, event_default) \<in> set (eb_delivered b)
     \<and> (\<exists>s \<in> set (listening (eb_router b) (ev_type event_default)). sub_sender s = 7)"
proof -
  let ?b2 = "publish_begin event_default (bus_subscribe event_filter_default 7
      (event_bus_new channel_config_default))"
  let ?b3 = "?b2\<lparr> eb_waiting := [], eb_ingest := [event_default] \<rparr>"
  let ?b4 = "?b3\<lparr> eb_ingest := [], eb_events_published := 1, eb_depth := 0,
      eb_delivered := [(7, event_default)] \<rparr>"
  let ?l = "bus_ledger_new\<lparr> bl_published := [event_default] \<rparr>"
  have t2: "bus_trace channel_config_default ?b2 ?l"
    using bt_begin [OF bt_subscribe [OF bt_new]] by (simp add: bus_ledger_new_def)
  have a: "publish_accept 0 ?b2 = Some ?b3"
    by (simp add: publish_accept_def publish_begin_def bus_subscribe_def event_bus_new_def
        channel_config_default_def ingest_capacity_def)
  have p: "process_one (\<lambda>_. False) ?b3 = Some ?b4"
    by (simp add: process_one_def publish_begin_def bus_subscribe_def event_bus_new_def
        router_subscribe_def event_filter_default_def add_wildcard_def topic_router_new_def route_def
        route_targets_def exact_subscribers_def matches_filter_def Let_def)
  have t4: "bus_trace channel_config_default ?b4 (?l\<lparr> bl_taken := [event_default] \<rparr>)"
    using bt_process [OF bt_accept [OF t2 a] _ p, of event_default "[]"] by (simp add: bus_ledger_new_def)
  have d: "(7, event_default) \<in> set (eb_delivered ?b4)" by simp
  from bus_delivers_only_matches [OF t4 d] t4 d show ?thesis
    by (intro exI [of _ ?b4]) auto
qed

section \<open>Backpressure\<close>

fun pressure_rank :: "backpressure_signal \<Rightarrow> nat" where
  "pressure_rank Normal = 0"
| "pressure_rank Elevated = 1"
| "pressure_rank High = 2"
| "pressure_rank Critical_Pressure = 3"
| "pressure_rank Overflow = 4"

interpretation pressure: banding "classify_usage default_backpressure" pressure_rank
  by unfold_locales
    (auto simp: classify_usage_def default_backpressure_def word_le_nat_alt)


lemma div_band: "0 < c \<Longrightarrow> k \<le> a div c \<longleftrightarrow> k * c \<le> (a :: nat)"
  by (rule less_eq_div_iff_mult_less_eq)

lemma unat_usage_percent:
  assumes "0 < capacity" and "unat d * 100 < 2 ^ 64" and "unat d * 100 < 256 * unat capacity"
  shows "unat (usage_percent d capacity) = unat d * 100 div unat capacity"
proof -
  have d: "unat (d * 100) = unat d * 100"
    using assms(2) by (simp add: unat_word_ariths)
  have "unat d * 100 div unat capacity < 256"
    using assms(3) by (simp add: less_mult_imp_div_less)
  then have "unat ((d * 100) div capacity) < 256"
    by (simp add: unat_div d)
  then have "unat (ucast ((d * 100) div capacity) :: u8) = unat ((d * 100) div capacity)"
    by (simp add: unsigned_ucast_eq take_bit_nat_eq_self)
  then show ?thesis
    using assms(1) by (simp add: usage_percent_def unat_div d)
qed

lemma classify_usage_nat:
  "classify_usage default_backpressure u =
     (if 90 \<le> unat u then Critical_Pressure else if 75 \<le> unat u then High
      else if 50 \<le> unat u then Elevated else Normal)"
  by (simp add: classify_usage_def default_backpressure_def word_le_nat_alt)

text \<open>
  The monitor reports the true load: on every run, as long as at most twice the capacity
  of the ingest channel is waiting or queued, and nothing was cancelled or sent around \<open>publish\<close>, a tick signals critical exactly from 90 percent
  of the capacity, high from 75 and elevated from 50.
\<close>

theorem monitor_reports_load:
  assumes "bus_trace config b l" and "bl_cancelled l = []" and "bl_direct l = []"
    and "load = length (eb_waiting b) + length (eb_ingest b)"
    and "capacity = unat (ingest_capacity config)"
    and "load \<le> 2 * capacity" and "capacity < 2 ^ 50"
  shows "eb_signal (monitor_tick b) =
    (if 90 * capacity \<le> 100 * load then Critical_Pressure
     else if 75 * capacity \<le> 100 * load then High
     else if 50 * capacity \<le> 100 * load then Elevated else Normal)"
proof -
  note inv = bus_conservation [OF assms(1)]
  have pos: "0 < ingest_capacity config"
    by (simp add: ingest_capacity_def max_def word_le_nat_alt word_less_nat_alt)
  then have cap: "0 < capacity"
    using assms(5) by (simp add: word_less_nat_alt)
  have d: "unat (eb_depth b) = load"
    using inv assms(2-) by (simp add: unat_of_nat take_bit_nat_eq_self del: of_nat_add)
  have "unat (usage_percent (eb_depth b) (ingest_capacity config)) = load * 100 div capacity"
    using unat_usage_percent [OF pos, of "eb_depth b"] cap assms(5-7) by (simp add: d)
  then show ?thesis
    using inv cap by (simp add: monitor_tick_def classify_usage_nat Let_def div_band mult.commute)
qed

lemma monitor_reports_load_witness:
  "eb_signal (monitor_tick (publish_begin event_default
     (event_bus_new (channel_config_default\<lparr> cc_ingest := 1 \<rparr>)))) = Critical_Pressure"
  using monitor_reports_load [OF bt_begin [OF bt_new,
      of "channel_config_default\<lparr> cc_ingest := 1 \<rparr>" event_default] _ _ refl refl]
  by (simp add: publish_begin_def event_bus_new_def ingest_capacity_def bus_ledger_new_def)

text \<open>Beyond that the percentage is cut to eight bits: 256 events at a capacity of 100 look
  like an empty queue.\<close>

lemma usage_percent_wraps:
  "classify_usage default_backpressure (usage_percent 256 100) = Normal"
  by (simp add: usage_percent_def classify_usage_def default_backpressure_def)

end
