(* ===== verification/Risk.thy ===== *)
theory Risk
  imports Core_Types Float64
begin

text \<open>
  The risk engine of crates/sentinel-risk/src/lib.rs: scores with temporal decay, alert
  thresholds, deduplication and anti-flapping.  The floating-point power function is the
  platform's and is a parameter \<open>powf\<close>; all that is used of it is \<open>powf_decays\<close> below.
  A method that reads the clock several times takes its readings as \<open>clk 0, clk 1, \<dots>\<close>.
\<close>

section \<open>Configuration\<close>

record risk_thresholds =
  rt_low :: u32
  rt_medium :: u32
  rt_high :: u32
  rt_critical :: u32

record risk_config =
  rc_half_lives :: "string \<rightharpoonup> u64"
  rc_thresholds :: risk_thresholds
  rc_dedup_window_secs :: u64
  rc_flapping_max_per_hour :: usize
  rc_default_asset_multiplier :: f64

definition risk_config_default :: risk_config where
  "risk_config_default = \<lparr>
     rc_half_lives = [''Debug'' \<mapsto> 600, ''Info'' \<mapsto> 1800, ''Notice'' \<mapsto> 1200, ''Warning'' \<mapsto> 900,
       ''Error'' \<mapsto> 600, ''Critical'' \<mapsto> 300, ''Alert'' \<mapsto> 120, ''Emergency'' \<mapsto> 60],
     rc_thresholds = \<lparr> rt_low = 100, rt_medium = 300, rt_high = 600, rt_critical = 900 \<rparr>,
     rc_dedup_window_secs = 300,
     rc_flapping_max_per_hour = 10,
     rc_default_asset_multiplier = Fin 1 \<rparr>"

section \<open>Alert severity\<close>

datatype alert_severity = AS_Low | AS_Medium | AS_High | AS_Critical

fun alert_severity_rank :: "alert_severity \<Rightarrow> nat" where
  "alert_severity_rank AS_Low = 0"
| "alert_severity_rank AS_Medium = 1"
| "alert_severity_rank AS_High = 2"
| "alert_severity_rank AS_Critical = 3"

fun alert_severity_debug :: "alert_severity \<Rightarrow> string" where
  "alert_severity_debug AS_Low = ''Low''"
| "alert_severity_debug AS_Medium = ''Medium''"
| "alert_severity_debug AS_High = ''High''"
| "alert_severity_debug AS_Critical = ''Critical''"

definition from_score :: "u32 \<Rightarrow> risk_thresholds \<Rightarrow> alert_severity" where
  "from_score score t =
     (if rt_critical t \<le> score then AS_Critical
      else if rt_high t \<le> score then AS_High
      else if rt_medium t \<le> score then AS_Medium
      else AS_Low)"

text \<open>Whatever the thresholds are, even out of order, a higher score is never less severe.\<close>

interpretation score_band: banding "\<lambda>s. from_score s t" alert_severity_rank for t
  by unfold_locales (auto simp: from_score_def)

section \<open>State\<close>

record risk_alert =
  ra_rule_id :: string
  ra_rule_name :: string
  ra_risk_score :: u32
  ra_severity :: alert_severity
  ra_source :: string
  ra_event_ids :: "string list"
  ra_correlation_id :: "string option"
  ra_created_at :: datetime
  ra_summary :: string

record dedup_entry =
  de_last_alert_at :: instant

record flapping_entry =
  fl_alert_timestamps :: "instant list"

record risk_engine =
  rk_config :: risk_config
  rk_dedup :: "string \<rightharpoonup> dedup_entry"
  rk_flapping :: "string \<rightharpoonup> flapping_entry"
  rk_scores :: "string \<rightharpoonup> u32 \<times> instant"

definition risk_engine_new :: "risk_config \<Rightarrow> risk_engine" where
  "risk_engine_new config =
     \<lparr> rk_config = config, rk_dedup = Map.empty, rk_flapping = Map.empty, rk_scores = Map.empty \<rparr>"

section \<open>Scoring\<close>

definition decay :: "(f64 \<Rightarrow> f64 \<Rightarrow> f64) \<Rightarrow> u32 \<Rightarrow> u64 \<Rightarrow> u64 \<Rightarrow> u32" where
  "decay powf score elapsed_secs half_life_secs =
     (if half_life_secs = 0 then score
      else let factor = powf (Fin (1 / 2))
                 (f64_div_fin (f64_of_nat (unat elapsed_secs)) (f64_of_nat (unat half_life_secs)))
           in f64_to_u32 (f64_mul (f64_of_u32 score) factor))"

definition calculate ::
    "(f64 \<Rightarrow> f64 \<Rightarrow> f64) \<Rightarrow> clock \<Rightarrow> u32 \<Rightarrow> string \<Rightarrow> f64 \<Rightarrow> string option \<Rightarrow> risk_engine
      \<Rightarrow> u32 \<times> risk_engine" where
  "calculate powf clk base_score severity_label asset_mult chain_id e =
     (let half_life = (case rc_half_lives (rk_config e) severity_label of Some h \<Rightarrow> h | None \<Rightarrow> 1800);
          (chain_adjusted, e') =
            (case chain_id of
               Some cid \<Rightarrow>
                 (case rk_scores e cid of
                    Some (stored_score, stored_at) \<Rightarrow>
                      let secs = of_nat (as_secs (elapsed (clk 0) stored_at));
                          decayed = decay powf stored_score secs half_life;
                          cumulative = min (saturating_add decayed base_score) 1000
                      in (cumulative, e\<lparr> rk_scores := (rk_scores e)(cid \<mapsto> (cumulative, clk 1)) \<rparr>)
                  | None \<Rightarrow>
                      (base_score, e\<lparr> rk_scores := (rk_scores e)(cid \<mapsto> (base_score, clk 1)) \<rparr>))
             | None \<Rightarrow> (base_score, e));
          with_asset = f64_to_u32 (f64_min (f64_mul (f64_of_u32 chain_adjusted) asset_mult) (Fin 1000))
      in (with_asset, e'))"

section \<open>Alerting\<close>

definition one_hour :: nat where
  "one_hour = 3600 * nanos_per_sec"

definition dedup_key :: "string \<Rightarrow> string \<Rightarrow> string" where
  "dedup_key rule_id source = rule_id @ '':'' @ source"

definition alert_summary :: "string \<Rightarrow> u32 \<Rightarrow> alert_severity \<Rightarrow> string" where
  "alert_summary rule_name score severity =
     rule_name @ '' detected (score='' @ show_word score @ '', severity='' @
       alert_severity_debug severity @ '')''"

text \<open>The readings of the clock: the age of the last alert, the cutoff of the hour, the entry
  in the flapping list, the entry in the dedup table.  Both tables change even when the
  flapping check suppresses the alert: the hour is trimmed.\<close>

definition should_alert ::
    "clock \<Rightarrow> datetime \<Rightarrow> string \<Rightarrow> string \<Rightarrow> u32 \<Rightarrow> string \<Rightarrow> string list \<Rightarrow> string option \<Rightarrow> risk_engine
      \<Rightarrow> risk_alert option \<times> risk_engine" where
  "should_alert clk utc rule_id rule_name score source event_ids correlation_id e =
     (let severity = from_score score (rc_thresholds (rk_config e)) in
      if severity = AS_Low then (None, e)
      else let key = dedup_key rule_id source in
      if (case rk_dedup e key of
            Some entry \<Rightarrow>
              elapsed (clk 0) (de_last_alert_at entry) < from_secs (rc_dedup_window_secs (rk_config e))
          | None \<Rightarrow> False)
      then (None, e)
      else
        let entry = (case rk_flapping e rule_id of Some en \<Rightarrow> en
                     | None \<Rightarrow> \<lparr> fl_alert_timestamps = [] \<rparr>);
            cutoff = clk 1 - int one_hour;
            kept = filter (\<lambda>t. cutoff \<le> t) (fl_alert_timestamps entry)
        in if unat (rc_flapping_max_per_hour (rk_config e)) \<le> length kept
           then (None, e\<lparr> rk_flapping := (rk_flapping e)(rule_id \<mapsto> \<lparr> fl_alert_timestamps = kept \<rparr>) \<rparr>)
           else
             (Some \<lparr> ra_rule_id = rule_id, ra_rule_name = rule_name, ra_risk_score = score,
                     ra_severity = severity, ra_source = source, ra_event_ids = event_ids,
                     ra_correlation_id = correlation_id, ra_created_at = utc,
                     ra_summary = alert_summary rule_name score severity \<rparr>,
              e\<lparr> rk_flapping := (rk_flapping e)(rule_id \<mapsto> \<lparr> fl_alert_timestamps = kept @ [clk 2] \<rparr>),
                 rk_dedup := (rk_dedup e)(key \<mapsto> \<lparr> de_last_alert_at = clk 3 \<rparr>) \<rparr>))"

text \<open>\<open>prune\<close>; each entry is compared with a reading of its own, taken within the pass.
  The two limits are in whole seconds, the second one doubled in 64 bits.\<close>

definition risk_prune :: "(string \<Rightarrow> instant) \<Rightarrow> (string \<Rightarrow> instant) \<Rightarrow> risk_engine \<Rightarrow> risk_engine" where
  "risk_prune at_score at_dedup e = e\<lparr>
     rk_scores := (\<lambda>k. case rk_scores e k of
        Some (s, stored_at) \<Rightarrow> if as_secs (elapsed (at_score k) stored_at) < 86400 then Some (s, stored_at) else None
      | None \<Rightarrow> None),
     rk_dedup := (\<lambda>k. case rk_dedup e k of
        Some d \<Rightarrow> if as_secs (elapsed (at_dedup k) (de_last_alert_at d))
                       < unat (rc_dedup_window_secs (rk_config e) * 2) then Some d else None
      | None \<Rightarrow> None) \<rparr>"

section \<open>Decay\<close>

text \<open>What is used of the power function: a power of one half with a non-negative exponent
  is a number between zero and one, and one at exponent zero.\<close>

definition powf_decays :: "(f64 \<Rightarrow> f64 \<Rightarrow> f64) \<Rightarrow> bool" where
  "powf_decays powf \<longleftrightarrow> powf (Fin (1 / 2)) (Fin 0) = Fin 1 \<and>
     (\<forall>x. f64_le (Fin 0) x \<longrightarrow> (\<exists>p. powf (Fin (1 / 2)) x = Fin p \<and> 0 \<le> p \<and> p \<le> 1))"

text \<open>A concrete power function of that kind: powers at whole exponents, rounded down.\<close>

definition powf_floor :: "f64 \<Rightarrow> f64 \<Rightarrow> f64" where
  "powf_floor b x = (case (b, x) of
     (Fin q, Fin r) \<Rightarrow> f64_of (q ^ nat \<lfloor>r\<rfloor>) | (Fin q, PInf) \<Rightarrow> Fin 0 | _ \<Rightarrow> NaN)"

lemma rnd64_0 [simp]: "rnd64 0 = 0"
  by (simp add: rnd64_def)

lemma rnd64_1 [simp]: "rnd64 1 = 1"
  using rnd64_int [of 1] by simp

lemma f64_of_unit:
  assumes "0 \<le> q" and "q \<le> 1"
  shows "\<exists>p. f64_of q = Fin p \<and> 0 \<le> p \<and> p \<le> 1"
proof -
  have "0 \<le> rnd64 q" "rnd64 q \<le> 1"
    using rnd64_mono [OF assms(1)] rnd64_mono [OF assms(2)] by simp_all
  moreover have "1 \<le> f64_max" by (simp add: f64_max_def)
  ultimately show ?thesis by (auto simp: f64_of_def Let_def)
qed

lemma powf_floor_decays: "powf_decays powf_floor"
proof -
  have "f64_of 1 = Fin 1"
    by (simp add: f64_of_def f64_max_def)
  moreover have u: "\<exists>p. f64_of ((1 / 2) ^ n) = Fin p \<and> 0 \<le> p \<and> p \<le> 1" for n
    by (rule f64_of_unit) (simp_all add: power_le_one)
  moreover have "\<exists>p. powf_floor (Fin (1 / 2)) x = Fin p \<and> 0 \<le> p \<and> p \<le> 1" if "f64_le (Fin 0) x" for x
    using that u by (cases x) (auto simp: powf_floor_def)
  ultimately show ?thesis by (auto simp: powf_decays_def powf_floor_def)
qed

lemma f64_of_nonneg: "0 \<le> q \<Longrightarrow> f64_le (Fin 0) (f64_of q)"
  using rnd64_mono [of 0 q] by (auto simp: f64_of_def f64_max_def Let_def)

lemma f64_of_nat_pos:
  assumes "n < 2 ^ 64"
  shows "\<exists>q. f64_of_nat n = Fin q \<and> 0 \<le> q \<and> (0 < n \<longrightarrow> 0 < q)"
proof -
  have "n \<le> 2 ^ 64" using assms by simp
  then have "(of_nat n :: rat) \<le> of_nat (2 ^ 64)" by (simp only: of_nat_le_iff)
  then have le: "rnd64 (of_nat n) \<le> rnd64 (2 ^ 64)"
    by (intro rnd64_mono) (simp only: of_nat_power of_nat_numeral)
  have big: "rnd64 (2 ^ 64 :: rat) = 2 ^ 64"
    by (rule rnd64_pow2)
  have "(2 ^ 64 :: rat) \<le> f64_max"
    by (simp add: f64_max_def)
  then have "rnd64 (of_nat n) \<le> f64_max"
    using le big by linarith
  moreover have "0 \<le> rnd64 (of_nat n)"
    using rnd64_mono [of 0 "of_nat n"] by simp
  moreover have "0 < n \<Longrightarrow> 1 \<le> rnd64 (of_nat n)"
    using rnd64_mono [of 1 "of_nat n"] by simp
  moreover have "0 \<le> f64_max" by (simp add: f64_max_def)
  ultimately show ?thesis
    by (force simp: f64_of_nat_def f64_of_def Let_def)
qed

lemma decay_exponent_nonneg:
  fixes t h :: u64
  assumes "h \<noteq> 0"
  shows "f64_le (Fin 0) (f64_div_fin (f64_of_nat (unat t)) (f64_of_nat (unat h)))"
    (is "f64_le _ (f64_div_fin ?a ?b)")
proof -
  have b: "unat w < 2 ^ 64" for w :: u64
    using unsigned_less [of w] by simp
  obtain a where "?a = Fin a" "0 \<le> a"
    using f64_of_nat_pos [OF b [of t]] by auto
  moreover obtain c where "?b = Fin c" "0 < c"
    using f64_of_nat_pos [OF b [of h]] assms by (auto simp: unat_gt_0)
  ultimately show ?thesis
    by (simp add: f64_of_nonneg)
qed

text \<open>
  Decay never raises a score, leaves it alone at age zero, and is switched off by a
  zero half-life.
\<close>

theorem decay_bounds:
  assumes "powf_decays powf"
  shows "decay powf score t h \<le> score \<and> decay powf score 0 h = score \<and> decay powf score t 0 = score"
proof -
  have "decay powf score t h \<le> score" if h: "h \<noteq> 0"
  proof -
    obtain p where "powf (Fin (1 / 2)) (f64_div_fin (f64_of_nat (unat t)) (f64_of_nat (unat h))) = Fin p"
      "0 \<le> p" "p \<le> 1"
      using assms decay_exponent_nonneg [OF h, of t] by (auto simp: powf_decays_def)
    then show ?thesis
      using f64_scale_le [of p score] h by (simp add: decay_def)
  qed
  moreover have "decay powf score 0 h = score" if h: "h \<noteq> 0"
  proof -
    have "unat h < 2 ^ 64" using unsigned_less [of h] by simp
    then obtain c where "f64_of_nat (unat h) = Fin c" "0 < c"
      using f64_of_nat_pos [of "unat h"] h by (auto simp: unat_gt_0)
    moreover have "f64_of 0 = Fin 0" by (simp add: f64_of_def f64_max_def)
    ultimately show ?thesis
      using h assms by (simp add: decay_def f64_of_nat_def powf_decays_def f64_mul_one)
  qed
  ultimately show ?thesis by (auto simp: decay_def)
qed

lemma decay_bounds_witness: "powf_decays powf_floor \<and> decay powf_floor 800 60 300 \<le> 800"
  using powf_floor_decays decay_bounds [OF powf_floor_decays, of 800 60 300] by simp


section \<open>Calculation\<close>

lemma calculate_config [simp]:
  "rk_config (snd (calculate powf clk base label mult chain e)) = rk_config e"
  "rk_dedup (snd (calculate powf clk base label mult chain e)) = rk_dedup e"
  "rk_flapping (snd (calculate powf clk base label mult chain e)) = rk_flapping e"
  by (auto simp: calculate_def Let_def split: option.splits prod.splits)

text \<open>
  The result of a calculation is at most 1000 for every asset multiplier, infinite,
  negative or not a number included, and for every power function; without a chain and with
  multiplier one it is the base score cut at 1000.
\<close>

theorem calculate_bounded:
  "unat (fst (calculate powf clk base label mult chain e)) \<le> 1000
   \<and> fst (calculate powf clk base label (Fin 1) None e) = min base 1000"
proof
  show "unat (fst (calculate powf clk base label mult chain e)) \<le> 1000"
  proof -
    have "unat (f64_to_u32 (f64_min x (Fin 1000))) \<le> 1000" for x
      using f64_capped_le [of 1000 x] by simp
    then show ?thesis
      by (simp add: calculate_def Let_def split: option.splits prod.splits)
  qed
  have "f64_to_u32 (f64_min (f64_of_u32 base) (Fin 1000)) = min base 1000"
    using f64_capped_u32 [of 1000 base] by (simp add: min_def word_le_nat_alt)
  then show "fst (calculate powf clk base label (Fin 1) None e) = min base 1000"
    by (simp add: calculate_def f64_mul_one Let_def)
qed

text \<open>The stored score of a chain: the first one is kept as it is, later ones are capped.\<close>

lemma calculate_stored:
  "rk_scores (snd (calculate powf clk base label mult (Some cid) e)) =
     (rk_scores e)(cid \<mapsto> (case rk_scores e cid of None \<Rightarrow> base
        | Some (s, t) \<Rightarrow> min (saturating_add (decay powf s (of_nat (as_secs (elapsed (clk 0) t)))
            (case rc_half_lives (rk_config e) label of Some h \<Rightarrow> h | None \<Rightarrow> 1800)) base) 1000, clk 1))"
  by (auto simp: calculate_def Let_def split: option.splits prod.splits)

lemma calculate_grows:
  assumes "rk_scores e cid = Some (s, t)" and "base \<le> 1000"
    and "rk_scores (snd (calculate powf clk base label mult (Some cid) e)) cid = Some (s', t')"
  shows "base \<le> s' \<and> s' \<le> 1000"
proof -
  have "base \<le> saturating_add d base" for d
    using unat_u32_less [of base] by (auto simp: word_le_nat_alt word_facts)
  with assms show ?thesis
    by (auto simp: calculate_stored min_def)
qed

section \<open>Sequences of calls\<close>

text \<open>The calls on an engine.  An alert is recorded as (rule, source, time of its flapping
  entry, time of its dedup entry).\<close>

datatype risk_op =
  Should_Alert clock datetime string string u32 string "string list" "string option"
| Calculate clock u32 string f64 "string option"
| Risk_Prune "string \<Rightarrow> instant" "string \<Rightarrow> instant" instant

fun risk_apply :: "(f64 \<Rightarrow> f64 \<Rightarrow> f64) \<Rightarrow> risk_op \<Rightarrow> risk_engine
    \<Rightarrow> (string \<times> string \<times> instant \<times> instant) list \<times> risk_engine" where
  "risk_apply powf (Should_Alert clk utc r name score src ids corr) e =
     (let (a, e') = should_alert clk utc r name score src ids corr e
      in (case a of None \<Rightarrow> [] | Some _ \<Rightarrow> [(r, src, clk 2, clk 3)], e'))"
| "risk_apply powf (Calculate clk base label mult chain) e =
     ([], snd (calculate powf clk base label mult chain e))"
| "risk_apply powf (Risk_Prune at_score at_dedup fin) e = ([], risk_prune at_score at_dedup e)"

fun risk_exec :: "(f64 \<Rightarrow> f64 \<Rightarrow> f64) \<Rightarrow> risk_op list \<Rightarrow> risk_engine
    \<Rightarrow> (string \<times> string \<times> instant \<times> instant) list \<times> risk_engine" where
  "risk_exec powf [] e = ([], e)"
| "risk_exec powf (op # ops) e =
     (let (as, e') = risk_apply powf op e; (bs, e'') = risk_exec powf ops e'
      in (as @ bs, e''))"

text \<open>The monotonic clock: each call starts after the one before it, and its readings are in order.\<close>

fun op_start :: "risk_op \<Rightarrow> instant \<Rightarrow> bool" where
  "op_start (Should_Alert clk utc r name score src ids corr) now \<longleftrightarrow>
     now \<le> clk 0 \<and> clk 0 \<le> clk 1 \<and> clk 1 \<le> clk 2 \<and> clk 2 \<le> clk 3"
| "op_start (Calculate clk base label mult chain) now \<longleftrightarrow> now \<le> clk 0 \<and> clk 0 \<le> clk 1"
| "op_start (Risk_Prune at_score at_dedup fin) now \<longleftrightarrow> (\<forall>k. now \<le> at_dedup k \<and> at_dedup k \<le> fin) \<and> now \<le> fin"

fun op_end :: "risk_op \<Rightarrow> instant" where
  "op_end (Should_Alert clk utc r name score src ids corr) = clk 3"
| "op_end (Calculate clk base label mult chain) = clk 1"
| "op_end (Risk_Prune at_score at_dedup fin) = fin"

fun clocked :: "instant \<Rightarrow> risk_op list \<Rightarrow> bool" where
  "clocked now [] \<longleftrightarrow> True"
| "clocked now (op # ops) \<longleftrightarrow> op_start op now \<and> clocked (op_end op) ops"

lemma op_end_ge: "op_start op now \<Longrightarrow> now \<le> op_end op"
  by (cases op) auto

lemma should_alert_config [simp]:
  "rk_config (snd (should_alert clk utc r name score src ids corr e)) = rk_config e"
  by (simp add: should_alert_def Let_def)

lemma risk_prune_simps [simp]:
  "rk_config (risk_prune f g e) = rk_config e" "rk_flapping (risk_prune f g e) = rk_flapping e"
  by (simp_all add: risk_prune_def)

lemma risk_apply_config [simp]: "rk_config (snd (risk_apply powf op e)) = rk_config e"
  by (cases op) (simp_all add: case_prod_beta)

text \<open>What an emitted alert says about the state before and after the call.\<close>

definition flap_times :: "risk_engine \<Rightarrow> string \<Rightarrow> instant list" where
  "flap_times e r = (case rk_flapping e r of None \<Rightarrow> [] | Some en \<Rightarrow> fl_alert_timestamps en)"

abbreviation hourly_kept :: "clock \<Rightarrow> instant list \<Rightarrow> instant list" where
  "hourly_kept clk ts \<equiv> filter (\<lambda>t. clk 1 - int one_hour \<le> t) ts"

lemma should_alert_Some:
  assumes "fst (should_alert clk utc r name score src ids corr e) = Some a"
  shows "length (hourly_kept clk (flap_times e r)) < unat (rc_flapping_max_per_hour (rk_config e))
    \<and> flap_times (snd (should_alert clk utc r name score src ids corr e)) r
        = hourly_kept clk (flap_times e r) @ [clk 2]
    \<and> (\<forall>d. rk_dedup e (dedup_key r src) = Some d \<longrightarrow>
          from_secs (rc_dedup_window_secs (rk_config e)) \<le> elapsed (clk 0) (de_last_alert_at d))
    \<and> rk_dedup (snd (should_alert clk utc r name score src ids corr e))
        = (rk_dedup e)(dedup_key r src \<mapsto> \<lparr> de_last_alert_at = clk 3 \<rparr>)"
  using assms
  by (auto simp: should_alert_def flap_times_def Let_def not_le not_less
      split: if_splits option.splits)

lemma should_alert_None:
  assumes "fst (should_alert clk utc r name score src ids corr e) = None"
  shows "(flap_times (snd (should_alert clk utc r name score src ids corr e)) r = flap_times e r
      \<or> flap_times (snd (should_alert clk utc r name score src ids corr e)) r
          = hourly_kept clk (flap_times e r))
    \<and> rk_dedup (snd (should_alert clk utc r name score src ids corr e)) = rk_dedup e"
  using assms
  by (auto simp: should_alert_def flap_times_def Let_def split: if_splits option.splits)

lemma should_alert_other:
  "q \<noteq> r \<Longrightarrow> flap_times (snd (should_alert clk utc r name score src ids corr e)) q = flap_times e q"
  by (simp add: should_alert_def flap_times_def Let_def)


section \<open>At most so many alerts in an hour\<close>

type_synonym alert_log = "(string \<times> string \<times> instant \<times> instant) list"

definition alert_times :: "string \<Rightarrow> alert_log \<Rightarrow> instant list" where
  "alert_times r hist = map (\<lambda>(q, s, p, d). p) (filter (\<lambda>(q, s, p, d). q = r) hist)"

lemma alert_times_append [simp]: "alert_times r (xs @ ys) = alert_times r xs @ alert_times r ys"
  by (simp add: alert_times_def)

lemma alert_times_single [simp]:
  "alert_times r [(q, s, p, d)] = (if q = r then [p] else [])" "alert_times r [] = []"
  by (simp_all add: alert_times_def)

definition in_hour :: "instant \<Rightarrow> instant \<Rightarrow> bool" where
  "in_hour c p \<longleftrightarrow> c \<le> p \<and> p \<le> c + int one_hour"

text \<open>The flapping list of a rule agrees with the log of the last hour, and no window of one
  hour of the log is overfull.\<close>

definition rate_inv :: "instant \<Rightarrow> alert_log \<Rightarrow> risk_engine \<Rightarrow> bool" where
  "rate_inv now hist e \<longleftrightarrow>
     (\<forall>r c. now - int one_hour \<le> c \<longrightarrow>
        filter (\<lambda>t. c \<le> t) (flap_times e r) = filter (\<lambda>t. c \<le> t) (alert_times r hist))
   \<and> (\<forall>r c. length (filter (in_hour c) (alert_times r hist))
        \<le> unat (rc_flapping_max_per_hour (rk_config e)))"

lemma filter_imp_filter: "(\<And>x. P x \<Longrightarrow> Q x) \<Longrightarrow> filter P (filter Q xs) = filter P xs"
  by (induction xs) auto

lemma filter_length_mono: "(\<And>x. P x \<Longrightarrow> Q x) \<Longrightarrow> length (filter P xs) \<le> length (filter Q xs)"
  by (induction xs) auto

lemma rate_inv_new: "rate_inv now [] (risk_engine_new cfg)"
  by (simp add: rate_inv_def flap_times_def risk_engine_new_def)

lemma rate_inv_unchanged:
  assumes "rate_inv now hist e" and "now \<le> now'" and "rk_config e' = rk_config e"
    and "\<And>r. flap_times e' r = flap_times e r"
  shows "rate_inv now' hist e'"
  using assms by (auto simp: rate_inv_def)

lemma rate_inv_alert:
  assumes inv: "rate_inv now hist e"
    and t: "now \<le> clk 0" "clk 0 \<le> clk 1" "clk 1 \<le> clk 2" "clk 2 \<le> clk 3"
    and some: "fst (should_alert clk utc r name score src ids corr e) = Some a"
  shows "rate_inv (clk 3) (hist @ [(r, src, clk 2, clk 3)])
           (snd (should_alert clk utc r name score src ids corr e))"
proof -
  let ?e' = "snd (should_alert clk utc r name score src ids corr e)"
  note em = should_alert_Some [OF some]
  have agree: "filter (\<lambda>t. c \<le> t) (flap_times e q) = filter (\<lambda>t. c \<le> t) (alert_times q hist)"
    if "clk 1 - int one_hour \<le> c" for c q
    using inv t that by (simp add: rate_inv_def)
  have "filter (\<lambda>t. c \<le> t) (flap_times ?e' q)
      = filter (\<lambda>t. c \<le> t) (alert_times q (hist @ [(r, src, clk 2, clk 3)]))"
    if c: "clk 3 - int one_hour \<le> c" for q c
  proof (cases "q = r")
    case True
    have "filter (\<lambda>t. c \<le> t) (hourly_kept clk (flap_times e r)) = filter (\<lambda>t. c \<le> t) (flap_times e r)"
      using c t by (intro filter_imp_filter) simp
    with em agree [of c r] c t True show ?thesis by simp
  next
    case False
    with agree [of c q] c t should_alert_other [OF False] show ?thesis by simp
  qed
  moreover have "length (filter (in_hour c) (alert_times q (hist @ [(r, src, clk 2, clk 3)])))
      \<le> unat (rc_flapping_max_per_hour (rk_config e))" for q c
  proof (cases "q = r \<and> in_hour c (clk 2)")
    case True
    have "length (filter (in_hour c) (alert_times r hist))
        \<le> length (filter (\<lambda>t. clk 1 - int one_hour \<le> t) (alert_times r hist))"
      using True t by (intro filter_length_mono) (auto simp: in_hour_def)
    also have "\<dots> = length (hourly_kept clk (flap_times e r))"
      by (simp add: agree)
    also have "\<dots> < unat (rc_flapping_max_per_hour (rk_config e))"
      using em by simp
    finally show ?thesis using True by simp
  next
    case False
    then show ?thesis using inv by (auto simp: rate_inv_def)
  qed
  ultimately show ?thesis by (simp add: rate_inv_def)
qed

lemma rate_inv_suppressed:
  assumes inv: "rate_inv now hist e"
    and t: "now \<le> clk 0" "clk 0 \<le> clk 1" "clk 1 \<le> clk 2" "clk 2 \<le> clk 3"
    and none: "fst (should_alert clk utc r name score src ids corr e) = None"
  shows "rate_inv (clk 3) hist (snd (should_alert clk utc r name score src ids corr e))"
proof -
  let ?e' = "snd (should_alert clk utc r name score src ids corr e)"
  have "filter (\<lambda>t. c \<le> t) (flap_times ?e' q) = filter (\<lambda>t. c \<le> t) (alert_times q hist)"
    if c: "clk 3 - int one_hour \<le> c" for q c
  proof -
    have a: "filter (\<lambda>t. c \<le> t) (flap_times e q) = filter (\<lambda>t. c \<le> t) (alert_times q hist)"
      using inv t c by (simp add: rate_inv_def)
    have "filter (\<lambda>t. c \<le> t) (hourly_kept clk (flap_times e r)) = filter (\<lambda>t. c \<le> t) (flap_times e r)"
      using c t by (intro filter_imp_filter) simp
    with a should_alert_None [OF none] should_alert_other [of q r] show ?thesis
      by (cases "q = r") auto
  qed
  with inv show ?thesis by (simp add: rate_inv_def)
qed

lemma rate_inv_apply:
  assumes "rate_inv now hist e" and "op_start op now"
  shows "rate_inv (op_end op) (hist @ fst (risk_apply powf op e)) (snd (risk_apply powf op e))"
proof (cases op)
  case (Should_Alert clk utc r name score src ids corr)
  show ?thesis
  proof (cases "fst (should_alert clk utc r name score src ids corr e)")
    case None
    with Should_Alert assms show ?thesis
      using rate_inv_suppressed [OF assms(1), of clk utc r name score src ids corr]
      by (simp add: case_prod_beta)
  next
    case (Some a)
    with Should_Alert assms show ?thesis
      using rate_inv_alert [OF assms(1), of clk utc r name score src ids corr]
      by (simp add: case_prod_beta)
  qed
next
  case (Calculate clk base label mult chain)
  with assms show ?thesis
    using rate_inv_unchanged [OF assms(1), of "clk 1" "snd (calculate powf clk base label mult chain e)"]
    by (simp add: flap_times_def)
next
  case (Risk_Prune f g fin)
  with assms show ?thesis
    using rate_inv_unchanged [OF assms(1), of fin "risk_prune f g e"]
    by (simp add: flap_times_def)
qed

lemma rate_inv_exec:
  assumes "rate_inv now hist e" and "clocked now ops"
  shows "\<exists>now'. rate_inv now' (hist @ fst (risk_exec powf ops e)) (snd (risk_exec powf ops e))
    \<and> rk_config (snd (risk_exec powf ops e)) = rk_config e"
  using assms
proof (induction ops arbitrary: now hist e)
  case Nil
  then show ?case by auto
next
  case (Cons op ops)
  from Cons.prems have "rate_inv (op_end op) (hist @ fst (risk_apply powf op e)) (snd (risk_apply powf op e))"
    by (intro rate_inv_apply) auto
  from Cons.IH [OF this] Cons.prems show ?case
    by (simp add: case_prod_beta)
qed

text \<open>
  C6: The hourly limit: over every sequence of calls with a monotonic clock, starting from a
  new engine, each rule raises at most the configured number of alerts within any window of
  one hour, wherever the window lies.
\<close>

theorem alerts_per_hour_limited:
  assumes "clocked start ops"
  shows "length (filter (\<lambda>(q, s, p, d). q = r \<and> c \<le> p \<and> p \<le> c + int one_hour)
           (fst (risk_exec powf ops (risk_engine_new cfg))))
         \<le> unat (rc_flapping_max_per_hour cfg)"
proof -
  let ?hist = "fst (risk_exec powf ops (risk_engine_new cfg))"
  obtain now' where "rate_inv now' ?hist (snd (risk_exec powf ops (risk_engine_new cfg)))"
    "rk_config (snd (risk_exec powf ops (risk_engine_new cfg))) = cfg"
    using rate_inv_exec [OF rate_inv_new assms, of powf cfg] by (auto simp: risk_engine_new_def)
  then have "length (filter (in_hour c) (alert_times r ?hist)) \<le> unat (rc_flapping_max_per_hour cfg)"
    by (simp add: rate_inv_def)
  moreover have "length (filter (in_hour c) (alert_times r hist)) =
      length (filter (\<lambda>(q, s, p, d). q = r \<and> c \<le> p \<and> p \<le> c + int one_hour) hist)" for hist
    by (induction hist) (auto simp: alert_times_def in_hour_def)
  ultimately show ?thesis by simp
qed


definition demo_config :: risk_config where
  "demo_config = risk_config_default\<lparr> rc_flapping_max_per_hour := 1 \<rparr>"

definition demo_alerts :: "risk_op list" where
  "demo_alerts = [Should_Alert (\<lambda>_. 0) 0 ''r'' ''R'' 700 ''s'' [] None,
                  Should_Alert (\<lambda>_. 400 * int nanos_per_sec) 0 ''r'' ''R'' 700 ''s'' [] None]"

lemma demo_alerts_log:
  "fst (risk_exec powf demo_alerts (risk_engine_new demo_config)) = [(''r'', ''s'', 0, 0)]"
  by (simp add: demo_alerts_def demo_config_def risk_config_default_def risk_engine_new_def
      should_alert_def from_score_def dedup_key_def elapsed_def from_secs_def one_hour_def Let_def)

lemma alerts_per_hour_limited_witness:
  "clocked 0 demo_alerts \<and>
   length (filter (\<lambda>(q, s, p, d). q = ''r'' \<and> 0 \<le> p \<and> p \<le> 0 + int one_hour)
     (fst (risk_exec powf_floor demo_alerts (risk_engine_new demo_config)))) \<le> 1"
proof
  show c: "clocked 0 demo_alerts" by (simp add: demo_alerts_def)
  show "length (filter (\<lambda>(q, s, p, d). q = ''r'' \<and> 0 \<le> p \<and> p \<le> 0 + int one_hour)
     (fst (risk_exec powf_floor demo_alerts (risk_engine_new demo_config)))) \<le> 1"
    using alerts_per_hour_limited [OF c, of "''r''" 0 powf_floor demo_config]
    by (simp add: demo_config_def)
qed

section \<open>The deduplication window\<close>

definition spaced :: "nat \<Rightarrow> alert_log \<Rightarrow> bool" where
  "spaced w hist \<longleftrightarrow> sorted_wrt (\<lambda>(q, s, p, d) (q', s', p', d').
     dedup_key q s = dedup_key q' s' \<longrightarrow> d + int w \<le> d') hist"

abbreviation window :: "risk_engine \<Rightarrow> nat" where
  "window e \<equiv> from_secs (rc_dedup_window_secs (rk_config e))"

text \<open>Every logged alert is in the past, and it is still in the table under its key or it is
  older than the window.\<close>

definition dedup_inv :: "instant \<Rightarrow> alert_log \<Rightarrow> risk_engine \<Rightarrow> bool" where
  "dedup_inv now hist e \<longleftrightarrow> spaced (window e) hist \<and>
     (\<forall>(q, s, p, d) \<in> set hist. d \<le> now \<and>
        ((\<exists>en. rk_dedup e (dedup_key q s) = Some en \<and> d \<le> de_last_alert_at en)
          \<or> d + int (window e) \<le> now))"

lemma dedup_invI:
  assumes "spaced (window e) hist"
    and "\<And>q s p d. (q, s, p, d) \<in> set hist \<Longrightarrow> d \<le> now \<and>
        ((\<exists>en. rk_dedup e (dedup_key q s) = Some en \<and> d \<le> de_last_alert_at en)
          \<or> d + int (window e) \<le> now)"
  shows "dedup_inv now hist e"
  unfolding dedup_inv_def using assms by fast

lemma dedup_inv_new: "dedup_inv now [] (risk_engine_new cfg)"
  by (simp add: dedup_inv_def spaced_def)

lemma dedup_inv_later:
  assumes "dedup_inv now hist e" and "now \<le> now'" and "rk_config e' = rk_config e"
    and "rk_dedup e' = rk_dedup e"
  shows "dedup_inv now' hist e'"
  using assms by (fastforce simp: dedup_inv_def)

lemma dedup_inv_alert:
  assumes inv: "dedup_inv now hist e"
    and t: "now \<le> clk 0" "clk 0 \<le> clk 1" "clk 1 \<le> clk 2" "clk 2 \<le> clk 3"
    and some: "fst (should_alert clk utc r name score src ids corr e) = Some a"
  shows "dedup_inv (clk 3) (hist @ [(r, src, clk 2, clk 3)])
           (snd (should_alert clk utc r name score src ids corr e))"
proof -
  note em = should_alert_Some [OF some]
  have old: "d + int (window e) \<le> clk 3"
    if h: "(q, s, p, d) \<in> set hist" and k: "dedup_key q s = dedup_key r src" for q s p d
  proof -
    have past: "d \<le> now" using inv h by (fastforce simp: dedup_inv_def)
    from inv h consider en where "rk_dedup e (dedup_key q s) = Some en" "d \<le> de_last_alert_at en"
      | "d + int (window e) \<le> now"
      unfolding dedup_inv_def by fast
    then show ?thesis
    proof cases
      case 1
      then have "window e \<le> elapsed (clk 0) (de_last_alert_at en)"
        using em k by simp
      then have "window e = 0 \<or> de_last_alert_at en + int (window e) \<le> clk 0"
        by (auto simp: elapsed_def)
      then show ?thesis using 1 t past by linarith
    next
      case 2
      with t show ?thesis by simp
    qed
  qed
  have "spaced (window e) (hist @ [(r, src, clk 2, clk 3)])"
    using inv old by (auto simp: spaced_def dedup_inv_def sorted_wrt_append)
  moreover have "d \<le> clk 3 \<and>
      ((\<exists>en. ((rk_dedup e)(dedup_key r src \<mapsto> \<lparr> de_last_alert_at = clk 3 \<rparr>)) (dedup_key q s) = Some en
          \<and> d \<le> de_last_alert_at en) \<or> d + int (window e) \<le> clk 3)"
    if h: "(q, s, p, d) \<in> set hist" for q s p d
  proof (cases "dedup_key q s = dedup_key r src")
    case True
    with old [OF h] inv h t show ?thesis by (fastforce simp: dedup_inv_def)
  next
    case False
    with inv h t show ?thesis unfolding dedup_inv_def by fastforce
  qed
  moreover note em
  ultimately show ?thesis
    by (intro dedup_invI) (simp_all, fastforce)
qed

lemma from_secs_double:
  fixes w :: u64
  assumes "unat w < 2 ^ 63" and "\<not> as_secs n < unat (w * 2)"
  shows "from_secs w \<le> n"
proof -
  have "unat (w * 2) = 2 * unat w"
    using assms(1) by (simp add: unat_word_ariths)
  with assms(2) have "2 * unat w \<le> n div nanos_per_sec" by (simp add: as_secs_def)
  then have "2 * unat w * nanos_per_sec \<le> n"
    by (simp add: less_eq_div_iff_mult_less_eq)
  then show ?thesis by (simp add: from_secs_def)
qed

lemma dedup_inv_prune:
  assumes inv: "dedup_inv now hist e" and t: "\<forall>k. now \<le> at_dedup k \<and> at_dedup k \<le> fin" "now \<le> fin"
    and w: "unat (rc_dedup_window_secs (rk_config e)) < 2 ^ 63"
  shows "dedup_inv fin hist (risk_prune at_score at_dedup e)"
proof -
  have "d \<le> fin \<and> ((\<exists>en. rk_dedup (risk_prune at_score at_dedup e) (dedup_key q s) = Some en
      \<and> d \<le> de_last_alert_at en) \<or> d + int (window e) \<le> fin)" if h: "(q, s, p, d) \<in> set hist" for q s p d
  proof -
    have past: "d \<le> fin" using inv h t(2) by (fastforce simp: dedup_inv_def)
    from inv h consider en where "rk_dedup e (dedup_key q s) = Some en" "d \<le> de_last_alert_at en"
      | "d + int (window e) \<le> now"
      unfolding dedup_inv_def by fast
    then show ?thesis
    proof cases
      case 1
      let ?k = "dedup_key q s"
      show ?thesis
      proof (cases "as_secs (elapsed (at_dedup ?k) (de_last_alert_at en))
          < unat (rc_dedup_window_secs (rk_config e) * 2)")
        case True
        with 1 past show ?thesis by (simp add: risk_prune_def)
      next
        case False
        from from_secs_double [OF w False] have "window e = 0 \<or> d + int (window e) \<le> at_dedup ?k"
          using 1 by (auto simp: elapsed_def)
        with past t(1) show ?thesis by (metis add.right_neutral int_ops(1) order_trans)
      qed
    next
      case 2
      with t(2) past show ?thesis by simp
    qed
  qed
  moreover have "spaced (window e) hist" using inv by (simp add: dedup_inv_def)
  ultimately show ?thesis unfolding dedup_inv_def risk_prune_simps by fast
qed

lemma dedup_inv_apply:
  assumes "dedup_inv now hist e" and "op_start op now"
    and "unat (rc_dedup_window_secs (rk_config e)) < 2 ^ 63"
  shows "dedup_inv (op_end op) (hist @ fst (risk_apply powf op e)) (snd (risk_apply powf op e))"
proof (cases op)
  case (Should_Alert clk utc r name score src ids corr)
  show ?thesis
  proof (cases "fst (should_alert clk utc r name score src ids corr e)")
    case None
    with Should_Alert assms show ?thesis
      using dedup_inv_later [OF assms(1), of "clk 3"] should_alert_None [OF None]
      by (simp add: case_prod_beta)
  next
    case (Some a)
    with Should_Alert assms show ?thesis
      using dedup_inv_alert [OF assms(1), of clk utc r name score src ids corr]
      by (simp add: case_prod_beta)
  qed
next
  case (Calculate clk base label mult chain)
  with assms show ?thesis
    using dedup_inv_later [OF assms(1), of "clk 1"] by simp
next
  case (Risk_Prune f g fin)
  with assms show ?thesis
    using dedup_inv_prune [OF assms(1), of g fin f] by simp
qed

lemma dedup_inv_exec:
  assumes "dedup_inv now hist e" and "clocked now ops"
    and "unat (rc_dedup_window_secs (rk_config e)) < 2 ^ 63"
  shows "\<exists>now'. dedup_inv now' (hist @ fst (risk_exec powf ops e)) (snd (risk_exec powf ops e))
    \<and> rk_config (snd (risk_exec powf ops e)) = rk_config e"
  using assms
proof (induction ops arbitrary: now hist e)
  case Nil
  then show ?case by auto
next
  case (Cons op ops)
  from Cons.prems have "dedup_inv (op_end op) (hist @ fst (risk_apply powf op e)) (snd (risk_apply powf op e))"
    by (intro dedup_inv_apply) auto
  from Cons.IH [OF this] Cons.prems show ?case
    by (simp add: case_prod_beta)
qed

text \<open>
  Deduplication: over every sequence of calls with a monotonic clock, pruning passes
  included, two alerts for the same rule and source are at least the configured window apart
  (for windows below 2 to the 63 seconds, where the doubled limit of the pruning does not wrap).
\<close>

theorem alerts_deduplicated:
  assumes "clocked start ops" and "unat (rc_dedup_window_secs cfg) < 2 ^ 63"
    and "fst (risk_exec powf ops (risk_engine_new cfg)) ! i = (r, src, p, d)"
    and "fst (risk_exec powf ops (risk_engine_new cfg)) ! j = (r, src, p', d')"
    and "i < j" and "j < length (fst (risk_exec powf ops (risk_engine_new cfg)))"
  shows "d + int (from_secs (rc_dedup_window_secs cfg)) \<le> d'"
proof -
  have "rk_config (risk_engine_new cfg) = cfg" by (simp add: risk_engine_new_def)
  then have "spaced (from_secs (rc_dedup_window_secs cfg)) (fst (risk_exec powf ops (risk_engine_new cfg)))"
    using dedup_inv_exec [OF dedup_inv_new assms(1), of cfg powf] assms(2)
    by (auto simp: dedup_inv_def)
  then show ?thesis
    using assms(3-6) by (force simp: spaced_def sorted_wrt_iff_nth_less)
qed

definition two_alerts :: "risk_op list" where
  "two_alerts = [Should_Alert (\<lambda>_. 0) 0 ''r'' ''R'' 700 ''s'' [] None,
                 Should_Alert (\<lambda>_. 400 * int nanos_per_sec) 0 ''r'' ''R'' 700 ''s'' [] None]"

lemma alerts_deduplicated_witness:
  "0 + int (from_secs (rc_dedup_window_secs risk_config_default)) \<le> 400 * int nanos_per_sec"
proof -
  have l: "fst (risk_exec powf_floor two_alerts (risk_engine_new risk_config_default))
      = [(''r'', ''s'', 0, 0), (''r'', ''s'', 400 * int nanos_per_sec, 400 * int nanos_per_sec)]"
    by (simp add: two_alerts_def risk_config_default_def risk_engine_new_def
        should_alert_def from_score_def dedup_key_def elapsed_def from_secs_def one_hour_def Let_def)
  have c: "clocked 0 two_alerts" by (simp add: two_alerts_def)
  have w: "unat (rc_dedup_window_secs risk_config_default) < 2 ^ 63"
    by (simp add: risk_config_default_def)
  show ?thesis
    using alerts_deduplicated [OF c w, of powf_floor 0 "''r''" "''s''" 0 0 1] by (simp add: l)
qed

text \<open>Two different rule and source pairs can share a key, and then suppress one another.\<close>

lemma dedup_key_collision: "dedup_key ''a:b'' ''c'' = dedup_key ''a'' ''b:c''"
  by (simp add: dedup_key_def)

text \<open>A score of at least \<open>low\<close> but below \<open>medium\<close> never alerts.\<close>

lemma low_threshold_unused:
  assumes "score < rt_medium (rc_thresholds (rk_config e))"
    and "score < rt_high (rc_thresholds (rk_config e))"
    and "score < rt_critical (rc_thresholds (rk_config e))"
  shows "fst (should_alert clk utc r name score src ids corr e) = None"
proof -
  have "from_score score (rc_thresholds (rk_config e)) = AS_Low"
    using assms by (auto simp: from_score_def)
  then show ?thesis by (simp add: should_alert_def)
qed

end
