(* ===== verification/Correlation.thy ===== *)
theory Correlation
  imports Events
begin

text \<open>
  The correlation engine of crates/sentinel-correlation/src/lib.rs: chains of events linked
  by process identity, by parentage, or by source and time.  A method reads the clock at
  several places; its readings are \<open>clk 0, clk 1, \<dots>\<close> in program order.  A new chain takes
  its ULID from the argument.  Where the code iterates over a hash map, the order of the keys
  is an argument.
\<close>

section \<open>Chains\<close>

record correlation_config =
  co_chain_timeout_secs :: u64
  co_temporal_window_secs :: u64
  co_flow_ttl_secs :: u64
  co_max_events_per_chain :: usize

definition correlation_config_default :: correlation_config where
  "correlation_config_default = \<lparr> co_chain_timeout_secs = 600, co_temporal_window_secs = 300,
     co_flow_ttl_secs = 172800, co_max_events_per_chain = 500 \<rparr>"

record correlation_chain =
  kc_id :: string
  kc_started_at :: instant
  kc_last_event_at :: instant
  kc_events :: "event list"
  kc_risk_score :: u32
  kc_host_id :: string
  kc_pids :: "u32 list"

definition add_event :: "instant \<Rightarrow> event \<Rightarrow> correlation_chain \<Rightarrow> correlation_chain" where
  "add_event now e c =
     (let c1 = (case ev_process e of Some p \<Rightarrow> c\<lparr> kc_pids := kc_pids c @ [pc_pid p] \<rparr> | None \<Rightarrow> c);
          c2 = c1\<lparr> kc_events := kc_events c1 @ [e], kc_last_event_at := now \<rparr>
      in if 500 < length (kc_events c2) then c2\<lparr> kc_events := drop 1 (kc_events c2) \<rparr> else c2)"

definition chain_new :: "string \<Rightarrow> instant \<Rightarrow> instant \<Rightarrow> instant \<Rightarrow> event \<Rightarrow> correlation_chain" where
  "chain_new ulid t0 t1 t2 e =
     add_event t2 e \<lparr> kc_id = ulid, kc_started_at = t0, kc_last_event_at = t1, kc_events = [],
       kc_risk_score = 0, kc_host_id = ev_host_id e, kc_pids = [] \<rparr>"

definition chain_is_expired :: "instant \<Rightarrow> nat \<Rightarrow> correlation_chain \<Rightarrow> bool" where
  "chain_is_expired now timeout c \<longleftrightarrow> timeout < elapsed now (kc_last_event_at c)"

section \<open>Engine\<close>

record correlation_engine =
  ce_config :: correlation_config
  ce_pid_index :: "u32 \<rightharpoonup> string"
  ce_chains :: "string \<rightharpoonup> correlation_chain"
  ce_temporal_index :: "string \<rightharpoonup> instant \<times> string"
  ce_flows :: "string \<rightharpoonup> string \<times> instant"

definition correlation_engine_new :: "correlation_config \<Rightarrow> correlation_engine" where
  "correlation_engine_new config = \<lparr> ce_config = config, ce_pid_index = Map.empty,
     ce_chains = Map.empty, ce_temporal_index = Map.empty, ce_flows = Map.empty \<rparr>"

text \<open>The three stages of \<open>ingest\<close>, each giving the chain found, if any, and the state.\<close>

definition link_own_pid ::
    "clock \<Rightarrow> event \<Rightarrow> process_context \<Rightarrow> correlation_engine \<Rightarrow> (correlation_chain \<times> correlation_engine) option" where
  "link_own_pid clk ev proc e =
     (case ce_pid_index e (pc_pid proc) of None \<Rightarrow> None
      | Some chain_id \<Rightarrow>
          (case ce_chains e chain_id of None \<Rightarrow> None
           | Some chain \<Rightarrow>
               let c = add_event (clk 0) ev chain;
                   e1 = e\<lparr> ce_chains := (ce_chains e)(chain_id \<mapsto> c) \<rparr>;
                   e2 = (if 0 < pc_ppid proc
                         then e1\<lparr> ce_pid_index := (ce_pid_index e1)(pc_ppid proc \<mapsto> chain_id) \<rparr> else e1)
               in Some (c, e2)))"

text \<open>The child is indexed before the chain of the parent is looked up.\<close>

definition link_parent ::
    "clock \<Rightarrow> event \<Rightarrow> process_context \<Rightarrow> correlation_engine
      \<Rightarrow> correlation_chain option \<times> correlation_engine" where
  "link_parent clk ev proc e =
     (if 0 < pc_ppid proc then
        (case ce_pid_index e (pc_ppid proc) of None \<Rightarrow> (None, e)
         | Some chain_id \<Rightarrow>
             let e1 = e\<lparr> ce_pid_index := (ce_pid_index e)(pc_pid proc \<mapsto> chain_id) \<rparr>
             in (case ce_chains e1 chain_id of None \<Rightarrow> (None, e1)
                 | Some chain \<Rightarrow>
                     let c = add_event (clk 0) ev chain
                     in (Some c, e1\<lparr> ce_chains := (ce_chains e1)(chain_id \<mapsto> c) \<rparr>)))
      else (None, e))"

definition link_temporal ::
    "clock \<Rightarrow> event \<Rightarrow> correlation_engine \<Rightarrow> (correlation_chain \<times> correlation_engine) option" where
  "link_temporal clk ev e =
     (case ce_temporal_index e (ev_source ev) of None \<Rightarrow> None
      | Some (last_time, chain_id) \<Rightarrow>
          if elapsed (clk 1) last_time < from_secs (co_temporal_window_secs (ce_config e)) then
            (case ce_chains e chain_id of None \<Rightarrow> None
             | Some chain \<Rightarrow>
                 let c = add_event (clk 2) ev chain
                 in Some (c, e\<lparr> ce_chains := (ce_chains e)(chain_id \<mapsto> c),
                                ce_temporal_index :=
                                  (ce_temporal_index e)(ev_source ev \<mapsto> (clk 3, chain_id)) \<rparr>))
          else None)"

definition create_chain ::
    "clock \<Rightarrow> string \<Rightarrow> event \<Rightarrow> correlation_engine \<Rightarrow> correlation_chain \<times> correlation_engine" where
  "create_chain clk ulid ev e =
     (let chain = chain_new ulid (clk 2) (clk 3) (clk 4) ev;
          e1 = (case ev_process ev of None \<Rightarrow> e
                | Some proc \<Rightarrow>
                    let i = (ce_pid_index e)(pc_pid proc \<mapsto> ulid)
                    in e\<lparr> ce_pid_index :=
                           (if 0 < pc_ppid proc then i(pc_ppid proc \<mapsto> ulid) else i) \<rparr>)
      in (chain, e1\<lparr> ce_temporal_index := (ce_temporal_index e1)(ev_source ev \<mapsto> (clk 5, ulid)),
                     ce_chains := (ce_chains e1)(ulid \<mapsto> chain) \<rparr>))"

definition after_causal ::
    "clock \<Rightarrow> string \<Rightarrow> event \<Rightarrow> correlation_engine \<Rightarrow> correlation_chain \<times> correlation_engine" where
  "after_causal clk ulid ev e =
     (case link_temporal clk ev e of Some r \<Rightarrow> r | None \<Rightarrow> create_chain clk ulid ev e)"

definition ingest ::
    "clock \<Rightarrow> string \<Rightarrow> event \<Rightarrow> correlation_engine \<Rightarrow> correlation_chain \<times> correlation_engine" where
  "ingest clk ulid ev e =
     (case ev_process ev of None \<Rightarrow> after_causal clk ulid ev e
      | Some proc \<Rightarrow>
          (case link_own_pid clk ev proc e of Some r \<Rightarrow> r
           | None \<Rightarrow>
               (case link_parent clk ev proc e of
                  (Some c, e1) \<Rightarrow> (c, e1)
                | (None, e1) \<Rightarrow> after_causal clk ulid ev e1)))"

text \<open>One round of the pruning loop.\<close>

definition remove_chain :: "correlation_engine \<Rightarrow> string \<Rightarrow> correlation_engine" where
  "remove_chain e cid =
     (let e1 = (case ce_chains e cid of None \<Rightarrow> e
                | Some chain \<Rightarrow>
                    e\<lparr> ce_chains := (ce_chains e)(cid := None),
                       ce_pid_index := foldl (\<lambda>i p. i(p := None)) (ce_pid_index e) (kc_pids chain) \<rparr>)
      in e1\<lparr> ce_temporal_index := (\<lambda>s. case ce_temporal_index e1 s of None \<Rightarrow> None
               | Some (t, c) \<Rightarrow> if c \<noteq> cid then Some (t, c) else None) \<rparr>)"

definition corr_prune :: "(string \<Rightarrow> instant) \<Rightarrow> string list \<Rightarrow> correlation_engine \<Rightarrow> correlation_engine" where
  "corr_prune now_at keys e =
     (let timeout = from_secs (co_chain_timeout_secs (ce_config e));
          expired = filter (\<lambda>k. case ce_chains e k of None \<Rightarrow> False
                                | Some c \<Rightarrow> chain_is_expired (now_at k) timeout c) keys
      in foldl remove_chain e expired)"

definition active_chains ::
    "(string \<Rightarrow> instant) \<Rightarrow> string list \<Rightarrow> correlation_engine
      \<Rightarrow> correlation_chain list \<times> correlation_engine" where
  "active_chains now_at keys e =
     (let e1 = corr_prune now_at keys e in (List.map_filter (ce_chains e1) keys, e1))"

section \<open>Chains are bounded and keep their identity\<close>

lemma add_event_simps [simp]:
  "kc_id (add_event now e c) = kc_id c"
  "kc_host_id (add_event now e c) = kc_host_id c"
  "kc_last_event_at (add_event now e c) = now"
  "kc_pids (add_event now e c) = kc_pids c @ (case ev_process e of None \<Rightarrow> [] | Some p \<Rightarrow> [pc_pid p])"
  by (simp_all add: add_event_def Let_def split: option.splits)

lemma add_event_events:
  "kc_events (add_event now e c) =
     (if 500 \<le> length (kc_events c) then tl (kc_events c) @ [e] else kc_events c @ [e])"
  by (cases "kc_events c") (auto simp: add_event_def Let_def split: option.splits)

lemma add_event_last: "kc_events (add_event now e c) \<noteq> [] \<and> last (kc_events (add_event now e c)) = e"
  by (cases "kc_events c") (auto simp: add_event_events Let_def)

lemma add_event_bounded: "length (kc_events c) \<le> 500 \<Longrightarrow> length (kc_events (add_event now e c)) \<le> 500"
  by (simp add: add_event_events Let_def)

lemma chain_new_simps [simp]:
  "kc_id (chain_new u t0 t1 t2 e) = u"
  "kc_host_id (chain_new u t0 t1 t2 e) = ev_host_id e"
  "kc_events (chain_new u t0 t1 t2 e) = [e]"
  by (simp_all add: chain_new_def add_event_events)

section \<open>The invariant\<close>

text \<open>Every chain is stored under its own id and holds between one and 500 events, and the
  temporal index only names chains that are there.\<close>

definition corr_inv :: "correlation_engine \<Rightarrow> bool" where
  "corr_inv e \<longleftrightarrow>
     (\<forall>k c. ce_chains e k = Some c \<longrightarrow> kc_id c = k \<and> kc_events c \<noteq> [] \<and> length (kc_events c) \<le> 500)
   \<and> (\<forall>s t k. ce_temporal_index e s = Some (t, k) \<longrightarrow> ce_chains e k \<noteq> None)"

lemma corr_inv_new: "corr_inv (correlation_engine_new config)"
  by (simp add: corr_inv_def correlation_engine_new_def)

text \<open>The pid index plays no part in it.\<close>

lemma corr_inv_pid_index [simp]: "corr_inv (e\<lparr> ce_pid_index := i \<rparr>) = corr_inv e"
  by (simp add: corr_inv_def)

lemma corr_inv_extend:
  assumes "corr_inv e" and "ce_chains e k = Some c"
  shows "corr_inv (e\<lparr> ce_chains := (ce_chains e)(k \<mapsto> add_event now ev c) \<rparr>)"
  using assms add_event_last [of now ev c] add_event_bounded [of c now ev]
  by (auto simp: corr_inv_def)

lemma corr_inv_touch:
  "corr_inv e \<Longrightarrow> ce_chains e k \<noteq> None \<Longrightarrow>
   corr_inv (e\<lparr> ce_temporal_index := (ce_temporal_index e)(s \<mapsto> (t, k)) \<rparr>)"
  by (auto simp: corr_inv_def)

lemma link_own_pid_inv:
  "corr_inv e \<Longrightarrow> link_own_pid clk ev proc e = Some (c, e') \<Longrightarrow> corr_inv e'"
  using corr_inv_extend
  by (auto simp: link_own_pid_def Let_def split: option.splits if_splits)

lemma link_parent_inv:
  assumes "corr_inv e"
  shows "corr_inv (snd (link_parent clk ev proc e))"
  using corr_inv_extend [of "e\<lparr> ce_pid_index := i \<rparr>" for i] assms
  by (auto simp: link_parent_def Let_def split: option.splits)

lemma link_temporal_inv:
  assumes "corr_inv e" and "link_temporal clk ev e = Some (c, e')"
  shows "corr_inv e'"
proof -
  from assms(2) obtain t k ch where "ce_temporal_index e (ev_source ev) = Some (t, k)"
      "ce_chains e k = Some ch" and e': "e' = e\<lparr> ce_chains := (ce_chains e)(k \<mapsto> add_event (clk 2) ev ch),
        ce_temporal_index := (ce_temporal_index e)(ev_source ev \<mapsto> (clk 3, k)) \<rparr>"
    by (auto simp: link_temporal_def Let_def split: option.splits if_splits)
  then show ?thesis
    using corr_inv_touch [OF corr_inv_extend [OF assms(1), of k ch "clk 2" ev], of k "ev_source ev" "clk 3"]
    by simp
qed

lemma create_chain_inv:
  "corr_inv e \<Longrightarrow> corr_inv (snd (create_chain clk ulid ev e))"
  by (auto simp: create_chain_def corr_inv_def Let_def split: option.splits)

lemma after_causal_inv: "corr_inv e \<Longrightarrow> corr_inv (snd (after_causal clk ulid ev e))"
  using link_temporal_inv [of e clk ev] create_chain_inv [of e clk ulid ev]
  by (cases "link_temporal clk ev e") (auto simp: after_causal_def)

lemma ingest_inv:
  assumes "corr_inv e"
  shows "corr_inv (snd (ingest clk ulid ev e))"
proof (cases "ev_process ev")
  case None
  with assms after_causal_inv show ?thesis by (simp add: ingest_def)
next
  case (Some proc)
  show ?thesis
  proof (cases "link_own_pid clk ev proc e")
    case None
    obtain oc e1 where p: "link_parent clk ev proc e = (oc, e1)" by force
    with link_parent_inv [OF assms, of clk ev proc] have "corr_inv e1" by simp
    with Some None p after_causal_inv [of e1 clk ulid ev] show ?thesis
      by (cases oc) (simp_all add: ingest_def)
  next
    case (Some r)
    with link_own_pid_inv [OF assms, of clk ev proc "fst r" "snd r"] \<open>ev_process ev = Some proc\<close>
    show ?thesis by (simp add: ingest_def)
  qed
qed

lemma remove_chain_inv: "corr_inv e \<Longrightarrow> corr_inv (remove_chain e k)"
  by (auto simp: remove_chain_def corr_inv_def Let_def split: option.splits if_splits)

lemma remove_chains_inv: "corr_inv e \<Longrightarrow> corr_inv (foldl remove_chain e ks)"
  by (induction ks arbitrary: e) (simp_all add: remove_chain_inv)

text \<open>The reachable states of the engine.\<close>

inductive corr_reachable :: "correlation_config \<Rightarrow> correlation_engine \<Rightarrow> bool" for config where
  cr_new: "corr_reachable config (correlation_engine_new config)"
| cr_ingest: "corr_reachable config e \<Longrightarrow> corr_reachable config (snd (ingest clk ulid ev e))"
| cr_prune: "corr_reachable config e \<Longrightarrow> corr_reachable config (corr_prune now_at keys e)"

lemma corr_reachable_inv: "corr_reachable config e \<Longrightarrow> corr_inv e"
proof (induction rule: corr_reachable.induct)
  case cr_new
  show ?case by (rule corr_inv_new)
next
  case (cr_ingest e clk ulid ev)
  then show ?case by (simp add: ingest_inv)
next
  case (cr_prune e now_at keys)
  then show ?case by (simp add: corr_prune_def remove_chains_inv Let_def)
qed

text \<open>
  C7: In every reachable state of the correlation engine each chain is filed under its own id
  and holds at least one and at most 500 events, and the temporal index never refers to a
  chain that is gone.
\<close>

theorem corr_invariant:
  assumes "corr_reachable config e"
  shows "(ce_chains e k = Some c \<longrightarrow> kc_id c = k \<and> kc_events c \<noteq> [] \<and> length (kc_events c) \<le> 500)
    \<and> (ce_temporal_index e s = Some (t, k) \<longrightarrow> ce_chains e k \<noteq> None)"
  using corr_reachable_inv [OF assms] by (simp add: corr_inv_def)

lemma corr_invariant_witness:
  "kc_id (chain_new ''u1'' 0 0 0 event_default) = ''u1'' \<and>
   ce_chains (snd (ingest (\<lambda>_. 0) ''u1'' event_default
     (correlation_engine_new correlation_config_default))) ''u1''
   = Some (chain_new ''u1'' 0 0 0 event_default)"
proof -
  let ?e = "snd (ingest (\<lambda>_. 0) ''u1'' event_default (correlation_engine_new correlation_config_default))"
  have r: "corr_reachable correlation_config_default ?e" by (rule cr_ingest [OF cr_new])
  have c: "ce_chains ?e ''u1'' = Some (chain_new ''u1'' 0 0 0 event_default)"
    by (simp add: ingest_def after_causal_def link_temporal_def create_chain_def
        correlation_engine_new_def event_default_def Let_def)
  with corr_invariant [OF r, of "''u1''" "chain_new ''u1'' 0 0 0 event_default" "[]" 0] show ?thesis
    by simp
qed

section \<open>What ingesting an event does\<close>

lemma after_causal_result:
  assumes "corr_inv e" and "after_causal clk ulid ev e = (c, e')"
  shows "ce_chains e' (kc_id c) = Some c \<and> kc_events c \<noteq> [] \<and> last (kc_events c) = ev"
proof (cases "link_temporal clk ev e")
  case None
  with assms(2) show ?thesis
    by (auto simp: after_causal_def create_chain_def Let_def)
next
  case (Some r)
  with assms(2) have "link_temporal clk ev e = Some (c, e')" by (simp add: after_causal_def)
  with assms(1) add_event_last show ?thesis
    by (auto simp: link_temporal_def corr_inv_def Let_def split: option.splits if_splits)
qed

text \<open>
  The chain returned for an event is the one stored under its id, and the event is its
  latest one, on every path through the linking stages.
\<close>

lemma ingest_stored:
  assumes "corr_reachable config e" and "ingest clk ulid ev e = (c, e')"
  shows "ce_chains e' (kc_id c) = Some c \<and> kc_events c \<noteq> [] \<and> last (kc_events c) = ev"
proof -
  note inv = corr_reachable_inv [OF assms(1)]
  show ?thesis
  proof (cases "ev_process ev")
    case None
    with assms after_causal_result [OF inv] show ?thesis by (simp add: ingest_def)
  next
    case (Some proc)
    show ?thesis
    proof (cases "link_own_pid clk ev proc e")
      case None
      obtain oc e1 where p: "link_parent clk ev proc e = (oc, e1)" by force
      show ?thesis
      proof (cases oc)
        case o: None
        from link_parent_inv [OF inv, of clk ev proc] p have "corr_inv e1" by simp
        with after_causal_result [of e1 clk ulid ev] p o Some None assms(2) show ?thesis
          by (simp add: ingest_def)
      next
        case (Some c1)
        with assms(2) \<open>ev_process ev = Some proc\<close> None p have "c1 = c" "e1 = e'"
          by (simp_all add: ingest_def)
        with p Some inv add_event_last show ?thesis
          by (auto simp: link_parent_def corr_inv_def Let_def split: option.splits if_splits)
      qed
    next
      case own: (Some r)
      with assms(2) Some have "link_own_pid clk ev proc e = Some (c, e')" by (simp add: ingest_def)
      with inv add_event_last show ?thesis
        by (auto simp: link_own_pid_def corr_inv_def Let_def split: option.splits if_splits)
    qed
  qed
qed

lemma ingest_stored_example:
  "kc_events (fst (ingest (\<lambda>_. 0) ''u1'' event_default (correlation_engine_new correlation_config_default))) \<noteq> []"
proof -
  obtain c e' where i: "ingest (\<lambda>_. 0) ''u1'' event_default
      (correlation_engine_new correlation_config_default) = (c, e')" by force
  from ingest_stored [OF cr_new i] i show ?thesis by simp
qed

section \<open>Lines of descent\<close>

fun ingest_list :: "(clock \<times> string \<times> event) list \<Rightarrow> correlation_engine
    \<Rightarrow> correlation_chain list \<times> correlation_engine" where
  "ingest_list [] e = ([], e)"
| "ingest_list ((clk, ulid, ev) # xs) e =
     (let (c, e1) = ingest clk ulid ev e; (cs, e2) = ingest_list xs e1 in (c # cs, e2))"

fun batch_events :: "(clock \<times> string \<times> event) list \<Rightarrow> event list" where
  "batch_events [] = []"
| "batch_events ((clk, ulid, ev) # xs) = ev # batch_events xs"

text \<open>Each event comes from a process that the process of the event before it has started.\<close>

fun lineage :: "u32 \<Rightarrow> event list \<Rightarrow> bool" where
  "lineage p [] \<longleftrightarrow> True"
| "lineage p (ev # evs) \<longleftrightarrow>
     (case ev_process ev of None \<Rightarrow> False
      | Some proc \<Rightarrow> 0 < p \<and> pc_ppid proc = p \<and> lineage (pc_pid proc) evs)"

definition event_pids :: "event list \<Rightarrow> u32 list" where
  "event_pids evs = List.map_filter (\<lambda>ev. map_option pc_pid (ev_process ev)) evs"

lemma event_pids_Cons:
  "ev_process ev = Some proc \<Longrightarrow> event_pids (ev # evs) = pc_pid proc # event_pids evs"
  by (simp add: event_pids_def List.map_filter_def)

lemma ingest_child:
  assumes "ev_process ev = Some proc" and "0 < pc_ppid proc"
    and "ce_pid_index e (pc_ppid proc) = Some k" and "ce_chains e k = Some c"
    and "ce_pid_index e (pc_pid proc) = None"
  shows "ingest clk ulid ev e = (add_event (clk 0) ev c,
    e\<lparr> ce_pid_index := (ce_pid_index e)(pc_pid proc \<mapsto> k),
       ce_chains := (ce_chains e)(k \<mapsto> add_event (clk 0) ev c) \<rparr>)"
  using assms by (simp add: ingest_def link_own_pid_def link_parent_def Let_def)

text \<open>
  A whole line of descent ends up in one chain: if a process is indexed to a live chain,
  then the events of its child, of that child's child and so on, processes not seen before,
  are all added to that chain, whatever their sources and times are.
\<close>

theorem lineage_in_one_chain:
  assumes "corr_reachable config e" and "ce_pid_index e p = Some k" and "ce_chains e k \<noteq> None"
    and "lineage p (batch_events xs)"
    and "distinct (event_pids (batch_events xs))"
    and "\<forall>q \<in> set (event_pids (batch_events xs)). ce_pid_index e q = None"
  shows "\<forall>c \<in> set (fst (ingest_list xs e)). kc_id c = k"
  using assms
proof (induction xs arbitrary: e p)
  case (Cons x xs)
  obtain clk ulid ev where x: "x = (clk, ulid, ev)" by (cases x) auto
  from Cons.prems(4) x obtain proc where proc: "ev_process ev = Some proc" "0 < pc_ppid proc"
      "pc_ppid proc = p" "lineage (pc_pid proc) (batch_events xs)"
    by (auto split: option.splits)
  note pids = event_pids_Cons [OF proc(1), of "batch_events xs"]
  from Cons.prems(3) obtain c where c: "ce_chains e k = Some c" by auto
  from corr_reachable_inv [OF Cons.prems(1)] c have id: "kc_id c = k" by (auto simp: corr_inv_def)
  let ?e1 = "e\<lparr> ce_pid_index := (ce_pid_index e)(pc_pid proc \<mapsto> k),
       ce_chains := (ce_chains e)(k \<mapsto> add_event (clk 0) ev c) \<rparr>"
  have i: "ingest clk ulid ev e = (add_event (clk 0) ev c, ?e1)"
    using proc Cons.prems(2,6) c x pids by (intro ingest_child) auto
  have "corr_reachable config ?e1"
    using cr_ingest [OF Cons.prems(1), of clk ulid ev] i by simp
  then have "\<forall>d \<in> set (fst (ingest_list xs ?e1)). kc_id d = k"
    using proc Cons.prems(5,6) x pids by (intro Cons.IH [of _ "pc_pid proc"]) auto
  with i id x show ?case by (simp add: case_prod_beta)
qed simp

definition demo_process :: "u32 \<Rightarrow> u32 \<Rightarrow> event" where
  "demo_process pid ppid = event_default\<lparr> ev_process :=
     Some (ProcessContext pid ppid [] [] [] [] None [] None [] 0 [] None) \<rparr>"

lemma lineage_in_one_chain_witness:
  "\<exists>e. corr_reachable correlation_config_default e \<and>
     (\<forall>c \<in> set (fst (ingest_list [(\<lambda>_. 5, ''u2'', demo_process 20 10),
        (\<lambda>_. 6, ''u3'', demo_process 30 20)] e)). kc_id c = ''u1'')"
proof -
  let ?e = "snd (ingest (\<lambda>_. 0) ''u1'' (demo_process 10 0) (correlation_engine_new correlation_config_default))"
  have r: "corr_reachable correlation_config_default ?e" by (rule cr_ingest [OF cr_new])
  have "ce_pid_index ?e = [10 \<mapsto> ''u1'']" "ce_chains ?e ''u1'' \<noteq> None"
    by (simp_all add: ingest_def link_own_pid_def link_parent_def after_causal_def link_temporal_def
        create_chain_def correlation_engine_new_def demo_process_def event_default_def Let_def)
  then show ?thesis
    using lineage_in_one_chain [OF r, of 10 "''u1''"
        "[(\<lambda>_. 5, ''u2'', demo_process 20 10), (\<lambda>_. 6, ''u3'', demo_process 30 20)]"]
    by (intro exI [of _ ?e] conjI r) (simp add: demo_process_def event_pids_def List.map_filter_def)
qed

section \<open>Pruning\<close>

lemma remove_chain_simps:
  "ce_chains (remove_chain e k) = (ce_chains e)(k := None)"
  "ce_temporal_index (remove_chain e k) s =
     (case ce_temporal_index e s of None \<Rightarrow> None | Some (t, c) \<Rightarrow> if c \<noteq> k then Some (t, c) else None)"
  by (auto simp: remove_chain_def Let_def split: option.splits)

lemma remove_chains_simps:
  "ce_chains (foldl remove_chain e ks) k = (if k \<in> set ks then None else ce_chains e k)"
  "ce_temporal_index (foldl remove_chain e ks) s =
     (case ce_temporal_index e s of None \<Rightarrow> None | Some (t, c) \<Rightarrow> if c \<notin> set ks then Some (t, c) else None)"
  by (induction ks arbitrary: e) (auto simp: remove_chain_simps split: option.splits)

text \<open>
  A pruning pass that visits every chain removes exactly the chains that have been silent
  for longer than the timeout at the reading taken for them, leaves the others as they are,
  and removes from the temporal index exactly the entries that name a removed chain.
\<close>

theorem prune_removes_exactly_expired:
  assumes "dom (ce_chains e) \<subseteq> set keys"
  shows "ce_chains (corr_prune now_at keys e) k =
      (case ce_chains e k of None \<Rightarrow> None
       | Some c \<Rightarrow> if chain_is_expired (now_at k) (from_secs (co_chain_timeout_secs (ce_config e))) c
                    then None else Some c)
    \<and> (corr_reachable config e \<longrightarrow> ce_temporal_index (corr_prune now_at keys e) s =
        (case ce_temporal_index e s of None \<Rightarrow> None
         | Some (t, j) \<Rightarrow> if ce_chains (corr_prune now_at keys e) j = None then None else Some (t, j)))"
proof -
  let ?x = "filter (\<lambda>k. case ce_chains e k of None \<Rightarrow> False
      | Some c \<Rightarrow> chain_is_expired (now_at k) (from_secs (co_chain_timeout_secs (ce_config e))) c) keys"
  have prune: "corr_prune now_at keys e = foldl remove_chain e ?x"
    by (simp add: corr_prune_def Let_def)
  have chains: "ce_chains (corr_prune now_at keys e) j = (if j \<in> set ?x then None else ce_chains e j)" for j
    unfolding prune remove_chains_simps by simp
  have "ce_chains (corr_prune now_at keys e) k =
      (case ce_chains e k of None \<Rightarrow> None
       | Some c \<Rightarrow> if chain_is_expired (now_at k) (from_secs (co_chain_timeout_secs (ce_config e))) c
                    then None else Some c)"
    using assms unfolding chains by (auto split: option.splits)
  moreover have "ce_temporal_index (corr_prune now_at keys e) s =
        (case ce_temporal_index e s of None \<Rightarrow> None
         | Some (t, j) \<Rightarrow> if ce_chains (corr_prune now_at keys e) j = None then None else Some (t, j))"
    if "corr_reachable config e"
    using corr_reachable_inv [OF that] unfolding chains unfolding prune remove_chains_simps
    by (fastforce simp: corr_inv_def split: option.splits)
  ultimately show ?thesis by blast
qed

lemma prune_removes_exactly_expired_witness:
  "\<exists>e. corr_reachable correlation_config_default e \<and> ce_chains e ''u1'' \<noteq> None
     \<and> ce_chains (corr_prune (\<lambda>_. 601 * int nanos_per_sec) [''u1''] e) ''u1'' = None"
proof -
  let ?e = "snd (ingest (\<lambda>_. 0) ''u1'' (demo_process 10 0) (correlation_engine_new correlation_config_default))"
  have r: "corr_reachable correlation_config_default ?e" by (rule cr_ingest [OF cr_new])
  have c: "ce_chains ?e = [''u1'' \<mapsto> chain_new ''u1'' 0 0 0 (demo_process 10 0)]"
    "ce_config ?e = correlation_config_default"
    by (simp_all add: ingest_def link_own_pid_def link_parent_def after_causal_def link_temporal_def
        create_chain_def correlation_engine_new_def demo_process_def event_default_def Let_def)
  have d: "dom (ce_chains ?e) \<subseteq> set [''u1'']" by (simp add: c)
  have x: "chain_is_expired (601 * int nanos_per_sec) (from_secs 600)
      (chain_new ''u1'' 0 0 0 (demo_process 10 0))"
    by (simp add: chain_is_expired_def chain_new_def elapsed_def from_secs_def)
  have t: "co_chain_timeout_secs correlation_config_default = 600"
    by (simp add: correlation_config_default_def)
  note p = conjunct1 [OF prune_removes_exactly_expired [OF d, of "\<lambda>_. 601 * int nanos_per_sec" "''u1''"
      correlation_config_default "[]"]]
  have "ce_chains (corr_prune (\<lambda>_. 601 * int nanos_per_sec) [''u1''] ?e) ''u1'' = None"
    unfolding p c t fun_upd_same option.case if_P [OF x] ..
  with r c show ?thesis by (intro exI [of _ ?e]) simp
qed

text \<open>The parent of the first process of a chain is indexed but is not among the pids of the
  chain, so its entry outlives the chain.\<close>

lemma parent_entry_outlives_chain:
  "let e = snd (ingest (\<lambda>_. 0) ''u1'' (demo_process 20 10) (correlation_engine_new correlation_config_default));
       e' = corr_prune (\<lambda>_. 601 * int nanos_per_sec) [''u1''] e
   in ce_chains e' ''u1'' = None \<and> ce_pid_index e' 10 = Some ''u1''"
  by (simp add: ingest_def link_own_pid_def link_parent_def after_causal_def link_temporal_def
      create_chain_def correlation_engine_new_def demo_process_def event_default_def Let_def
      corr_prune_def remove_chain_def chain_is_expired_def correlation_config_default_def
      from_secs_def elapsed_def chain_new_def add_event_def)

end
