(* ===== verification/Json.thy ===== *)
theory Json
  imports Float64 "HOL-Library.AList"
begin

text \<open>
  JSON values as \<open>serde_json::Value\<close> has them: numbers are integers or floats, objects are
  finite maps, kept as association lists with distinct keys.
\<close>

datatype json =
  JNull
| JBool bool
| JInt int
| JFloat f64
| JString string
| JArray "json list"
| JObject "(string \<times> json) list"

definition json_get :: "json \<Rightarrow> string \<Rightarrow> json option" where
  "json_get v key = (case v of JObject fields \<Rightarrow> map_of fields key | _ \<Rightarrow> None)"

definition json_as_str :: "json \<Rightarrow> string option" where
  "json_as_str v = (case v of JString s \<Rightarrow> Some s | _ \<Rightarrow> None)"

definition json_as_i64 :: "json \<Rightarrow> int option" where
  "json_as_i64 v = (case v of JInt n \<Rightarrow> if - (2 ^ 63) \<le> n \<and> n < 2 ^ 63 then Some n else None | _ \<Rightarrow> None)"

definition json_as_u64 :: "json \<Rightarrow> u64 option" where
  "json_as_u64 v = (case v of JInt n \<Rightarrow> if 0 \<le> n \<and> n < 2 ^ 64 then Some (word_of_int n) else None | _ \<Rightarrow> None)"

definition json_as_bool :: "json \<Rightarrow> bool option" where
  "json_as_bool v = (case v of JBool b \<Rightarrow> Some b | _ \<Rightarrow> None)"

definition json_insert :: "string \<Rightarrow> json \<Rightarrow> (string \<times> json) list \<Rightarrow> (string \<times> json) list" where
  "json_insert key v fields = AList.update key v fields"

lemma json_get_object [simp]: "json_get (JObject fields) key = map_of fields key"
  by (simp add: json_get_def)

lemma map_of_json_insert [simp]: "map_of (json_insert key v fields) = (map_of fields)(key \<mapsto> v)"
  by (simp add: json_insert_def update_conv')

lemma json_insert_keys:
  "set (map fst (json_insert key v fields)) = insert key (set (map fst fields))"
  by (simp add: json_insert_def AList.dom_update)

lemma json_insert_distinct:
  "distinct (map fst fields) \<Longrightarrow> distinct (map fst (json_insert key v fields))"
  by (simp add: json_insert_def distinct_update)

end
