(* ===== verification/Rules.thy ===== *)
theory Rules
  imports Core_Types Json
begin

text \<open>
  The rule format of crates/sentinel-core/src/traits.rs: what a rule file says and what the
  rule engine, the Sigma importer and the rule store share.
\<close>

record mitre_mapping =
  mm_technique :: string
  mm_name :: string
  mm_tactic :: string

record risk_multiplier =
  rm_condition :: string
  rm_factor :: f64

record rule_risk =
  rr_base_score :: u32
  rr_confidence :: f64
  rr_multipliers :: "risk_multiplier list"

definition rule_risk_default :: rule_risk where
  "rule_risk_default = \<lparr> rr_base_score = 0, rr_confidence = Fin 0, rr_multipliers = [] \<rparr>"

datatype rule_action_type = AT_Alert | AT_Enrich | AT_Correlate | AT_Snapshot

record rule_action =
  ac_type :: rule_action_type
  ac_config :: json

record suppression_rule =
  su_id :: string
  su_condition :: string
  su_reason :: string

record rule_test =
  rt_test_name :: string
  rt_event :: json
  rt_expected_match :: bool

record rule =
  ru_id :: string
  ru_version :: u32
  ru_name :: string
  ru_description :: string
  ru_author :: string
  ru_created :: datetime
  ru_modified :: datetime
  ru_enabled :: bool
  ru_category :: string
  ru_subcategory :: "string option"
  ru_mitre :: "mitre_mapping list"
  ru_severity :: severity
  ru_risk :: rule_risk
  ru_condition :: string
  ru_and_conditions :: "string list"
  ru_or_conditions :: "string list"
  ru_not_conditions :: "string list"
  ru_actions :: "rule_action list"
  ru_suppressions :: "suppression_rule list"
  ru_tests :: "rule_test list"

text \<open>The two timestamps are two readings of the clock.\<close>

definition rule_default :: "datetime \<Rightarrow> datetime \<Rightarrow> rule" where
  "rule_default now now' = \<lparr> ru_id = [], ru_version = 0, ru_name = [], ru_description = [],
     ru_author = [], ru_created = now, ru_modified = now', ru_enabled = False, ru_category = [],
     ru_subcategory = None, ru_mitre = [], ru_severity = severity_default,
     ru_risk = rule_risk_default, ru_condition = [], ru_and_conditions = [],
     ru_or_conditions = [], ru_not_conditions = [], ru_actions = [], ru_suppressions = [],
     ru_tests = [] \<rparr>"

end
