(* ===== verification/Rule_Engine.thy ===== *)
theory Rule_Engine
  imports Events Rules Errors
begin

text \<open>
  The rule engine of crates/sentinel-rule-engine/src/lib.rs.

  The CEL implementation and the YAML parser are third-party code: \<open>compile\<close> takes an
  expression to a program or an error, \<open>execute\<close> a program and an activation to a value or
  an error, and \<open>parse_yaml\<close> a file to the rule under its \<open>rule:\<close> key.  Nothing is assumed of
  them.  The rules are an association list with distinct identifiers, in the order in which
  the hash map is traversed.
\<close>

section \<open>CEL values and the activation\<close>

text \<open>The values the engine builds; every other kind a program may return is opaque.\<close>

datatype cel_value =
  CNull
| CBool bool
| CInt int
| CUInt u64
| CString string
| CList "cel_value list"
| CMap "(string \<times> cel_value) list"
| COpaque string

definition u32_u64 :: "u32 \<Rightarrow> u64" where
  "u32_u64 w = ucast w"

definition cel_int :: "i32 \<Rightarrow> cel_value" where
  "cel_int w = CInt (sint w)"

definition cel_uint :: "u32 \<Rightarrow> cel_value" where
  "cel_uint w = CUInt (u32_u64 w)"

definition cel_strings :: "string list \<Rightarrow> cel_value" where
  "cel_strings xs = CList (map CString xs)"

text \<open>A field that is only set when the option is there.\<close>

definition opt_field :: "string \<Rightarrow> ('a \<Rightarrow> cel_value) \<Rightarrow> 'a option \<Rightarrow> (string \<times> cel_value) list" where
  "opt_field name f x = (case x of None \<Rightarrow> [] | Some y \<Rightarrow> [(name, f y)])"

definition user_to_cel_value :: "user_context \<Rightarrow> cel_value" where
  "user_to_cel_value u = CMap [(''username'', CString (uc_username u)), (''domain'', CString (uc_domain u)),
     (''sid'', CString (uc_sid u)), (''is_elevated'', CBool (uc_is_elevated u)),
     (''is_system'', CBool (uc_is_system u))]"

definition signing_to_cel_value :: "code_signing_info \<Rightarrow> cel_value" where
  "signing_to_cel_value s = CMap [(''is_signed'', CBool (si_is_signed s)),
     (''is_trusted'', CBool (si_is_trusted s)), (''publisher'', CString (si_publisher s)),
     (''issuer'', CString (si_issuer s))]"

definition correlation_to_cel_value :: "correlation_context \<Rightarrow> cel_value" where
  "correlation_to_cel_value c = CMap [(''session_id'', CString (cx_session_id c)),
     (''cause_event_id'', CString (cx_cause_event_id c)),
     (''root_event_id'', CString (cx_root_event_id c)),
     (''correlation_id'', CString (cx_correlation_id c)), (''flow_id'', CString (cx_flow_id c)),
     (''sequence'', cel_uint (cx_sequence c))]"

text \<open>The process tree is cut at depth five: a deeper parent is null.\<close>

fun process_to_cel_value :: "process_context \<Rightarrow> nat \<Rightarrow> cel_value" where
  "process_to_cel_value
     (ProcessContext pid ppid name path cmd cwd user integrity signing mitre depth sha parent) d =
   (if 5 < d then CNull
    else CMap ([(''pid'', cel_uint pid), (''ppid'', cel_uint ppid), (''name'', CString name),
       (''path'', CString path), (''command_line'', CString cmd), (''cwd'', CString cwd),
       (''integrity_level'', CString integrity), (''tree_depth'', cel_uint depth),
       (''sha256'', CString sha), (''mitre_techniques'', cel_strings mitre)]
      @ opt_field ''user'' user_to_cel_value user
      @ opt_field ''signing'' signing_to_cel_value signing
      @ (case parent of None \<Rightarrow> [] | Some p \<Rightarrow> [(''parent'', process_to_cel_value p (Suc d))])))"

definition process_payload_to_cel :: "process_event \<Rightarrow> cel_value" where
  "process_payload_to_cel e = CMap ([(''action'', cel_int (pe_action e))]
     @ opt_field ''target'' (\<lambda>t. process_to_cel_value t 0) (pe_target e)
     @ [(''desired_access'', cel_uint (pe_desired_access e))])"

definition network_payload_to_cel :: "network_event \<Rightarrow> cel_value" where
  "network_payload_to_cel e = CMap [(''direction'', cel_int (ne_direction e)),
     (''protocol'', cel_int (ne_protocol e)), (''action'', cel_int (ne_action e)),
     (''local_addr'', CString (ne_local_addr e)), (''local_port'', cel_uint (ne_local_port e)),
     (''remote_addr'', CString (ne_remote_addr e)), (''remote_port'', cel_uint (ne_remote_port e)),
     (''hostname'', CString (ne_hostname e)), (''dns_query'', CString (ne_dns_query e)),
     (''ja3_fingerprint'', CString (ne_ja3_fingerprint e)),
     (''ja3s_fingerprint'', CString (ne_ja3s_fingerprint e))]"

definition file_payload_to_cel :: "file_event \<Rightarrow> cel_value" where
  "file_payload_to_cel e = CMap [(''action'', cel_int (fe_action e)), (''path'', CString (fe_path e)),
     (''sha256'', CString (fe_sha256 e)), (''entropy'', CString (fe_entropy e)),
     (''is_executable'', CBool (fe_is_executable e)),
     (''is_sensitive_path'', CBool (fe_is_sensitive_path e))]"

definition registry_payload_to_cel :: "registry_event \<Rightarrow> cel_value" where
  "registry_payload_to_cel e = CMap [(''action'', cel_int (ge_action e)), (''hive'', cel_int (ge_hive e)),
     (''key_path'', CString (ge_key_path e)), (''value_name'', CString (ge_value_name e))]"

definition usb_payload_to_cel :: "usb_event \<Rightarrow> cel_value" where
  "usb_payload_to_cel e = CMap [(''action'', cel_int (ue_action e)),
     (''vendor_id'', CString (ue_vendor_id e)), (''product_id'', CString (ue_product_id e)),
     (''serial_number'', CString (ue_serial_number e)), (''manufacturer'', CString (ue_manufacturer e)),
     (''product'', CString (ue_product e)), (''is_encrypted'', CBool (ue_is_encrypted e))]"

definition browser_payload_to_cel :: "browser_event \<Rightarrow> cel_value" where
  "browser_payload_to_cel e = CMap [(''browser'', cel_int (be_browser e)), (''action'', cel_int (be_action e)),
     (''url'', CString (be_url e)), (''title'', CString (be_title e)), (''referrer'', CString (be_referrer e)),
     (''download_path'', CString (be_download_path e)), (''is_incognito'', CBool (be_is_incognito e))]"

definition startup_payload_to_cel :: "startup_event \<Rightarrow> cel_value" where
  "startup_payload_to_cel e = CMap [(''action'', cel_int (se_action e)),
     (''location'', cel_int (se_location e)), (''name'', CString (se_name e)),
     (''command'', CString (se_command e)), (''arguments'', CString (se_arguments e)),
     (''user'', CString (se_user e)), (''is_signed'', CBool (se_is_signed e)),
     (''publisher'', CString (se_publisher e))]"

definition generic_payload_to_cel :: "generic_event \<Rightarrow> cel_value" where
  "generic_payload_to_cel e = CMap [(''custom_type'', CString (xe_custom_type e))]"

fun payload_to_cel :: "payload \<Rightarrow> string \<times> cel_value" where
  "payload_to_cel (ProcessPayload e) = (''ProcessEvent'', process_payload_to_cel e)"
| "payload_to_cel (NetworkPayload e) = (''NetworkEvent'', network_payload_to_cel e)"
| "payload_to_cel (FilePayload e) = (''FileEvent'', file_payload_to_cel e)"
| "payload_to_cel (RegistryPayload e) = (''RegistryEvent'', registry_payload_to_cel e)"
| "payload_to_cel (UsbPayload e) = (''UsbEvent'', usb_payload_to_cel e)"
| "payload_to_cel (BrowserPayload e) = (''BrowserEvent'', browser_payload_to_cel e)"
| "payload_to_cel (StartupPayload e) = (''StartupEvent'', startup_payload_to_cel e)"
| "payload_to_cel (GenericPayload e) = (''GenericEvent'', generic_payload_to_cel e)"

definition event_to_cel_value :: "event \<Rightarrow> cel_value" where
  "event_to_cel_value e = CMap ([(''id'', CString (ev_id e)), (''type'', CString (ev_type e)),
       (''source'', CString (ev_source e)), (''severity'', cel_int (ev_severity e)),
       (''risk_score'', cel_uint (ev_risk_score e)), (''host_id'', CString (ev_host_id e)),
       (''schema_version'', cel_uint (ev_schema_version e))]
     @ opt_field ''process'' (\<lambda>p. process_to_cel_value p 0) (ev_process e)
     @ opt_field ''correlation'' correlation_to_cel_value (ev_correlation e)
     @ [(''tags'', cel_strings (ev_tags e))]
     @ opt_field ''timestamp_epoch'' (\<lambda>t. CInt (ts_seconds t)) (ev_timestamp e)
     @ opt_field ''ingest_timestamp_epoch'' (\<lambda>t. CInt (ts_seconds t)) (ev_ingest_timestamp e)
     @ (case ev_payload e of None \<Rightarrow> []
        | Some p \<Rightarrow> (case payload_to_cel p of (kind, data) \<Rightarrow>
            [(''payload_type'', CString kind), (''payload'', data)])))"

type_synonym activation = "(string \<times> cel_value) list"

definition create_activation :: "event \<Rightarrow> activation" where
  "create_activation e = [(''event'', event_to_cel_value e), (''severity'', cel_int (ev_severity e)),
     (''event_type'', CString (ev_type e)), (''SEVERITY_DEBUG'', CInt 1), (''SEVERITY_INFO'', CInt 2),
     (''SEVERITY_NOTICE'', CInt 3), (''SEVERITY_WARNING'', CInt 4), (''SEVERITY_ERROR'', CInt 5),
     (''SEVERITY_CRITICAL'', CInt 6), (''SEVERITY_ALERT'', CInt 7), (''SEVERITY_EMERGENCY'', CInt 8)]"

section \<open>Compiled rules\<close>

record 'p compiled_rule =
  cr_rule :: rule
  cr_main_program :: 'p
  cr_and_programs :: "'p list"
  cr_or_programs :: "'p list"
  cr_not_programs :: "'p list"
  cr_multiplier_programs :: "('p \<times> f64) list"
  cr_suppression_programs :: "('p \<times> string \<times> string) list"
  cr_compile_time_ms :: u64

definition preprocess_cel :: "string \<Rightarrow> string" where
  "preprocess_cel expr = str_replace expr ''.lowerAscii()'' []"

text \<open>Compile a list of conditions, stopping at the first failure.\<close>

fun compile_all :: "(string \<Rightarrow> string + 'p) \<Rightarrow> string \<Rightarrow> string list \<Rightarrow> string + 'p list" where
  "compile_all compile msg [] = Inr []"
| "compile_all compile msg (c # cs) =
     (case compile (preprocess_cel c) of Inl e \<Rightarrow> Inl (msg @ e)
      | Inr p \<Rightarrow> bind_result (compile_all compile msg cs) (\<lambda>ps. Inr (p # ps)))"

text \<open>\<open>load_rule_file\<close>: the text of the file (or the read error) to a compiled rule.  The
  compile time is an input.\<close>

definition load_rule_file ::
    "(string \<Rightarrow> string + 'p) \<Rightarrow> (string \<Rightarrow> string + rule) \<Rightarrow> u64 \<Rightarrow> string + string
      \<Rightarrow> string + 'p compiled_rule" where
  "load_rule_file compile parse_yaml ms content =
     (case content of Inl _ \<Rightarrow> Inl ''Failed to read rule file''
      | Inr text \<Rightarrow>
     (case parse_yaml text of
        Inl _ \<Rightarrow> Inl ''Failed to parse rule YAML (expected `rule:` wrapper)''
      | Inr r \<Rightarrow>
     if ru_id r = [] then Inl ''Rule ID is required''
     else if ru_condition r = [] then Inl ''Rule condition is required''
     else
     (case compile (preprocess_cel (ru_condition r)) of
        Inl e \<Rightarrow> Inl (''Failed to compile CEL expression: '' @ e)
      | Inr program \<Rightarrow>
     bind_result (compile_all compile ''Failed to compile AND condition: '' (ru_and_conditions r)) (\<lambda>ands.
     bind_result (compile_all compile ''Failed to compile OR condition: '' (ru_or_conditions r)) (\<lambda>ors.
     bind_result (compile_all compile ''Failed to compile NOT condition: '' (ru_not_conditions r)) (\<lambda>nots.
     bind_result (compile_all compile ''Failed to compile risk multiplier: ''
         (map rm_condition (rr_multipliers (ru_risk r)))) (\<lambda>mults.
     bind_result (compile_all compile ''Failed to compile suppression: ''
         (map su_condition (ru_suppressions r))) (\<lambda>supps.
     Inr \<lparr> cr_rule = r, cr_main_program = program, cr_and_programs = ands, cr_or_programs = ors,
           cr_not_programs = nots,
           cr_multiplier_programs = zip mults (map rm_factor (rr_multipliers (ru_risk r))),
           cr_suppression_programs =
             zip supps (map (\<lambda>s. (su_id s, su_reason s)) (ru_suppressions r)),
           cr_compile_time_ms = ms \<rparr>))))))))"

section \<open>The engine\<close>

record rule_engine_metrics =
  re_rules_loaded :: u64
  re_rules_enabled :: u64
  re_evaluations_total :: u64
  re_matches_total :: u64
  re_suppressions_total :: u64
  re_avg_eval_time_ms :: u64
  re_rules_evaluated :: u64

definition rule_engine_metrics_new :: rule_engine_metrics where
  "rule_engine_metrics_new = \<lparr> re_rules_loaded = 0, re_rules_enabled = 0, re_evaluations_total = 0,
     re_matches_total = 0, re_suppressions_total = 0, re_avg_eval_time_ms = 0, re_rules_evaluated = 0 \<rparr>"

record 'p rule_engine =
  rn_rules :: "(string \<times> 'p compiled_rule) list"
  rn_metrics :: rule_engine_metrics

definition rule_engine_initial :: "'p rule_engine" where
  "rule_engine_initial = \<lparr> rn_rules = [], rn_metrics = rule_engine_metrics_new \<rparr>"

text \<open>A rules directory: it may be missing, unreadable, or hold entries with their contents.
  A failing \<open>next_entry\<close> after some entries aborts the load.\<close>

datatype rules_dir =
  DirMissing
| DirUnreadable
| DirEntries "(string \<times> (string + string)) list" bool

text \<open>\<open>Path::extension\<close> of a file name: what follows its last dot, unless that is its first
  character.\<close>

definition path_extension :: "string \<Rightarrow> string option" where
  "path_extension name =
     (case rfind_char (\<lambda>c. c = CHR ''.'') name of None \<Rightarrow> None
      | Some i \<Rightarrow> if i = 0 \<or> name = ''..'' then None else Some (drop (Suc i) name))"

definition is_rule_file :: "string \<Rightarrow> bool" where
  "is_rule_file name \<longleftrightarrow> path_extension name = Some ''yaml'' \<or> path_extension name = Some ''yml''"

type_synonym 'p load_state = "(string \<times> 'p compiled_rule) list \<times> string list"

definition load_entry ::
    "(string + string \<Rightarrow> string + 'p compiled_rule) \<Rightarrow> 'p load_state \<Rightarrow> string \<times> (string + string)
      \<Rightarrow> 'p load_state" where
  "load_entry load st entry =
     (case (st, entry) of ((rules, errors), (name, content)) \<Rightarrow>
        if is_rule_file name then
          (case load content of
             Inr r \<Rightarrow> (AList.update (ru_id (cr_rule r)) r rules, errors)
           | Inl e \<Rightarrow> (rules, errors @ [e]))
        else (rules, errors))"

fun load_dirs ::
    "(string + string \<Rightarrow> string + 'p compiled_rule) \<Rightarrow> rules_dir list \<Rightarrow> 'p load_state
      \<Rightarrow> string + 'p load_state" where
  "load_dirs load [] st = Inr st"
| "load_dirs load (DirMissing # ds) st = load_dirs load ds st"
| "load_dirs load (DirUnreadable # ds) st = Inl ''Failed to read rules directory''"
| "load_dirs load (DirEntries entries broken # ds) st =
     (let st' = foldl (load_entry load) st entries
      in if broken then Inl ''next entry'' else load_dirs load ds st')"

definition load_rules ::
    "(string + string \<Rightarrow> string + 'p compiled_rule) \<Rightarrow> rules_dir list \<Rightarrow> 'p rule_engine
      \<Rightarrow> (string + unit) \<times> 'p rule_engine" where
  "load_rules load dirs g =
     (case load_dirs load dirs ([], []) of
        Inl e \<Rightarrow> (Inl e, g)
      | Inr (compiled, errors) \<Rightarrow>
          if errors \<noteq> [] \<and> compiled = []
          then (Inl (''Failed to load any rules: '' @ str_join '', '' errors), g)
          else (Inr (),
            g\<lparr> rn_rules := compiled,
               rn_metrics := (rn_metrics g)\<lparr> re_rules_loaded := of_nat (length compiled),
                 re_rules_enabled :=
                   of_nat (length (filter (\<lambda>(k, r). ru_enabled (cr_rule r)) compiled)) \<rparr> \<rparr>))"

section \<open>Evaluation\<close>

definition evaluate_program ::
    "('p \<Rightarrow> activation \<Rightarrow> string + cel_value) \<Rightarrow> 'p \<Rightarrow> event \<Rightarrow> string + bool" where
  "evaluate_program execute program e =
     (case execute program (create_activation e) of
        Inl err \<Rightarrow> Inl (''CEL evaluation error: '' @ err)
      | Inr v \<Rightarrow> Inr (v = CBool True))"

definition unwrap_or_false :: "'e + bool \<Rightarrow> bool" where
  "unwrap_or_false r = (case r of Inl _ \<Rightarrow> False | Inr b \<Rightarrow> b)"

abbreviation holds :: "('p \<Rightarrow> activation \<Rightarrow> string + cel_value) \<Rightarrow> event \<Rightarrow> 'p \<Rightarrow> bool" where
  "holds execute e p \<equiv> unwrap_or_false (evaluate_program execute p e)"

text \<open>The loops over the conditions of a rule, with their early exits.\<close>

fun all_match :: "('p \<Rightarrow> bool) \<Rightarrow> 'p list \<Rightarrow> bool" where
  "all_match h [] = True"
| "all_match h (p # ps) = (if \<not> h p then False else all_match h ps)"

fun any_match :: "('p \<Rightarrow> bool) \<Rightarrow> 'p list \<Rightarrow> bool" where
  "any_match h [] = False"
| "any_match h (p # ps) = (if h p then True else any_match h ps)"

definition multiply_score :: "u32 \<Rightarrow> f64 \<Rightarrow> u32" where
  "multiply_score score factor = f64_to_u32 (f64_min (f64_mul (f64_of_u32 score) factor) (Fin 1000))"

definition calculate_risk_score ::
    "('p \<Rightarrow> activation \<Rightarrow> string + cel_value) \<Rightarrow> 'p compiled_rule \<Rightarrow> event \<Rightarrow> u32" where
  "calculate_risk_score execute cr e =
     (let risk = ru_risk (cr_rule cr);
          base = f64_to_u32 (f64_mul (f64_of_u32 (rr_base_score risk)) (rr_confidence risk));
          score = foldl (\<lambda>s (p, factor). if holds execute e p then multiply_score s factor else s)
                    base (cr_multiplier_programs cr)
      in min score 1000)"

record rule_match =
  ma_rule_id :: string
  ma_rule_name :: string
  ma_severity :: severity
  ma_risk_score :: u32
  ma_mitre :: "mitre_mapping list"
  ma_actions :: "rule_action list"
  ma_matched_at :: datetime

text \<open>The body of the loop over the rules: the match, if any, and whether it was suppressed.\<close>

definition evaluate_rule ::
    "('p \<Rightarrow> activation \<Rightarrow> string + cel_value) \<Rightarrow> datetime \<Rightarrow> event \<Rightarrow> 'p compiled_rule
      \<Rightarrow> rule_match option \<times> bool" where
  "evaluate_rule execute now e cr =
     (if \<not> ru_enabled (cr_rule cr) then (None, False)
      else if any_match (\<lambda>(p, i, r). holds execute e p) (cr_suppression_programs cr) then (None, True)
      else
        let main_match = evaluate_program execute (cr_main_program cr) e;
            and_match = (if cr_and_programs cr \<noteq> [] then all_match (holds execute e) (cr_and_programs cr) else True);
            or_match = (if cr_or_programs cr \<noteq> [] then any_match (holds execute e) (cr_or_programs cr) else True);
            not_match = (if cr_not_programs cr \<noteq> [] then \<not> any_match (holds execute e) (cr_not_programs cr) else True)
        in if unwrap_or_false main_match \<and> and_match \<and> or_match \<and> not_match
           then (Some \<lparr> ma_rule_id = ru_id (cr_rule cr), ma_rule_name = ru_name (cr_rule cr),
                        ma_severity = ru_severity (cr_rule cr),
                        ma_risk_score = calculate_risk_score execute cr e,
                        ma_mitre = ru_mitre (cr_rule cr), ma_actions = ru_actions (cr_rule cr),
                        ma_matched_at = now \<rparr>, False)
           else (None, False))"

record evaluation_result =
  er_matches :: "rule_match list"
  er_evaluation_time :: nat
  er_rules_evaluated :: nat

text \<open>\<open>evaluate\<close>; \<open>now\<close> gives the time at which each rule is matched, \<open>took\<close> is the duration
  of the evaluation.  The action executor has no handlers (nothing registers one), so
  executing the actions of the matches has no effect.\<close>

definition evaluate ::
    "('p \<Rightarrow> activation \<Rightarrow> string + cel_value) \<Rightarrow> (string \<Rightarrow> datetime) \<Rightarrow> nat \<Rightarrow> event \<Rightarrow> 'p rule_engine
      \<Rightarrow> evaluation_result \<times> 'p rule_engine" where
  "evaluate execute now took e g =
     (let results = map (\<lambda>(k, cr). evaluate_rule execute (now k) e cr) (rn_rules g);
          matches = List.map_filter fst results;
          m = rn_metrics g
      in (\<lparr> er_matches = matches, er_evaluation_time = took, er_rules_evaluated = length (rn_rules g) \<rparr>,
          g\<lparr> rn_metrics := m\<lparr>
               re_evaluations_total := re_evaluations_total m + 1,
               re_suppressions_total := re_suppressions_total m + of_nat (length (filter snd results)),
               re_matches_total := re_matches_total m + of_nat (length matches),
               re_avg_eval_time_ms := of_nat (took div 1000000),
               re_rules_evaluated := of_nat (length (rn_rules g)) \<rparr> \<rparr>))"

definition evaluate_rule_condition ::
    "(string \<Rightarrow> string + 'p) \<Rightarrow> ('p \<Rightarrow> activation \<Rightarrow> string + cel_value) \<Rightarrow> rule \<Rightarrow> event \<Rightarrow> string + bool" where
  "evaluate_rule_condition compile execute r e =
     (case compile (preprocess_cel (ru_condition r)) of
        Inl err \<Rightarrow> Inl (''Failed to compile CEL expression: '' @ err)
      | Inr program \<Rightarrow>
          (case execute program (create_activation e) of
             Inl err \<Rightarrow> Inl (''CEL evaluation error: '' @ err)
           | Inr v \<Rightarrow> Inr (v = CBool True)))"


section \<open>Which rules fire\<close>

lemma all_match_iff [simp]: "all_match h ps \<longleftrightarrow> (\<forall>p \<in> set ps. h p)"
  by (induction ps) auto

lemma any_match_iff [simp]: "any_match h ps \<longleftrightarrow> (\<exists>p \<in> set ps. h p)"
  by (induction ps) auto

text \<open>The contract of a rule: enabled, not suppressed, the main condition and all of the
  required ones hold, one of the alternatives holds if there are any, and none of the
  excluded ones does.  A condition whose evaluation fails does not hold.\<close>

definition rule_fires ::
    "('p \<Rightarrow> activation \<Rightarrow> string + cel_value) \<Rightarrow> event \<Rightarrow> 'p compiled_rule \<Rightarrow> bool" where
  "rule_fires execute e cr \<longleftrightarrow> ru_enabled (cr_rule cr)
     \<and> (\<forall>(p, i, r) \<in> set (cr_suppression_programs cr). \<not> holds execute e p)
     \<and> holds execute e (cr_main_program cr)
     \<and> (\<forall>p \<in> set (cr_and_programs cr). holds execute e p)
     \<and> (cr_or_programs cr = [] \<or> (\<exists>p \<in> set (cr_or_programs cr). holds execute e p))
     \<and> (\<forall>p \<in> set (cr_not_programs cr). \<not> holds execute e p)"

lemma evaluate_rule_fires:
  "fst (evaluate_rule execute now e cr) =
     (if rule_fires execute e cr
      then Some \<lparr> ma_rule_id = ru_id (cr_rule cr), ma_rule_name = ru_name (cr_rule cr),
                  ma_severity = ru_severity (cr_rule cr),
                  ma_risk_score = calculate_risk_score execute cr e,
                  ma_mitre = ru_mitre (cr_rule cr), ma_actions = ru_actions (cr_rule cr),
                  ma_matched_at = now \<rparr>
      else None)"
  by (auto simp: evaluate_rule_def rule_fires_def Let_def)

lemma evaluate_rule_suppressed:
  "snd (evaluate_rule execute now e cr) \<longleftrightarrow> ru_enabled (cr_rule cr) \<and>
     (\<exists>(p, i, r) \<in> set (cr_suppression_programs cr). holds execute e p)"
  by (auto simp: evaluate_rule_def Let_def)

lemma calculate_risk_score_bounded: "unat (calculate_risk_score execute cr e) \<le> 1000"
  by (simp add: calculate_risk_score_def Let_def min_def word_le_nat_alt)

text \<open>
  C3: An evaluation reports exactly the rules whose contract the event meets, in the order of
  the traversal, each with a score of at most 1000, and counts them; programs that fail count
  as conditions that do not hold, whether they require, exclude or suppress.
\<close>

theorem evaluate_reports_firing_rules:
  "map ma_rule_id (er_matches (fst (evaluate execute now took e g)))
     = map (\<lambda>(k, cr). ru_id (cr_rule cr)) (filter (\<lambda>(k, cr). rule_fires execute e cr) (rn_rules g))
   \<and> list_all (\<lambda>m. unat (ma_risk_score m) \<le> 1000) (er_matches (fst (evaluate execute now took e g)))
   \<and> re_matches_total (rn_metrics (snd (evaluate execute now took e g)))
     = re_matches_total (rn_metrics g)
        + of_nat (length (filter (\<lambda>(k, cr). rule_fires execute e cr) (rn_rules g)))"
proof -
  let ?mk = "\<lambda>(k, cr). evaluate_rule execute (now k) e cr"
  have m: "er_matches (fst (evaluate execute now took e g)) = List.map_filter fst (map ?mk rules)"
    if "rn_rules g = rules" for rules
    using that by (simp add: evaluate_def Let_def)
  have ids: "map ma_rule_id (List.map_filter fst (map ?mk rules))
      = map (\<lambda>(k, cr). ru_id (cr_rule cr)) (filter (\<lambda>(k, cr). rule_fires execute e cr) rules)" for rules
    by (induction rules) (auto simp: map_filter_simps evaluate_rule_fires)
  have bound: "list_all (\<lambda>m. unat (ma_risk_score m) \<le> 1000) (List.map_filter fst (map ?mk rules))" for rules
    by (induction rules) (auto simp: map_filter_simps evaluate_rule_fires calculate_risk_score_bounded)
  have "length (List.map_filter fst (map ?mk (rn_rules g)))
      = length (filter (\<lambda>(k, cr). rule_fires execute e cr) (rn_rules g))"
    using arg_cong [OF ids [of "rn_rules g"], of length] by simp
  then show ?thesis
    using m ids bound by (simp add: evaluate_def Let_def)
qed

section \<open>Loading\<close>

lemma load_rule_file_ok:
  assumes "load_rule_file compile parse_yaml ms content = Inr cr"
  shows "ru_id (cr_rule cr) \<noteq> [] \<and> ru_condition (cr_rule cr) \<noteq> []
    \<and> compile (preprocess_cel (ru_condition (cr_rule cr))) = Inr (cr_main_program cr)
    \<and> (\<exists>text. content = Inr text \<and> parse_yaml text = Inr (cr_rule cr))"
  using assms
  by (auto simp: load_rule_file_def bind_result_Inr split: sum.splits if_splits)

text \<open>
  C39: A rule that was loaded from a file behaves on its main condition exactly as the direct
  evaluation of the rule does, errors of the evaluation included.
\<close>

theorem loaded_rule_agrees_with_condition:
  assumes "load_rule_file compile parse_yaml ms content = Inr cr"
  shows "evaluate_rule_condition compile execute (cr_rule cr) e = evaluate_program execute (cr_main_program cr) e"
  using load_rule_file_ok [OF assms]
  by (simp add: evaluate_rule_condition_def evaluate_program_def)

definition demo_rule :: rule where
  "demo_rule = (rule_default 0 0)\<lparr> ru_id := ''r1'', ru_condition := ''true'', ru_enabled := True \<rparr>"

lemma demo_rule_simps [simp]:
  "ru_id demo_rule = ''r1''" "ru_condition demo_rule = ''true''" "ru_enabled demo_rule = True"
  "ru_and_conditions demo_rule = []" "ru_or_conditions demo_rule = []" "ru_not_conditions demo_rule = []"
  "ru_suppressions demo_rule = []" "ru_risk demo_rule = rule_risk_default"
  by (simp_all add: demo_rule_def rule_default_def)

definition demo_compile :: "string \<Rightarrow> string + string" where
  "demo_compile s = Inr s"

definition demo_execute :: "string \<Rightarrow> activation \<Rightarrow> string + cel_value" where
  "demo_execute p a = (if p = ''true'' then Inr (CBool True) else Inl ''undeclared reference'')"

lemma demo_load:
  "load_rule_file demo_compile (\<lambda>_. Inr demo_rule) 0 (Inr ''text'') = Inr \<lparr> cr_rule = demo_rule,
     cr_main_program = preprocess_cel ''true'', cr_and_programs = [], cr_or_programs = [], cr_not_programs = [],
     cr_multiplier_programs = [], cr_suppression_programs = [], cr_compile_time_ms = 0 \<rparr>"
  by (simp add: load_rule_file_def demo_compile_def rule_risk_default_def)

lemma loaded_rule_agrees_with_condition_witness:
  "evaluate_rule_condition demo_compile demo_execute demo_rule event_default
     = evaluate_program demo_execute (preprocess_cel ''true'') event_default"
  using loaded_rule_agrees_with_condition [OF demo_load, of demo_execute event_default] by simp

text \<open>The files of a load, in order, and the state of the table while they are read.\<close>

fun dir_files :: "rules_dir \<Rightarrow> (string \<times> (string + string)) list" where
  "dir_files (DirEntries entries _) = filter (\<lambda>(name, c). is_rule_file name) entries"
| "dir_files _ = []"

definition table_ok ::
    "(string + string \<Rightarrow> string + 'p compiled_rule) \<Rightarrow> (string \<times> (string + string)) list
      \<Rightarrow> 'p load_state \<Rightarrow> bool" where
  "table_ok load files st \<longleftrightarrow> distinct (map fst (fst st))
     \<and> (\<forall>(k, r) \<in> set (fst st). k = ru_id (cr_rule r) \<and> (\<exists>(n, c) \<in> set files. load c = Inr r))
     \<and> (\<forall>(n, c) \<in> set files. \<forall>r. load c = Inr r \<longrightarrow> ru_id (cr_rule r) \<in> set (map fst (fst st)))
     \<and> (snd st = [] \<longleftrightarrow> (\<forall>(n, c) \<in> set files. \<exists>r. load c = Inr r))"

lemma table_ok_start: "table_ok load [] ([], [])"
  by (simp add: table_ok_def)

lemma update_pairs:
  "(k', r') \<in> set (AList.update k r al) \<Longrightarrow> (k' = k \<and> r' = r) \<or> (k', r') \<in> set al"
  by (induction al) (auto split: if_splits)

lemma table_ok_entry:
  assumes "table_ok load files st"
  shows "table_ok load (files @ (if is_rule_file name then [(name, content)] else []))
           (load_entry load st (name, content))"
proof (cases "is_rule_file name")
  case False
  with assms show ?thesis by (simp add: load_entry_def case_prod_beta)
next
  case name: True
  obtain rules errors where st: "st = (rules, errors)" by force
  show ?thesis
  proof (cases "load content")
    case (Inl e)
    then have "load_entry load st (name, content) = (rules, errors @ [e])"
      using name by (simp add: load_entry_def st)
    with assms st name Inl show ?thesis by (auto simp: table_ok_def)
  next
    case (Inr r)
    let ?al = "AList.update (ru_id (cr_rule r)) r rules"
    from Inr have l: "load_entry load st (name, content) = (?al, errors)"
      using name by (simp add: load_entry_def st)
    have old: "distinct (map fst rules)"
        "\<And>k r. (k, r) \<in> set rules \<Longrightarrow> k = ru_id (cr_rule r) \<and> (\<exists>(n, c) \<in> set files. load c = Inr r)"
        "\<And>n c r. (n, c) \<in> set files \<Longrightarrow> load c = Inr r \<Longrightarrow> ru_id (cr_rule r) \<in> set (map fst rules)"
        "errors = [] \<longleftrightarrow> (\<forall>(n, c) \<in> set files. \<exists>r. load c = Inr r)"
      using assms unfolding table_ok_def st fst_conv snd_conv by blast+
    have "\<forall>(k, q) \<in> set ?al. k = ru_id (cr_rule q) \<and> (\<exists>(n, c) \<in> set (files @ [(name, content)]). load c = Inr q)"
    proof (clarify)
      fix k q assume "(k, q) \<in> set ?al"
      from update_pairs [OF this] show "k = ru_id (cr_rule q) \<and>
          (\<exists>(n, c) \<in> set (files @ [(name, content)]). load c = Inr q)"
        using old(2) [of k q] Inr by auto
    qed
    moreover have "\<forall>(n, c) \<in> set (files @ [(name, content)]). \<forall>q. load c = Inr q \<longrightarrow>
        ru_id (cr_rule q) \<in> set (map fst ?al)"
      using old(3) Inr by (auto simp: dom_update)
    moreover have "distinct (map fst ?al)"
      using old(1) by (rule distinct_update)
    moreover have "errors = [] \<longleftrightarrow> (\<forall>(n, c) \<in> set (files @ [(name, content)]). \<exists>r. load c = Inr r)"
      using old(4) Inr by auto
    ultimately show ?thesis
      using name by (simp add: table_ok_def l)
  qed
qed

lemma table_ok_entries:
  assumes "table_ok load files st"
  shows "table_ok load (files @ filter (\<lambda>(name, c). is_rule_file name) entries)
           (foldl (load_entry load) st entries)"
  using assms
proof (induction entries arbitrary: files st)
  case (Cons x xs)
  obtain name content where x: "x = (name, content)" by force
  from Cons.IH [OF table_ok_entry [OF Cons.prems, of name content]] show ?case
    by (cases "is_rule_file name") (simp_all add: x)
qed simp

lemma table_ok_dirs:
  assumes "table_ok load files st" and "load_dirs load dirs st = Inr st'"
  shows "table_ok load (files @ concat (map dir_files dirs)) st'"
  using assms
proof (induction load dirs st arbitrary: files rule: load_dirs.induct)
  case (4 load entries broken ds st)
  then have "\<not> broken" "load_dirs load ds (foldl (load_entry load) st entries) = Inr st'"
    by (auto simp: Let_def split: if_splits)
  with 4(1) [OF refl _ table_ok_entries [OF 4(2), of entries]] show ?case by simp
qed auto

text \<open>
  C27: Loading is all or nothing for the engine and lenient for the files: when it fails the
  engine keeps its rules; when it succeeds every rule it holds comes from one of the rule
  files and is filed under its own identifier, no identifier occurs twice, every rule file
  that loads is represented, and a bad file costs only itself unless no file loads at all.
\<close>

theorem load_rules_all_or_nothing:
  "(fst (load_rules load dirs g) = Inr () \<longrightarrow>
     distinct (map fst (rn_rules (snd (load_rules load dirs g))))
     \<and> (\<forall>(k, r) \<in> set (rn_rules (snd (load_rules load dirs g))). k = ru_id (cr_rule r)
          \<and> (\<exists>(n, c) \<in> set (concat (map dir_files dirs)). load c = Inr r))
     \<and> (\<forall>(n, c) \<in> set (concat (map dir_files dirs)). \<forall>r. load c = Inr r \<longrightarrow>
          ru_id (cr_rule r) \<in> set (map fst (rn_rules (snd (load_rules load dirs g)))))
     \<and> ((\<forall>(n, c) \<in> set (concat (map dir_files dirs)). \<exists>r. load c = Inr r)
          \<or> rn_rules (snd (load_rules load dirs g)) \<noteq> []))
   \<and> (fst (load_rules load dirs g) \<noteq> Inr () \<longrightarrow> snd (load_rules load dirs g) = g)"
proof (cases "load_dirs load dirs ([], [])")
  case (Inl e)
  then show ?thesis by (simp add: load_rules_def)
next
  case (Inr st)
  obtain rules errors where st: "st = (rules, errors)" by force
  from table_ok_dirs [OF table_ok_start Inr] have ok: "table_ok load (concat (map dir_files dirs)) (rules, errors)"
    by (simp add: st)
  show ?thesis
  proof (cases "errors \<noteq> [] \<and> rules = []")
    case True
    with Inr st show ?thesis by (simp add: load_rules_def)
  next
    case False
    then have "fst (load_rules load dirs g) = Inr ()" "rn_rules (snd (load_rules load dirs g)) = rules"
      using Inr st by (auto simp: load_rules_def)
    with ok False show ?thesis
      unfolding table_ok_def fst_conv snd_conv by blast
  qed
qed

lemma load_rules_all_or_nothing_witness:
  "let load = load_rule_file demo_compile (\<lambda>_. Inr demo_rule) 0;
       g = snd (load_rules load [DirEntries [(''a.yaml'', Inr ''text''), (''b.yaml'', Inl ''denied'')] False]
                  rule_engine_initial)
   in rn_rules g \<noteq> [] \<and> (\<forall>(k, r) \<in> set (rn_rules g). k = ru_id (cr_rule r))"
proof -
  let ?load = "load_rule_file demo_compile (\<lambda>_. Inr demo_rule) 0"
  let ?dirs = "[DirEntries [(''a.yaml'', Inr ''text''), (''b.yaml'', Inl ''denied'')] False]"
  have ext: "is_rule_file ''a.yaml''" "is_rule_file ''b.yaml''"
    by (simp_all add: is_rule_file_def path_extension_def rfind_char_def)
  have bad: "?load (Inl ''denied'') = Inl ''Failed to read rule file''"
    by (simp add: load_rule_file_def)
  have "fst (load_rules ?load ?dirs rule_engine_initial) = Inr ()"
    by (simp add: load_rules_def load_entry_def ext demo_load bad)
  then show ?thesis
    using load_rules_all_or_nothing [of ?load ?dirs rule_engine_initial] ext demo_load
    by (auto simp: Let_def)
qed

section \<open>The activation is of bounded depth\<close>

fun cel_depth :: "cel_value \<Rightarrow> nat" where
  "cel_depth (CList vs) = Suc (fold max (map cel_depth vs) 0)"
| "cel_depth (CMap kvs) = Suc (fold max (map (\<lambda>(k, v). cel_depth v) kvs) 0)"
| "cel_depth _ = 1"

lemma fold_max_le: "fold max xs a \<le> n \<longleftrightarrow> a \<le> n \<and> (\<forall>x \<in> set xs. x \<le> (n :: nat))"
  by (induction xs arbitrary: a) auto

lemma cel_strings_depth [simp]: "cel_depth (cel_strings xs) \<le> 2"
  by (simp add: cel_strings_def fold_max_le)

lemma cel_leaf_depth [simp]: "cel_depth (cel_int w) = 1" "cel_depth (cel_uint u) = 1"
  by (simp_all add: cel_int_def cel_uint_def)

abbreviation shallow :: "nat \<Rightarrow> (string \<times> cel_value) list \<Rightarrow> bool" where
  "shallow n kvs \<equiv> list_all (\<lambda>(k, v). cel_depth v \<le> n) kvs"

lemma cel_depth_map: "shallow n kvs \<Longrightarrow> cel_depth (CMap kvs) \<le> Suc n"
  by (auto simp: fold_max_le list_all_iff)

lemma opt_field_depth: "(\<And>y. cel_depth (f y) \<le> n) \<Longrightarrow> shallow n (opt_field name f x)"
  by (cases x) (simp_all add: opt_field_def)

lemma small_maps [simp]:
  "cel_depth (user_to_cel_value u) = 2" "cel_depth (signing_to_cel_value s) = 2"
  "cel_depth (correlation_to_cel_value c) = 2"
  by (simp_all add: user_to_cel_value_def signing_to_cel_value_def correlation_to_cel_value_def)

lemma process_depth: "cel_depth (process_to_cel_value p d) \<le> 3 + (6 - d)"
proof (induction p d rule: process_to_cel_value.induct)
  case (1 pid ppid name path cmd cwd user integrity signing mitre depth sha parent d)
  show ?case
  proof (cases "5 < d")
    case True
    then show ?thesis by simp
  next
    case False
    let ?n = "3 + (5 - d)"
    have "shallow ?n (case parent of None \<Rightarrow> [] | Some p \<Rightarrow> [(''parent'', process_to_cel_value p (Suc d))])"
      using 1 [OF False] by (cases parent) auto
    moreover have "shallow ?n (opt_field ''user'' user_to_cel_value user)"
      "shallow ?n (opt_field ''signing'' signing_to_cel_value signing)"
      by (simp_all add: opt_field_depth)
    moreover have "cel_depth (cel_strings mitre) \<le> ?n"
      using cel_strings_depth [of mitre] by linarith
    ultimately have "cel_depth (process_to_cel_value (ProcessContext pid ppid name path cmd cwd user
        integrity signing mitre depth sha parent) d) \<le> Suc ?n"
      using False by (simp only: process_to_cel_value.simps if_False) (rule cel_depth_map, simp)
    then show ?thesis using False by linarith
  qed
qed

lemma process_depth_0: "cel_depth (process_to_cel_value p 0) \<le> 9"
  using process_depth [of p 0] by simp

lemma payload_depth: "cel_depth (snd (payload_to_cel p)) \<le> 10"
proof (cases p)
  case (ProcessPayload e)
  have "shallow 9 (opt_field ''target'' (\<lambda>t. process_to_cel_value t 0) (pe_target e))"
    by (rule opt_field_depth) (rule process_depth_0)
  then have "cel_depth (process_payload_to_cel e) \<le> Suc 9"
    unfolding process_payload_to_cel_def by (intro cel_depth_map) simp
  then show ?thesis by (simp add: ProcessPayload)
qed (simp_all add: network_payload_to_cel_def file_payload_to_cel_def registry_payload_to_cel_def
    usb_payload_to_cel_def browser_payload_to_cel_def startup_payload_to_cel_def generic_payload_to_cel_def)

text \<open>
  However deep the process tree of an event is, the value handed to the CEL programs is
  at most eleven levels deep.
\<close>

theorem activation_depth_bounded: "cel_depth (event_to_cel_value e) \<le> 11"
proof -
  have "shallow 10 (opt_field ''process'' (\<lambda>p. process_to_cel_value p 0) (ev_process e))"
    by (rule opt_field_depth) (rule order_trans [OF process_depth_0], simp)
  moreover have "shallow 10 (opt_field ''correlation'' correlation_to_cel_value (ev_correlation e))"
    "shallow 10 (opt_field ''timestamp_epoch'' (\<lambda>t. CInt (ts_seconds t)) (ev_timestamp e))"
    "shallow 10 (opt_field ''ingest_timestamp_epoch'' (\<lambda>t. CInt (ts_seconds t)) (ev_ingest_timestamp e))"
    by (simp_all add: opt_field_depth)
  moreover have "shallow 10 (case ev_payload e of None \<Rightarrow> []
        | Some p \<Rightarrow> (case payload_to_cel p of (kind, data) \<Rightarrow>
            [(''payload_type'', CString kind), (''payload'', data)]))"
    using payload_depth by (cases "ev_payload e") (simp_all add: case_prod_beta)
  moreover have "cel_depth (cel_strings (ev_tags e)) \<le> 10"
    using cel_strings_depth [of "ev_tags e"] by linarith
  ultimately have "cel_depth (event_to_cel_value e) \<le> Suc 10"
    unfolding event_to_cel_value_def by (intro cel_depth_map) simp
  then show ?thesis by simp
qed

text \<open>The documentation of the loader promises to accept a rule without the \<open>rule:\<close> key; the
  code only ever asks for the wrapped form, so a file that fails that parse is an error.\<close>

lemma flat_rule_file_rejected:
  "parse_yaml text = Inl err \<Longrightarrow>
   load_rule_file compile parse_yaml ms (Inr text) = Inl ''Failed to parse rule YAML (expected `rule:` wrapper)''"
  by (simp add: load_rule_file_def)

end
