(* ===== verification/Sigma.thy ===== *)
theory Sigma
  imports Rules Errors Risk
begin

text \<open>
  The Sigma importer of crates/sentinel-sigma/src/lib.rs: log sources, levels, fields and
  detection conditions to a rule of this program.  The parsed YAML is the input; the random
  part of a generated id and the time are arguments.
\<close>

section \<open>Sigma rules\<close>

datatype yaml =
  YNull
| YBool bool
| YNumber string
| YString string
| YSequence "yaml list"
| YMapping "(yaml \<times> yaml) list"

definition yaml_as_str :: "yaml \<Rightarrow> string option" where
  "yaml_as_str v = (case v of YString s \<Rightarrow> Some s | _ \<Rightarrow> None)"

definition yaml_as_mapping :: "yaml \<Rightarrow> (yaml \<times> yaml) list option" where
  "yaml_as_mapping v = (case v of YMapping kvs \<Rightarrow> Some kvs | _ \<Rightarrow> None)"

record sigma_log_source =
  ls_category :: "string option"
  ls_product :: "string option"
  ls_service :: "string option"

record sigma_detection =
  sd_fields :: "string \<rightharpoonup> yaml"
  sd_condition :: string

record sigma_rule =
  sr_title :: string
  sr_id :: string
  sr_status :: string
  sr_description :: "string option"
  sr_author :: string
  sr_date :: string
  sr_tags :: "string list option"
  sr_logsource :: "sigma_log_source option"
  sr_detection :: sigma_detection
  sr_falsepositives :: "yaml list option"
  sr_level :: "string option"

record sentinel_mitre_mapping =
  sm_technique :: string
  sm_name :: string
  sm_tactic :: string

record sentinel_risk =
  sk_base_score :: u32
  sk_confidence :: f64
  sk_multipliers :: "json list"

record sentinel_rule_inner =
  sx_id :: string
  sx_version :: u32
  sx_name :: string
  sx_description :: string
  sx_author :: string
  sx_created :: string
  sx_modified :: string
  sx_enabled :: bool
  sx_category :: string
  sx_subcategory :: "string option"
  sx_mitre :: "sentinel_mitre_mapping list"
  sx_severity :: string
  sx_risk :: sentinel_risk
  sx_condition :: string
  sx_and_conditions :: "string list"
  sx_or_conditions :: "string list"
  sx_not_conditions :: "string list"
  sx_actions :: "json list"
  sx_suppressions :: "json list"
  sx_tests :: "json list"

section \<open>Fields and levels\<close>

definition map_logsource_to_event_type :: "sigma_log_source option \<Rightarrow> string" where
  "map_logsource_to_event_type logsource =
     (case logsource of None \<Rightarrow> ''sentinel.process.create''
      | Some ls \<Rightarrow>
          if ls_category ls = Some ''process_creation'' then ''sentinel.process.create''
          else if ls_category ls = Some ''network_connection'' then ''sentinel.network.connect''
          else if ls_category ls = Some ''file_event'' \<or> ls_category ls = Some ''file_change''
            then ''sentinel.file.modify''
          else if ls_category ls = Some ''registry_event'' \<or> ls_category ls = Some ''registry_add''
              \<or> ls_category ls = Some ''registry_delete'' then ''sentinel.registry.set_value''
          else if ls_category ls = Some ''dns_query'' then ''sentinel.network.connect''
          else if ls_category ls = Some ''image_load'' then ''sentinel.process.create''
          else if ls_category ls = Some ''pipe_created'' then ''sentinel.process.create''
          else if ls_category ls = Some ''wmi_event'' then ''sentinel.process.create''
          else if ls_category ls = Some ''create_remote_thread'' then ''sentinel.process.inject''
          else if ls_category ls = Some ''driver_load'' then ''sentinel.process.create''
          else ''sentinel.process.create'')"

definition map_level_to_severity :: "string option \<Rightarrow> string \<times> u32" where
  "map_level_to_severity level =
     (if level = Some ''critical'' then (''Critical'', 90)
      else if level = Some ''high'' then (''Error'', 75)
      else if level = Some ''medium'' then (''Warning'', 55)
      else if level = Some ''low'' then (''Notice'', 35)
      else if level = Some ''informational'' then (''Info'', 20)
      else (''Warning'', 50))"

definition cel_field_of :: "string \<Rightarrow> string option" where
  "cel_field_of field =
     (if field = ''Image'' then Some ''event.process.name''
      else if field = ''CommandLine'' then Some ''event.process.command_line''
      else if field = ''ParentImage'' then Some ''event.process.name''
      else if field = ''ParentCommandLine'' then Some ''event.process.command_line''
      else if field = ''ProcessId'' then Some ''event.process.pid''
      else if field = ''DestinationIp'' \<or> field = ''dst_ip'' then Some ''event.network.remote_addr''
      else if field = ''DestinationPort'' \<or> field = ''dst_port'' then Some ''event.network.remote_port''
      else if field = ''SourceIp'' \<or> field = ''src_ip'' then Some ''event.network.local_addr''
      else if field = ''SourcePort'' \<or> field = ''src_port'' then Some ''event.network.local_port''
      else if field = ''TargetFilename'' \<or> field = ''ImagePath'' then Some ''event.process.path''
      else if field = ''User'' then Some ''event.process.user.username''
      else if field = ''OriginalFileName'' then Some ''event.process.name''
      else if field = ''Description'' then Some ''event.process.name''
      else if field = ''Company'' then Some ''event.process.name''
      else if field = ''Product'' then Some ''event.process.name''
      else if field = ''Signature'' then Some ''event.process.signing.is_signed''
      else if field = ''IntegrityLevel'' then Some ''event.process.integrity_level''
      else None)"

definition dq :: string where
  "dq = [CHR 0x22]"

definition cel_contains :: "string \<Rightarrow> string \<Rightarrow> string" where
  "cel_contains f v = f @ ''.contains('' @ dq @ v @ dq @ '')''"

definition cel_equals :: "string \<Rightarrow> string \<Rightarrow> string" where
  "cel_equals f v = f @ '' == '' @ v"

text \<open>\<open>str::parse::<i64>\<close> succeeds: an optional sign, digits, and the value in range.\<close>

definition parses_i64 :: "string \<Rightarrow> bool" where
  "parses_i64 s =
     (case s of [] \<Rightarrow> False
      | c # cs \<Rightarrow>
          if c = CHR ''-'' then cs \<noteq> [] \<and> list_all is_digit cs \<and> digits_value cs \<le> 2 ^ 63
          else parse_nat (2 ^ 63) s \<noteq> None)"

definition map_sigma_field_to_cel :: "string \<Rightarrow> string \<Rightarrow> string \<Rightarrow> string option" where
  "map_sigma_field_to_cel field operand val =
     (case cel_field_of field of None \<Rightarrow> None
      | Some f \<Rightarrow>
          let v = trim_matches (\<lambda>c. c = CHR 0x27) val in
          if operand = ''contains'' then Some (cel_contains f v)
          else if operand = ''endswith'' then Some (cel_contains f v)
          else if operand = ''startswith'' then Some (cel_contains f v)
          else if v = ''true'' \<or> v = ''false'' then Some (cel_equals f v)
          else if parses_i64 v then Some (cel_equals f v)
          else Some (cel_contains f v))"

section \<open>Conditions\<close>

text \<open>The condition of one field of a selection: a string, or a sequence of strings as
  alternatives; every other kind of value is skipped.\<close>

definition field_condition :: "yaml \<times> yaml \<Rightarrow> string option" where
  "field_condition kv =
     (let field_name = (case yaml_as_str (fst kv) of Some s \<Rightarrow> s | None \<Rightarrow> []);
          parts = str_split (\<lambda>c. c = CHR ''|'') field_name;
          field = hd parts;
          operand = (if 1 < length parts then parts ! 1 else ''contains'')
      in case snd kv of
           YString s \<Rightarrow> map_sigma_field_to_cel field operand s
         | YSequence vals \<Rightarrow>
             (let ors = List.map_filter
                    (\<lambda>v. case yaml_as_str v of None \<Rightarrow> None
                         | Some s \<Rightarrow> map_sigma_field_to_cel field operand s) vals
              in if ors \<noteq> [] then Some (''('' @ str_join '' || '' ors @ '')'') else None)
         | _ \<Rightarrow> None)"

definition selection_condition :: "yaml \<Rightarrow> string option" where
  "selection_condition sel =
     (case yaml_as_mapping sel of None \<Rightarrow> None
      | Some kvs \<Rightarrow>
          (let subs = List.map_filter field_condition kvs
           in if subs \<noteq> [] then Some (''('' @ str_join '' && '' subs @ '')'') else None))"

text \<open>The words of a condition that are looked up as selections.\<close>

definition condition_words :: "string \<Rightarrow> string list" where
  "condition_words cond =
     filter (\<lambda>w. w \<noteq> [] \<and> w \<noteq> ''and'' \<and> w \<noteq> ''or'' \<and> w \<noteq> ''not'')
       (map (trim_matches (\<lambda>c. is_whitespace c \<or> c = CHR ''('' \<or> c = CHR '')''))
         (filter (\<lambda>p. p \<noteq> [] \<and> p \<noteq> ''|'' \<and> p \<noteq> ''not'' \<and> p \<noteq> ''1'' \<and> p \<noteq> ''of'')
           (str_split (\<lambda>c. c = CHR '' '' \<or> c = CHR ''('' \<or> c = CHR '')'' \<or> c = CHR ''&'') cond)))"

definition build_cel_condition :: "sigma_detection \<Rightarrow> string" where
  "build_cel_condition d =
     (let cel_parts = List.map_filter
            (\<lambda>w. case sd_fields d w of None \<Rightarrow> None | Some sel \<Rightarrow> selection_condition sel)
            (condition_words (sd_condition d))
      in if cel_parts = [] then [] else str_join '' && '' cel_parts)"

section \<open>Tags\<close>

definition strip_prefix :: "string \<Rightarrow> string \<Rightarrow> string option" where
  "strip_prefix p s = (if starts_with s p then Some (drop (length p) s) else None)"

fun collect_techniques :: "string list \<Rightarrow> string list \<Rightarrow> string list" where
  "collect_techniques [] seen = []"
| "collect_techniques (tag # tags) seen =
     (case strip_prefix ''attack.t'' tag of None \<Rightarrow> collect_techniques tags seen
      | Some tech \<Rightarrow>
          let clean = str_replace tech ''.'' ''.'' in
          if clean \<in> set seen then collect_techniques tags seen
          else clean # collect_techniques tags (clean # seen))"

definition tactic_map :: "(string \<times> string) list" where
  "tactic_map = [(''t1059'', ''Execution''), (''t1203'', ''Execution''), (''t1204'', ''Execution''),
     (''t1569'', ''Execution''), (''t1547'', ''Persistence''), (''t1053'', ''Persistence''),
     (''t1543'', ''Persistence''), (''t1068'', ''Privilege Escalation''),
     (''t1548'', ''Privilege Escalation''), (''t1055'', ''Defense Evasion''),
     (''t1218'', ''Defense Evasion''), (''t1070'', ''Defense Evasion''), (''t1036'', ''Defense Evasion''),
     (''t1562'', ''Defense Evasion''), (''t1003'', ''Credential Access''), (''t1552'', ''Credential Access''),
     (''t1082'', ''Discovery''), (''t1083'', ''Discovery''), (''t1057'', ''Discovery''),
     (''t1016'', ''Discovery''), (''t1021'', ''Lateral Movement''), (''t1046'', ''Discovery''),
     (''t1135'', ''Discovery''), (''t1560'', ''Collection''), (''t1056'', ''Collection''),
     (''t1074'', ''Collection''), (''t1071'', ''Command and Control''), (''t1105'', ''Command and Control''),
     (''t1090'', ''Command and Control''), (''t1041'', ''Exfiltration''), (''t1048'', ''Exfiltration''),
     (''t1485'', ''Impact''), (''t1486'', ''Impact''), (''t1490'', ''Impact'')]"

definition map_mitre_tags :: "string list \<Rightarrow> sentinel_mitre_mapping list" where
  "map_mitre_tags tags =
     map (\<lambda>tech.
        let prefix = take 4 (str_replace tech ''.'' []) in
        \<lparr> sm_technique = tech, sm_name = ''Technique '' @ tech,
          sm_tactic = (case map_of tactic_map (''t'' @ prefix) of Some t \<Rightarrow> t | None \<Rightarrow> []) \<rparr>)
       (collect_techniques tags [])"

section \<open>Conversion\<close>

definition convert_sigma_to_sentinel :: "string \<Rightarrow> string \<Rightarrow> sigma_rule \<Rightarrow> sentinel_rule_inner" where
  "convert_sigma_to_sentinel uuid now sigma =
     (let rid = (if sr_id sigma = [] then ''sigma-'' @ hd (str_split (\<lambda>c. c = CHR ''-'') uuid)
                 else sr_id sigma);
          event_type = map_logsource_to_event_type (sr_logsource sigma);
          (sev, base_score) = map_level_to_severity (sr_level sigma);
          cel = build_cel_condition (sr_detection sigma);
          tags = (case sr_tags sigma of Some t \<Rightarrow> t | None \<Rightarrow> []);
          mitre = map_mitre_tags tags;
          full = (if cel = [] then ''event.type == '' @ dq @ event_type @ dq
                  else ''event.type == '' @ dq @ event_type @ dq @ '' && ('' @ cel @ '')'')
      in \<lparr> sx_id = ''sigma-'' @ rid, sx_version = 1, sx_name = sr_title sigma,
           sx_description = (case sr_description sigma of Some d \<Rightarrow> d | None \<Rightarrow> sr_title sigma),
           sx_author = sr_author sigma, sx_created = now, sx_modified = now,
           sx_enabled = (sr_status sigma \<noteq> ''deprecated''),
           sx_category = (case mitre of [] \<Rightarrow> ''general''
              | m # _ \<Rightarrow> str_replace (to_lowercase (sm_tactic m)) '' '' ''-''),
           sx_subcategory = None, sx_mitre = mitre, sx_severity = sev,
           sx_risk = \<lparr> sk_base_score = base_score, sk_confidence = f64_of (8 / 10), sk_multipliers = [] \<rparr>,
           sx_condition = full, sx_and_conditions = [], sx_or_conditions = [], sx_not_conditions = [],
           sx_actions = [], sx_suppressions = [], sx_tests = [] \<rparr>)"

text \<open>\<open>import_sigma_file\<close> and \<open>import_sigma_dir\<close>: reading and parsing are inputs; a file that
  fails is reported and skipped.\<close>

definition import_sigma_file ::
    "(string \<Rightarrow> string + sigma_rule) \<Rightarrow> string \<Rightarrow> string \<Rightarrow> string + string \<Rightarrow> string + sentinel_rule_inner" where
  "import_sigma_file parse_yaml uuid now content =
     bind_result content (\<lambda>text. bind_result (parse_yaml text) (\<lambda>s. Inr (convert_sigma_to_sentinel uuid now s)))"

definition sigma_extension :: "string \<Rightarrow> string option" where
  "sigma_extension name =
     (case rfind_char (\<lambda>c. c = CHR ''.'') name of None \<Rightarrow> None
      | Some i \<Rightarrow> if i = 0 \<or> name = ''..'' then None else Some (drop (Suc i) name))"

definition import_sigma_dir ::
    "(string \<Rightarrow> string + sigma_rule) \<Rightarrow> (string \<Rightarrow> string \<times> string) \<Rightarrow> (string \<times> (string + string)) list option
      \<Rightarrow> string + sentinel_rule_inner list" where
  "import_sigma_dir parse_yaml fresh entries =
     (case entries of None \<Rightarrow> Inl ''read_dir''
      | Some es \<Rightarrow> Inr (List.map_filter
          (\<lambda>(name, content).
             if sigma_extension name = Some ''yml'' \<or> sigma_extension name = Some ''yaml''
             then case import_sigma_file parse_yaml (fst (fresh name)) (snd (fresh name)) content of
                    Inr r \<Rightarrow> Some r | Inl _ \<Rightarrow> None
             else None) es))"

section \<open>Results\<close>

lemma map_level_base: "unat (snd (map_level_to_severity level)) \<le> 90"
  by (simp add: map_level_to_severity_def)

lemma convert_simps:
  "sx_severity (convert_sigma_to_sentinel uuid now s) = fst (map_level_to_severity (sr_level s))"
  "sk_base_score (sx_risk (convert_sigma_to_sentinel uuid now s)) = snd (map_level_to_severity (sr_level s))"
  "sk_confidence (sx_risk (convert_sigma_to_sentinel uuid now s)) = f64_of (8 / 10)"
  "sx_condition (convert_sigma_to_sentinel uuid now s) =
     (let ty = map_logsource_to_event_type (sr_logsource s); cel = build_cel_condition (sr_detection s)
      in if cel = [] then ''event.type == '' @ dq @ ty @ dq
         else ''event.type == '' @ dq @ ty @ dq @ '' && ('' @ cel @ '')'')"
  by (simp_all add: convert_sigma_to_sentinel_def Let_def case_prod_beta)

lemma severity_names:
  "severity_deserialize ''Critical'' = Some Critical" "severity_deserialize ''Error'' = Some Error"
  "severity_deserialize ''Warning'' = Some Warning" "severity_deserialize ''Notice'' = Some Notice"
  "severity_deserialize ''Info'' = Some Info"
  by code_simp+

lemma map_level_names:
  "fst (map_level_to_severity level) \<in> {''Critical'', ''Error'', ''Warning'', ''Notice'', ''Info''}"
  by (simp add: map_level_to_severity_def)

text \<open>
  The severity name the importer writes is always one that the rule loader reads, for
  every level of a Sigma rule, unknown and missing ones included.
\<close>

theorem sigma_severity_readable:
  "severity_deserialize (sx_severity (convert_sigma_to_sentinel uuid now s))
     \<in> Some ` {Critical, Error, Warning, Notice, Info}"
  using map_level_names [of "sr_level s"] by (auto simp: convert_simps severity_names)

text \<open>A plain word of a detection condition: the name of a selection.\<close>

definition plain_word :: "string \<Rightarrow> bool" where
  "plain_word w \<longleftrightarrow> w \<noteq> []
     \<and> list_all (\<lambda>c. \<not> is_whitespace c \<and> c \<noteq> CHR ''('' \<and> c \<noteq> CHR '')'' \<and> c \<noteq> CHR ''&'') w
     \<and> w \<notin> {''and'', ''or'', ''not'', ''|'', ''1'', ''of''}"

abbreviation separator :: "char \<Rightarrow> bool" where
  "separator c \<equiv> c = CHR '' '' \<or> c = CHR ''('' \<or> c = CHR '')'' \<or> c = CHR ''&''"

lemma plain_word_chars:
  assumes "plain_word w" and "c \<in> set w"
  shows "\<not> separator c" and "\<not> (is_whitespace c \<or> c = CHR ''('' \<or> c = CHR '')'')"
  using assms by (auto simp: plain_word_def list_all_iff is_whitespace_def)

lemma split_word: "plain_word w \<Longrightarrow> str_split separator (w @ CHR '' '' # s) = w # str_split separator s"
  by (rule str_split_append, erule (1) plain_word_chars(1), simp)

lemma split_last: "plain_word w \<Longrightarrow> str_split separator w = [w]"
  by (rule str_split_single, erule (1) plain_word_chars(1))

lemma trim_word: "plain_word w \<Longrightarrow> trim_matches (\<lambda>c. is_whitespace c \<or> c = CHR ''('' \<or> c = CHR '')'') w = w"
  by (rule trim_matches_none, erule (1) plain_word_chars(2))

lemma keyword_splits:
  "str_split separator (''and '' @ s) = ''and'' # str_split separator s"
  "str_split separator (''or '' @ s) = ''or'' # str_split separator s"
  "str_split separator (''not '' @ s) = ''not'' # str_split separator s"
  using str_split_append [of "''and''" separator "CHR '' ''" s]
    str_split_append [of "''or''" separator "CHR '' ''" s]
    str_split_append [of "''not''" separator "CHR '' ''" s] by simp_all

lemma keyword_trims:
  "trim_matches (\<lambda>c. is_whitespace c \<or> c = CHR ''('' \<or> c = CHR '')'') ''and'' = ''and''"
  "trim_matches (\<lambda>c. is_whitespace c \<or> c = CHR ''('' \<or> c = CHR '')'') ''or'' = ''or''"
  by (simp_all add: trim_matches_def is_whitespace_def)

lemma condition_words_two:
  assumes "plain_word a" and "plain_word b"
  shows "condition_words (a @ '' and '' @ b) = [a, b]"
    and "condition_words (a @ '' or '' @ b) = [a, b]"
    and "condition_words (a @ '' and not '' @ b) = [a, b]"
proof -
  have ne: "a \<noteq> [] \<and> a \<noteq> ''|'' \<and> a \<noteq> ''not'' \<and> a \<noteq> ''1'' \<and> a \<noteq> ''of'' \<and> a \<noteq> ''and'' \<and> a \<noteq> ''or''"
    "b \<noteq> [] \<and> b \<noteq> ''|'' \<and> b \<noteq> ''not'' \<and> b \<noteq> ''1'' \<and> b \<noteq> ''of'' \<and> b \<noteq> ''and'' \<and> b \<noteq> ''or''"
    using assms by (auto simp: plain_word_def)
  note rules = condition_words_def split_last trim_word keyword_trims
  have "str_split separator (a @ '' and '' @ b) = [a, ''and'', b]"
    using split_word [OF assms(1), of "''and '' @ b"] keyword_splits(1) [of b] split_last [OF assms(2)]
    by simp
  then show "condition_words (a @ '' and '' @ b) = [a, b]"
    using ne assms by (simp add: rules)
  have "str_split separator (a @ '' or '' @ b) = [a, ''or'', b]"
    using split_word [OF assms(1), of "''or '' @ b"] keyword_splits(2) [of b] split_last [OF assms(2)]
    by simp
  then show "condition_words (a @ '' or '' @ b) = [a, b]"
    using ne assms by (simp add: rules)
  have "str_split separator (a @ '' and not '' @ b) = [a, ''and'', ''not'', b]"
    using split_word [OF assms(1), of "''and not '' @ b"] keyword_splits(1) [of "''not '' @ b"]
      keyword_splits(3) [of b] split_last [OF assms(2)]
    by simp
  then show "condition_words (a @ '' and not '' @ b) = [a, b]"
    using ne assms by (simp add: rules)
qed

lemma convert_detection_cong:
  "build_cel_condition d = build_cel_condition d' \<Longrightarrow>
   convert_sigma_to_sentinel uuid now (s\<lparr> sr_detection := d \<rparr>)
     = convert_sigma_to_sentinel uuid now (s\<lparr> sr_detection := d' \<rparr>)"
  by (cases "sr_description s"; cases "sr_tags s")
    (simp_all add: convert_sigma_to_sentinel_def Let_def case_prod_beta)

text \<open>
  The importer does not read the operators of a detection condition: for any two
  selection names the conditions "a and b", "a or b" and "a and not b" give the same
  rule, in which both selections are required.
\<close>

theorem sigma_operators_ignored:
  assumes "plain_word a" and "plain_word b"
    and "d = sr_detection s" and "op \<in> {'' or '', '' and not ''}"
  shows "convert_sigma_to_sentinel uuid now (s\<lparr> sr_detection := d\<lparr> sd_condition := a @ op @ b \<rparr> \<rparr>)
       = convert_sigma_to_sentinel uuid now (s\<lparr> sr_detection := d\<lparr> sd_condition := a @ '' and '' @ b \<rparr> \<rparr>)"
proof -
  have "build_cel_condition (d\<lparr> sd_condition := a @ op @ b \<rparr>)
      = build_cel_condition (d\<lparr> sd_condition := a @ '' and '' @ b \<rparr>)"
    using assms(4) condition_words_two [OF assms(1,2)] by (auto simp: build_cel_condition_def)
  then show ?thesis by (rule convert_detection_cong)
qed

definition demo_sigma :: sigma_rule where
  "demo_sigma = \<lparr> sr_title = ''t'', sr_id = [], sr_status = [], sr_description = None, sr_author = [],
     sr_date = [], sr_tags = None, sr_logsource = None,
     sr_detection = \<lparr> sd_fields = [''sel'' \<mapsto> YMapping [(YString ''Image'', YString ''a.exe'')]],
                      sd_condition = ''sel'' \<rparr>,
     sr_falsepositives = None, sr_level = Some ''critical'' \<rparr>"

lemma sigma_operators_ignored_witness:
  "convert_sigma_to_sentinel ''u'' ''n'' (demo_sigma\<lparr> sr_detection := (sr_detection demo_sigma)
       \<lparr> sd_condition := ''sel'' @ '' or '' @ ''flt'' \<rparr> \<rparr>)
   = convert_sigma_to_sentinel ''u'' ''n'' (demo_sigma\<lparr> sr_detection := (sr_detection demo_sigma)
       \<lparr> sd_condition := ''sel'' @ '' and '' @ ''flt'' \<rparr> \<rparr>)"
  by (rule sigma_operators_ignored) (simp_all add: plain_word_def is_whitespace_def)

text \<open>A condition over a family of selections loses all of them and matches every event of the
  type.\<close>

lemma one_of_selections_dropped:
  "sd_fields d ''sel*'' = None \<Longrightarrow> build_cel_condition (d\<lparr> sd_condition := ''1 of sel*'' \<rparr>) = []"
  by (simp add: build_cel_condition_def condition_words_def trim_matches_def is_whitespace_def
      map_filter_simps)

text \<open>The value of a field is copied between double quotes as it is.\<close>

lemma quote_not_escaped:
  "map_sigma_field_to_cel ''Image'' ''contains'' (dq @ '') || true || event.id.contains('' @ dq)
     = Some (''event.process.name.contains('' @ dq @ dq @ '') || true || event.id.contains('' @ dq @ dq @ '')'')"
  by (simp add: map_sigma_field_to_cel_def cel_field_of_def cel_contains_def trim_matches_def dq_def)

text \<open>An identifier that is already a Sigma one gets the prefix again.\<close>

lemma generated_id_prefixed_twice:
  "sr_id s = [] \<Longrightarrow> sx_id (convert_sigma_to_sentinel uuid now s)
     = ''sigma-sigma-'' @ hd (str_split (\<lambda>c. c = CHR ''-'') uuid)"
  by (simp add: convert_sigma_to_sentinel_def Let_def case_prod_beta)

end
