(* ===== verification/Storage_Conv.thy ===== *)
theory Storage_Conv
  imports Events Json
begin

text \<open>
  The JSON view of events that the storage layer persists (crates/sentinel-storage/src/conv.rs)
  and the reading back of a process context (sqlite.rs).  The text of a time stamp is made by
  the date library: \<open>ts_fmt secs nanos\<close> is \<open>None\<close> outside its range.
\<close>

definition json_u32 :: "u32 \<Rightarrow> json" where
  "json_u32 w = JInt (uint w)"

definition json_i32 :: "i32 \<Rightarrow> json" where
  "json_i32 w = JInt (sint w)"

definition json_strings :: "string list \<Rightarrow> json" where
  "json_strings xs = JArray (map JString xs)"

text \<open>A number that is not finite becomes null.\<close>

definition json_number :: "f64 \<Rightarrow> json" where
  "json_number x = (case x of Fin r \<Rightarrow> JFloat (Fin r) | _ \<Rightarrow> JNull)"

fun value_to_json :: "pvalue \<Rightarrow> json" where
  "value_to_json PUnset = JNull"
| "value_to_json PNull = JNull"
| "value_to_json (PNumber n) = json_number n"
| "value_to_json (PString s) = JString s"
| "value_to_json (PBool b) = JBool b"
| "value_to_json (PStruct kvs) = JObject (map (\<lambda>(k, v). (k, value_to_json v)) kvs)"
| "value_to_json (PList vs) = JArray (map value_to_json vs)"

definition struct_to_json :: "pstruct \<Rightarrow> json" where
  "struct_to_json s = JObject (map (\<lambda>(k, v). (k, value_to_json v)) s)"

definition ts_to_rfc3339 :: "(int \<Rightarrow> nat \<Rightarrow> string option) \<Rightarrow> timestamp option \<Rightarrow> string" where
  "ts_to_rfc3339 ts_fmt ts =
     (case ts of None \<Rightarrow> []
      | Some t \<Rightarrow> (case ts_fmt (ts_seconds t) (nat (max (ts_nanos t) 0)) of None \<Rightarrow> [] | Some s \<Rightarrow> s))"

definition correlation_to_json :: "correlation_context \<Rightarrow> json" where
  "correlation_to_json c = JObject [(''session_id'', JString (cx_session_id c)),
     (''cause_event_id'', JString (cx_cause_event_id c)), (''root_event_id'', JString (cx_root_event_id c)),
     (''correlation_id'', JString (cx_correlation_id c)), (''flow_id'', JString (cx_flow_id c)),
     (''sequence'', json_u32 (cx_sequence c))]"

definition user_to_json :: "user_context \<Rightarrow> json" where
  "user_to_json u = JObject [(''sid'', JString (uc_sid u)), (''username'', JString (uc_username u)),
     (''domain'', JString (uc_domain u)), (''is_elevated'', JBool (uc_is_elevated u)),
     (''is_system'', JBool (uc_is_system u))]"

definition signing_to_json :: "code_signing_info \<Rightarrow> json" where
  "signing_to_json s = JObject [(''is_signed'', JBool (si_is_signed s)),
     (''is_trusted'', JBool (si_is_trusted s)), (''publisher'', JString (si_publisher s)),
     (''issuer'', JString (si_issuer s))]"

fun process_to_json :: "process_context \<Rightarrow> json" where
  "process_to_json (ProcessContext pid ppid name path cmd cwd user integrity signing mitre depth sha parent) =
     JObject ([(''pid'', json_u32 pid), (''ppid'', json_u32 ppid), (''name'', JString name),
        (''path'', JString path), (''command_line'', JString cmd), (''cwd'', JString cwd),
        (''integrity_level'', JString integrity), (''tree_depth'', json_u32 depth),
        (''sha256'', JString sha), (''mitre_techniques'', json_strings mitre)]
      @ (case user of None \<Rightarrow> [] | Some u \<Rightarrow> [(''user'', user_to_json u)])
      @ (case signing of None \<Rightarrow> [] | Some s \<Rightarrow> [(''signing'', signing_to_json s)])
      @ (case parent of None \<Rightarrow> [] | Some p \<Rightarrow> [(''parent'', process_to_json p)]))"

fun payload_to_json :: "payload \<Rightarrow> json" where
  "payload_to_json (ProcessPayload e) = JObject [(''kind'', JString ''ProcessEvent''),
     (''action'', json_i32 (pe_action e)), (''desired_access'', json_u32 (pe_desired_access e))]"
| "payload_to_json (NetworkPayload e) = JObject [(''kind'', JString ''NetworkEvent''),
     (''direction'', json_i32 (ne_direction e)), (''protocol'', json_i32 (ne_protocol e)),
     (''action'', json_i32 (ne_action e)), (''local_addr'', JString (ne_local_addr e)),
     (''local_port'', json_u32 (ne_local_port e)), (''remote_addr'', JString (ne_remote_addr e)),
     (''remote_port'', json_u32 (ne_remote_port e)), (''hostname'', JString (ne_hostname e)),
     (''dns_query'', JString (ne_dns_query e)), (''ja3_fingerprint'', JString (ne_ja3_fingerprint e)),
     (''ja3s_fingerprint'', JString (ne_ja3s_fingerprint e))]"
| "payload_to_json (FilePayload e) = JObject [(''kind'', JString ''FileEvent''),
     (''action'', json_i32 (fe_action e)), (''path'', JString (fe_path e)),
     (''sha256'', JString (fe_sha256 e)), (''entropy'', JString (fe_entropy e)),
     (''is_executable'', JBool (fe_is_executable e)), (''is_sensitive_path'', JBool (fe_is_sensitive_path e))]"
| "payload_to_json (RegistryPayload e) = JObject [(''kind'', JString ''RegistryEvent''),
     (''action'', json_i32 (ge_action e)), (''hive'', json_i32 (ge_hive e)),
     (''key_path'', JString (ge_key_path e)), (''value_name'', JString (ge_value_name e))]"
| "payload_to_json (UsbPayload e) = JObject [(''kind'', JString ''UsbEvent''),
     (''action'', json_i32 (ue_action e)), (''vendor_id'', JString (ue_vendor_id e)),
     (''product_id'', JString (ue_product_id e)), (''serial_number'', JString (ue_serial_number e)),
     (''manufacturer'', JString (ue_manufacturer e)), (''product'', JString (ue_product e)),
     (''is_encrypted'', JBool (ue_is_encrypted e))]"
| "payload_to_json (BrowserPayload e) = JObject [(''kind'', JString ''BrowserEvent''),
     (''browser'', json_i32 (be_browser e)), (''action'', json_i32 (be_action e)),
     (''url'', JString (be_url e)), (''title'', JString (be_title e)), (''referrer'', JString (be_referrer e)),
     (''download_path'', JString (be_download_path e)), (''is_incognito'', JBool (be_is_incognito e))]"
| "payload_to_json (StartupPayload e) = JObject [(''kind'', JString ''StartupEvent''),
     (''action'', json_i32 (se_action e)), (''location'', json_i32 (se_location e)),
     (''name'', JString (se_name e)), (''command'', JString (se_command e)),
     (''arguments'', JString (se_arguments e)), (''user'', JString (se_user e)),
     (''is_signed'', JBool (se_is_signed e)), (''publisher'', JString (se_publisher e))]"
| "payload_to_json (GenericPayload e) = JObject [(''kind'', JString ''GenericEvent''),
     (''custom_type'', JString (xe_custom_type e))]"

definition json_option :: "('a \<Rightarrow> json) \<Rightarrow> 'a option \<Rightarrow> json" where
  "json_option f x = (case x of None \<Rightarrow> JNull | Some y \<Rightarrow> f y)"

definition event_to_json :: "(int \<Rightarrow> nat \<Rightarrow> string option) \<Rightarrow> event \<Rightarrow> json" where
  "event_to_json ts_fmt e = JObject [(''id'', JString (ev_id e)), (''type'', JString (ev_type e)),
     (''source'', JString (ev_source e)), (''severity'', json_i32 (ev_severity e)),
     (''tags'', json_strings (ev_tags e)), (''risk_score'', json_u32 (ev_risk_score e)),
     (''host_id'', JString (ev_host_id e)), (''schema_version'', json_u32 (ev_schema_version e)),
     (''timestamp'', JString (ts_to_rfc3339 ts_fmt (ev_timestamp e))),
     (''ingest_timestamp'', JString (ts_to_rfc3339 ts_fmt (ev_ingest_timestamp e))),
     (''process'', json_option process_to_json (ev_process e)),
     (''payload'', json_option payload_to_json (ev_payload e)),
     (''metadata'', json_option struct_to_json (ev_metadata e)),
     (''correlation'', json_option correlation_to_json (ev_correlation e))]"

section \<open>Reading a process context back\<close>

definition field_u32 :: "json \<Rightarrow> string \<Rightarrow> u32" where
  "field_u32 v key = (case Option.bind (json_get v key) json_as_u64 of None \<Rightarrow> 0 | Some w \<Rightarrow> ucast w)"

definition field_str :: "json \<Rightarrow> string \<Rightarrow> string" where
  "field_str v key = (case Option.bind (json_get v key) json_as_str of None \<Rightarrow> [] | Some s \<Rightarrow> s)"

definition field_strs :: "json \<Rightarrow> string \<Rightarrow> string list" where
  "field_strs v key = (case json_get v key of Some (JArray vs) \<Rightarrow> List.map_filter json_as_str vs | _ \<Rightarrow> [])"

text \<open>\<open>deser_process_opt\<close> on the text of the column; \<open>from_str\<close> is the JSON parser.\<close>

definition deser_process_opt :: "(string \<Rightarrow> json option) \<Rightarrow> string \<Rightarrow> process_context option" where
  "deser_process_opt from_str s =
     (if s = [] \<or> s = ''{}'' then None
      else case from_str s of
        Some (JObject kvs) \<Rightarrow>
          let o' = JObject kvs in
          Some (ProcessContext (field_u32 o' ''pid'') (field_u32 o' ''ppid'') (field_str o' ''name'')
            (field_str o' ''path'') (field_str o' ''command_line'') (field_str o' ''cwd'') None
            (field_str o' ''integrity_level'') None (field_strs o' ''mitre_techniques'')
            (field_u32 o' ''tree_depth'') (field_str o' ''sha256'') None)
      | _ \<Rightarrow> None)"

text \<open>What survives: everything but the user, the signing information and the parent.\<close>

fun stored_process :: "process_context \<Rightarrow> process_context" where
  "stored_process (ProcessContext pid ppid name path cmd cwd user integrity signing mitre depth sha parent) =
     ProcessContext pid ppid name path cmd cwd None integrity None mitre depth sha None"

lemma json_as_u64_u32: "map_option ucast (json_as_u64 (json_u32 w)) = Some w"
proof -
  have "uint w < 2 ^ LENGTH(32)" by (rule unsigned_less)
  then have "uint w < 2 ^ 64" by simp
  moreover have "(word_of_int (uint w) :: u64) = ucast w" by simp
  moreover have "(ucast (ucast w :: u64) :: u32) = w"
    by (rule bit_word_eqI) (auto simp: bit_simps)
  ultimately show ?thesis by (simp add: json_as_u64_def json_u32_def del: of_int_uint)
qed

lemma field_u32_found: "json_get v key = Some (json_u32 w) \<Longrightarrow> field_u32 v key = w"
  using json_as_u64_u32 [of w] by (auto simp: field_u32_def)

lemma field_str_found: "json_get v key = Some (JString s) \<Longrightarrow> field_str v key = s"
  by (simp add: field_str_def json_as_str_def)

lemma map_filter_strings: "List.map_filter json_as_str (map JString xs) = xs"
  by (induction xs) (simp_all add: json_as_str_def map_filter_simps)

lemma field_strs_found: "json_get v key = Some (json_strings xs) \<Longrightarrow> field_strs v key = xs"
  by (simp add: field_strs_def json_strings_def map_filter_strings)

lemma deser_process_to_json:
  assumes "from_str text = Some (process_to_json p)" and "text \<notin> {[], ''{}''}"
  shows "deser_process_opt from_str text = Some (stored_process p)"
proof (cases p)
  case (ProcessContext pid ppid name path cmd cwd user integrity signing mitre depth sha parent)
  have "\<exists>kvs. process_to_json p = JObject kvs" by (cases p) simp
  moreover have "json_get (process_to_json p) ''pid'' = Some (json_u32 pid)"
    "json_get (process_to_json p) ''ppid'' = Some (json_u32 ppid)"
    "json_get (process_to_json p) ''name'' = Some (JString name)"
    "json_get (process_to_json p) ''path'' = Some (JString path)"
    "json_get (process_to_json p) ''command_line'' = Some (JString cmd)"
    "json_get (process_to_json p) ''cwd'' = Some (JString cwd)"
    "json_get (process_to_json p) ''integrity_level'' = Some (JString integrity)"
    "json_get (process_to_json p) ''mitre_techniques'' = Some (json_strings mitre)"
    "json_get (process_to_json p) ''tree_depth'' = Some (json_u32 depth)"
    "json_get (process_to_json p) ''sha256'' = Some (JString sha)"
    by (simp_all add: ProcessContext)
  ultimately show ?thesis
    using assms
    by (auto simp: deser_process_opt_def ProcessContext field_u32_found field_str_found field_strs_found
        simp del: json_get_object process_to_json.simps)
qed

end
