(* ===== verification/Sql_Query.thy ===== *)
theory Sql_Query
  imports Core_Types Float64 "HOL-Library.Multiset"
begin

text \<open>
  The queries of crates/sentinel-storage/src/sqlite.rs: the SQL text and the bound parameters
  the repositories build from \<open>EventQuery\<close>, \<open>AlertQuery\<close> and \<open>ChainQuery\<close>, and what the
  conditions select.  A condition is kept as data with the text it is written as; its meaning
  is SQLite's: \<open>LIKE\<close> ignores ASCII case and knows the wildcards \<open>%\<close> and \<open>_\<close>, and a
  parameter that is compared with an INTEGER column is converted to a number.
\<close>

section \<open>Conditions\<close>

datatype sql_cond =
  C_Ge string
| C_Le string
| C_Eq string
| C_In string nat
| C_Like string
| C_LikeEither string string

type_synonym bound_cond = "sql_cond \<times> string list"

definition placeholders :: "nat \<Rightarrow> string" where
  "placeholders n = str_join '','' (replicate n ''?'')"

fun cond_sql :: "sql_cond \<Rightarrow> string" where
  "cond_sql (C_Ge c) = '' AND '' @ c @ '' >= ?''"
| "cond_sql (C_Le c) = '' AND '' @ c @ '' <= ?''"
| "cond_sql (C_Eq c) = '' AND '' @ c @ '' = ?''"
| "cond_sql (C_In c n) = '' AND '' @ c @ '' IN ('' @ placeholders n @ '')''"
| "cond_sql (C_Like c) = '' AND '' @ c @ '' LIKE ?''"
| "cond_sql (C_LikeEither c d) = '' AND ('' @ c @ '' LIKE ? OR '' @ d @ '' LIKE ?)''"

definition opt_cond :: "sql_cond \<Rightarrow> ('a \<Rightarrow> string) \<Rightarrow> 'a option \<Rightarrow> bound_cond list" where
  "opt_cond c f x = (case x of None \<Rightarrow> [] | Some y \<Rightarrow> [(c, [f y])])"

definition in_cond :: "string \<Rightarrow> ('a \<Rightarrow> string) \<Rightarrow> 'a list \<Rightarrow> bound_cond list" where
  "in_cond col f xs = (if xs = [] then [] else [(C_In col (length xs), map f xs)])"

definition like_conds :: "string \<Rightarrow> ('a \<Rightarrow> string) \<Rightarrow> 'a list \<Rightarrow> bound_cond list" where
  "like_conds col f xs = map (\<lambda>x. (C_Like col, [f x])) xs"

definition conds_sql :: "bound_cond list \<Rightarrow> string" where
  "conds_sql cs = concat (map (cond_sql \<circ> fst) cs)"

definition conds_params :: "bound_cond list \<Rightarrow> string list" where
  "conds_params cs = concat (map snd cs)"

abbreviation dquote :: char where
  "dquote \<equiv> CHR 0x22"

text \<open>\<open>%"key":"value"%\<close> and \<open>%text%\<close>.\<close>

definition like_str_field :: "string \<Rightarrow> string \<Rightarrow> string" where
  "like_str_field key v = ''%'' @ [dquote] @ key @ [dquote] @ '':'' @ [dquote] @ v @ [dquote] @ ''%''"

definition like_pid :: "u32 \<Rightarrow> string" where
  "like_pid p = ''%'' @ [dquote] @ ''pid'' @ [dquote] @ '':'' @ show_word p @ ''%''"

definition like_text :: "string \<Rightarrow> string" where
  "like_text t = ''%'' @ t @ ''%''"

definition show_severity :: "severity \<Rightarrow> string" where
  "show_severity s = show_word (severity_code s)"

section \<open>Event queries\<close>

record event_query =
  eq_start_time :: "datetime option"
  eq_end_time :: "datetime option"
  eq_event_types :: "string list"
  eq_sources :: "string list"
  eq_severities :: "severity list"
  eq_process_names :: "string list"
  eq_pids :: "u32 list"
  eq_correlation_id :: "string option"
  eq_flow_id :: "string option"
  eq_min_risk_score :: "u32 option"
  eq_tags :: "string list"
  eq_free_text :: "string option"
  eq_limit :: usize
  eq_offset :: usize
  eq_sort_by :: "string option"
  eq_sort_desc :: bool

definition event_query_default :: event_query where
  "event_query_default = \<lparr> eq_start_time = None, eq_end_time = None, eq_event_types = [], eq_sources = [],
     eq_severities = [], eq_process_names = [], eq_pids = [], eq_correlation_id = None, eq_flow_id = None,
     eq_min_risk_score = None, eq_tags = [], eq_free_text = None, eq_limit = 100, eq_offset = 0,
     eq_sort_by = Some ''timestamp'', eq_sort_desc = True \<rparr>"

definition free_text_cond :: "string option \<Rightarrow> bound_cond list" where
  "free_text_cond t = (case t of None \<Rightarrow> []
     | Some s \<Rightarrow> [(C_LikeEither ''payload'' ''process'', [like_text s, like_text s])])"

text \<open>The conditions in the order \<open>query\<close> pushes them; \<open>rfc\<close> is the date library's \<open>to_rfc3339\<close>.\<close>

definition event_conds :: "(datetime \<Rightarrow> string) \<Rightarrow> event_query \<Rightarrow> bound_cond list" where
  "event_conds rfc q =
     opt_cond (C_Ge ''timestamp'') rfc (eq_start_time q)
   @ opt_cond (C_Le ''timestamp'') rfc (eq_end_time q)
   @ in_cond ''type'' id (eq_event_types q)
   @ in_cond ''source'' id (eq_sources q)
   @ in_cond ''severity'' show_severity (eq_severities q)
   @ like_conds ''process'' (like_str_field ''name'') (eq_process_names q)
   @ like_conds ''process'' like_pid (eq_pids q)
   @ opt_cond (C_Like ''correlation'') (like_str_field ''correlation_id'') (eq_correlation_id q)
   @ opt_cond (C_Like ''correlation'') (like_str_field ''flow_id'') (eq_flow_id q)
   @ opt_cond (C_Ge ''risk_score'') show_word (eq_min_risk_score q)
   @ like_conds ''tags'' like_text (eq_tags q)
   @ free_text_cond (eq_free_text q)"

definition valid_sort :: "string list" where
  "valid_sort = [''timestamp'', ''severity'', ''risk_score'', ''type'', ''source'', ''host_id'']"

definition sort_column :: "string option \<Rightarrow> string" where
  "sort_column sort_by =
     (let s = (case sort_by of None \<Rightarrow> ''timestamp'' | Some s \<Rightarrow> s) in
      case find (\<lambda>c. c = s) valid_sort of None \<Rightarrow> ''timestamp'' | Some c \<Rightarrow> c)"

definition event_sql :: "(datetime \<Rightarrow> string) \<Rightarrow> event_query \<Rightarrow> string" where
  "event_sql rfc q = ''SELECT * FROM events WHERE 1=1'' @ conds_sql (event_conds rfc q)
     @ '' ORDER BY '' @ sort_column (eq_sort_by q) @ '' '' @ (if eq_sort_desc q then ''DESC'' else ''ASC'')
     @ '' LIMIT ? OFFSET ?''"

definition event_params :: "(datetime \<Rightarrow> string) \<Rightarrow> event_query \<Rightarrow> string list" where
  "event_params rfc q = conds_params (event_conds rfc q) @ [show_word (eq_limit q), show_word (eq_offset q)]"

text \<open>\<open>count\<close> pushes the same conditions in another order.\<close>

definition event_count_conds :: "(datetime \<Rightarrow> string) \<Rightarrow> event_query \<Rightarrow> bound_cond list" where
  "event_count_conds rfc q =
     opt_cond (C_Ge ''timestamp'') rfc (eq_start_time q)
   @ opt_cond (C_Le ''timestamp'') rfc (eq_end_time q)
   @ in_cond ''type'' id (eq_event_types q)
   @ in_cond ''source'' id (eq_sources q)
   @ in_cond ''severity'' show_severity (eq_severities q)
   @ opt_cond (C_Ge ''risk_score'') show_word (eq_min_risk_score q)
   @ like_conds ''process'' (like_str_field ''name'') (eq_process_names q)
   @ like_conds ''process'' like_pid (eq_pids q)
   @ opt_cond (C_Like ''correlation'') (like_str_field ''correlation_id'') (eq_correlation_id q)
   @ opt_cond (C_Like ''correlation'') (like_str_field ''flow_id'') (eq_flow_id q)
   @ like_conds ''tags'' like_text (eq_tags q)
   @ free_text_cond (eq_free_text q)"

definition event_count_sql :: "(datetime \<Rightarrow> string) \<Rightarrow> event_query \<Rightarrow> string" where
  "event_count_sql rfc q = ''SELECT COUNT(*) as cnt FROM events WHERE 1=1'' @ conds_sql (event_count_conds rfc q)"

section \<open>Aggregation, alerts and chains\<close>

definition aggregate_columns :: "string list" where
  "aggregate_columns = [''type'', ''source'', ''severity'', ''host_id'']"

text \<open>The column of an aggregation, or the error with the offending name and the columns as \<open>{:?}\<close> prints them.\<close>

definition aggregate_column :: "string \<Rightarrow> string + string" where
  "aggregate_column group_by = (case find (\<lambda>c. c = group_by) aggregate_columns of
     Some c \<Rightarrow> Inr c
   | None \<Rightarrow> Inl (''invalid group_by column: '' @ group_by @ ''. Valid: ['' @ str_join '', ''
       (map (\<lambda>c. [CHR 0x22] @ c @ [CHR 0x22]) aggregate_columns) @ '']''))"

definition aggregate_sql :: "string \<Rightarrow> string" where
  "aggregate_sql column = ''SELECT '' @ column @ '' as group_key, COUNT(*) as count, AVG(risk_score) as avg_risk, MIN(risk_score) as min_risk, MAX(risk_score) as max_risk FROM events WHERE timestamp >= ? AND timestamp <= ? GROUP BY '' @ column"

datatype alert_state = AS_New | AS_Acknowledged | AS_Investigating | AS_ResolvedTruePositive
  | AS_ResolvedFalsePositive | AS_Suppressed

fun alert_state_code :: "alert_state \<Rightarrow> int" where
  "alert_state_code AS_New = 0"
| "alert_state_code AS_Acknowledged = 1"
| "alert_state_code AS_Investigating = 2"
| "alert_state_code AS_ResolvedTruePositive = 3"
| "alert_state_code AS_ResolvedFalsePositive = 4"
| "alert_state_code AS_Suppressed = 5"

record alert_query =
  aq_state :: "alert_state option"
  aq_min_severity :: "severity option"
  aq_start_time :: "datetime option"
  aq_end_time :: "datetime option"
  aq_limit :: usize
  aq_offset :: usize

definition alert_query_default :: alert_query where
  "alert_query_default = \<lparr> aq_state = None, aq_min_severity = None, aq_start_time = None,
     aq_end_time = None, aq_limit = 100, aq_offset = 0 \<rparr>"

definition alert_conds :: "(datetime \<Rightarrow> string) \<Rightarrow> alert_query \<Rightarrow> bound_cond list" where
  "alert_conds rfc q =
     opt_cond (C_Eq ''state'') (show_int \<circ> alert_state_code) (aq_state q)
   @ opt_cond (C_Ge ''severity'') show_severity (aq_min_severity q)
   @ opt_cond (C_Ge ''created_at'') rfc (aq_start_time q)
   @ opt_cond (C_Le ''created_at'') rfc (aq_end_time q)"

definition alert_sql :: "(datetime \<Rightarrow> string) \<Rightarrow> alert_query \<Rightarrow> string" where
  "alert_sql rfc q = ''SELECT * FROM alerts WHERE 1=1'' @ conds_sql (alert_conds rfc q)
     @ '' ORDER BY created_at DESC'' @ '' LIMIT ? OFFSET ?''"

definition alert_params :: "(datetime \<Rightarrow> string) \<Rightarrow> alert_query \<Rightarrow> string list" where
  "alert_params rfc q = conds_params (alert_conds rfc q) @ [show_word (aq_limit q), show_word (aq_offset q)]"

definition alert_count_conds :: "alert_query \<Rightarrow> bound_cond list" where
  "alert_count_conds q = opt_cond (C_Eq ''state'') (show_int \<circ> alert_state_code) (aq_state q)"

definition alert_count_sql :: "alert_query \<Rightarrow> string" where
  "alert_count_sql q = ''SELECT COUNT(*) as cnt FROM alerts WHERE 1=1'' @ conds_sql (alert_count_conds q)"

datatype chain_status = ST_Unspecified | ST_ActiveAttack | ST_SuspiciousChain | ST_Resolved

fun chain_status_code :: "chain_status \<Rightarrow> int" where
  "chain_status_code ST_Unspecified = 0"
| "chain_status_code ST_ActiveAttack = 1"
| "chain_status_code ST_SuspiciousChain = 2"
| "chain_status_code ST_Resolved = 3"

record chain_query =
  cq_start_time :: "datetime option"
  cq_end_time :: "datetime option"
  cq_status :: "chain_status option"
  cq_min_risk :: "u32 option"
  cq_limit :: usize

definition chain_conds :: "(datetime \<Rightarrow> string) \<Rightarrow> chain_query \<Rightarrow> bound_cond list" where
  "chain_conds rfc q =
     opt_cond (C_Ge ''start_time'') rfc (cq_start_time q)
   @ opt_cond (C_Le ''end_time'') rfc (cq_end_time q)
   @ opt_cond (C_Eq ''state'') (show_int \<circ> chain_status_code) (cq_status q)
   @ opt_cond (C_Ge ''risk_score'') show_word (cq_min_risk q)"

definition chain_sql :: "(datetime \<Rightarrow> string) \<Rightarrow> chain_query \<Rightarrow> string" where
  "chain_sql rfc q = ''SELECT * FROM correlation_chains WHERE 1=1'' @ conds_sql (chain_conds rfc q)
     @ '' ORDER BY risk_score DESC LIMIT ?''"

definition chain_params :: "(datetime \<Rightarrow> string) \<Rightarrow> chain_query \<Rightarrow> string list" where
  "chain_params rfc q = conds_params (chain_conds rfc q) @ [show_word (cq_limit q)]"

section \<open>What the conditions select\<close>

fun like_match :: "string \<Rightarrow> string \<Rightarrow> bool" where
  "like_match [] s \<longleftrightarrow> s = []"
| "like_match (c # p) [] \<longleftrightarrow> c = CHR ''%'' \<and> like_match p []"
| "like_match (c # p) (d # s) \<longleftrightarrow>
     (if c = CHR ''%'' then like_match p (d # s) \<or> like_match (c # p) s
      else (c = CHR ''_'' \<or> char_lower c = char_lower d) \<and> like_match p s)"

datatype sql_value = SText string | SInt int

fun as_text :: "sql_value \<Rightarrow> string" where
  "as_text (SText s) = s"
| "as_text (SInt n) = show_int n"

text \<open>Texts are compared byte by byte.\<close>

fun text_le :: "string \<Rightarrow> string \<Rightarrow> bool" where
  "text_le [] t = True"
| "text_le (c # s) [] = False"
| "text_le (c # s) (d # t) =
     (let m = of_char c :: nat; n = of_char d :: nat in m < n \<or> (m = n \<and> text_le s t))"

fun value_le_param :: "sql_value \<Rightarrow> string \<Rightarrow> bool" where
  "value_le_param (SText s) p = text_le s p"
| "value_le_param (SInt n) p = (case read_int p of None \<Rightarrow> True | Some m \<Rightarrow> n \<le> m)"

fun value_ge_param :: "sql_value \<Rightarrow> string \<Rightarrow> bool" where
  "value_ge_param (SText s) p = text_le p s"
| "value_ge_param (SInt n) p = (case read_int p of None \<Rightarrow> False | Some m \<Rightarrow> m \<le> n)"

fun value_eq_param :: "sql_value \<Rightarrow> string \<Rightarrow> bool" where
  "value_eq_param (SText s) p = (s = p)"
| "value_eq_param (SInt n) p = (read_int p = Some n)"

text \<open>A row gives the value of a column.\<close>

fun cond_holds :: "(string \<Rightarrow> sql_value) \<Rightarrow> bound_cond \<Rightarrow> bool" where
  "cond_holds row (C_Ge c, ps) = value_ge_param (row c) (hd ps)"
| "cond_holds row (C_Le c, ps) = value_le_param (row c) (hd ps)"
| "cond_holds row (C_Eq c, ps) = value_eq_param (row c) (hd ps)"
| "cond_holds row (C_In c n, ps) = list_ex (value_eq_param (row c)) ps"
| "cond_holds row (C_Like c, ps) = like_match (hd ps) (as_text (row c))"
| "cond_holds row (C_LikeEither c d, ps) =
     (like_match (hd ps) (as_text (row c)) \<or> like_match (hd (tl ps)) (as_text (row d)))"

definition row_matches :: "bound_cond list \<Rightarrow> (string \<Rightarrow> sql_value) \<Rightarrow> bool" where
  "row_matches cs row = list_all (cond_holds row) cs"

section \<open>Placeholders and parameters\<close>

definition cond_arity :: "sql_cond \<Rightarrow> nat" where
  "cond_arity c = (case c of C_In col n \<Rightarrow> n | C_LikeEither a b \<Rightarrow> 2 | _ \<Rightarrow> 1)"

definition cond_columns :: "sql_cond \<Rightarrow> string list" where
  "cond_columns c = (case c of C_Ge a \<Rightarrow> [a] | C_Le a \<Rightarrow> [a] | C_Eq a \<Rightarrow> [a] | C_In a n \<Rightarrow> [a]
     | C_Like a \<Rightarrow> [a] | C_LikeEither a b \<Rightarrow> [a, b])"

abbreviation marks :: "string \<Rightarrow> nat" where
  "marks s \<equiv> count_list s (CHR ''?'')"

definition well_bound :: "bound_cond \<Rightarrow> bool" where
  "well_bound b \<longleftrightarrow> length (snd b) = cond_arity (fst b) \<and>
     (\<forall>c \<in> set (cond_columns (fst b)). marks c = 0)"

lemma marks_placeholders [simp]: "marks (placeholders n) = n"
proof (induction n)
  case (Suc n)
  then show ?case by (cases n) (simp_all add: placeholders_def)
qed (simp add: placeholders_def)

lemma marks_cond: "well_bound (c, ps) \<Longrightarrow> marks (cond_sql c) = length ps"
  by (cases c) (simp_all add: well_bound_def cond_arity_def cond_columns_def)

lemma marks_conds:
  "list_all well_bound cs \<Longrightarrow> marks (conds_sql cs) = length (conds_params cs)"
  by (induction cs) (auto simp: conds_sql_def conds_params_def marks_cond)

named_theorems bound_intros

lemma well_bound_append [bound_intros]:
  "list_all well_bound cs \<Longrightarrow> list_all well_bound ds \<Longrightarrow> list_all well_bound (cs @ ds)"
  by simp

lemma well_bound_opt [bound_intros]:
  "cond_arity c = 1 \<Longrightarrow> list_all (\<lambda>a. marks a = 0) (cond_columns c) \<Longrightarrow> list_all well_bound (opt_cond c f x)"
  by (cases x) (simp_all add: opt_cond_def well_bound_def list_all_iff)

lemma well_bound_in [bound_intros]: "marks col = 0 \<Longrightarrow> list_all well_bound (in_cond col f xs)"
  by (simp add: in_cond_def well_bound_def cond_arity_def cond_columns_def)

lemma well_bound_like [bound_intros]: "marks col = 0 \<Longrightarrow> list_all well_bound (like_conds col f xs)"
  by (simp add: like_conds_def well_bound_def cond_arity_def cond_columns_def list_all_iff)

lemma well_bound_free_text [bound_intros]: "list_all well_bound (free_text_cond t)"
  by (cases t) (simp_all add: free_text_cond_def well_bound_def cond_arity_def cond_columns_def)

lemma well_bound_conds:
  "list_all well_bound (event_conds rfc q)" "list_all well_bound (event_count_conds rfc q)"
  "list_all well_bound (alert_conds rfc q')" "list_all well_bound (alert_count_conds q')"
  "list_all well_bound (chain_conds rfc q'')"
  unfolding event_conds_def event_count_conds_def alert_conds_def alert_count_conds_def chain_conds_def
  by (intro bound_intros; simp add: cond_arity_def cond_columns_def)+

lemma find_in_set: "find P xs = Some x \<Longrightarrow> x \<in> set xs"
  by (induction xs) (auto split: if_splits)

lemma sort_column_valid: "sort_column s \<in> set valid_sort"
proof (cases "find (\<lambda>c. c = (case s of None \<Rightarrow> ''timestamp'' | Some t \<Rightarrow> t)) valid_sort")
  case None
  then show ?thesis by (simp add: sort_column_def valid_sort_def)
next
  case (Some c)
  then show ?thesis by (simp add: sort_column_def find_in_set)
qed

lemma sort_column_no_marks: "marks (sort_column s) = 0"
  using sort_column_valid [of s] by (auto simp: valid_sort_def)

text \<open>
  Every query of the event, alert and chain repositories binds exactly as many parameters
  as its text has placeholders, for every query object.
\<close>

theorem placeholders_match_params:
  "marks (event_sql rfc q) = length (event_params rfc q) \<and>
   marks (event_count_sql rfc q) = length (conds_params (event_count_conds rfc q)) \<and>
   marks (alert_sql rfc q') = length (alert_params rfc q') \<and>
   marks (alert_count_sql q') = length (conds_params (alert_count_conds q')) \<and>
   marks (chain_sql rfc q'') = length (chain_params rfc q'')"
  by (simp add: event_sql_def event_params_def event_count_sql_def alert_sql_def alert_params_def
      alert_count_sql_def chain_sql_def chain_params_def sort_column_no_marks
      marks_conds [OF well_bound_conds(1)] marks_conds [OF well_bound_conds(2)]
      marks_conds [OF well_bound_conds(3)] marks_conds [OF well_bound_conds(4)]
      marks_conds [OF well_bound_conds(5)])

section \<open>The text of a query depends on its shape only\<close>

text \<open>Which filters a query has and how many values each, without the values.\<close>

definition query_shape :: "event_query \<Rightarrow> event_query" where
  "query_shape q = q
     \<lparr> eq_start_time := map_option (\<lambda>_. 0) (eq_start_time q), eq_end_time := map_option (\<lambda>_. 0) (eq_end_time q),
       eq_event_types := map (\<lambda>_. []) (eq_event_types q), eq_sources := map (\<lambda>_. []) (eq_sources q),
       eq_severities := map (\<lambda>_. Info) (eq_severities q), eq_process_names := map (\<lambda>_. []) (eq_process_names q),
       eq_pids := map (\<lambda>_. 0) (eq_pids q), eq_correlation_id := map_option (\<lambda>_. []) (eq_correlation_id q),
       eq_flow_id := map_option (\<lambda>_. []) (eq_flow_id q), eq_min_risk_score := map_option (\<lambda>_. 0) (eq_min_risk_score q),
       eq_tags := map (\<lambda>_. []) (eq_tags q), eq_free_text := map_option (\<lambda>_. []) (eq_free_text q),
       eq_limit := 0, eq_offset := 0, eq_sort_by := Some (sort_column (eq_sort_by q)) \<rparr>"

lemma conds_sql_append: "conds_sql (a @ b) = conds_sql a @ conds_sql b"
  by (simp add: conds_sql_def)

lemma conds_sql_opt: "conds_sql (opt_cond c f x) = (if x = None then [] else cond_sql c)"
  by (cases x) (simp_all add: opt_cond_def conds_sql_def)

lemma conds_sql_in: "conds_sql (in_cond c f xs) = (if xs = [] then [] else cond_sql (C_In c (length xs)))"
  by (simp add: in_cond_def conds_sql_def)

lemma conds_sql_like: "conds_sql (like_conds c f xs) = concat (replicate (length xs) (cond_sql (C_Like c)))"
  by (induction xs) (simp_all add: like_conds_def conds_sql_def)

lemma conds_sql_free: "conds_sql (free_text_cond x) =
    (if x = None then [] else cond_sql (C_LikeEither ''payload'' ''process''))"
  by (cases x) (simp_all add: free_text_cond_def conds_sql_def)

lemmas conds_sql_facts = conds_sql_append conds_sql_opt conds_sql_in conds_sql_like conds_sql_free

lemma sort_column_idem: "sort_column (Some (sort_column s)) = sort_column s"
  using sort_column_valid [of s] by (auto simp: valid_sort_def sort_column_def)

text \<open>
  No value of a query reaches the text of the statement: the text of an event query is the
  text for its shape, where every string, number and date is replaced by a fixed one and the
  sort column by one of the six allowed columns, so no filter can inject SQL.
\<close>

theorem event_sql_depends_on_shape: "event_sql rfc q = event_sql rfc' (query_shape q)"
proof -
  have "conds_sql (event_conds rfc' (query_shape q)) = conds_sql (event_conds rfc q)"
    unfolding event_conds_def query_shape_def
    by (simp add: conds_sql_facts del: cond_sql.simps)
  then show ?thesis
    by (simp add: event_sql_def query_shape_def sort_column_idem)
qed

text \<open>A filter that tries to close the statement and an unknown sort column change nothing.\<close>

lemma injection_attempt:
  "event_sql rfc (event_query_default \<lparr> eq_tags := [''x%'' @ [CHR 0x27] @ ''; DROP TABLE events; --''],
       eq_sort_by := Some ''id; DROP TABLE events'' \<rparr>) =
   ''SELECT * FROM events WHERE 1=1 AND tags LIKE ? ORDER BY timestamp DESC LIMIT ? OFFSET ?''"
  by code_simp

text \<open>An aggregation reaches the database only with one of its four columns.\<close>

lemma aggregate_column_safe:
  "aggregate_column g = Inr c \<Longrightarrow> c = g \<and> c \<in> set aggregate_columns"
  by (auto simp: aggregate_column_def aggregate_columns_def split: if_splits)

text \<open>The documentation of \<open>AggregationQuery::group_by\<close> names \<open>hour\<close> and \<open>day\<close>; both are refused.\<close>

lemma aggregate_refuses_time: "isl (aggregate_column ''hour'')" "isl (aggregate_column ''day'')"
  by code_simp+

section \<open>Query and count agree\<close>

lemma row_matches_mset: "mset cs = mset ds \<Longrightarrow> row_matches cs row = row_matches ds row"
  using mset_eq_setD [of cs ds] by (simp add: row_matches_def list_all_iff)

lemma event_conds_mset: "mset (event_conds rfc q) = mset (event_count_conds rfc q)"
  by (simp add: event_conds_def event_count_conds_def)

text \<open>
  The rows of a table that a query selects: filtered, sorted by the column (the order among
  equal rows is the database's, so sorting is the parameter \<open>order\<close>), then cut to the page.
\<close>

definition select_page ::
    "(string \<Rightarrow> bool \<Rightarrow> 'r list \<Rightarrow> 'r list) \<Rightarrow> (datetime \<Rightarrow> string) \<Rightarrow> ('r \<Rightarrow> string \<Rightarrow> sql_value) \<Rightarrow>
     event_query \<Rightarrow> 'r list \<Rightarrow> 'r list" where
  "select_page order rfc col q rows =
     take (unat (eq_limit q)) (drop (unat (eq_offset q))
       (order (sort_column (eq_sort_by q)) (eq_sort_desc q)
         (filter (\<lambda>r. row_matches (event_conds rfc q) (col r)) rows)))"

definition event_count ::
    "(datetime \<Rightarrow> string) \<Rightarrow> ('r \<Rightarrow> string \<Rightarrow> sql_value) \<Rightarrow> event_query \<Rightarrow> 'r list \<Rightarrow> nat" where
  "event_count rfc col q rows = length (filter (\<lambda>r. row_matches (event_count_conds rfc q) (col r)) rows)"

text \<open>
  \<open>count\<close> counts what \<open>query\<close> lists: whatever the order of the rows is, the page a query
  returns has as many rows as its limit allows of those the count leaves after the offset.
\<close>

theorem query_and_count_agree:
  assumes "\<And>c d xs. mset (order c d xs) = mset (xs :: 'r list)"
  shows "length (select_page order rfc col q rows) =
     min (unat (eq_limit q)) (event_count rfc col q rows - unat (eq_offset q))"
proof -
  have "length (order c d xs) = length xs" for c d xs
    using assms by (metis size_mset)
  moreover have "row_matches (event_conds rfc q) r = row_matches (event_count_conds rfc q) r" for r
    by (rule row_matches_mset) (rule event_conds_mset)
  ultimately show ?thesis
    by (simp add: select_page_def event_count_def min.commute)
qed

lemma query_and_count_agree_witness:
  "length (select_page (\<lambda>_ desc xs. if desc then rev xs else xs) show_int
       (\<lambda>n c. if c = ''severity'' then SInt n else SText [])
       (event_query_default \<lparr> eq_severities := [Error, Critical], eq_offset := 1 \<rparr>) [4, 5, 6, 5]) = 2"
proof -
  have "event_count show_int (\<lambda>n c. if c = ''severity'' then SInt n else SText [])
      (event_query_default \<lparr> eq_severities := [Error, Critical], eq_offset := 1 \<rparr>) [4, 5, 6, 5] = 3"
    by code_simp
  with query_and_count_agree [of "\<lambda>_ desc xs. if desc then rev xs else xs" show_int
      "\<lambda>n c. if c = ''severity'' then SInt n else SText []"
      "event_query_default \<lparr> eq_severities := [Error, Critical], eq_offset := 1 \<rparr>" "[4, 5, 6, 5]"]
  show ?thesis by (simp add: event_query_default_def)
qed

text \<open>\<open>count\<close> of the alert repository looks at the state only: it disagrees with \<open>query\<close> as soon
  as a query asks for a minimum severity or a time range.\<close>

lemma alert_count_ignores_filters:
  "alert_count_conds (q \<lparr> aq_min_severity := s, aq_start_time := t, aq_end_time := u \<rparr>) = alert_count_conds q"
  by (simp add: alert_count_conds_def)

lemma alert_count_disagrees:
  "let q = alert_query_default \<lparr> aq_min_severity := Some Critical \<rparr>;
       row = (\<lambda>c. if c = ''severity'' then SInt 2 else SText [])
   in row_matches (alert_count_conds q) row \<and> \<not> row_matches (alert_conds show_int q) row"
  by code_simp

section \<open>Substring filters\<close>

definition like_literal :: "string \<Rightarrow> bool" where
  "like_literal p \<longleftrightarrow> list_all (\<lambda>c. c \<noteq> CHR ''%'' \<and> c \<noteq> CHR ''_'') p"

lemma like_percent_any: "like_match p (drop n s) \<Longrightarrow> like_match (CHR ''%'' # p) s"
proof (induction s arbitrary: n)
  case (Cons d s)
  then show ?case by (cases n) auto
qed simp

lemma like_percent_only: "like_match ''%'' s"
  by (induction s) simp_all

lemma like_literal_then:
  "like_literal p \<Longrightarrow> to_lowercase t = to_lowercase p \<Longrightarrow> like_match q s \<Longrightarrow> like_match (p @ q) (t @ s)"
proof (induction p arbitrary: t)
  case (Cons c p)
  then show ?case by (cases t) (auto simp: like_literal_def to_lowercase_def)
qed (simp add: to_lowercase_def)

lemma like_text_found:
  assumes "like_literal t" and "to_lowercase t' = to_lowercase t"
  shows "like_match (like_text t) (a @ t' @ b)"
proof -
  have "like_match (t @ ''%'') (t' @ b)"
    by (rule like_literal_then [OF assms]) (rule like_percent_only)
  then show ?thesis
    unfolding like_text_def using like_percent_any [of "t @ ''%''" "length a" "a @ t' @ b"] by simp
qed

text \<open>
  A process id filter also selects the processes whose id merely starts with the same
  digits: a row whose process column holds \<open>"pid":\<close> followed by the digits and anything else
  matches the condition, so a query for 12 returns process 123.
\<close>

theorem pid_filter_matches_prefix:
  "row_matches (like_conds ''process'' like_pid [p])
     (\<lambda>c. SText (a @ [dquote] @ ''pid'' @ [dquote] @ '':'' @ show_word p @ rest))"
proof -
  have "list_all is_digit (show_word p)"
    by (simp add: show_word_def show_nat_digits)
  then have "like_literal ([dquote] @ ''pid'' @ [dquote] @ '':'' @ show_word p)"
    by (auto simp: like_literal_def list_all_iff is_digit_def Let_def)
  from like_text_found [OF this refl, of a rest] show ?thesis
    by (simp add: row_matches_def like_conds_def like_pid_def like_text_def)
qed

lemma pid_filter_12_finds_123:
  "row_matches (like_conds ''process'' like_pid [12])
     (\<lambda>c. SText ([CHR ''{'', dquote] @ ''pid'' @ [dquote] @ '':123,''))"
  by code_simp

end
