(* ===== verification/Migrations.thy ===== *)
theory Migrations
  imports Sentinel_Prelude "HOL-Library.AList"
begin

text \<open>
  The schema migrations of crates/sentinel-storage/src/migrations.rs.  A database is the tables
  it has with their columns, its indexes and the rows of the table \<open>migrations\<close>; a statement
  fails where SQLite fails: an index that exists already, an index on a missing table, a second
  row with the same primary key.  Every statement commits by itself, so a run that is cut off
  leaves the statements it has executed.
\<close>

section \<open>Statements and the database\<close>

type_synonym columns = "(string \<times> string) list"

datatype ddl =
  CreateTable string columns "string list"
| CreateIndex string string string

type_synonym migration = "int \<times> string \<times> ddl list"

record schema =
  db_tables :: "(string \<times> columns) list"
  db_indexes :: "string list"
  db_versions :: "(int \<times> string) list"

definition empty_schema :: schema where
  "empty_schema = \<lparr> db_tables = [], db_indexes = [], db_versions = [] \<rparr>"

definition table_exists :: "schema \<Rightarrow> string \<Rightarrow> bool" where
  "table_exists db t \<longleftrightarrow> t \<in> set (map fst (db_tables db))"

fun exec_ddl :: "schema \<Rightarrow> ddl \<Rightarrow> string + schema" where
  "exec_ddl db (CreateTable t cols constraints) =
     (if table_exists db t then Inr db else Inr (db \<lparr> db_tables := (t, cols) # db_tables db \<rparr>))"
| "exec_ddl db (CreateIndex i t expr) =
     (if i \<in> set (db_indexes db) then Inl (''index '' @ i @ '' already exists'')
      else if \<not> table_exists db t then Inl (''no such table: '' @ t)
      else Inr (db \<lparr> db_indexes := i # db_indexes db \<rparr>))"

fun exec_all :: "schema \<Rightarrow> ddl list \<Rightarrow> string + schema" where
  "exec_all db [] = Inr db"
| "exec_all db (s # ss) = (case exec_ddl db s of Inl e \<Rightarrow> Inl e | Inr db' \<Rightarrow> exec_all db' ss)"

definition is_applied :: "schema \<Rightarrow> int \<Rightarrow> string + bool" where
  "is_applied db version =
     (if table_exists db ''migrations'' then Inr (version \<in> set (map fst (db_versions db)))
      else Inl ''no such table: migrations'')"

definition record_version :: "schema \<Rightarrow> int \<Rightarrow> string \<Rightarrow> string + schema" where
  "record_version db version name =
     (if \<not> table_exists db ''migrations'' then Inl ''no such table: migrations''
      else if version \<in> set (map fst (db_versions db)) then Inl ''UNIQUE constraint failed: migrations.version''
      else Inr (db \<lparr> db_versions := db_versions db @ [(version, name)] \<rparr>))"

text \<open>The shape of every \<open>migrate_v<n>\<close>: skip, or run the statements and record the version.\<close>

definition run_migration :: "schema \<Rightarrow> migration \<Rightarrow> string + schema" where
  "run_migration db m = (case m of (version, name, stmts) \<Rightarrow>
     (case is_applied db version of
        Inl e \<Rightarrow> Inl e
      | Inr True \<Rightarrow> Inr db
      | Inr False \<Rightarrow> (case exec_all db stmts of
          Inl e \<Rightarrow> Inl e
        | Inr db' \<Rightarrow> record_version db' version name)))"

section \<open>The migrations\<close>

definition migrate_v1 :: migration where
  "migrate_v1 = (1, ''initial_schema'', [
     CreateTable ''events'' [
       (''id'', ''TEXT PRIMARY KEY''),
       (''type'', ''TEXT NOT NULL''),
       (''source'', ''TEXT NOT NULL''),
       (''timestamp'', ''TEXT NOT NULL''),
       (''ingest_timestamp'', ''TEXT NOT NULL''),
       (''severity'', ''INTEGER NOT NULL''),
       (''process'', ''TEXT''),
       (''payload'', ''TEXT NOT NULL''),
       (''tags'', ''TEXT NOT NULL DEFAULT '' @ [CHR 0x27] @ ''[]'' @ [CHR 0x27]),
       (''metadata'', ''TEXT NOT NULL DEFAULT '' @ [CHR 0x27] @ ''{}'' @ [CHR 0x27]),
       (''risk_score'', ''INTEGER NOT NULL DEFAULT 0''),
       (''correlation'', ''TEXT NOT NULL DEFAULT '' @ [CHR 0x27] @ ''{}'' @ [CHR 0x27]),
       (''host_id'', ''TEXT NOT NULL''),
       (''schema_version'', ''INTEGER NOT NULL DEFAULT 1'')] [],
     CreateIndex ''idx_events_timestamp'' ''events'' (''timestamp''),
     CreateIndex ''idx_events_type'' ''events'' (''type''),
     CreateIndex ''idx_events_source'' ''events'' (''source''),
     CreateIndex ''idx_events_severity'' ''events'' (''severity''),
     CreateIndex ''idx_events_risk_score'' ''events'' (''risk_score''),
     CreateIndex ''idx_events_correlation_id'' ''events'' (''JSON_EXTRACT(correlation, '' @ [CHR 0x27] @ ''$.correlation_id'' @ [CHR 0x27] @ '')''),
     CreateIndex ''idx_events_flow_id'' ''events'' (''JSON_EXTRACT(correlation, '' @ [CHR 0x27] @ ''$.flow_id'' @ [CHR 0x27] @ '')''),
     CreateIndex ''idx_events_process_name'' ''events'' (''JSON_EXTRACT(process, '' @ [CHR 0x27] @ ''$.name'' @ [CHR 0x27] @ '')'')])"

definition migrate_v2 :: migration where
  "migrate_v2 = (2, ''additional_indexes'', [
     CreateIndex ''idx_events_host_id'' ''events'' (''host_id''),
     CreateIndex ''idx_events_pid'' ''events'' (''JSON_EXTRACT(process, '' @ [CHR 0x27] @ ''$.pid'' @ [CHR 0x27] @ '')'')])"

definition migrate_v3 :: migration where
  "migrate_v3 = (3, ''alerts_table'', [
     CreateTable ''alerts'' [
       (''id'', ''TEXT PRIMARY KEY''),
       (''rule_id'', ''TEXT NOT NULL''),
       (''correlation_id'', ''TEXT NOT NULL''),
       (''risk_score'', ''INTEGER NOT NULL''),
       (''severity'', ''INTEGER NOT NULL''),
       (''state'', ''INTEGER NOT NULL DEFAULT 0''),
       (''created_at'', ''TEXT NOT NULL''),
       (''updated_at'', ''TEXT NOT NULL''),
       (''acknowledged_by'', ''TEXT''),
       (''acknowledged_at'', ''TEXT''),
       (''events'', ''TEXT NOT NULL DEFAULT '' @ [CHR 0x27] @ [CHR 0x27]),
       (''context'', ''TEXT NOT NULL DEFAULT '' @ [CHR 0x27] @ ''{}'' @ [CHR 0x27]),
       (''ai_summary'', ''TEXT'')] [],
     CreateIndex ''idx_alerts_state'' ''alerts'' (''state''),
     CreateIndex ''idx_alerts_severity'' ''alerts'' (''severity''),
     CreateIndex ''idx_alerts_created_at'' ''alerts'' (''created_at''),
     CreateIndex ''idx_alerts_correlation_id'' ''alerts'' (''correlation_id''),
     CreateIndex ''idx_alerts_rule_id'' ''alerts'' (''rule_id'')])"

definition migrate_v4 :: migration where
  "migrate_v4 = (4, ''rules_table'', [
     CreateTable ''rules'' [
       (''id'', ''TEXT PRIMARY KEY''),
       (''rule_json'', ''TEXT NOT NULL''),
       (''enabled'', ''INTEGER NOT NULL DEFAULT 1''),
       (''created_at'', ''TEXT NOT NULL''),
       (''updated_at'', ''TEXT NOT NULL'')] [],
     CreateIndex ''idx_rules_enabled'' ''rules'' (''enabled'')])"

definition migrate_v5 :: migration where
  "migrate_v5 = (5, ''config_table'', [
     CreateTable ''config'' [
       (''key'', ''TEXT PRIMARY KEY''),
       (''value'', ''TEXT NOT NULL''),
       (''updated_at'', ''TEXT NOT NULL DEFAULT (datetime('' @ [CHR 0x27] @ ''now'' @ [CHR 0x27] @ ''))'')] []])"

definition migrate_v6 :: migration where
  "migrate_v6 = (6, ''process_tree_table'', [
     CreateTable ''process_tree'' [
       (''pid'', ''INTEGER PRIMARY KEY''),
       (''ppid'', ''INTEGER''),
       (''name'', ''TEXT NOT NULL''),
       (''path'', ''TEXT''),
       (''command_line'', ''TEXT''),
       (''user_sid'', ''TEXT''),
       (''username'', ''TEXT''),
       (''domain'', ''TEXT''),
       (''is_elevated'', ''INTEGER NOT NULL DEFAULT 0''),
       (''is_system'', ''INTEGER NOT NULL DEFAULT 0''),
       (''start_time'', ''TEXT NOT NULL''),
       (''end_time'', ''TEXT''),
       (''host_id'', ''TEXT NOT NULL'')] [],
     CreateIndex ''idx_process_tree_ppid'' ''process_tree'' (''ppid''),
     CreateIndex ''idx_process_tree_name'' ''process_tree'' (''name''),
     CreateIndex ''idx_process_tree_start_time'' ''process_tree'' (''start_time'')])"

definition migrate_v7 :: migration where
  "migrate_v7 = (7, ''correlation_chains'', [
     CreateTable ''correlation_chains'' [
       (''id'', ''TEXT PRIMARY KEY''),
       (''start_time'', ''TEXT NOT NULL''),
       (''end_time'', ''TEXT NOT NULL''),
       (''risk_score'', ''INTEGER NOT NULL''),
       (''tactics'', ''TEXT NOT NULL DEFAULT '' @ [CHR 0x27] @ ''[]'' @ [CHR 0x27]),
       (''techniques'', ''TEXT NOT NULL DEFAULT '' @ [CHR 0x27] @ ''[]'' @ [CHR 0x27]),
       (''event_count'', ''INTEGER NOT NULL DEFAULT 0''),
       (''state'', ''INTEGER NOT NULL DEFAULT 0''),
       (''kill_chain_coverage'', ''REAL NOT NULL DEFAULT 0.0''),
       (''created_at'', ''TEXT NOT NULL DEFAULT (datetime('' @ [CHR 0x27] @ ''now'' @ [CHR 0x27] @ ''))''),
       (''updated_at'', ''TEXT NOT NULL DEFAULT (datetime('' @ [CHR 0x27] @ ''now'' @ [CHR 0x27] @ ''))'')] [],
     CreateTable ''chain_events'' [
       (''chain_id'', ''TEXT NOT NULL''),
       (''event_id'', ''TEXT NOT NULL''),
       (''sequence'', ''INTEGER NOT NULL''),
       (''edge_type'', ''TEXT NOT NULL''),
       (''confidence'', ''REAL NOT NULL''),
       (''evidence'', ''TEXT'')] [''PRIMARY KEY (chain_id, event_id)'', ''FOREIGN KEY (chain_id) REFERENCES correlation_chains(id)''],
     CreateIndex ''idx_chain_events_chain_id'' ''chain_events'' (''chain_id''),
     CreateIndex ''idx_chain_events_event_id'' ''chain_events'' (''event_id'')])"

definition migrations :: "migration list" where
  "migrations = [migrate_v1, migrate_v2, migrate_v3, migrate_v4, migrate_v5, migrate_v6, migrate_v7]"

fun run_migrations :: "schema \<Rightarrow> migration list \<Rightarrow> string + schema" where
  "run_migrations db [] = Inr db"
| "run_migrations db (m # ms) = (case run_migration db m of Inl e \<Rightarrow> Inl e | Inr db' \<Rightarrow> run_migrations db' ms)"

definition create_migrations_table :: ddl where
  "create_migrations_table = CreateTable ''migrations''
     [(''version'', ''INTEGER PRIMARY KEY''), (''name'', ''TEXT NOT NULL''),
      (''applied_at'', ''TEXT NOT NULL DEFAULT (datetime('' @ [CHR 0x27] @ ''now'' @ [CHR 0x27] @ ''))'')] []"

definition run_all :: "schema \<Rightarrow> string + schema" where
  "run_all db = (case exec_ddl db create_migrations_table of
     Inl e \<Rightarrow> Inl e | Inr db' \<Rightarrow> run_migrations db' migrations)"

lemmas migration_defs = migrate_v1_def migrate_v2_def migrate_v3_def migrate_v4_def migrate_v5_def
  migrate_v6_def migrate_v7_def

definition latest_schema :: schema where
  "latest_schema = (case run_all empty_schema of Inr db \<Rightarrow> db | Inl _ \<Rightarrow> empty_schema)"

section \<open>A rerun changes nothing\<close>

lemma exec_ddl_grows:
  "exec_ddl db s = Inr db' \<Longrightarrow> db_versions db' = db_versions db \<and>
     (table_exists db t \<longrightarrow> table_exists db' t)"
  by (cases s) (auto simp: table_exists_def split: if_splits)

lemma exec_all_grows:
  "exec_all db ss = Inr db' \<Longrightarrow> db_versions db' = db_versions db \<and>
     (table_exists db t \<longrightarrow> table_exists db' t)"
proof (induction ss arbitrary: db)
  case (Cons s ss)
  then obtain d where d: "exec_ddl db s = Inr d" and r: "exec_all d ss = Inr db'"
    by (auto split: sum.splits)
  from Cons.IH [OF r] exec_ddl_grows [OF d, of t] show ?case by simp
qed simp

definition applied :: "schema \<Rightarrow> migration \<Rightarrow> bool" where
  "applied db m \<longleftrightarrow> fst m \<in> set (map fst (db_versions db))"

lemma run_migration_applied:
  "table_exists db ''migrations'' \<Longrightarrow> applied db m \<Longrightarrow> run_migration db m = Inr db"
  by (cases m) (simp add: run_migration_def is_applied_def applied_def)

lemma run_migration_grows:
  assumes "run_migration db m = Inr db'"
  shows "table_exists db' ''migrations'' \<and> applied db' m \<and> (applied db m' \<longrightarrow> applied db' m')"
proof -
  obtain v n ss where m: "m = (v, n, ss)" by (cases m) auto
  have t: "table_exists db ''migrations''"
    using assms by (simp add: m run_migration_def is_applied_def split: if_splits)
  show ?thesis
  proof (cases "applied db m")
    case True
    with assms t show ?thesis by (simp add: run_migration_applied)
  next
    case False
    then obtain d where d: "exec_all db ss = Inr d" and r: "record_version d v n = Inr db'"
      using assms t by (auto simp: m run_migration_def is_applied_def applied_def split: sum.splits)
    have g: "db_versions d = db_versions db" "table_exists d ''migrations''"
      using exec_all_grows [OF d, of "''migrations''"] t by simp_all
    have "db' = d \<lparr> db_versions := db_versions d @ [(v, n)] \<rparr>"
      using r g(2) by (simp add: record_version_def split: if_splits)
    with g show ?thesis by (simp add: applied_def m table_exists_def)
  qed
qed

lemma run_migrations_grows:
  "run_migrations db ms = Inr db' \<Longrightarrow> table_exists db ''migrations'' \<Longrightarrow>
     table_exists db' ''migrations'' \<and> (applied db m \<or> m \<in> set ms \<longrightarrow> applied db' m)"
proof (induction ms arbitrary: db)
  case (Cons a ms)
  then obtain d where d: "run_migration db a = Inr d" and r: "run_migrations d ms = Inr db'"
    by (auto split: sum.splits)
  from run_migration_grows [OF d] have t: "table_exists d ''migrations''" and a: "applied d a"
    and k: "applied db m \<longrightarrow> applied d m" by (blast+)
  from Cons.IH [OF r t] a k show ?case by auto
qed simp

lemma run_migrations_all_applied:
  "table_exists db ''migrations'' \<Longrightarrow> (\<And>m. m \<in> set ms \<Longrightarrow> applied db m) \<Longrightarrow>
     run_migrations db ms = Inr db"
  by (induction ms) (simp_all add: run_migration_applied)

lemma create_migrations_table_exists:
  "exec_ddl db create_migrations_table = Inr d \<Longrightarrow> table_exists d ''migrations''"
  by (auto simp: create_migrations_table_def table_exists_def split: if_splits)

lemma create_migrations_table_again:
  "table_exists db ''migrations'' \<Longrightarrow> exec_ddl db create_migrations_table = Inr db"
  by (simp add: create_migrations_table_def)

text \<open>
  Migrating is idempotent.  A run that succeeds has applied every migration, and running
  again on the database it left succeeds and changes nothing, whatever the database was before.
\<close>

theorem run_all_idempotent:
  assumes "run_all db = Inr db'"
  shows "run_all db' = Inr db' \<and> list_all (applied db') migrations"
proof -
  obtain d where d: "exec_ddl db create_migrations_table = Inr d" and r: "run_migrations d migrations = Inr db'"
    using assms by (auto simp: run_all_def split: sum.splits)
  from run_migrations_grows [OF r create_migrations_table_exists [OF d]]
  have t: "table_exists db' ''migrations''" and a: "m \<in> set migrations \<Longrightarrow> applied db' m" for m
    by auto
  show ?thesis
    using t a by (simp add: run_all_def create_migrations_table_again run_migrations_all_applied list_all_iff)
qed

lemma run_all_succeeds: "\<not> isl (run_all empty_schema)"
  by code_simp

lemma run_all_fresh: "run_all empty_schema = Inr latest_schema"
  using run_all_succeeds by (cases "run_all empty_schema") (simp_all add: latest_schema_def)

lemma run_all_idempotent_witness:
  "run_all latest_schema = Inr latest_schema \<and> list_all (applied latest_schema) migrations"
  using run_all_idempotent [OF run_all_fresh] .

section \<open>The schema the repositories rely on\<close>

definition columns_of :: "schema \<Rightarrow> string \<Rightarrow> string list" where
  "columns_of db t = (case map_of (db_tables db) t of None \<Rightarrow> [] | Some cols \<Rightarrow> map fst cols)"

definition has_primary_key :: "schema \<Rightarrow> string \<Rightarrow> string \<Rightarrow> bool" where
  "has_primary_key db t col = (case map_of (db_tables db) t of None \<Rightarrow> False
     | Some cols \<Rightarrow> map_of cols col \<in> {Some ''TEXT PRIMARY KEY'', Some ''INTEGER PRIMARY KEY''})"

lemma latest_keys:
  "has_primary_key latest_schema ''events'' ''id''" "has_primary_key latest_schema ''alerts'' ''id''"
  "has_primary_key latest_schema ''rules'' ''id''" "has_primary_key latest_schema ''config'' ''key''"
  "has_primary_key latest_schema ''correlation_chains'' ''id''"
  by code_simp+

section \<open>Interrupted migrations\<close>

fun creates_index :: "ddl \<Rightarrow> bool" where
  "creates_index (CreateTable t cols cs) = False"
| "creates_index (CreateIndex i t e) = True"

lemma exec_ddl_indexes:
  "exec_ddl db s = Inr db' \<Longrightarrow> set (db_indexes db) \<subseteq> set (db_indexes db')"
  by (cases s) (auto split: if_splits)

lemma exec_all_indexes:
  "exec_all db ss = Inr db' \<Longrightarrow> set (db_indexes db) \<subseteq> set (db_indexes db') \<and>
     (CreateIndex i t e \<in> set ss \<longrightarrow> i \<in> set (db_indexes db'))"
proof (induction ss arbitrary: db)
  case (Cons s ss)
  then obtain d where d: "exec_ddl db s = Inr d" and r: "exec_all d ss = Inr db'"
    by (auto split: sum.splits)
  have "s = CreateIndex i t e \<longrightarrow> i \<in> set (db_indexes d)"
    using d by (auto split: if_splits)
  with Cons.IH [OF r] exec_ddl_indexes [OF d] show ?case by auto
qed simp

lemma exec_all_index_conflict:
  "i \<in> set (db_indexes db) \<Longrightarrow> CreateIndex i t e \<in> set ss \<Longrightarrow> \<exists>msg. exec_all db ss = Inl msg"
proof (induction ss arbitrary: db)
  case (Cons s ss)
  show ?case
  proof (cases "exec_ddl db s")
    case (Inr d)
    from Cons.prems exec_ddl_indexes [OF Inr] have "i \<in> set (db_indexes d)" by blast
    moreover have "CreateIndex i t e \<in> set ss"
      using Cons.prems Inr by (auto split: if_splits)
    ultimately show ?thesis using Cons.IH Inr by simp
  qed simp
qed simp

text \<open>
  A migration that is cut off is never repaired by running it again.  If the part that ran
  has created one index, every later run of the same migration stops at that index, because
  only tables are created \<open>IF NOT EXISTS\<close>, and the version is never recorded.
\<close>

theorem interrupted_migration_stuck:
  assumes "exec_all db (take n stmts) = Inr db'"
    and "list_ex creates_index (take n stmts)"
    and "\<not> applied db' (v, name, stmts)"
  shows "\<exists>msg. run_migration db' (v, name, stmts) = Inl msg"
proof -
  obtain s where s: "s \<in> set (take n stmts)" "creates_index s"
    using assms(2) by (auto simp: list_ex_iff)
  obtain i t e where "s = CreateIndex i t e"
    using s(2) by (cases s) auto
  with s have i: "CreateIndex i t e \<in> set (take n stmts)" by simp
  then have "i \<in> set (db_indexes db')" "CreateIndex i t e \<in> set stmts"
    using exec_all_indexes [OF assms(1), of i t e] by (auto dest: in_set_takeD)
  from exec_all_index_conflict [OF this] obtain msg where "exec_all db' stmts = Inl msg" by blast
  with assms(3) show ?thesis
    by (auto simp: run_migration_def is_applied_def applied_def)
qed

text \<open>The first run ends after the table \<open>events\<close> and its first index.\<close>

definition half_done :: schema where
  "half_done = (case exec_all empty_schema (create_migrations_table # take 2 (snd (snd migrate_v1))) of
     Inr db \<Rightarrow> db | Inl _ \<Rightarrow> empty_schema)"

lemma half_done_run:
  "exec_all (empty_schema \<lparr> db_tables := db_tables half_done \<rparr>)
     (take 2 (snd (snd migrate_v1))) = Inr half_done \<and>
   list_ex creates_index (take 2 (snd (snd migrate_v1))) \<and>
   db_versions half_done = []"
  by code_simp

lemma interrupted_migration_stuck_witness:
  "\<exists>msg. run_migration half_done (1, ''initial_schema'', snd (snd migrate_v1)) = Inl msg"
  by (rule interrupted_migration_stuck [of "empty_schema \<lparr> db_tables := db_tables half_done \<rparr>" 2])
    (use half_done_run in \<open>simp_all add: applied_def\<close>)

lemma half_done_run_all:
  "run_all half_done = Inl ''index idx_events_timestamp already exists''"
  by code_simp

end
