(* ===== verification/Storage.thy ===== *)
theory Storage
  imports Storage_Conv Sql_Query Rules Errors Migrations
begin

text \<open>
  The SQLite repositories of crates/sentinel-storage/src/sqlite.rs.  A table is a map from its
  primary key to its row; a row has the columns the statements name, integers as SQLite keeps
  them and texts as the code writes them.  The texts of ULIDs, dates, JSON values and rules are
  made and read by libraries: they are the fields of a \<open>codec\<close>.
\<close>

section \<open>Libraries\<close>

type_synonym ulid = "128 word"

record codec =
  k_ulid_show :: "ulid \<Rightarrow> string"
  k_ulid_parse :: "string \<Rightarrow> ulid option"
  k_date_show :: "datetime \<Rightarrow> string"
  k_date_parse :: "string \<Rightarrow> datetime option"
  k_json_show :: "json \<Rightarrow> string"
  k_json_parse :: "string \<Rightarrow> json option"
  k_rule_show :: "rule \<Rightarrow> string"
  k_rule_parse :: "string \<Rightarrow> rule option"
  k_ts_show :: "int \<Rightarrow> nat \<Rightarrow> string option"

text \<open>A codec of decimal numbers, for concrete evaluations.\<close>

definition decimal_codec :: "json \<Rightarrow> rule \<Rightarrow> codec" where
  "decimal_codec j r = \<lparr> k_ulid_show = show_word, k_ulid_parse = (\<lambda>s. map_option word_of_int (read_int s)),
     k_date_show = show_int, k_date_parse = read_int, k_json_show = (\<lambda>_. ''json''),
     k_json_parse = (\<lambda>_. Some j), k_rule_show = (\<lambda>_. ''rule''), k_rule_parse = (\<lambda>_. Some r),
     k_ts_show = (\<lambda>s n. Some (show_int s)) \<rparr>"

section \<open>Tables\<close>

type_synonym 'r table = "string \<rightharpoonup> 'r"

definition table_get :: "'r table \<Rightarrow> string \<Rightarrow> 'r option" where
  "table_get t k = t k"

text \<open>\<open>INSERT\<close> fails on a key that is there; \<open>INSERT ... ON CONFLICT DO UPDATE\<close> replaces.\<close>

definition table_insert :: "('r \<Rightarrow> string) \<Rightarrow> string \<Rightarrow> 'r table \<Rightarrow> 'r \<Rightarrow> 'r table result" where
  "table_insert key msg t r =
     (if t (key r) = None then Inr (t(key r \<mapsto> r)) else Inl (Err_Storage (SE_Query msg)))"

definition table_put :: "('r \<Rightarrow> string) \<Rightarrow> 'r table \<Rightarrow> 'r \<Rightarrow> 'r table" where
  "table_put key t r = t(key r \<mapsto> r)"

definition table_modify :: "('r \<Rightarrow> 'r) \<Rightarrow> 'r table \<Rightarrow> string \<Rightarrow> 'r table" where
  "table_modify f t k = (case t k of None \<Rightarrow> t | Some r \<Rightarrow> t(k \<mapsto> f r))"

definition table_delete :: "'r table \<Rightarrow> string \<Rightarrow> 'r table" where
  "table_delete t k = t(k := None)"

lemma table_insert_get:
  "table_insert key msg t r = Inr t' \<Longrightarrow> table_get t' k = (if k = key r then Some r else table_get t k)"
  by (auto simp: table_insert_def table_get_def split: if_splits)

section \<open>Events\<close>

record event_row =
  er_id :: string
  er_type :: string
  er_source :: string
  er_timestamp :: string
  er_ingest_timestamp :: string
  er_severity :: int
  er_process :: string
  er_payload :: string
  er_tags :: string
  er_metadata :: string
  er_risk_score :: int
  er_correlation :: string
  er_host_id :: string
  er_schema_version :: int

definition event_insert_columns :: "string list" where
  "event_insert_columns = [''id'', ''type'', ''source'', ''timestamp'', ''ingest_timestamp'', ''severity'',
     ''process'', ''payload'', ''tags'', ''metadata'', ''risk_score'', ''correlation'', ''host_id'',
     ''schema_version'']"

definition json_or_empty :: "codec \<Rightarrow> ('a \<Rightarrow> json) \<Rightarrow> 'a option \<Rightarrow> string" where
  "json_or_empty c f x = (case x of None \<Rightarrow> ''{}'' | Some y \<Rightarrow> k_json_show c (f y))"

definition event_row_of :: "codec \<Rightarrow> event \<Rightarrow> event_row" where
  "event_row_of c e = \<lparr> er_id = ev_id e, er_type = ev_type e, er_source = ev_source e,
     er_timestamp = ts_to_rfc3339 (k_ts_show c) (ev_timestamp e),
     er_ingest_timestamp = ts_to_rfc3339 (k_ts_show c) (ev_ingest_timestamp e),
     er_severity = sint (ev_severity e),
     er_process = json_or_empty c process_to_json (ev_process e),
     er_payload = json_or_empty c payload_to_json (ev_payload e),
     er_tags = k_json_show c (json_strings (ev_tags e)),
     er_metadata = json_or_empty c struct_to_json (ev_metadata e),
     er_risk_score = uint (ev_risk_score e),
     er_correlation = json_or_empty c correlation_to_json (ev_correlation e),
     er_host_id = ev_host_id e,
     er_schema_version = sint (ev_schema_version e) \<rparr>"

text \<open>The columns as the conditions of a query see them.\<close>

definition event_column :: "event_row \<Rightarrow> string \<Rightarrow> sql_value" where
  "event_column r c =
     (if c = ''id'' then SText (er_id r) else if c = ''type'' then SText (er_type r)
      else if c = ''source'' then SText (er_source r) else if c = ''timestamp'' then SText (er_timestamp r)
      else if c = ''ingest_timestamp'' then SText (er_ingest_timestamp r)
      else if c = ''severity'' then SInt (er_severity r) else if c = ''process'' then SText (er_process r)
      else if c = ''payload'' then SText (er_payload r) else if c = ''tags'' then SText (er_tags r)
      else if c = ''metadata'' then SText (er_metadata r)
      else if c = ''risk_score'' then SInt (er_risk_score r)
      else if c = ''correlation'' then SText (er_correlation r)
      else if c = ''host_id'' then SText (er_host_id r) else SInt (er_schema_version r))"

type_synonym event_table = "event_row table"

text \<open>\<open>append\<close> inserts the events in one transaction: the first failure rolls all of them back.\<close>

fun insert_events :: "codec \<Rightarrow> string \<Rightarrow> event_table \<Rightarrow> event list \<Rightarrow> event_table result" where
  "insert_events c msg t [] = Inr t"
| "insert_events c msg t (e # es) =
     bind_result (table_insert er_id msg t (event_row_of c e)) (\<lambda>t'. insert_events c msg t' es)"

definition events_append :: "codec \<Rightarrow> string \<Rightarrow> event_table \<Rightarrow> event list \<Rightarrow> event_table \<times> unit result" where
  "events_append c msg t es =
     (if es = [] then (t, Inr ())
      else case insert_events c msg t es of Inl e \<Rightarrow> (t, Inl e) | Inr t' \<Rightarrow> (t', Inr ()))"

definition tags_of_json :: "json option \<Rightarrow> string list" where
  "tags_of_json v = (case v of
     Some (JArray vs) \<Rightarrow> (if list_all (\<lambda>j. json_as_str j \<noteq> None) vs then List.map_filter json_as_str vs else [])
   | _ \<Rightarrow> [])"

text \<open>Reading an integer column as \<open>i32\<close> keeps its low 32 bits.\<close>

definition get_i32 :: "int \<Rightarrow> i32" where
  "get_i32 n = word_of_int n"

definition row_to_event :: "codec \<Rightarrow> event_row \<Rightarrow> event" where
  "row_to_event c r = \<lparr> ev_id = er_id r, ev_type = er_type r, ev_source = er_source r,
     ev_timestamp = None, ev_ingest_timestamp = None, ev_severity = get_i32 (er_severity r),
     ev_process = deser_process_opt (k_json_parse c) (er_process r), ev_payload = None,
     ev_tags = tags_of_json (k_json_parse c (er_tags r)), ev_metadata = None,
     ev_risk_score = get_i32 (er_risk_score r), ev_correlation = None, ev_host_id = er_host_id r,
     ev_schema_version = get_i32 (er_schema_version r) \<rparr>"

definition events_get :: "codec \<Rightarrow> event_table \<Rightarrow> string \<Rightarrow> event option" where
  "events_get c t i = map_option (row_to_event c) (table_get t i)"

definition events_query ::
    "codec \<Rightarrow> (string \<Rightarrow> bool \<Rightarrow> event_row list \<Rightarrow> event_row list) \<Rightarrow> event_query \<Rightarrow> event_row list \<Rightarrow> event list" where
  "events_query c order q rows =
     map (row_to_event c) (select_page order (k_date_show c) event_column q rows)"

text \<open>What is left of an event that went through the database.\<close>

definition stored_event :: "event \<Rightarrow> event" where
  "stored_event e = e\<lparr> ev_timestamp := None, ev_ingest_timestamp := None,
     ev_process := map_option stored_process (ev_process e), ev_payload := None, ev_metadata := None,
     ev_correlation := None \<rparr>"

text \<open>The JSON library prints the tags and the process of the event so that it can read them.\<close>

definition event_text_ok :: "codec \<Rightarrow> event \<Rightarrow> bool" where
  "event_text_ok c e \<longleftrightarrow>
     k_json_parse c (k_json_show c (json_strings (ev_tags e))) = Some (json_strings (ev_tags e)) \<and>
     (case ev_process e of None \<Rightarrow> True
      | Some p \<Rightarrow> k_json_parse c (k_json_show c (process_to_json p)) = Some (process_to_json p)
                \<and> k_json_show c (process_to_json p) \<notin> {[], ''{}''})"

lemma tags_of_strings: "tags_of_json (Some (json_strings xs)) = xs"
  by (simp add: tags_of_json_def json_strings_def map_filter_strings list_all_iff json_as_str_def)

lemma get_i32_facts [simp]:
  "get_i32 (sint w) = w" "get_i32 (uint w) = w"
  by (simp_all add: get_i32_def)

lemma row_to_event_of:
  assumes "event_text_ok c e"
  shows "row_to_event c (event_row_of c e) = stored_event e"
proof -
  have "deser_process_opt (k_json_parse c) (json_or_empty c process_to_json (ev_process e))
      = map_option stored_process (ev_process e)"
  proof (cases "ev_process e")
    case None
    then show ?thesis by (simp add: json_or_empty_def deser_process_opt_def)
  next
    case (Some p)
    have "deser_process_opt (k_json_parse c) (k_json_show c (process_to_json p)) = Some (stored_process p)"
      by (rule deser_process_to_json) (use assms Some in \<open>simp_all add: event_text_ok_def\<close>)
    with Some show ?thesis by (simp add: json_or_empty_def)
  qed
  moreover have "tags_of_json (k_json_parse c (k_json_show c (json_strings (ev_tags e)))) = ev_tags e"
    using assms by (simp add: event_text_ok_def tags_of_strings)
  ultimately show ?thesis
    by (simp add: row_to_event_def event_row_of_def stored_event_def)
qed

lemma insert_events_get:
  "insert_events c msg t es = Inr t' \<Longrightarrow>
     (\<forall>e \<in> set es. table_get t' (ev_id e) = Some (event_row_of c e)) \<and>
     (\<forall>k r. table_get t k = Some r \<longrightarrow> table_get t' k = Some r)"
proof (induction es arbitrary: t)
  case (Cons e es)
  then obtain s where s: "table_insert er_id msg t (event_row_of c e) = Inr s"
    and r: "insert_events c msg s es = Inr t'"
    by (auto simp: bind_result_Inr)
  have i: "er_id (event_row_of c e) = ev_id e" by (simp add: event_row_of_def)
  have "table_get t (ev_id e) = None"
    using s i by (simp add: table_insert_def table_get_def split: if_splits)
  with Cons.IH [OF r] table_insert_get [OF s] i show ?case
    by (metis option.distinct(1) set_ConsD)
qed simp

text \<open>
  C8: What the event repository returns for an id after a successful append is the event that
  was appended, reduced to what the row reader restores: the process without its user, its
  signing information and its parents, and no payload, metadata, correlation or time.
\<close>

theorem append_then_get:
  assumes "events_append c msg t es = (t', Inr ())"
    and "e \<in> set es" and "event_text_ok c e"
  shows "events_get c t' (ev_id e) = Some (stored_event e)"
proof -
  have "insert_events c msg t es = Inr t'"
    using assms(1,2) by (cases "insert_events c msg t es") (auto simp: events_append_def split: if_splits)
  from insert_events_get [OF this] assms(2) show ?thesis
    by (simp add: events_get_def row_to_event_of [OF assms(3)])
qed

abbreviation sample_event :: event where
  "sample_event \<equiv> event_default \<lparr> ev_id := ''e1'', ev_type := ''process.create'', ev_tags := [''a''],
     ev_severity := 6, ev_risk_score := 700, ev_schema_version := 1 \<rparr>"

abbreviation sample_codec :: codec where
  "sample_codec \<equiv> decimal_codec (json_strings [''a'']) (rule_default 0 0)"

lemma append_then_get_witness:
  "events_get sample_codec (fst (events_append sample_codec ''dup'' Map.empty [sample_event])) ''e1''
     = Some sample_event"
proof -
  have "events_append sample_codec ''dup'' Map.empty [sample_event]
      = (fst (events_append sample_codec ''dup'' Map.empty [sample_event]), Inr ())"
    by (simp add: events_append_def table_insert_def)
  from append_then_get [OF this, of sample_event] show ?thesis
    by (simp add: event_text_ok_def decimal_codec_def event_default_def stored_event_def)
qed

text \<open>
  An append that fails leaves the table as it was, whichever of the events is the
  duplicate, and an append that succeeds keeps every row that was there.
\<close>

theorem append_atomic:
  "case events_append c msg t es of
     (t', Inl err) \<Rightarrow> t' = t \<and> err = Err_Storage (SE_Query msg)
   | (t', Inr ok) \<Rightarrow> dom t' = dom t \<union> ev_id ` set es \<and> t \<subseteq>\<^sub>m t'"
proof -
  have err: "insert_events c msg s xs = Inl e \<Longrightarrow> e = Err_Storage (SE_Query msg)" for s xs e
    by (induction xs arbitrary: s) (auto simp: table_insert_def split: if_splits)
  have ok: "insert_events c msg s xs = Inr s' \<Longrightarrow> dom s' = dom s \<union> ev_id ` set xs" for s xs s'
    by (induction xs arbitrary: s)
      (auto simp: table_insert_def bind_result_Inr event_row_of_def split: if_splits)
  show ?thesis
  proof (cases "es = [] ")
    case True
    then show ?thesis by (simp add: events_append_def)
  next
    case False
    then show ?thesis
      using err [of t es] ok [of t es] insert_events_get [of c msg t es]
      by (cases "insert_events c msg t es")
        (auto simp: events_append_def map_le_def table_get_def)
  qed
qed

section \<open>Structured filters\<close>

lemma read_show_word: "read_int (show_word w) = Some (uint w)"
  using read_show_int [of "uint w"] by (simp add: show_int_def show_word_def)

lemma sint_severity: "sint x = uint (severity_code s) \<longleftrightarrow> x = severity_i32 s" for x :: i32
proof -
  have "uint (severity_code s) = sint (severity_i32 s)"
    by (cases s) (simp_all add: severity_i32_def)
  then show ?thesis by (metis signed_word_eqI)
qed

text \<open>
  The structured filters of a query select exactly the events they describe: by type, by
  source, by severity and by minimum risk score, each filter ignored when it is empty.
\<close>

theorem structured_filters_exact:
  "row_matches (event_conds rfc (event_query_default \<lparr> eq_event_types := types, eq_sources := sources,
       eq_severities := sevs, eq_min_risk_score := risk \<rparr>)) (event_column (event_row_of c e))
   \<longleftrightarrow> (types = [] \<or> ev_type e \<in> set types) \<and> (sources = [] \<or> ev_source e \<in> set sources)
      \<and> (sevs = [] \<or> ev_severity e \<in> severity_i32 ` set sevs)
      \<and> (case risk of None \<Rightarrow> True | Some r \<Rightarrow> r \<le> ev_risk_score e)"
proof -
  have t: "row_matches (in_cond ''type'' id types) (event_column (event_row_of c e))
      = (types = [] \<or> ev_type e \<in> set types)"
    by (auto simp: row_matches_def in_cond_def list_ex_iff event_column_def event_row_of_def)
  have o': "row_matches (in_cond ''source'' id sources) (event_column (event_row_of c e))
      = (sources = [] \<or> ev_source e \<in> set sources)"
    by (auto simp: row_matches_def in_cond_def list_ex_iff event_column_def event_row_of_def)
  have s: "row_matches (in_cond ''severity'' show_severity sevs) (event_column (event_row_of c e))
      = (sevs = [] \<or> ev_severity e \<in> severity_i32 ` set sevs)"
    by (auto simp: row_matches_def in_cond_def list_ex_iff event_column_def event_row_of_def
        show_severity_def read_show_word sint_severity eq_commute [of "uint _" "sint _"] image_iff)
  have k: "row_matches (opt_cond (C_Ge ''risk_score'') show_word risk) (event_column (event_row_of c e))
      = (case risk of None \<Rightarrow> True | Some r \<Rightarrow> r \<le> ev_risk_score e)"
    by (cases risk)
      (simp_all add: row_matches_def opt_cond_def event_column_def event_row_of_def read_show_word word_le_def)
  have a: "row_matches (x @ y) r = (row_matches x r \<and> row_matches y r)" for x y r
    by (simp add: row_matches_def)
  have n: "row_matches [] r" for r by (simp add: row_matches_def)
  show ?thesis
    by (simp add: event_conds_def event_query_default_def a n t o' s k
        opt_cond_def [of _ _ None] like_conds_def free_text_cond_def)
qed

end
