(* ===== verification/Repositories.thy ===== *)
theory Repositories
  imports Storage
begin

text \<open>
  The other repositories of crates/sentinel-storage/src/sqlite.rs: alerts, rules, configuration
  and attack chains, and the cursor over the events of a query.
\<close>

section \<open>The event cursor\<close>

record 'e cursor =
  cu_events :: "'e list"
  cu_position :: nat
  cu_total_count :: nat

definition cursor_new :: "'e list \<Rightarrow> 'e cursor" where
  "cursor_new es = \<lparr> cu_events = es, cu_position = 0, cu_total_count = length es \<rparr>"

definition cursor_next :: "'e cursor \<Rightarrow> 'e option \<times> 'e cursor" where
  "cursor_next c =
     (if length (cu_events c) \<le> cu_position c then (None, c)
      else (Some (cu_events c ! cu_position c), c\<lparr> cu_position := cu_position c + 1 \<rparr>))"

definition cursor_collect :: "nat \<Rightarrow> 'e cursor \<Rightarrow> 'e list \<times> 'e cursor" where
  "cursor_collect limit c =
     (let remaining = length (cu_events c) - cu_position c; n = min limit remaining
      in (take n (drop (cu_position c) (cu_events c)), c\<lparr> cu_position := cu_position c + n \<rparr>))"

datatype cursor_call = Next | Collect nat

fun cursor_run :: "cursor_call list \<Rightarrow> 'e cursor \<Rightarrow> 'e list \<times> 'e cursor" where
  "cursor_run [] c = ([], c)"
| "cursor_run (Next # ops) c =
     (case cursor_next c of (x, c') \<Rightarrow> case cursor_run ops c' of (ys, c'') \<Rightarrow>
        ((case x of None \<Rightarrow> [] | Some e \<Rightarrow> [e]) @ ys, c''))"
| "cursor_run (Collect n # ops) c =
     (case cursor_collect n c of (xs, c') \<Rightarrow> case cursor_run ops c' of (ys, c'') \<Rightarrow> (xs @ ys, c''))"

fun call_size :: "cursor_call \<Rightarrow> nat" where
  "call_size Next = 1"
| "call_size (Collect n) = n"

lemma cursor_next_collect:
  "(case fst (cursor_next c) of None \<Rightarrow> [] | Some e \<Rightarrow> [e], snd (cursor_next c)) = cursor_collect 1 c"
  by (auto simp: cursor_next_def cursor_collect_def min_def take_Suc_conv_app_nth Let_def hd_drop_conv_nth take_Suc
      split: option.splits)

lemma take_then_take:
  "take (min n (length xs)) xs @ take k (drop (min n (length xs)) xs) = take (n + k) xs"
  by (cases "n \<le> length xs") (simp_all add: take_add min_def)

lemma cursor_collect_run:
  "cu_position c \<le> length (cu_events c) \<Longrightarrow>
   cursor_run ops c = (take (sum_list (map call_size ops)) (drop (cu_position c) (cu_events c)),
     c\<lparr> cu_position := min (length (cu_events c)) (cu_position c + sum_list (map call_size ops)) \<rparr>)"
proof (induction ops arbitrary: c)
  case (Cons op ops)
  define n where "n = call_size op"
  have step: "cursor_run (op # ops) c = (let (xs, c') = cursor_collect n c; (ys, c'') = cursor_run ops c' in (xs @ ys, c''))"
  proof (cases op)
    case Next
    then show ?thesis
      using cursor_next_collect [of c, symmetric] by (simp add: n_def case_prod_beta Let_def)
  qed (simp add: n_def Let_def case_prod_beta)
  have size: "call_size op = n" by (simp add: n_def)
  obtain m where m: "m = min n (length (cu_events c) - cu_position c)" by blast
  have pos: "cu_position c + m \<le> length (cu_events c)" using Cons.prems m by simp
  have "take m (drop (cu_position c) (cu_events c)) @ take k (drop (cu_position c + m) (cu_events c))
      = take (n + k) (drop (cu_position c) (cu_events c))" for k
    using take_then_take [of n "drop (cu_position c) (cu_events c)" k] by (simp add: m add.commute)
  moreover have "min (length (cu_events c)) (cu_position c + m + k) = min (length (cu_events c)) (cu_position c + (n + k))" for k
    using m Cons.prems by auto
  ultimately show ?case
    using Cons.IH [of "c\<lparr> cu_position := cu_position c + m \<rparr>"] pos
    by (simp add: step cursor_collect_def Let_def size m [symmetric])
qed simp

text \<open>
  A cursor delivers the rows of its query in order, none lost and none repeated, however the
  calls of \<open>next\<close> and \<open>collect\<close> are mixed: together they return the first rows, as many as they
  ask for, and its total is the number of rows of the page.
\<close>

theorem cursor_delivers_in_order:
  "fst (cursor_run ops (cursor_new es)) = take (sum_list (map call_size ops)) es \<and>
   cu_total_count (snd (cursor_run ops (cursor_new es))) = length es"
  by (simp add: cursor_collect_run cursor_new_def)

section \<open>Alerts\<close>

record alert =
  al_id :: ulid
  al_rule_id :: string
  al_correlation_id :: ulid
  al_risk_score :: u32
  al_severity :: severity
  al_state :: alert_state
  al_created_at :: datetime
  al_updated_at :: datetime
  al_acknowledged_by :: "string option"
  al_acknowledged_at :: "datetime option"
  al_events :: "ulid list"
  al_context :: json
  al_ai_summary :: "string option"

record alert_row =
  ar_id :: string
  ar_rule_id :: string
  ar_correlation_id :: string
  ar_risk_score :: int
  ar_severity :: int
  ar_state :: int
  ar_created_at :: string
  ar_updated_at :: string
  ar_acknowledged_by :: "string option"
  ar_acknowledged_at :: "string option"
  ar_events :: string
  ar_context :: string
  ar_ai_summary :: "string option"

definition alert_row_of :: "codec \<Rightarrow> alert \<Rightarrow> alert_row" where
  "alert_row_of c a = \<lparr> ar_id = k_ulid_show c (al_id a), ar_rule_id = al_rule_id a,
     ar_correlation_id = k_ulid_show c (al_correlation_id a), ar_risk_score = uint (al_risk_score a),
     ar_severity = uint (severity_code (al_severity a)), ar_state = alert_state_code (al_state a),
     ar_created_at = k_date_show c (al_created_at a), ar_updated_at = k_date_show c (al_updated_at a),
     ar_acknowledged_by = al_acknowledged_by a,
     ar_acknowledged_at = map_option (k_date_show c) (al_acknowledged_at a),
     ar_events = str_join '','' (map (k_ulid_show c) (al_events a)),
     ar_context = k_json_show c (al_context a), ar_ai_summary = al_ai_summary a \<rparr>"

type_synonym alert_table = "alert_row table"

definition alert_create :: "codec \<Rightarrow> string \<Rightarrow> alert_table \<Rightarrow> alert \<Rightarrow> alert_table result" where
  "alert_create c msg t a = table_insert ar_id msg t (alert_row_of c a)"

text \<open>\<open>row_to_severity\<close> and the state column.\<close>

definition severity_of_code :: "int \<Rightarrow> severity" where
  "severity_of_code n =
     (if n = 1 then Debug else if n = 2 then Info else if n = 3 then Notice else if n = 4 then Warning
      else if n = 5 then Error else if n = 6 then Critical else if n = 7 then Alert
      else if n = 8 then Emergency else severity_default)"

definition alert_state_of_code :: "int \<Rightarrow> alert_state" where
  "alert_state_of_code n =
     (if n = 1 then AS_Acknowledged else if n = 2 then AS_Investigating
      else if n = 3 then AS_ResolvedTruePositive else if n = 4 then AS_ResolvedFalsePositive
      else if n = 5 then AS_Suppressed else AS_New)"

text \<open>An id that cannot be read becomes a new one: \<open>fresh\<close>.  A date that cannot be read becomes
  the epoch.\<close>

definition parse_date :: "codec \<Rightarrow> string \<Rightarrow> datetime" where
  "parse_date c s = (case k_date_parse c s of None \<Rightarrow> 0 | Some d \<Rightarrow> d)"

definition parse_ulid :: "codec \<Rightarrow> ulid \<Rightarrow> string \<Rightarrow> ulid" where
  "parse_ulid c fresh s = (case k_ulid_parse c s of None \<Rightarrow> fresh | Some i \<Rightarrow> i)"

definition parse_event_ids :: "codec \<Rightarrow> string \<Rightarrow> ulid list" where
  "parse_event_ids c s = (if s = [] then []
     else List.map_filter (\<lambda>w. k_ulid_parse c (str_trim w)) (str_split (\<lambda>ch. ch = CHR '','') s))"

definition row_to_alert :: "codec \<Rightarrow> ulid \<Rightarrow> ulid \<Rightarrow> alert_row \<Rightarrow> alert" where
  "row_to_alert c fresh fresh' r = \<lparr> al_id = parse_ulid c fresh (ar_id r), al_rule_id = ar_rule_id r,
     al_correlation_id = parse_ulid c fresh' (ar_correlation_id r),
     al_risk_score = get_i32 (ar_risk_score r), al_severity = severity_of_code (sint (get_i32 (ar_severity r))),
     al_state = alert_state_of_code (sint (get_i32 (ar_state r))),
     al_created_at = parse_date c (ar_created_at r), al_updated_at = parse_date c (ar_updated_at r),
     al_acknowledged_by = ar_acknowledged_by r,
     al_acknowledged_at = Option.bind (ar_acknowledged_at r) (k_date_parse c),
     al_events = parse_event_ids c (ar_events r),
     al_context = (case k_json_parse c (ar_context r) of None \<Rightarrow> JNull | Some j \<Rightarrow> j),
     al_ai_summary = ar_ai_summary r \<rparr>"

definition alert_get :: "codec \<Rightarrow> ulid \<Rightarrow> ulid \<Rightarrow> alert_table \<Rightarrow> ulid \<Rightarrow> alert option" where
  "alert_get c fresh fresh' t i = map_option (row_to_alert c fresh fresh') (table_get t (k_ulid_show c i))"

definition set_state :: "codec \<Rightarrow> datetime \<Rightarrow> alert_state \<Rightarrow> string option \<Rightarrow> alert_row \<Rightarrow> alert_row" where
  "set_state c now st comment r =
     (let (by', at') = (if st = AS_Acknowledged then (comment, Some (k_date_show c now)) else (None, None))
      in r\<lparr> ar_state := alert_state_code st, ar_updated_at := k_date_show c now,
            ar_acknowledged_by := by', ar_acknowledged_at := at' \<rparr>)"

definition alert_update_state ::
    "codec \<Rightarrow> datetime \<Rightarrow> alert_table \<Rightarrow> ulid \<Rightarrow> alert_state \<Rightarrow> string option \<Rightarrow> alert_table" where
  "alert_update_state c now t i st comment = table_modify (set_state c now st comment) t (k_ulid_show c i)"

interpretation alert_rows: updatable_store ar_id table_get "table_put ar_id" table_modify
    "\<lambda>f. \<forall>r. ar_id (f r) = ar_id r"
  by unfold_locales (auto simp: table_get_def table_put_def table_modify_def split: option.splits)

text \<open>The texts of the alert survive the database.\<close>

definition id_text_ok :: "codec \<Rightarrow> ulid \<Rightarrow> bool" where
  "id_text_ok c i \<longleftrightarrow> k_ulid_parse c (k_ulid_show c i) = Some i \<and> k_ulid_show c i \<noteq> []
     \<and> list_all (\<lambda>ch. ch \<noteq> CHR '','' \<and> \<not> is_whitespace ch) (k_ulid_show c i)"

definition date_text_ok :: "codec \<Rightarrow> datetime \<Rightarrow> bool" where
  "date_text_ok c d \<longleftrightarrow> k_date_parse c (k_date_show c d) = Some d"

definition alert_text_ok :: "codec \<Rightarrow> alert \<Rightarrow> bool" where
  "alert_text_ok c a \<longleftrightarrow> list_all (id_text_ok c) (al_id a # al_correlation_id a # al_events a)
     \<and> date_text_ok c (al_created_at a) \<and> date_text_ok c (al_updated_at a)
     \<and> (case al_acknowledged_at a of None \<Rightarrow> True | Some d \<Rightarrow> date_text_ok c d)
     \<and> k_json_parse c (k_json_show c (al_context a)) = Some (al_context a)"

lemma severity_of_code_code: "severity_of_code (sint (get_i32 (uint (severity_code s)))) = s"
  by (cases s) (simp_all add: severity_of_code_def get_i32_def)

lemma alert_state_of_code_code: "alert_state_of_code (sint (get_i32 (alert_state_code s))) = s"
  by (cases s) (simp_all add: alert_state_of_code_def get_i32_def)

lemma split_join_ids:
  assumes "list_all (id_text_ok c) ids" and "ids \<noteq> []"
  shows "str_split (\<lambda>ch. ch = CHR '','') (str_join '','' (map (k_ulid_show c) ids)) = map (k_ulid_show c) ids"
  using assms
proof (induction ids rule: induct_list012)
  case (2 i)
  then show ?case by (auto simp: id_text_ok_def list_all_iff intro!: str_split_single)
next
  case (3 i j ids)
  have "str_split (\<lambda>ch. ch = CHR '','') (k_ulid_show c i @ CHR '','' # s)
      = k_ulid_show c i # str_split (\<lambda>ch. ch = CHR '','') s" for s
    by (rule str_split_append) (use 3 in \<open>auto simp: id_text_ok_def list_all_iff\<close>)
  with 3 show ?case by simp
qed simp

lemma join_ids_empty:
  "list_all (id_text_ok c) ids \<Longrightarrow> str_join '','' (map (k_ulid_show c) ids) = [] \<longleftrightarrow> ids = []"
  by (cases ids rule: remdups_adj.cases) (auto simp: id_text_ok_def)

lemma parse_join_ids:
  assumes "list_all (id_text_ok c) ids"
  shows "parse_event_ids c (str_join '','' (map (k_ulid_show c) ids)) = ids"
proof -
  have t: "k_ulid_parse c (str_trim (k_ulid_show c i)) = Some i" if "id_text_ok c i" for i
    using that trim_matches_none [of "k_ulid_show c i" is_whitespace]
    by (auto simp: id_text_ok_def str_trim_def list_all_iff)
  have "List.map_filter (\<lambda>w. k_ulid_parse c (str_trim w)) (map (k_ulid_show c) ids) = ids"
    using assms by (induction ids) (simp_all add: map_filter_simps t)
  with split_join_ids [OF assms] show ?thesis
    by (simp add: parse_event_ids_def join_ids_empty [OF assms])
qed

lemma row_to_alert_of:
  assumes "alert_text_ok c a"
  shows "row_to_alert c fresh fresh' (alert_row_of c a) = a"
proof -
  have "Option.bind (map_option (k_date_show c) (al_acknowledged_at a)) (k_date_parse c) = al_acknowledged_at a"
    using assms by (cases "al_acknowledged_at a") (simp_all add: alert_text_ok_def date_text_ok_def)
  moreover have "parse_event_ids c (str_join '','' (map (k_ulid_show c) (al_events a))) = al_events a"
    using assms by (intro parse_join_ids) (simp add: alert_text_ok_def)
  ultimately show ?thesis
    using assms by (simp add: row_to_alert_def alert_row_of_def alert_text_ok_def id_text_ok_def
        parse_ulid_def parse_date_def date_text_ok_def severity_of_code_code alert_state_of_code_code)
qed

text \<open>
  C28: An alert survives the database.  After a successful \<open>create\<close> a \<open>get\<close> of its id returns
  the alert with every field, among them its severity, its state and its list of events, which
  is stored as one comma-separated text.
\<close>

theorem alert_roundtrip:
  assumes "alert_create c msg t a = Inr t'" and "alert_text_ok c a"
  shows "alert_get c fresh fresh' t' (al_id a) = Some a"
proof -
  have "ar_id (alert_row_of c a) = k_ulid_show c (al_id a)" by (simp add: alert_row_of_def)
  with table_insert_get [of ar_id msg t "alert_row_of c a" t'] assms show ?thesis
    by (simp add: alert_get_def alert_create_def row_to_alert_of)
qed

definition sample_alert :: alert where
  "sample_alert = \<lparr> al_id = 7, al_rule_id = ''r'', al_correlation_id = 8, al_risk_score = 900,
     al_severity = Critical, al_state = AS_Investigating, al_created_at = 5, al_updated_at = 6,
     al_acknowledged_by = Some ''ana'', al_acknowledged_at = Some 6, al_events = [1, 22, 3],
     al_context = JNull, al_ai_summary = None \<rparr>"

definition alert_codec :: codec where
  "alert_codec = decimal_codec JNull (rule_default 0 0)"

lemma alert_roundtrip_witness:
  "map_option (\<lambda>t. alert_get alert_codec 0 0 t 7)
     (case alert_create alert_codec ''dup'' Map.empty sample_alert of Inl e \<Rightarrow> None | Inr t \<Rightarrow> Some t)
   = Some (Some sample_alert)"
proof -
  have i: "al_id sample_alert = 7" by (simp add: sample_alert_def)
  have c: "alert_create alert_codec ''dup'' Map.empty sample_alert =
      Inr [k_ulid_show alert_codec 7 \<mapsto> alert_row_of alert_codec sample_alert]"
    by (simp add: alert_create_def table_insert_def alert_row_of_def i)
  have "alert_text_ok alert_codec sample_alert"
    by code_simp
  from alert_roundtrip [OF c this, of 0 0] show ?thesis
    by (simp add: c i)
qed

section \<open>States of an alert\<close>

type_synonym transition = "datetime \<times> alert_state \<times> string option"

definition apply_transition :: "codec \<Rightarrow> ulid \<Rightarrow> alert_table \<Rightarrow> transition \<Rightarrow> alert_table" where
  "apply_transition c i t tr = (case tr of (now, st, comment) \<Rightarrow> alert_update_state c now t i st comment)"

lemma set_state_id [simp]: "ar_id (set_state c now st comment r) = ar_id r"
  by (simp add: set_state_def case_prod_beta Let_def)

lemma update_state_get:
  "table_get (alert_update_state c now t i st comment) k =
     (if k = k_ulid_show c i then map_option (set_state c now st comment) (table_get t k) else table_get t k)"
  unfolding alert_update_state_def by (subst alert_rows.lookup_modify) simp_all

lemma transitions_get:
  "table_get t (k_ulid_show c i) = Some r \<Longrightarrow>
     table_get (foldl (apply_transition c i) t trs) (k_ulid_show c i) =
       Some (foldl (\<lambda>r (now, st, comment). set_state c now st comment r) r trs)"
  by (induction trs arbitrary: t r) (auto simp: apply_transition_def update_state_get split: prod.splits)

lemma transitions_other:
  "k \<noteq> k_ulid_show c i \<Longrightarrow> table_get (foldl (apply_transition c i) t trs) k = table_get t k"
  by (induction trs arbitrary: t) (auto simp: apply_transition_def update_state_get split: prod.splits)

text \<open>
  Whatever states an alert went through, its stored state and acknowledgement are those of
  the last transition alone: who acknowledged it is kept only while the last transition is the
  acknowledgement, and any later one, such as the resolution, erases it.  The score, the
  severity and the events never change and no other alert is touched.
\<close>

theorem last_transition_decides:
  assumes "table_get t (k_ulid_show c i) = Some r"
  shows "case table_get (foldl (apply_transition c i) t (trs @ [(now, st, comment)])) (k_ulid_show c i) of
      None \<Rightarrow> False
    | Some r' \<Rightarrow> ar_state r' = alert_state_code st
        \<and> ar_acknowledged_by r' = (if st = AS_Acknowledged then comment else None)
        \<and> ar_acknowledged_at r' = (if st = AS_Acknowledged then Some (k_date_show c now) else None)
        \<and> (ar_risk_score r', ar_severity r', ar_events r') = (ar_risk_score r, ar_severity r, ar_events r)"
proof -
  have keep: "(ar_risk_score s, ar_severity s, ar_events s) = (ar_risk_score r, ar_severity r, ar_events r)"
    if "s = foldl (\<lambda>r (now, st, comment). set_state c now st comment r) r trs" for s
    using that by (induction trs arbitrary: s rule: rev_induct)
      (auto simp: set_state_def Let_def split: prod.splits)
  show ?thesis
    using keep [OF refl] by (simp add: transitions_get [OF assms] set_state_def Let_def del: foldl_append)
      (simp add: set_state_def Let_def)
qed

lemma last_transition_decides_witness:
  "map_option ar_acknowledged_by (table_get
     (foldl (apply_transition alert_codec 7) [''7'' \<mapsto> alert_row_of alert_codec sample_alert]
        ([(9, AS_Acknowledged, Some ''ana'')] @ [(10, AS_ResolvedTruePositive, Some ''closed'')])) ''7'')
   = Some None"
proof -
  have k: "k_ulid_show alert_codec 7 = ''7''" by code_simp
  from last_transition_decides [where t = "[''7'' \<mapsto> alert_row_of alert_codec sample_alert]"
      and c = alert_codec and i = 7 and r = "alert_row_of alert_codec sample_alert"
      and trs = "[(9, AS_Acknowledged, Some ''ana'')]" and now = 10
      and st = AS_ResolvedTruePositive and comment = "Some ''closed''"]
  show ?thesis
    by (simp add: k table_get_def del: foldl_append foldl_Cons split: option.splits)
qed

section \<open>Rules\<close>

record rule_row =
  rw_id :: string
  rw_rule_json :: string
  rw_enabled :: bool
  rw_created_at :: string
  rw_updated_at :: string

type_synonym rule_table = "rule_row table"

text \<open>\<open>from_str(..).unwrap_or_default()\<close>; the default reads the clock twice.\<close>

definition parse_rule :: "codec \<Rightarrow> datetime \<Rightarrow> datetime \<Rightarrow> string \<Rightarrow> rule" where
  "parse_rule c now now' s = (case k_rule_parse c s of None \<Rightarrow> rule_default now now' | Some r \<Rightarrow> r)"

definition rules_upsert :: "codec \<Rightarrow> rule_table \<Rightarrow> rule \<Rightarrow> rule_table" where
  "rules_upsert c t r =
     (let row = \<lparr> rw_id = ru_id r, rw_rule_json = k_rule_show c r, rw_enabled = ru_enabled r,
                  rw_created_at = k_date_show c (ru_created r), rw_updated_at = k_date_show c (ru_modified r) \<rparr>
      in case t (ru_id r) of
           None \<Rightarrow> t(ru_id r \<mapsto> row)
         | Some old \<Rightarrow> t(ru_id r \<mapsto> old\<lparr> rw_rule_json := rw_rule_json row, rw_enabled := rw_enabled row,
                                          rw_updated_at := rw_updated_at row \<rparr>))"

definition rules_get :: "codec \<Rightarrow> datetime \<Rightarrow> datetime \<Rightarrow> rule_table \<Rightarrow> string \<Rightarrow> rule option" where
  "rules_get c now now' t i = map_option (\<lambda>r. parse_rule c now now' (rw_rule_json r)) (table_get t i)"

text \<open>\<open>load_all\<close> returns the rules in an unspecified order: a set.\<close>

definition rules_load_all :: "codec \<Rightarrow> datetime \<Rightarrow> datetime \<Rightarrow> rule_table \<Rightarrow> bool \<Rightarrow> rule set" where
  "rules_load_all c now now' t enabled_only =
     (\<lambda>r. parse_rule c now now' (rw_rule_json r)) ` {r \<in> ran t. enabled_only \<longrightarrow> rw_enabled r}"

definition rules_delete :: "rule_table \<Rightarrow> string \<Rightarrow> rule_table" where
  "rules_delete t i = table_delete t i"

definition rules_enable :: "codec \<Rightarrow> datetime \<Rightarrow> rule_table \<Rightarrow> string \<Rightarrow> bool \<Rightarrow> rule_table" where
  "rules_enable c now t i enabled =
     table_modify (\<lambda>r. r\<lparr> rw_enabled := enabled, rw_updated_at := k_date_show c now \<rparr>) t i"

interpretation rule_rows: updatable_store rw_id table_get "table_put rw_id" table_modify
    "\<lambda>f. \<forall>r. rw_id (f r) = rw_id r"
  by unfold_locales (auto simp: table_get_def table_put_def table_modify_def split: option.splits)

definition rule_text_ok :: "codec \<Rightarrow> rule \<Rightarrow> bool" where
  "rule_text_ok c r \<longleftrightarrow> k_rule_parse c (k_rule_show c r) = Some r"

lemma rules_upsert_row:
  "\<exists>row. rules_upsert c t r (ru_id r) = Some row \<and> rw_rule_json row = k_rule_show c r \<and> rw_enabled row = ru_enabled r"
  by (cases "t (ru_id r)") (simp_all add: rules_upsert_def)

lemma rules_upsert_other: "k \<noteq> ru_id r \<Longrightarrow> rules_upsert c t r k = t k"
  by (simp add: rules_upsert_def Let_def split: option.splits)

text \<open>
  Enabling or disabling a stored rule changes the column only.  The rule that \<open>get\<close> returns
  afterwards still says in its own \<open>enabled\<close> field what it said when it was stored, so a rule
  that was stored disabled and is then enabled is loaded as a disabled rule.
\<close>

theorem enable_leaves_rule_stale:
  assumes "rule_text_ok c r"
  shows "rules_get c now now' (rules_enable c at' (rules_upsert c t r) (ru_id r) b) (ru_id r) = Some r \<and>
    (b \<longrightarrow> r \<in> rules_load_all c now now' (rules_enable c at' (rules_upsert c t r) (ru_id r) b) True)"
proof -
  obtain row where row: "rules_upsert c t r (ru_id r) = Some row" "rw_rule_json row = k_rule_show c r"
    using rules_upsert_row by blast
  define row' where "row' = row\<lparr> rw_enabled := b, rw_updated_at := k_date_show c at' \<rparr>"
  have get: "rules_enable c at' (rules_upsert c t r) (ru_id r) b (ru_id r) = Some row'"
    by (simp add: rules_enable_def table_modify_def row row'_def)
  have parse: "parse_rule c now now' (rw_rule_json row') = r"
    using assms by (simp add: row'_def row parse_rule_def rule_text_ok_def)
  have "r \<in> rules_load_all c now now' (rules_enable c at' (rules_upsert c t r) (ru_id r) b) True" if b
    unfolding rules_load_all_def
    by (rule image_eqI [of _ _ row']) (use parse get that in \<open>auto simp: row'_def ran_def\<close>)
  with get parse show ?thesis by (simp add: rules_get_def table_get_def)
qed

lemma enable_leaves_rule_stale_witness:
  "let r = (rule_default 0 0)\<lparr> ru_id := ''r1'', ru_enabled := False \<rparr>; c = decimal_codec JNull r
   in rules_get c 1 1 (rules_enable c 2 (rules_upsert c Map.empty r) ''r1'' True) ''r1'' = Some r
      \<and> \<not> ru_enabled r"
proof -
  define r where "r = (rule_default 0 0)\<lparr> ru_id := ''r1'', ru_enabled := False \<rparr>"
  have "rule_text_ok (decimal_codec JNull r) r"
    by (simp add: rule_text_ok_def decimal_codec_def)
  from enable_leaves_rule_stale [OF this, of 1 1 2 Map.empty True] show ?thesis
    unfolding r_def by (simp add: Let_def)
qed

section \<open>Configuration\<close>

record config_row =
  cf_key :: string
  cf_value :: string
  cf_updated_at :: string

type_synonym config_table = "config_row table"

definition config_set :: "codec \<Rightarrow> datetime \<Rightarrow> config_table \<Rightarrow> string \<Rightarrow> json \<Rightarrow> config_table" where
  "config_set c now t key v =
     table_put cf_key t \<lparr> cf_key = key, cf_value = k_json_show c v, cf_updated_at = k_date_show c now \<rparr>"

text \<open>A stored text that is not JSON is an error of \<open>get\<close>, and is skipped by \<open>list\<close>.\<close>

definition config_get :: "codec \<Rightarrow> string \<Rightarrow> config_table \<Rightarrow> string \<Rightarrow> json option result" where
  "config_get c msg t key = (case table_get t key of
     None \<Rightarrow> Inr None
   | Some r \<Rightarrow> (case k_json_parse c (cf_value r) of
       None \<Rightarrow> Inl (Err_Serialization (ZE_Json msg)) | Some v \<Rightarrow> Inr (Some v)))"

definition config_delete :: "config_table \<Rightarrow> string \<Rightarrow> config_table" where
  "config_delete t key = table_delete t key"

definition config_list :: "codec \<Rightarrow> config_table \<Rightarrow> string \<Rightarrow> (string \<times> json) set" where
  "config_list c t prefix =
     {(cf_key r, v) | r v. r \<in> ran t \<and> like_match (prefix @ ''%'') (cf_key r) \<and> k_json_parse c (cf_value r) = Some v}"

interpretation config_rows: keyed_store cf_key table_get "table_put cf_key"
  by unfold_locales (auto simp: table_get_def table_put_def)

text \<open>
  A configuration value that was set is what \<open>get\<close> returns, the last value set wins, and
  other keys keep theirs; deleting the key makes it absent.
\<close>

theorem config_set_get:
  assumes "k_json_parse c (k_json_show c v) = Some v"
  shows "config_get c msg (config_set c now t key v) key' =
      (if key' = key then Inr (Some v) else config_get c msg t key') \<and>
    config_get c msg (config_delete (config_set c now t key v) key) key = Inr None"
  using assms by (simp add: config_get_def config_set_def config_rows.lookup_register)
    (simp add: config_delete_def table_delete_def table_get_def)

lemma config_set_get_witness:
  "config_get (decimal_codec (JInt 3) (rule_default 0 0)) ''bad''
     (config_set (decimal_codec (JInt 3) (rule_default 0 0)) 9 Map.empty ''a.b'' (JInt 3)) ''a.b''
   = Inr (Some (JInt 3))"
  by (subst config_set_get [THEN conjunct1]) (simp_all add: decimal_codec_def)

text \<open>\<open>list\<close> takes the prefix as a pattern: \<open>_\<close> and \<open>%\<close> in it are wildcards and case is
  ignored, so it can return keys that do not begin with the prefix.\<close>

lemma config_list_not_a_prefix:
  "like_match (''max_'' @ ''%'') ''MAX.size'' \<and> \<not> starts_with ''MAX.size'' ''max_''"
  by code_simp

text \<open>A key that begins with the prefix is always listed.\<close>

lemma like_self: "like_match p s \<Longrightarrow> like_match (q @ p) (q @ s)"
proof (induction q)
  case (Cons c q)
  then show ?case
    using like_percent_any [of "q @ p" 1 "c # q @ s"] by auto
qed simp

lemma config_list_complete:
  assumes "t key = Some r" and "cf_key r = prefix @ rest" and "k_json_parse c (cf_value r) = Some v"
  shows "(cf_key r, v) \<in> config_list c t prefix"
proof -
  have "r \<in> ran t" using assms(1) by (rule ranI)
  moreover have "like_match (prefix @ ''%'') (cf_key r)"
    using like_self [OF like_percent_only, of prefix rest] assms(2) by simp
  ultimately show ?thesis using assms(3) unfolding config_list_def by blast
qed

section \<open>Attack chains\<close>

record attack_chain =
  ak_id :: string
  ak_start_time :: datetime
  ak_end_time :: datetime
  ak_risk_score :: u32
  ak_tactics :: "string list"
  ak_techniques :: "string list"
  ak_event_count :: u32
  ak_status :: chain_status
  ak_kill_chain_coverage :: f64

record chain_row =
  cr_id :: string
  cr_start_time :: string
  cr_end_time :: string
  cr_risk_score :: int
  cr_tactics :: string
  cr_techniques :: string
  cr_event_count :: int
  cr_state :: int
  cr_kill_chain_coverage :: f64
  cr_updated_at :: string

type_synonym chain_table = "chain_row table"

text \<open>\<open>now\<close> is SQLite's \<open>datetime('now')\<close>; on a conflict the start time is not replaced.\<close>

definition chain_row_of :: "codec \<Rightarrow> string \<Rightarrow> attack_chain \<Rightarrow> chain_row" where
  "chain_row_of c now k = \<lparr> cr_id = ak_id k, cr_start_time = k_date_show c (ak_start_time k),
     cr_end_time = k_date_show c (ak_end_time k), cr_risk_score = uint (ak_risk_score k),
     cr_tactics = k_json_show c (json_strings (ak_tactics k)),
     cr_techniques = k_json_show c (json_strings (ak_techniques k)),
     cr_event_count = uint (ak_event_count k), cr_state = chain_status_code (ak_status k),
     cr_kill_chain_coverage = ak_kill_chain_coverage k, cr_updated_at = now \<rparr>"

definition save_chain :: "codec \<Rightarrow> string \<Rightarrow> chain_table \<Rightarrow> attack_chain \<Rightarrow> chain_table" where
  "save_chain c now t k = (case t (ak_id k) of
     None \<Rightarrow> t(ak_id k \<mapsto> chain_row_of c now k)
   | Some old \<Rightarrow> t(ak_id k \<mapsto> (chain_row_of c now k)\<lparr> cr_start_time := cr_start_time old \<rparr>))"

definition chain_status_of_code :: "int \<Rightarrow> chain_status" where
  "chain_status_of_code n =
     (if n = 1 then ST_ActiveAttack else if n = 2 then ST_SuspiciousChain
      else if n = 3 then ST_Resolved else ST_Unspecified)"

definition row_to_chain :: "codec \<Rightarrow> chain_row \<Rightarrow> attack_chain" where
  "row_to_chain c r = \<lparr> ak_id = cr_id r, ak_start_time = parse_date c (cr_start_time r),
     ak_end_time = parse_date c (cr_end_time r), ak_risk_score = get_i32 (cr_risk_score r),
     ak_tactics = tags_of_json (k_json_parse c (cr_tactics r)),
     ak_techniques = tags_of_json (k_json_parse c (cr_techniques r)),
     ak_event_count = get_i32 (cr_event_count r),
     ak_status = chain_status_of_code (sint (get_i32 (cr_state r))),
     ak_kill_chain_coverage = cr_kill_chain_coverage r \<rparr>"

definition get_chain :: "codec \<Rightarrow> chain_table \<Rightarrow> string \<Rightarrow> attack_chain option" where
  "get_chain c t i = map_option (row_to_chain c) (table_get t i)"

definition chain_text_ok :: "codec \<Rightarrow> attack_chain \<Rightarrow> bool" where
  "chain_text_ok c k \<longleftrightarrow> date_text_ok c (ak_start_time k) \<and> date_text_ok c (ak_end_time k)
     \<and> k_json_parse c (k_json_show c (json_strings (ak_tactics k))) = Some (json_strings (ak_tactics k))
     \<and> k_json_parse c (k_json_show c (json_strings (ak_techniques k))) = Some (json_strings (ak_techniques k))"

lemma chain_status_of_code_code: "chain_status_of_code (sint (get_i32 (chain_status_code s))) = s"
  by (cases s) (simp_all add: chain_status_of_code_def get_i32_def)

lemma row_to_chain_of:
  "chain_text_ok c k \<Longrightarrow> row_to_chain c (chain_row_of c now k) = k"
  by (simp add: row_to_chain_def chain_row_of_def chain_text_ok_def date_text_ok_def parse_date_def
      tags_of_strings chain_status_of_code_code)

lemma save_chain_start_kept:
  "t i = Some row \<Longrightarrow> \<forall>k \<in> set ks. ak_id k = i \<Longrightarrow>
     \<exists>row'. foldl (save_chain c now) t ks i = Some row' \<and> cr_start_time row' = cr_start_time row"
proof (induction ks arbitrary: t row)
  case (Cons k ks)
  have "save_chain c now t k i = Some ((chain_row_of c now k)\<lparr> cr_start_time := cr_start_time row \<rparr>)"
    using Cons.prems by (simp add: save_chain_def)
  from Cons.IH [of "save_chain c now t k", OF this] Cons.prems show ?case by simp
qed simp

text \<open>
  Saving an attack chain again replaces everything but its start time: after any number of
  saves of the same id a \<open>get\<close> returns the last chain that was saved, with the start time of
  the first one.
\<close>

theorem save_chain_keeps_start:
  assumes "\<forall>k \<in> set (k0 # ks @ [k']). chain_text_ok c k \<and> ak_id k = i" and "t i = None"
  shows "get_chain c (foldl (save_chain c now) t (k0 # ks @ [k'])) i =
    Some (k'\<lparr> ak_start_time := ak_start_time k0 \<rparr>)"
proof -
  have ok: "chain_text_ok c k0" "chain_text_ok c k'" "ak_id k0 = i" "ak_id k' = i"
    and ids: "\<forall>k \<in> set ks. ak_id k = i"
    using assms(1) by simp_all
  have "save_chain c now t k0 i = Some (chain_row_of c now k0)"
    using assms(2) ok by (simp add: save_chain_def)
  from save_chain_start_kept [of "save_chain c now t k0", OF this ids] obtain row where row:
    "foldl (save_chain c now) (save_chain c now t k0) ks i = Some row"
    "cr_start_time row = k_date_show c (ak_start_time k0)"
    by (auto simp: chain_row_of_def)
  have "row_to_chain c ((chain_row_of c now k')\<lparr> cr_start_time := k_date_show c (ak_start_time k0) \<rparr>)
      = (row_to_chain c (chain_row_of c now k'))\<lparr> ak_start_time := ak_start_time k0 \<rparr>"
    using ok by (simp add: row_to_chain_def parse_date_def chain_text_ok_def date_text_ok_def)
  moreover have "save_chain c now (foldl (save_chain c now) (save_chain c now t k0) ks) k' i =
      Some ((chain_row_of c now k')\<lparr> cr_start_time := k_date_show c (ak_start_time k0) \<rparr>)"
    using row ok by (simp add: save_chain_def)
  ultimately show ?thesis
    by (simp add: get_chain_def table_get_def row_to_chain_of [OF ok(2)])
qed

definition sample_chain :: "datetime \<Rightarrow> u32 \<Rightarrow> attack_chain" where
  "sample_chain start score = \<lparr> ak_id = ''c1'', ak_start_time = start, ak_end_time = 90,
     ak_risk_score = score, ak_tactics = [''a''], ak_techniques = [''a''], ak_event_count = 2,
     ak_status = ST_ActiveAttack, ak_kill_chain_coverage = Fin 0 \<rparr>"

lemma save_chain_keeps_start_witness:
  "get_chain sample_codec (foldl (save_chain sample_codec ''now'') Map.empty
     (sample_chain 10 5 # [] @ [sample_chain 20 7])) ''c1'' = Some (sample_chain 10 7)"
  by (subst save_chain_keeps_start)
    (simp_all add: sample_chain_def chain_text_ok_def date_text_ok_def decimal_codec_def)

section \<open>The statements fit the migrated schema\<close>

definition alert_insert_columns :: "string list" where
  "alert_insert_columns = [''id'', ''rule_id'', ''correlation_id'', ''risk_score'', ''severity'', ''state'',
     ''created_at'', ''updated_at'', ''acknowledged_by'', ''acknowledged_at'', ''events'', ''context'',
     ''ai_summary'']"

definition rule_insert_columns :: "string list" where
  "rule_insert_columns = [''id'', ''rule_json'', ''enabled'', ''created_at'', ''updated_at'']"

definition config_insert_columns :: "string list" where
  "config_insert_columns = [''key'', ''value'', ''updated_at'']"

definition chain_insert_columns :: "string list" where
  "chain_insert_columns = [''id'', ''start_time'', ''end_time'', ''risk_score'', ''tactics'', ''techniques'',
     ''event_count'', ''state'', ''kill_chain_coverage'']"

lemma latest_columns:
  "columns_of latest_schema ''events'' = event_insert_columns"
  "columns_of latest_schema ''alerts'' = alert_insert_columns"
  "columns_of latest_schema ''rules'' = rule_insert_columns"
  "columns_of latest_schema ''config'' = config_insert_columns"
  "columns_of latest_schema ''correlation_chains'' = chain_insert_columns @ [''created_at'', ''updated_at'']"
  by code_simp+

text \<open>The columns a list of conditions mentions are among the given ones.\<close>

definition columns_within :: "string list \<Rightarrow> bound_cond list \<Rightarrow> bool" where
  "columns_within cols cs = list_all (\<lambda>b. set (cond_columns (fst b)) \<subseteq> set cols) cs"

named_theorems within_intros

lemma columns_within_append [within_intros]:
  "columns_within cols cs \<Longrightarrow> columns_within cols ds \<Longrightarrow> columns_within cols (cs @ ds)"
  by (simp add: columns_within_def)

lemma columns_within_opt [within_intros]:
  "set (cond_columns c) \<subseteq> set cols \<Longrightarrow> columns_within cols (opt_cond c f x)"
  by (cases x) (simp_all add: columns_within_def opt_cond_def)

lemma columns_within_in [within_intros]: "col \<in> set cols \<Longrightarrow> columns_within cols (in_cond col f xs)"
  by (simp add: columns_within_def in_cond_def cond_columns_def)

lemma columns_within_like [within_intros]: "col \<in> set cols \<Longrightarrow> columns_within cols (like_conds col f xs)"
  by (simp add: columns_within_def like_conds_def cond_columns_def list_all_iff)

lemma columns_within_free [within_intros]:
  "''payload'' \<in> set cols \<Longrightarrow> ''process'' \<in> set cols \<Longrightarrow> columns_within cols (free_text_cond x)"
  by (cases x) (simp_all add: columns_within_def free_text_cond_def cond_columns_def)

lemma conds_within:
  "columns_within event_insert_columns (event_conds rfc q)"
  "columns_within event_insert_columns (event_count_conds rfc q)"
  "columns_within alert_insert_columns (alert_conds rfc q')"
  "columns_within chain_insert_columns (chain_conds rfc q'')"
  unfolding event_conds_def event_count_conds_def alert_conds_def chain_conds_def
  by (intro within_intros; simp add: cond_columns_def event_insert_columns_def alert_insert_columns_def
      chain_insert_columns_def)+

lemma sort_column_within: "sort_column s \<in> set event_insert_columns"
  using sort_column_valid [of s] by (auto simp: valid_sort_def event_insert_columns_def)

text \<open>
  On a fresh database the migrations create exactly the columns the repositories write: every
  column of an INSERT and every column a query filters or sorts by is a column of its table.
\<close>

theorem statements_fit_schema:
  "run_all empty_schema = Inr latest_schema \<and>
   columns_of latest_schema ''events'' = event_insert_columns \<and>
   columns_of latest_schema ''alerts'' = alert_insert_columns \<and>
   columns_of latest_schema ''rules'' = rule_insert_columns \<and>
   columns_of latest_schema ''config'' = config_insert_columns \<and>
   columns_of latest_schema ''correlation_chains'' = chain_insert_columns @ [''created_at'', ''updated_at''] \<and>
   sort_column s \<in> set event_insert_columns \<and>
   columns_within event_insert_columns (event_conds rfc q) \<and>
   columns_within event_insert_columns (event_count_conds rfc q) \<and>
   columns_within alert_insert_columns (alert_conds rfc q') \<and>
   columns_within chain_insert_columns (chain_conds rfc q'')"
  using run_all_fresh latest_columns sort_column_within conds_within by blast

end
