(* ===== verification/Ioc.thy ===== *)
theory Ioc
  imports Json
begin

text \<open>
  The indicator database of plugins/ioc: loading CSV and STIX files into three tables of
  indicators and looking one up.  Reading a directory and parsing the files is done by
  libraries: a file comes in as its stem, its extension and its records, where the records of
  a CSV file stop at the first one that cannot be read.
\<close>

section \<open>Entries\<close>

datatype ioc_type = Ioc_Ip | Ioc_Domain | Ioc_Hash

record ioc_entry =
  io_indicator :: string
  io_type :: ioc_type
  io_risk_score :: u32
  io_description :: string
  io_source :: string

record ioc_database =
  id_ips :: "string \<rightharpoonup> ioc_entry list"
  id_domains :: "string \<rightharpoonup> ioc_entry list"
  id_hashes :: "string \<rightharpoonup> ioc_entry list"

definition ioc_database_empty :: ioc_database where
  "ioc_database_empty = \<lparr> id_ips = Map.empty, id_domains = Map.empty, id_hashes = Map.empty \<rparr>"

definition table_push :: "(string \<rightharpoonup> ioc_entry list) \<Rightarrow> ioc_entry \<Rightarrow> (string \<rightharpoonup> ioc_entry list)" where
  "table_push t e = t(io_indicator e \<mapsto> (case t (io_indicator e) of None \<Rightarrow> [] | Some es \<Rightarrow> es) @ [e])"

definition add_entry :: "ioc_database \<Rightarrow> ioc_entry \<Rightarrow> ioc_database" where
  "add_entry db e = (case io_type e of
     Ioc_Ip \<Rightarrow> db\<lparr> id_ips := table_push (id_ips db) e \<rparr>
   | Ioc_Domain \<Rightarrow> db\<lparr> id_domains := table_push (id_domains db) e \<rparr>
   | Ioc_Hash \<Rightarrow> db\<lparr> id_hashes := table_push (id_hashes db) e \<rparr>)"

section \<open>CSV files\<close>

definition ioc_type_of :: "string \<Rightarrow> ioc_type option" where
  "ioc_type_of s =
     (if s \<in> {''ip'', ''ipv4'', ''ipv6''} then Some Ioc_Ip
      else if s \<in> {''domain'', ''hostname''} then Some Ioc_Domain
      else if s \<in> {''hash'', ''sha256'', ''md5'', ''sha1''} then Some Ioc_Hash
      else None)"

text \<open>The entry of a record; \<open>None\<close> is \<open>continue\<close>.\<close>

definition csv_entry :: "string \<Rightarrow> string list \<Rightarrow> ioc_entry option" where
  "csv_entry stem r =
     (if length r < 3 then None
      else let indicator = str_trim (r ! 1) in
        map_option (\<lambda>ty. \<lparr> io_indicator = indicator, io_type = ty,
            io_risk_score = (case parse_u32 (str_trim (r ! 2)) of None \<Rightarrow> 50 | Some n \<Rightarrow> n),
            io_description = (if 3 < length r then str_trim (r ! 3) else []),
            io_source = ''ioc:'' @ stem \<rparr>)
          (ioc_type_of (to_lowercase (str_trim (r ! 0)))))"

text \<open>A record that cannot be read ends the file; what was added before stays.\<close>

fun load_csv :: "string \<Rightarrow> string list option list \<Rightarrow> ioc_database \<Rightarrow> ioc_database" where
  "load_csv stem [] db = db"
| "load_csv stem (None # rs) db = db"
| "load_csv stem (Some r # rs) db =
     load_csv stem rs (case csv_entry stem r of None \<Rightarrow> db | Some e \<Rightarrow> add_entry db e)"

section \<open>STIX bundles\<close>

abbreviation squote :: char where
  "squote \<equiv> CHR 0x27"

text \<open>The text between the first and the last quote.\<close>

definition extract_stix_value :: "string \<Rightarrow> string" where
  "extract_stix_value pattern =
     (case (find_char (\<lambda>c. c = squote) pattern, rfind_char (\<lambda>c. c = squote) pattern) of
        (Some s, Some e) \<Rightarrow> if s < e then take (e - (s + 1)) (drop (s + 1) pattern) else []
      | _ \<Rightarrow> [])"

definition stix_type_of :: "string \<Rightarrow> ioc_type option" where
  "stix_type_of pattern =
     (if str_contains pattern ''ipv4-addr:value'' \<or> str_contains pattern ''ipv6-addr:value'' then Some Ioc_Ip
      else if str_contains pattern ''domain-name:value'' then Some Ioc_Domain
      else if str_contains pattern (''file:hashes.'' @ [squote] @ ''SHA-256'' @ [squote])
            \<or> str_contains pattern ''file:hashes.MD5'' then Some Ioc_Hash
      else None)"

definition stix_risk :: "string \<Rightarrow> u32" where
  "stix_risk name =
     (if str_contains (to_lowercase name) ''critical'' then 90
      else if str_contains (to_lowercase name) ''high'' then 70 else 50)"

definition text_field :: "json \<Rightarrow> string \<Rightarrow> string" where
  "text_field v key = (case Option.bind (json_get v key) json_as_str of None \<Rightarrow> [] | Some s \<Rightarrow> s)"

definition stix_entry :: "string \<Rightarrow> json \<Rightarrow> ioc_entry option" where
  "stix_entry stem obj =
     (if text_field obj ''type'' \<noteq> ''indicator'' then None
      else let pattern = text_field obj ''pattern''; name = text_field obj ''name'' in
        (case stix_type_of pattern of
           None \<Rightarrow> None
         | Some ty \<Rightarrow>
             (let indicator = extract_stix_value pattern in
              if indicator = [] then None
              else Some \<lparr> io_indicator = indicator, io_type = ty, io_risk_score = stix_risk name,
                          io_description = name, io_source = ''stix:'' @ stem \<rparr>)))"

definition load_stix :: "string \<Rightarrow> json option \<Rightarrow> ioc_database \<Rightarrow> ioc_database" where
  "load_stix stem bundle db =
     (let objects = (case Option.bind bundle (\<lambda>b. json_get b ''objects'') of Some (JArray os) \<Rightarrow> os | _ \<Rightarrow> [])
      in foldl (\<lambda>d obj. case stix_entry stem obj of None \<Rightarrow> d | Some e \<Rightarrow> add_entry d e) db objects)"

section \<open>Loading and looking up\<close>

text \<open>A file that cannot be read at all has no records and no bundle.\<close>

datatype ioc_file =
  CsvFile string "string list option list"
| StixFile string "json option"
| OtherFile string

fun load_file :: "ioc_database \<Rightarrow> ioc_file \<Rightarrow> ioc_database" where
  "load_file db (CsvFile stem rs) = load_csv stem rs db"
| "load_file db (StixFile stem b) = load_stix stem b db"
| "load_file db (OtherFile name) = db"

definition ioc_load :: "ioc_file list \<Rightarrow> ioc_database" where
  "ioc_load files = foldl load_file ioc_database_empty files"

definition lookup_table :: "(string \<rightharpoonup> ioc_entry list) \<Rightarrow> string \<Rightarrow> u32 option" where
  "lookup_table t k =
     map_option (\<lambda>es. if es = [] then 0 else Max (set (map io_risk_score es))) (t k)"

definition lookup_ip :: "ioc_database \<Rightarrow> string \<Rightarrow> u32 option" where
  "lookup_ip db k = lookup_table (id_ips db) k"

definition lookup_domain :: "ioc_database \<Rightarrow> string \<Rightarrow> u32 option" where
  "lookup_domain db k = lookup_table (id_domains db) k"

definition lookup_hash :: "ioc_database \<Rightarrow> string \<Rightarrow> u32 option" where
  "lookup_hash db k = lookup_table (id_hashes db) k"

definition ioc_is_loaded :: "ioc_database \<Rightarrow> bool" where
  "ioc_is_loaded db \<longleftrightarrow> 0 < card (dom (id_ips db)) + card (dom (id_domains db)) + card (dom (id_hashes db))"

section \<open>The tables refine the list of accepted entries\<close>

fun csv_accepted :: "string \<Rightarrow> string list option list \<Rightarrow> ioc_entry list" where
  "csv_accepted stem [] = []"
| "csv_accepted stem (None # rs) = []"
| "csv_accepted stem (Some r # rs) = (case csv_entry stem r of None \<Rightarrow> [] | Some e \<Rightarrow> [e]) @ csv_accepted stem rs"

fun accepted :: "ioc_file \<Rightarrow> ioc_entry list" where
  "accepted (CsvFile stem rs) = csv_accepted stem rs"
| "accepted (StixFile stem b) =
     (case Option.bind b (\<lambda>b. json_get b ''objects'') of
        Some (JArray os) \<Rightarrow> List.map_filter (stix_entry stem) os | _ \<Rightarrow> [])"
| "accepted (OtherFile name) = []"

text \<open>The abstract database: a list of entries, searched by type and indicator.\<close>

definition known_risk :: "ioc_entry list \<Rightarrow> ioc_type \<Rightarrow> string \<Rightarrow> u32 option" where
  "known_risk es ty k =
     (let hits = filter (\<lambda>e. io_type e = ty \<and> io_indicator e = k) es in
      if hits = [] then None else Some (Max (set (map io_risk_score hits))))"

definition db_table :: "ioc_database \<Rightarrow> ioc_type \<Rightarrow> (string \<rightharpoonup> ioc_entry list)" where
  "db_table db ty = (case ty of Ioc_Ip \<Rightarrow> id_ips db | Ioc_Domain \<Rightarrow> id_domains db | Ioc_Hash \<Rightarrow> id_hashes db)"

definition represents :: "ioc_database \<Rightarrow> ioc_entry list \<Rightarrow> bool" where
  "represents db es \<longleftrightarrow> (\<forall>ty k. db_table db ty k =
     (let hits = filter (\<lambda>e. io_type e = ty \<and> io_indicator e = k) es in if hits = [] then None else Some hits))"

lemma represents_empty: "represents ioc_database_empty []"
  by (simp add: represents_def db_table_def ioc_database_empty_def split: ioc_type.split)

lemma db_table_add:
  "db_table (add_entry db e) ty = (if io_type e = ty then table_push (db_table db ty) e else db_table db ty)"
  by (cases "io_type e"; cases ty) (simp_all add: add_entry_def db_table_def)

lemma represents_add: "represents db es \<Longrightarrow> represents (add_entry db e) (es @ [e])"
  by (auto simp: represents_def db_table_add table_push_def Let_def)

lemma represents_add_option:
  "represents db es \<Longrightarrow>
   represents (case x of None \<Rightarrow> db | Some e \<Rightarrow> add_entry db e) (es @ (case x of None \<Rightarrow> [] | Some e \<Rightarrow> [e]))"
  by (cases x) (simp_all add: represents_add)

lemma represents_csv: "represents db es \<Longrightarrow> represents (load_csv stem rs db) (es @ csv_accepted stem rs)"
proof (induction stem rs db arbitrary: es rule: load_csv.induct)
  case (3 stem r rs db)
  from 3(1) [OF represents_add_option [OF 3(2)]] show ?case by simp
qed simp_all

lemma represents_stix_objects:
  "represents db es \<Longrightarrow>
   represents (foldl (\<lambda>d obj. case stix_entry stem obj of None \<Rightarrow> d | Some e \<Rightarrow> add_entry d e) db os)
     (es @ List.map_filter (stix_entry stem) os)"
proof (induction os arbitrary: db es)
  case (Cons x os)
  from Cons.IH [OF represents_add_option [OF Cons.prems], of "stix_entry stem x"] show ?case
    by (cases "stix_entry stem x") (simp_all add: map_filter_simps)
qed (simp add: map_filter_simps)

lemma represents_file: "represents db es \<Longrightarrow> represents (load_file db f) (es @ accepted f)"
proof (cases f)
  case (StixFile stem b)
  assume r: "represents db es"
  show ?thesis
  proof (cases "Option.bind b (\<lambda>b. json_get b ''objects'')")
    case (Some v)
    with r StixFile represents_stix_objects [OF r] show ?thesis
      by (cases v) (simp_all add: load_stix_def)
  qed (use r StixFile in \<open>simp add: load_stix_def\<close>)
qed (simp_all add: represents_csv)

lemma represents_load: "represents (ioc_load files) (concat (map accepted files))"
proof -
  have "represents db es \<Longrightarrow> represents (foldl load_file db fs) (es @ concat (map accepted fs))" for db es fs
  proof (induction fs arbitrary: db es)
    case (Cons f fs)
    from Cons.IH [OF represents_file [OF Cons.prems]] show ?case by simp
  qed simp
  from this [OF represents_empty, of files] show ?thesis by (simp add: ioc_load_def)
qed

lemma lookup_represents:
  "represents db es \<Longrightarrow> lookup_table (db_table db ty) k = known_risk es ty k"
  by (simp add: represents_def lookup_table_def known_risk_def Let_def)

text \<open>
  C21: The indicator database answers as the plain list of the accepted entries would: a lookup
  finds an indicator exactly when some file listed it under that type, and returns the highest
  risk any of the files gave it.
\<close>

theorem ioc_lookup_refines_list:
  "lookup_ip (ioc_load files) k = known_risk (concat (map accepted files)) Ioc_Ip k \<and>
   lookup_domain (ioc_load files) k = known_risk (concat (map accepted files)) Ioc_Domain k \<and>
   lookup_hash (ioc_load files) k = known_risk (concat (map accepted files)) Ioc_Hash k"
  using lookup_represents [OF represents_load, of files Ioc_Ip k]
    lookup_represents [OF represents_load, of files Ioc_Domain k]
    lookup_represents [OF represents_load, of files Ioc_Hash k]
  by (simp add: lookup_ip_def lookup_domain_def lookup_hash_def db_table_def)

section \<open>STIX hash patterns\<close>

lemma find_char_skip: "(\<And>c. c \<in> set a \<Longrightarrow> \<not> P c) \<Longrightarrow> P d \<Longrightarrow> find_char P (a @ d # b) = Some (length a)"
  by (induction a) auto

lemma extract_between:
  assumes "squote \<notin> set a" and "squote \<notin> set b"
  shows "extract_stix_value (a @ squote # m @ squote # b) = m"
proof -
  have f: "find_char (\<lambda>c. c = squote) (a @ squote # m @ squote # b) = Some (length a)"
    by (rule find_char_skip) (use assms in auto)
  have "find_char (\<lambda>c. c = squote) (rev b @ squote # rev (a @ squote # m)) = Some (length (rev b))"
    by (rule find_char_skip) (use assms in auto)
  then have r: "rfind_char (\<lambda>c. c = squote) (a @ squote # m @ squote # b) = Some (length a + length m + 1)"
    by (simp add: rfind_char_def)
  show ?thesis by (simp add: extract_stix_value_def f r)
qed

text \<open>
  A SHA-256 indicator of a STIX bundle is never filed under its digest.  The pattern of such
  an indicator quotes the algorithm as well, and the text between the first and the last quote
  begins with the algorithm, so the digest itself is not found.
\<close>

theorem stix_sha256_misfiled:
  assumes "squote \<notin> set digest"
  shows "extract_stix_value (''[file:hashes.'' @ [squote] @ ''SHA-256'' @ [squote] @ '' = '' @ [squote] @ digest @ [squote] @ '']'')
    = ''SHA-256'' @ [squote] @ '' = '' @ [squote] @ digest"
  using extract_between [of "''[file:hashes.''" "'']''" "''SHA-256'' @ [squote] @ '' = '' @ [squote] @ digest"]
  by simp

lemma stix_sha256_misfiled_witness:
  "extract_stix_value (''[file:hashes.'' @ [squote] @ ''SHA-256'' @ [squote] @ '' = '' @ [squote] @ ''ab12'' @ [squote] @ '']'')
    = ''SHA-256'' @ [squote] @ '' = '' @ [squote] @ ''ab12''"
  by (rule stix_sha256_misfiled) simp

lemma stix_address_found:
  "extract_stix_value (''[ipv4-addr:value = '' @ [squote] @ ''203.0.113.9'' @ [squote] @ '']'') = ''203.0.113.9''"
  using extract_between [of "''[ipv4-addr:value = ''" "'']''" "''203.0.113.9''"] by simp

end
