(* ===== verification/Enrichment.thy ===== *)
theory Enrichment
  imports Ioc Events "HOL-Library.Sublist" "HOL-Library.List_Lexorder" "HOL-Library.Char_ord"
begin

text \<open>
  Threat intelligence: what the reputation plugins compute from a parsed answer of their service
  (plugins/abuseipdb, shodan, otx, greynoise, virustotal, urlhaus) and how the core service adds
  their reports to an event (apps/sentinel-core-service/src/enrichment.rs).  The HTTP exchange
  and the GeoIP database are inputs.
\<close>

section \<open>AbuseIPDB\<close>

datatype risk_level = RL_Safe | RL_Low | RL_Medium | RL_High | RL_Critical

definition risk_level_from_score :: "u32 \<Rightarrow> risk_level" where
  "risk_level_from_score s =
     (if s = 0 then RL_Safe else if s \<le> 25 then RL_Low else if s \<le> 50 then RL_Medium
      else if s \<le> 75 then RL_High else RL_Critical)"

fun risk_level_as_str :: "risk_level \<Rightarrow> string" where
  "risk_level_as_str RL_Safe = ''Safe''"
| "risk_level_as_str RL_Low = ''Low''"
| "risk_level_as_str RL_Medium = ''Medium''"
| "risk_level_as_str RL_High = ''High''"
| "risk_level_as_str RL_Critical = ''Critical''"

fun risk_level_rank :: "risk_level \<Rightarrow> nat" where
  "risk_level_rank RL_Safe = 0"
| "risk_level_rank RL_Low = 1"
| "risk_level_rank RL_Medium = 2"
| "risk_level_rank RL_High = 3"
| "risk_level_rank RL_Critical = 4"

interpretation abuse_band: banding risk_level_from_score risk_level_rank
  by unfold_locales (auto simp: risk_level_from_score_def)

record abuse_data =
  ad_ip_address :: string
  ad_abuse_confidence_score :: u32
  ad_country_code :: "string option"
  ad_isp :: "string option"
  ad_domain :: "string option"
  ad_total_reports :: "u64 option"
  ad_last_reported_at :: "string option"
  ad_usage_type :: "string option"
  ad_is_public :: "bool option"
  ad_is_whitelisted :: "bool option"

record abuse_report =
  ab_ip :: string
  ab_abuse_score :: u32
  ab_total_reports :: u64
  ab_country :: string
  ab_isp :: string
  ab_domain :: string
  ab_usage_type :: string
  ab_last_reported :: string
  ab_is_public :: bool
  ab_is_whitelisted :: bool
  ab_risk_level :: risk_level

definition or_default :: "'a \<Rightarrow> 'a option \<Rightarrow> 'a" where
  "or_default d x = (case x of None \<Rightarrow> d | Some y \<Rightarrow> y)"

text \<open>The answer has data or a list of errors; any list of errors, an empty one too, gives none.\<close>

definition abuse_check :: "abuse_data option \<Rightarrow> string list option \<Rightarrow> abuse_report option" where
  "abuse_check data errors = (case errors of Some es \<Rightarrow> None
     | None \<Rightarrow> map_option (\<lambda>d. \<lparr> ab_ip = ad_ip_address d, ab_abuse_score = ad_abuse_confidence_score d,
         ab_total_reports = or_default 0 (ad_total_reports d), ab_country = or_default ''??'' (ad_country_code d),
         ab_isp = or_default [] (ad_isp d), ab_domain = or_default [] (ad_domain d),
         ab_usage_type = or_default [] (ad_usage_type d), ab_last_reported = or_default [] (ad_last_reported_at d),
         ab_is_public = or_default False (ad_is_public d),
         ab_is_whitelisted = or_default False (ad_is_whitelisted d),
         ab_risk_level = risk_level_from_score (ad_abuse_confidence_score d) \<rparr>) data)"

section \<open>Shodan\<close>

definition risky_ports :: "u16 list" where
  "risky_ports = [22, 23, 21, 3389, 5900, 445, 135, 139, 1433, 3306, 5432, 27017, 6379, 11211]"

definition shodan_risk :: "u16 list \<Rightarrow> string list \<Rightarrow> u32" where
  "shodan_risk ports vulns =
     (let s0 = min (of_nat (length vulns)) 50;
          s1 = foldl (\<lambda>s p. if p \<in> set risky_ports then s + 10 else s) s0 ports;
          s2 = (if 10 < length ports then s1 + 15 else s1)
      in min s2 100)"

record shodan_report =
  sd_open_ports :: "u16 list"
  sd_vulnerabilities :: "string list"
  sd_risk_score :: u32

definition shodan_lookup :: "u16 list option \<Rightarrow> string list option \<Rightarrow> shodan_report" where
  "shodan_lookup ports vulns =
     (let ps = or_default [] ports; vs = or_default [] vulns in
      \<lparr> sd_open_ports = ps, sd_vulnerabilities = vs, sd_risk_score = shodan_risk ps vs \<rparr>)"

section \<open>OTX\<close>

definition malicious_tags :: "string list" where
  "malicious_tags = [''malware'', ''ransomware'', ''c2'', ''botnet'', ''phishing'', ''exploit'', ''trojan'',
     ''apt'', ''backdoor'', ''rat'', ''stealer'', ''spyware'']"

definition otx_risk :: "u32 \<Rightarrow> i32 \<Rightarrow> string list \<Rightarrow> string list \<Rightarrow> u32" where
  "otx_risk pulse_count reputation tags malware =
     (let s0 = (if 50 < pulse_count then 30 else if 10 < pulse_count then 20
                else if 0 < pulse_count then 10 else 0);
          s1 = (if sint reputation < -2 then s0 + 30 else if sint reputation < 0 then s0 + 15 else s0);
          hits = of_nat (length (filter (\<lambda>t. list_ex (str_contains (to_lowercase t)) malicious_tags) tags));
          s2 = s1 + hits * 5;
          s3 = (if malware \<noteq> [] then s2 + min (of_nat (length malware)) 5 * 10 else s2)
      in min s3 100)"

record otx_report =
  ox_pulse_count :: u32
  ox_reputation :: i32
  ox_top_tags :: "string list"
  ox_adversary :: string
  ox_malware_families :: "string list"
  ox_risk_score :: u32

text \<open>The tags are sorted by their bytes, deduplicated and cut to ten; the adversary is the first
  one that is not empty.\<close>

definition otx_top_tags :: "(string list option \<times> string option) list \<Rightarrow> string list" where
  "otx_top_tags pulses = take 10 (remdups_adj (sort (concat (map (or_default [] \<circ> fst) pulses))))"

definition otx_adversary :: "(string list option \<times> string option) list \<Rightarrow> string" where
  "otx_adversary pulses =
     foldl (\<lambda>a p. if a = [] then (case snd p of None \<Rightarrow> a | Some adv \<Rightarrow> adv) else a) [] pulses"

definition otx_query ::
    "u32 option \<Rightarrow> i32 option \<Rightarrow> (string list option \<times> string option) list \<Rightarrow> string option list \<Rightarrow> otx_report" where
  "otx_query count reputation pulses validations =
     (let n = or_default 0 count; r = or_default 0 reputation; tags = otx_top_tags pulses;
          malware = List.map_filter (\<lambda>v. v) validations
      in \<lparr> ox_pulse_count = n, ox_reputation = r, ox_top_tags = tags, ox_adversary = otx_adversary pulses,
           ox_malware_families = malware, ox_risk_score = otx_risk n r tags malware \<rparr>)"

section \<open>GreyNoise, URLhaus and VirusTotal\<close>

record greynoise_report =
  gn_classification :: string
  gn_name :: string
  gn_is_noise :: bool
  gn_is_riot :: bool
  gn_risk_modifier :: int

definition greynoise_check ::
    "string option \<Rightarrow> string option \<Rightarrow> string option \<Rightarrow> bool option \<Rightarrow> bool option \<Rightarrow> greynoise_report option" where
  "greynoise_check message classification name noise riot =
     (if message \<noteq> None then None
      else let c = or_default ''unknown'' classification in
        Some \<lparr> gn_classification = c, gn_name = or_default [] name, gn_is_noise = or_default False noise,
               gn_is_riot = or_default False riot,
               gn_risk_modifier = (if c = ''malicious'' then 25 else if c = ''benign'' then -20 else 0) \<rparr>)"

record url_report =
  ul_status :: string
  ul_threat :: string
  ul_tags :: "string list"
  ul_reference :: string
  ul_is_malicious :: bool
  ul_risk_score :: u32

definition urlhaus_check ::
    "string option \<Rightarrow> string option \<Rightarrow> string option \<Rightarrow> string list option \<Rightarrow> string option \<Rightarrow> url_report option" where
  "urlhaus_check query_status url_status threat tags ref =
     (if query_status = Some ''no_results'' then None
      else let mal = (url_status = Some ''online'' \<and> threat \<noteq> None); ts = or_default [] tags;
             bonus = (if list_ex (\<lambda>t. str_contains t ''exe'' \<or> str_contains t ''ransomware'') ts then 30 else 10)
        in Some \<lparr> ul_status = or_default ''unknown'' url_status, ul_threat = or_default ''unknown'' threat,
                  ul_tags = ts, ul_reference = or_default [] ref, ul_is_malicious = mal,
                  ul_risk_score = (if mal then min (50 + bonus) 100 else 0) \<rparr>)"

record file_report =
  vt_name :: string
  vt_malicious :: u32
  vt_suspicious :: u32
  vt_harmless :: u32
  vt_undetected :: u32
  vt_total :: u32
  vt_threat_ratio :: f64

definition virustotal_report :: "string option \<Rightarrow> u32 option \<Rightarrow> u32 option \<Rightarrow> u32 option \<Rightarrow> u32 option \<Rightarrow> file_report" where
  "virustotal_report name malicious suspicious harmless undetected =
     (let m = or_default 0 malicious; s = or_default 0 suspicious; h = or_default 0 harmless;
          u = or_default 0 undetected; total = m + s + h + u
      in \<lparr> vt_name = or_default ''unknown'' name, vt_malicious = m, vt_suspicious = s, vt_harmless = h,
           vt_undetected = u, vt_total = total,
           vt_threat_ratio = (if 0 < total then f64_div_fin (f64_of_u32 (m + s)) (f64_of_u32 total) else Fin 0) \<rparr>)"

section \<open>Scores stay within a hundred\<close>

lemma unat_small: "n < 2 ^ 32 \<Longrightarrow> unat (of_nat n :: u32) = n"
  by (simp add: unat_of_nat take_bit_nat_eq_self)

lemma unat_min_small: "n < 2 ^ 32 \<Longrightarrow> unat (min (of_nat n :: u32) 100) = min n 100"
  by (simp add: min_def word_le_nat_alt unat_small)

lemma min_small: "n < 2 ^ 32 \<Longrightarrow> min (of_nat n :: u32) 5 = of_nat (min n 5)"
  by (simp add: min_def word_le_nat_alt unat_small)

definition otx_pulse_points :: "u32 \<Rightarrow> nat" where
  "otx_pulse_points n = (if 50 < n then 30 else if 10 < n then 20 else if 0 < n then 10 else 0)"

definition otx_reputation_points :: "i32 \<Rightarrow> nat" where
  "otx_reputation_points r = (if sint r < -2 then 30 else if sint r < 0 then 15 else 0)"

definition otx_tag_hits :: "string list \<Rightarrow> nat" where
  "otx_tag_hits tags = length (filter (\<lambda>t. list_ex (str_contains (to_lowercase t)) malicious_tags) tags)"

lemma otx_risk_exact:
  assumes "length tags \<le> 10" and "length malware < 2 ^ 32"
  shows "unat (otx_risk n r tags malware) =
    min (otx_pulse_points n + otx_reputation_points r + 5 * otx_tag_hits tags + 10 * min (length malware) 5) 100"
proof -
  have hits: "otx_tag_hits tags \<le> 10"
    using assms(1) unfolding otx_tag_hits_def by (rule order_trans [OF length_filter_le])
  define x where "x = otx_pulse_points n + otx_reputation_points r + 5 * otx_tag_hits tags + 10 * min (length malware) 5"
  have "x \<le> 30 + 30 + 5 * 10 + 10 * 5"
    unfolding x_def using hits by (intro add_mono) (simp_all add: otx_pulse_points_def otx_reputation_points_def)
  then have small: "x < 2 ^ 32" by simp
  have p: "(if 50 < n then 30 else if 10 < n then 20 else if 0 < n then 10 else 0) = (of_nat (otx_pulse_points n) :: u32)"
    by (simp add: otx_pulse_points_def)
  have rep: "(if sint r < -2 then s + 30 else if sint r < 0 then s + 15 else s) = s + of_nat (otx_reputation_points r)"
    for s :: u32 by (simp add: otx_reputation_points_def)
  have "otx_risk n r tags malware = min (of_nat x) 100"
    unfolding otx_risk_def Let_def p rep otx_tag_hits_def [symmetric]
    using min_small [OF assms(2)] by (simp add: x_def mult.commute)
  then show ?thesis using unat_min_small [OF small] by (simp add: x_def)
qed

lemma length_otx_top_tags: "length (otx_top_tags pulses) \<le> 10"
  by (simp add: otx_top_tags_def)

lemma length_map_filter: "length (List.map_filter f xs) \<le> length xs"
  by (induction xs) (auto simp: map_filter_simps split: option.split)

text \<open>
  The score of every reputation plugin is at most 100, and that of OTX is exact: for the ten
  tags it looks at no addition wraps, so it is the capped sum of its parts.
\<close>

theorem intel_scores_bounded:
  assumes "length validations < 2 ^ 32"
  shows "sd_risk_score (shodan_lookup ports vulns) \<le> 100 \<and>
   (case urlhaus_check qs us threat tags ref of None \<Rightarrow> True | Some r \<Rightarrow> ul_risk_score r \<le> 80) \<and>
   unat (ox_risk_score (otx_query count rep pulses validations)) =
     min (otx_pulse_points (or_default 0 count) + otx_reputation_points (or_default 0 rep)
       + 5 * otx_tag_hits (otx_top_tags pulses)
       + 10 * min (length (List.map_filter (\<lambda>v. v) validations)) 5) 100"
proof -
  have "length (List.map_filter (\<lambda>v. v) validations) < 2 ^ 32"
    using assms length_map_filter [of "\<lambda>v. v" validations] by simp
  then show ?thesis
    by (simp add: otx_query_def Let_def otx_risk_exact [OF length_otx_top_tags] shodan_lookup_def
        shodan_risk_def urlhaus_check_def)
qed

lemma intel_scores_bounded_witness:
  "unat (ox_risk_score (otx_query (Some 12) (Some (-5)) [(Some [''C2'', ''apt'', ''C2''], None)] [Some ''Emotet'', None])) = 70"
proof -
  have "otx_top_tags [(Some [''C2'', ''apt'', ''C2''], None)] = [''C2'', ''apt'']"
    by code_simp
  moreover have "otx_tag_hits [''C2'', ''apt''] = 2" by code_simp
  moreover have "otx_pulse_points 12 = 20" "otx_reputation_points (-5) = 30"
    by (simp_all add: otx_pulse_points_def otx_reputation_points_def)
  ultimately show ?thesis
    using intel_scores_bounded [of "[Some ''Emotet'', None]" _ _ _ _ _ _ _ "Some 12" "Some (-5)" "[(Some [''C2'', ''apt'', ''C2''], None)]"]
    by (simp add: or_default_def map_filter_simps)
qed

section \<open>Enrichment of an event\<close>

record geo_data =
  go_ip :: string
  go_country_code :: string
  go_country_name :: string
  go_city :: string
  go_region :: string
  go_latitude :: "f64 option"
  go_longitude :: "f64 option"
  go_asn :: "u32 option"
  go_asn_org :: string
  go_is_anonymous :: bool
  go_is_hosting :: bool

text \<open>What the three databases hold for an address: \<open>None\<close> for a database that is not loaded or has no
  entry; inside an entry every part may be missing.  \<open>parses\<close> says that the text is an address.\<close>

record geo_answers =
  ga_country :: "(string option \<times> string option) option"
  ga_city :: "(string option \<times> string option \<times> (f64 option \<times> f64 option) option) option"
  ga_asn :: "(u32 option \<times> string option) option"

definition geo_lookup :: "bool \<Rightarrow> string \<Rightarrow> geo_answers \<Rightarrow> geo_data option" where
  "geo_lookup parses ip a =
     (if \<not> parses then None
      else
        let d0 = \<lparr> go_ip = ip, go_country_code = [], go_country_name = [], go_city = [], go_region = [],
                    go_latitude = None, go_longitude = None, go_asn = None, go_asn_org = [],
                    go_is_anonymous = False, go_is_hosting = False \<rparr>;
            d1 = (case ga_country a of None \<Rightarrow> d0
                  | Some (code, name) \<Rightarrow> d0\<lparr> go_country_code := or_default ''??'' code,
                                             go_country_name := or_default ''Unknown'' name \<rparr>);
            d2 = (case ga_city a of None \<Rightarrow> d1
                  | Some (city, region, loc) \<Rightarrow>
                      let d = d1\<lparr> go_city := or_default [] city, go_region := or_default [] region \<rparr>
                      in case loc of None \<Rightarrow> d
                         | Some (lat, lon) \<Rightarrow> d\<lparr> go_latitude := lat, go_longitude := lon \<rparr>);
            d3 = (case ga_asn a of None \<Rightarrow> d2
                  | Some (num, org) \<Rightarrow> d2\<lparr> go_asn := num, go_asn_org := or_default [] org \<rparr>)
        in if go_country_code d3 = [] \<and> go_city d3 = [] \<and> go_asn_org d3 = [] then None else Some d3)"

text \<open>No lookup reports an anonymous network, so the enrichment's penalty for one is never applied.\<close>

lemma geo_never_anonymous: "geo_lookup parses ip a = Some d \<Longrightarrow> \<not> go_is_anonymous d \<and> go_ip d = ip"
  by (auto simp: geo_lookup_def Let_def split: option.splits if_splits prod.splits)

record intel =
  in_abuse :: "abuse_report option"
  in_shodan :: "shodan_report option"
  in_otx :: "otx_report option"
  in_greynoise :: "greynoise_report option"
  in_geo :: "geo_data option"
  in_ioc :: "u32 option"
  in_vt :: "file_report option"
  in_url :: "url_report option"

definition add_risk :: "u32 \<Rightarrow> event \<Rightarrow> event" where
  "add_risk n e = e\<lparr> ev_risk_score := saturating_add (ev_risk_score e) n \<rparr>"

definition sub_risk :: "u32 \<Rightarrow> event \<Rightarrow> event" where
  "sub_risk n e = e\<lparr> ev_risk_score := saturating_sub (ev_risk_score e) n \<rparr>"

definition add_tag :: "string \<Rightarrow> event \<Rightarrow> event" where
  "add_tag t e = e\<lparr> ev_tags := ev_tags e @ [t] \<rparr>"

definition apply_if :: "bool \<Rightarrow> ('e \<Rightarrow> 'e) \<Rightarrow> 'e \<Rightarrow> 'e" where
  "apply_if b f e = (if b then f e else e)"

definition enrich_abuse :: "abuse_report \<Rightarrow> event \<Rightarrow> event" where
  "enrich_abuse r e =
     (let e1 = (if 50 < ab_abuse_score r then add_tag ''threat_intel:abuseipdb:high'' (add_risk 30 e)
                else if 25 < ab_abuse_score r then add_tag ''threat_intel:abuseipdb:medium'' (add_risk 15 e)
                else e)
      in apply_if (10 < ab_total_reports r)
           (add_tag (''threat_intel:abuseipdb:'' @ show_word (ab_total_reports r) @ ''_reports'')) e1)"

definition enrich_shodan :: "shodan_report \<Rightarrow> event \<Rightarrow> event" where
  "enrich_shodan r e =
     (let e1 = (if 50 < sd_risk_score r then add_tag ''threat_intel:shodan:high'' (add_risk 25 e)
                else if 25 < sd_risk_score r then add_tag ''threat_intel:shodan:medium'' (add_risk 10 e)
                else e);
          e2 = apply_if (sd_vulnerabilities r \<noteq> []) (add_tag ''threat_intel:shodan:cve'') e1
      in apply_if (sd_open_ports r \<noteq> [])
           (add_tag (''threat_intel:shodan:'' @ show_nat (length (sd_open_ports r)) @ ''_ports'')) e2)"

definition enrich_otx :: "otx_report \<Rightarrow> event \<Rightarrow> event" where
  "enrich_otx r e =
     (let e1 = (if 50 < ox_risk_score r then add_tag ''threat_intel:otx:high'' (add_risk 25 e)
                else if 25 < ox_risk_score r then add_tag ''threat_intel:otx:medium'' (add_risk 10 e)
                else e);
          e2 = apply_if (0 < ox_pulse_count r)
                 (add_tag (''threat_intel:otx:'' @ show_word (ox_pulse_count r) @ ''_pulses'')) e1
      in apply_if (ox_malware_families r \<noteq> []) (add_tag ''threat_intel:otx:malware'') e2)"

definition enrich_greynoise :: "greynoise_report \<Rightarrow> event \<Rightarrow> event" where
  "enrich_greynoise r e =
     (let e1 = (if gn_classification r = ''malicious'' then add_tag ''grey_noise:malicious'' (add_risk 25 e)
                else if gn_classification r = ''benign'' then add_tag ''grey_noise:benign'' (sub_risk 5 e)
                else e)
      in apply_if (gn_name r \<noteq> []) (add_tag (''grey_noise:'' @ to_lowercase (gn_name r))) e1)"

definition enrich_geo :: "geo_data \<Rightarrow> event \<Rightarrow> event" where
  "enrich_geo d e =
     (let e1 = apply_if (go_country_code d \<noteq> []) (add_tag (''geoip:cc:'' @ to_lowercase (go_country_code d))) e;
          e2 = apply_if (go_city d \<noteq> [])
                 (add_tag (''geoip:city:'' @ str_replace (to_lowercase (go_city d)) '' '' ''_'')) e1;
          e3 = apply_if (go_asn_org d \<noteq> [])
                 (add_tag (''geoip:asn:'' @ str_replace (to_lowercase (go_asn_org d)) '' '' ''_'')) e2
      in apply_if (go_is_anonymous d) (\<lambda>e. add_tag ''geoip:anonymous'' (add_risk 10 e)) e3)"

definition enrich_ioc :: "u32 \<Rightarrow> event \<Rightarrow> event" where
  "enrich_ioc risk e = add_tag ''ioc:ip_match'' (add_risk (risk div 3) e)"

definition enrich_vt :: "file_report \<Rightarrow> event \<Rightarrow> event" where
  "enrich_vt r e =
     (let e1 = add_risk (f64_to_u32 (f64_mul (vt_threat_ratio r) (Fin 50))) e;
          e2 = apply_if (0 < vt_malicious r)
                 (add_tag (''threat_intel:virustotal:malicious_'' @ show_word (vt_malicious r))) e1
      in apply_if (f64_lt (f64_of (3 / 10)) (vt_threat_ratio r)) (add_tag ''threat_intel:virustotal:high'') e2)"

definition enrich_url :: "url_report \<Rightarrow> event \<Rightarrow> event" where
  "enrich_url r e = apply_if (ul_is_malicious r)
     (\<lambda>e. add_tag (''threat_intel:urlhaus:'' @ str_replace (ul_threat r) '' '' ''_'')
        (add_tag ''threat_intel:urlhaus:malicious'' (add_risk (ul_risk_score r) e))) e"

definition with_report :: "('r \<Rightarrow> event \<Rightarrow> event) \<Rightarrow> 'r option \<Rightarrow> event \<Rightarrow> event" where
  "with_report f r e = (case r of None \<Rightarrow> e | Some x \<Rightarrow> f x e)"

text \<open>The address that is looked up, the file and the address of a page; the reports are the
  answers for them, none when the plugin is not enabled.\<close>

definition enrich_network :: "intel \<Rightarrow> event \<Rightarrow> event" where
  "enrich_network i e =
     with_report enrich_ioc (in_ioc i)
       (with_report enrich_geo (in_geo i)
         (with_report enrich_greynoise (in_greynoise i)
           (with_report enrich_otx (in_otx i)
             (with_report enrich_shodan (in_shodan i)
               (with_report enrich_abuse (in_abuse i) e)))))"

definition enrich :: "intel \<Rightarrow> event \<Rightarrow> event" where
  "enrich i e =
     (let e1 = (case ev_payload e of
                  Some (NetworkPayload ne) \<Rightarrow>
                    if ev_source e = ''network'' \<and> ne_remote_addr ne \<noteq> [] then enrich_network i e else e
                | _ \<Rightarrow> e);
          e2 = (case ev_process e1 of
                  None \<Rightarrow> e1
                | Some p \<Rightarrow> if pc_sha256 p \<noteq> [] then with_report enrich_vt (in_vt i) e1 else e1)
      in case ev_payload e2 of
           Some (BrowserPayload be) \<Rightarrow>
             if ev_source e2 = ''browser'' \<and> be_url be \<noteq> [] then with_report enrich_url (in_url i) e2 else e2
         | _ \<Rightarrow> e2)"

section \<open>What enrichment changes\<close>

text \<open>A step of the enrichment appends tags, moves the score within bounds and keeps the rest.\<close>

definition event_rest :: "event \<Rightarrow> event" where
  "event_rest e = e\<lparr> ev_tags := [], ev_risk_score := 0 \<rparr>"

definition grows :: "nat \<Rightarrow> nat \<Rightarrow> event \<Rightarrow> event \<Rightarrow> bool" where
  "grows up down e e' \<longleftrightarrow> event_rest e' = event_rest e \<and> prefix (ev_tags e) (ev_tags e')
     \<and> unat (ev_risk_score e') \<le> unat (ev_risk_score e) + up
     \<and> unat (ev_risk_score e) \<le> unat (ev_risk_score e') + down"

lemma grows_refl: "grows a b e e"
  by (simp add: grows_def)

lemma grows_trans: "grows a b e e' \<Longrightarrow> grows c d e' e'' \<Longrightarrow> grows (a + c) (b + d) e e''"
  by (auto simp: grows_def intro: prefix_order.trans)

lemma grows_mono: "grows a b e e' \<Longrightarrow> a \<le> c \<Longrightarrow> b \<le> d \<Longrightarrow> grows c d e e'"
  by (simp add: grows_def)

lemma unat_u32_max: "unat w \<le> 4294967295" for w :: u32
proof -
  have "unat w < 2 ^ LENGTH(32)" by (rule unsigned_less)
  then show ?thesis by simp
qed

lemma below_capped: "unat w \<le> min (unat w + n) 4294967295 + d" for w :: u32
  using unat_u32_max [of w] by linarith

lemmas step_defs = unat_u32_max below_capped grows_def event_rest_def apply_if_def add_tag_def add_risk_def sub_risk_def
  word_facts Let_def prefix_def

lemma grows_abuse: "grows 30 0 e (enrich_abuse r e)"
  by (auto simp: enrich_abuse_def step_defs)

lemma grows_shodan: "grows 25 0 e (enrich_shodan r e)"
  by (auto simp: enrich_shodan_def step_defs)

lemma grows_otx: "grows 25 0 e (enrich_otx r e)"
  by (auto simp: enrich_otx_def step_defs)

lemma grows_greynoise: "grows 25 5 e (enrich_greynoise r e)"
  by (auto simp: enrich_greynoise_def step_defs)

lemma grows_geo: "grows 10 0 e (enrich_geo d e)"
  by (auto simp: enrich_geo_def step_defs)

lemma grows_ioc: "grows (unat risk div 3) 0 e (enrich_ioc risk e)"
  by (auto simp: enrich_ioc_def step_defs unat_div_distrib)

definition vt_points :: "file_report \<Rightarrow> nat" where
  "vt_points r = unat (f64_to_u32 (f64_mul (vt_threat_ratio r) (Fin 50)))"

lemma grows_vt: "grows (vt_points r) 0 e (enrich_vt r e)"
  by (auto simp: enrich_vt_def vt_points_def step_defs)

lemma grows_url: "grows (unat (ul_risk_score r)) 0 e (enrich_url r e)"
  by (auto simp: enrich_url_def step_defs)

lemma grows_report:
  "(\<And>x. grows (p x) d e (f x e)) \<Longrightarrow> grows (case r of None \<Rightarrow> 0 | Some x \<Rightarrow> p x) d e (with_report f r e)"
  by (cases r) (simp_all add: with_report_def grows_refl)

definition network_points :: "intel \<Rightarrow> nat" where
  "network_points i = 115 + (case in_ioc i of None \<Rightarrow> 0 | Some r \<Rightarrow> unat r div 3)"

lemma grows_fixed: "(\<And>x. grows n d e (f x e)) \<Longrightarrow> grows n d e (with_report f r e)"
  by (cases r) (simp_all add: with_report_def grows_refl)

lemma grows_network: "grows (network_points i) 5 e (enrich_network i e)"
proof -
  note steps = grows_trans [OF grows_trans [OF grows_trans [OF grows_trans [OF grows_trans
    [OF grows_fixed [of 30 0 _ enrich_abuse "in_abuse i", OF grows_abuse]
        grows_fixed [of 25 0 _ enrich_shodan "in_shodan i", OF grows_shodan]]
        grows_fixed [of 25 0 _ enrich_otx "in_otx i", OF grows_otx]]
        grows_fixed [of 25 5 _ enrich_greynoise "in_greynoise i", OF grows_greynoise]]
        grows_fixed [of 10 0 _ enrich_geo "in_geo i", OF grows_geo]]
        grows_report [of "\<lambda>r. unat r div 3" 0 _ enrich_ioc "in_ioc i", OF grows_ioc]]
  show ?thesis
    unfolding enrich_network_def by (rule grows_mono [OF steps]) (simp_all add: network_points_def)
qed

definition enrichment_points :: "intel \<Rightarrow> nat" where
  "enrichment_points i = network_points i + (case in_vt i of None \<Rightarrow> 0 | Some r \<Rightarrow> vt_points r)
     + (case in_url i of None \<Rightarrow> 0 | Some r \<Rightarrow> unat (ul_risk_score r))"

lemma grows_enrich: "grows (enrichment_points i) 5 e (enrich i e)"
proof -
  let ?n = "\<lambda>e. case ev_payload e of
                  Some (NetworkPayload ne) \<Rightarrow>
                    if ev_source e = ''network'' \<and> ne_remote_addr ne \<noteq> [] then enrich_network i e else e
                | _ \<Rightarrow> e"
  let ?v = "\<lambda>e. case ev_process e of
                  None \<Rightarrow> e
                | Some p \<Rightarrow> if pc_sha256 p \<noteq> [] then with_report enrich_vt (in_vt i) e else e"
  let ?u = "\<lambda>e. case ev_payload e of
           Some (BrowserPayload be) \<Rightarrow>
             if ev_source e = ''browser'' \<and> be_url be \<noteq> [] then with_report enrich_url (in_url i) e else e
         | _ \<Rightarrow> e"
  have n: "grows (network_points i) 5 e (?n e)" for e
    using grows_network [of i e] grows_refl by (simp split: option.splits payload.splits)
  have v: "grows (case in_vt i of None \<Rightarrow> 0 | Some r \<Rightarrow> vt_points r) 0 e (?v e)" for e
    using grows_report [of vt_points 0 e enrich_vt "in_vt i", OF grows_vt] grows_refl
    by (simp split: option.splits)
  have u: "grows (case in_url i of None \<Rightarrow> 0 | Some r \<Rightarrow> unat (ul_risk_score r)) 0 e (?u e)" for e
    using grows_report [of "\<lambda>r. unat (ul_risk_score r)" 0 e enrich_url "in_url i", OF grows_url] grows_refl
    by (simp split: option.splits payload.splits)
  have "grows (enrichment_points i) 5 e (?u (?v (?n e)))"
    using grows_trans [OF grows_trans [OF n v] u] by (simp add: enrichment_points_def)
  then show ?thesis
    unfolding enrich_def Let_def .
qed

text \<open>
  Enrichment only adds.  Whatever the services answer, every field but the tags and the risk
  score is kept, the old tags stay in front of the new ones, the score falls by at most 5 and
  rises by at most 115 points plus a third of the indicator's risk and the points of
  VirusTotal and URLhaus, without wrapping.
\<close>

theorem enrichment_bounded:
  "event_rest (enrich i e) = event_rest e \<and> prefix (ev_tags e) (ev_tags (enrich i e)) \<and>
   unat (ev_risk_score (enrich i e)) \<le> unat (ev_risk_score e) + enrichment_points i \<and>
   unat (ev_risk_score e) \<le> unat (ev_risk_score (enrich i e)) + 5"
  using grows_enrich [of i e] by (simp add: grows_def)


text \<open>The score of an event is not kept within the range of the risk engine.\<close>

lemma enrichment_exceeds_scale:
  "unat (ev_risk_score (add_risk 30 (event_default\<lparr> ev_risk_score := 990 \<rparr>))) = 1020"
  by (simp add: add_risk_def word_facts)

text \<open>The identity of an event is kept.\<close>

lemma event_rest_fields:
  "event_rest e' = event_rest e \<Longrightarrow> ev_id e' = ev_id e \<and> ev_source e' = ev_source e
     \<and> ev_process e' = ev_process e \<and> ev_payload e' = ev_payload e"
  by (drule arg_cong [where f = "\<lambda>x. (ev_id x, ev_source x, ev_process x, ev_payload x)"])
    (simp add: event_rest_def)

lemma enrich_keeps:
  "ev_id (enrich i e) = ev_id e \<and> ev_source (enrich i e) = ev_source e
     \<and> ev_process (enrich i e) = ev_process e \<and> ev_payload (enrich i e) = ev_payload e"
  by (rule event_rest_fields) (use grows_enrich [of i e] in \<open>simp add: grows_def\<close>)

end
