(* ===== verification/Privacy.thy ===== *)
theory Privacy
  imports Events Float64
begin

text \<open>
  What leaves the host (crates/sentinel-privacy): the configuration, the filter of single
  values (filter.rs) and the sanitising of an event (lib.rs).  The digest is SHA-256 cut to
  eight bytes and printed in hexadecimal: the parameter \<open>hash\<close>.
\<close>

section \<open>Configuration (config.rs)\<close>

datatype anonymization_level = AL_Full | AL_Redacted | AL_Anonymized | AL_Hashed | AL_None

definition is_shared :: "anonymization_level \<Rightarrow> bool" where
  "is_shared l \<longleftrightarrow> l \<noteq> AL_None"

record sharing_config =
  sh_command_lines :: anonymization_level
  sh_file_paths :: anonymization_level
  sh_network_ips :: anonymization_level
  sh_user_names :: anonymization_level
  sh_process_names :: anonymization_level

record fleet_query_config =
  fq_require_approval :: bool
  fq_auto_approve_localhost :: bool
  fq_max_rows_per_query :: usize

record ml_config =
  ml_federated_learning :: bool
  ml_differential_privacy_epsilon :: f64

record notification_config =
  nt_silent_push_only :: bool
  nt_local_websocket_fallback :: bool

record siem_config =
  sm_enabled :: bool
  sm_redact_pii :: bool
  sm_field_whitelist :: "string list"

record privacy_config =
  pv_mode :: string
  pv_sharing :: sharing_config
  pv_fleet_queries :: fleet_query_config
  pv_ml :: ml_config
  pv_notifications :: notification_config
  pv_siem :: siem_config

definition sharing_config_default :: sharing_config where
  "sharing_config_default = \<lparr> sh_command_lines = AL_Redacted, sh_file_paths = AL_Anonymized,
     sh_network_ips = AL_Anonymized, sh_user_names = AL_Hashed, sh_process_names = AL_Full \<rparr>"

definition fleet_query_config_default :: fleet_query_config where
  "fleet_query_config_default = \<lparr> fq_require_approval = True, fq_auto_approve_localhost = True,
     fq_max_rows_per_query = 1000 \<rparr>"

definition ml_config_default :: ml_config where
  "ml_config_default = \<lparr> ml_federated_learning = False, ml_differential_privacy_epsilon = Fin 8 \<rparr>"

definition notification_config_default :: notification_config where
  "notification_config_default = \<lparr> nt_silent_push_only = True, nt_local_websocket_fallback = True \<rparr>"

definition siem_config_default :: siem_config where
  "siem_config_default = \<lparr> sm_enabled = False, sm_redact_pii = True, sm_field_whitelist = [] \<rparr>"

definition privacy_config_default :: privacy_config where
  "privacy_config_default = \<lparr> pv_mode = ''personal'', pv_sharing = sharing_config_default,
     pv_fleet_queries = fleet_query_config_default, pv_ml = ml_config_default,
     pv_notifications = notification_config_default, pv_siem = siem_config_default \<rparr>"

text \<open>Reading a section from a file: a missing field takes the default of its attribute, which for
  the file paths and addresses is another one than in \<open>Default\<close>.\<close>

definition sharing_of_fields :: "(string \<Rightarrow> anonymization_level option) \<Rightarrow> sharing_config" where
  "sharing_of_fields f =
     (let get = (\<lambda>key d. case f key of None \<Rightarrow> d | Some l \<Rightarrow> l) in
      \<lparr> sh_command_lines = get ''command_lines'' AL_Redacted, sh_file_paths = get ''file_paths'' AL_Redacted,
        sh_network_ips = get ''network_ips'' AL_Redacted, sh_user_names = get ''user_names'' AL_Hashed,
        sh_process_names = get ''process_names'' AL_Full \<rparr>)"

section \<open>Paths\<close>

abbreviation slash :: char where
  "slash \<equiv> CHR ''/''"

definition path_words :: "string \<Rightarrow> string list" where
  "path_words p = str_split (\<lambda>c. c = slash) p"

definition skipped_word :: "string \<Rightarrow> bool" where
  "skipped_word w \<longleftrightarrow> w = [] \<or> w = ''.''"

text \<open>\<open>Path::components\<close>: the root, a leading \<open>.\<close> of a relative path, and the names.\<close>

definition path_components :: "string \<Rightarrow> string list" where
  "path_components p =
     (if starts_with p [slash] then [slash] # filter (\<lambda>w. \<not> skipped_word w) (path_words p)
      else (if hd (path_words p) = ''.'' then [''.''] else [])
           @ filter (\<lambda>w. \<not> skipped_word w) (path_words p))"

definition path_starts_with :: "string \<Rightarrow> string \<Rightarrow> bool" where
  "path_starts_with p base \<longleftrightarrow>
     take (length (path_components base)) (path_components p) = path_components base"

fun drop_names :: "nat \<Rightarrow> string list \<Rightarrow> string list" where
  "drop_names 0 ws = ws"
| "drop_names (Suc n) [] = []"
| "drop_names (Suc n) (w # ws) = (if skipped_word w then drop_names (Suc n) ws else drop_names n ws)"

text \<open>\<open>strip_prefix\<close>: the text after the components of the base, without separators at its ends.\<close>

definition path_strip_prefix :: "string \<Rightarrow> string \<Rightarrow> string" where
  "path_strip_prefix p base =
     (let names = length (filter (\<lambda>w. \<not> skipped_word w) (path_words base));
          rest = drop_names names (path_words p)
      in str_join [slash] (rev (dropWhile skipped_word (rev (dropWhile skipped_word rest)))))"

section \<open>The filter (filter.rs)\<close>

record privacy_filter =
  pf_sharing :: sharing_config
  pf_home_dir :: string

text \<open>\<open>None\<close> is the panic of a slice that cuts a character: the byte at the cut continues one.\<close>

definition continuation_byte :: "char \<Rightarrow> bool" where
  "continuation_byte c \<longleftrightarrow> (let n = of_char c :: nat in 128 \<le> n \<and> n < 192)"

definition str_slice_to :: "string \<Rightarrow> nat \<Rightarrow> string option" where
  "str_slice_to s n =
     (if n = length s then Some s
      else if n < length s \<and> \<not> continuation_byte (s ! n) then Some (take n s) else None)"

definition rewrite_path :: "(string \<Rightarrow> string) \<Rightarrow> string \<Rightarrow> string \<Rightarrow> string" where
  "rewrite_path hash path home =
     (if path_starts_with path home then ''$HOME/'' @ path_strip_prefix path home
      else if path_starts_with path ''/etc'' then ''/etc/'' @ path_strip_prefix path ''/etc''
      else if path_starts_with path ''/tmp'' then ''/tmp/'' @ path_strip_prefix path ''/tmp''
      else if path_starts_with path ''/var'' then ''/var/'' @ path_strip_prefix path ''/var''
      else ''/other/'' @ hash path)"

definition do_anonymize_path :: "(string \<Rightarrow> string) \<Rightarrow> string \<Rightarrow> string \<Rightarrow> string option" where
  "do_anonymize_path hash path home =
     (let s = rewrite_path hash path home in
      if 256 < length s then map_option (\<lambda>t. t @ ''...'') (str_slice_to s 253) else Some s)"

definition flag_values :: "string list" where
  "flag_values = [''--password'', ''--token'', ''--api-key'', ''--secret'', ''--key'', ''-password'',
     ''password'', ''passwd'']"

definition value_end :: "char \<Rightarrow> bool" where
  "value_end c \<longleftrightarrow> is_whitespace c \<or> c = CHR 0x22 \<or> c = CHR 0x27"

definition redact_flag :: "string \<Rightarrow> string \<Rightarrow> string" where
  "redact_flag flag s =
     (let found = (case str_find s (flag @ ''='') of Some p \<Rightarrow> Some p | None \<Rightarrow> str_find s (flag @ '' ''))
      in case found of
           None \<Rightarrow> s
         | Some pos \<Rightarrow>
             (let val_start = pos + length flag + 1 in
              if val_start < length s
              then (let val_end = (case find_char value_end (drop val_start s) of
                                     None \<Rightarrow> length s | Some p \<Rightarrow> val_start + p)
                    in take val_start s @ ''***'' @ drop val_end s)
              else s))"

definition do_redact_command_line :: "string \<Rightarrow> string \<Rightarrow> string" where
  "do_redact_command_line cmd home = fold redact_flag flag_values (str_replace cmd home ''$HOME'')"

fun redact_command_line :: "(string \<Rightarrow> string) \<Rightarrow> privacy_filter \<Rightarrow> string \<Rightarrow> string option" where
  "redact_command_line hash f cmd =
     (case sh_command_lines (pf_sharing f) of
        AL_Full \<Rightarrow> Some cmd
      | AL_None \<Rightarrow> Some []
      | AL_Redacted \<Rightarrow> Some (do_redact_command_line cmd (pf_home_dir f))
      | AL_Anonymized \<Rightarrow> do_anonymize_path hash cmd (pf_home_dir f)
      | AL_Hashed \<Rightarrow> Some (hash cmd))"

fun anonymize_path :: "(string \<Rightarrow> string) \<Rightarrow> privacy_filter \<Rightarrow> string \<Rightarrow> string option" where
  "anonymize_path hash f path =
     (case sh_file_paths (pf_sharing f) of
        AL_Full \<Rightarrow> Some path
      | AL_None \<Rightarrow> Some []
      | AL_Redacted \<Rightarrow> do_anonymize_path hash path (pf_home_dir f)
      | AL_Anonymized \<Rightarrow> do_anonymize_path hash path (pf_home_dir f)
      | AL_Hashed \<Rightarrow> Some (hash path))"

definition mask_ip :: "string \<Rightarrow> string" where
  "mask_ip ip =
     (if CHR '':'' \<in> set ip then hd (str_split (\<lambda>c. c = CHR '':'') ip) @ '':****''
      else case str_split (\<lambda>c. c = CHR ''.'') ip of
        [a, b, c, d] \<Rightarrow> a @ ''.'' @ b @ ''.x.x''
      | _ \<Rightarrow> ''x.x.x.x'')"

definition anonymize_ip :: "(string \<Rightarrow> string) \<Rightarrow> privacy_filter \<Rightarrow> string \<Rightarrow> string" where
  "anonymize_ip hash f ip =
     (case sh_network_ips (pf_sharing f) of
        AL_Full \<Rightarrow> ip | AL_None \<Rightarrow> [] | AL_Anonymized \<Rightarrow> mask_ip ip | AL_Redacted \<Rightarrow> mask_ip ip
      | AL_Hashed \<Rightarrow> hash ip)"

definition hash_username :: "(string \<Rightarrow> string) \<Rightarrow> privacy_filter \<Rightarrow> string \<Rightarrow> string" where
  "hash_username hash f u =
     (case sh_user_names (pf_sharing f) of AL_Full \<Rightarrow> u | AL_None \<Rightarrow> [] | _ \<Rightarrow> hash u)"

definition filter_process_name :: "(string \<Rightarrow> string) \<Rightarrow> privacy_filter \<Rightarrow> string \<Rightarrow> string" where
  "filter_process_name hash f n =
     (case sh_process_names (pf_sharing f) of AL_Full \<Rightarrow> n | AL_None \<Rightarrow> [] | _ \<Rightarrow> hash n)"

section \<open>The engine (lib.rs)\<close>

record privacy_engine =
  pg_config :: privacy_config
  pg_filter :: privacy_filter

definition privacy_engine_new :: "string \<Rightarrow> privacy_config \<Rightarrow> privacy_engine" where
  "privacy_engine_new home c =
     \<lparr> pg_config = c, pg_filter = \<lparr> pf_sharing = pv_sharing c, pf_home_dir = home \<rparr> \<rparr>"

definition is_enterprise :: "privacy_engine \<Rightarrow> bool" where
  "is_enterprise g \<longleftrightarrow> pv_mode (pg_config g) = ''enterprise''"

definition sanitize_user :: "(string \<Rightarrow> string) \<Rightarrow> privacy_filter \<Rightarrow> user_context \<Rightarrow> user_context" where
  "sanitize_user hash f u = u\<lparr> uc_username := hash_username hash f (uc_username u),
     uc_sid := hash_username hash f (uc_sid u) \<rparr>"

fun sanitize_process :: "(string \<Rightarrow> string) \<Rightarrow> privacy_filter \<Rightarrow> process_context \<Rightarrow> process_context option" where
  "sanitize_process hash f (ProcessContext pid ppid name path cmd cwd user integrity signing mitre depth sha parent) =
     (case (redact_command_line hash f cmd, anonymize_path hash f path) of
        (Some cmd', Some path') \<Rightarrow>
          Some (ProcessContext pid ppid name path' cmd' cwd (map_option (sanitize_user hash f) user)
            integrity signing mitre depth sha parent)
      | _ \<Rightarrow> None)"

definition sanitize_event :: "(string \<Rightarrow> string) \<Rightarrow> privacy_engine \<Rightarrow> event \<Rightarrow> event option" where
  "sanitize_event hash g e =
     (case ev_process e of
        None \<Rightarrow> Some e
      | Some p \<Rightarrow> map_option (\<lambda>p'. e\<lparr> ev_process := Some p' \<rparr>) (sanitize_process hash (pg_filter g) p))"

definition should_share_event :: "privacy_engine \<Rightarrow> event \<Rightarrow> bool" where
  "should_share_event g e \<longleftrightarrow> is_enterprise g \<and> 3 \<le> sint (ev_severity e)"

section \<open>Nothing is shared in personal mode\<close>

lemma personal_mode_shares_nothing:
  "\<not> should_share_event (privacy_engine_new home privacy_config_default) e"
  by (simp add: should_share_event_def is_enterprise_def privacy_engine_new_def privacy_config_default_def)

section \<open>Users\<close>

definition with_user :: "string \<Rightarrow> string \<Rightarrow> process_context \<Rightarrow> process_context" where
  "with_user name sid p = (case p of
     ProcessContext pid ppid n path cmd cwd user integrity signing mitre depth sha parent \<Rightarrow>
       ProcessContext pid ppid n path cmd cwd (map_option (\<lambda>u. u\<lparr> uc_username := name, uc_sid := sid \<rparr>) user)
         integrity signing mitre depth sha parent)"



text \<open>
  Sanitising touches the command line, the path and the user of the process itself and
  nothing else: the payload with its addresses and file names, the tags, the metadata, the
  working directory and the whole chain of parent processes, command lines included, leave
  the filter exactly as they came in.
\<close>

theorem sanitize_keeps_the_rest:
  assumes "sanitize_event hash g e = Some e'"
  shows "ev_payload e' = ev_payload e \<and> ev_tags e' = ev_tags e \<and> ev_metadata e' = ev_metadata e
    \<and> ev_correlation e' = ev_correlation e \<and> ev_host_id e' = ev_host_id e \<and> ev_id e' = ev_id e
    \<and> map_option ancestors (ev_process e') = map_option ancestors (ev_process e)
    \<and> map_option pc_cwd (ev_process e') = map_option pc_cwd (ev_process e)"
proof (cases "ev_process e")
  case None
  with assms show ?thesis by (simp add: sanitize_event_def)
next
  case (Some p)
  then obtain p' where p': "sanitize_process hash (pg_filter g) p = Some p'" and e': "e' = e\<lparr> ev_process := Some p' \<rparr>"
    using assms by (auto simp: sanitize_event_def)
  have "ancestors p' = ancestors p \<and> pc_cwd p' = pc_cwd p"
    using p' by (cases p) (auto simp del: redact_command_line.simps anonymize_path.simps split: option.splits)
  with Some show ?thesis by (simp add: e')
qed

lemma sanitize_keeps_the_rest_witness:
  "map_option (map pc_command_line) (map_option ancestors (ev_process (the
     (sanitize_event id (privacy_engine_new ''/home/u'' privacy_config_default)
       (event_default \<lparr> ev_process := Some (ProcessContext 2 1 [] [] [] [] None [] None [] 0 []
          (Some (ProcessContext 1 0 [] [] ''login --password=x'' [] None [] None [] 0 [] None))) \<rparr>)))))
   = Some [''login --password=x'']"
proof -
  let ?g = "privacy_engine_new ''/home/u'' privacy_config_default"
  let ?e = "event_default \<lparr> ev_process := Some (ProcessContext 2 1 [] [] [] [] None [] None [] 0 []
          (Some (ProcessContext 1 0 [] [] ''login --password=x'' [] None [] None [] 0 [] None))) \<rparr>"
  have "sanitize_event id ?g ?e \<noteq> None" by code_simp
  then have "sanitize_event id ?g ?e = Some (the (sanitize_event id ?g ?e))" by simp
  from sanitize_keeps_the_rest [OF this]
  have "map_option ancestors (ev_process (the (sanitize_event id ?g ?e))) = map_option ancestors (ev_process ?e)"
    by blast
  then show ?thesis
    by (simp only:) simp
qed

section \<open>Addresses and paths\<close>

lemma split_dot:
  "CHR ''.'' \<notin> set w \<Longrightarrow> str_split (\<lambda>c. c = CHR ''.'') (w @ CHR ''.'' # s) = w # str_split (\<lambda>c. c = CHR ''.'') s"
  "CHR ''.'' \<notin> set w \<Longrightarrow> str_split (\<lambda>c. c = CHR ''.'') w = [w]"
  by (rule str_split_append; auto) (rule str_split_single; auto)

text \<open>
  Masking an IPv4 address hides its lower half: four parts become the first two, whatever
  the others are.
\<close>

theorem mask_ip_hides_host:
  assumes "\<forall>w \<in> {a, b, c, d}. CHR ''.'' \<notin> set w \<and> CHR '':'' \<notin> set w"
    and "sh_network_ips (pf_sharing f) \<in> {AL_Anonymized, AL_Redacted}"
  shows "anonymize_ip hash f (str_join ''.'' [a, b, c, d]) = a @ ''.'' @ b @ ''.x.x''"
proof -
  have "str_split (\<lambda>c. c = CHR ''.'') (str_join ''.'' [a, b, c, d]) = [a, b, c, d]"
    using assms(1) by (simp add: split_dot)
  moreover have "CHR '':'' \<notin> set (str_join ''.'' [a, b, c, d])"
    using assms(1) by auto
  ultimately have "mask_ip (str_join ''.'' [a, b, c, d]) = a @ ''.'' @ b @ ''.x.x''"
    by (simp add: mask_ip_def del: str_join.simps)
  with assms(2) show ?thesis by (auto simp: anonymize_ip_def)
qed

lemma mask_ip_hides_host_witness:
  "anonymize_ip id \<lparr> pf_sharing = sharing_config_default, pf_home_dir = ''/root'' \<rparr> ''192.168.1.20'' = ''192.168.x.x''"
  using mask_ip_hides_host [of "''192''" "''168''" "''1''" "''20''"
      "\<lparr> pf_sharing = sharing_config_default, pf_home_dir = ''/root'' \<rparr>" id]
  by (simp add: sharing_config_default_def)

text \<open>
  A rewritten path has at most 256 bytes; the only way not to get one is the cut at byte 253
  falling inside a character, which is a panic.
\<close>

theorem anonymized_path_bounded:
  "case do_anonymize_path hash path home of
     Some s \<Rightarrow> length s \<le> 256
   | None \<Rightarrow> continuation_byte (rewrite_path hash path home ! 253) \<and> 256 < length (rewrite_path hash path home)"
  by (simp add: do_anonymize_path_def str_slice_to_def Let_def)

text \<open>Such a path exists: a file name of two-byte characters under the home directory.\<close>

lemma path_panics:
  "do_anonymize_path hash (''/h/'' @ concat (replicate 130 [CHR 0xC3, CHR 0xA9])) ''/h'' = None"
  by code_simp

section \<open>Secrets on the command line\<close>

lemma find_char_at:
  "(\<And>c. c \<in> set v \<Longrightarrow> \<not> P c) \<Longrightarrow> rest = [] \<or> P (hd rest) \<Longrightarrow>
     find_char P (v @ rest) = (if rest = [] then None else Some (length v))"
proof (induction v)
  case Nil
  then show ?case by (cases rest) auto
qed auto

lemma redact_flag_at:
  assumes "str_find (p @ v) (flag @ ''='') = Some pos" and "length p = pos + length flag + 1" and "v \<noteq> []"
  shows "redact_flag flag (p @ v) =
    p @ ''***'' @ drop (case find_char value_end v of None \<Rightarrow> length v | Some i \<Rightarrow> i) v"
proof -
  have "pos + length flag + 1 = length p" using assms(2) by simp
  with assms(1,3) show ?thesis
    by (cases "find_char value_end v") (simp_all add: redact_flag_def Let_def)
qed

text \<open>
  The value of the first occurrence of a flag is replaced by three stars, whatever it is: a
  value without blanks and quotes, up to the next blank or quote or the end of the line.
\<close>

theorem flag_value_redacted:
  assumes "str_find (pre @ flag @ ''='' @ val @ rest) (flag @ ''='') = Some (length pre)"
    and "\<forall>c \<in> set val. \<not> value_end c" and "rest = [] \<or> value_end (hd rest)" and "val @ rest \<noteq> []"
  shows "redact_flag flag (pre @ flag @ ''='' @ val @ rest) = pre @ flag @ ''=***'' @ rest"
proof -
  have "redact_flag flag ((pre @ flag @ ''='') @ (val @ rest)) =
      (pre @ flag @ ''='') @ ''***'' @ drop (case find_char value_end (val @ rest) of None \<Rightarrow> length (val @ rest) | Some i \<Rightarrow> i) (val @ rest)"
    by (rule redact_flag_at) (use assms in simp_all)
  moreover have "drop (case find_char value_end (val @ rest) of None \<Rightarrow> length (val @ rest) | Some i \<Rightarrow> i) (val @ rest) = rest"
    using assms(2,3) by (simp add: find_char_at)
  ultimately show ?thesis by simp
qed

lemma flag_value_redacted_witness:
  "redact_flag ''--token'' (''run '' @ ''--token'' @ ''='' @ ''s3cret'' @ '' -v'') = ''run --token=*** -v''"
  using flag_value_redacted [of "''run ''" "''--token''" "''s3cret''" "'' -v''"]
  by (simp add: value_end_def is_whitespace_def starts_with_def)

text \<open>Only the first occurrence of each flag is redacted.\<close>

lemma second_secret_leaks:
  "do_redact_command_line ''sync --token=aaa --token=bbb'' ''/home/u'' = ''sync --token=*** --token=bbb''"
  by code_simp

text \<open>The address filter is never applied to an event: the payload keeps its addresses
  (\<open>sanitize_keeps_the_rest\<close>).\<close>

end
