(* ===== verification/Alerting.thy ===== *)
theory Alerting
  imports Repositories Enrichment Privacy Correlation Rule_Engine Risk Sigma
begin

text \<open>
  From an event to an alert: the alert manager (apps/sentinel-core-service/src/alert_manager.rs),
  the state codes of the API (crates/sentinel-api) and the body of the main event loop
  (apps/sentinel-core-service/src/main.rs), which enriches an event, links it to a chain,
  evaluates the rules, scores every match and raises the alerts.
\<close>

section \<open>Codes of the API\<close>

fun core_alert_state_to_proto :: "alert_state \<Rightarrow> i32" where
  "core_alert_state_to_proto AS_New = 1"
| "core_alert_state_to_proto AS_Acknowledged = 2"
| "core_alert_state_to_proto AS_Investigating = 3"
| "core_alert_state_to_proto AS_ResolvedTruePositive = 4"
| "core_alert_state_to_proto AS_ResolvedFalsePositive = 5"
| "core_alert_state_to_proto AS_Suppressed = 6"

definition proto_alert_state_to_core :: "i32 \<Rightarrow> alert_state option" where
  "proto_alert_state_to_core n =
     (if n = 1 then Some AS_New else if n = 2 then Some AS_Acknowledged
      else if n = 3 then Some AS_Investigating else if n = 4 then Some AS_ResolvedTruePositive
      else if n = 5 then Some AS_ResolvedFalsePositive else if n = 6 then Some AS_Suppressed else None)"

lemma proto_state_roundtrip: "proto_alert_state_to_core (core_alert_state_to_proto s) = Some s"
  by (cases s) (simp_all add: proto_alert_state_to_core_def)

text \<open>The code of a state in the API is one more than in the database.\<close>

lemma proto_state_shifted: "sint (core_alert_state_to_proto s) = alert_state_code s + 1"
  by (cases s) simp_all

section \<open>The alert manager\<close>

datatype stream_kind = Created | Updated

record stream_event =
  se_alert_id :: string
  se_alert_rule_id :: string
  se_alert_risk_score :: u32
  se_alert_severity :: i32
  se_alert_state :: i32
  se_kind :: stream_kind

definition alert_to_stream_event :: "codec \<Rightarrow> alert \<Rightarrow> stream_kind \<Rightarrow> stream_event" where
  "alert_to_stream_event c a k = \<lparr> se_alert_id = k_ulid_show c (al_id a), se_alert_rule_id = al_rule_id a,
     se_alert_risk_score = al_risk_score a, se_alert_severity = severity_i32 (al_severity a),
     se_alert_state = core_alert_state_to_proto (al_state a), se_kind = k \<rparr>"

text \<open>The manager has the repository and the stream of announcements; a lost announcement (no
  receiver) is not told apart from one that is heard.\<close>

record alert_manager =
  am_repo :: alert_table
  am_sent :: "stream_event list"

definition alert_new ::
    "codec \<Rightarrow> ulid \<Rightarrow> ulid \<Rightarrow> datetime \<Rightarrow> datetime \<Rightarrow> string \<Rightarrow> u32 \<Rightarrow> severity \<Rightarrow> string list \<Rightarrow> json \<Rightarrow> alert" where
  "alert_new c i corr now now' rule_id score sev event_ids context =
     \<lparr> al_id = i, al_rule_id = rule_id, al_correlation_id = corr, al_risk_score = score, al_severity = sev,
       al_state = AS_New, al_created_at = now, al_updated_at = now', al_acknowledged_by = None,
       al_acknowledged_at = None, al_events = List.map_filter (k_ulid_parse c) event_ids,
       al_context = context, al_ai_summary = None \<rparr>"

definition manager_create ::
    "codec \<Rightarrow> string \<Rightarrow> alert \<Rightarrow> alert_manager \<Rightarrow> alert result \<times> alert_manager" where
  "manager_create c msg a m = (case alert_create c msg (am_repo m) a of
     Inl e \<Rightarrow> (Inl e, m)
   | Inr t \<Rightarrow> (Inr a, \<lparr> am_repo = t, am_sent = am_sent m @ [alert_to_stream_event c a Created] \<rparr>))"

text \<open>\<open>update_state\<close>; \<open>acknowledge\<close> and \<open>resolve\<close> are calls of the same shape.\<close>

definition manager_update_state ::
    "codec \<Rightarrow> datetime \<Rightarrow> ulid \<Rightarrow> ulid \<Rightarrow> ulid \<Rightarrow> alert_state \<Rightarrow> string option \<Rightarrow> alert_manager \<Rightarrow> alert_manager" where
  "manager_update_state c now fresh fresh' i st comment m =
     (let t = alert_update_state c now (am_repo m) i st comment in
      case alert_get c fresh fresh' t i of
        None \<Rightarrow> m\<lparr> am_repo := t \<rparr>
      | Some a \<Rightarrow> \<lparr> am_repo = t, am_sent = am_sent m @ [alert_to_stream_event c a Updated] \<rparr>)"

definition manager_acknowledge ::
    "codec \<Rightarrow> datetime \<Rightarrow> ulid \<Rightarrow> ulid \<Rightarrow> ulid \<Rightarrow> string \<Rightarrow> alert_manager \<Rightarrow> alert_manager" where
  "manager_acknowledge c now fresh fresh' i username m =
     manager_update_state c now fresh fresh' i AS_Acknowledged (Some username) m"

definition manager_resolve ::
    "codec \<Rightarrow> datetime \<Rightarrow> ulid \<Rightarrow> ulid \<Rightarrow> ulid \<Rightarrow> bool \<Rightarrow> alert_manager \<Rightarrow> alert_manager" where
  "manager_resolve c now fresh fresh' i tp m =
     manager_update_state c now fresh fresh' i
       (if tp then AS_ResolvedTruePositive else AS_ResolvedFalsePositive) None m"

definition manager_query :: "alert_state option \<Rightarrow> usize \<Rightarrow> alert_query" where
  "manager_query st limit = \<lparr> aq_state = st, aq_min_severity = None, aq_start_time = None, aq_end_time = None,
     aq_limit = limit, aq_offset = 0 \<rparr>"

text \<open>
  The stream of announcements tells the truth.  A change of state is announced exactly when
  the alert exists, with the state that is stored afterwards, which is the requested one; an
  unknown alert changes nothing and is not announced.
\<close>

theorem update_announced_truthfully:
  "case table_get (am_repo m) (k_ulid_show c i) of
     None \<Rightarrow> manager_update_state c now fresh fresh' i st comment m = m
   | Some r \<Rightarrow>
       (let m' = manager_update_state c now fresh fresh' i st comment m in
        am_sent m' = am_sent m @
          [alert_to_stream_event c (the (alert_get c fresh fresh' (am_repo m') i)) Updated]
        \<and> se_alert_state (last (am_sent m')) = core_alert_state_to_proto st)"
proof (cases "table_get (am_repo m) (k_ulid_show c i)")
  case None
  then have "alert_update_state c now (am_repo m) i st comment = am_repo m"
    by (simp add: alert_update_state_def table_modify_def table_get_def)
  with None show ?thesis
    by (simp add: manager_update_state_def alert_get_def Let_def)
next
  case (Some r)
  have "al_state (row_to_alert c fresh fresh' (set_state c now st comment r)) = st"
    by (simp add: row_to_alert_def set_state_def Let_def alert_state_of_code_code case_prod_beta)
  with Some show ?thesis
    by (simp add: manager_update_state_def alert_get_def update_state_get Let_def alert_to_stream_event_def)
qed

text \<open>Creating: announced once if and only if it was stored.\<close>

lemma create_announced:
  "case manager_create c msg a m of
     (Inl e, m') \<Rightarrow> m' = m
   | (Inr b, m') \<Rightarrow> b = a \<and> am_sent m' = am_sent m @ [alert_to_stream_event c a Created]
       \<and> table_get (am_repo m') (k_ulid_show c (al_id a)) = Some (alert_row_of c a)"
proof (cases "alert_create c msg (am_repo m) a")
  case (Inr t)
  have "ar_id (alert_row_of c a) = k_ulid_show c (al_id a)" by (simp add: alert_row_of_def)
  with table_insert_get [of ar_id msg "am_repo m" "alert_row_of c a" t] Inr show ?thesis
    by (simp add: manager_create_def alert_create_def)
qed (simp add: manager_create_def)

section \<open>The body of the main loop\<close>

text \<open>What the environment gives for one match: the clocks of the two calls of the risk engine,
  the date, and the ids and dates of a new alert.\<close>

record match_env =
  me_score_clock :: clock
  me_alert_clock :: clock
  me_utc :: datetime
  me_alert_id :: ulid
  me_corr_id :: ulid
  me_created :: datetime
  me_updated :: datetime

record 'p service =
  sv_correlation :: correlation_engine
  sv_rules :: "'p rule_engine"
  sv_risk :: risk_engine
  sv_alerts :: alert_manager

definition alert_context :: "string \<Rightarrow> string \<Rightarrow> json" where
  "alert_context chain_id source = JObject [(''chain_id'', JString chain_id), (''source'', JString source)]"

definition handle_match ::
    "codec \<Rightarrow> string \<Rightarrow> (f64 \<Rightarrow> f64 \<Rightarrow> f64) \<Rightarrow> event \<Rightarrow> string \<Rightarrow> match_env \<Rightarrow> rule_match \<Rightarrow>
     risk_engine \<times> alert_manager \<times> risk_alert list \<Rightarrow> risk_engine \<times> alert_manager \<times> risk_alert list" where
  "handle_match c msg powf e chain_id env m st = (case st of (risk, mgr, raised) \<Rightarrow>
     (let (score, risk1) = calculate powf (me_score_clock env) (ma_risk_score m) ''Warning'' (Fin 1) (Some chain_id) risk;
          (result, risk2) = should_alert (me_alert_clock env) (me_utc env) (ma_rule_id m) (ma_rule_name m) score
                              (ev_source e) [ev_id e] (Some chain_id) risk1
      in case result of
           None \<Rightarrow> (risk2, mgr, raised)
         | Some a \<Rightarrow>
             (risk2,
              snd (manager_create c msg
                (alert_new c (me_alert_id env) (me_corr_id env) (me_created env) (me_updated env)
                   (ra_rule_id a) (ra_risk_score a) (ma_severity m) (ra_event_ids a)
                   (alert_context chain_id (ev_source e))) mgr),
              raised @ [a])))"

fun handle_matches ::
    "codec \<Rightarrow> string \<Rightarrow> (f64 \<Rightarrow> f64 \<Rightarrow> f64) \<Rightarrow> event \<Rightarrow> string \<Rightarrow> (nat \<Rightarrow> match_env) \<Rightarrow> nat \<Rightarrow> rule_match list \<Rightarrow>
     risk_engine \<times> alert_manager \<times> risk_alert list \<Rightarrow> risk_engine \<times> alert_manager \<times> risk_alert list" where
  "handle_matches c msg powf e chain_id env k [] st = st"
| "handle_matches c msg powf e chain_id env k (m # ms) st =
     handle_matches c msg powf e chain_id env (Suc k) ms (handle_match c msg powf e chain_id (env k) m st)"

text \<open>One event: the alerts raised and the state afterwards.\<close>

definition handle_event ::
    "codec \<Rightarrow> string \<Rightarrow> (f64 \<Rightarrow> f64 \<Rightarrow> f64) \<Rightarrow> ('p \<Rightarrow> activation \<Rightarrow> string + cel_value) \<Rightarrow> intel \<Rightarrow> clock \<Rightarrow> string \<Rightarrow>
     (string \<Rightarrow> datetime) \<Rightarrow> nat \<Rightarrow> (nat \<Rightarrow> match_env) \<Rightarrow> event \<Rightarrow> 'p service \<Rightarrow> risk_alert list \<times> 'p service" where
  "handle_event c msg powf execute intel clk ulid now took env ev s =
     (let e = enrich intel ev;
          (chain, corr) = ingest clk ulid e (sv_correlation s);
          (result, rules) = evaluate execute now took e (sv_rules s);
          (risk, mgr, raised) = handle_matches c msg powf e (kc_id chain) env 0 (er_matches result)
                                  (sv_risk s, sv_alerts s, [])
      in (raised, \<lparr> sv_correlation = corr, sv_rules = rules, sv_risk = risk, sv_alerts = mgr \<rparr>))"

section \<open>Every alert has a cause\<close>

lemma evaluate_match_fires:
  assumes "m \<in> set (er_matches (fst (evaluate execute now took e g)))"
  shows "\<exists>(k, cr) \<in> set (rn_rules g). rule_fires execute e cr \<and> ma_rule_id m = ru_id (cr_rule cr)
     \<and> ma_severity m = ru_severity (cr_rule cr)"
proof -
  have "m \<in> set (List.map_filter fst (map (\<lambda>(k, cr). evaluate_rule execute (now k) e cr) rules)) \<Longrightarrow>
      \<exists>(k, cr) \<in> set rules. rule_fires execute e cr \<and> ma_rule_id m = ru_id (cr_rule cr)
        \<and> ma_severity m = ru_severity (cr_rule cr)" for rules
    by (induction rules) (auto simp: map_filter_simps evaluate_rule_fires split: if_splits)
  with assms show ?thesis by (simp add: evaluate_def Let_def)
qed

lemma should_alert_fields:
  "fst (should_alert clk utc rid rname score src ids corr e) = Some a \<Longrightarrow>
     ra_rule_id a = rid \<and> ra_risk_score a = score \<and> ra_source a = src \<and> ra_event_ids a = ids
     \<and> ra_correlation_id a = corr \<and> from_score score (rc_thresholds (rk_config e)) \<noteq> AS_Low"
  by (auto simp: should_alert_def Let_def split: if_splits option.splits)

text \<open>What is known of an alert that was raised for an event.\<close>

definition justified :: "event \<Rightarrow> string \<Rightarrow> risk_config \<Rightarrow> rule_match list \<Rightarrow> risk_alert \<Rightarrow> bool" where
  "justified e chain_id cfg ms a \<longleftrightarrow> ra_source a = ev_source e \<and> ra_event_ids a = [ev_id e]
     \<and> ra_correlation_id a = Some chain_id \<and> from_score (ra_risk_score a) (rc_thresholds cfg) \<noteq> AS_Low
     \<and> ra_rule_id a \<in> ma_rule_id ` set ms"

lemma handle_match_cases:
  obtains (quiet) risk' where "handle_match c msg powf e cid env m (risk, mgr, raised) = (risk', mgr, raised)"
      "rk_config risk' = rk_config risk"
  | (alert) risk' a mgr' where "handle_match c msg powf e cid env m (risk, mgr, raised) = (risk', mgr', raised @ [a])"
      "rk_config risk' = rk_config risk" "justified e cid (rk_config risk) [m] a"
proof -
  obtain score risk1 where c: "calculate powf (me_score_clock env) (ma_risk_score m) ''Warning'' (Fin 1) (Some cid) risk = (score, risk1)"
    by fastforce
  obtain result risk2 where s: "should_alert (me_alert_clock env) (me_utc env) (ma_rule_id m) (ma_rule_name m) score
      (ev_source e) [ev_id e] (Some cid) risk1 = (result, risk2)"
    by fastforce
  have k1: "rk_config risk1 = rk_config risk"
    using calculate_config [of powf "me_score_clock env" "ma_risk_score m" "''Warning''" "Fin 1" "Some cid" risk] c by simp
  have k2: "rk_config risk2 = rk_config risk1"
    using should_alert_config [of "me_alert_clock env" "me_utc env" "ma_rule_id m" "ma_rule_name m" score
        "ev_source e" "[ev_id e]" "Some cid" risk1] s by simp
  show ?thesis
  proof (cases result)
    case None
    show ?thesis
      by (rule quiet [of risk2]) (simp_all add: handle_match_def c s None k1 k2)
  next
    case (Some a)
    have "justified e cid (rk_config risk) [m] a"
      using should_alert_fields [of "me_alert_clock env" "me_utc env" "ma_rule_id m" "ma_rule_name m" score
        "ev_source e" "[ev_id e]" "Some cid" risk1 a] s Some k1 by (simp add: justified_def)
    moreover have "\<exists>mgr'. handle_match c msg powf e cid env m (risk, mgr, raised) = (risk2, mgr', raised @ [a])"
      by (simp add: handle_match_def c s Some)
    ultimately show ?thesis
      using alert [of risk2 _ a] k1 k2 by auto
  qed
qed

lemma justified_mono: "justified e cid cfg ms a \<Longrightarrow> set ms \<subseteq> set ms' \<Longrightarrow> justified e cid cfg ms' a"
  by (auto simp: justified_def)

lemma handle_matches_justified:
  "list_all (justified e cid (rk_config risk) all) raised \<Longrightarrow> set ms \<subseteq> set all \<Longrightarrow>
   list_all (justified e cid (rk_config risk) all)
     (snd (snd (handle_matches c msg powf e cid env k ms (risk, mgr, raised))))"
proof (induction ms arbitrary: k risk mgr raised)
  case (Cons m ms)
  show ?case
  proof (cases rule: handle_match_cases [of c msg powf e cid "env k" m risk mgr raised])
    case (quiet risk')
    with Cons.prems Cons.IH [of risk' raised "Suc k" mgr] show ?thesis by simp
  next
    case (alert risk' a mgr')
    have "justified e cid (rk_config risk) all a"
      by (rule justified_mono [OF alert(3)]) (use Cons.prems in simp)
    with Cons.prems Cons.IH [of risk' "raised @ [a]" "Suc k" mgr'] alert show ?thesis by simp
  qed
qed simp

text \<open>
  C1: Every alert the main loop raises has a cause.  It names a rule that is loaded and fires on
  the enriched event, the event itself, its source, and a chain that is stored with the event as
  its latest; its score reaches the medium threshold of the risk engine.
\<close>

theorem alerts_are_justified:
  assumes "corr_reachable config (sv_correlation s)"
    and "handle_event c msg powf execute intel clk ulid now took env ev s = (raised, s')"
    and "a \<in> set raised"
  shows "\<exists>chain. ce_chains (sv_correlation s') (kc_id chain) = Some chain
      \<and> last (kc_events chain) = enrich intel ev \<and> ra_correlation_id a = Some (kc_id chain)
      \<and> ra_event_ids a = [ev_id ev] \<and> ra_source a = ev_source ev
      \<and> from_score (ra_risk_score a) (rc_thresholds (rk_config (sv_risk s))) \<noteq> AS_Low
      \<and> (\<exists>(k, cr) \<in> set (rn_rules (sv_rules s)).
           rule_fires execute (enrich intel ev) cr \<and> ru_id (cr_rule cr) = ra_rule_id a)"
proof -
  let ?e = "enrich intel ev" and ?ms = "er_matches (fst (evaluate execute now took (enrich intel ev) (sv_rules s)))"
  obtain chain corr where i: "ingest clk ulid ?e (sv_correlation s) = (chain, corr)" by fastforce
  have stored: "ce_chains corr (kc_id chain) = Some chain" "last (kc_events chain) = ?e"
    using ingest_stored [OF assms(1) i] by simp_all
  have fields: "ev_id ?e = ev_id ev" "ev_source ?e = ev_source ev"
    using enrich_keeps [of intel ev] by simp_all
  have "list_all (justified ?e (kc_id chain) (rk_config (sv_risk s)) ?ms)
      (snd (snd (handle_matches c msg powf ?e (kc_id chain) env 0 ?ms (sv_risk s, sv_alerts s, []))))"
    by (rule handle_matches_justified) simp_all
  then have j: "justified ?e (kc_id chain) (rk_config (sv_risk s)) ?ms a" and s': "sv_correlation s' = corr"
    using assms(2,3) by (auto simp: handle_event_def Let_def i list_all_iff case_prod_beta)
  then obtain m where "m \<in> set ?ms" "ma_rule_id m = ra_rule_id a"
    by (auto simp: justified_def)
  with evaluate_match_fires [of m] have "\<exists>(k, cr) \<in> set (rn_rules (sv_rules s)).
      rule_fires execute ?e cr \<and> ru_id (cr_rule cr) = ra_rule_id a"
    by fastforce
  with j s' stored fields show ?thesis by (auto simp: justified_def)
qed

text \<open>One rule that always holds and scores 900, and one event.\<close>

definition demo_service :: "unit service" where
  "demo_service = \<lparr> sv_correlation = correlation_engine_new correlation_config_default,
     sv_rules = rule_engine_initial\<lparr> rn_rules := [(''r1'', \<lparr>
        cr_rule = (rule_default 0 0)\<lparr> ru_id := ''r1'', ru_name := ''always'', ru_enabled := True,
          ru_risk := \<lparr> rr_base_score = 900, rr_confidence = Fin 1, rr_multipliers = [] \<rparr> \<rparr>,
        cr_main_program = (), cr_and_programs = [], cr_or_programs = [], cr_not_programs = [],
        cr_multiplier_programs = [], cr_suppression_programs = [], cr_compile_time_ms = 0 \<rparr>)] \<rparr>,
     sv_risk = risk_engine_new risk_config_default,
     sv_alerts = \<lparr> am_repo = Map.empty, am_sent = [] \<rparr> \<rparr>"

definition no_intel :: intel where
  "no_intel = \<lparr> in_abuse = None, in_shodan = None, in_otx = None, in_greynoise = None, in_geo = None,
     in_ioc = None, in_vt = None, in_url = None \<rparr>"

definition demo_env :: match_env where
  "demo_env = \<lparr> me_score_clock = (\<lambda>_. 0), me_alert_clock = (\<lambda>_. 0), me_utc = 0, me_alert_id = 1,
     me_corr_id = 2, me_created = 0, me_updated = 0 \<rparr>"

definition demo_run :: "risk_alert list \<times> unit service" where
  "demo_run = handle_event alert_codec ''dup'' (\<lambda>_ _. Fin 1) (\<lambda>_ _. Inr (CBool True)) no_intel (\<lambda>_. 0) ''chain-1''
     (\<lambda>_. 0) 1 (\<lambda>_. demo_env) (event_default\<lparr> ev_id := ''e1'', ev_source := ''process'' \<rparr>) demo_service"

lemma first_score: "rk_scores risk cid = None \<Longrightarrow>
    fst (calculate powf clk b label (Fin 1) (Some cid) risk) = min b 1000"
  using f64_capped_u32 [of 1000 b]
  by (simp add: calculate_def f64_mul_one Let_def min_def word_le_nat_alt)

lemma fresh_engine_alerts:
  assumes "rt_medium (rc_thresholds cfg) \<le> min b 1000" and "0 < unat (rc_flapping_max_per_hour cfg)"
  shows "map ra_rule_id (snd (snd (handle_match c msg powf e cid env
      \<lparr> ma_rule_id = rid, ma_rule_name = rn, ma_severity = sev, ma_risk_score = b, ma_mitre = mt, ma_actions = ac,
        ma_matched_at = at' \<rparr> (risk_engine_new cfg, mgr, [])))) = [rid]"
proof -
  obtain score risk1 where c: "calculate powf (me_score_clock env) b ''Warning'' (Fin 1) (Some cid) (risk_engine_new cfg)
      = (score, risk1)" by fastforce
  have "score = min b 1000"
    using first_score [of "risk_engine_new cfg" cid powf "me_score_clock env" b "''Warning''"] c
    by (simp add: risk_engine_new_def)
  moreover have "rk_config risk1 = cfg" "rk_dedup risk1 = Map.empty" "rk_flapping risk1 = Map.empty"
    using c by (auto simp: calculate_def risk_engine_new_def Let_def)
  ultimately show ?thesis
    using assms by (simp add: handle_match_def c should_alert_def from_score_def)
qed

lemma demo_run_alert: "map ra_rule_id (fst demo_run) = [''r1'']"
proof -
  have "er_matches (fst (evaluate (\<lambda>_ _. Inr (CBool True)) (\<lambda>_. 0) 1
      (enrich no_intel (event_default\<lparr> ev_id := ''e1'', ev_source := ''process'' \<rparr>)) (sv_rules demo_service))) =
      [\<lparr> ma_rule_id = ''r1'', ma_rule_name = ''always'', ma_severity = Info, ma_risk_score = 900, ma_mitre = [],
         ma_actions = [], ma_matched_at = 0 \<rparr>]"
    by (simp add: evaluate_def demo_service_def evaluate_rule_def evaluate_program_def unwrap_or_false_def
        calculate_risk_score_def f64_mul_one rule_default_def severity_default_def map_filter_simps Let_def)
  then show ?thesis
    unfolding demo_run_def handle_event_def Let_def case_prod_beta
    by (simp add: demo_service_def fresh_engine_alerts [of risk_config_default 900])
      (simp add: fresh_engine_alerts risk_config_default_def word_le_nat_alt)
qed

lemma alerts_are_justified_witness:
  "ra_event_ids (hd (fst demo_run)) = [''e1''] \<and> ra_source (hd (fst demo_run)) = ''process''"
proof -
  have "fst demo_run \<noteq> []" using demo_run_alert by auto
  then have "hd (fst demo_run) \<in> set (fst demo_run)" by simp
  moreover have "corr_reachable correlation_config_default (sv_correlation demo_service)"
    by (simp add: demo_service_def corr_reachable.cr_new)
  ultimately show ?thesis
    using alerts_are_justified [of correlation_config_default demo_service alert_codec "''dup''" "\<lambda>_ _. Fin 1"
        "\<lambda>_ _. Inr (CBool True)" no_intel "\<lambda>_. 0" "''chain-1''" "\<lambda>_. 0" 1 "\<lambda>_. demo_env"
        "event_default\<lparr> ev_id := ''e1'', ev_source := ''process'' \<rparr>" "fst demo_run" "snd demo_run" "hd (fst demo_run)"]
    unfolding demo_run_def [symmetric] by auto
qed

section \<open>Low scores do not alert\<close>

text \<open>
  A rule imported from Sigma never raises an alert by itself under the default thresholds.
  Its base score is at most 90 on a scale where alerts begin at 300, whatever the level of the
  Sigma rule, so a match in a chain without a score yet is dropped.
\<close>

theorem sigma_rule_alone_never_alerts:
  assumes "cr_multiplier_programs cr = []"
    and "ru_risk (cr_rule cr) = \<lparr> rr_base_score = sk_base_score (sx_risk (convert_sigma_to_sentinel uuid now s)),
           rr_confidence = sk_confidence (sx_risk (convert_sigma_to_sentinel uuid now s)), rr_multipliers = [] \<rparr>"
    and "ma_risk_score m = calculate_risk_score execute cr ev"
    and "rk_config risk = risk_config_default" and "rk_scores risk chain_id = None"
  shows "snd (snd (handle_match c msg powf ev chain_id env m (risk, mgr, raised))) = raised \<and>
         fst (snd (handle_match c msg powf ev chain_id env m (risk, mgr, raised))) = mgr"
proof -
  let ?b = "snd (map_level_to_severity (sr_level s))"
  have b: "unat ?b \<le> 90" by (simp add: map_level_to_severity_def)
  have conf: "f64_of (8 / 10) = Fin (rnd64 (8 / 10))" and p: "0 \<le> rnd64 (8 / 10)" "rnd64 (8 / 10) \<le> 1"
    using rnd64_mono [of "8 / 10" 1] rnd64_mono [of 0 "8 / 10"] rnd64_int [of 1] rnd64_int [of 0]
    by (simp_all add: f64_of_def Let_def f64_max_def)
  have "f64_to_u32 (f64_mul (f64_of_u32 ?b) (f64_of (8 / 10))) \<le> ?b"
    unfolding conf by (rule f64_scale_le [OF p])
  then have "unat (ma_risk_score m) \<le> 90"
    using b assms(1-3) by (simp add: calculate_risk_score_def convert_simps word_le_nat_alt min_def)
  then have "unat (min (ma_risk_score m) 1000) \<le> 90"
    by (simp add: min_def word_le_nat_alt)
  then have low: "from_score (min (ma_risk_score m) 1000) (rc_thresholds risk_config_default) = AS_Low"
    by (simp add: from_score_def risk_config_default_def word_le_nat_alt)
  obtain score risk1 where c: "calculate powf (me_score_clock env) (ma_risk_score m) ''Warning'' (Fin 1) (Some chain_id) risk
      = (score, risk1)" by fastforce
  have "score = min (ma_risk_score m) 1000" and "rk_config risk1 = risk_config_default"
    using first_score [OF assms(5), of powf "me_score_clock env" "ma_risk_score m" "''Warning''"] c assms(4)
      calculate_config [of powf "me_score_clock env" "ma_risk_score m" "''Warning''" "Fin 1" "Some chain_id" risk] by simp_all
  with low show ?thesis
    by (simp add: handle_match_def c should_alert_def)
qed

definition sigma_compiled :: "unit compiled_rule" where
  "sigma_compiled = \<lparr> cr_rule = (rule_default 0 0)\<lparr> ru_id := ''sigma-1'', ru_enabled := True, ru_risk :=
       \<lparr> rr_base_score = sk_base_score (sx_risk (convert_sigma_to_sentinel ''u'' ''n'' demo_sigma)),
         rr_confidence = sk_confidence (sx_risk (convert_sigma_to_sentinel ''u'' ''n'' demo_sigma)),
         rr_multipliers = [] \<rparr> \<rparr>,
     cr_main_program = (), cr_and_programs = [], cr_or_programs = [], cr_not_programs = [],
     cr_multiplier_programs = [], cr_suppression_programs = [], cr_compile_time_ms = 0 \<rparr>"

lemma sigma_rule_alone_never_alerts_witness:
  "snd (snd (handle_match alert_codec ''dup'' (\<lambda>_ _. Fin 1) event_default ''chain-1'' demo_env
     \<lparr> ma_rule_id = ''sigma-1'', ma_rule_name = [], ma_severity = Critical,
       ma_risk_score = calculate_risk_score (\<lambda>_ _. Inr (CBool True)) sigma_compiled event_default,
       ma_mitre = [], ma_actions = [], ma_matched_at = 0 \<rparr>
     (risk_engine_new risk_config_default, sv_alerts demo_service, []))) = []"
  by (rule sigma_rule_alone_never_alerts [where cr = sigma_compiled and s = demo_sigma
        and uuid = "''u''" and now = "''n''" and execute = "\<lambda>_ _. Inr (CBool True)" and ev = event_default, THEN conjunct1])
    (simp_all add: sigma_compiled_def risk_engine_new_def)

end
