(* ===== verification/Network.thy ===== *)
theory Network
  imports Sentinel_Prelude "HOL-Library.AList"
begin

text \<open>
  The analysis parts of the network collector (collectors/src/network): the sliding window of
  the scan detector, the connection tracker, the cache of the DNS resolver and the parser of
  the answers of the kernel's socket table.
\<close>

section \<open>Scan detector (scan_detector.rs)\<close>

datatype scan_type =
  VerticalScan string nat
| HorizontalScan u16 nat
| ConnectionStorm u32 nat

record conn_observation =
  co_remote_host :: string
  co_remote_port :: u16
  co_pid :: u32
  co_timestamp :: instant

record scan_detector =
  sc_observations :: "conn_observation list"
  sc_window :: nat
  sc_vertical_threshold :: nat
  sc_horizontal_threshold :: nat
  sc_storm_threshold :: nat

definition scan_detector_new :: "nat \<Rightarrow> scan_detector" where
  "scan_detector_new window = \<lparr> sc_observations = [], sc_window = window, sc_vertical_threshold = 10,
     sc_horizontal_threshold = 20, sc_storm_threshold = 100 \<rparr>"

definition check_vertical_scan :: "scan_detector \<Rightarrow> string \<Rightarrow> scan_type option" where
  "check_vertical_scan d host =
     (let ports = card (co_remote_port ` set (filter (\<lambda>o'. co_remote_host o' = host) (sc_observations d)))
      in if sc_vertical_threshold d \<le> ports then Some (VerticalScan host ports) else None)"

definition check_horizontal_scan :: "scan_detector \<Rightarrow> u16 \<Rightarrow> scan_type option" where
  "check_horizontal_scan d port =
     (let hosts = card (co_remote_host ` set (filter (\<lambda>o'. co_remote_port o' = port) (sc_observations d)))
      in if sc_horizontal_threshold d \<le> hosts then Some (HorizontalScan port hosts) else None)"

definition check_storm :: "scan_detector \<Rightarrow> u32 \<Rightarrow> scan_type option" where
  "check_storm d pid =
     (let n = length (filter (\<lambda>o'. co_pid o' = pid) (sc_observations d))
      in if sc_storm_threshold d \<le> n then Some (ConnectionStorm pid n) else None)"

text \<open>\<open>pop_front\<close> while the oldest observation is older than the window.\<close>

definition scan_record :: "instant \<Rightarrow> string \<Rightarrow> u16 \<Rightarrow> u32 \<Rightarrow> scan_detector \<Rightarrow> scan_type option \<times> scan_detector" where
  "scan_record now host port pid d =
     (let kept = dropWhile (\<lambda>o'. sc_window d < elapsed now (co_timestamp o')) (sc_observations d);
          d' = d\<lparr> sc_observations := kept @ [\<lparr> co_remote_host = host, co_remote_port = port, co_pid = pid,
                                               co_timestamp = now \<rparr>] \<rparr>
      in (case check_vertical_scan d' host of Some s \<Rightarrow> Some s
          | None \<Rightarrow> (case check_horizontal_scan d' port of Some s \<Rightarrow> Some s
          | None \<Rightarrow> check_storm d' pid), d'))"

text \<open>The abstract detector keeps the whole history and looks at the window only.\<close>

definition in_window :: "nat \<Rightarrow> instant \<Rightarrow> conn_observation list \<Rightarrow> conn_observation list" where
  "in_window w now h = filter (\<lambda>o'. elapsed now (co_timestamp o') \<le> w) h"

fun scan_all :: "conn_observation list \<Rightarrow> scan_detector \<Rightarrow> scan_detector" where
  "scan_all [] d = d"
| "scan_all (o' # os) d =
     scan_all os (snd (scan_record (co_timestamp o') (co_remote_host o') (co_remote_port o') (co_pid o') d))"

definition time_ordered :: "conn_observation list \<Rightarrow> bool" where
  "time_ordered h \<longleftrightarrow> sorted (map co_timestamp h)"

lemma dropWhile_window:
  "time_ordered h \<Longrightarrow> dropWhile (\<lambda>o'. w < elapsed now (co_timestamp o')) h = in_window w now h"
proof (induction h)
  case (Cons a h)
  show ?case
  proof (cases "w < elapsed now (co_timestamp a)")
    case True
    with Cons show ?thesis by (simp add: time_ordered_def in_window_def)
  next
    case False
    have "elapsed now (co_timestamp b) \<le> w" if "b \<in> set h" for b
      using that Cons.prems False by (auto simp: time_ordered_def elapsed_def)
    with False show ?thesis by (simp add: in_window_def)
  qed
qed (simp add: in_window_def)

lemma in_window_in_window: "now \<le> now' \<Longrightarrow> in_window w now' (in_window w now h) = in_window w now' h"
  unfolding in_window_def filter_filter
  by (rule filter_cong [OF refl]) (auto dest: elapsed_mono intro: order_trans)

lemma in_window_ordered: "time_ordered h \<Longrightarrow> time_ordered (in_window w now h)"
  by (simp add: time_ordered_def in_window_def sorted_filter)

lemma scan_record_state:
  assumes "time_ordered (sc_observations d)"
  shows "snd (scan_record now host port pid d) = d\<lparr> sc_observations := in_window (sc_window d) now
     (sc_observations d @ [\<lparr> co_remote_host = host, co_remote_port = port, co_pid = pid, co_timestamp = now \<rparr>]) \<rparr>"
  using dropWhile_window [OF assms] by (simp add: scan_record_def Let_def in_window_def)

lemma observation_eta [simp]:
  "\<lparr> co_remote_host = co_remote_host a, co_remote_port = co_remote_port a, co_pid = co_pid a,
     co_timestamp = co_timestamp a \<rparr> = a"
  by simp

lemma scan_detector_new_simps [simp]:
  "sc_observations (scan_detector_new w) = []" "sc_window (scan_detector_new w) = w"
  "sc_vertical_threshold (scan_detector_new w) = 10" "sc_horizontal_threshold (scan_detector_new w) = 20"
  "sc_storm_threshold (scan_detector_new w) = 100"
  by (simp_all add: scan_detector_new_def)

lemma scan_all_history:
  assumes "time_ordered (h @ os)" and "sc_observations d = in_window (sc_window d) t h"
    and "\<And>a. a \<in> set h \<Longrightarrow> co_timestamp a \<le> t" and "\<And>a. a \<in> set os \<Longrightarrow> t \<le> co_timestamp a" and "os \<noteq> []"
  shows "scan_all os d = d\<lparr> sc_observations := in_window (sc_window d) (co_timestamp (last os)) (h @ os) \<rparr>"
  using assms
proof (induction os arbitrary: h d t)
  case (Cons a os)
  let ?d = "snd (scan_record (co_timestamp a) (co_remote_host a) (co_remote_port a) (co_pid a) d)"
  have ord: "time_ordered (sc_observations d)"
    unfolding Cons.prems(2) by (rule in_window_ordered) (use Cons.prems(1) in \<open>simp add: time_ordered_def sorted_append\<close>)
  have "in_window (sc_window d) (co_timestamp a) (in_window (sc_window d) t h @ [a])
      = in_window (sc_window d) (co_timestamp a) (h @ [a])"
    using in_window_in_window [of t "co_timestamp a" "sc_window d" h] Cons.prems(4) [of a] by (simp add: in_window_def)
  then have d: "?d = d\<lparr> sc_observations := in_window (sc_window d) (co_timestamp a) (h @ [a]) \<rparr>"
    using scan_record_state [OF ord] Cons.prems(2) by simp
  show ?case
  proof (cases "os = []")
    case True
    with d show ?thesis by simp
  next
    case False
    have "scan_all os ?d = ?d\<lparr> sc_observations := in_window (sc_window ?d) (co_timestamp (last os)) ((h @ [a]) @ os) \<rparr>"
      by (rule Cons.IH [of "h @ [a]" ?d "co_timestamp a"])
        (use Cons.prems False d in \<open>auto simp: time_ordered_def sorted_append\<close>)
    with False d show ?thesis by simp
  qed
qed simp

text \<open>
  The sliding window is exact.  Fed with connections in the order of time, the detector
  holds exactly those of the last window, and what it reports for the last one is decided by
  the distinct ports to its host, the distinct hosts on its port and the connections of its
  process within the window, in this order, at 10, 20 and 100.
\<close>

theorem scan_detector_exact:
  assumes "time_ordered (h @ [a])"
  shows "let now = co_timestamp a; seen = in_window w now (h @ [a]);
             ports = card (co_remote_port ` set (filter (\<lambda>b. co_remote_host b = co_remote_host a) seen));
             hosts = card (co_remote_host ` set (filter (\<lambda>b. co_remote_port b = co_remote_port a) seen));
             conns = length (filter (\<lambda>b. co_pid b = co_pid a) seen);
             (found, d) = scan_record now (co_remote_host a) (co_remote_port a) (co_pid a)
                            (scan_all h (scan_detector_new w))
         in sc_observations d = seen \<and>
            found = (if 10 \<le> ports then Some (VerticalScan (co_remote_host a) ports)
                     else if 20 \<le> hosts then Some (HorizontalScan (co_remote_port a) hosts)
                     else if 100 \<le> conns then Some (ConnectionStorm (co_pid a) conns) else None)"
proof -
  let ?d = "scan_all h (scan_detector_new w)"
  have ord: "time_ordered h" and last: "\<And>b. b \<in> set h \<Longrightarrow> co_timestamp b \<le> co_timestamp a"
    using assms by (auto simp: time_ordered_def sorted_append)
  have hd: "co_timestamp (hd h) \<le> co_timestamp b" if "b \<in> set h" for b
    using that ord by (cases h) (auto simp: time_ordered_def)
  have d: "?d = (scan_detector_new w)\<lparr> sc_observations := in_window w (co_timestamp (last h)) h \<rparr>" if "h \<noteq> []"
    using scan_all_history [of "[]" h "scan_detector_new w" "co_timestamp (hd h)"] that ord hd
    by (simp add: in_window_def)
  have fields: "sc_window ?d = w" "sc_vertical_threshold ?d = 10" "sc_horizontal_threshold ?d = 20"
    "sc_storm_threshold ?d = 100"
    using d by (cases "h = []"; simp)+
  have o1: "time_ordered (sc_observations ?d)"
    using d in_window_ordered [OF ord] by (cases "h = []") (simp_all add: time_ordered_def)
  have "in_window w (co_timestamp a) (sc_observations ?d) = in_window w (co_timestamp a) h"
    using d in_window_in_window [of "co_timestamp (last h)" "co_timestamp a" w h] last
    by (cases "h = []") simp_all
  then have "in_window w (co_timestamp a) (sc_observations ?d @ [a]) = in_window w (co_timestamp a) (h @ [a])"
    by (simp add: in_window_def)
  then have s: "snd (scan_record (co_timestamp a) (co_remote_host a) (co_remote_port a) (co_pid a) ?d)
      = ?d\<lparr> sc_observations := in_window w (co_timestamp a) (h @ [a]) \<rparr>"
    using scan_record_state [OF o1] fields by simp
  have f: "fst (scan_record (co_timestamp a) (co_remote_host a) (co_remote_port a) (co_pid a) d) =
      (let d' = snd (scan_record (co_timestamp a) (co_remote_host a) (co_remote_port a) (co_pid a) d) in
       case check_vertical_scan d' (co_remote_host a) of Some s \<Rightarrow> Some s
          | None \<Rightarrow> (case check_horizontal_scan d' (co_remote_port a) of Some s \<Rightarrow> Some s
          | None \<Rightarrow> check_storm d' (co_pid a)))" for d
    by (simp add: scan_record_def Let_def)
  show ?thesis
    unfolding Let_def case_prod_beta f s
    by (simp add: check_vertical_scan_def check_horizontal_scan_def check_storm_def Let_def fields)
qed

text \<open>The module documentation asks for more than ten ports; ten are enough.\<close>

definition probe :: "nat \<Rightarrow> conn_observation" where
  "probe n = \<lparr> co_remote_host = ''h'', co_remote_port = of_nat n, co_pid = 1, co_timestamp = int n \<rparr>"

lemma scan_detector_exact_witness:
  "fst (scan_record (co_timestamp (probe 9)) (co_remote_host (probe 9)) (co_remote_port (probe 9)) (co_pid (probe 9))
     (scan_all (map probe [0..<9]) (scan_detector_new 30))) = Some (VerticalScan ''h'' 10)"
proof -
  have ord: "time_ordered (map probe [0..<9] @ [probe 9])"
    by code_simp
  have ports: "card (co_remote_port ` set (filter (\<lambda>b. co_remote_host b = co_remote_host (probe 9))
      (in_window 30 (co_timestamp (probe 9)) (map probe [0..<9] @ [probe 9])))) = 10"
    by code_simp
  have host: "co_remote_host (probe 9) = ''h''" by (simp add: probe_def)
  have "10 \<le> (10::nat)" by simp
  note exact = scan_detector_exact [OF ord, of 30, unfolded Let_def case_prod_beta ports, THEN conjunct2]
  show ?thesis
    by (subst exact, subst if_P [OF \<open>10 \<le> (10::nat)\<close>], simp only: host)
qed

section \<open>Connection tracker (conn_tracker.rs)\<close>

datatype protocol = Tcp | Udp

record connection_key =
  ck_local_addr :: string
  ck_local_port :: u16
  ck_remote_addr :: string
  ck_remote_port :: u16
  ck_protocol :: protocol

text \<open>The arrow is the three bytes of its UTF-8 code.\<close>

definition connection_arrow :: string where
  "connection_arrow = [CHR 0x20, CHR 0xE2, CHR 0x86, CHR 0x92, CHR 0x20]"

definition connection_display :: "connection_key \<Rightarrow> string" where
  "connection_display k = ck_local_addr k @ '':'' @ show_word (ck_local_port k) @ connection_arrow @ ck_remote_addr k
     @ '':'' @ show_word (ck_remote_port k) @ '' ('' @ (if ck_protocol k = Tcp then ''tcp'' else ''udp'') @ '')''"

record connection_meta =
  cm_pid :: u32
  cm_process_name :: string
  cm_uid :: u32
  cm_inode :: u64

record conn_state =
  es_first_seen :: instant
  es_tx_bytes :: u64
  es_rx_bytes :: u64
  es_meta :: connection_meta

datatype connection_event =
  New connection_key connection_meta
| Close connection_key nat connection_meta

text \<open>The table is a list of entries with distinct keys, in the order the map would be walked.\<close>

type_synonym conn_tracker = "(connection_key \<times> conn_state) list"

definition conn_tracker_new :: conn_tracker where
  "conn_tracker_new = []"

definition close_events :: "instant \<Rightarrow> connection_key set \<Rightarrow> conn_tracker \<Rightarrow> connection_event list" where
  "close_events now current t =
     map (\<lambda>(k, s). Close k (elapsed now (es_first_seen s)) (es_meta s)) (filter (\<lambda>(k, s). k \<notin> current) t)"

fun add_new :: "instant \<Rightarrow> (connection_key \<times> connection_meta) list \<Rightarrow> conn_tracker \<Rightarrow> connection_event list \<times> conn_tracker" where
  "add_new now [] t = ([], t)"
| "add_new now ((k, m) # cs) t =
     (if k \<in> fst ` set t then add_new now cs t
      else case add_new now cs (t @ [(k, \<lparr> es_first_seen = now, es_tx_bytes = 0, es_rx_bytes = 0, es_meta = m \<rparr>)]) of
        (es, t') \<Rightarrow> (New k m # es, t'))"

definition conn_update ::
    "instant \<Rightarrow> (connection_key \<times> connection_meta) list \<Rightarrow> conn_tracker \<Rightarrow> connection_event list \<times> conn_tracker" where
  "conn_update now current t =
     (let keys = fst ` set current;
          closed = close_events now keys t;
          (opened, t') = add_new now current (filter (\<lambda>(k, s). k \<in> keys) t)
      in (closed @ opened, t'))"

definition active_count :: "conn_tracker \<Rightarrow> nat" where
  "active_count t = length t"

text \<open>The events of one connection as a sequence of openings (\<open>True\<close>) and closings.\<close>

fun event_key :: "connection_event \<Rightarrow> connection_key" where
  "event_key (New k m) = k"
| "event_key (Close k d m) = k"

fun is_new :: "connection_event \<Rightarrow> bool" where
  "is_new (New k m) = True"
| "is_new (Close k d m) = False"

definition life :: "connection_key \<Rightarrow> connection_event list \<Rightarrow> bool list" where
  "life k es = map is_new (filter (\<lambda>e. event_key e = k) es)"

text \<open>\<open>alternates b bs\<close>: from open (\<open>b\<close>) or closed, every event changes the state.\<close>

fun alternates :: "bool \<Rightarrow> bool list \<Rightarrow> bool" where
  "alternates b [] = True"
| "alternates b (x # xs) = (x \<noteq> b \<and> alternates x xs)"

definition final_state :: "bool \<Rightarrow> bool list \<Rightarrow> bool" where
  "final_state b xs = (if xs = [] then b else last xs)"

lemma alternates_append: "alternates b (xs @ ys) \<longleftrightarrow> alternates b xs \<and> alternates (final_state b xs) ys"
  by (induction b xs rule: alternates.induct) (auto simp: final_state_def)

lemma final_state_append: "final_state b (xs @ ys) = final_state (final_state b xs) ys"
  by (simp add: final_state_def)

lemma life_append: "life k (xs @ ys) = life k xs @ life k ys"
  by (simp add: life_def)

lemma add_new_keys:
  "distinct (map fst t) \<Longrightarrow> add_new now cs t = (es, t') \<Longrightarrow>
     distinct (map fst t') \<and> fst ` set t' = fst ` set t \<union> fst ` set cs
     \<and> life k es = (if k \<in> fst ` set cs - fst ` set t then [True] else [])"
proof (induction now cs t arbitrary: es t' rule: add_new.induct)
  case (2 now k' m cs t)
  show ?case
  proof (cases "k' \<in> fst ` set t")
    case True
    with 2 show ?thesis by auto
  next
    case False
    let ?t = "t @ [(k', \<lparr> es_first_seen = now, es_tx_bytes = 0, es_rx_bytes = 0, es_meta = m \<rparr>)]"
    obtain es1 where es1: "add_new now cs ?t = (es1, t')" "es = New k' m # es1"
      using 2(4) False by (auto split: prod.splits)
    have "distinct (map fst ?t)" using 2(3) False by auto
    note ih = 2(2) [OF False this es1(1)]
    have keys: "fst ` set ?t = insert k' (fst ` set t)" by auto
    have "life k es = (if k = k' then [True] else []) @ life k es1" by (simp add: es1(2) life_def)
    with ih False show ?thesis
      unfolding keys by (cases "k = k'") auto
  qed
qed (simp add: life_def)

lemma life_close:
  "distinct (map fst t) \<Longrightarrow> life k (close_events now keys t) = (if k \<in> fst ` set t - keys then [False] else [])"
proof (induction t)
  case (Cons a t)
  obtain k' s where a: "a = (k', s)" by (cases a)
  have "k' \<notin> fst ` set t" using Cons.prems a by auto
  then have "k = k' \<Longrightarrow> life k (close_events now keys t) = []"
    using Cons by auto
  with Cons a show ?case by (auto simp: close_events_def life_def)
qed (simp add: close_events_def life_def)

lemma kept_keys: "fst ` set (filter (\<lambda>(k, s). k \<in> K) t) = fst ` set t \<inter> K"
  by (induction t) auto

lemma conn_update_step:
  assumes "distinct (map fst t)" and "conn_update now current t = (es, t')"
  shows "distinct (map fst t') \<and> fst ` set t' = fst ` set current
    \<and> alternates (k \<in> fst ` set t) (life k es) \<and> final_state (k \<in> fst ` set t) (life k es) = (k \<in> fst ` set t')"
proof -
  let ?keys = "fst ` set current" and ?kept = "filter (\<lambda>(k, s). k \<in> fst ` set current) t"
  obtain opened where o': "add_new now current ?kept = (opened, t')" and es: "es = close_events now ?keys t @ opened"
    using assms(2) by (auto simp: conn_update_def Let_def split: prod.splits)
  have d: "distinct (map fst ?kept)"
    using assms(1) by (simp add: distinct_map_filter)
  have kept: "fst ` set ?kept = fst ` set t \<inter> ?keys"
    by (rule kept_keys)
  from add_new_keys [OF d o', of k] life_close [OF assms(1), of k now ?keys] show ?thesis
    unfolding es life_append kept by (auto simp: final_state_def)
qed

fun conn_run :: "(instant \<times> (connection_key \<times> connection_meta) list) list \<Rightarrow> conn_tracker \<Rightarrow> connection_event list \<times> conn_tracker" where
  "conn_run [] t = ([], t)"
| "conn_run ((now, current) # polls) t =
     (case conn_update now current t of (es, t') \<Rightarrow> case conn_run polls t' of (es', t'') \<Rightarrow> (es @ es', t''))"

lemma conn_run_life:
  "distinct (map fst t) \<Longrightarrow> conn_run polls t = (es, t') \<Longrightarrow>
     distinct (map fst t') \<and> alternates (k \<in> fst ` set t) (life k es)
     \<and> final_state (k \<in> fst ` set t) (life k es) = (k \<in> fst ` set t')"
proof (induction polls arbitrary: t es)
  case Nil
  then show ?case by (simp add: life_def final_state_def)
next
  case (Cons p polls)
  obtain now current where p: "p = (now, current)" by (cases p)
  obtain es1 t1 es2 where u: "conn_update now current t = (es1, t1)" and r: "conn_run polls t1 = (es2, t')"
    and es: "es = es1 @ es2"
    using Cons.prems(2) p by (auto split: prod.splits)
  from conn_update_step [OF Cons.prems(1) u, of k] have s: "distinct (map fst t1)"
    "alternates (k \<in> fst ` set t) (life k es1)" "final_state (k \<in> fst ` set t) (life k es1) = (k \<in> fst ` set t1)" by simp_all
  from Cons.IH [OF s(1) r] s show ?case
    by (simp add: es life_append alternates_append final_state_append)
qed

text \<open>
  C14: The life of every connection is told completely and in order.  Over any sequence of polls
  the events of a connection alternate, beginning with its opening; it is in the table exactly
  when its last event is an opening; and after a poll the table holds exactly the connections
  of that poll, each once.
\<close>

theorem connection_lifecycle:
  assumes "conn_run (polls @ [(now, current)]) conn_tracker_new = (es, t)"
  shows "alternates False (life k es) \<and> (k \<in> fst ` set t \<longleftrightarrow> life k es \<noteq> [] \<and> last (life k es)) \<and>
    fst ` set t = fst ` set current \<and> active_count t = card (fst ` set current)"
proof -
  have snoc: "\<exists>t1 es1 es2. conn_run polls u = (es1, t1) \<and> conn_update now current t1 = (es2, t)"
    if "conn_run (polls @ [(now, current)]) u = (es, t)" for u polls es
    using that by (induction polls arbitrary: u es) (fastforce split: prod.splits)+
  have l: "distinct (map fst t)" "alternates False (life k es)" "final_state False (life k es) = (k \<in> fst ` set t)"
    using conn_run_life [OF _ assms, of k] by (simp_all add: conn_tracker_new_def)
  from snoc [OF assms] obtain t1 es1 es2 where r: "conn_run polls conn_tracker_new = (es1, t1)"
    and u: "conn_update now current t1 = (es2, t)" by blast
  have "distinct (map fst t1)"
    using conn_run_life [OF _ r] by (simp add: conn_tracker_new_def)
  from conn_update_step [OF this u] have keys: "fst ` set t = fst ` set current" by simp
  have "active_count t = card (fst ` set t)"
    using distinct_card [OF l(1)] by (simp add: active_count_def)
  with keys l show ?thesis by (auto simp: final_state_def split: if_splits)
qed

definition probe_key :: connection_key where
  "probe_key = \<lparr> ck_local_addr = ''l'', ck_local_port = 1, ck_remote_addr = ''h'', ck_remote_port = 2, ck_protocol = Tcp \<rparr>"

definition probe_meta :: connection_meta where
  "probe_meta = \<lparr> cm_pid = 1, cm_process_name = ''p'', cm_uid = 0, cm_inode = 7 \<rparr>"

lemma connection_lifecycle_witness:
  "alternates False (life probe_key [New probe_key probe_meta, Close probe_key 5 probe_meta])
   \<and> life probe_key [New probe_key probe_meta, Close probe_key 5 probe_meta] = [True, False]"
proof -
  have "conn_run ([(0, [(probe_key, probe_meta)])] @ [(5, [])]) conn_tracker_new
      = ([New probe_key probe_meta, Close probe_key 5 probe_meta], [])"
    by code_simp
  from connection_lifecycle [OF this, of probe_key] show ?thesis
    by (simp add: life_def)
qed

end
