(* ===== verification/Net_Monitor.thy ===== *)
theory Net_Monitor
  imports Network Events Health
begin

text \<open>
  The rest of the network collector (collectors/src/network): the cache of the DNS resolver
  (dns_resolver.rs), the readers of /proc/net and of /proc (mod.rs), the parser of the answers
  of the kernel's socket table (sock_diag.rs), and the events made from the connections that
  the tracker opens and closes (mod.rs).
\<close>

section \<open>The DNS cache (dns_resolver.rs)\<close>

record dns_entry =
  dn_hostname :: string
  dn_resolved_at :: instant

record dns_resolver =
  dn_cache :: "(string \<times> dns_entry) list"
  dn_ttl :: nat

definition dns_resolver_new :: "nat \<Rightarrow> dns_resolver" where
  "dns_resolver_new ttl = \<lparr> dn_cache = [], dn_ttl = ttl \<rparr>"

definition private_prefixes :: "string list" where
  "private_prefixes = [''10.'', ''192.168.'', ''172.16.'', ''172.17.'', ''172.18.'', ''172.19.'', ''172.20.'',
     ''172.21.'', ''172.22.'', ''172.23.'', ''172.24.'', ''172.25.'', ''172.26.'', ''172.27.'', ''172.28.'',
     ''172.29.'', ''172.30.'', ''172.31.'', ''127.'', ''169.254.'', ''fe80:'', ''fc'', ''fd'']"

definition is_private_ip :: "string \<Rightarrow> bool" where
  "is_private_ip ip \<longleftrightarrow> ip \<in> {''0.0.0.0'', ''127.0.0.1'', ''::1''} \<or> list_ex (starts_with ip) private_prefixes"

text \<open>
  A lookup at \<open>now\<close>.  \<open>answer\<close> is what the system resolver says if it is asked (\<open>None\<close> when it
  has no name or the blocking task fails), and \<open>done\<close> the time when it has said so.  The first
  component tells whether it was asked.
\<close>

definition reverse_lookup ::
    "instant \<Rightarrow> instant \<Rightarrow> string option \<Rightarrow> string \<Rightarrow> dns_resolver \<Rightarrow> bool \<times> string \<times> dns_resolver" where
  "reverse_lookup now done answer ip r =
     (if is_private_ip ip then (False, ip, r)
      else
        let ask = (let h = (case answer of Some h \<Rightarrow> h | None \<Rightarrow> ip) in
              (True, h, r\<lparr> dn_cache := AList.update ip \<lparr> dn_hostname = h, dn_resolved_at = done \<rparr> (dn_cache r) \<rparr>))
        in case map_of (dn_cache r) ip of
             Some e \<Rightarrow> if elapsed now (dn_resolved_at e) < dn_ttl r then (False, dn_hostname e, r) else ask
           | None \<Rightarrow> ask)"

definition dns_prune :: "instant \<Rightarrow> dns_resolver \<Rightarrow> dns_resolver" where
  "dns_prune now r = r\<lparr> dn_cache := filter (\<lambda>(ip, e). elapsed now (dn_resolved_at e) < dn_ttl r) (dn_cache r) \<rparr>"

definition cache_size :: "dns_resolver \<Rightarrow> nat" where
  "cache_size r = length (dn_cache r)"

text \<open>A run of lookups and prunings; the log has every question put to the system resolver with
  the times when it was put and answered, and all answers given to the callers.\<close>

datatype dns_op =
  DnsLookup instant instant string "string option"
| DnsPrune instant

fun op_start :: "dns_op \<Rightarrow> instant" where
  "op_start (DnsLookup now dn ip answer) = now"
| "op_start (DnsPrune now) = now"

fun op_end :: "dns_op \<Rightarrow> instant" where
  "op_end (DnsLookup now dn ip answer) = dn"
| "op_end (DnsPrune now) = now"

fun dns_step :: "dns_op \<Rightarrow> (string \<times> instant \<times> instant) list \<times> dns_resolver \<Rightarrow> (string \<times> instant \<times> instant) list \<times> dns_resolver" where
  "dns_step (DnsLookup now dn ip answer) (asked, r) =
     (case reverse_lookup now dn answer ip r of (q, h, r') \<Rightarrow> (if q then asked @ [(ip, now, dn)] else asked, r'))"
| "dns_step (DnsPrune now) (asked, r) = (asked, dns_prune now r)"

text \<open>The operations of one resolver follow each other.\<close>

fun in_sequence :: "instant \<Rightarrow> dns_op list \<Rightarrow> bool" where
  "in_sequence t [] = True"
| "in_sequence t (x # xs) = (t \<le> op_start x \<and> op_start x \<le> op_end x \<and> in_sequence (op_end x) xs)"

text \<open>At time \<open>t\<close>: every question asked is old or its answer is still in the cache.\<close>

definition dns_inv :: "instant \<Rightarrow> (string \<times> instant \<times> instant) list \<times> dns_resolver \<Rightarrow> bool" where
  "dns_inv t s \<longleftrightarrow> (\<forall>(ip, st, dn) \<in> set (fst s). dn \<le> t \<and> \<not> is_private_ip ip \<and>
     (dn_ttl (snd s) \<le> elapsed t dn \<or> (\<exists>e. map_of (dn_cache (snd s)) ip = Some e \<and> dn \<le> dn_resolved_at e)))"

definition far_apart :: "nat \<Rightarrow> (string \<times> instant \<times> instant) list \<Rightarrow> bool" where
  "far_apart ttl asked \<longleftrightarrow>
     sorted_wrt (\<lambda>(ip, st, dn) (ip', st', dn'). ip = ip' \<longrightarrow> ttl \<le> elapsed st' dn) asked"

lemma elapsed_antimono: "t \<le> t' \<Longrightarrow> elapsed now t' \<le> elapsed now t"
  by (simp add: elapsed_def)

lemma reverse_lookup_cases:
  obtains (quiet) h where "reverse_lookup now dn answer ip r = (False, h, r)"
  | (asked) h where "reverse_lookup now dn answer ip r = (True, h,
      r\<lparr> dn_cache := AList.update ip \<lparr> dn_hostname = h, dn_resolved_at = dn \<rparr> (dn_cache r) \<rparr>)"
    and "\<not> is_private_ip ip"
    and "\<And>e. map_of (dn_cache r) ip = Some e \<Longrightarrow> dn_ttl r \<le> elapsed now (dn_resolved_at e)"
proof (cases "is_private_ip ip \<or> (\<exists>e. map_of (dn_cache r) ip = Some e \<and> elapsed now (dn_resolved_at e) < dn_ttl r)")
  case True
  then have "\<exists>h. reverse_lookup now dn answer ip r = (False, h, r)"
    by (auto simp: reverse_lookup_def)
  then show thesis using quiet by blast
next
  case False
  then have "reverse_lookup now dn answer ip r = (True, case answer of Some h \<Rightarrow> h | None \<Rightarrow> ip,
      r\<lparr> dn_cache := AList.update ip \<lparr> dn_hostname = (case answer of Some h \<Rightarrow> h | None \<Rightarrow> ip),
        dn_resolved_at = dn \<rparr> (dn_cache r) \<rparr>)"
    by (auto simp: reverse_lookup_def Let_def split: option.split)
  then show thesis using asked False not_less by blast
qed

lemma dns_inv_mono: "dns_inv t s \<Longrightarrow> t \<le> t' \<Longrightarrow> dns_inv t' s"
  unfolding dns_inv_def by (fastforce intro: order_trans elapsed_mono)

lemma map_of_filter_fresh:
  "map_of xs k = Some e \<Longrightarrow> P k e \<Longrightarrow> map_of (filter (\<lambda>(k, e). P k e) xs) k = Some e"
  by (induction xs) (auto split: if_splits)

text \<open>Pruning drops only entries whose time to live has passed.\<close>

lemma dns_prune_keeps:
  assumes "dn_ttl r \<le> elapsed now dn \<or> (\<exists>e. map_of (dn_cache r) ip = Some e \<and> dn \<le> dn_resolved_at e)"
  shows "dn_ttl r \<le> elapsed now dn \<or> (\<exists>e. map_of (dn_cache (dns_prune now r)) ip = Some e \<and> dn \<le> dn_resolved_at e)"
proof (cases "dn_ttl r \<le> elapsed now dn")
  case False
  with assms obtain e where e: "map_of (dn_cache r) ip = Some e" "dn \<le> dn_resolved_at e" by blast
  from elapsed_antimono [OF e(2), of now] False
  have "elapsed now (dn_resolved_at e) < dn_ttl r" by simp
  with map_of_filter_fresh [OF e(1), of "\<lambda>ip e. elapsed now (dn_resolved_at e) < dn_ttl r"] e(2)
  show ?thesis by (simp add: dns_prune_def)
qed simp

lemma dns_prune_ttl: "dn_ttl (dns_prune now r) = dn_ttl r"
  by (simp add: dns_prune_def)

lemma dns_step_ttl: "dn_ttl (snd (dns_step x s)) = dn_ttl (snd s)"
proof (cases x)
  case (DnsLookup now dn ip answer)
  then show ?thesis
    by (cases s) (rule reverse_lookup_cases [of now dn answer ip "snd s"]; simp)
next
  case (DnsPrune now)
  then show ?thesis by (cases s) (simp add: dns_prune_def)
qed

lemma dns_step_inv:
  assumes inv: "dns_inv t s" and far: "far_apart (dn_ttl (snd s)) (fst s)"
    and "t \<le> op_start x" and "op_start x \<le> op_end x"
  shows "dns_inv (op_end x) (dns_step x s) \<and> far_apart (dn_ttl (snd s)) (fst (dns_step x s))"
proof (cases x)
  case (DnsPrune now)
  have "dns_inv now s" using inv assms(3) DnsPrune by (simp add: dns_inv_mono)
  then have "dns_inv now (fst s, dns_prune now (snd s))"
    using dns_prune_keeps [of "snd s" now] dns_prune_ttl [of now "snd s"]
    unfolding dns_inv_def by (simp add: case_prod_beta)
  with far DnsPrune show ?thesis by (cases s) simp
next
  case (DnsLookup now dn ip answer)
  obtain asked r where s: "s = (asked, r)" by (cases s)
  have now: "t \<le> now" "now \<le> dn" using assms(3, 4) DnsLookup by simp_all
  have i0: "dns_inv now s" by (rule dns_inv_mono [OF inv now(1)])
  show ?thesis
  proof (cases rule: reverse_lookup_cases [of now dn answer ip r])
    case (quiet h)
    with DnsLookup s far dns_inv_mono [OF i0 now(2)] show ?thesis by simp
  next
    case (asked h)
    have old: "dn_ttl r \<le> elapsed now d" if "(ip, st, d) \<in> set (fst s)" for st d
    proof -
      from i0 that have "dn_ttl r \<le> elapsed now d \<or> (\<exists>e. map_of (dn_cache r) ip = Some e \<and> d \<le> dn_resolved_at e)"
        unfolding dns_inv_def s by fastforce
      then show ?thesis
        using asked(3) elapsed_antimono order_trans by blast
    qed
    have "far_apart (dn_ttl r) (fst s @ [(ip, now, dn)])"
      using far old unfolding far_apart_def s by (auto simp: sorted_wrt_append)
    moreover have "dns_inv dn (fst s @ [(ip, now, dn)],
        r\<lparr> dn_cache := AList.update ip \<lparr> dn_hostname = h, dn_resolved_at = dn \<rparr> (dn_cache r) \<rparr>)"
      using dns_inv_mono [OF i0 now(2)] asked(2) unfolding dns_inv_def s
      by (fastforce simp: update_conv' split: if_splits)
    ultimately show ?thesis using DnsLookup s asked(1) by simp
  qed
qed

lemma dns_run_inv:
  "in_sequence t xs \<Longrightarrow> dns_inv t s \<Longrightarrow> far_apart (dn_ttl (snd s)) (fst s) \<Longrightarrow>
     far_apart (dn_ttl (snd s)) (fst (fold dns_step xs s)) \<and> (\<exists>t'. dns_inv t' (fold dns_step xs s))"
proof (induction xs arbitrary: t s)
  case (Cons x xs)
  from dns_step_inv [OF Cons.prems(2, 3), of x] Cons.prems(1)
  have "dns_inv (op_end x) (dns_step x s)" "far_apart (dn_ttl (snd (dns_step x s))) (fst (dns_step x s))"
    by (simp_all add: dns_step_ttl)
  from Cons.IH [OF _ this] Cons.prems(1) show ?case by (simp add: dns_step_ttl)
qed auto

text \<open>
  The DNS cache keeps its promise.  Over any sequence of lookups and prunings the system
  resolver is never asked for a private address, and it is asked again for an address only when
  the time to live has passed since its last answer for it.
\<close>

theorem dns_queries_limited:
  assumes "in_sequence t ops" and "fold dns_step ops ([], dns_resolver_new ttl) = (asked, r)"
  shows "far_apart ttl asked \<and> list_all (\<lambda>(ip, st, dn). \<not> is_private_ip ip) asked"
proof -
  have "far_apart ttl asked \<and> (\<exists>t'. dns_inv t' (asked, r))"
    using dns_run_inv [OF assms(1), of "([], dns_resolver_new ttl)"] assms(2)
    by (simp add: dns_inv_def far_apart_def dns_resolver_new_def)
  then show ?thesis by (auto simp: dns_inv_def list_all_iff)
qed

lemma dns_queries_limited_witness:
  "far_apart 10 [(''8.8.8.8'', 0, 1), (''8.8.8.8'', 20, 21)]
   \<and> list_all (\<lambda>(ip, st :: instant, dn :: instant). \<not> is_private_ip ip) [(''8.8.8.8'', 0, 1), (''8.8.8.8'', 20, 21)]"
proof -
  let ?ops = "[DnsLookup 0 1 ''8.8.8.8'' (Some ''dns''), DnsLookup 2 3 ''10.0.0.1'' None,
    DnsLookup 4 5 ''8.8.8.8'' (Some ''dns''), DnsLookup 20 21 ''8.8.8.8'' None]"
  have s: "in_sequence 0 ?ops" by simp
  have "fst (fold dns_step ?ops ([], dns_resolver_new 10)) = [(''8.8.8.8'', 0, 1), (''8.8.8.8'', 20, 21)]"
    by code_simp
  then obtain r where "fold dns_step ?ops ([], dns_resolver_new 10) = ([(''8.8.8.8'', 0, 1), (''8.8.8.8'', 20, 21)], r)"
    by (metis prod.collapse)
  from dns_queries_limited [OF s this] show ?thesis .
qed

section \<open>Reading /proc/net (mod.rs)\<close>

text \<open>\<open>from_str_radix(_, 16)\<close> of an unsigned type with \<open>limit\<close> values.\<close>

definition hex_digit :: "char \<Rightarrow> nat option" where
  "hex_digit c = (let n = of_char c :: nat in
     if 48 \<le> n \<and> n \<le> 57 then Some (n - 48)
     else if 65 \<le> n \<and> n \<le> 70 then Some (n - 55)
     else if 97 \<le> n \<and> n \<le> 102 then Some (n - 87) else None)"

fun hex_value :: "nat \<Rightarrow> string \<Rightarrow> nat option" where
  "hex_value acc [] = Some acc"
| "hex_value acc (c # cs) = (case hex_digit c of None \<Rightarrow> None | Some d \<Rightarrow> hex_value (acc * 16 + d) cs)"

definition parse_hex :: "nat \<Rightarrow> string \<Rightarrow> nat option" where
  "parse_hex limit s =
     (let ds = (case s of [] \<Rightarrow> [] | c # cs \<Rightarrow> if c = CHR ''+'' then cs else s)
      in if ds = [] then None
         else case hex_value 0 ds of None \<Rightarrow> None | Some n \<Rightarrow> if n < limit then Some n else None)"

definition parse_hex_u8 :: "string \<Rightarrow> u8 option" where
  "parse_hex_u8 s = map_option of_nat (parse_hex 256 s)"

text \<open>One digit, \<open>{:02x}\<close> and \<open>{:02X}\<close>.\<close>

definition lower_digit :: "nat \<Rightarrow> char" where
  "lower_digit d = (if d < 10 then char_of (48 + d) else char_of (87 + d))"

definition upper_digit :: "nat \<Rightarrow> char" where
  "upper_digit d = (if d < 10 then char_of (48 + d) else char_of (55 + d))"

definition lower_hex2 :: "u8 \<Rightarrow> string" where
  "lower_hex2 w = [lower_digit (unat w div 16), lower_digit (unat w mod 16)]"

definition upper_hex2 :: "u8 \<Rightarrow> string" where
  "upper_hex2 w = [upper_digit (unat w div 16), upper_digit (unat w mod 16)]"

definition slice :: "nat \<Rightarrow> nat \<Rightarrow> 'a list \<Rightarrow> 'a list" where
  "slice i j s = take (j - i) (drop i s)"

definition dotted :: "u8 \<Rightarrow> u8 \<Rightarrow> u8 \<Rightarrow> u8 \<Rightarrow> string" where
  "dotted a b c d = show_word a @ ''.'' @ show_word b @ ''.'' @ show_word c @ ''.'' @ show_word d"

definition parse_hex_v4 :: "string \<Rightarrow> string option" where
  "parse_hex_v4 s = (case map (\<lambda>i. parse_hex_u8 (slice (i * 2) (i * 2 + 2) s)) [0, 1, 2, 3] of
     [Some b3, Some b2, Some b1, Some b0] \<Rightarrow> Some (dotted b0 b1 b2 b3) | _ \<Rightarrow> None)"

definition parse_hex_group :: "string \<Rightarrow> nat \<Rightarrow> string option" where
  "parse_hex_group s i =
     (case parse_hex_u8 (slice (i * 4) (i * 4 + 2) s) of None \<Rightarrow> None
      | Some hi \<Rightarrow> (case parse_hex_u8 (slice (i * 4 + 2) (i * 4 + 4) s) of None \<Rightarrow> None
      | Some lo \<Rightarrow> Some (lower_hex2 hi @ lower_hex2 lo)))"

definition parse_hex_v6 :: "string \<Rightarrow> string option" where
  "parse_hex_v6 s = (let groups = map (parse_hex_group s) [0, 1, 2, 3, 4, 5, 6, 7] in
     if None \<in> set groups then None else Some (str_join '':'' (map the groups)))"

definition parse_ip_port :: "string \<Rightarrow> (string \<times> u16) option" where
  "parse_ip_port hex = (case str_split (\<lambda>c. c = CHR '':'') hex of
     [host, port] \<Rightarrow>
       (let ip = (if length host = 8 then parse_hex_v4 host
                  else if length host = 32 then parse_hex_v6 host else None)
        in case ip of None \<Rightarrow> None
           | Some a \<Rightarrow> map_option (\<lambda>p. (a, of_nat p)) (parse_hex (2 ^ 16) port))
   | _ \<Rightarrow> None)"

record raw_conn =
  rw_local_addr :: string
  rw_local_port :: u16
  rw_remote_addr :: string
  rw_remote_port :: u16
  rw_protocol :: protocol
  rw_inode :: u64
  rw_uid :: u32

text \<open>\<open>str::lines\<close>: no last empty line, and a carriage return before the line end is dropped.\<close>

definition str_lines :: "string \<Rightarrow> string list" where
  "str_lines s =
     (let ls = str_split (\<lambda>c. c = CHR 0x0A) s;
          ls' = (if last ls = [] then butlast ls else ls)
      in map (\<lambda>l. if ends_with l [CHR 0x0D] then butlast l else l) ls')"

definition parse_proc_line :: "protocol \<Rightarrow> string \<Rightarrow> raw_conn option" where
  "parse_proc_line proto line =
     (let fs = split_whitespace line in
      if length fs < 10 then None
      else case (parse_ip_port (fs ! 1), parse_ip_port (fs ! 2)) of
        (Some (la, lp), Some (ra, rp)) \<Rightarrow>
          Some \<lparr> rw_local_addr = la, rw_local_port = lp, rw_remote_addr = ra, rw_remote_port = rp,
                 rw_protocol = proto,
                 rw_inode = (case parse_u64 (fs ! 9) of Some i \<Rightarrow> i | None \<Rightarrow> 0),
                 rw_uid = (case parse_u32 (fs ! 7) of Some u \<Rightarrow> u | None \<Rightarrow> 0) \<rparr>
      | _ \<Rightarrow> None)"

text \<open>\<open>None\<close> is a file that cannot be read; the first line is the header.\<close>

definition parse_proc_net :: "protocol \<Rightarrow> string option \<Rightarrow> raw_conn list" where
  "parse_proc_net proto content = (case content of None \<Rightarrow> []
     | Some text \<Rightarrow> List.map_filter (parse_proc_line proto) (drop 1 (str_lines text)))"

text \<open>
  How the kernel prints an address on a little-endian machine: the 32-bit word that holds the
  bytes \<open>a.b.c.d\<close> in network order as \<open>%08X\<close>, the port in host order as \<open>%04X\<close>.
\<close>

definition proc_net_v4 :: "u8 \<Rightarrow> u8 \<Rightarrow> u8 \<Rightarrow> u8 \<Rightarrow> u16 \<Rightarrow> string" where
  "proc_net_v4 a b c d port = upper_hex2 d @ upper_hex2 c @ upper_hex2 b @ upper_hex2 a @ '':''
     @ upper_hex2 (of_nat (unat port div 256)) @ upper_hex2 (of_nat (unat port mod 256))"

lemma below_sixteen: "d < 16 \<longleftrightarrow> d \<in> {0, 1, 2, 3, 4, 5, 6, 7, 8, 9, 10, 11, 12, 13, 14, 15 :: nat}"
  by (auto, presburger)

lemma hex_digit_upper: "d < 16 \<Longrightarrow> hex_digit (upper_digit d) = Some d"
  unfolding below_sixteen by (auto simp: hex_digit_def upper_digit_def)

lemma upper_digit_plain: "d < 16 \<Longrightarrow> upper_digit d \<noteq> CHR '':'' \<and> upper_digit d \<noteq> CHR ''+''"
  unfolding below_sixteen
  by (auto simp: upper_digit_def dest!: arg_cong [where f = "of_char :: char \<Rightarrow> nat"])

lemma unat_u8_digits: "unat w div 16 < 16" "unat w mod 16 < 16" for w :: u8
  using unsigned_less [of w, where ?'a = nat] by (simp_all add: div_less_iff_less_mult)

lemma upper_hex2_plain: "x \<in> set (upper_hex2 w) \<Longrightarrow> x \<noteq> CHR '':'' \<and> x \<noteq> CHR ''+''"
  using upper_digit_plain unat_u8_digits by (auto simp: upper_hex2_def)

lemma length_upper_hex2 [simp]: "length (upper_hex2 w) = 2"
  by (simp add: upper_hex2_def)

lemma hex_value_upper_hex2: "hex_value acc (upper_hex2 w @ s) = hex_value (acc * 256 + unat w) s"
  by (simp add: upper_hex2_def hex_digit_upper unat_u8_digits add.assoc mult.commute)

lemma parse_hex_upper:
  assumes "hd s \<noteq> CHR ''+''" and "s \<noteq> []"
  shows "parse_hex limit s = (case hex_value 0 s of None \<Rightarrow> None | Some n \<Rightarrow> if n < limit then Some n else None)"
  using assms by (cases s) (auto simp: parse_hex_def Let_def)

lemma hd_upper_hex2: "hd (upper_hex2 w @ s) \<noteq> CHR ''+''" "upper_hex2 w @ s \<noteq> []"
  using upper_digit_plain [OF unat_u8_digits(1) [of w]] by (simp_all add: upper_hex2_def)

lemma parse_hex_u8_upper [simp]: "parse_hex_u8 (upper_hex2 w) = Some w"
proof -
  have "unat w < 256" using unsigned_less [of w, where ?'a = nat] by simp
  then show ?thesis
    using parse_hex_upper [OF hd_upper_hex2 (1) hd_upper_hex2 (2), where w1 = w and s1 = "[]" and limit = 256] hex_value_upper_hex2 [of 0 w "[]"]
    by (simp add: parse_hex_u8_def)
qed

lemma slice_append: "length a = i \<Longrightarrow> length b = n \<Longrightarrow> slice i (i + n) (a @ b @ c) = b"
  by (simp add: slice_def)

lemma parse_hex_v4_upper:
  "parse_hex_v4 (upper_hex2 d @ upper_hex2 c @ upper_hex2 b @ upper_hex2 a) = Some (dotted a b c d)"
  using slice_append [of "[]" 0 "upper_hex2 d" 2 "upper_hex2 c @ upper_hex2 b @ upper_hex2 a"]
    slice_append [of "upper_hex2 d" 2 "upper_hex2 c" 2 "upper_hex2 b @ upper_hex2 a"]
    slice_append [of "upper_hex2 d @ upper_hex2 c" 4 "upper_hex2 b" 2 "upper_hex2 a"]
    slice_append [of "upper_hex2 d @ upper_hex2 c @ upper_hex2 b" 6 "upper_hex2 a" 2 "[]"]
  by (simp add: parse_hex_v4_def)

text \<open>
  The reader of /proc/net inverts the kernel: an IPv4 endpoint in the kernel's format is read
  back as its dotted address and its port, for every address and port.
\<close>

theorem proc_net_v4_roundtrip: "parse_ip_port (proc_net_v4 a b c d port) = Some (dotted a b c d, port)"
proof -
  let ?host = "upper_hex2 d @ upper_hex2 c @ upper_hex2 b @ upper_hex2 a"
  let ?port = "upper_hex2 (of_nat (unat port div 256)) @ upper_hex2 (of_nat (unat port mod 256))"
  have p: "unat port < 65536" using unsigned_less [of port, where ?'a = nat] by simp
  then have w: "unat (of_nat (unat port div 256) :: u8) = unat port div 256"
    "unat (of_nat (unat port mod 256) :: u8) = unat port mod 256"
    by (simp_all add: unat_of_nat div_less_iff_less_mult take_bit_eq_mod)
  have "hex_value 0 ?port = Some (unat port)"
    using hex_value_upper_hex2 [of 0 "of_nat (unat port div 256)" "upper_hex2 (of_nat (unat port mod 256))"]
      hex_value_upper_hex2 [of _ "of_nat (unat port mod 256)" "[]"] w by simp
  then have port: "parse_hex (2 ^ 16) ?port = Some (unat port)"
    using parse_hex_upper [OF hd_upper_hex2 (1) hd_upper_hex2 (2), where s1 = "upper_hex2 (of_nat (unat port mod 256))" and limit = "2 ^ 16"] p by simp
  have "str_split (\<lambda>c. c = CHR '':'') ?port = [?port]"
    by (rule str_split_single) (auto dest: upper_hex2_plain)
  then have "str_split (\<lambda>c. c = CHR '':'') (?host @ CHR '':'' # ?port) = [?host, ?port]"
    by (subst str_split_append) (auto dest: upper_hex2_plain)
  moreover have "length ?host = 8" by simp
  ultimately show ?thesis
    using port parse_hex_v4_upper [of d c b a] by (simp add: parse_ip_port_def proc_net_v4_def del: length_append)
qed

text \<open>An IPv6 address is four such words, and the reader leaves their bytes as printed: the loopback
  address \<open>::1\<close> comes out as another address, which does not count as private.\<close>

lemma ipv6_loopback_misread:
  "parse_ip_port ''00000000000000000000000001000000:0050'' = Some (''0000:0000:0000:0000:0000:0000:0100:0000'', 80)"
  "\<not> is_private_ip ''0000:0000:0000:0000:0000:0000:0100:0000''"
  by (simp_all add: parse_ip_port_def parse_hex_v6_def parse_hex_group_def parse_hex_u8_def parse_hex_def
      slice_def hex_digit_def lower_hex2_def lower_digit_def Let_def upt_rec_numeral starts_with_def
      is_private_ip_def private_prefixes_def)
    code_simp

section \<open>Processes behind the sockets (mod.rs)\<close>

text \<open>
  A listing of /proc: the name of each entry, the targets of its descriptors (\<open>None\<close> when they
  cannot be listed, and inside for a link that cannot be read) and its \<open>comm\<close>.
\<close>

record proc_entry =
  pr_file_name :: string
  pr_fds :: "string option list option"
  pr_comm :: "string option"

type_synonym inode_map = "u64 \<rightharpoonup> u32 \<times> string"

definition read_process_name :: "proc_entry \<Rightarrow> string" where
  "read_process_name p = (case pr_comm p of Some s \<Rightarrow> str_trim s | None \<Rightarrow> ''?'')"

definition socket_inode :: "string \<Rightarrow> u64 option" where
  "socket_inode target =
     (if starts_with target ''socket:['' \<and> ends_with target '']'' then parse_u64 (slice 8 (length target - 1) target)
      else None)"

definition scan_pid_fds :: "u32 \<Rightarrow> proc_entry \<Rightarrow> inode_map \<Rightarrow> inode_map" where
  "scan_pid_fds pid p m = (case pr_fds p of None \<Rightarrow> m
     | Some links \<Rightarrow> fold (\<lambda>link m. case Option.bind link socket_inode of
         None \<Rightarrow> m | Some inode \<Rightarrow> m(inode \<mapsto> (pid, read_process_name p))) links m)"

text \<open>The cached map, the processes of the last listing and the cycle counter.\<close>

record inode_cache =
  ic_map :: inode_map
  ic_pids :: "u32 set"
  ic_cycle :: u32

definition scan_entry :: "u32 \<Rightarrow> u32 set \<Rightarrow> proc_entry \<Rightarrow> u32 set \<times> inode_map \<Rightarrow> u32 set \<times> inode_map" where
  "scan_entry cycle known p st = (case st of (current, m) \<Rightarrow>
     (case parse_u32 (pr_file_name p) of
        None \<Rightarrow> (current, m)
      | Some pid \<Rightarrow> (insert pid current,
          if cycle mod 6 = 0 \<or> pid \<notin> known then scan_pid_fds pid p m else m)))"

definition build_inode_pid_map :: "proc_entry list option \<Rightarrow> inode_cache \<Rightarrow> inode_cache" where
  "build_inode_pid_map dir c =
     (let cycle = ic_cycle c + 1 in
      case dir of
        None \<Rightarrow> c\<lparr> ic_cycle := cycle \<rparr>
      | Some ps \<Rightarrow>
          (case fold (scan_entry cycle (ic_pids c)) ps ({}, ic_map c) of (current, m) \<Rightarrow>
             let dead = ic_pids c - current in
             \<lparr> ic_map = (\<lambda>inode. case m inode of None \<Rightarrow> None
                           | Some (pid, name) \<Rightarrow> if pid \<in> dead then None else Some (pid, name)),
               ic_pids = current, ic_cycle = cycle \<rparr>))"

definition map_pids :: "inode_map \<Rightarrow> u32 set" where
  "map_pids m = fst ` ran m"

lemma map_pids_update: "map_pids (m(inode \<mapsto> (pid, name))) \<subseteq> insert pid (map_pids m)"
  by (auto simp: map_pids_def ran_def image_def)

lemma scan_pid_fds_pids: "map_pids (scan_pid_fds pid p m) \<subseteq> insert pid (map_pids m)"
proof -
  have "map_pids (fold (\<lambda>link m. case Option.bind link socket_inode of
      None \<Rightarrow> m | Some inode \<Rightarrow> m(inode \<mapsto> (pid, name))) links m) \<subseteq> insert pid (map_pids m)" for links name
  proof (induction links arbitrary: m)
    case (Cons link links)
    show ?case
    proof (cases "Option.bind link socket_inode")
      case (Some inode)
      from subset_trans [OF Cons.IH [of "m(inode \<mapsto> (pid, name))"] insert_mono [OF map_pids_update [of m inode pid name], of pid]]
      show ?thesis by (simp only: fold_simps Some option.case insert_absorb2)
    qed (use Cons.IH in simp)
  qed auto
  then show ?thesis by (auto simp: scan_pid_fds_def split: option.split)
qed

lemma scan_entries_pids:
  "fold (scan_entry cycle known) ps (cur, m) = (cur', m') \<Longrightarrow> cur \<subseteq> cur' \<and> map_pids m' \<subseteq> map_pids m \<union> cur'"
proof (induction ps arbitrary: cur m)
  case (Cons p ps)
  obtain cur1 m1 where s: "scan_entry cycle known p (cur, m) = (cur1, m1)"
    by (cases "scan_entry cycle known p (cur, m)")
  then have "cur \<subseteq> cur1" "map_pids m1 \<subseteq> map_pids m \<union> cur1"
    using scan_pid_fds_pids by (fastforce simp: scan_entry_def split: option.splits if_splits)+
  with Cons.IH [of cur1 m1] Cons.prems s show ?case by auto
qed simp

definition names_live_pids :: "inode_cache \<Rightarrow> bool" where
  "names_live_pids c \<longleftrightarrow> map_pids (ic_map c) \<subseteq> ic_pids c"

lemma build_names_live_pids:
  assumes "names_live_pids c"
  shows "names_live_pids (build_inode_pid_map dir c)"
proof (cases dir)
  case (Some ps)
  obtain cur m where f: "fold (scan_entry (ic_cycle c + 1) (ic_pids c)) ps ({}, ic_map c) = (cur, m)"
    by (cases "fold (scan_entry (ic_cycle c + 1) (ic_pids c)) ps ({}, ic_map c)")
  from scan_entries_pids [OF f] assms have "map_pids m \<subseteq> ic_pids c \<union> cur"
    by (auto simp: names_live_pids_def)
  with Some f show ?thesis
    by (auto simp: build_inode_pid_map_def names_live_pids_def map_pids_def ran_def Let_def split: option.splits if_splits)
      fastforce
qed (use assms in \<open>simp add: build_inode_pid_map_def names_live_pids_def\<close>)

text \<open>
  Sockets are never attributed to a process that is gone.  After any number of cycles, with
  unreadable listings among them, every process in the socket map is one of the last listing.
\<close>

theorem inode_map_names_live_processes:
  "names_live_pids (fold build_inode_pid_map dirs \<lparr> ic_map = Map.empty, ic_pids = {}, ic_cycle = n \<rparr>)"
proof -
  have "names_live_pids c \<Longrightarrow> names_live_pids (fold build_inode_pid_map dirs c)" for c
    by (induction dirs arbitrary: c) (simp_all add: build_names_live_pids)
  then show ?thesis by (simp add: names_live_pids_def map_pids_def)
qed

end
