(* ===== verification/Sock_Diag.thy ===== *)
theory Sock_Diag
  imports Net_Monitor
begin

unbundle bit_operations_syntax

text \<open>
  The fast path of the network collector (collectors/src/network/sock_diag.rs): the request for
  the kernel's socket table, the parser of the answers, and the choice between it and /proc/net
  (poll_all_connections in mod.rs).  The machine is little-endian.  The layout of
  \<open>inet_diag_msg\<close> is the compiler's choice (the struct has no \<open>repr(C)\<close>), so its size and the
  reading of its fields from that many bytes are parameters; the kernel is a parameter as well.
\<close>

section \<open>Bytes and words\<close>

definition le16 :: "u8 list \<Rightarrow> u16" where
  "le16 bs = ucast (bs ! 0) + 2 ^ 8 * ucast (bs ! 1)"

definition le32 :: "u8 list \<Rightarrow> u32" where
  "le32 bs = ucast (bs ! 0) + 2 ^ 8 * ucast (bs ! 1) + 2 ^ 16 * ucast (bs ! 2) + 2 ^ 24 * ucast (bs ! 3)"

definition be_bytes16 :: "u16 \<Rightarrow> u8 list" where
  "be_bytes16 w = [ucast (drop_bit 8 w), ucast w]"

definition be_bytes32 :: "u32 \<Rightarrow> u8 list" where
  "be_bytes32 w = [ucast (drop_bit 24 w), ucast (drop_bit 16 w), ucast (drop_bit 8 w), ucast w]"

text \<open>\<open>from_be\<close> swaps the bytes.\<close>

definition from_be16 :: "u16 \<Rightarrow> u16" where
  "from_be16 w = le16 (be_bytes16 w)"

definition from_be32 :: "u32 \<Rightarrow> u32" where
  "from_be32 w = le32 (be_bytes32 w)"

section \<open>Messages\<close>

abbreviation NLMSG_DONE :: u16 where "NLMSG_DONE \<equiv> 3"
abbreviation SOCK_DIAG_BY_FAMILY :: u16 where "SOCK_DIAG_BY_FAMILY \<equiv> 20"
abbreviation AF_INET :: u8 where "AF_INET \<equiv> 2"
abbreviation IPPROTO_TCP :: u8 where "IPPROTO_TCP \<equiv> 6"
abbreviation IPPROTO_UDP :: u8 where "IPPROTO_UDP \<equiv> 17"

record inet_diag_sockid =
  id_sport :: u16
  id_dport :: u16
  id_src :: "u32 list"
  id_dst :: "u32 list"
  id_if :: u32
  id_cookie :: "u32 list"

record inet_diag_msg =
  im_family :: u8
  im_state :: u8
  im_timer :: u8
  im_retrans :: u8
  im_id :: inet_diag_sockid
  im_expires :: u32
  im_rqueue :: u32
  im_wqueue :: u32
  im_uid :: u32
  im_inode :: u32

datatype ip_addr = IPv4 "u8 list" | IPv6 "u8 list"

record diag_socket =
  ds_local_addr :: ip_addr
  ds_local_port :: u16
  ds_remote_addr :: ip_addr
  ds_remote_port :: u16
  ds_protocol :: u8
  ds_state :: u8
  ds_inode :: u32
  ds_uid :: u32

definition sockid_to_addr :: "inet_diag_sockid \<Rightarrow> bool \<Rightarrow> ip_addr option" where
  "sockid_to_addr i loc =
     (let ws = (if loc then id_src i else id_dst i)
      in if ws ! 1 = 0 \<and> ws ! 2 = 0 \<and> ws ! 3 = 0 then Some (IPv4 (be_bytes32 (from_be32 (ws ! 0))))
         else Some (IPv6 (concat (map (\<lambda>k. be_bytes32 (from_be32 (ws ! k))) [0, 1, 2, 3]))))"

text \<open>The socket of a message; both arms of the test for the protocol say TCP.\<close>

definition socket_of_msg :: "inet_diag_msg \<Rightarrow> diag_socket list" where
  "socket_of_msg msg = (case (sockid_to_addr (im_id msg) True, sockid_to_addr (im_id msg) False) of
     (Some l, Some r) \<Rightarrow>
       [\<lparr> ds_local_addr = l, ds_local_port = from_be16 (id_sport (im_id msg)),
          ds_remote_addr = r, ds_remote_port = from_be16 (id_dport (im_id msg)),
          ds_protocol = IPPROTO_TCP, ds_state = im_state msg, ds_inode = im_inode msg, ds_uid = im_uid msg \<rparr>]
   | _ \<Rightarrow> [])"

text \<open>The header at the front of the bytes: the length and the type (16 bytes in all).\<close>

abbreviation header_size :: nat where "header_size \<equiv> 16"

definition nlmsg_len :: "u8 list \<Rightarrow> nat" where
  "nlmsg_len bs = unat (le32 (take 4 bs))"

definition nlmsg_type :: "u8 list \<Rightarrow> u16" where
  "nlmsg_type bs = le16 (take 2 (drop 4 bs))"

section \<open>The parser\<close>

text \<open>
  One round of the loop at \<open>offset\<close>: the end of the loop with the sockets of this round (or a
  panic, \<open>None\<close>, when a build with checks subtracts below zero or makes a reference to a header that is
  not aligned to four), or the sockets of this round and the next offset.  The buffer is a fresh vector, which
  the allocator aligns to 16; without the checks a misaligned header, undefined in the language, is
  read as the bytes that are there.
\<close>

definition diag_step ::
    "bool \<Rightarrow> nat \<Rightarrow> (u8 list \<Rightarrow> inet_diag_msg) \<Rightarrow> u8 list \<Rightarrow> nat \<Rightarrow> diag_socket list option + diag_socket list \<times> nat" where
  "diag_step checked msize rd buf offset =
     (if length buf < offset + header_size then Inl (Some [])
      else if checked \<and> \<not> 4 dvd offset then Inl None
      else
        let hdr = drop offset buf in
        if nlmsg_type hdr = NLMSG_DONE then Inl (Some [])
        else
          let found = (if nlmsg_type hdr = SOCK_DIAG_BY_FAMILY \<and> offset + header_size + msize \<le> length buf
                       then socket_of_msg (rd (take msize (drop (offset + header_size) buf))) else []);
              len = nlmsg_len hdr
          in if len = 0 then Inl (Some found)
             else
               let offset' = offset + len in
               if length buf < offset' then (if checked then Inl None else Inr (found, offset'))
               else if length buf - offset' < len then Inl (Some found)
               else Inr (found, offset'))"

lemma diag_step_progress:
  "diag_step checked msize rd buf offset = Inr (found, offset') \<Longrightarrow>
     offset < offset' \<and> offset < length buf \<and> (length buf < offset' \<longrightarrow> \<not> checked)"
  by (auto simp: diag_step_def Let_def split: if_splits)

function diag_loop :: "bool \<Rightarrow> nat \<Rightarrow> (u8 list \<Rightarrow> inet_diag_msg) \<Rightarrow> u8 list \<Rightarrow> nat \<Rightarrow> diag_socket list option" where
  "diag_loop checked msize rd buf offset = (case diag_step checked msize rd buf offset of
     Inl r \<Rightarrow> r
   | Inr (found, offset') \<Rightarrow> map_option ((@) found) (diag_loop checked msize rd buf offset'))"
  by pat_completeness auto
termination
  by (relation "measure (\<lambda>(checked, msize, rd, buf, offset). length buf - offset)")
    (auto dest: diag_step_progress)

declare diag_loop.simps [simp del]

definition parse_diag_response :: "bool \<Rightarrow> nat \<Rightarrow> (u8 list \<Rightarrow> inet_diag_msg) \<Rightarrow> u8 list \<Rightarrow> diag_socket list option" where
  "parse_diag_response checked msize rd buf = diag_loop checked msize rd buf 0"

text \<open>The loop with a bounded number of rounds; the outer \<open>None\<close> is the exhausted bound.\<close>

fun diag_rounds ::
    "nat \<Rightarrow> bool \<Rightarrow> nat \<Rightarrow> (u8 list \<Rightarrow> inet_diag_msg) \<Rightarrow> u8 list \<Rightarrow> nat \<Rightarrow> diag_socket list option option" where
  "diag_rounds 0 checked msize rd buf offset = None"
| "diag_rounds (Suc n) checked msize rd buf offset = (case diag_step checked msize rd buf offset of
     Inl r \<Rightarrow> Some r
   | Inr (found, offset') \<Rightarrow> map_option (map_option ((@) found)) (diag_rounds n checked msize rd buf offset'))"

lemma diag_rounds_enough:
  "length buf - offset < n \<Longrightarrow> diag_rounds n checked msize rd buf offset = Some (diag_loop checked msize rd buf offset)"
proof (induction n arbitrary: offset)
  case (Suc n)
  show ?case
  proof (cases "diag_step checked msize rd buf offset")
    case (Inr p)
    obtain found offset' where p: "p = (found, offset')" by (cases p)
    from diag_step_progress [of checked msize rd buf offset found offset'] Inr p Suc.prems
    have "length buf - offset' < n" by auto
    from Suc.IH [OF this] Inr p show ?thesis by (simp add: diag_loop.simps [of _ _ _ _ offset])
  qed (simp add: diag_loop.simps)
qed simp

text \<open>
  C22: The parser ends on every datagram the kernel or anyone else sends, whatever lengths its
  headers claim: a number of rounds one more than its bytes is enough, and more change nothing.
\<close>

theorem diag_parser_terminates:
  assumes "length buf < n"
  shows "diag_rounds n checked msize rd buf 0 = Some (parse_diag_response checked msize rd buf)"
  using diag_rounds_enough [of buf 0 n] assms by (simp add: parse_diag_response_def)

text \<open>A well-formed answer, the sockets it carries, and which answers of a datagram are read: the
  loop ends when a message is longer than all that follow it together.\<close>

definition diag_answer :: "nat \<Rightarrow> u8 list \<Rightarrow> bool" where
  "diag_answer msize m \<longleftrightarrow> nlmsg_len m = length m \<and> nlmsg_type m = SOCK_DIAG_BY_FAMILY \<and> header_size + msize \<le> length m"

definition answer_sockets :: "nat \<Rightarrow> (u8 list \<Rightarrow> inet_diag_msg) \<Rightarrow> u8 list \<Rightarrow> diag_socket list" where
  "answer_sockets msize rd m = socket_of_msg (rd (take msize (drop header_size m)))"

fun answers_read :: "u8 list list \<Rightarrow> u8 list list" where
  "answers_read [] = []"
| "answers_read (m # ms) = m # (if length m \<le> length (concat ms) then answers_read ms else [])"

lemma all_nat_Suc: "(\<forall>i. P i) \<longleftrightarrow> P 0 \<and> (\<forall>i. P (Suc i))"
  by (metis nat.exhaust)

lemma header_append:
  "header_size \<le> length m \<Longrightarrow> nlmsg_len (m @ r) = nlmsg_len m \<and> nlmsg_type (m @ r) = nlmsg_type m"
  by (simp add: nlmsg_len_def nlmsg_type_def)

lemma diag_step_answer:
  assumes "diag_answer msize m" and "checked \<Longrightarrow> 4 dvd length pre"
  shows "diag_step checked msize rd (pre @ m @ rest) (length pre) =
    (if length rest < length m then Inl (Some (answer_sockets msize rd m))
     else Inr (answer_sockets msize rd m, length pre + length m))"
  using assms header_append [of m rest]
  by (auto simp: diag_step_def diag_answer_def answer_sockets_def Let_def take_append drop_append)

lemma diag_loop_answers:
  "list_all (diag_answer msize) ms \<Longrightarrow> (checked \<Longrightarrow> 4 dvd length pre \<and> list_all (\<lambda>m. 4 dvd length m) ms) \<Longrightarrow>
     diag_loop checked msize rd (pre @ concat ms) (length pre)
       = Some (concat (map (answer_sockets msize rd) (answers_read ms)))"
proof (induction ms arbitrary: pre)
  case Nil
  show ?case by (simp add: diag_loop.simps diag_step_def)
next
  case (Cons m ms)
  have a: "diag_answer msize m" using Cons.prems by simp
  have "checked \<Longrightarrow> 4 dvd length pre" using Cons.prems(2) by simp
  from Cons.IH [of "pre @ m"] Cons.prems diag_step_answer [of msize m checked pre rd "concat ms", OF a this] show ?case
    by (simp add: diag_loop.simps [of checked msize rd "pre @ m @ concat ms" "length pre"] not_less)
qed

text \<open>
  What the parser reports of a datagram of well-formed answers: the sockets of the answers up
  to and including the first that is longer than everything after it.  Answers of one length are
  all read; a shorter last one after a longer one is lost.  In a build with checks the lengths are multiples
  of four, as the kernel makes them.
\<close>

theorem diag_datagram_read:
  assumes "list_all (diag_answer msize) ms" and "checked \<longrightarrow> list_all (\<lambda>m. 4 dvd length m) ms"
  shows "parse_diag_response checked msize rd (concat ms)
       = Some (concat (map (answer_sockets msize rd) (answers_read ms)))
    \<and> (answers_read ms = ms \<longleftrightarrow> (\<forall>i. Suc i < length ms \<longrightarrow> length (ms ! i) \<le> length (concat (drop (Suc i) ms))))"
proof -
  have "answers_read ms = ms \<longleftrightarrow> (\<forall>i. Suc i < length ms \<longrightarrow> length (ms ! i) \<le> length (concat (drop (Suc i) ms)))"
  proof (induction ms)
    case (Cons m ms)
    have "(\<forall>i. Suc i < length (m # ms) \<longrightarrow> length ((m # ms) ! i) \<le> length (concat (drop (Suc i) (m # ms))))
      \<longleftrightarrow> (ms \<noteq> [] \<longrightarrow> length m \<le> length (concat ms)) \<and>
        (\<forall>i. Suc i < length ms \<longrightarrow> length (ms ! i) \<le> length (concat (drop (Suc i) ms)))"
      by (subst all_nat_Suc) (auto simp: length_greater_0_conv [symmetric] simp del: length_greater_0_conv)
    with Cons show ?case by auto
  qed simp
  with diag_loop_answers [OF assms(1), of checked "[]" rd] assms(2) show ?thesis
    by (simp add: parse_diag_response_def)
qed

definition demo_answer :: "u8 \<Rightarrow> nat \<Rightarrow> u8 list" where
  "demo_answer len n = [len, 0, 0, 0, 20, 0] @ replicate n 0"

definition demo_msg :: inet_diag_msg where
  "demo_msg = \<lparr> im_family = 2, im_state = 10, im_timer = 0, im_retrans = 0,
     im_id = \<lparr> id_sport = 0x5000, id_dport = 0, id_src = [0x0100007F, 0, 0, 0], id_dst = [0, 0, 0, 0], id_if = 0, id_cookie = [0, 0] \<rparr>,
     im_expires = 0, im_rqueue = 0, im_wqueue = 0, im_uid = 0, im_inode = 7 \<rparr>"

lemma diag_parser_terminates_witness:
  "diag_rounds 3 True 72 (\<lambda>_. demo_msg) [255, 255] 0 = Some (Some [])"
proof -
  have "length [255, 255 :: u8] < 3" by simp
  from diag_parser_terminates [OF this, of True 72 "\<lambda>_. demo_msg"] show ?thesis
    by (simp add: parse_diag_response_def diag_loop.simps diag_step_def)
qed

lemma demo_answers: "list_all (diag_answer 2) [demo_answer 20 14, demo_answer 18 12]"
  by code_simp

lemma diag_datagram_read_witness:
  "parse_diag_response False 2 (\<lambda>_. demo_msg) (concat [demo_answer 20 14, demo_answer 18 12])
     = Some (answer_sockets 2 (\<lambda>_. demo_msg) (demo_answer 20 14))"
proof -
  have "answers_read [demo_answer 20 14, demo_answer 18 12] = [demo_answer 20 14]"
    by (simp add: demo_answer_def)
  with diag_datagram_read [OF demo_answers, of False "\<lambda>_. demo_msg"] show ?thesis by (simp del: list.pred_inject)
qed

section \<open>Queries\<close>

record diag_request =
  dq_family :: u8
  dq_protocol :: u8
  dq_ext :: u8
  dq_states :: u32

abbreviation INET_DIAG_INFO :: nat where "INET_DIAG_INFO \<equiv> 1"
abbreviation TCPF_ALL :: u32 where "TCPF_ALL \<equiv> 0xFFF"
abbreviation TCP_LISTEN :: u32 where "TCP_LISTEN \<equiv> 0x0A"

text \<open>
  The environment of a query: whether the build checks overflow, the layout of a message, and
  the kernel, which refuses a request or answers with datagrams.
\<close>

record diag_env =
  dv_checked :: bool
  dv_msize :: nat
  dv_read :: "u8 list \<Rightarrow> inet_diag_msg"
  dv_kernel :: "diag_request \<Rightarrow> u8 list list option"

text \<open>An unconnected socket and a refused request are errors; a panic of the parser is \<open>None\<close>.\<close>

definition diag_query :: "diag_env \<Rightarrow> bool \<Rightarrow> u8 \<Rightarrow> u8 \<Rightarrow> u32 \<Rightarrow> (unit + diag_socket list) option" where
  "diag_query v online family proto states =
     (if \<not> online then Some (Inl ())
      else case dv_kernel v \<lparr> dq_family = family, dq_protocol = proto,
                              dq_ext = push_bit (INET_DIAG_INFO - 1) 1, dq_states = states \<rparr> of
        None \<Rightarrow> Some (Inl ())
      | Some datagrams \<Rightarrow>
          (let rs = map (parse_diag_response (dv_checked v) (dv_msize v) (dv_read v)) datagrams
           in if None \<in> set rs then None else Some (Inr (concat (map the rs)))))"

definition query_tcp :: "diag_env \<Rightarrow> bool \<Rightarrow> (unit + diag_socket list) option" where
  "query_tcp v online = diag_query v online AF_INET IPPROTO_TCP (TCPF_ALL AND NOT TCP_LISTEN)"

definition query_udp :: "diag_env \<Rightarrow> bool \<Rightarrow> (unit + diag_socket list) option" where
  "query_udp v online = diag_query v online AF_INET IPPROTO_UDP 0"

text \<open>\<open>to_string\<close> of an IPv6 address is the standard library's.\<close>

definition show_ip :: "(u8 list \<Rightarrow> string) \<Rightarrow> ip_addr \<Rightarrow> string" where
  "show_ip show6 a = (case a of IPv4 bs \<Rightarrow> dotted (bs ! 0) (bs ! 1) (bs ! 2) (bs ! 3) | IPv6 bs \<Rightarrow> show6 bs)"

definition raw_of_diag :: "(u8 list \<Rightarrow> string) \<Rightarrow> protocol \<Rightarrow> diag_socket \<Rightarrow> raw_conn" where
  "raw_of_diag show6 proto s = \<lparr> rw_local_addr = show_ip show6 (ds_local_addr s), rw_local_port = ds_local_port s,
     rw_remote_addr = show_ip show6 (ds_remote_addr s), rw_remote_port = ds_remote_port s, rw_protocol = proto,
     rw_inode = ucast (ds_inode s), rw_uid = ds_uid s \<rparr>"

record proc_net_files =
  pf_tcp :: "string option"
  pf_udp :: "string option"
  pf_tcp6 :: "string option"
  pf_udp6 :: "string option"

definition read_proc_net :: "proc_net_files \<Rightarrow> raw_conn list" where
  "read_proc_net f = parse_proc_net Tcp (pf_tcp f) @ parse_proc_net Udp (pf_udp f)
     @ parse_proc_net Tcp (pf_tcp6 f) @ parse_proc_net Udp (pf_udp6 f)"

definition poll_all_connections ::
    "(u8 list \<Rightarrow> string) \<Rightarrow> diag_env \<Rightarrow> bool \<Rightarrow> proc_net_files \<Rightarrow> raw_conn list option" where
  "poll_all_connections show6 v online f =
     (case query_tcp v online of
        None \<Rightarrow> None
      | Some (Inl e) \<Rightarrow> Some (read_proc_net f)
      | Some (Inr tcp) \<Rightarrow>
          (case query_udp v online of
             None \<Rightarrow> None
           | Some u \<Rightarrow>
               (let conns = map (raw_of_diag show6 Tcp) tcp
                      @ (case u of Inl e \<Rightarrow> [] | Inr udp \<Rightarrow> map (raw_of_diag show6 Udp) udp)
                in Some (if conns \<noteq> [] then conns else read_proc_net f))))"

text \<open>The kernel reports only sockets whose state is in the mask of the request (sock_diag(7)).\<close>

definition obeys_mask :: "diag_env \<Rightarrow> bool" where
  "obeys_mask v \<longleftrightarrow> (\<forall>q ds. dv_kernel v q = Some ds \<longrightarrow> (\<forall>d \<in> set ds. \<forall>ss.
     parse_diag_response (dv_checked v) (dv_msize v) (dv_read v) d = Some ss \<longrightarrow>
     (\<forall>s \<in> set ss. bit (dq_states q) (unat (ds_state s)))))"

text \<open>The mask for TCP: a state number is used as if it were a mask, so \<open>ESTABLISHED\<close> (1) and
  \<open>SYN_RECV\<close> (3) are taken out and \<open>LISTEN\<close> (10) stays.\<close>

lemma tcp_mask: "bit (TCPF_ALL AND NOT TCP_LISTEN) n \<longleftrightarrow> n < 12 \<and> n \<noteq> 1 \<and> n \<noteq> 3"
proof (cases "n < 12")
  case True
  then have "n \<in> {0, 1, 2, 3, 4, 5, 6, 7, 8, 9, 10, 11}" by (auto, presburger)
  then show ?thesis by (auto simp: bit_simps)
next
  case False
  have m: "mask 12 = (TCPF_ALL :: u32)" by (simp add: mask_eq_exp_minus_1)
  have "\<not> bit (mask 12 :: u32) n" using False by (simp only: bit_mask_iff) simp
  then have "\<not> bit TCPF_ALL n" unfolding m .
  with False show ?thesis using bit_and_iff by blast
qed

lemma query_obeys:
  assumes "obeys_mask v" and "diag_query v c family proto states = Some (Inr ss)" and "s \<in> set ss"
  shows "bit states (unat (ds_state s))"
proof -
  let ?p = "parse_diag_response (dv_checked v) (dv_msize v) (dv_read v)"
  let ?q = "\<lparr> dq_family = family, dq_protocol = proto, dq_ext = push_bit (INET_DIAG_INFO - 1) 1, dq_states = states \<rparr>"
  obtain ds where ds: "dv_kernel v ?q = Some ds" and all: "None \<notin> set (map ?p ds)"
    and ss: "ss = concat (map the (map ?p ds))"
    using assms(2) by (auto simp: diag_query_def Let_def split: if_splits option.splits)
  from ss assms(3) obtain d where d: "d \<in> set ds" "s \<in> set (the (?p d))" by auto
  with all obtain ss' where "?p d = Some ss'" "s \<in> set ss'" by (cases "?p d") force+
  with assms(1) ds d(1) have "bit (dq_states ?q) (unat (ds_state s))"
    unfolding obeys_mask_def by blast
  then show ?thesis by simp
qed

text \<open>
  The fast path never sees an established connection, and no UDP socket.  Whatever the kernel
  holds, a TCP query answers without sockets in the states \<open>ESTABLISHED\<close> and \<open>SYN_RECV\<close>, a UDP
  query answers nothing, and as soon as one TCP socket is reported, a listening one say, these
  alone are the poll: /proc/net is not read.
\<close>

theorem fast_path_misses_established:
  assumes "obeys_mask v" and "query_tcp v True = Some (Inr tcp)" and "query_udp v True = Some (Inr udp)" and "tcp \<noteq> []"
  shows "(1 \<notin> ds_state ` set tcp \<and> 3 \<notin> ds_state ` set tcp) \<and> udp = [] \<and>
    poll_all_connections show6 v True f = Some (map (raw_of_diag show6 Tcp) tcp)"
proof -
  have t: "bit (TCPF_ALL AND NOT TCP_LISTEN) (unat (ds_state s))" if "s \<in> set tcp" for s
    using query_obeys [OF assms(1)] assms(2) that unfolding query_tcp_def by blast
  have "ds_state s \<noteq> 1 \<and> ds_state s \<noteq> 3" if "s \<in> set tcp" for s
    using t [OF that] unfolding tcp_mask by auto
  moreover have "udp = []"
    using query_obeys [OF assms(1)] assms(3) unfolding query_udp_def
    by (cases udp) (fastforce simp: bit_0_eq)+
  ultimately show ?thesis
    using assms(2-4) by (auto simp: poll_all_connections_def)
qed

definition established_kernel :: "diag_request \<Rightarrow> u8 list list option" where
  "established_kernel q = Some (if bit (dq_states q) 10 then [demo_answer 18 12] else [])"

lemma fast_path_misses_established_witness:
  "poll_all_connections (\<lambda>_. []) \<lparr> dv_checked = False, dv_msize = 2, dv_read = \<lambda>_. demo_msg, dv_kernel = established_kernel \<rparr>
     True \<lparr> pf_tcp = None, pf_udp = None, pf_tcp6 = None, pf_udp6 = None \<rparr> = Some (map (raw_of_diag (\<lambda>_. []) Tcp) (answer_sockets 2 (\<lambda>_. demo_msg) (demo_answer 18 12)))"
proof -
  let ?v = "\<lparr> dv_checked = False, dv_msize = 2, dv_read = \<lambda>_. demo_msg, dv_kernel = established_kernel \<rparr>"
  let ?ss = "answer_sockets 2 (\<lambda>_. demo_msg) (demo_answer 18 12)"
  have parse: "parse_diag_response False 2 (\<lambda>_. demo_msg) (demo_answer 18 12) = Some ?ss"
    using diag_loop_answers [of 2 "[demo_answer 18 12]" False "[]" "\<lambda>_. demo_msg"] demo_answers
    by (simp add: parse_diag_response_def)
  have state: "ds_state s = 10" if "s \<in> set ?ss" for s
    using that by (auto simp: answer_sockets_def socket_of_msg_def demo_msg_def split: option.splits)
  have "obeys_mask ?v"
    using parse state by (auto simp: obeys_mask_def established_kernel_def split: if_splits)
  moreover have "query_tcp ?v True = Some (Inr ?ss)"
    using parse tcp_mask [of 10] by (simp add: query_tcp_def diag_query_def established_kernel_def)
  moreover have "query_udp ?v True = Some (Inr [])"
    by (simp add: query_udp_def diag_query_def established_kernel_def)
  moreover have "?ss \<noteq> []"
    by (simp add: answer_sockets_def socket_of_msg_def sockid_to_addr_def demo_msg_def)
  ultimately show ?thesis
    using fast_path_misses_established by blast
qed

end
