(* ===== verification/Net_Events.thy ===== *)
theory Net_Events
  imports Sock_Diag
begin

text \<open>
  The loop of the network collector (collectors/src/network/mod.rs, start_network_monitor): a
  cycle polls the connections, attributes them to processes, updates the tracker and publishes
  an event for every connection that opened or closed.
\<close>

section \<open>Attribution\<close>

definition raw_to_key :: "raw_conn \<Rightarrow> connection_key" where
  "raw_to_key rc = \<lparr> ck_local_addr = rw_local_addr rc, ck_local_port = rw_local_port rc,
     ck_remote_addr = rw_remote_addr rc, ck_remote_port = rw_remote_port rc, ck_protocol = rw_protocol rc \<rparr>"

definition enrich_conn :: "inode_map \<Rightarrow> raw_conn \<Rightarrow> connection_key \<times> connection_meta" where
  "enrich_conn m rc =
     (case (case m (rw_inode rc) of Some p \<Rightarrow> p | None \<Rightarrow> (0, ''?'')) of (pid, name) \<Rightarrow>
       (raw_to_key rc, \<lparr> cm_pid = pid, cm_process_name = name, cm_uid = rw_uid rc, cm_inode = rw_inode rc \<rparr>))"

section \<open>Events\<close>

fun protocol_code :: "protocol \<Rightarrow> i32" where
  "protocol_code Tcp = 1"
| "protocol_code Udp = 2"

abbreviation DIRECTION_OUTBOUND :: i32 where "DIRECTION_OUTBOUND \<equiv> 2"
abbreviation ACTION_CONNECT :: i32 where "ACTION_CONNECT \<equiv> 1"
abbreviation ACTION_CLOSE :: i32 where "ACTION_CLOSE \<equiv> 6"

text \<open>Severity, risk and tag of a scan.\<close>

fun scan_findings :: "scan_type option \<Rightarrow> severity \<times> u32 \<times> string list" where
  "scan_findings (Some (VerticalScan host n)) = (Warning, 50, [''vertical_scan:'' @ host @ '':'' @ show_nat n])"
| "scan_findings (Some (HorizontalScan port n)) = (Warning, 40, [''horizontal_scan:'' @ show_word port @ '':'' @ show_nat n])"
| "scan_findings (Some (ConnectionStorm pid n)) = (Warning, 60, [''connection_storm:'' @ show_word pid @ '':'' @ show_nat n])"
| "scan_findings None = (Info, 5, [])"

definition event_process :: "connection_meta \<Rightarrow> process_context option" where
  "event_process meta = (if 0 < cm_pid meta
     then Some (ProcessContext (cm_pid meta) 0 (cm_process_name meta) [] [] [] None [] None [] 0 [] None) else None)"

definition network_payload :: "connection_key \<Rightarrow> i32 \<Rightarrow> string \<Rightarrow> payload" where
  "network_payload key action hostname = NetworkPayload (network_event_default
     \<lparr> ne_direction := DIRECTION_OUTBOUND, ne_protocol := protocol_code (ck_protocol key), ne_action := action,
       ne_local_addr := ck_local_addr key, ne_local_port := ucast (ck_local_port key),
       ne_remote_addr := ck_remote_addr key, ne_remote_port := ucast (ck_remote_port key), ne_hostname := hostname \<rparr>)"

text \<open>The identifier and the two timestamps of a new event.\<close>

record stamp =
  st_id :: string
  st_timestamp :: timestamp
  st_ingest :: timestamp

definition connect_event :: "stamp \<Rightarrow> connection_key \<Rightarrow> connection_meta \<Rightarrow> string \<Rightarrow> scan_type option \<Rightarrow> event" where
  "connect_event s key meta hostname scan = (case scan_findings scan of (sev, risk, tags) \<Rightarrow>
     event_default \<lparr> ev_id := st_id s, ev_type := ''sentinel.network.connect'', ev_source := ''network'',
       ev_timestamp := Some (st_timestamp s), ev_ingest_timestamp := Some (st_ingest s),
       ev_severity := severity_i32 sev, ev_risk_score := risk, ev_host_id := [], ev_schema_version := 1,
       ev_process := event_process meta, ev_payload := Some (network_payload key ACTION_CONNECT hostname),
       ev_tags := tags @ [''new_connection''] \<rparr>)"

definition close_event :: "stamp \<Rightarrow> connection_key \<Rightarrow> nat \<Rightarrow> connection_meta \<Rightarrow> event" where
  "close_event s key duration meta =
     event_default \<lparr> ev_id := st_id s, ev_type := ''sentinel.network.close'', ev_source := ''network'',
       ev_timestamp := Some (st_timestamp s), ev_ingest_timestamp := Some (st_ingest s),
       ev_severity := severity_i32 Info, ev_risk_score := 1, ev_host_id := [], ev_schema_version := 1,
       ev_process := event_process meta, ev_payload := Some (network_payload key ACTION_CLOSE []),
       ev_tags := [''closed_connection'', ''duration_secs:'' @ show_nat (as_secs duration)] \<rparr>"

section \<open>The cycle\<close>

record network_state =
  nw_tracker :: conn_tracker
  nw_inodes :: inode_cache
  nw_dns :: dns_resolver
  nw_scan :: scan_detector
  nw_registry :: collector_registry

text \<open>What the environment gives for one event: the stamp, the times and the answer of the DNS
  lookup, the times of the scan record and of the pruning, whether the bus takes the event, and
  the date of the counter.\<close>

record conn_env =
  ce_stamp :: stamp
  ce_lookup :: instant
  ce_resolved :: instant
  ce_answer :: "string option"
  ce_scan :: instant
  ce_prune :: instant
  ce_published :: bool
  ce_date :: datetime

fun report_connection :: "conn_env \<Rightarrow> connection_event \<Rightarrow> network_state \<Rightarrow> event \<times> network_state" where
  "report_connection v (New key meta) s =
     (case reverse_lookup (ce_lookup v) (ce_resolved v) (ce_answer v) (ck_remote_addr key) (nw_dns s) of (q, hostname, dns) \<Rightarrow>
      case scan_record (ce_scan v) (ck_remote_addr key) (ck_remote_port key) (cm_pid meta) (nw_scan s) of (alert, scan) \<Rightarrow>
        (connect_event (ce_stamp v) key meta hostname alert,
         s\<lparr> nw_dns := (if 1000 < cache_size dns then dns_prune (ce_prune v) dns else dns), nw_scan := scan,
            nw_registry := (if ce_published v
              then collector_increment_events (ce_date v) ''network'' 1 (nw_registry s) else nw_registry s) \<rparr>))"
| "report_connection v (Close key duration meta) s =
     (close_event (ce_stamp v) key duration meta,
      s\<lparr> nw_registry := collector_increment_events (ce_date v) ''network'' 1 (nw_registry s) \<rparr>)"

fun report_connections :: "conn_env list \<Rightarrow> connection_event list \<Rightarrow> network_state \<Rightarrow> event list \<times> network_state" where
  "report_connections (v # vs) (x # xs) s =
     (case report_connection v x s of (e, s1) \<Rightarrow> case report_connections vs xs s1 of (es, s2) \<Rightarrow> (e # es, s2))"
| "report_connections _ _ s = ([], s)"

definition network_cycle ::
    "instant \<Rightarrow> raw_conn list \<Rightarrow> proc_entry list option \<Rightarrow> conn_env list \<Rightarrow> network_state \<Rightarrow> event list \<times> network_state" where
  "network_cycle now polled dir vs s =
     (let inodes = build_inode_pid_map dir (nw_inodes s);
          (es, tracker) = conn_update now (map (enrich_conn (ic_map inodes)) polled) (nw_tracker s)
      in report_connections vs es (s\<lparr> nw_tracker := tracker, nw_inodes := inodes \<rparr>))"

text \<open>The start: the first poll fills the tracker silently; the cycle counter begins at 6.\<close>

definition network_start :: "datetime \<Rightarrow> instant \<Rightarrow> raw_conn list \<Rightarrow> proc_entry list option \<Rightarrow> collector_registry \<Rightarrow> network_state" where
  "network_start date now polled dir registry =
     (let inodes = build_inode_pid_map dir \<lparr> ic_map = Map.empty, ic_pids = {}, ic_cycle = 6 \<rparr>
      in \<lparr> nw_tracker = snd (conn_update now (map (enrich_conn (ic_map inodes)) polled) conn_tracker_new),
           nw_inodes = inodes, nw_dns = dns_resolver_new (900 * nanos_per_sec),
           nw_scan = scan_detector_new (30 * nanos_per_sec),
           nw_registry = collector_register registry (collector_status_new date ''network'' ''Network Monitor''
             ''Connection tracking + DNS + scan detection'') \<rparr>)"

section \<open>Well-typed events\<close>

text \<open>The codes and bounds the schema of a network event promises.\<close>

definition well_typed_network_event :: "event \<Rightarrow> bool" where
  "well_typed_network_event e \<longleftrightarrow>
     ev_source e = ''network'' \<and> ev_schema_version e = 1 \<and> ev_timestamp e \<noteq> None \<and> ev_ingest_timestamp e \<noteq> None
     \<and> (\<exists>sev. ev_severity e = severity_i32 sev) \<and> ev_risk_score e \<le> 60 \<and> ev_tags e \<noteq> []
     \<and> (case ev_payload e of
          Some (NetworkPayload n) \<Rightarrow>
            ne_direction n = DIRECTION_OUTBOUND \<and> ne_protocol n \<in> protocol_code ` UNIV
            \<and> (ne_action n, ev_type e) \<in> {(ACTION_CONNECT, ''sentinel.network.connect''), (ACTION_CLOSE, ''sentinel.network.close'')}
            \<and> unat (ne_local_port n) < 65536 \<and> unat (ne_remote_port n) < 65536
        | _ \<Rightarrow> False)
     \<and> (case ev_process e of Some p \<Rightarrow> 0 < pc_pid p | None \<Rightarrow> True)"

lemma port_bound: "unat (ucast p :: u32) < 65536" for p :: u16
  using unsigned_less [of p, where ?'a = nat] by (simp add: unsigned_ucast_eq take_bit_eq_mod)

lemma connect_event_well_typed: "well_typed_network_event (connect_event s key meta h scan)"
  by (cases scan rule: scan_findings.cases)
    (auto simp: well_typed_network_event_def connect_event_def network_payload_def event_process_def
      port_bound word_le_nat_alt)

lemma close_event_well_typed: "well_typed_network_event (close_event s key d meta)"
  by (auto simp: well_typed_network_event_def close_event_def network_payload_def event_process_def
      port_bound word_le_nat_alt)

lemma report_connection_well_typed: "well_typed_network_event (fst (report_connection v x s))"
  by (cases x) (auto simp: connect_event_well_typed close_event_well_typed split: prod.splits)

lemma report_connections_well_typed: "list_all well_typed_network_event (fst (report_connections vs xs s))"
proof (induction vs xs s rule: report_connections.induct)
  case (1 v vs x xs s)
  obtain e s1 where r: "report_connection v x s = (e, s1)" by (cases "report_connection v x s")
  with report_connection_well_typed [of v x s] "1.IH" [OF r [symmetric]] show ?case
    by (simp add: case_prod_beta)
qed simp_all

text \<open>
  Every event a cycle publishes is of the type its schema promises, in every state and for
  every environment: source and version, a severity of the vocabulary, a risk of at most 60,
  exactly the payload of a network event with the codes of its enumerations and ports of 16
  bits, the action that fits the event's type, and a process only with a real identifier.
\<close>

theorem network_events_well_typed: "list_all well_typed_network_event (fst (network_cycle now polled dir vs s))"
  by (simp add: network_cycle_def Let_def case_prod_beta report_connections_well_typed)

end
