(* ===== verification/Config_Engine.thy ===== *)
theory Config_Engine
  imports Core_Types Json
begin

text \<open>
  The sections of the configuration (crates/sentinel-config/src/lib.rs): each struct as a record,
  its \<open>Default\<close>, the ranges and lengths its derived \<open>Validate\<close> checks (version 0.16 of the
  validator crate, where a value fails a range if it is below the minimum or above the maximum,
  so a NaN passes), and its derived \<open>Serialize\<close> as a JSON object.  This theory has the sections
  of the core, the servers, the storage, the bus and the engines; \<open>Config_Collectors\<close> the rest.
\<close>

text \<open>A backslash, and the serialization of a float: a value that is not finite is null.\<close>

abbreviation bsl :: string where "bsl \<equiv> [CHR 0x5C]"

definition json_of_f64 :: "f64 \<Rightarrow> json" where
  "json_of_f64 x = (case x of Fin r \<Rightarrow> JFloat (Fin r) | _ \<Rightarrow> JNull)"

definition in_range :: "f64 \<Rightarrow> f64 \<Rightarrow> f64 \<Rightarrow> bool" where
  "in_range lo hi x \<longleftrightarrow> \<not> f64_lt hi x \<and> \<not> f64_lt x lo"

section \<open>Types of the core crate\<close>

record retention_policy =
  retain_event_type_pattern :: string
  retain_max_age_days :: u32
  retain_max_count :: u64

definition retention_policy_json :: "retention_policy \<Rightarrow> json" where
  "retention_policy_json c = JObject [(''event_type_pattern'', JString (retain_event_type_pattern c)),
     (''max_age_days'', JInt (uint (retain_max_age_days c))), (''max_count'', JInt (uint (retain_max_count c)))]"

definition backpressure_config_json :: "backpressure_config \<Rightarrow> json" where
  "backpressure_config_json c = JObject [(''elevated'', JInt (uint (bp_elevated c))),
     (''high'', JInt (uint (bp_high c))), (''critical'', JInt (uint (bp_critical c)))]"

section \<open>Sections\<close>

record aggregation_config =
  agg_name :: string
  agg_interval :: string
  agg_retention_days :: u32

definition aggregation_config_valid :: "aggregation_config \<Rightarrow> bool" where
  "aggregation_config_valid c \<longleftrightarrow> 1 \<le> agg_retention_days c \<and> agg_retention_days c \<le> 3650"

definition aggregation_config_json :: "aggregation_config \<Rightarrow> json" where
  "aggregation_config_json c = JObject [(''name'', JString (agg_name c)), (''interval'', JString (agg_interval c)), (''retention_days'',
     JInt (uint (agg_retention_days c)))]"

record core_config =
  core_host_id :: string
  core_instance_name :: string
  core_graceful_shutdown_timeout :: u32
  core_health_check_interval :: u32
  core_metrics_enabled :: bool
  core_metrics_port :: u16
  core_max_memory_mb :: u32
  core_max_cpu_percent :: u8
  core_event_buffer_size :: usize
  core_features :: "string list"

definition core_config_default :: core_config where
  "core_config_default = \<lparr> core_host_id = [], core_instance_name = ''Sentinel AI'',
     core_graceful_shutdown_timeout = 30, core_health_check_interval = 10, core_metrics_enabled = True,
     core_metrics_port = 9090, core_max_memory_mb = 512, core_max_cpu_percent = 25,
     core_event_buffer_size = 10000, core_features = [''ai_engine'', ''correlation_engine'',
     ''plugin_system'', ''grpc_api'', ''rest_gateway''] \<rparr>"

definition core_config_valid :: "core_config \<Rightarrow> bool" where
  "core_config_valid c \<longleftrightarrow> core_host_id c \<noteq> []
     \<and> 1 \<le> core_graceful_shutdown_timeout c \<and> core_graceful_shutdown_timeout c \<le> 300
     \<and> 1 \<le> core_health_check_interval c \<and> core_health_check_interval c \<le> 60
     \<and> 1024 \<le> core_metrics_port c \<and> core_metrics_port c \<le> 65535
     \<and> 64 \<le> core_max_memory_mb c \<and> core_max_memory_mb c \<le> 8192
     \<and> 1 \<le> core_max_cpu_percent c \<and> core_max_cpu_percent c \<le> 100
     \<and> 100 \<le> core_event_buffer_size c \<and> core_event_buffer_size c \<le> 100000"

definition core_config_json :: "core_config \<Rightarrow> json" where
  "core_config_json c = JObject [(''host_id'', JString (core_host_id c)), (''instance_name'', JString (core_instance_name c)),
     (''graceful_shutdown_timeout'', JInt (uint (core_graceful_shutdown_timeout c))),
     (''health_check_interval'', JInt (uint (core_health_check_interval c))), (''metrics_enabled'',
     JBool (core_metrics_enabled c)), (''metrics_port'', JInt (uint (core_metrics_port c))),
     (''max_memory_mb'', JInt (uint (core_max_memory_mb c))), (''max_cpu_percent'',
     JInt (uint (core_max_cpu_percent c))), (''event_buffer_size'',
     JInt (uint (core_event_buffer_size c))), (''features'',
     JArray (map (\<lambda>x. JString (x)) (core_features c)))]"

record grpc_config =
  grpc_enabled :: bool
  grpc_address :: string
  grpc_tls_enabled :: bool
  grpc_max_message_size_mb :: u32
  grpc_max_concurrent_streams :: u32

definition grpc_config_default :: grpc_config where
  "grpc_config_default = \<lparr> grpc_enabled = True, grpc_address = ''127.0.0.1:7777'', grpc_tls_enabled = False,
     grpc_max_message_size_mb = 16, grpc_max_concurrent_streams = 100 \<rparr>"

definition grpc_config_valid :: "grpc_config \<Rightarrow> bool" where
  "grpc_config_valid c \<longleftrightarrow> grpc_address c \<noteq> []
     \<and> 1 \<le> grpc_max_message_size_mb c \<and> grpc_max_message_size_mb c \<le> 100
     \<and> 1 \<le> grpc_max_concurrent_streams c \<and> grpc_max_concurrent_streams c \<le> 1000"

definition grpc_config_json :: "grpc_config \<Rightarrow> json" where
  "grpc_config_json c = JObject [(''enabled'', JBool (grpc_enabled c)), (''address'', JString (grpc_address c)), (''tls_enabled'',
     JBool (grpc_tls_enabled c)), (''max_message_size_mb'', JInt (uint (grpc_max_message_size_mb c))),
     (''max_concurrent_streams'', JInt (uint (grpc_max_concurrent_streams c)))]"

record rest_gateway_config =
  rest_enabled :: bool
  rest_address :: string
  rest_cors_origins :: "string list"

definition rest_gateway_config_default :: rest_gateway_config where
  "rest_gateway_config_default = \<lparr> rest_enabled = True, rest_address = ''127.0.0.1:7778'',
     rest_cors_origins = [''http://localhost:3000'', ''tauri://localhost''] \<rparr>"

definition rest_gateway_config_valid :: "rest_gateway_config \<Rightarrow> bool" where
  "rest_gateway_config_valid c \<longleftrightarrow> rest_address c \<noteq> []"

definition rest_gateway_config_json :: "rest_gateway_config \<Rightarrow> json" where
  "rest_gateway_config_json c = JObject [(''enabled'', JBool (rest_enabled c)), (''address'', JString (rest_address c)), (''cors_origins'',
     JArray (map (\<lambda>x. JString (x)) (rest_cors_origins c)))]"

record storage_config =
  store_sqlite_path :: string
  store_sqlite_wal_mode :: bool
  store_sqlite_busy_timeout_ms :: u32
  store_duckdb_path :: string
  store_duckdb_memory_limit_mb :: u32
  store_duckdb_threads :: u32
  store_retention :: "retention_policy list"
  store_aggregations :: "aggregation_config list"

definition storage_config_default :: storage_config where
  "storage_config_default = \<lparr> store_sqlite_path = ''data/sentinel.db'', store_sqlite_wal_mode = True,
     store_sqlite_busy_timeout_ms = 5000, store_duckdb_path = ''data/events.duckdb'',
     store_duckdb_memory_limit_mb = 256, store_duckdb_threads = 2,
     store_retention = [\<lparr> retain_event_type_pattern = ''sentinel.process.*'',
     retain_max_age_days = 30, retain_max_count = 1000000 \<rparr>,
     \<lparr> retain_event_type_pattern = ''sentinel.network.*'', retain_max_age_days = 14,
     retain_max_count = 500000 \<rparr>, \<lparr> retain_event_type_pattern = ''sentinel.file.*'',
     retain_max_age_days = 30, retain_max_count = 200000 \<rparr>,
     \<lparr> retain_event_type_pattern = ''sentinel.registry.*'', retain_max_age_days = 90,
     retain_max_count = 100000 \<rparr>, \<lparr> retain_event_type_pattern = ''sentinel.usb.*'',
     retain_max_age_days = 90, retain_max_count = 10000 \<rparr>,
     \<lparr> retain_event_type_pattern = ''sentinel.browser.*'', retain_max_age_days = 7,
     retain_max_count = 50000 \<rparr>, \<lparr> retain_event_type_pattern = ''sentinel.startup.*'',
     retain_max_age_days = 180, retain_max_count = 5000 \<rparr>,
     \<lparr> retain_event_type_pattern = ''*'', retain_max_age_days = 7,
     retain_max_count = 100000 \<rparr>], store_aggregations = [\<lparr> agg_name = ''hourly_risk'',
     agg_interval = ''1h'', agg_retention_days = 90 \<rparr>, \<lparr> agg_name = ''daily_mitre'',
     agg_interval = ''1d'', agg_retention_days = 365 \<rparr>, \<lparr> agg_name = ''process_behavior'',
     agg_interval = ''1h'', agg_retention_days = 30 \<rparr>] \<rparr>"

definition storage_config_valid :: "storage_config \<Rightarrow> bool" where
  "storage_config_valid c \<longleftrightarrow> store_sqlite_path c \<noteq> []
     \<and> 1000 \<le> store_sqlite_busy_timeout_ms c \<and> store_sqlite_busy_timeout_ms c \<le> 60000
     \<and> store_duckdb_path c \<noteq> []
     \<and> 64 \<le> store_duckdb_memory_limit_mb c \<and> store_duckdb_memory_limit_mb c \<le> 2048
     \<and> 1 \<le> store_duckdb_threads c \<and> store_duckdb_threads c \<le> 16"

definition storage_config_json :: "storage_config \<Rightarrow> json" where
  "storage_config_json c = JObject [(''sqlite_path'', JString (store_sqlite_path c)), (''sqlite_wal_mode'',
     JBool (store_sqlite_wal_mode c)), (''sqlite_busy_timeout_ms'',
     JInt (uint (store_sqlite_busy_timeout_ms c))), (''duckdb_path'', JString (store_duckdb_path c)),
     (''duckdb_memory_limit_mb'', JInt (uint (store_duckdb_memory_limit_mb c))), (''duckdb_threads'',
     JInt (uint (store_duckdb_threads c))), (''retention'',
     JArray (map (\<lambda>x. retention_policy_json (x)) (store_retention c))), (''aggregations'',
     JArray (map (\<lambda>x. aggregation_config_json (x)) (store_aggregations c)))]"

record event_bus_config =
  ebus_ingest_channel_size :: usize
  ebus_broadcast_channel_size :: usize
  ebus_storage_channel_size :: usize
  ebus_plugin_channel_size :: usize
  ebus_ipc_channel_size :: usize
  ebus_backpressure :: backpressure_config

definition event_bus_config_default :: event_bus_config where
  "event_bus_config_default = \<lparr> ebus_ingest_channel_size = 10000, ebus_broadcast_channel_size = 1000,
     ebus_storage_channel_size = 5000, ebus_plugin_channel_size = 2000, ebus_ipc_channel_size = 500,
     ebus_backpressure = backpressure_config_default \<rparr>"

definition event_bus_config_valid :: "event_bus_config \<Rightarrow> bool" where
  "event_bus_config_valid c \<longleftrightarrow> 100 \<le> ebus_ingest_channel_size c \<and> ebus_ingest_channel_size c \<le> 100000
     \<and> 100 \<le> ebus_broadcast_channel_size c \<and> ebus_broadcast_channel_size c \<le> 10000
     \<and> 100 \<le> ebus_storage_channel_size c \<and> ebus_storage_channel_size c \<le> 50000
     \<and> 100 \<le> ebus_plugin_channel_size c \<and> ebus_plugin_channel_size c \<le> 20000
     \<and> 100 \<le> ebus_ipc_channel_size c \<and> ebus_ipc_channel_size c \<le> 5000"

definition event_bus_config_json :: "event_bus_config \<Rightarrow> json" where
  "event_bus_config_json c = JObject [(''ingest_channel_size'', JInt (uint (ebus_ingest_channel_size c))), (''broadcast_channel_size'',
     JInt (uint (ebus_broadcast_channel_size c))), (''storage_channel_size'',
     JInt (uint (ebus_storage_channel_size c))), (''plugin_channel_size'',
     JInt (uint (ebus_plugin_channel_size c))), (''ipc_channel_size'',
     JInt (uint (ebus_ipc_channel_size c))), (''backpressure'',
     backpressure_config_json (ebus_backpressure c))]"

record risk_multiplier_config =
  mult_condition :: string
  mult_factor :: f64

definition risk_multiplier_config_valid :: "risk_multiplier_config \<Rightarrow> bool" where
  "risk_multiplier_config_valid c \<longleftrightarrow> in_range (Fin (3602879701896397 / 36028797018963968)) (Fin 10) (mult_factor c)"

definition risk_multiplier_config_json :: "risk_multiplier_config \<Rightarrow> json" where
  "risk_multiplier_config_json c = JObject [(''condition'', JString (mult_condition c)), (''factor'', json_of_f64 (mult_factor c))]"

record rule_engine_config =
  rulec_rules_directories :: "string list"
  rulec_hot_reload :: bool
  rulec_validation_on_load :: bool
  rulec_max_rules :: usize
  rulec_evaluation_timeout_ms :: u32
  rulec_worker_threads :: usize
  rulec_default_multipliers :: "risk_multiplier_config list"

definition rule_engine_config_default :: rule_engine_config where
  "rule_engine_config_default = \<lparr> rulec_rules_directories = [''/etc/sentinel/rules/builtin'', ''/etc/sentinel/rules/custom'',
     ''~/.config/sentinel/rules/custom''], rulec_hot_reload = True, rulec_validation_on_load = True,
     rulec_max_rules = 10000, rulec_evaluation_timeout_ms = 50, rulec_worker_threads = 4,
     rulec_default_multipliers = [\<lparr> mult_condition = ''event.process.user.is_elevated'',
     mult_factor = Fin (3 / 2) \<rparr>,
     \<lparr> mult_condition = ''event.process.signing.is_trusted == false'',
     mult_factor = Fin (5854679515581645 / 4503599627370496) \<rparr>,
     \<lparr> mult_condition = ''event.network.geoip.country in ['CN', 'RU', 'KP', 'IR']'',
     mult_factor = Fin (5404319552844595 / 4503599627370496) \<rparr>] \<rparr>"

definition rule_engine_config_valid :: "rule_engine_config \<Rightarrow> bool" where
  "rule_engine_config_valid c \<longleftrightarrow> 1 \<le> rulec_max_rules c \<and> rulec_max_rules c \<le> 100000
     \<and> 1 \<le> rulec_evaluation_timeout_ms c \<and> rulec_evaluation_timeout_ms c \<le> 1000
     \<and> 1 \<le> rulec_worker_threads c \<and> rulec_worker_threads c \<le> 32"

definition rule_engine_config_json :: "rule_engine_config \<Rightarrow> json" where
  "rule_engine_config_json c = JObject [(''rules_directories'', JArray (map (\<lambda>x. JString (x)) (rulec_rules_directories c))),
     (''hot_reload'', JBool (rulec_hot_reload c)), (''validation_on_load'',
     JBool (rulec_validation_on_load c)), (''max_rules'', JInt (uint (rulec_max_rules c))),
     (''evaluation_timeout_ms'', JInt (uint (rulec_evaluation_timeout_ms c))), (''worker_threads'',
     JInt (uint (rulec_worker_threads c))), (''default_multipliers'',
     JArray (map (\<lambda>x. risk_multiplier_config_json (x)) (rulec_default_multipliers c)))]"

record decay_half_life_config =
  halflife_critical :: u32
  halflife_high :: u32
  halflife_medium :: u32
  halflife_low :: u32

definition decay_half_life_config_default :: decay_half_life_config where
  "decay_half_life_config_default = \<lparr> halflife_critical = 72, halflife_high = 48, halflife_medium = 24,
     halflife_low = 12 \<rparr>"

definition decay_half_life_config_valid :: "decay_half_life_config \<Rightarrow> bool" where
  "decay_half_life_config_valid c \<longleftrightarrow> 1 \<le> halflife_critical c \<and> halflife_critical c \<le> 168
     \<and> 1 \<le> halflife_high c \<and> halflife_high c \<le> 168
     \<and> 1 \<le> halflife_medium c \<and> halflife_medium c \<le> 168
     \<and> 1 \<le> halflife_low c \<and> halflife_low c \<le> 168"

definition decay_half_life_config_json :: "decay_half_life_config \<Rightarrow> json" where
  "decay_half_life_config_json c = JObject [(''critical'', JInt (uint (halflife_critical c))), (''high'', JInt (uint (halflife_high c))),
     (''medium'', JInt (uint (halflife_medium c))), (''low'', JInt (uint (halflife_low c)))]"

record alert_thresholds_config =
  thresh_low :: u32
  thresh_medium :: u32
  thresh_high :: u32
  thresh_critical :: u32

definition alert_thresholds_config_default :: alert_thresholds_config where
  "alert_thresholds_config_default = \<lparr> thresh_low = 100, thresh_medium = 300, thresh_high = 600, thresh_critical = 900 \<rparr>"

definition alert_thresholds_config_valid :: "alert_thresholds_config \<Rightarrow> bool" where
  "alert_thresholds_config_valid c \<longleftrightarrow> 0 \<le> thresh_low c \<and> thresh_low c \<le> 1000
     \<and> 0 \<le> thresh_medium c \<and> thresh_medium c \<le> 1000
     \<and> 0 \<le> thresh_high c \<and> thresh_high c \<le> 1000
     \<and> 0 \<le> thresh_critical c \<and> thresh_critical c \<le> 1000"

definition alert_thresholds_config_json :: "alert_thresholds_config \<Rightarrow> json" where
  "alert_thresholds_config_json c = JObject [(''low'', JInt (uint (thresh_low c))), (''medium'', JInt (uint (thresh_medium c))), (''high'',
     JInt (uint (thresh_high c))), (''critical'', JInt (uint (thresh_critical c)))]"

record escalation_config =
  escal_sustained_high_hours :: u32
  escal_flapping_max_alerts_per_hour :: u32
  escal_auto_acknowledge_low_after_hours :: u32

definition escalation_config_default :: escalation_config where
  "escalation_config_default = \<lparr> escal_sustained_high_hours = 2, escal_flapping_max_alerts_per_hour = 10,
     escal_auto_acknowledge_low_after_hours = 24 \<rparr>"

definition escalation_config_valid :: "escalation_config \<Rightarrow> bool" where
  "escalation_config_valid c \<longleftrightarrow> 1 \<le> escal_sustained_high_hours c \<and> escal_sustained_high_hours c \<le> 168
     \<and> 1 \<le> escal_flapping_max_alerts_per_hour c \<and> escal_flapping_max_alerts_per_hour c \<le> 100
     \<and> 1 \<le> escal_auto_acknowledge_low_after_hours c \<and> escal_auto_acknowledge_low_after_hours c \<le> 168"

definition escalation_config_json :: "escalation_config \<Rightarrow> json" where
  "escalation_config_json c = JObject [(''sustained_high_hours'', JInt (uint (escal_sustained_high_hours c))),
     (''flapping_max_alerts_per_hour'', JInt (uint (escal_flapping_max_alerts_per_hour c))),
     (''auto_acknowledge_low_after_hours'', JInt (uint (escal_auto_acknowledge_low_after_hours c)))]"

record asset_criticality_config =
  asset_system_process :: f64
  asset_domain_admin :: f64
  asset_critical_service :: f64
  asset_standard_user :: f64

definition asset_criticality_config_default :: asset_criticality_config where
  "asset_criticality_config_default = \<lparr> asset_system_process = Fin (3 / 2), asset_domain_admin = Fin 2,
     asset_critical_service = Fin (5854679515581645 / 4503599627370496),
     asset_standard_user = Fin 1 \<rparr>"

definition asset_criticality_config_valid :: "asset_criticality_config \<Rightarrow> bool" where
  "asset_criticality_config_valid c \<longleftrightarrow> in_range (Fin (3602879701896397 / 36028797018963968)) (Fin 10) (asset_system_process c)
     \<and> in_range (Fin (3602879701896397 / 36028797018963968)) (Fin 10) (asset_domain_admin c)
     \<and> in_range (Fin (3602879701896397 / 36028797018963968)) (Fin 10) (asset_critical_service c)
     \<and> in_range (Fin (3602879701896397 / 36028797018963968)) (Fin 10) (asset_standard_user c)"

definition asset_criticality_config_json :: "asset_criticality_config \<Rightarrow> json" where
  "asset_criticality_config_json c = JObject [(''system_process'', json_of_f64 (asset_system_process c)), (''domain_admin'',
     json_of_f64 (asset_domain_admin c)), (''critical_service'', json_of_f64 (asset_critical_service c)),
     (''standard_user'', json_of_f64 (asset_standard_user c))]"

record risk_engine_config =
  riskc_decay_half_life :: decay_half_life_config
  riskc_alert_thresholds :: alert_thresholds_config
  riskc_escalation :: escalation_config
  riskc_asset_criticality :: asset_criticality_config

definition risk_engine_config_default :: risk_engine_config where
  "risk_engine_config_default = \<lparr> riskc_decay_half_life = decay_half_life_config_default,
     riskc_alert_thresholds = alert_thresholds_config_default,
     riskc_escalation = escalation_config_default,
     riskc_asset_criticality = asset_criticality_config_default \<rparr>"

definition risk_engine_config_json :: "risk_engine_config \<Rightarrow> json" where
  "risk_engine_config_json c = JObject [(''decay_half_life'', decay_half_life_config_json (riskc_decay_half_life c)), (''alert_thresholds'',
     alert_thresholds_config_json (riskc_alert_thresholds c)), (''escalation'',
     escalation_config_json (riskc_escalation c)), (''asset_criticality'',
     asset_criticality_config_json (riskc_asset_criticality c))]"

record flow_tracking_config =
  flow_enabled :: bool
  flow_max_objects :: usize
  flow_ttl_hours :: u32

definition flow_tracking_config_default :: flow_tracking_config where
  "flow_tracking_config_default = \<lparr> flow_enabled = True, flow_max_objects = 50000, flow_ttl_hours = 48 \<rparr>"

definition flow_tracking_config_valid :: "flow_tracking_config \<Rightarrow> bool" where
  "flow_tracking_config_valid c \<longleftrightarrow> 1000 \<le> flow_max_objects c \<and> flow_max_objects c \<le> 1000000
     \<and> 1 \<le> flow_ttl_hours c \<and> flow_ttl_hours c \<le> 168"

definition flow_tracking_config_json :: "flow_tracking_config \<Rightarrow> json" where
  "flow_tracking_config_json c = JObject [(''enabled'', JBool (flow_enabled c)), (''max_objects'', JInt (uint (flow_max_objects c))),
     (''ttl_hours'', JInt (uint (flow_ttl_hours c)))]"

record app_correlation_config =
  corr_enabled :: bool
  corr_max_chains :: usize
  corr_chain_timeout_hours :: u32
  corr_min_chain_length :: usize
  corr_min_chain_risk :: u32
  corr_flow_tracking :: flow_tracking_config

definition app_correlation_config_default :: app_correlation_config where
  "app_correlation_config_default = \<lparr> corr_enabled = True, corr_max_chains = 10000, corr_chain_timeout_hours = 24,
     corr_min_chain_length = 3, corr_min_chain_risk = 400,
     corr_flow_tracking = flow_tracking_config_default \<rparr>"

definition app_correlation_config_valid :: "app_correlation_config \<Rightarrow> bool" where
  "app_correlation_config_valid c \<longleftrightarrow> 100 \<le> corr_max_chains c \<and> corr_max_chains c \<le> 100000
     \<and> 1 \<le> corr_chain_timeout_hours c \<and> corr_chain_timeout_hours c \<le> 168
     \<and> 2 \<le> corr_min_chain_length c \<and> corr_min_chain_length c \<le> 20
     \<and> 0 \<le> corr_min_chain_risk c \<and> corr_min_chain_risk c \<le> 1000"

definition app_correlation_config_json :: "app_correlation_config \<Rightarrow> json" where
  "app_correlation_config_json c = JObject [(''enabled'', JBool (corr_enabled c)), (''max_chains'', JInt (uint (corr_max_chains c))),
     (''chain_timeout_hours'', JInt (uint (corr_chain_timeout_hours c))), (''min_chain_length'',
     JInt (uint (corr_min_chain_length c))), (''min_chain_risk'', JInt (uint (corr_min_chain_risk c))),
     (''flow_tracking'', flow_tracking_config_json (corr_flow_tracking c))]"

end
