(* ===== verification/Config_Collectors.thy ===== *)
theory Config_Collectors
  imports Config_Engine
begin

text \<open>
  The sections of the configuration for the AI engine, the plugins, the collectors, threat
  intelligence, privacy and logging (crates/sentinel-config/src/lib.rs), in the form of
  \<open>Config_Engine\<close>.  The values of \<open>f32\<close> fields are the binary32 numbers, written exactly.
\<close>

datatype ai_provider = AIP_Ollama | AIP_LlamaCpp | AIP_OpenAI

fun ai_provider_name :: "ai_provider \<Rightarrow> string" where
  "ai_provider_name AIP_Ollama = ''ollama''"
| "ai_provider_name AIP_LlamaCpp = ''llama_cpp''"
| "ai_provider_name AIP_OpenAI = ''open_a_i''"

record ollama_config =
  ollama_base_url :: string
  ollama_timeout_seconds :: u32
  ollama_keep_alive :: string
  ollama_num_ctx :: u32
  ollama_num_gpu :: i32
  ollama_num_thread :: u32

definition ollama_config_default :: ollama_config where
  "ollama_config_default = \<lparr> ollama_base_url = ''http://127.0.0.1:11434'', ollama_timeout_seconds = 60,
     ollama_keep_alive = ''5m'', ollama_num_ctx = 8192, ollama_num_gpu = (- 1),
     ollama_num_thread = 4 \<rparr>"

definition ollama_config_valid :: "ollama_config \<Rightarrow> bool" where
  "ollama_config_valid c \<longleftrightarrow> 1 \<le> ollama_timeout_seconds c \<and> ollama_timeout_seconds c \<le> 300
     \<and> 512 \<le> ollama_num_ctx c \<and> ollama_num_ctx c \<le> 32768
     \<and> 1 \<le> ollama_num_thread c \<and> ollama_num_thread c \<le> 64"

definition ollama_config_json :: "ollama_config \<Rightarrow> json" where
  "ollama_config_json c = JObject [(''base_url'', JString (ollama_base_url c)), (''timeout_seconds'',
     JInt (uint (ollama_timeout_seconds c))), (''keep_alive'', JString (ollama_keep_alive c)),
     (''num_ctx'', JInt (uint (ollama_num_ctx c))), (''num_gpu'', JInt (sint (ollama_num_gpu c))),
     (''num_thread'', JInt (uint (ollama_num_thread c)))]"

record llama_cpp_config =
  llama_model_path :: string
  llama_n_gpu_layers :: i32
  llama_n_threads :: u32
  llama_n_ctx :: u32
  llama_n_batch :: u32

definition llama_cpp_config_default :: llama_cpp_config where
  "llama_cpp_config_default = \<lparr> llama_model_path = ''models/llama-3.2-3b-instruct-Q4_K_M.gguf'',
     llama_n_gpu_layers = (- 1), llama_n_threads = 4, llama_n_ctx = 8192, llama_n_batch = 512 \<rparr>"

definition llama_cpp_config_valid :: "llama_cpp_config \<Rightarrow> bool" where
  "llama_cpp_config_valid c \<longleftrightarrow> 1 \<le> llama_n_threads c \<and> llama_n_threads c \<le> 64
     \<and> 512 \<le> llama_n_ctx c \<and> llama_n_ctx c \<le> 32768
     \<and> 1 \<le> llama_n_batch c \<and> llama_n_batch c \<le> 2048"

definition llama_cpp_config_json :: "llama_cpp_config \<Rightarrow> json" where
  "llama_cpp_config_json c = JObject [(''model_path'', JString (llama_model_path c)), (''n_gpu_layers'',
     JInt (sint (llama_n_gpu_layers c))), (''n_threads'', JInt (uint (llama_n_threads c))), (''n_ctx'',
     JInt (uint (llama_n_ctx c))), (''n_batch'', JInt (uint (llama_n_batch c)))]"

record generation_config =
  gen_temperature :: f64
  gen_top_p :: f64
  gen_top_k :: u32
  gen_repeat_penalty :: f64
  gen_max_tokens :: u32
  gen_stop_sequences :: "string list"

definition generation_config_default :: generation_config where
  "generation_config_default = \<lparr> gen_temperature = Fin 0, gen_top_p = Fin (7549747 / 8388608), gen_top_k = 40,
     gen_repeat_penalty = Fin (9227469 / 8388608), gen_max_tokens = 2048, gen_stop_sequences = [''###'',
     ''User:'', ''Assistant:''] \<rparr>"

definition generation_config_valid :: "generation_config \<Rightarrow> bool" where
  "generation_config_valid c \<longleftrightarrow> in_range (Fin 0) (Fin 2) (gen_temperature c)
     \<and> in_range (Fin 0) (Fin 1) (gen_top_p c)
     \<and> 1 \<le> gen_top_k c \<and> gen_top_k c \<le> 100
     \<and> in_range (Fin 0) (Fin 2) (gen_repeat_penalty c)
     \<and> 1 \<le> gen_max_tokens c \<and> gen_max_tokens c \<le> 8192"

definition generation_config_json :: "generation_config \<Rightarrow> json" where
  "generation_config_json c = JObject [(''temperature'', json_of_f64 (gen_temperature c)), (''top_p'', json_of_f64 (gen_top_p c)),
     (''top_k'', JInt (uint (gen_top_k c))), (''repeat_penalty'', json_of_f64 (gen_repeat_penalty c)),
     (''max_tokens'', JInt (uint (gen_max_tokens c))), (''stop_sequences'',
     JArray (map (\<lambda>x. JString (x)) (gen_stop_sequences c)))]"

record context_config =
  ctx_max_events :: usize
  ctx_max_chain_events :: usize
  ctx_anonymize :: bool
  ctx_include_process_tree :: bool
  ctx_include_network_summary :: bool
  ctx_include_file_summary :: bool

definition context_config_default :: context_config where
  "context_config_default = \<lparr> ctx_max_events = 100, ctx_max_chain_events = 50, ctx_anonymize = True,
     ctx_include_process_tree = True, ctx_include_network_summary = True,
     ctx_include_file_summary = True \<rparr>"

definition context_config_valid :: "context_config \<Rightarrow> bool" where
  "context_config_valid c \<longleftrightarrow> 10 \<le> ctx_max_events c \<and> ctx_max_events c \<le> 1000
     \<and> 10 \<le> ctx_max_chain_events c \<and> ctx_max_chain_events c \<le> 500"

definition context_config_json :: "context_config \<Rightarrow> json" where
  "context_config_json c = JObject [(''max_events'', JInt (uint (ctx_max_events c))), (''max_chain_events'',
     JInt (uint (ctx_max_chain_events c))), (''anonymize'', JBool (ctx_anonymize c)),
     (''include_process_tree'', JBool (ctx_include_process_tree c)), (''include_network_summary'',
     JBool (ctx_include_network_summary c)), (''include_file_summary'',
     JBool (ctx_include_file_summary c))]"

record ai_engine_config =
  ai_enabled :: bool
  ai_provider :: ai_provider
  ai_model :: string
  ai_fallback_models :: "string list"
  ai_ollama :: ollama_config
  ai_llama_cpp :: llama_cpp_config
  ai_generation :: generation_config
  ai_context :: context_config

definition ai_engine_config_default :: ai_engine_config where
  "ai_engine_config_default = \<lparr> ai_enabled = True, ai_provider = AIP_Ollama, ai_model = ''llama-3.2-3b-instruct'',
     ai_fallback_models = [''llama-3.1-8b-instruct'', ''qwen2.5-7b-instruct''],
     ai_ollama = ollama_config_default, ai_llama_cpp = llama_cpp_config_default,
     ai_generation = generation_config_default, ai_context = context_config_default \<rparr>"

definition ai_engine_config_json :: "ai_engine_config \<Rightarrow> json" where
  "ai_engine_config_json c = JObject [(''enabled'', JBool (ai_enabled c)), (''provider'', JString (ai_provider_name (ai_provider c))),
     (''model'', JString (ai_model c)), (''fallback_models'',
     JArray (map (\<lambda>x. JString (x)) (ai_fallback_models c))), (''ollama'',
     ollama_config_json (ai_ollama c)), (''llama_cpp'', llama_cpp_config_json (ai_llama_cpp c)),
     (''generation'', generation_config_json (ai_generation c)), (''context'',
     context_config_json (ai_context c))]"

datatype sandbox_profile = SBX_None | SBX_Basic | SBX_Strict

fun sandbox_profile_name :: "sandbox_profile \<Rightarrow> string" where
  "sandbox_profile_name SBX_None = ''none''"
| "sandbox_profile_name SBX_Basic = ''basic''"
| "sandbox_profile_name SBX_Strict = ''strict''"

record plugin_manager_config =
  plug_enabled :: bool
  plug_plugin_directories :: "string list"
  plug_max_plugins :: usize
  plug_default_sandbox :: sandbox_profile
  plug_allowed_capabilities :: "string list"

definition plugin_manager_config_default :: plugin_manager_config where
  "plugin_manager_config_default = \<lparr> plug_enabled = True, plug_plugin_directories = [''/etc/sentinel/plugins'',
     ''~/.config/sentinel/plugins'', ''./plugins''], plug_max_plugins = 50,
     plug_default_sandbox = SBX_Basic, plug_allowed_capabilities = [''event:read'', ''event:write'',
     ''config:read'', ''config:write'', ''network:http'', ''secret:read'', ''ai:query'',
     ''storage:read''] \<rparr>"

definition plugin_manager_config_valid :: "plugin_manager_config \<Rightarrow> bool" where
  "plugin_manager_config_valid c \<longleftrightarrow> 1 \<le> plug_max_plugins c \<and> plug_max_plugins c \<le> 100"

definition plugin_manager_config_json :: "plugin_manager_config \<Rightarrow> json" where
  "plugin_manager_config_json c = JObject [(''enabled'', JBool (plug_enabled c)), (''plugin_directories'',
     JArray (map (\<lambda>x. JString (x)) (plug_plugin_directories c))), (''max_plugins'',
     JInt (uint (plug_max_plugins c))), (''default_sandbox'',
     JString (sandbox_profile_name (plug_default_sandbox c))), (''allowed_capabilities'',
     JArray (map (\<lambda>x. JString (x)) (plug_allowed_capabilities c)))]"

datatype backpressure_response = BPR_Throttle | BPR_Drop | BPR_Pause

fun backpressure_response_name :: "backpressure_response \<Rightarrow> string" where
  "backpressure_response_name BPR_Throttle = ''throttle''"
| "backpressure_response_name BPR_Drop = ''drop''"
| "backpressure_response_name BPR_Pause = ''pause''"

record process_collector_config =
  procc_enabled :: bool
  procc_sample_rate :: f64
  procc_include_command_line :: bool
  procc_include_environment :: bool
  procc_resolve_signatures :: bool
  procc_track_ancestry_depth :: u32
  procc_monitor_injection :: bool
  procc_monitor_hollowing :: bool
  procc_monitor_dumps :: bool
  procc_exclude_paths :: "string list"

definition process_collector_config_default :: process_collector_config where
  "process_collector_config_default = \<lparr> procc_enabled = True, procc_sample_rate = Fin 1, procc_include_command_line = True,
     procc_include_environment = False, procc_resolve_signatures = True, procc_track_ancestry_depth = 10,
     procc_monitor_injection = True, procc_monitor_hollowing = True, procc_monitor_dumps = True,
     procc_exclude_paths = [(''C:'' @ bsl @ ''Windows'' @ bsl @ ''System32'' @ bsl @ ''*''),
     (''C:'' @ bsl @ ''Program Files'' @ bsl @ ''*''), ''/usr/bin/*'', ''/bin/*'', ''/sbin/*'',
     ''/lib*''] \<rparr>"

definition process_collector_config_valid :: "process_collector_config \<Rightarrow> bool" where
  "process_collector_config_valid c \<longleftrightarrow> in_range (Fin 0) (Fin 1) (procc_sample_rate c)
     \<and> 1 \<le> procc_track_ancestry_depth c \<and> procc_track_ancestry_depth c \<le> 50"

definition process_collector_config_json :: "process_collector_config \<Rightarrow> json" where
  "process_collector_config_json c = JObject [(''enabled'', JBool (procc_enabled c)), (''sample_rate'', json_of_f64 (procc_sample_rate c)),
     (''include_command_line'', JBool (procc_include_command_line c)), (''include_environment'',
     JBool (procc_include_environment c)), (''resolve_signatures'', JBool (procc_resolve_signatures c)),
     (''track_ancestry_depth'', JInt (uint (procc_track_ancestry_depth c))), (''monitor_injection'',
     JBool (procc_monitor_injection c)), (''monitor_hollowing'', JBool (procc_monitor_hollowing c)),
     (''monitor_dumps'', JBool (procc_monitor_dumps c)), (''exclude_paths'',
     JArray (map (\<lambda>x. JString (x)) (procc_exclude_paths c)))]"

record network_collector_config =
  netc_enabled :: bool
  netc_sample_rate :: f64
  netc_capture_dns :: bool
  netc_capture_http :: bool
  netc_capture_tls_fingerprints :: bool
  netc_capture_payloads :: bool
  netc_max_payload_bytes :: u32
  netc_resolve_hostnames :: bool
  netc_geoip_enabled :: bool
  netc_geoip_db_path :: string
  netc_exclude_ports :: "u16 list"
  netc_exclude_local :: bool
  netc_tls_sni_extraction :: bool
  netc_http_host_extraction :: bool

definition network_collector_config_default :: network_collector_config where
  "network_collector_config_default = \<lparr> netc_enabled = True, netc_sample_rate = Fin 1, netc_capture_dns = True,
     netc_capture_http = True, netc_capture_tls_fingerprints = True, netc_capture_payloads = False,
     netc_max_payload_bytes = 0, netc_resolve_hostnames = True, netc_geoip_enabled = True,
     netc_geoip_db_path = ''data/GeoLite2-Country.mmdb'', netc_exclude_ports = [53, 67, 68, 123, 1900,
     5353, 5355], netc_exclude_local = True, netc_tls_sni_extraction = True,
     netc_http_host_extraction = True \<rparr>"

definition network_collector_config_valid :: "network_collector_config \<Rightarrow> bool" where
  "network_collector_config_valid c \<longleftrightarrow> in_range (Fin 0) (Fin 1) (netc_sample_rate c)
     \<and> 0 \<le> netc_max_payload_bytes c \<and> netc_max_payload_bytes c \<le> 10000000"

definition network_collector_config_json :: "network_collector_config \<Rightarrow> json" where
  "network_collector_config_json c = JObject [(''enabled'', JBool (netc_enabled c)), (''sample_rate'', json_of_f64 (netc_sample_rate c)),
     (''capture_dns'', JBool (netc_capture_dns c)), (''capture_http'', JBool (netc_capture_http c)),
     (''capture_tls_fingerprints'', JBool (netc_capture_tls_fingerprints c)), (''capture_payloads'',
     JBool (netc_capture_payloads c)), (''max_payload_bytes'', JInt (uint (netc_max_payload_bytes c))),
     (''resolve_hostnames'', JBool (netc_resolve_hostnames c)), (''geoip_enabled'',
     JBool (netc_geoip_enabled c)), (''geoip_db_path'', JString (netc_geoip_db_path c)),
     (''exclude_ports'', JArray (map (\<lambda>x. JInt (uint (x))) (netc_exclude_ports c))),
     (''exclude_local'', JBool (netc_exclude_local c)), (''tls_sni_extraction'',
     JBool (netc_tls_sni_extraction c)), (''http_host_extraction'', JBool (netc_http_host_extraction c))]"

record file_collector_config =
  filec_enabled :: bool
  filec_sample_rate :: f64
  filec_monitor_paths :: "string list"
  filec_exclude_paths :: "string list"
  filec_calculate_hashes :: bool
  filec_calculate_entropy :: bool
  filec_max_file_size_hash :: u64
  filec_monitor_executable_only :: bool
  filec_monitor_sensitive_paths :: bool

definition file_collector_config_default :: file_collector_config where
  "file_collector_config_default = \<lparr> filec_enabled = True, filec_sample_rate = Fin 1,
     filec_monitor_paths = [(''C:'' @ bsl @ ''Users'' @ bsl @ ''*'' @ bsl @ ''AppData'' @ bsl @ ''*''),
     (''C:'' @ bsl @ ''ProgramData'' @ bsl @ ''*''), (''C:'' @ bsl @ ''Temp'' @ bsl @ ''*''),
     ''/home/*/.config/*'', ''/home/*/.local/*'', ''/tmp/*'', ''/var/tmp/*'',
     ''/Library/LaunchAgents/*'', ''/Library/LaunchDaemons/*''],
     filec_exclude_paths = [(''C:'' @ bsl @ ''Windows'' @ bsl @ ''*''),
     (''C:'' @ bsl @ ''Program Files'' @ bsl @ ''*''), ''/usr/*'', ''/bin/*'', ''/sbin/*'', ''/lib*'',
     ''/var/log/*'', ''*/node_modules/*'', ''*/.git/*'', ''*/target/*''], filec_calculate_hashes = True,
     filec_calculate_entropy = True, filec_max_file_size_hash = 104857600,
     filec_monitor_executable_only = False, filec_monitor_sensitive_paths = True \<rparr>"

definition file_collector_config_valid :: "file_collector_config \<Rightarrow> bool" where
  "file_collector_config_valid c \<longleftrightarrow> in_range (Fin 0) (Fin 1) (filec_sample_rate c)
     \<and> 1 \<le> filec_max_file_size_hash c \<and> filec_max_file_size_hash c \<le> 1000000000"

definition file_collector_config_json :: "file_collector_config \<Rightarrow> json" where
  "file_collector_config_json c = JObject [(''enabled'', JBool (filec_enabled c)), (''sample_rate'', json_of_f64 (filec_sample_rate c)),
     (''monitor_paths'', JArray (map (\<lambda>x. JString (x)) (filec_monitor_paths c))),
     (''exclude_paths'', JArray (map (\<lambda>x. JString (x)) (filec_exclude_paths c))),
     (''calculate_hashes'', JBool (filec_calculate_hashes c)), (''calculate_entropy'',
     JBool (filec_calculate_entropy c)), (''max_file_size_hash'',
     JInt (uint (filec_max_file_size_hash c))), (''monitor_executable_only'',
     JBool (filec_monitor_executable_only c)), (''monitor_sensitive_paths'',
     JBool (filec_monitor_sensitive_paths c))]"

record registry_collector_config =
  regc_enabled :: bool
  regc_sample_rate :: f64
  regc_monitor_hives :: "string list"
  regc_monitor_paths :: "string list"
  regc_exclude_paths :: "string list"
  regc_capture_value_data :: bool
  regc_max_value_size :: u32

definition registry_collector_config_default :: registry_collector_config where
  "registry_collector_config_default = \<lparr> regc_enabled = True, regc_sample_rate = Fin 1, regc_monitor_hives = [''HKLM'', ''HKCU''],
     regc_monitor_paths = [(''HKLM'' @ bsl @ ''SOFTWARE'' @ bsl @ ''Microsoft'' @ bsl @ ''Windows'' @ bsl @ ''CurrentVersion'' @ bsl @ ''Run*''),
     (''HKLM'' @ bsl @ ''SOFTWARE'' @ bsl @ ''WOW6432Node'' @ bsl @ ''Microsoft'' @ bsl @ ''Windows'' @ bsl @ ''CurrentVersion'' @ bsl @ ''Run*''),
     (''HKCU'' @ bsl @ ''SOFTWARE'' @ bsl @ ''Microsoft'' @ bsl @ ''Windows'' @ bsl @ ''CurrentVersion'' @ bsl @ ''Run*''),
     (''HKLM'' @ bsl @ ''SYSTEM'' @ bsl @ ''CurrentControlSet'' @ bsl @ ''Services'' @ bsl @ ''*''),
     (''HKLM'' @ bsl @ ''SOFTWARE'' @ bsl @ ''Microsoft'' @ bsl @ ''Windows NT'' @ bsl @ ''CurrentVersion'' @ bsl @ ''Winlogon*''),
     (''HKLM'' @ bsl @ ''SOFTWARE'' @ bsl @ ''Microsoft'' @ bsl @ ''Windows'' @ bsl @ ''CurrentVersion'' @ bsl @ ''Explorer'' @ bsl @ ''Browser Helper Objects*'')],
     regc_exclude_paths = [(''HKLM'' @ bsl @ ''SYSTEM'' @ bsl @ ''CurrentControlSet'' @ bsl @ ''Control'' @ bsl @ ''Session Manager'' @ bsl @ ''*'')],
     regc_capture_value_data = True, regc_max_value_size = 8192 \<rparr>"

definition registry_collector_config_valid :: "registry_collector_config \<Rightarrow> bool" where
  "registry_collector_config_valid c \<longleftrightarrow> in_range (Fin 0) (Fin 1) (regc_sample_rate c)
     \<and> 1 \<le> regc_max_value_size c \<and> regc_max_value_size c \<le> 1000000"

definition registry_collector_config_json :: "registry_collector_config \<Rightarrow> json" where
  "registry_collector_config_json c = JObject [(''enabled'', JBool (regc_enabled c)), (''sample_rate'', json_of_f64 (regc_sample_rate c)),
     (''monitor_hives'', JArray (map (\<lambda>x. JString (x)) (regc_monitor_hives c))),
     (''monitor_paths'', JArray (map (\<lambda>x. JString (x)) (regc_monitor_paths c))),
     (''exclude_paths'', JArray (map (\<lambda>x. JString (x)) (regc_exclude_paths c))),
     (''capture_value_data'', JBool (regc_capture_value_data c)), (''max_value_size'',
     JInt (uint (regc_max_value_size c)))]"

record usb_collector_config =
  usbc_enabled :: bool
  usbc_sample_rate :: f64
  usbc_monitor_hid :: bool
  usbc_monitor_mass_storage :: bool
  usbc_scan_on_mount :: bool
  usbc_scan_max_files :: u32
  usbc_scan_max_file_size :: u64
  usbc_scan_extensions :: "string list"
  usbc_notify_on_new_device :: bool

definition usb_collector_config_default :: usb_collector_config where
  "usb_collector_config_default = \<lparr> usbc_enabled = True, usbc_sample_rate = Fin 1, usbc_monitor_hid = True,
     usbc_monitor_mass_storage = True, usbc_scan_on_mount = True, usbc_scan_max_files = 100,
     usbc_scan_max_file_size = 10485760, usbc_scan_extensions = [''.exe'', ''.dll'', ''.ps1'', ''.bat'',
     ''.cmd'', ''.vbs'', ''.js'', ''.jar'', ''.scr'', ''.lnk''],
     usbc_notify_on_new_device = True \<rparr>"

definition usb_collector_config_valid :: "usb_collector_config \<Rightarrow> bool" where
  "usb_collector_config_valid c \<longleftrightarrow> in_range (Fin 0) (Fin 1) (usbc_sample_rate c)
     \<and> 1 \<le> usbc_scan_max_files c \<and> usbc_scan_max_files c \<le> 1000
     \<and> 1 \<le> usbc_scan_max_file_size c \<and> usbc_scan_max_file_size c \<le> 100000000"

definition usb_collector_config_json :: "usb_collector_config \<Rightarrow> json" where
  "usb_collector_config_json c = JObject [(''enabled'', JBool (usbc_enabled c)), (''sample_rate'', json_of_f64 (usbc_sample_rate c)),
     (''monitor_hid'', JBool (usbc_monitor_hid c)), (''monitor_mass_storage'',
     JBool (usbc_monitor_mass_storage c)), (''scan_on_mount'', JBool (usbc_scan_on_mount c)),
     (''scan_max_files'', JInt (uint (usbc_scan_max_files c))), (''scan_max_file_size'',
     JInt (uint (usbc_scan_max_file_size c))), (''scan_extensions'',
     JArray (map (\<lambda>x. JString (x)) (usbc_scan_extensions c))), (''notify_on_new_device'',
     JBool (usbc_notify_on_new_device c))]"

datatype incognito_mode = INC_Ignore | INC_MetadataOnly | INC_Full

fun incognito_mode_name :: "incognito_mode \<Rightarrow> string" where
  "incognito_mode_name INC_Ignore = ''ignore''"
| "incognito_mode_name INC_MetadataOnly = ''metadata_only''"
| "incognito_mode_name INC_Full = ''full''"

record browser_collector_config =
  browc_enabled :: bool
  browc_sample_rate :: f64
  browc_browsers :: "string list"
  browc_monitor_history :: bool
  browc_monitor_downloads :: bool
  browc_monitor_extensions :: bool
  browc_monitor_cookies :: bool
  browc_monitor_localstorage :: bool
  browc_download_hash_calculation :: bool
  browc_incognito_mode :: incognito_mode
  browc_extension_allowlist :: "string list"
  browc_native_messaging_enabled :: bool
  browc_poll_interval_seconds :: u32

definition browser_collector_config_default :: browser_collector_config where
  "browser_collector_config_default = \<lparr> browc_enabled = True, browc_sample_rate = Fin 1, browc_browsers = [''chrome'', ''edge'',
     ''firefox'', ''brave''], browc_monitor_history = True, browc_monitor_downloads = True,
     browc_monitor_extensions = True, browc_monitor_cookies = False, browc_monitor_localstorage = False,
     browc_download_hash_calculation = True, browc_incognito_mode = INC_Ignore,
     browc_extension_allowlist = [], browc_native_messaging_enabled = True,
     browc_poll_interval_seconds = 30 \<rparr>"

definition browser_collector_config_valid :: "browser_collector_config \<Rightarrow> bool" where
  "browser_collector_config_valid c \<longleftrightarrow> in_range (Fin 0) (Fin 1) (browc_sample_rate c)
     \<and> 1 \<le> browc_poll_interval_seconds c \<and> browc_poll_interval_seconds c \<le> 3600"

definition browser_collector_config_json :: "browser_collector_config \<Rightarrow> json" where
  "browser_collector_config_json c = JObject [(''enabled'', JBool (browc_enabled c)), (''sample_rate'', json_of_f64 (browc_sample_rate c)),
     (''browsers'', JArray (map (\<lambda>x. JString (x)) (browc_browsers c))), (''monitor_history'',
     JBool (browc_monitor_history c)), (''monitor_downloads'', JBool (browc_monitor_downloads c)),
     (''monitor_extensions'', JBool (browc_monitor_extensions c)), (''monitor_cookies'',
     JBool (browc_monitor_cookies c)), (''monitor_localstorage'', JBool (browc_monitor_localstorage c)),
     (''download_hash_calculation'', JBool (browc_download_hash_calculation c)), (''incognito_mode'',
     JString (incognito_mode_name (browc_incognito_mode c))), (''extension_allowlist'',
     JArray (map (\<lambda>x. JString (x)) (browc_extension_allowlist c))),
     (''native_messaging_enabled'', JBool (browc_native_messaging_enabled c)),
     (''poll_interval_seconds'', JInt (uint (browc_poll_interval_seconds c)))]"

record startup_collector_config =
  startc_enabled :: bool
  startc_scan_interval_hours :: u32
  startc_monitor_registry_run_keys :: bool
  startc_monitor_scheduled_tasks :: bool
  startc_monitor_services :: bool
  startc_monitor_startup_folder :: bool
  startc_monitor_winlogon :: bool
  startc_monitor_systemd :: bool
  startc_monitor_cron :: bool
  startc_monitor_launchd :: bool
  startc_monitor_shell_profiles :: bool
  startc_monitor_browser_extensions :: bool
  startc_verify_signatures :: bool
  startc_alert_on_unsigned :: bool

definition startup_collector_config_default :: startup_collector_config where
  "startup_collector_config_default = \<lparr> startc_enabled = True, startc_scan_interval_hours = 4,
     startc_monitor_registry_run_keys = True, startc_monitor_scheduled_tasks = True,
     startc_monitor_services = True, startc_monitor_startup_folder = True,
     startc_monitor_winlogon = True, startc_monitor_systemd = True, startc_monitor_cron = True,
     startc_monitor_launchd = True, startc_monitor_shell_profiles = True,
     startc_monitor_browser_extensions = True, startc_verify_signatures = True,
     startc_alert_on_unsigned = True \<rparr>"

definition startup_collector_config_valid :: "startup_collector_config \<Rightarrow> bool" where
  "startup_collector_config_valid c \<longleftrightarrow> 1 \<le> startc_scan_interval_hours c \<and> startc_scan_interval_hours c \<le> 168"

definition startup_collector_config_json :: "startup_collector_config \<Rightarrow> json" where
  "startup_collector_config_json c = JObject [(''enabled'', JBool (startc_enabled c)), (''scan_interval_hours'',
     JInt (uint (startc_scan_interval_hours c))), (''monitor_registry_run_keys'',
     JBool (startc_monitor_registry_run_keys c)), (''monitor_scheduled_tasks'',
     JBool (startc_monitor_scheduled_tasks c)), (''monitor_services'',
     JBool (startc_monitor_services c)), (''monitor_startup_folder'',
     JBool (startc_monitor_startup_folder c)), (''monitor_winlogon'', JBool (startc_monitor_winlogon c)),
     (''monitor_systemd'', JBool (startc_monitor_systemd c)), (''monitor_cron'',
     JBool (startc_monitor_cron c)), (''monitor_launchd'', JBool (startc_monitor_launchd c)),
     (''monitor_shell_profiles'', JBool (startc_monitor_shell_profiles c)),
     (''monitor_browser_extensions'', JBool (startc_monitor_browser_extensions c)),
     (''verify_signatures'', JBool (startc_verify_signatures c)), (''alert_on_unsigned'',
     JBool (startc_alert_on_unsigned c))]"

record collectors_config =
  coll_sample_rate :: f64
  coll_backpressure_response :: backpressure_response
  coll_process :: process_collector_config
  coll_network :: network_collector_config
  coll_file :: file_collector_config
  coll_registry :: registry_collector_config
  coll_usb :: usb_collector_config
  coll_browser :: browser_collector_config
  coll_startup :: startup_collector_config

definition collectors_config_default :: collectors_config where
  "collectors_config_default = \<lparr> coll_sample_rate = Fin 1, coll_backpressure_response = BPR_Throttle,
     coll_process = process_collector_config_default, coll_network = network_collector_config_default,
     coll_file = file_collector_config_default, coll_registry = registry_collector_config_default,
     coll_usb = usb_collector_config_default, coll_browser = browser_collector_config_default,
     coll_startup = startup_collector_config_default \<rparr>"

definition collectors_config_valid :: "collectors_config \<Rightarrow> bool" where
  "collectors_config_valid c \<longleftrightarrow> in_range (Fin 0) (Fin 1) (coll_sample_rate c)"

definition collectors_config_json :: "collectors_config \<Rightarrow> json" where
  "collectors_config_json c = JObject [(''sample_rate'', json_of_f64 (coll_sample_rate c)), (''backpressure_response'',
     JString (backpressure_response_name (coll_backpressure_response c))), (''process'',
     process_collector_config_json (coll_process c)), (''network'',
     network_collector_config_json (coll_network c)), (''file'',
     file_collector_config_json (coll_file c)), (''registry'',
     registry_collector_config_json (coll_registry c)), (''usb'',
     usb_collector_config_json (coll_usb c)), (''browser'',
     browser_collector_config_json (coll_browser c)), (''startup'',
     startup_collector_config_json (coll_startup c))]"

record threat_intel_provider_config =
  prov_name :: string
  prov_provider_type :: string
  prov_path :: "string option"
  prov_api_key_secret :: "string option"

definition threat_intel_provider_config_json :: "threat_intel_provider_config \<Rightarrow> json" where
  "threat_intel_provider_config_json c = JObject [(''name'', JString (prov_name c)), (''provider_type'', JString (prov_provider_type c)), (''path'',
     (case prov_path c of None \<Rightarrow> JNull | Some x \<Rightarrow> JString (x))),
     (''api_key_secret'',
     (case prov_api_key_secret c of None \<Rightarrow> JNull | Some x \<Rightarrow> JString (x)))]"

record threat_intel_config =
  intel_enabled :: bool
  intel_providers :: "threat_intel_provider_config list"
  intel_update_interval_hours :: u32
  intel_max_iocs :: usize

definition threat_intel_config_default :: threat_intel_config where
  "threat_intel_config_default = \<lparr> intel_enabled = True, intel_providers = [\<lparr> prov_name = ''local'',
     prov_provider_type = ''file'', prov_path = Some (''data/threat_intel/''),
     prov_api_key_secret = None \<rparr>], intel_update_interval_hours = 6,
     intel_max_iocs = 1000000 \<rparr>"

definition threat_intel_config_valid :: "threat_intel_config \<Rightarrow> bool" where
  "threat_intel_config_valid c \<longleftrightarrow> 1 \<le> intel_update_interval_hours c \<and> intel_update_interval_hours c \<le> 168
     \<and> 1000 \<le> intel_max_iocs c \<and> intel_max_iocs c \<le> 10000000"

definition threat_intel_config_json :: "threat_intel_config \<Rightarrow> json" where
  "threat_intel_config_json c = JObject [(''enabled'', JBool (intel_enabled c)), (''providers'',
     JArray (map (\<lambda>x. threat_intel_provider_config_json (x)) (intel_providers c))),
     (''update_interval_hours'', JInt (uint (intel_update_interval_hours c))), (''max_iocs'',
     JInt (uint (intel_max_iocs c)))]"

record app_privacy_config =
  priv_telemetry_enabled :: bool
  priv_crash_reporting :: bool
  priv_ai_local_only :: bool
  priv_data_sharing :: bool
  priv_anonymize_host_id :: bool
  priv_strip_command_line_secrets :: bool
  priv_strip_environment_secrets :: bool

definition app_privacy_config_default :: app_privacy_config where
  "app_privacy_config_default = \<lparr> priv_telemetry_enabled = False, priv_crash_reporting = False, priv_ai_local_only = True,
     priv_data_sharing = False, priv_anonymize_host_id = True, priv_strip_command_line_secrets = True,
     priv_strip_environment_secrets = True \<rparr>"

definition app_privacy_config_json :: "app_privacy_config \<Rightarrow> json" where
  "app_privacy_config_json c = JObject [(''telemetry_enabled'', JBool (priv_telemetry_enabled c)), (''crash_reporting'',
     JBool (priv_crash_reporting c)), (''ai_local_only'', JBool (priv_ai_local_only c)),
     (''data_sharing'', JBool (priv_data_sharing c)), (''anonymize_host_id'',
     JBool (priv_anonymize_host_id c)), (''strip_command_line_secrets'',
     JBool (priv_strip_command_line_secrets c)), (''strip_environment_secrets'',
     JBool (priv_strip_environment_secrets c))]"

datatype log_level = LL_Trace | LL_Debug | LL_Info | LL_Warn | LL_Error

fun log_level_name :: "log_level \<Rightarrow> string" where
  "log_level_name LL_Trace = ''trace''"
| "log_level_name LL_Debug = ''debug''"
| "log_level_name LL_Info = ''info''"
| "log_level_name LL_Warn = ''warn''"
| "log_level_name LL_Error = ''error''"

datatype log_format = LF_Json | LF_Text | LF_Pretty

fun log_format_name :: "log_format \<Rightarrow> string" where
  "log_format_name LF_Json = ''json''"
| "log_format_name LF_Text = ''text''"
| "log_format_name LF_Pretty = ''pretty''"

datatype log_output = LO_Stdout | LO_File | LO_Both

fun log_output_name :: "log_output \<Rightarrow> string" where
  "log_output_name LO_Stdout = ''stdout''"
| "log_output_name LO_File = ''file''"
| "log_output_name LO_Both = ''both''"

record logging_config =
  log_level :: log_level
  log_format :: log_format
  log_output :: log_output
  log_file_path :: string
  log_max_file_size_mb :: u32
  log_max_files :: u32
  log_include_timestamp :: bool
  log_include_thread :: bool
  log_include_location :: bool

definition logging_config_default :: logging_config where
  "logging_config_default = \<lparr> log_level = LL_Info, log_format = LF_Json, log_output = LO_File,
     log_file_path = ''logs/sentinel.log'', log_max_file_size_mb = 100, log_max_files = 10,
     log_include_timestamp = True, log_include_thread = True, log_include_location = False \<rparr>"

definition logging_config_valid :: "logging_config \<Rightarrow> bool" where
  "logging_config_valid c \<longleftrightarrow> 1 \<le> log_max_file_size_mb c \<and> log_max_file_size_mb c \<le> 1000
     \<and> 1 \<le> log_max_files c \<and> log_max_files c \<le> 100"

definition logging_config_json :: "logging_config \<Rightarrow> json" where
  "logging_config_json c = JObject [(''level'', JString (log_level_name (log_level c))), (''format'',
     JString (log_format_name (log_format c))), (''output'', JString (log_output_name (log_output c))),
     (''file_path'', JString (log_file_path c)), (''max_file_size_mb'',
     JInt (uint (log_max_file_size_mb c))), (''max_files'', JInt (uint (log_max_files c))),
     (''include_timestamp'', JBool (log_include_timestamp c)), (''include_thread'',
     JBool (log_include_thread c)), (''include_location'', JBool (log_include_location c))]"

end
