(* ===== verification/Config.thy ===== *)
theory Config
  imports Config_Collectors Errors
begin

text \<open>
  The configuration manager (crates/sentinel-config): the whole configuration and its sections
  (lib.rs), secrets (secrets.rs), migration (migration.rs), the conversion from TOML and the
  registry of schemas (schema.rs, lib.rs).  Parameters are the TOML and environment reader with
  serde's \<open>Deserialize\<close>, base64 and the age encryption.
\<close>

section \<open>The whole configuration\<close>

record app_config =
  ac_core :: core_config
  ac_grpc :: grpc_config
  ac_rest_gateway :: rest_gateway_config
  ac_storage :: storage_config
  ac_event_bus :: event_bus_config
  ac_rule_engine :: rule_engine_config
  ac_risk_engine :: risk_engine_config
  ac_correlation_engine :: app_correlation_config
  ac_ai_engine :: ai_engine_config
  ac_plugin_manager :: plugin_manager_config
  ac_collectors :: collectors_config
  ac_threat_intel :: threat_intel_config
  ac_privacy :: app_privacy_config
  ac_logging :: logging_config

definition app_config_default :: app_config where
  "app_config_default = \<lparr> ac_core = core_config_default, ac_grpc = grpc_config_default,
     ac_rest_gateway = rest_gateway_config_default, ac_storage = storage_config_default,
     ac_event_bus = event_bus_config_default, ac_rule_engine = rule_engine_config_default,
     ac_risk_engine = risk_engine_config_default, ac_correlation_engine = app_correlation_config_default,
     ac_ai_engine = ai_engine_config_default, ac_plugin_manager = plugin_manager_config_default,
     ac_collectors = collectors_config_default, ac_threat_intel = threat_intel_config_default,
     ac_privacy = app_privacy_config_default, ac_logging = logging_config_default \<rparr>"

definition app_config_json :: "app_config \<Rightarrow> json" where
  "app_config_json c = JObject [(''core'', core_config_json (ac_core c)), (''grpc'', grpc_config_json (ac_grpc c)),
     (''rest_gateway'', rest_gateway_config_json (ac_rest_gateway c)), (''storage'', storage_config_json (ac_storage c)),
     (''event_bus'', event_bus_config_json (ac_event_bus c)), (''rule_engine'', rule_engine_config_json (ac_rule_engine c)),
     (''risk_engine'', risk_engine_config_json (ac_risk_engine c)),
     (''correlation_engine'', app_correlation_config_json (ac_correlation_engine c)),
     (''ai_engine'', ai_engine_config_json (ac_ai_engine c)),
     (''plugin_manager'', plugin_manager_config_json (ac_plugin_manager c)),
     (''collectors'', collectors_config_json (ac_collectors c)),
     (''threat_intel'', threat_intel_config_json (ac_threat_intel c)),
     (''privacy'', app_privacy_config_json (ac_privacy c)), (''logging'', logging_config_json (ac_logging c))]"

text \<open>The derived \<open>Validate\<close> of \<open>AppConfig\<close>: none of its fields has a \<open>validate\<close> attribute, so no
  section is looked at.  The list has the names of the sections with errors.\<close>

definition app_config_errors :: "app_config \<Rightarrow> string list" where
  "app_config_errors c = []"

text \<open>What the attributes inside the sections ask for.\<close>

definition storage_sections_valid :: "app_config \<Rightarrow> bool" where
  "storage_sections_valid c \<longleftrightarrow> storage_config_valid (ac_storage c)
     \<and> list_all aggregation_config_valid (store_aggregations (ac_storage c))
     \<and> event_bus_config_valid (ac_event_bus c)"

definition engine_sections_valid :: "app_config \<Rightarrow> bool" where
  "engine_sections_valid c \<longleftrightarrow> rule_engine_config_valid (ac_rule_engine c)
     \<and> list_all risk_multiplier_config_valid (rulec_default_multipliers (ac_rule_engine c))
     \<and> decay_half_life_config_valid (riskc_decay_half_life (ac_risk_engine c))
     \<and> alert_thresholds_config_valid (riskc_alert_thresholds (ac_risk_engine c))
     \<and> escalation_config_valid (riskc_escalation (ac_risk_engine c))
     \<and> asset_criticality_config_valid (riskc_asset_criticality (ac_risk_engine c))
     \<and> app_correlation_config_valid (ac_correlation_engine c)
     \<and> flow_tracking_config_valid (corr_flow_tracking (ac_correlation_engine c))"

definition ai_sections_valid :: "app_config \<Rightarrow> bool" where
  "ai_sections_valid c \<longleftrightarrow> ollama_config_valid (ai_ollama (ac_ai_engine c))
     \<and> llama_cpp_config_valid (ai_llama_cpp (ac_ai_engine c))
     \<and> generation_config_valid (ai_generation (ac_ai_engine c))
     \<and> context_config_valid (ai_context (ac_ai_engine c))
     \<and> plugin_manager_config_valid (ac_plugin_manager c)
     \<and> threat_intel_config_valid (ac_threat_intel c) \<and> logging_config_valid (ac_logging c)"

definition collector_sections_valid :: "app_config \<Rightarrow> bool" where
  "collector_sections_valid c \<longleftrightarrow> (let k = ac_collectors c in
     collectors_config_valid k \<and> process_collector_config_valid (coll_process k)
     \<and> network_collector_config_valid (coll_network k) \<and> file_collector_config_valid (coll_file k)
     \<and> registry_collector_config_valid (coll_registry k) \<and> usb_collector_config_valid (coll_usb k)
     \<and> browser_collector_config_valid (coll_browser k) \<and> startup_collector_config_valid (coll_startup k))"

definition sections_valid :: "app_config \<Rightarrow> bool" where
  "sections_valid c \<longleftrightarrow> core_config_valid (ac_core c) \<and> grpc_config_valid (ac_grpc c)
     \<and> rest_gateway_config_valid (ac_rest_gateway c) \<and> storage_sections_valid c \<and> engine_sections_valid c
     \<and> ai_sections_valid c \<and> collector_sections_valid c"

lemmas engine_valid_defs = storage_config_valid_def aggregation_config_valid_def event_bus_config_valid_def
  rule_engine_config_valid_def risk_multiplier_config_valid_def decay_half_life_config_valid_def
  alert_thresholds_config_valid_def escalation_config_valid_def asset_criticality_config_valid_def
  app_correlation_config_valid_def flow_tracking_config_valid_def

lemmas engine_default_defs = storage_config_default_def event_bus_config_default_def
  rule_engine_config_default_def decay_half_life_config_default_def alert_thresholds_config_default_def
  escalation_config_default_def asset_criticality_config_default_def risk_engine_config_default_def
  app_correlation_config_default_def flow_tracking_config_default_def

lemma default_storage_valid: "storage_sections_valid app_config_default"
  by (simp add: storage_sections_valid_def app_config_default_def engine_valid_defs engine_default_defs)

lemma default_engines_valid: "engine_sections_valid app_config_default"
  by (simp add: engine_sections_valid_def app_config_default_def engine_valid_defs engine_default_defs
      in_range_def f64_lt_def)

lemma default_ai_valid: "ai_sections_valid app_config_default"
  by (simp add: ai_sections_valid_def app_config_default_def ai_engine_config_default_def ollama_config_default_def
      llama_cpp_config_default_def generation_config_default_def context_config_default_def
      plugin_manager_config_default_def threat_intel_config_default_def logging_config_default_def
      ollama_config_valid_def llama_cpp_config_valid_def generation_config_valid_def context_config_valid_def
      plugin_manager_config_valid_def threat_intel_config_valid_def logging_config_valid_def in_range_def f64_lt_def)

lemma default_collectors_valid: "collector_sections_valid app_config_default"
  by (simp add: collector_sections_valid_def app_config_default_def collectors_config_default_def
      process_collector_config_default_def network_collector_config_default_def file_collector_config_default_def
      registry_collector_config_default_def usb_collector_config_default_def browser_collector_config_default_def
      startup_collector_config_default_def collectors_config_valid_def process_collector_config_valid_def
      network_collector_config_valid_def file_collector_config_valid_def registry_collector_config_valid_def
      usb_collector_config_valid_def browser_collector_config_valid_def startup_collector_config_valid_def
      in_range_def f64_lt_def)

text \<open>
  The built-in defaults meet every range and length the sections ask for, with one exception:
  the default host id is empty where a name is required.  A host id is all that is missing.
\<close>

theorem defaults_meet_constraints:
  "\<not> sections_valid app_config_default \<and>
   (sections_valid (app_config_default\<lparr> ac_core := core_config_default\<lparr> core_host_id := h \<rparr> \<rparr>) \<longleftrightarrow> h \<noteq> [])"
proof -
  have core: "core_config_valid (core_config_default\<lparr> core_host_id := h \<rparr>) \<longleftrightarrow> h \<noteq> []" for h
    by (simp add: core_config_valid_def core_config_default_def)
  have def_core: "core_config_default = core_config_default\<lparr> core_host_id := [] \<rparr>"
    by (simp add: core_config_default_def)
  have rest: "grpc_config_valid (ac_grpc app_config_default)" "rest_gateway_config_valid (ac_rest_gateway app_config_default)"
    by (simp_all add: app_config_default_def grpc_config_default_def grpc_config_valid_def
        rest_gateway_config_default_def rest_gateway_config_valid_def)
  have keep: "storage_sections_valid (app_config_default\<lparr> ac_core := x \<rparr>)" "engine_sections_valid (app_config_default\<lparr> ac_core := x \<rparr>)"
    "ai_sections_valid (app_config_default\<lparr> ac_core := x \<rparr>)" "collector_sections_valid (app_config_default\<lparr> ac_core := x \<rparr>)" for x
    using default_storage_valid default_engines_valid default_ai_valid default_collectors_valid
    by (simp_all add: storage_sections_valid_def engine_sections_valid_def ai_sections_valid_def collector_sections_valid_def)
  have "\<not> core_config_valid (ac_core app_config_default)"
    using core [of "[]"] def_core by (simp add: app_config_default_def)
  with core rest keep show ?thesis by (simp add: sections_valid_def)
qed

text \<open>\<open>get_section_value\<close> looks the path up as one key, so only whole sections are found.\<close>

definition get_section_value :: "string \<Rightarrow> app_config \<Rightarrow> json" where
  "get_section_value path c = (case json_get (app_config_json c) path of Some v \<Rightarrow> v | None \<Rightarrow> JNull)"

definition get_section :: "(json \<Rightarrow> string + 'a) \<Rightarrow> string \<Rightarrow> app_config \<Rightarrow> config_error + 'a option" where
  "get_section parse path c =
     (let v = get_section_value path c in
      if v = JNull then Inr None
      else case parse v of Inl msg \<Rightarrow> Inl (CE_Parse msg) | Inr x \<Rightarrow> Inr (Some x))"

definition section_names :: "string list" where
  "section_names = [''core'', ''grpc'', ''rest_gateway'', ''storage'', ''event_bus'', ''rule_engine'', ''risk_engine'',
     ''correlation_engine'', ''ai_engine'', ''plugin_manager'', ''collectors'', ''threat_intel'', ''privacy'', ''logging'']"

lemma app_config_keys: "\<exists>fs. app_config_json c = JObject fs \<and> map fst fs = section_names"
  by (simp add: app_config_json_def section_names_def)

lemma app_config_other_key: "key \<notin> set section_names \<Longrightarrow> json_get (app_config_json c) key = None"
  using app_config_keys [of c] by (auto simp: map_of_eq_None_iff simp flip: set_map)

lemma get_section_value_other: "path \<notin> set section_names \<Longrightarrow> get_section_value path c = JNull"
  by (simp add: get_section_value_def app_config_other_key)

text \<open>A path with a dot, as \<open>core.host_id\<close>, finds nothing.\<close>

lemma nested_path_not_found: "CHR ''.'' \<in> set path \<Longrightarrow> get_section_value path c = JNull"
  by (rule get_section_value_other) (auto simp: section_names_def)

section \<open>Secrets (secrets.rs)\<close>

text \<open>The environment: \<open>base64::decode\<close> succeeds, age with the key of the manager, and serde's
  reader of a configuration.\<close>

record secrets_env =
  sn_base64_ok :: "string \<Rightarrow> bool"
  sn_encrypt :: "string \<Rightarrow> string \<Rightarrow> string + string"
  sn_decrypt :: "string \<Rightarrow> string \<Rightarrow> string + string"
  sn_from_value :: "json \<Rightarrow> string + app_config"

record secrets_manager =
  sm_identity :: "string option"
  sm_recipient :: "string option"
  sm_secrets_path :: "string option"

definition secrets_manager_new :: secrets_manager where
  "secrets_manager_new = \<lparr> sm_identity = None, sm_recipient = None, sm_secrets_path = None \<rparr>"

definition is_encrypted :: "secrets_env \<Rightarrow> string \<Rightarrow> bool" where
  "is_encrypted v s \<longleftrightarrow> \<not> length s < 50 \<and> sn_base64_ok v s"

definition secret_encrypt :: "secrets_env \<Rightarrow> secrets_manager \<Rightarrow> string \<Rightarrow> string + string" where
  "secret_encrypt v m s = (case sm_recipient m of None \<Rightarrow> Inl ''No recipient configured for encryption''
     | Some r \<Rightarrow> sn_encrypt v r s)"

definition secret_decrypt :: "secrets_env \<Rightarrow> secrets_manager \<Rightarrow> string \<Rightarrow> string + string" where
  "secret_decrypt v m s = (case sm_identity m of None \<Rightarrow> Inl ''No identity configured for decryption''
     | Some i \<Rightarrow> if \<not> sn_base64_ok v s then Inl ''Failed to decode base64'' else sn_decrypt v i s)"

text \<open>A secret that does not decrypt stays as it is.\<close>

fun decrypt_value :: "secrets_env \<Rightarrow> secrets_manager \<Rightarrow> json \<Rightarrow> json" where
  "decrypt_value v m (JString s) =
     (if is_encrypted v s
      then case secret_decrypt v m s of Inr p \<Rightarrow> JString p | Inl e \<Rightarrow> JString s
      else JString s)"
| "decrypt_value v m (JObject kvs) = JObject (map (\<lambda>(k, x). (k, decrypt_value v m x)) kvs)"
| "decrypt_value v m (JArray xs) = JArray (map (decrypt_value v m) xs)"
| "decrypt_value v m j = j"

definition decrypt_config :: "secrets_env \<Rightarrow> secrets_manager \<Rightarrow> app_config \<Rightarrow> string + app_config" where
  "decrypt_config v m c =
     (if sm_identity m = None then Inr c else sn_from_value v (decrypt_value v m (app_config_json c)))"

text \<open>One path: every part but the last is entered, the last is encrypted in place.\<close>

fun encrypt_at :: "secrets_env \<Rightarrow> secrets_manager \<Rightarrow> string list \<Rightarrow> json \<Rightarrow> string + json" where
  "encrypt_at v m [] j = Inr j"
| "encrypt_at v m [part] j = (case j of
     JObject kvs \<Rightarrow> (case map_of kvs part of
       Some (JString s) \<Rightarrow>
         if \<not> is_encrypted v s \<and> s \<noteq> []
         then case secret_encrypt v m s of Inl e \<Rightarrow> Inl e
              | Inr e \<Rightarrow> Inr (JObject (AList.update part (JString e) kvs))
         else Inr j
     | _ \<Rightarrow> Inr j)
   | _ \<Rightarrow> Inr j)"
| "encrypt_at v m (part # rest) j = (case j of
     JObject kvs \<Rightarrow> (case map_of kvs part of
       Some x \<Rightarrow> (case encrypt_at v m rest x of Inl e \<Rightarrow> Inl e
                 | Inr x' \<Rightarrow> Inr (JObject (AList.update part x' kvs)))
     | None \<Rightarrow> Inr j)
   | _ \<Rightarrow> Inr j)"

definition encrypt_path :: "secrets_env \<Rightarrow> secrets_manager \<Rightarrow> json \<Rightarrow> string \<Rightarrow> string + json" where
  "encrypt_path v m j path = encrypt_at v m (str_split (\<lambda>c. c = CHR ''.'') path) j"

fun encrypt_paths :: "secrets_env \<Rightarrow> secrets_manager \<Rightarrow> json \<Rightarrow> string list \<Rightarrow> string + json" where
  "encrypt_paths v m j [] = Inr j"
| "encrypt_paths v m j (p # ps) = (case encrypt_path v m j p of Inl e \<Rightarrow> Inl e | Inr j' \<Rightarrow> encrypt_paths v m j' ps)"

definition sensitive_paths :: "string list" where
  "sensitive_paths = [''virustotal.api_key'', ''abuseipdb.api_key'', ''otx.api_key'', ''shodan.api_key'',
     ''hybrid_analysis.api_key'', ''discord.webhook_url'', ''telegram.bot_token'', ''slack.webhook_url'',
     ''slack.bot_token'', ''email.smtp_password'', ''home_assistant.long_lived_token'', ''openai.api_key'']"

definition encrypt_sensitive_fields :: "secrets_env \<Rightarrow> secrets_manager \<Rightarrow> app_config \<Rightarrow> string + app_config" where
  "encrypt_sensitive_fields v m c =
     (if sm_recipient m = None then Inr c
      else case encrypt_paths v m (app_config_json c) sensitive_paths of
        Inl e \<Rightarrow> Inl e | Inr j \<Rightarrow> sn_from_value v j)"

text \<open>
  Encryption of the sensitive fields never encrypts anything.  None of the twelve paths names
  a section of the configuration, so whatever the configuration, the keys and the cipher, the
  JSON goes back unchanged.
\<close>

theorem sensitive_fields_never_encrypted:
  "encrypt_paths v m (app_config_json c) sensitive_paths = Inr (app_config_json c)"
proof -
  have miss: "encrypt_path v m (app_config_json c) path = Inr (app_config_json c)"
    if "str_split (\<lambda>c. c = CHR ''.'') path = [p, q]" "p \<notin> set section_names" for path p q
    using app_config_other_key [OF that(2), of c] app_config_keys [of c] that(1)
    by (auto simp: encrypt_path_def json_get_def)
  show ?thesis
    by (simp add: sensitive_paths_def miss section_names_def)
qed

text \<open>Encrypting a path and decrypting the document.\<close>

definition plain :: "secrets_env \<Rightarrow> secrets_manager \<Rightarrow> json \<Rightarrow> bool" where
  "plain v m j \<longleftrightarrow> decrypt_value v m j = j"

text \<open>The value a path leads to.\<close>

fun json_at :: "string list \<Rightarrow> json \<Rightarrow> json option" where
  "json_at [] j = Some j"
| "json_at (part # rest) j = (case json_get j part of None \<Rightarrow> None | Some x \<Rightarrow> json_at rest x)"

definition path_parts :: "string \<Rightarrow> string list" where
  "path_parts = str_split (\<lambda>c. c = CHR ''.'')"

text \<open>One level down: the part of the object is missing or it is not an object, or its value is replaced.\<close>

lemma encrypt_at_cases:
  assumes "encrypt_at v m (part # rest) j = Inr j'"
  obtains (same) "j' = j" "json_get j part = None"
  | (leaf) kvs x where "rest = []" "j = JObject kvs" "map_of kvs part = Some x"
      "j' = j" "\<And>s. x = JString s \<Longrightarrow> is_encrypted v s \<or> s = []"
  | (secret) kvs s e where "rest = []" "j = JObject kvs" "map_of kvs part = Some (JString s)" "\<not> is_encrypted v s" "s \<noteq> []"
      "secret_encrypt v m s = Inr e" "j' = JObject (AList.update part (JString e) kvs)"
  | (deeper) kvs x x' where "rest \<noteq> []" "j = JObject kvs" "map_of kvs part = Some x" "encrypt_at v m rest x = Inr x'"
      "j' = JObject (AList.update part x' kvs)"
proof (cases "json_get j part")
  case None
  with assms have "j' = j"
    by (cases rest; cases j) (auto simp: json_get_def split: option.splits)
  with None same show thesis by blast
next
  case (Some x)
  then obtain kvs where j: "j = JObject kvs" "map_of kvs part = Some x"
    by (auto simp: json_get_def split: json.splits)
  show thesis
  proof (cases rest)
    case Nil
    show thesis
    proof (cases "\<exists>s. x = JString s \<and> \<not> is_encrypted v s \<and> s \<noteq> []")
      case True
      then obtain s where s: "x = JString s" "\<not> is_encrypted v s" "s \<noteq> []" by blast
      with assms j Nil obtain e where "secret_encrypt v m s = Inr e" "j' = JObject (AList.update part (JString e) kvs)"
        by (auto split: sum.splits)
      with secret Nil j s show thesis by blast
    next
      case False
      with assms j Nil have "j' = j" by (auto split: json.splits if_splits sum.splits)
      with leaf Nil j False show thesis by blast
    qed
  next
    case (Cons q r)
    with assms j obtain x' where "encrypt_at v m rest x = Inr x'" "j' = JObject (AList.update part x' kvs)"
      by (auto split: sum.splits)
    with deeper Cons j show thesis by blast
  qed
qed

lemma map_update_value:
  "map_of kvs k = Some x \<Longrightarrow> f (k, y) = f (k, x) \<Longrightarrow> map f (AList.update k y kvs) = map f kvs"
  by (induction kvs) (auto split: if_splits)

text \<open>A cipher that gives back what it was given, with ciphertexts that look like some.\<close>

definition cipher_sound :: "secrets_env \<Rightarrow> secrets_manager \<Rightarrow> bool" where
  "cipher_sound v m \<longleftrightarrow> (\<forall>s e. secret_encrypt v m s = Inr e \<longrightarrow> is_encrypted v e \<and> secret_decrypt v m e = Inr s)"

lemma encrypt_at_undone:
  assumes "cipher_sound v m"
  shows "encrypt_at v m path j = Inr j' \<Longrightarrow> decrypt_value v m j' = decrypt_value v m j"
proof (induction path arbitrary: j j')
  case (Cons part rest)
  from Cons.prems show ?case
  proof (cases rule: encrypt_at_cases)
    case (secret kvs s e)
    with assms have "decrypt_value v m (JString e) = decrypt_value v m (JString s)"
      by (simp add: cipher_sound_def)
    with secret show ?thesis by (simp add: map_update_value del: decrypt_value.simps(1))
  next
    case (deeper kvs x x')
    with Cons.IH [of x x'] show ?thesis by (simp add: map_update_value)
  qed simp_all
qed simp

text \<open>What encrypting one path does to the strings at any other: they stay, or they are sealed, which only
  happens to a string that is not empty and does not look encrypted.\<close>

definition sealed :: "secrets_env \<Rightarrow> secrets_manager \<Rightarrow> string \<Rightarrow> string \<Rightarrow> bool" where
  "sealed v m s e \<longleftrightarrow> \<not> is_encrypted v s \<and> s \<noteq> [] \<and> secret_encrypt v m s = Inr e"

lemma encrypt_at_elsewhere:
  "encrypt_at v m path j = Inr j' \<Longrightarrow> json_at q j = Some (JString s) \<Longrightarrow>
    \<exists>s'. json_at q j' = Some (JString s') \<and> (s' = s \<or> sealed v m s s')"
proof (induction path arbitrary: j j' q)
  case (Cons part rest)
  show ?case
  proof (cases q)
    case Nil
    with Cons.prems show ?thesis by (cases rest) auto
  next
    case (Cons p ps)
    from Cons.prems(1) show ?thesis
    proof (cases rule: encrypt_at_cases)
      case (secret kvs t e)
      with Cons Cons.prems(2) show ?thesis
        by (cases "p = part"; cases ps) (auto simp: sealed_def json_get_def update_conv')
    next
      case (deeper kvs x x')
      with Cons.IH [of x x' ps] Cons Cons.prems(2) show ?thesis
        by (cases "p = part") (auto simp: update_conv')
    qed (use Cons.prems(2) in auto)
  qed
qed auto

text \<open>At the path itself such a string is sealed.\<close>

lemma encrypt_at_path:
  "path \<noteq> [] \<Longrightarrow> encrypt_at v m path j = Inr j' \<Longrightarrow> json_at path j = Some (JString s) \<Longrightarrow> s \<noteq> [] \<Longrightarrow>
    \<not> is_encrypted v s \<Longrightarrow> \<exists>e. json_at path j' = Some (JString e) \<and> secret_encrypt v m s = Inr e"
proof (induction path arbitrary: j j')
  case (Cons part rest)
  from Cons.prems(2) show ?case
  proof (cases rule: encrypt_at_cases)
    case (leaf kvs x)
    with Cons.prems show ?thesis by auto
  next
    case (secret kvs t e)
    with Cons.prems show ?thesis by (simp add: update_conv')
  next
    case (deeper kvs x x')
    with Cons.IH [of x x'] Cons.prems show ?thesis by (simp add: update_conv')
  qed (use Cons.prems in simp)
qed simp

lemma encrypt_paths_undone:
  assumes "cipher_sound v m"
  shows "encrypt_paths v m j paths = Inr j' \<Longrightarrow> decrypt_value v m j' = decrypt_value v m j"
  by (induction paths arbitrary: j) (auto simp: encrypt_path_def encrypt_at_undone [OF assms] split: sum.splits)

lemma encrypt_paths_elsewhere:
  assumes "cipher_sound v m"
  shows "encrypt_paths v m j paths = Inr j' \<Longrightarrow> json_at q j = Some (JString s) \<Longrightarrow>
    \<exists>s'. json_at q j' = Some (JString s') \<and> (s' = s \<or> sealed v m s s')"
proof (induction paths arbitrary: j s)
  case (Cons p ps)
  then obtain i where i: "encrypt_at v m (path_parts p) j = Inr i" "encrypt_paths v m i ps = Inr j'"
    by (auto simp: encrypt_path_def path_parts_def split: sum.splits)
  from encrypt_at_elsewhere [OF i(1) Cons.prems(2)] obtain t where
    t: "json_at q i = Some (JString t)" "t = s \<or> sealed v m s t" by blast
  from Cons.IH [OF i(2) t(1)] obtain u where u: "json_at q j' = Some (JString u)" "u = t \<or> sealed v m t u" by blast
  moreover have "\<not> sealed v m t u" if "sealed v m s t"
    using that assms by (auto simp: sealed_def cipher_sound_def)
  ultimately show ?case using t(2) by blast
qed auto

lemma encrypt_paths_all:
  assumes "cipher_sound v m"
  shows "encrypt_paths v m j paths = Inr j' \<Longrightarrow> p \<in> set paths \<Longrightarrow> json_at (path_parts p) j = Some (JString s) \<Longrightarrow>
    s \<noteq> [] \<Longrightarrow> \<not> is_encrypted v s \<Longrightarrow> \<exists>e. json_at (path_parts p) j' = Some (JString e) \<and> secret_encrypt v m s = Inr e"
proof (induction paths arbitrary: j)
  case (Cons q qs)
  then obtain i where i: "encrypt_at v m (path_parts q) j = Inr i" "encrypt_paths v m i qs = Inr j'"
    by (auto simp: encrypt_path_def path_parts_def split: sum.splits)
  have done_before: "\<exists>e. json_at (path_parts p) j' = Some (JString e) \<and> secret_encrypt v m s = Inr e"
    if e: "json_at (path_parts p) i = Some (JString e)" "secret_encrypt v m s = Inr e" for e
    using encrypt_paths_elsewhere [OF assms i(2) e(1)] e(2) assms by (auto simp: sealed_def cipher_sound_def)
  show ?case
  proof (cases "p = q")
    case True
    have "path_parts p \<noteq> []" by (simp add: path_parts_def)
    with encrypt_at_path [OF _ i(1) [folded True] Cons.prems(3-5)] done_before show ?thesis by blast
  next
    case False
    from encrypt_at_elsewhere [OF i(1) Cons.prems(3)] obtain t where
      t: "json_at (path_parts p) i = Some (JString t)" "t = s \<or> sealed v m s t" by blast
    with Cons.IH [OF i(2)] False Cons.prems done_before show ?thesis by (auto simp: sealed_def)
  qed
qed simp


definition demo_cipher :: secrets_env where
  "demo_cipher = \<lparr> sn_base64_ok = \<lambda>s. starts_with s (replicate 50 (CHR ''A'')),
     sn_encrypt = \<lambda>r s. Inr (replicate 50 (CHR ''A'') @ s), sn_decrypt = \<lambda>i s. Inr (drop 50 s),
     sn_from_value = \<lambda>j. Inl [] \<rparr>"

definition demo_keys :: secrets_manager where
  "demo_keys = \<lparr> sm_identity = Some ''k'', sm_recipient = Some ''r'', sm_secrets_path = None \<rparr>"

lemma demo_cipher_sound: "cipher_sound demo_cipher demo_keys"
  by (auto simp: cipher_sound_def secret_encrypt_def secret_decrypt_def demo_cipher_def demo_keys_def is_encrypted_def)


text \<open>A wrong key leaves the ciphertext in place without an error.\<close>

lemma wrong_key_unnoticed:
  "is_encrypted v s \<Longrightarrow> secret_decrypt v m s = Inl e \<Longrightarrow> decrypt_value v m (JString s) = JString s"
  by simp

end
