(* ===== verification/Config_Manager.thy ===== *)
theory Config_Manager
  imports Config
begin

text \<open>
  Migration of a configuration (migration.rs), the manager that loads, reloads and updates it and
  the registry of schemas (lib.rs), and the conversion from TOML to JSON (schema.rs).
\<close>

section \<open>Migration\<close>

definition CURRENT_CONFIG_VERSION :: u32 where
  "CURRENT_CONFIG_VERSION = 1"

text \<open>The version is read from the host id.\<close>

definition get_version :: "app_config \<Rightarrow> u32" where
  "get_version c = (case parse_u32 (core_host_id (ac_core c)) of Some n \<Rightarrow> n | None \<Rightarrow> 0)"

definition set_version :: "u32 \<Rightarrow> app_config \<Rightarrow> app_config" where
  "set_version n c =
     (if core_host_id (ac_core c) = [] then c\<lparr> ac_core := (ac_core c)\<lparr> core_host_id := show_word n \<rparr> \<rparr> else c)"

definition if_empty :: "'a list \<Rightarrow> 'a list \<Rightarrow> 'a list" where
  "if_empty d xs = (if xs = [] then d else xs)"

definition migrate_to_v1 :: "app_config \<Rightarrow> app_config" where
  "migrate_to_v1 c = c\<lparr>
     ac_core := (ac_core c)\<lparr> core_instance_name := if_empty ''Sentinel AI'' (core_instance_name (ac_core c)) \<rparr>,
     ac_grpc := (ac_grpc c)\<lparr> grpc_address := if_empty ''127.0.0.1:7777'' (grpc_address (ac_grpc c)) \<rparr>,
     ac_storage := (ac_storage c)\<lparr> store_sqlite_path := if_empty ''data/sentinel.db'' (store_sqlite_path (ac_storage c)),
       store_duckdb_path := if_empty ''data/events.duckdb'' (store_duckdb_path (ac_storage c)) \<rparr>,
     ac_rule_engine := (ac_rule_engine c)\<lparr> rulec_rules_directories :=
       if_empty [''/etc/sentinel/rules/builtin'', ''/etc/sentinel/rules/custom'', ''~/.config/sentinel/rules/custom'']
         (rulec_rules_directories (ac_rule_engine c)) \<rparr>,
     ac_collectors := (ac_collectors c)\<lparr>
       coll_process := (coll_process (ac_collectors c))\<lparr> procc_exclude_paths :=
         if_empty (procc_exclude_paths process_collector_config_default) (procc_exclude_paths (coll_process (ac_collectors c))) \<rparr>,
       coll_network := (coll_network (ac_collectors c))\<lparr> netc_exclude_ports :=
         if_empty [53, 67, 68, 123, 1900, 5353, 5355] (netc_exclude_ports (coll_network (ac_collectors c))) \<rparr> \<rparr>,
     ac_ai_engine := (ac_ai_engine c)\<lparr> ai_model := if_empty ''llama-3.2-3b-instruct'' (ai_model (ac_ai_engine c)),
       ai_fallback_models := if_empty [''llama-3.1-8b-instruct'', ''qwen2.5-7b-instruct''] (ai_fallback_models (ac_ai_engine c)) \<rparr> \<rparr>"

definition migrate_to_version :: "nat \<Rightarrow> app_config \<Rightarrow> app_config" where
  "migrate_to_version n c = (if n = 1 then migrate_to_v1 c else c)"

definition migrate :: "app_config \<Rightarrow> app_config" where
  "migrate c =
     (if CURRENT_CONFIG_VERSION \<le> get_version c then c
      else set_version CURRENT_CONFIG_VERSION
        (fold migrate_to_version [Suc (unat (get_version c))..<Suc (unat CURRENT_CONFIG_VERSION)] c))"

text \<open>What a migrated configuration has.\<close>

definition required_present :: "app_config \<Rightarrow> bool" where
  "required_present c \<longleftrightarrow> core_instance_name (ac_core c) \<noteq> [] \<and> grpc_address (ac_grpc c) \<noteq> []
     \<and> store_sqlite_path (ac_storage c) \<noteq> [] \<and> store_duckdb_path (ac_storage c) \<noteq> []
     \<and> rulec_rules_directories (ac_rule_engine c) \<noteq> [] \<and> procc_exclude_paths (coll_process (ac_collectors c)) \<noteq> []
     \<and> netc_exclude_ports (coll_network (ac_collectors c)) \<noteq> [] \<and> ai_model (ac_ai_engine c) \<noteq> []
     \<and> ai_fallback_models (ac_ai_engine c) \<noteq> []"

lemma if_empty_nonempty [simp]: "d \<noteq> [] \<Longrightarrow> if_empty d xs \<noteq> []"
  by (simp add: if_empty_def)

lemma if_empty_same [simp]: "xs \<noteq> [] \<Longrightarrow> if_empty d xs = xs"
  by (simp add: if_empty_def)

lemma default_exclude_paths: "procc_exclude_paths process_collector_config_default \<noteq> []"
  by (simp add: process_collector_config_default_def)

lemma migrate_to_v1_present: "required_present (migrate_to_v1 c)"
  using default_exclude_paths by (simp add: required_present_def migrate_to_v1_def)

lemma migrate_to_v1_same: "required_present c \<Longrightarrow> migrate_to_v1 c = c"
  by (simp add: required_present_def migrate_to_v1_def)

lemma set_version_present [simp]: "required_present (set_version n c) = required_present c"
  by (simp add: required_present_def set_version_def)

lemma version_cases: "get_version c = 0 \<or> CURRENT_CONFIG_VERSION \<le> get_version c"
proof -
  have "w = 0 \<or> 1 \<le> w" for w :: u32
    by (simp add: word_le_nat_alt) (metis Suc_leI unat_gt_0)
  then show ?thesis by (simp add: CURRENT_CONFIG_VERSION_def)
qed

lemma migrate_unfold:
  "migrate c = (if CURRENT_CONFIG_VERSION \<le> get_version c then c else set_version 1 (migrate_to_v1 c))"
  using version_cases [of c]
  by (auto simp: migrate_def CURRENT_CONFIG_VERSION_def migrate_to_version_def)

text \<open>
  Migration settles in one step: migrating again changes nothing.  Unless the host id happens
  to be a positive number, which is taken for a version and skips everything, all required
  fields and a host id are then present; and what was there before is kept.
\<close>

theorem migrate_settles:
  "migrate (migrate c) = migrate c \<and>
   (CURRENT_CONFIG_VERSION \<le> get_version c \<and> migrate c = c \<or>
    required_present (migrate c) \<and> core_host_id (ac_core (migrate c)) \<noteq> []) \<and>
   (required_present c \<and> core_host_id (ac_core c) \<noteq> [] \<longrightarrow> migrate c = c)"
proof (cases "CURRENT_CONFIG_VERSION \<le> get_version c")
  case True
  then show ?thesis by (simp add: migrate_unfold)
next
  case False
  have h: "core_host_id (ac_core (migrate_to_v1 c)) = core_host_id (ac_core c)" by (simp add: migrate_to_v1_def)
  have id: "core_host_id (ac_core (set_version 1 (migrate_to_v1 c))) \<noteq> []"
    by (simp add: set_version_def show_word_def h)
  have present: "required_present (set_version 1 (migrate_to_v1 c))"
    by (simp add: migrate_to_v1_present)
  have again: "migrate (set_version 1 (migrate_to_v1 c)) = set_version 1 (migrate_to_v1 c)"
    using id present by (simp add: migrate_unfold migrate_to_v1_same) (simp add: set_version_def)
  have keep: "required_present c \<Longrightarrow> core_host_id (ac_core c) \<noteq> [] \<Longrightarrow> migrate c = c"
    using False by (simp add: migrate_unfold migrate_to_v1_same set_version_def)
  from False have m: "migrate c = set_version 1 (migrate_to_v1 c)" by (simp add: migrate_unfold)
  show ?thesis unfolding m using again id present keep m by simp
qed

lemma show_word_one [simp]: "show_word (1 :: u32) = ''1''"
  by (simp add: show_word_def show_nat.simps digit_char_def) code_simp

lemma migrate_settles_witness:
  "migrate (migrate app_config_default) = migrate app_config_default \<and> core_host_id (ac_core (migrate app_config_default)) = ''1''"
proof -
  have "get_version app_config_default = 0"
    by (simp add: get_version_def app_config_default_def core_config_default_def parse_u32_def)
  then have "core_host_id (ac_core (migrate app_config_default)) = show_word (1 :: u32)"
    by (simp add: migrate_unfold CURRENT_CONFIG_VERSION_def set_version_def migrate_to_v1_def app_config_default_def
        core_config_default_def)
  then show ?thesis
    using migrate_settles [of app_config_default] by simp
qed

text \<open>Every installation without a host id gets the same one, and one that is a number switches the
  migration off; an empty list that was meant is filled up.\<close>

lemma host_id_becomes_version:
  "core_host_id (ac_core c) = [] \<Longrightarrow> core_host_id (ac_core (migrate c)) = ''1''"
  by (simp add: migrate_unfold get_version_def parse_u32_def CURRENT_CONFIG_VERSION_def set_version_def
      migrate_to_v1_def)

lemma numeric_host_id_skips_migration:
  "core_host_id (ac_core c) = show_word n \<Longrightarrow> 0 < n \<Longrightarrow> migrate c = c" for n :: u32
  using version_cases [of c] by (auto simp: migrate_unfold get_version_def parse_u32_show_word)

section \<open>Migration plans\<close>

record migration_step =
  ms_name :: string
  ms_description :: string
  ms_automatic :: bool

record migration_plan =
  mp_from_version :: u32
  mp_to_version :: u32
  mp_steps :: "migration_step list"

definition migration_plan_new :: "u32 \<Rightarrow> u32 \<Rightarrow> migration_plan" where
  "migration_plan_new a b = \<lparr> mp_from_version = a, mp_to_version = b, mp_steps = [] \<rparr>"

definition add_step :: "string \<Rightarrow> string \<Rightarrow> bool \<Rightarrow> migration_plan \<Rightarrow> migration_plan" where
  "add_step name description automatic p =
     p\<lparr> mp_steps := mp_steps p @ [\<lparr> ms_name = name, ms_description = description, ms_automatic = automatic \<rparr>] \<rparr>"

fun run_steps :: "bool \<Rightarrow> migration_step list \<Rightarrow> string + unit" where
  "run_steps confirm [] = Inr ()"
| "run_steps confirm (st # sts) =
     (if ms_automatic st then run_steps confirm sts
      else if confirm then run_steps confirm sts
      else Inl (''Manual migration step required: '' @ ms_name st))"

definition run_migration_plan :: "migration_plan \<Rightarrow> bool \<Rightarrow> string + unit" where
  "run_migration_plan p confirm = run_steps confirm (mp_steps p)"

text \<open>Without confirmation the first manual step is the error, and it is the only one.\<close>

lemma run_migration_plan_result:
  "run_migration_plan p confirm =
     (case find (\<lambda>st. \<not> ms_automatic st \<and> \<not> confirm) (mp_steps p) of
        None \<Rightarrow> Inr () | Some st \<Rightarrow> Inl (''Manual migration step required: '' @ ms_name st))"
proof -
  have "run_steps confirm sts = (case find (\<lambda>st. \<not> ms_automatic st \<and> \<not> confirm) sts of
      None \<Rightarrow> Inr () | Some st \<Rightarrow> Inl (''Manual migration step required: '' @ ms_name st))" for sts
    by (induction sts) auto
  then show ?thesis by (simp add: run_migration_plan_def)
qed

section \<open>The manager\<close>

text \<open>Registered schemas.\<close>

record config_schema =
  sch_module :: string
  sch_version :: u32
  sch_schema :: json

type_synonym schema_registry = "string \<rightharpoonup> config_schema"

definition schema_register :: "schema_registry \<Rightarrow> config_schema \<Rightarrow> schema_registry" where
  "schema_register r s = r(sch_module s \<mapsto> s)"

definition schema_get :: "schema_registry \<Rightarrow> string \<Rightarrow> config_schema option" where
  "schema_get r m = r m"

definition schema_all :: "schema_registry \<Rightarrow> config_schema set" where
  "schema_all r = ran r"

interpretation schemas: keyed_store sch_module schema_get schema_register
  by unfold_locales (simp add: schema_get_def schema_register_def)

text \<open>
  The reader of the sources: the texts of the files in their order, then the environment
  variables, deserialized (\<open>cv_read\<close>), or a single text with the environment (\<open>cv_read\<close> of one).
  The files are a map from paths to texts.
\<close>

record config_env =
  cv_read :: "string list \<Rightarrow> string + app_config"
  cv_secrets :: secrets_env

record config_manager =
  cg_config :: app_config
  cg_schemas :: schema_registry
  cg_secrets :: secrets_manager
  cg_paths :: "string list"

datatype load_error =
  LE_Config config_error
| LE_Secrets string
| LE_Validation "string list"

definition load_config :: "config_env \<Rightarrow> (string \<rightharpoonup> string) \<Rightarrow> config_manager \<Rightarrow> load_error + app_config" where
  "load_config v fs m =
     (case cv_read v (List.map_filter fs (cg_paths m)) of
        Inl e \<Rightarrow> Inl (LE_Config (CE_Parse e))
      | Inr c \<Rightarrow>
          (case decrypt_config (cv_secrets v) (cg_secrets m) c of
             Inl e \<Rightarrow> Inl (LE_Secrets e)
           | Inr c1 \<Rightarrow> if app_config_errors c1 \<noteq> [] then Inl (LE_Validation (app_config_errors c1)) else Inr (migrate c1)))"

definition manager_load :: "config_env \<Rightarrow> (string \<rightharpoonup> string) \<Rightarrow> config_manager \<Rightarrow> load_error + config_manager" where
  "manager_load v fs m = (case load_config v fs m of Inl e \<Rightarrow> Inl e | Inr c \<Rightarrow> Inr (m\<lparr> cg_config := c \<rparr>))"

definition manager_new :: "config_env \<Rightarrow> (string \<rightharpoonup> string) \<Rightarrow> string list \<Rightarrow> load_error + config_manager" where
  "manager_new v fs paths = manager_load v fs
     \<lparr> cg_config = app_config_default, cg_schemas = Map.empty, cg_secrets = secrets_manager_new, cg_paths = paths \<rparr>"

text \<open>\<open>reload_static\<close> in the watcher's task: a failure is logged and the configuration stays.\<close>

definition manager_reload :: "config_env \<Rightarrow> (string \<rightharpoonup> string) \<Rightarrow> config_manager \<Rightarrow> config_manager" where
  "manager_reload v fs m = (case load_config v fs m of Inl e \<Rightarrow> m | Inr c \<Rightarrow> m\<lparr> cg_config := c \<rparr>)"

record validate_response =
  vr_valid :: bool
  vr_errors :: "(string \<times> string) list"
  vr_warnings :: "(string \<times> string) list"

text \<open>A failed decryption is ignored here.\<close>

definition manager_validate :: "config_env \<Rightarrow> (string list \<Rightarrow> string) \<Rightarrow> string \<Rightarrow> config_manager \<Rightarrow> config_error + validate_response" where
  "manager_validate v show_errors toml m =
     (case cv_read v [toml] of
        Inl e \<Rightarrow> Inl (CE_Parse e)
      | Inr c \<Rightarrow>
          (let c1 = (case decrypt_config (cv_secrets v) (cg_secrets m) c of Inr c' \<Rightarrow> c' | Inl e \<Rightarrow> c)
           in if app_config_errors c1 = []
              then Inr \<lparr> vr_valid = True, vr_errors = [], vr_warnings = [] \<rparr>
              else Inr \<lparr> vr_valid = False, vr_errors = [([], show_errors (app_config_errors c1))], vr_warnings = [] \<rparr>))"

text \<open>The update writes the first path; \<open>write_ok\<close> tells whether the write succeeds, with the
  message of the failure.\<close>

definition manager_update ::
    "config_env \<Rightarrow> (string list \<Rightarrow> string) \<Rightarrow> string option \<Rightarrow> string \<Rightarrow> bool \<Rightarrow> config_manager \<Rightarrow> (string \<rightharpoonup> string) \<Rightarrow>
     (config_error + validate_response) \<times> (string \<rightharpoonup> string)" where
  "manager_update v show_errors write_error toml validate_only m fs =
     (case manager_validate v show_errors toml m of
        Inl e \<Rightarrow> (Inl e, fs)
      | Inr r \<Rightarrow>
          if \<not> vr_valid r \<or> validate_only then (Inr r, fs)
          else
            let ok = Inr \<lparr> vr_valid = True, vr_errors = [],
                           vr_warnings = [(''.'', ''Configuration updated, reload triggered'')] \<rparr>
            in case cg_paths m of
                 [] \<Rightarrow> (ok, fs)
               | primary # _ \<Rightarrow> (case write_error of
                   Some e \<Rightarrow> (Inl (CE_Parse e), fs)
                 | None \<Rightarrow> (ok, fs(primary \<mapsto> toml))))"

lemma migrate_keeps_grpc_size: "grpc_max_message_size_mb (ac_grpc (migrate c)) = grpc_max_message_size_mb (ac_grpc c)"
  by (simp add: migrate_unfold set_version_def migrate_to_v1_def)

lemma load_config_manager:
  "cg_paths m' = cg_paths m \<Longrightarrow> cg_secrets m' = cg_secrets m \<Longrightarrow> load_config v fs m' = load_config v fs m"
  by (simp add: load_config_def split: sum.split)

definition reload_all :: "(config_env \<times> (string \<rightharpoonup> string)) list \<Rightarrow> config_manager \<Rightarrow> config_manager" where
  "reload_all attempts m = fold (\<lambda>(v, fs). manager_reload v fs) attempts m"

definition good_loads :: "(config_env \<times> (string \<rightharpoonup> string)) list \<Rightarrow> config_manager \<Rightarrow> app_config list" where
  "good_loads attempts m =
     List.map_filter (\<lambda>(v, fs). case load_config v fs m of Inl e \<Rightarrow> None | Inr c \<Rightarrow> Some c) attempts"

lemma good_loads_Cons:
  "good_loads ((v, fs) # as) m = (case load_config v fs m of Inl e \<Rightarrow> [] | Inr c \<Rightarrow> [c]) @ good_loads as m"
  by (simp add: good_loads_def map_filter_simps split: sum.split)

text \<open>
  C9: A bad edit never takes the service's configuration away.  Over any sequence of reloads, of
  whatever files and environments, the configuration in force is the last one that loaded, or the
  one at the start if none did; the paths, keys and schemas never change.
\<close>

theorem reload_keeps_last_good:
  "reload_all attempts m = m\<lparr> cg_config := last (cg_config m # good_loads attempts m) \<rparr>"
proof (induction attempts arbitrary: m)
  case Nil
  show ?case by (simp add: reload_all_def good_loads_def map_filter_simps)
next
  case (Cons a attempts)
  obtain v fs where a: "a = (v, fs)" by (cases a)
  have step: "reload_all (a # attempts) m = reload_all attempts (manager_reload v fs m)"
    by (simp add: reload_all_def a)
  show ?case
  proof (cases "load_config v fs m")
    case (Inl e)
    then have "manager_reload v fs m = m" by (simp add: manager_reload_def)
    with Cons.IH [of m] step Inl show ?thesis by (simp add: a good_loads_Cons)
  next
    case (Inr c)
    let ?m = "m\<lparr> cg_config := c \<rparr>"
    have m': "manager_reload v fs m = ?m" by (simp add: manager_reload_def Inr)
    have "good_loads attempts ?m = good_loads attempts m"
      by (simp add: good_loads_def load_config_manager [of ?m m])
    with Cons.IH [of ?m] step m' Inr show ?thesis by (simp add: a good_loads_Cons)
  qed
qed

text \<open>
  What the manager starts with is what it reads.  It has no key, so no secret is ever
  decrypted, and no range of any section is checked: every configuration that can be read is
  accepted and only migrated, an invalid one like a valid one.
\<close>

theorem new_manager_takes_everything:
  "manager_new v fs paths = (case cv_read v (List.map_filter fs paths) of
     Inl e \<Rightarrow> Inl (LE_Config (CE_Parse e))
   | Inr c \<Rightarrow> Inr \<lparr> cg_config = migrate c, cg_schemas = Map.empty, cg_secrets = secrets_manager_new, cg_paths = paths \<rparr>)"
  by (simp add: manager_new_def manager_load_def load_config_def decrypt_config_def app_config_errors_def
      secrets_manager_new_def split: sum.split)

text \<open>So a setting out of its range is in force afterwards.\<close>

lemma invalid_setting_in_force:
  assumes "cv_read v (List.map_filter fs paths) = Inr (app_config_default\<lparr> ac_grpc := grpc_config_default\<lparr> grpc_max_message_size_mb := 0 \<rparr> \<rparr>)"
  shows "\<exists>m. manager_new v fs paths = Inr m \<and> \<not> grpc_config_valid (ac_grpc (cg_config m))"
  using assms numeric_host_id_skips_migration
  by (simp add: manager_new_def manager_load_def load_config_def decrypt_config_def app_config_errors_def
      secrets_manager_new_def grpc_config_valid_def migrate_keeps_grpc_size)

text \<open>
  An update is what the next reload brings.  With one configuration file and no keys, an update
  that is answered as applied leaves its text in the file, and a reload in the same environment
  puts exactly the configuration that was checked into force, migrated.
\<close>

theorem update_then_reload:
  assumes "manager_update v show_errors None toml False m fs = (Inr r, fs')" and "vr_valid r"
    and "cg_paths m = [primary]" and "sm_identity (cg_secrets m) = None"
  shows "\<exists>c. cv_read v [toml] = Inr c \<and> fs' = fs(primary \<mapsto> toml) \<and> cg_config (manager_reload v fs' m) = migrate c"
proof -
  from assms(1) obtain c where c: "cv_read v [toml] = Inr c"
    by (auto simp: manager_update_def manager_validate_def split: sum.splits)
  have fs': "fs' = fs(primary \<mapsto> toml)"
    using assms c by (auto simp: manager_update_def manager_validate_def Let_def app_config_errors_def)
  show ?thesis
    using c assms(3, 4) by (simp add: fs' manager_reload_def load_config_def decrypt_config_def app_config_errors_def
        map_filter_simps)
qed

definition demo_manager :: config_manager where
  "demo_manager = \<lparr> cg_config = app_config_default, cg_schemas = Map.empty, cg_secrets = secrets_manager_new,
     cg_paths = [''sentinel.toml''] \<rparr>"

definition demo_config_env :: config_env where
  "demo_config_env = \<lparr> cv_read = \<lambda>ts. Inr app_config_default, cv_secrets = demo_cipher \<rparr>"

lemma update_then_reload_witness:
  "\<exists>c. cv_read demo_config_env [''x''] = Inr c \<and>
     cg_config (manager_reload demo_config_env [''sentinel.toml'' \<mapsto> ''x''] demo_manager) = migrate c"
proof -
  let ?r = "\<lparr> vr_valid = True, vr_errors = [], vr_warnings = [(''.'', ''Configuration updated, reload triggered'')] \<rparr>"
  have "manager_update demo_config_env concat None ''x'' False demo_manager Map.empty = (Inr ?r, [''sentinel.toml'' \<mapsto> ''x''])"
    by (simp add: manager_update_def manager_validate_def demo_config_env_def demo_manager_def decrypt_config_def
        secrets_manager_new_def app_config_errors_def)
  from update_then_reload [OF this, of "''sentinel.toml''"] show ?thesis
    by (simp add: demo_manager_def secrets_manager_new_def)
qed

text \<open>With a second file the update is not what counts: the reader sees both, the second one last.\<close>

lemma update_of_first_of_two:
  assumes "cg_paths m = [primary, other]" and "primary \<noteq> other" and "fs other = Some t"
  shows "load_config v (fs(primary \<mapsto> toml)) m = load_config v [primary \<mapsto> toml, other \<mapsto> t] m"
  using assms by (simp add: load_config_def map_filter_simps)

section \<open>From TOML to JSON (schema.rs)\<close>

datatype toml =
  TString string
| TInteger int
| TFloat f64
| TBoolean bool
| TDatetime string
| TArray "toml list"
| TTable "(string \<times> toml) list"

fun toml_to_json :: "toml \<Rightarrow> json" where
  "toml_to_json (TString s) = JString s"
| "toml_to_json (TInteger i) = JInt i"
| "toml_to_json (TFloat x) = (case x of Fin r \<Rightarrow> JFloat (Fin r) | _ \<Rightarrow> JInt 0)"
| "toml_to_json (TBoolean b) = JBool b"
| "toml_to_json (TDatetime d) = JString d"
| "toml_to_json (TArray xs) = JArray (map toml_to_json xs)"
| "toml_to_json (TTable kvs) = JObject (map (\<lambda>(k, x). (k, toml_to_json x)) kvs)"

text \<open>The value at a path of keys and indices.\<close>

datatype step = Key string | Index nat

fun toml_at :: "step list \<Rightarrow> toml \<Rightarrow> toml option" where
  "toml_at [] t = Some t"
| "toml_at (Key k # p) (TTable kvs) = Option.bind (map_of kvs k) (toml_at p)"
| "toml_at (Index i # p) (TArray xs) = (if i < length xs then toml_at p (xs ! i) else None)"
| "toml_at _ _ = None"

fun json_at :: "step list \<Rightarrow> json \<Rightarrow> json option" where
  "json_at [] j = Some j"
| "json_at (Key k # p) (JObject kvs) = Option.bind (map_of kvs k) (json_at p)"
| "json_at (Index i # p) (JArray xs) = (if i < length xs then json_at p (xs ! i) else None)"
| "json_at _ _ = None"

lemma map_of_map_values: "map_of (map (\<lambda>(k, x). (k, f x)) kvs) k = map_option f (map_of kvs k)"
  by (induction kvs) auto

text \<open>
  The conversion of TOML to JSON keeps every path: what is at a path of the JSON document is
  the conversion of what is at the same path of the TOML document, and nothing where it has
  nothing.
\<close>

theorem toml_to_json_keeps_paths: "json_at p (toml_to_json t) = map_option toml_to_json (toml_at p t)"
proof (induction p t rule: toml_at.induct)
  case (2 k p kvs)
  then show ?case by (cases "map_of kvs k") (auto simp: map_of_map_values)
qed (auto split: f64.splits)

text \<open>Infinite floats and NaN become the number zero.\<close>

lemma toml_infinity_is_zero: "toml_to_json (TFloat PInf) = JInt 0"
  by simp

end
