(* ===== verification/Api_Rules.thy ===== *)
theory Api_Rules
  imports Rules Events
begin

text \<open>
  Rules on the wire (crates/sentinel-api/src/lib.rs and the messages of
  src/proto/sentinel/api/v1/sentinel.proto): the conversions between the rules of the engine and
  the messages of the API, and between JSON values and dynamic protobuf values.  The libraries
  that convert times are the fields of a \<open>time_conv\<close>.
\<close>

section \<open>Answers of the API\<close>

datatype status =
  St_Internal string
| St_InvalidArgument string
| St_NotFound string

text \<open>A handler answers, refuses with a status, or panics.\<close>

datatype 'a grpc = Reply 'a | Refuse status | Panic

fun grpc_bind :: "'a grpc \<Rightarrow> ('a \<Rightarrow> 'b grpc) \<Rightarrow> 'b grpc" where
  "grpc_bind (Reply x) f = f x"
| "grpc_bind (Refuse s) f = Refuse s"
| "grpc_bind Panic f = Panic"

definition map_err :: "string \<Rightarrow> status" where
  "map_err e = St_Internal e"

text \<open>\<open>SystemTime::try_from\<close> of a timestamp, \<open>DateTime::from\<close> of a system time (no value: it
  panics), \<open>DateTime::from_timestamp\<close>, and \<open>chrono_to_proto_ts\<close>, which chains two conversions of
  the libraries.\<close>

record time_conv =
  tc_system :: "timestamp \<Rightarrow> string + int"
  tc_date :: "int \<Rightarrow> datetime option"
  tc_from_parts :: "int \<Rightarrow> u32 \<Rightarrow> datetime option"
  tc_of_system :: "int \<Rightarrow> timestamp"
  tc_to_system :: "datetime \<Rightarrow> int"

definition chrono_to_proto_ts :: "time_conv \<Rightarrow> datetime \<Rightarrow> timestamp option" where
  "chrono_to_proto_ts k d = Some (tc_of_system k (tc_to_system k d))"

definition time_conv_ok :: "time_conv \<Rightarrow> datetime \<Rightarrow> bool" where
  "time_conv_ok k d \<longleftrightarrow> tc_system k (tc_of_system k (tc_to_system k d)) = Inr (tc_to_system k d)
     \<and> tc_date k (tc_to_system k d) = Some d"

section \<open>Messages\<close>

record api_mitre =
  pm_technique :: string
  pm_name :: string
  pm_tactic :: string

record api_multiplier =
  px_condition :: string
  px_factor :: f64

record api_risk_config =
  pk_base_score :: u32
  pk_confidence :: f64
  pk_multipliers :: "api_multiplier list"

record api_rule_action =
  pc_type :: i32
  pc_config :: "pstruct option"

record api_suppression =
  pu_id :: string
  pu_condition :: string
  pu_reason :: string

record api_rule =
  pr_id :: string
  pr_version :: u32
  pr_name :: string
  pr_description :: string
  pr_author :: string
  pr_created :: "timestamp option"
  pr_modified :: "timestamp option"
  pr_enabled :: bool
  pr_category :: string
  pr_subcategory :: string
  pr_mitre :: "api_mitre list"
  pr_severity :: i32
  pr_risk :: "api_risk_config option"
  pr_condition :: string
  pr_and_conditions :: "string list"
  pr_or_conditions :: "string list"
  pr_not_conditions :: "string list"
  pr_actions :: "api_rule_action list"
  pr_suppressions :: "api_suppression list"

section \<open>Codes\<close>

definition proto_severity_to_core :: "i32 \<Rightarrow> severity" where
  "proto_severity_to_core s =
     (if s = 1 then Debug else if s = 2 then Info else if s = 3 then Notice else if s = 4 then Warning
      else if s = 5 then Error else if s = 6 then Critical else if s = 7 then Alert
      else if s = 8 then Emergency else severity_default)"

fun action_type_to_proto :: "rule_action_type \<Rightarrow> i32" where
  "action_type_to_proto AT_Alert = 1"
| "action_type_to_proto AT_Enrich = 2"
| "action_type_to_proto AT_Correlate = 3"
| "action_type_to_proto AT_Snapshot = 4"

definition proto_to_action_type :: "i32 \<Rightarrow> rule_action_type" where
  "proto_to_action_type n =
     (if n = 1 then AT_Alert else if n = 2 then AT_Enrich else if n = 3 then AT_Correlate
      else if n = 4 then AT_Snapshot else AT_Alert)"

lemma proto_severity_roundtrip [simp]: "proto_severity_to_core (severity_i32 s) = s"
  by (cases s) (simp_all add: proto_severity_to_core_def severity_i32_def)

lemma proto_action_roundtrip [simp]: "proto_to_action_type (action_type_to_proto t) = t"
  by (cases t) (simp_all add: proto_to_action_type_def)

section \<open>JSON and dynamic values\<close>

definition json_as_f64 :: "json \<Rightarrow> f64 option" where
  "json_as_f64 v = (case v of JInt n \<Rightarrow> Some (f64_of (of_int n)) | JFloat x \<Rightarrow> Some x | _ \<Rightarrow> None)"

definition json_number_to_f64 :: "json \<Rightarrow> f64" where
  "json_number_to_f64 n = (case json_as_i64 n of Some i \<Rightarrow> f64_of (of_int i)
     | None \<Rightarrow> (case json_as_f64 n of Some x \<Rightarrow> x | None \<Rightarrow> Fin 0))"

primrec serde_json_to_proto_value :: "json \<Rightarrow> pvalue" where
  "serde_json_to_proto_value JNull = PNull"
| "serde_json_to_proto_value (JBool b) = PBool b"
| "serde_json_to_proto_value (JInt n) = PNumber (json_number_to_f64 (JInt n))"
| "serde_json_to_proto_value (JFloat x) = PNumber (json_number_to_f64 (JFloat x))"
| "serde_json_to_proto_value (JString s) = PString s"
| "serde_json_to_proto_value (JArray vs) = PList (map serde_json_to_proto_value vs)"
| "serde_json_to_proto_value (JObject fs) = PStruct (map (map_prod (\<lambda>k. k) serde_json_to_proto_value) fs)"

text \<open>\<open>Number::from_f64\<close> has no value for the non-finite numbers; \<open>as i64\<close> saturates them.\<close>

definition f64_to_json_number :: "f64 \<Rightarrow> json" where
  "f64_to_json_number x = (case x of Fin q \<Rightarrow> JFloat (Fin q) | NaN \<Rightarrow> JInt 0
     | PInf \<Rightarrow> JInt (2 ^ 63 - 1) | NInf \<Rightarrow> JInt (- (2 ^ 63)))"

definition object_of :: "(string \<times> json) list \<Rightarrow> (string \<times> json) list" where
  "object_of fs = foldl (\<lambda>m (k, v). json_insert k v m) [] fs"

primrec prost_value_to_serde_json :: "pvalue \<Rightarrow> json" where
  "prost_value_to_serde_json PUnset = JNull"
| "prost_value_to_serde_json PNull = JNull"
| "prost_value_to_serde_json (PNumber x) = f64_to_json_number x"
| "prost_value_to_serde_json (PString s) = JString s"
| "prost_value_to_serde_json (PBool b) = JBool b"
| "prost_value_to_serde_json (PStruct fs) =
     JObject (object_of (map (map_prod (\<lambda>k. k) prost_value_to_serde_json) fs))"
| "prost_value_to_serde_json (PList vs) = JArray (map prost_value_to_serde_json vs)"

section \<open>Rules\<close>

definition action_to_proto :: "rule_action \<Rightarrow> api_rule_action" where
  "action_to_proto a = \<lparr> pc_type = action_type_to_proto (ac_type a),
     pc_config = Some (case ac_config a of
       JObject fs \<Rightarrow> map (\<lambda>(k, v). (k, serde_json_to_proto_value v)) fs | _ \<Rightarrow> []) \<rparr>"

definition core_rule_to_proto :: "time_conv \<Rightarrow> rule \<Rightarrow> api_rule" where
  "core_rule_to_proto k r = \<lparr> pr_id = ru_id r, pr_version = ru_version r, pr_name = ru_name r,
     pr_description = ru_description r, pr_author = ru_author r,
     pr_created = chrono_to_proto_ts k (ru_created r), pr_modified = chrono_to_proto_ts k (ru_modified r),
     pr_enabled = ru_enabled r, pr_category = ru_category r,
     pr_subcategory = (case ru_subcategory r of None \<Rightarrow> [] | Some s \<Rightarrow> s),
     pr_mitre = map (\<lambda>m. \<lparr> pm_technique = mm_technique m, pm_name = mm_name m, pm_tactic = mm_tactic m \<rparr>) (ru_mitre r),
     pr_severity = severity_i32 (ru_severity r),
     pr_risk = Some \<lparr> pk_base_score = rr_base_score (ru_risk r), pk_confidence = rr_confidence (ru_risk r),
       pk_multipliers = map (\<lambda>m. \<lparr> px_condition = rm_condition m, px_factor = rm_factor m \<rparr>) (rr_multipliers (ru_risk r)) \<rparr>,
     pr_condition = ru_condition r, pr_and_conditions = ru_and_conditions r,
     pr_or_conditions = ru_or_conditions r, pr_not_conditions = ru_not_conditions r,
     pr_actions = map action_to_proto (ru_actions r),
     pr_suppressions = map (\<lambda>s. \<lparr> pu_id = su_id s, pu_condition = su_condition s, pu_reason = su_reason s \<rparr>)
       (ru_suppressions r) \<rparr>"

definition action_to_core :: "api_rule_action \<Rightarrow> rule_action" where
  "action_to_core a = \<lparr> ac_type = proto_to_action_type (pc_type a),
     ac_config = (case pc_config a of None \<Rightarrow> JNull
       | Some fs \<Rightarrow> JObject (foldl (\<lambda>m (k, v). json_insert k (prost_value_to_serde_json v) m) [] fs)) \<rparr>"

definition risk_to_core :: "api_risk_config option \<Rightarrow> rule_risk" where
  "risk_to_core p = (case p of None \<Rightarrow> rule_risk_default
     | Some r \<Rightarrow> \<lparr> rr_base_score = pk_base_score r, rr_confidence = pk_confidence r,
         rr_multipliers = map (\<lambda>m. \<lparr> rm_condition = px_condition m, rm_factor = px_factor m \<rparr>) (pk_multipliers r) \<rparr>)"

text \<open>The creation time of a message; \<open>now\<close> where it has none.\<close>

definition created_to_core :: "time_conv \<Rightarrow> datetime \<Rightarrow> timestamp option \<Rightarrow> datetime grpc" where
  "created_to_core k now c = (case c of None \<Rightarrow> Reply now
     | Some ts \<Rightarrow> (case tc_system k ts of
         Inl e \<Rightarrow> Refuse (St_InvalidArgument (''invalid timestamp: '' @ e))
       | Inr st \<Rightarrow> (case tc_date k st of None \<Rightarrow> Panic | Some d \<Rightarrow> Reply d)))"

text \<open>\<open>fresh\<close> is the text of a new ULID.\<close>

definition proto_to_core_rule :: "time_conv \<Rightarrow> datetime \<Rightarrow> string \<Rightarrow> api_rule \<Rightarrow> rule grpc" where
  "proto_to_core_rule k now fresh p = grpc_bind (created_to_core k now (pr_created p)) (\<lambda>created.
     Reply \<lparr> ru_id = (if pr_id p = [] then fresh else pr_id p), ru_version = pr_version p, ru_name = pr_name p,
       ru_description = pr_description p, ru_author = pr_author p, ru_created = created, ru_modified = now,
       ru_enabled = pr_enabled p, ru_category = pr_category p,
       ru_subcategory = (if pr_subcategory p = [] then None else Some (pr_subcategory p)),
       ru_mitre = map (\<lambda>m. \<lparr> mm_technique = pm_technique m, mm_name = pm_name m, mm_tactic = pm_tactic m \<rparr>) (pr_mitre p),
       ru_severity = proto_severity_to_core (pr_severity p), ru_risk = risk_to_core (pr_risk p),
       ru_condition = pr_condition p, ru_and_conditions = pr_and_conditions p,
       ru_or_conditions = pr_or_conditions p, ru_not_conditions = pr_not_conditions p,
       ru_actions = map action_to_core (pr_actions p),
       ru_suppressions = map (\<lambda>s. \<lparr> su_id = pu_id s, su_condition = pu_condition s, su_reason = pu_reason s \<rparr>)
         (pr_suppressions p),
       ru_tests = [] \<rparr>)"

section \<open>What the wire keeps\<close>

text \<open>A value of \<open>serde_json\<close>: integers of 64 bits, finite floats, distinct keys.\<close>

primrec json_wf :: "json \<Rightarrow> bool" where
  "json_wf JNull = True"
| "json_wf (JBool b) = True"
| "json_wf (JInt n) = (- (2 ^ 63) \<le> n \<and> n < 2 ^ 64)"
| "json_wf (JFloat x) = (case x of Fin q \<Rightarrow> True | _ \<Rightarrow> False)"
| "json_wf (JString s) = True"
| "json_wf (JArray vs) = list_all (\<lambda>b. b) (map json_wf vs)"
| "json_wf (JObject fs) = (distinct (map fst fs) \<and> list_all snd (map (map_prod (\<lambda>k. k) json_wf) fs))"

text \<open>The value with every number as a float.\<close>

primrec json_as_floats :: "json \<Rightarrow> json" where
  "json_as_floats JNull = JNull"
| "json_as_floats (JBool b) = JBool b"
| "json_as_floats (JInt n) = JFloat (f64_of (of_int n))"
| "json_as_floats (JFloat x) = JFloat x"
| "json_as_floats (JString s) = JString s"
| "json_as_floats (JArray vs) = JArray (map json_as_floats vs)"
| "json_as_floats (JObject fs) = JObject (map (map_prod (\<lambda>k. k) json_as_floats) fs)"

lemma f64_of_int_finite:
  assumes "- (2 ^ 63) \<le> n" and "n < 2 ^ 64"
  shows "\<exists>q. f64_of (of_int n) = Fin q"
proof -
  have "(of_int n :: rat) \<le> 2 ^ 64" "- (of_int n :: rat) \<le> 2 ^ 64"
    using assms of_int_le_iff [of n "2 ^ 64", where 'a = rat] of_int_le_iff [of "- n" "2 ^ 64", where 'a = rat]
    by simp_all
  then have "rnd64 (of_int n) \<le> 2 ^ 64" "- (2 ^ 64) \<le> rnd64 (of_int n)"
    using rnd64_mono [of "of_int n" "2 ^ 64"] rnd64_mono [of "- (2 ^ 64)" "of_int n"] rnd64_pow2 [of 64]
    by (simp_all add: rnd64_def split: if_splits)
  moreover have "(2 :: rat) ^ 64 < f64_max" by (simp add: f64_max_def)
  ultimately show ?thesis by (simp add: f64_of_def Let_def)
qed

lemma json_insert_fresh: "k \<notin> set (map fst m) \<Longrightarrow> json_insert k v m = m @ [(k, v)]"
  by (induction m) (auto simp: json_insert_def)

lemma insert_all_distinct:
  "distinct (map fst (m @ fs)) \<Longrightarrow> foldl (\<lambda>m (k, v). json_insert k (f v) m) m fs = m @ map (map_prod (\<lambda>k. k) f) fs"
proof (induction fs arbitrary: m)
  case (Cons kv fs)
  obtain k v where kv: "kv = (k, v)" by fastforce
  have "json_insert k (f v) m = m @ [(k, f v)]"
    by (rule json_insert_fresh) (use Cons.prems kv in auto)
  moreover have "foldl (\<lambda>m (k, v). json_insert k (f v) m) (m @ [(k, f v)]) fs
      = (m @ [(k, f v)]) @ map (map_prod (\<lambda>k. k) f) fs"
    by (rule Cons.IH) (use Cons.prems kv in auto)
  ultimately show ?case by (simp add: kv)
qed simp

lemma map_fst_map_prod [simp]: "map fst (map (map_prod (\<lambda>k. k) f) fs) = map fst fs"
  by (induction fs) auto

lemma object_of_distinct: "distinct (map fst fs) \<Longrightarrow> object_of fs = fs"
  using insert_all_distinct [of "[]" fs "\<lambda>v. v"] by (simp add: object_of_def prod.map_ident)

lemma json_wf_members:
  "json_wf (JArray vs) \<Longrightarrow> v \<in> set vs \<Longrightarrow> json_wf v"
  "json_wf (JObject fs) \<Longrightarrow> (key, v) \<in> set fs \<Longrightarrow> json_wf v"
  by (auto simp: list_all_iff)

lemma value_over_the_wire: "json_wf v \<Longrightarrow> prost_value_to_serde_json (serde_json_to_proto_value v) = json_as_floats v"
proof (induction v)
  case (JInt n)
  then obtain q where "f64_of (of_int n) = Fin q" using f64_of_int_finite by auto
  then show ?case by (simp add: json_number_to_f64_def json_as_i64_def json_as_f64_def f64_to_json_number_def)
next
  case (JFloat x)
  then show ?case
    by (cases x) (simp_all add: json_number_to_f64_def json_as_i64_def json_as_f64_def f64_to_json_number_def)
next
  case (JArray vs)
  then show ?case using json_wf_members(1) by fastforce
next
  case (JObject fs)
  have "map (map_prod (\<lambda>k. k) prost_value_to_serde_json) (map (map_prod (\<lambda>k. k) serde_json_to_proto_value) fs)
      = map (map_prod (\<lambda>k. k) json_as_floats) fs"
  proof (rule nth_equalityI)
    fix i assume i: "i < length (map (map_prod (\<lambda>k. k) prost_value_to_serde_json) (map (map_prod (\<lambda>k. k) serde_json_to_proto_value) fs))"
    obtain k v where kv: "fs ! i = (k, v)" by fastforce
    with i have m: "(k, v) \<in> set fs" by (metis length_map nth_mem)
    have "prost_value_to_serde_json (serde_json_to_proto_value v) = json_as_floats v"
      by (rule JObject.IH [OF m]) (use JObject.prems m json_wf_members(2) in \<open>auto\<close>)
    with i kv show "map (map_prod (\<lambda>k. k) prost_value_to_serde_json) (map (map_prod (\<lambda>k. k) serde_json_to_proto_value) fs) ! i
      = map (map_prod (\<lambda>k. k) json_as_floats) fs ! i" by simp
  qed simp
  moreover have "distinct (map fst (map (map_prod (\<lambda>k. k) json_as_floats) fs))"
    using JObject.prems by (simp only: map_fst_map_prod json_wf.simps)
  ultimately show ?case
    by (simp only: serde_json_to_proto_value.simps prost_value_to_serde_json.simps json_as_floats.simps object_of_distinct)
qed simp_all

lemma json_as_floats_idem [simp]: "json_as_floats (json_as_floats v) = json_as_floats v"
proof (induction v)
  case (JObject fs)
  then show ?case by (auto simp: map_prod_def split: prod.splits)
qed simp_all

definition wire_action :: "rule_action \<Rightarrow> rule_action" where
  "wire_action a = a\<lparr> ac_config := (case ac_config a of JObject fs \<Rightarrow> json_as_floats (JObject fs) | _ \<Rightarrow> JObject []) \<rparr>"

text \<open>The rule that is left of \<open>r\<close> when it went to a client and came back.\<close>

definition wire_rule :: "datetime \<Rightarrow> string \<Rightarrow> rule \<Rightarrow> rule" where
  "wire_rule now fresh r = r\<lparr> ru_id := (if ru_id r = [] then fresh else ru_id r), ru_modified := now,
     ru_subcategory := (if ru_subcategory r = Some [] then None else ru_subcategory r),
     ru_actions := map wire_action (ru_actions r), ru_tests := [] \<rparr>"

definition rule_json_ok :: "rule \<Rightarrow> bool" where
  "rule_json_ok r \<longleftrightarrow> list_all (\<lambda>a. json_wf (ac_config a)) (ru_actions r)"

lemma action_over_the_wire: "json_wf (ac_config a) \<Longrightarrow> action_to_core (action_to_proto a) = wire_action a"
proof (cases "ac_config a")
  case (JObject fs)
  assume wf: "json_wf (ac_config a)"
  have "prost_value_to_serde_json (PStruct (map (map_prod (\<lambda>k. k) serde_json_to_proto_value) fs)) = json_as_floats (JObject fs)"
    using value_over_the_wire [of "JObject fs"] wf JObject by simp
  moreover have "foldl (\<lambda>m (k, v). json_insert k (prost_value_to_serde_json v) m) [] gs
      = object_of (map (map_prod (\<lambda>k. k) prost_value_to_serde_json) gs)" for gs
    by (simp add: object_of_def foldl_map case_prod_unfold)
  ultimately show ?thesis
    by (simp add: action_to_core_def action_to_proto_def wire_action_def JObject map_prod_def)
qed (simp_all add: action_to_core_def action_to_proto_def wire_action_def)

lemma map_id_on: "(\<And>x. f x = x) \<Longrightarrow> map f xs = xs"
  by (induction xs) simp_all

lemma wire_modified [simp]: "chrono_to_proto_ts k d \<noteq> None"
  by (simp add: chrono_to_proto_ts_def)

lemma rule_wire_reply:
  assumes "time_conv_ok k (ru_created r)" and "rule_json_ok r"
  shows "proto_to_core_rule k now fresh (core_rule_to_proto k r) = Reply (wire_rule now fresh r)"
proof -
  have acts: "map action_to_core (map action_to_proto (ru_actions r)) = map wire_action (ru_actions r)"
    using assms(2) by (simp add: rule_json_ok_def list_all_iff action_over_the_wire)
  have c: "created_to_core k now (pr_created (core_rule_to_proto k r)) = Reply (ru_created r)"
    using assms(1) by (simp add: created_to_core_def core_rule_to_proto_def chrono_to_proto_ts_def time_conv_ok_def)
  show ?thesis
    unfolding proto_to_core_rule_def c grpc_bind.simps grpc.inject
    by (intro rule.equality)
      (use acts in \<open>simp_all add: core_rule_to_proto_def wire_rule_def risk_to_core_def map_id_on split: option.split\<close>)
qed

lemma wire_rule_twice:
  assumes "fresh \<noteq> []"
  shows "wire_rule now' fresh' (wire_rule now fresh r) = (wire_rule now fresh r)\<lparr> ru_modified := now' \<rparr>"
proof -
  have "wire_action (wire_action a) = wire_action a" for a
    using json_as_floats_idem [of "ac_config a"] by (cases "ac_config a") (simp_all add: wire_action_def)
  with assms show ?thesis by (simp add: wire_rule_def comp_def)
qed

text \<open>
  What a rule keeps when it is sent to a client and back.  Everything that decides whether and
  how the rule fires survives: its id, conditions, severity, risk and multipliers, suppressions
  and the kinds of its actions.  Its tests are lost, the numbers in the configuration of an
  action come back as floats and a configuration that is no object as an empty object, an
  empty subcategory becomes none, and the modification time is the time of the request.  A
  second trip changes nothing but that time.
\<close>

theorem rule_over_the_wire:
  assumes "time_conv_ok k (ru_created r)" and "rule_json_ok r" and "fresh \<noteq> []"
  shows "proto_to_core_rule k now fresh (core_rule_to_proto k r) = Reply (wire_rule now fresh r) \<and>
    wire_rule now' fresh' (wire_rule now fresh r) = (wire_rule now fresh r)\<lparr> ru_modified := now' \<rparr>"
  by (simp add: rule_wire_reply [OF assms(1,2)] wire_rule_twice [OF assms(3)])

text \<open>A conversion of times that keeps them.\<close>

definition plain_times :: time_conv where
  "plain_times = \<lparr> tc_system = (\<lambda>t. Inr (ts_seconds t)), tc_date = Some, tc_from_parts = (\<lambda>s n. Some s),
     tc_of_system = (\<lambda>s. \<lparr> ts_seconds = s, ts_nanos = 0 \<rparr>), tc_to_system = (\<lambda>d. d) \<rparr>"

definition wire_demo :: rule where
  "wire_demo = (rule_default 3 4)\<lparr> ru_id := ''r1'', ru_severity := Critical,
     ru_actions := [\<lparr> ac_type = AT_Snapshot, ac_config = JObject [(''depth'', JBool True)] \<rparr>, \<lparr> ac_type = AT_Enrich, ac_config = JNull \<rparr>],
     ru_tests := [\<lparr> rt_test_name = ''t'', rt_event = JNull, rt_expected_match = True \<rparr>] \<rparr>"

lemma rule_over_the_wire_witness:
  "proto_to_core_rule plain_times 9 ''new'' (core_rule_to_proto plain_times wire_demo) =
     Reply (wire_demo\<lparr> ru_modified := 9, ru_tests := [],
       ru_actions := [\<lparr> ac_type = AT_Snapshot, ac_config = JObject [(''depth'', JBool True)] \<rparr>, \<lparr> ac_type = AT_Enrich, ac_config = JObject [] \<rparr>] \<rparr>)"
proof -
  have "time_conv_ok plain_times (ru_created wire_demo)" by (simp add: time_conv_ok_def plain_times_def)
  moreover have "rule_json_ok wire_demo" by (simp add: rule_json_ok_def wire_demo_def)
  ultimately show ?thesis
    using rule_over_the_wire [of plain_times wire_demo "''new''" 9 0 "''x''"]
    by (simp add: wire_rule_def wire_action_def wire_demo_def rule_default_def)
qed

end
