(* ===== verification/Api.thy ===== *)
theory Api
  imports Alerting Api_Rules
begin

text \<open>
  The handlers of the gRPC service (crates/sentinel-api/src/lib.rs).  A handler takes the store it
  reads or changes and gives the answer and the store.  A call of the store that fails is a
  parameter: the text of its error, or none.
\<close>

section \<open>Health, version and processes\<close>

text \<open>The codes of the health library; the answer has the type of another enumeration.\<close>

definition health :: "i32 \<Rightarrow> i32 \<Rightarrow> bool \<Rightarrow> i32 grpc" where
  "health serving not_serving storage_ok = Reply (if storage_ok then serving else not_serving)"

record version_response =
  vr_version :: string
  vr_git_commit :: string
  vr_build_date :: string
  vr_rust_version :: string

definition unwrap_or :: "'a option \<Rightarrow> 'a \<Rightarrow> 'a" where
  "unwrap_or x d = (case x of None \<Rightarrow> d | Some y \<Rightarrow> y)"

definition version ::
    "string \<Rightarrow> string option \<Rightarrow> string option \<Rightarrow> string option \<Rightarrow> version_response grpc" where
  "version pkg git built rustc = Reply \<lparr> vr_version = pkg, vr_git_commit = unwrap_or git ''dev'',
     vr_build_date = unwrap_or built ''unknown'', vr_rust_version = unwrap_or rustc ''stable'' \<rparr>"

text \<open>A process as the system library reports it.\<close>

record sys_process =
  sp_pid :: u32
  sp_parent :: "u32 option"
  sp_name :: string
  sp_exe :: "string option"
  sp_cmd :: "string list"

record process_summary =
  ps_pid :: u32
  ps_ppid :: u32
  ps_name :: string
  ps_path :: string
  ps_command_line :: string

definition short_summary :: "sys_process \<Rightarrow> process_summary" where
  "short_summary p = \<lparr> ps_pid = sp_pid p, ps_ppid = unwrap_or (sp_parent p) 0, ps_name = sp_name p,
     ps_path = [], ps_command_line = [] \<rparr>"

definition list_processes :: "sys_process list \<Rightarrow> i32 \<Rightarrow> process_summary list grpc" where
  "list_processes ps limit = Reply (map short_summary (take (nat (min (max (sint limit) 1) 1000)) ps))"

definition get_process :: "sys_process list \<Rightarrow> u32 \<Rightarrow> process_summary grpc" where
  "get_process ps pid = (case find (\<lambda>p. sp_pid p = pid) ps of
     None \<Rightarrow> Refuse (St_NotFound (''PID '' @ show_word pid @ '' not found''))
   | Some p \<Rightarrow> Reply \<lparr> ps_pid = sp_pid p, ps_ppid = unwrap_or (sp_parent p) 0, ps_name = sp_name p,
       ps_path = unwrap_or (sp_exe p) [], ps_command_line = str_join '' '' (sp_cmd p) \<rparr>)"

text \<open>The tree has the first process of the table only, whatever root was asked for.\<close>

definition get_process_tree :: "sys_process list \<Rightarrow> (process_summary \<times> process_summary list) option grpc" where
  "get_process_tree ps = Reply (case ps of [] \<Rightarrow> None | p # _ \<Rightarrow> Some (short_summary p, []))"

section \<open>Events\<close>

record query_filter =
  qf_start_time :: "timestamp option"
  qf_end_time :: "timestamp option"
  qf_event_types :: "string list"
  qf_sources :: "string list"
  qf_severities :: "i32 list"
  qf_process_names :: "string list"
  qf_pids :: "u32 list"
  qf_hosts :: "string list"
  qf_correlation_id :: string
  qf_flow_id :: string
  qf_min_risk_score :: u32
  qf_tags :: "string list"
  qf_free_text :: string

definition query_filter_default :: query_filter where
  "query_filter_default = \<lparr> qf_start_time = None, qf_end_time = None, qf_event_types = [], qf_sources = [],
     qf_severities = [], qf_process_names = [], qf_pids = [], qf_hosts = [], qf_correlation_id = [],
     qf_flow_id = [], qf_min_risk_score = 0, qf_tags = [], qf_free_text = [] \<rparr>"

record query_events_request =
  qe_query :: "query_filter option"
  qe_limit :: i32
  qe_offset :: i32
  qe_sort_by :: string
  qe_sort_desc :: bool

definition positive_or :: "usize \<Rightarrow> i32 \<Rightarrow> usize" where
  "positive_or d n = (if 0 < sint n then word_of_int (sint n) else d)"

definition request_query :: "query_events_request \<Rightarrow> event_query" where
  "request_query q = (let f = unwrap_or (qe_query q) query_filter_default in
     event_query_default\<lparr> eq_event_types := qf_event_types f, eq_sources := qf_sources f,
       eq_min_risk_score := (if 0 < qf_min_risk_score f then Some (qf_min_risk_score f) else None),
       eq_limit := positive_or 100 (qe_limit q), eq_offset := positive_or 0 (qe_offset q),
       eq_sort_by := Some ''timestamp'', eq_sort_desc := True \<rparr>)"

record query_events_response =
  qs_events :: "event list"
  qs_total_count :: int
  qs_has_more :: bool

definition query_events ::
    "codec \<Rightarrow> (string \<Rightarrow> bool \<Rightarrow> event_row list \<Rightarrow> event_row list) \<Rightarrow> string option \<Rightarrow> event_row list
       \<Rightarrow> query_events_request \<Rightarrow> query_events_response grpc" where
  "query_events c order db rows q = (case db of Some e \<Rightarrow> Refuse (map_err e)
   | None \<Rightarrow> (let cursor = cursor_new (events_query c order (request_query q) rows) in
       Reply \<lparr> qs_events = fst (cursor_collect 1000 cursor), qs_total_count = int (cu_total_count cursor),
         qs_has_more = False \<rparr>))"

text \<open>\<open>id_err\<close> gives the text of the ULID library for an id it cannot read.\<close>

definition read_id :: "codec \<Rightarrow> (string \<Rightarrow> string) \<Rightarrow> string \<Rightarrow> ulid grpc" where
  "read_id c id_err s = (case k_ulid_parse c s of
     None \<Rightarrow> Refuse (St_InvalidArgument (id_err s)) | Some i \<Rightarrow> Reply i)"

definition found :: "string option \<Rightarrow> string \<Rightarrow> 'a option \<Rightarrow> 'a grpc" where
  "found db msg x = (case db of Some e \<Rightarrow> Refuse (map_err e)
   | None \<Rightarrow> (case x of None \<Rightarrow> Refuse (St_NotFound msg) | Some y \<Rightarrow> Reply y))"

definition get_event :: "codec \<Rightarrow> (string \<Rightarrow> string) \<Rightarrow> string option \<Rightarrow> event_table \<Rightarrow> string \<Rightarrow> event grpc" where
  "get_event c id_err db t s = grpc_bind (read_id c id_err s)
     (\<lambda>i. found db ''event not found'' (events_get c t (k_ulid_show c i)))"

section \<open>Alerts\<close>

record api_alert =
  pa_id :: string
  pa_rule_id :: string
  pa_correlation_id :: string
  pa_risk_score :: u32
  pa_severity :: i32
  pa_state :: i32
  pa_created_at :: "timestamp option"
  pa_updated_at :: "timestamp option"
  pa_acknowledged_by :: string
  pa_acknowledged_at :: "timestamp option"
  pa_events :: "string list"
  pa_ai_summary :: string

definition api_alert_default :: api_alert where
  "api_alert_default = \<lparr> pa_id = [], pa_rule_id = [], pa_correlation_id = [], pa_risk_score = 0, pa_severity = 0,
     pa_state = 0, pa_created_at = None, pa_updated_at = None, pa_acknowledged_by = [],
     pa_acknowledged_at = None, pa_events = [], pa_ai_summary = [] \<rparr>"

text \<open>What \<open>list_alerts\<close> and \<open>get_alert\<close> send.\<close>

definition alert_brief :: "codec \<Rightarrow> alert \<Rightarrow> api_alert" where
  "alert_brief c a = api_alert_default\<lparr> pa_id := k_ulid_show c (al_id a), pa_rule_id := al_rule_id a,
     pa_risk_score := al_risk_score a, pa_severity := severity_i32 (al_severity a) \<rparr>"

text \<open>What \<open>update_alert_state\<close> sends.\<close>

definition alert_full :: "codec \<Rightarrow> time_conv \<Rightarrow> alert \<Rightarrow> api_alert" where
  "alert_full c k a = api_alert_default\<lparr> pa_id := k_ulid_show c (al_id a), pa_rule_id := al_rule_id a,
     pa_correlation_id := k_ulid_show c (al_correlation_id a), pa_risk_score := al_risk_score a,
     pa_severity := severity_i32 (al_severity a), pa_state := core_alert_state_to_proto (al_state a),
     pa_created_at := chrono_to_proto_ts k (al_created_at a), pa_updated_at := chrono_to_proto_ts k (al_updated_at a),
     pa_acknowledged_by := unwrap_or (al_acknowledged_by a) [],
     pa_acknowledged_at := Option.bind (al_acknowledged_at a) (chrono_to_proto_ts k),
     pa_events := map (k_ulid_show c) (al_events a) \<rparr>"

record list_alerts_request =
  la_state :: i32
  la_min_severity :: i32
  la_start_time :: "timestamp option"
  la_end_time :: "timestamp option"
  la_limit :: i32
  la_offset :: i32

definition request_time :: "time_conv \<Rightarrow> timestamp option \<Rightarrow> datetime option" where
  "request_time k t = Option.bind t (\<lambda>ts. tc_from_parts k (ts_seconds ts) (word_of_int (ts_nanos ts)))"

definition list_alerts_query :: "time_conv \<Rightarrow> list_alerts_request \<Rightarrow> alert_query grpc" where
  "list_alerts_query k q = grpc_bind
     (if la_state q \<noteq> 0 then
        (case proto_alert_state_to_core (la_state q) of
           None \<Rightarrow> Refuse (St_InvalidArgument (''invalid alert state: '' @ show_int (sint (la_state q))))
         | Some s \<Rightarrow> Reply (Some s))
      else Reply None)
     (\<lambda>st. Reply \<lparr> aq_state = st,
        aq_min_severity = (if la_min_severity q \<noteq> 0 then Some (proto_severity_to_core (la_min_severity q)) else None),
        aq_start_time = request_time k (la_start_time q), aq_end_time = request_time k (la_end_time q),
        aq_limit = positive_or 100 (la_limit q), aq_offset = word_of_int (max (sint (la_offset q)) 0) \<rparr>)"

text \<open>The rows the alert query of the repository selects, newest first.\<close>

definition alert_column :: "alert_row \<Rightarrow> string \<Rightarrow> sql_value" where
  "alert_column r col =
     (if col = ''state'' then SInt (ar_state r) else if col = ''severity'' then SInt (ar_severity r)
      else if col = ''created_at'' then SText (ar_created_at r) else SText [])"

definition alerts_query ::
    "codec \<Rightarrow> (alert_row list \<Rightarrow> alert_row list) \<Rightarrow> ulid \<Rightarrow> ulid \<Rightarrow> alert_query \<Rightarrow> alert_row list \<Rightarrow> alert list" where
  "alerts_query c newest_first fresh fresh' q rows =
     map (row_to_alert c fresh fresh') (take (unat (aq_limit q)) (drop (unat (aq_offset q))
       (newest_first (filter (\<lambda>r. row_matches (alert_conds (k_date_show c) q) (alert_column r)) rows))))"

definition list_alerts ::
    "codec \<Rightarrow> time_conv \<Rightarrow> (alert_row list \<Rightarrow> alert_row list) \<Rightarrow> ulid \<Rightarrow> ulid \<Rightarrow> string option \<Rightarrow> alert_row list
       \<Rightarrow> list_alerts_request \<Rightarrow> api_alert list grpc" where
  "list_alerts c k newest_first fresh fresh' db rows q = grpc_bind (list_alerts_query k q) (\<lambda>aq.
     case db of Some e \<Rightarrow> Refuse (map_err e)
     | None \<Rightarrow> Reply (map (alert_brief c) (alerts_query c newest_first fresh fresh' aq rows)))"

definition get_alert ::
    "codec \<Rightarrow> ulid \<Rightarrow> ulid \<Rightarrow> (string \<Rightarrow> string) \<Rightarrow> string option \<Rightarrow> alert_table \<Rightarrow> string \<Rightarrow> api_alert grpc" where
  "get_alert c fresh fresh' id_err db t s = grpc_bind (read_id c id_err s) (\<lambda>i.
     grpc_bind (found db ''alert not found'' (alert_get c fresh fresh' t i)) (\<lambda>a. Reply (alert_brief c a)))"

record update_alert_request =
  ua_alert_id :: string
  ua_new_state :: i32
  ua_comment :: string

definition requested_state :: "i32 \<Rightarrow> alert_state grpc" where
  "requested_state n = (case proto_alert_state_to_core n of
     None \<Rightarrow> Refuse (St_InvalidArgument (''invalid alert state: '' @ show_int (sint n) @ ''. Valid: 1-6''))
   | Some s \<Rightarrow> Reply s)"

text \<open>The service has the repository and the stream of the alert manager.\<close>

definition update_alert_state ::
    "codec \<Rightarrow> time_conv \<Rightarrow> datetime \<Rightarrow> ulid \<Rightarrow> ulid \<Rightarrow> (string \<Rightarrow> string) \<Rightarrow> string option \<Rightarrow> string option
       \<Rightarrow> update_alert_request \<Rightarrow> alert_manager \<Rightarrow> api_alert grpc \<times> alert_manager" where
  "update_alert_state c k now fresh fresh' id_err db_update db_get q m =
     (case grpc_bind (read_id c id_err (ua_alert_id q)) (\<lambda>i.
         grpc_bind (requested_state (ua_new_state q)) (\<lambda>st. Reply (i, st))) of
        Refuse s \<Rightarrow> (Refuse s, m)
      | Panic \<Rightarrow> (Panic, m)
      | Reply (i, st) \<Rightarrow>
         (case db_update of Some e \<Rightarrow> (Refuse (map_err e), m)
          | None \<Rightarrow> (let t = alert_update_state c now (am_repo m) i st (Some (ua_comment q)) in
              case found db_get ''alert not found'' (alert_get c fresh fresh' t i) of
                Refuse s \<Rightarrow> (Refuse s, m\<lparr> am_repo := t \<rparr>)
              | Panic \<Rightarrow> (Panic, m\<lparr> am_repo := t \<rparr>)
              | Reply a \<Rightarrow> (Reply (alert_full c k a),
                  \<lparr> am_repo = t, am_sent = am_sent m @ [alert_to_stream_event c a Updated] \<rparr>))))"

end
