(* ===== verification/Api_Control.thy ===== *)
theory Api_Control
  imports Api
begin

text \<open>
  The handlers of the gRPC service (crates/sentinel-api/src/lib.rs) for rules, attack chains,
  plugins, collectors and the status of the service.
\<close>

section \<open>Rules\<close>

text \<open>\<open>now\<close> and \<open>now'\<close> are read by the default of a rule text that cannot be parsed.\<close>

definition list_rules :: "codec \<Rightarrow> time_conv \<Rightarrow> datetime \<Rightarrow> datetime \<Rightarrow> string option \<Rightarrow> rule_table \<Rightarrow> api_rule set grpc" where
  "list_rules c k now now' db t = (case db of Some e \<Rightarrow> Refuse (map_err e)
   | None \<Rightarrow> Reply (core_rule_to_proto k ` rules_load_all c now now' t False))"

definition get_rule ::
    "codec \<Rightarrow> time_conv \<Rightarrow> datetime \<Rightarrow> datetime \<Rightarrow> string option \<Rightarrow> rule_table \<Rightarrow> string \<Rightarrow> api_rule grpc" where
  "get_rule c k now now' db t i =
     grpc_bind (found db (''rule not found: '' @ i) (rules_get c now now' t i)) (\<lambda>r. Reply (core_rule_to_proto k r))"

definition required_rule :: "api_rule option \<Rightarrow> api_rule grpc" where
  "required_rule p = (case p of None \<Rightarrow> Refuse (St_InvalidArgument ''rule is required'') | Some r \<Rightarrow> Reply r)"

definition store_rule ::
    "codec \<Rightarrow> time_conv \<Rightarrow> string option \<Rightarrow> rule grpc \<Rightarrow> rule_table \<Rightarrow> api_rule grpc \<times> rule_table" where
  "store_rule c k db r t = (case r of Refuse s \<Rightarrow> (Refuse s, t) | Panic \<Rightarrow> (Panic, t)
   | Reply r \<Rightarrow> (case db of Some e \<Rightarrow> (Refuse (map_err e), t)
       | None \<Rightarrow> (Reply (core_rule_to_proto k r), rules_upsert c t r)))"

definition create_rule ::
    "codec \<Rightarrow> time_conv \<Rightarrow> datetime \<Rightarrow> string \<Rightarrow> string option \<Rightarrow> api_rule option \<Rightarrow> rule_table
       \<Rightarrow> api_rule grpc \<times> rule_table" where
  "create_rule c k now fresh db p t =
     store_rule c k db (grpc_bind (required_rule p) (proto_to_core_rule k now fresh)) t"

text \<open>The id of the request replaces the id in the message, an empty one as well.\<close>

definition update_rule ::
    "codec \<Rightarrow> time_conv \<Rightarrow> datetime \<Rightarrow> string \<Rightarrow> string option \<Rightarrow> string \<Rightarrow> api_rule option \<Rightarrow> rule_table
       \<Rightarrow> api_rule grpc \<times> rule_table" where
  "update_rule c k now fresh db i p t =
     store_rule c k db (grpc_bind (grpc_bind (required_rule p) (proto_to_core_rule k now fresh))
       (\<lambda>r. Reply (r\<lparr> ru_id := i \<rparr>))) t"

definition delete_rule :: "string option \<Rightarrow> string \<Rightarrow> rule_table \<Rightarrow> unit grpc \<times> rule_table" where
  "delete_rule db i t = (case db of Some e \<Rightarrow> (Refuse (map_err e), t) | None \<Rightarrow> (Reply (), rules_delete t i))"

record test_result =
  tr_event_id :: string
  tr_matched :: bool
  tr_expected_match :: bool
  tr_error :: string

definition test_rule ::
    "time_conv \<Rightarrow> datetime \<Rightarrow> string \<Rightarrow> (string \<Rightarrow> string + 'p) \<Rightarrow> ('p \<Rightarrow> activation \<Rightarrow> string + cel_value)
       \<Rightarrow> api_rule option \<Rightarrow> event list \<Rightarrow> (test_result list \<times> bool) grpc" where
  "test_rule k now fresh compile execute p events =
     grpc_bind (grpc_bind (required_rule p) (proto_to_core_rule k now fresh)) (\<lambda>r.
       let results = map (\<lambda>e. let matched = (case evaluate_rule_condition compile execute r e of Inl _ \<Rightarrow> False | Inr b \<Rightarrow> b)
             in \<lparr> tr_event_id = ev_id e, tr_matched = matched, tr_expected_match = matched, tr_error = [] \<rparr>) events
       in Reply (results, results \<noteq> [] \<and> list_all tr_matched results))"

section \<open>Attack chains\<close>

fun chain_status_to_proto :: "chain_status \<Rightarrow> i32" where
  "chain_status_to_proto ST_ActiveAttack = 1"
| "chain_status_to_proto ST_SuspiciousChain = 2"
| "chain_status_to_proto ST_Resolved = 3"
| "chain_status_to_proto ST_Unspecified = 0"

record chains_request =
  qc_start_time :: "timestamp option"
  qc_end_time :: "timestamp option"
  qc_status :: i32
  qc_min_risk :: i32
  qc_limit :: i32

text \<open>A time that is no system time is dropped; one that is no date panics.\<close>

definition chain_time :: "time_conv \<Rightarrow> timestamp option \<Rightarrow> datetime option grpc" where
  "chain_time k t = (case t of None \<Rightarrow> Reply None
     | Some ts \<Rightarrow> (case tc_system k ts of Inl e \<Rightarrow> Reply None
         | Inr s \<Rightarrow> (case tc_date k s of None \<Rightarrow> Panic | Some d \<Rightarrow> Reply (Some d))))"

definition chains_query_of :: "time_conv \<Rightarrow> chains_request \<Rightarrow> chain_query grpc" where
  "chains_query_of k q = grpc_bind (chain_time k (qc_start_time q)) (\<lambda>s. grpc_bind (chain_time k (qc_end_time q)) (\<lambda>e.
     Reply \<lparr> cq_start_time = s, cq_end_time = e,
       cq_status = (if qc_status q = 1 then Some ST_ActiveAttack else if qc_status q = 2 then Some ST_SuspiciousChain
         else if qc_status q = 3 then Some ST_Resolved else None),
       cq_min_risk = (if 0 < sint (qc_min_risk q) then Some (qc_min_risk q) else None),
       cq_limit = positive_or 100 (qc_limit q) \<rparr>))"

record chain_summary =
  ch_id :: string
  ch_start_time :: "timestamp option"
  ch_end_time :: "timestamp option"
  ch_risk_score :: u32
  ch_tactics :: "string list"
  ch_techniques :: "string list"
  ch_event_count :: i32
  ch_status :: i32
  ch_kill_chain_coverage :: f64

definition chain_summary_of :: "time_conv \<Rightarrow> attack_chain \<Rightarrow> chain_summary" where
  "chain_summary_of k a = \<lparr> ch_id = ak_id a, ch_start_time = chrono_to_proto_ts k (ak_start_time a),
     ch_end_time = chrono_to_proto_ts k (ak_end_time a), ch_risk_score = ak_risk_score a, ch_tactics = ak_tactics a,
     ch_techniques = ak_techniques a, ch_event_count = ak_event_count a,
     ch_status = chain_status_to_proto (ak_status a), ch_kill_chain_coverage = ak_kill_chain_coverage a \<rparr>"

text \<open>The rows the chain query of the repository selects, highest risk first.\<close>

definition chain_column :: "chain_row \<Rightarrow> string \<Rightarrow> sql_value" where
  "chain_column r col =
     (if col = ''state'' then SInt (cr_state r) else if col = ''risk_score'' then SInt (cr_risk_score r)
      else if col = ''start_time'' then SText (cr_start_time r) else if col = ''end_time'' then SText (cr_end_time r)
      else SText [])"

definition query_chains ::
    "codec \<Rightarrow> (chain_row list \<Rightarrow> chain_row list) \<Rightarrow> chain_query \<Rightarrow> chain_row list \<Rightarrow> attack_chain list" where
  "query_chains c highest_first q rows = map (row_to_chain c) (take (unat (cq_limit q))
     (highest_first (filter (\<lambda>r. row_matches (chain_conds (k_date_show c) q) (chain_column r)) rows)))"

definition attack_chains ::
    "codec \<Rightarrow> time_conv \<Rightarrow> (chain_row list \<Rightarrow> chain_row list) \<Rightarrow> string option \<Rightarrow> chain_row list \<Rightarrow> chains_request
       \<Rightarrow> chain_summary list grpc" where
  "attack_chains c k highest_first db rows q = grpc_bind (chains_query_of k q) (\<lambda>cq.
     case db of Some e \<Rightarrow> Refuse (map_err e)
     | None \<Rightarrow> Reply (map (chain_summary_of k) (query_chains c highest_first cq rows)))"

definition chain_detail :: "codec \<Rightarrow> time_conv \<Rightarrow> string option \<Rightarrow> chain_table \<Rightarrow> string \<Rightarrow> chain_summary grpc" where
  "chain_detail c k db t i = grpc_bind (found db (''chain not found: '' @ i) (get_chain c t i))
     (\<lambda>a. Reply (chain_summary_of k a))"

section \<open>Plugins and configuration\<close>

record plugin_info =
  pi_id :: string
  pi_name :: string
  pi_version :: string
  pi_description :: string
  pi_state :: i32

definition plugin_info_of :: "string \<Rightarrow> string \<Rightarrow> string \<Rightarrow> bool \<Rightarrow> plugin_info" where
  "plugin_info_of i name desc needs_key =
     \<lparr> pi_id = i, pi_name = name, pi_version = ''0.1.0'', pi_description = desc, pi_state = 3 \<rparr>"

definition list_plugins :: "plugin_info list grpc" where
  "list_plugins = Reply [
     plugin_info_of ''abuseipdb'' ''AbuseIPDB'' ''IP reputation lookup'' True,
     plugin_info_of ''virustotal'' ''VirusTotal'' ''File hash and URL analysis'' True,
     plugin_info_of ''shodan'' ''Shodan'' ''Host and service fingerprinting'' True,
     plugin_info_of ''otx'' ''AlienVault OTX'' ''Threat intelligence pulses'' True,
     plugin_info_of ''greynoise'' ''GreyNoise'' ''Benign scanner detection'' True,
     plugin_info_of ''urlhaus'' ''URLhaus'' ''Malware URL lookup'' False,
     plugin_info_of ''geoip'' ''GeoIP'' ''IP geolocation via MaxMind'' False,
     plugin_info_of ''ioc'' ''IOC Scanner'' ''Local threat intel database'' False,
     plugin_info_of ''discord'' ''Discord'' ''Alert notifications'' True,
     plugin_info_of ''telegram'' ''Telegram'' ''Alert notifications'' True,
     plugin_info_of ''slack'' ''Slack'' ''Alert notifications'' True,
     plugin_info_of ''email'' ''Email'' ''Alert notifications via SMTP'' True,
     plugin_info_of ''home-assistant'' ''Home Assistant'' ''Automation notifications'' True]"

definition plugin_table :: "(string \<times> string \<times> string) list" where
  "plugin_table = [
     (''abuseipdb'', ''AbuseIPDB'', ''IP reputation lookup via AbuseIPDB API v2''),
     (''virustotal'', ''VirusTotal'', ''File hash and URL analysis via VirusTotal API v3''),
     (''shodan'', ''Shodan'', ''Host and service fingerprinting''),
     (''otx'', ''AlienVault OTX'', ''Threat intelligence pulses''),
     (''greynoise'', ''GreyNoise'', ''Benign scanner identification''),
     (''urlhaus'', ''URLhaus'', ''Malware URL database lookup''),
     (''geoip'', ''GeoIP'', ''IP geolocation with MaxMind GeoLite2''),
     (''ioc'', ''IOC Scanner'', ''Local threat intelligence from CSV/STIX''),
     (''discord'', ''Discord'', ''Alert notifications via webhook''),
     (''telegram'', ''Telegram'', ''Alert notifications via bot''),
     (''slack'', ''Slack'', ''Alert notifications via webhook''),
     (''email'', ''Email'', ''Alert notifications via SMTP''),
     (''home-assistant'', ''Home Assistant'', ''Automation notifications'')]"

definition get_plugin :: "string \<Rightarrow> plugin_info grpc" where
  "get_plugin i = (case find (\<lambda>(pid, name, desc). pid = i) plugin_table of
     None \<Rightarrow> Refuse (St_NotFound (''plugin not found: '' @ i))
   | Some (pid, name, desc) \<Rightarrow> Reply \<lparr> pi_id = pid, pi_name = name, pi_version = ''0.1.0'',
       pi_description = desc, pi_state = 3 \<rparr>)"

text \<open>Neither of the two stores what it is given.\<close>

definition configure_plugin :: "pstruct option \<Rightarrow> pstruct option grpc" where
  "configure_plugin config = Reply config"

record config_response =
  co_config_toml :: string
  co_version :: int

definition update_config :: "string \<Rightarrow> config_response grpc" where
  "update_config toml = Reply \<lparr> co_config_toml = toml, co_version = 1 \<rparr>"

lemma plugins_listed_are_found:
  "case list_plugins of Reply ps \<Rightarrow>
     list_all (\<lambda>p. case get_plugin (pi_id p) of Reply q \<Rightarrow> (pi_id q, pi_name q, pi_state q) = (pi_id p, pi_name p, pi_state p)
       | _ \<Rightarrow> False) ps | _ \<Rightarrow> False"
  by (simp add: list_plugins_def plugin_info_of_def get_plugin_def plugin_table_def)

section \<open>Collectors and the status of the service\<close>

record collector_stats =
  ks_events_produced :: u64
  ks_events_dropped :: u64
  ks_errors :: u64

definition collector_stats_of :: "collector_status \<Rightarrow> collector_stats" where
  "collector_stats_of s = \<lparr> ks_events_produced = cs_events_produced s, ks_events_dropped = 0, ks_errors = cs_errors s \<rparr>"

text \<open>\<open>timestamp()\<close> and \<open>timestamp_subsec_nanos()\<close> of a date.\<close>

definition datetime_parts :: "datetime \<Rightarrow> timestamp" where
  "datetime_parts d = \<lparr> ts_seconds = d div int nanos_per_sec, ts_nanos = d mod int nanos_per_sec \<rparr>"

definition collector_state_code :: "string \<Rightarrow> i32" where
  "collector_state_code s = (if s = ''running'' then 3 else if s = ''stopped'' then 1 else if s = ''starting'' then 2
     else if s = ''degraded'' then 4 else if s = ''error'' then 5 else 0)"

record collector_info =
  ci_id :: string
  ci_name :: string
  ci_description :: string
  ci_enabled :: bool
  ci_state :: i32
  ci_stats :: "collector_stats option"
  ci_last_event :: "timestamp option"

definition collector_info_of :: "collector_status \<Rightarrow> collector_info" where
  "collector_info_of s = \<lparr> ci_id = cs_id s, ci_name = cs_name s, ci_description = cs_description s,
     ci_enabled = (cs_state s \<noteq> ''stopped''), ci_state = collector_state_code (cs_state s),
     ci_stats = Some (collector_stats_of s), ci_last_event = map_option datetime_parts (cs_last_event_at s) \<rparr>"

definition list_collectors :: "collector_registry \<Rightarrow> collector_info set grpc" where
  "list_collectors reg = Reply (collector_info_of ` collector_list reg)"

definition no_collector :: "string \<Rightarrow> status" where
  "no_collector i = St_NotFound (''collector not found: '' @ i)"

definition collector_status_of :: "collector_registry \<Rightarrow> string \<Rightarrow> collector_info grpc" where
  "collector_status_of reg i = (case collector_get reg i of None \<Rightarrow> Refuse (no_collector i)
     | Some s \<Rightarrow> Reply (collector_info_of s))"

definition restart_collector :: "string \<Rightarrow> collector_registry \<Rightarrow> unit grpc \<times> collector_registry" where
  "restart_collector i reg = (case collector_get reg i of None \<Rightarrow> (Refuse (no_collector i), reg)
     | Some s \<Rightarrow> (Reply (), collector_update_state i ''restarting'' reg))"

record status_collector =
  sl_id :: string
  sl_name :: string
  sl_state :: i32
  sl_stats :: "collector_stats option"
  sl_last_event :: "timestamp option"

definition status_collector_of :: "collector_status \<Rightarrow> status_collector" where
  "status_collector_of s = \<lparr> sl_id = cs_id s, sl_name = cs_name s, sl_state = collector_state_code (cs_state s),
     sl_stats = Some (collector_stats_of s), sl_last_event = map_option datetime_parts (cs_last_event_at s) \<rparr>"

record ai_status =
  as_enabled :: bool
  as_model :: string
  as_provider :: string
  as_requests_total :: u64
  as_avg_latency_ms :: f64

record rule_engine_status =
  rs_loaded_rules :: u32
  rs_enabled_rules :: u32
  rs_evaluations_total :: u64
  rs_matches_total :: u64
  rs_avg_eval_time_ms :: f64

record status_response =
  sr_state :: i32
  sr_uptime :: timestamp
  sr_cpu_percent :: f64
  sr_memory_bytes :: u64
  sr_event_queue_depth :: u64
  sr_collectors :: "string \<rightharpoonup> status_collector"
  sr_rules :: rule_engine_status
  sr_ai :: ai_status

text \<open>The answer is keyed by the id each status has; in a reachable registry that is its key.\<close>

definition status_of ::
    "nat \<Rightarrow> f64 \<Rightarrow> u64 \<Rightarrow> ai_status \<Rightarrow> rule_engine_metrics \<Rightarrow> collector_registry \<Rightarrow> status_response grpc" where
  "status_of uptime cpu memory ai g reg = Reply \<lparr> sr_state = 2,
     sr_uptime = \<lparr> ts_seconds = int (as_secs uptime), ts_nanos = 0 \<rparr>, sr_cpu_percent = cpu,
     sr_memory_bytes = memory, sr_event_queue_depth = 0,
     sr_collectors = (\<lambda>i. map_option status_collector_of (reg i)),
     sr_rules = \<lparr> rs_loaded_rules = ucast (re_rules_loaded g), rs_enabled_rules = ucast (re_rules_enabled g),
       rs_evaluations_total = re_evaluations_total g, rs_matches_total = re_matches_total g,
       rs_avg_eval_time_ms = f64_of_nat (unat (re_avg_eval_time_ms g)) \<rparr>,
     sr_ai = ai \<rparr>"

section \<open>What the answers hold\<close>

text \<open>
  A query over the API heeds only the event types, the sources, the minimal risk, the limit
  and the offset.  The times, severities, processes, hosts, tags, chain and free text of the
  request and its order change nothing in the answer.  The total it reports is the length of the
  page, never more than the limit, and of a longer page only the first thousand events are sent.
\<close>

theorem query_filters_ignored:
  "query_events c order db rows (q\<lparr> qe_query := Some (f\<lparr> qf_start_time := st, qf_end_time := en, qf_severities := sv,
       qf_process_names := pn, qf_pids := pids, qf_hosts := hs, qf_correlation_id := ci, qf_flow_id := fl,
       qf_tags := tg, qf_free_text := ft \<rparr>), qe_sort_by := sb, qe_sort_desc := sd \<rparr>)
     = query_events c order db rows (q\<lparr> qe_query := Some f \<rparr>) \<and>
   (case query_events c order db rows q of
      Reply r \<Rightarrow> qs_events r = take 1000 (events_query c order (request_query q) rows)
        \<and> qs_total_count r = int (length (events_query c order (request_query q) rows))
        \<and> qs_total_count r \<le> uint (positive_or 100 (qe_limit q))
    | Refuse s \<Rightarrow> db \<noteq> None | Panic \<Rightarrow> False)"
proof
  show "query_events c order db rows (q\<lparr> qe_query := Some (f\<lparr> qf_start_time := st, qf_end_time := en, qf_severities := sv,
       qf_process_names := pn, qf_pids := pids, qf_hosts := hs, qf_correlation_id := ci, qf_flow_id := fl,
       qf_tags := tg, qf_free_text := ft \<rparr>), qe_sort_by := sb, qe_sort_desc := sd \<rparr>)
     = query_events c order db rows (q\<lparr> qe_query := Some f \<rparr>)"
  proof -
    have "request_query (q\<lparr> qe_query := Some (f\<lparr> qf_start_time := st, qf_end_time := en, qf_severities := sv,
       qf_process_names := pn, qf_pids := pids, qf_hosts := hs, qf_correlation_id := ci, qf_flow_id := fl,
       qf_tags := tg, qf_free_text := ft \<rparr>), qe_sort_by := sb, qe_sort_desc := sd \<rparr>) = request_query (q\<lparr> qe_query := Some f \<rparr>)"
      by (simp add: request_query_def unwrap_or_def Let_def)
    then show ?thesis by (simp only: query_events_def)
  qed
  have "length (events_query c order (request_query q) rows) \<le> unat (positive_or 100 (qe_limit q))"
    by (simp add: events_query_def select_page_def request_query_def Let_def)
  then have "int (length (events_query c order (request_query q) rows)) \<le> uint (positive_or 100 (qe_limit q))"
    by (metis of_nat_mono uint_nat)
  then show "case query_events c order db rows q of
      Reply r \<Rightarrow> qs_events r = take 1000 (events_query c order (request_query q) rows)
        \<and> qs_total_count r = int (length (events_query c order (request_query q) rows))
        \<and> qs_total_count r \<le> uint (positive_or 100 (qe_limit q))
    | Refuse s \<Rightarrow> db \<noteq> None | Panic \<Rightarrow> False"
    by (cases db) (simp_all add: query_events_def cursor_new_def cursor_collect_def Let_def min_def)
qed

lemma store_rule_unchanged: "(\<forall>p. fst (store_rule c k db r t) \<noteq> Reply p) \<longrightarrow> snd (store_rule c k db r t) = t"
  by (cases r; cases db) (simp_all add: store_rule_def)

lemma absent_update: "table_get t (k_ulid_show c i) = None \<Longrightarrow> alert_update_state c now t i st cm = t"
  by (simp add: alert_update_state_def table_modify_def table_get_def)

text \<open>
  C30: A request that is refused changes nothing.  No rule is stored or deleted, no collector
  touched and no alert changed or announced when the answer is an error, with one exception: the
  new state of an alert stays although an error is reported if reading the alert back fails.
  An answered change of an alert is announced once, with the state that was asked for.
\<close>

theorem refused_requests_change_nothing:
  "case (create_rule c k now fresh db p t, update_rule c k now fresh db i p t, delete_rule db i t, restart_collector i reg,
         update_alert_state c k now fr fr' id_err db db_get q m) of
     ((a1, t1), (a2, t2), (a3, t3), (a4, reg'), (a5, m')) \<Rightarrow>
       ((\<exists>x. a1 = Reply x) \<or> t1 = t) \<and> ((\<exists>x. a2 = Reply x) \<or> t2 = t) \<and> ((\<exists>x. a3 = Reply x) \<or> t3 = t) \<and>
       ((\<exists>x. a4 = Reply x) \<or> reg' = reg) \<and>
       (case a5 of
          Reply a \<Rightarrow> map se_alert_state (am_sent m') = map se_alert_state (am_sent m) @ [ua_new_state q]
            \<and> pa_state a = ua_new_state q
        | _ \<Rightarrow> am_sent m' = am_sent m \<and> ((\<exists>e. db_get = Some e) \<or> am_repo m' = am_repo m))"
proof -
  have r: "(\<forall>x. fst (create_rule c k now fresh db p t) \<noteq> Reply x) \<longrightarrow> snd (create_rule c k now fresh db p t) = t"
    "(\<forall>x. fst (update_rule c k now fresh db i p t) \<noteq> Reply x) \<longrightarrow> snd (update_rule c k now fresh db i p t) = t"
    unfolding create_rule_def update_rule_def by (rule store_rule_unchanged)+
  have d: "(\<forall>x. fst (delete_rule db i t) \<noteq> Reply x) \<longrightarrow> snd (delete_rule db i t) = t"
    "(\<forall>x. fst (restart_collector i reg) \<noteq> Reply x) \<longrightarrow> snd (restart_collector i reg) = reg"
    by (simp_all add: delete_rule_def restart_collector_def split: option.splits)
  have u: "case update_alert_state c k now fr fr' id_err db db_get q m of (a5, m') \<Rightarrow> case a5 of
       Reply a \<Rightarrow> map se_alert_state (am_sent m') = map se_alert_state (am_sent m) @ [ua_new_state q] \<and> pa_state a = ua_new_state q
     | _ \<Rightarrow> am_sent m' = am_sent m \<and> ((\<exists>e. db_get = Some e) \<or> am_repo m' = am_repo m)"
  proof (cases "k_ulid_parse c (ua_alert_id q)")
    case (Some j)
    show ?thesis
    proof (cases "proto_alert_state_to_core (ua_new_state q)")
      case st: (Some st)
      have code: "core_alert_state_to_proto st = ua_new_state q"
        using st by (auto simp: proto_alert_state_to_core_def split: if_splits)
      have key: "table_get (alert_update_state c now (am_repo m) j st cm) (k_ulid_show c j)
          = map_option (set_state c now st cm) (table_get (am_repo m) (k_ulid_show c j))" for cm
        by (simp add: update_state_get)
      have "al_state (row_to_alert c fr fr' (set_state c now st cm r)) = st" for cm r
        by (cases st) (simp_all add: row_to_alert_def set_state_def alert_state_of_code_def get_i32_def)
      with code st key show ?thesis
        by (cases db; cases db_get; cases "table_get (am_repo m) (k_ulid_show c j)")
          (simp_all add: update_alert_state_def read_id_def Some requested_state_def found_def alert_get_def
            absent_update alert_full_def alert_to_stream_event_def Let_def)
    qed (simp add: update_alert_state_def read_id_def Some requested_state_def)
  qed (simp add: update_alert_state_def read_id_def)
  show ?thesis
    using r d u by (simp add: case_prod_beta cong: grpc.case_cong) blast
qed

text \<open>
  A rule that was created is the rule that is read back.  The answer of a successful creation
  is what a later \<open>get_rule\<close> of its id answers, and no other rule is changed.
\<close>

theorem created_rule_is_read_back:
  assumes "proto_to_core_rule k now fresh p = Reply r" and "rule_text_ok c r"
  shows "case create_rule c k now fresh None (Some p) t of (a, t') \<Rightarrow>
    a = Reply (core_rule_to_proto k r) \<and> get_rule c k n n' None t' (ru_id r) = a \<and>
    (\<forall>i. i \<noteq> ru_id r \<longrightarrow> get_rule c k n n' None t' i = get_rule c k n n' None t i)"
proof -
  have "create_rule c k now fresh None (Some p) t = (Reply (core_rule_to_proto k r), rules_upsert c t r)"
    using assms(1) by (simp add: create_rule_def required_rule_def store_rule_def)
  moreover have "rules_get c n n' (rules_upsert c t r) (ru_id r) = Some r"
    using rules_upsert_row [of c t r] assms(2) by (auto simp: rules_get_def table_get_def parse_rule_def rule_text_ok_def)
  moreover have "rules_get c n n' (rules_upsert c t r) i = rules_get c n n' t i" if "i \<noteq> ru_id r" for i
    using rules_upsert_other [OF that] by (simp add: rules_get_def table_get_def)
  ultimately show ?thesis by (simp add: get_rule_def found_def)
qed

definition create_demo :: api_rule where
  "create_demo = core_rule_to_proto plain_times wire_demo"

lemma created_rule_is_read_back_witness:
  "get_rule (decimal_codec JNull (wire_rule 9 ''new'' wire_demo)) plain_times 0 0 None
     (snd (create_rule (decimal_codec JNull (wire_rule 9 ''new'' wire_demo)) plain_times 9 ''new'' None (Some create_demo) Map.empty)) ''r1''
   = Reply (core_rule_to_proto plain_times (wire_rule 9 ''new'' wire_demo))"
proof -
  have "proto_to_core_rule plain_times 9 ''new'' create_demo = Reply (wire_rule 9 ''new'' wire_demo)"
    unfolding create_demo_def by (rule rule_wire_reply) (simp_all add: time_conv_ok_def plain_times_def rule_json_ok_def wire_demo_def)
  moreover have "rule_text_ok (decimal_codec JNull (wire_rule 9 ''new'' wire_demo)) (wire_rule 9 ''new'' wire_demo)"
    by (simp add: rule_text_ok_def decimal_codec_def)
  moreover have "ru_id (wire_rule 9 ''new'' wire_demo) = ''r1''" by (simp add: wire_rule_def wire_demo_def)
  ultimately show ?thesis
    using created_rule_is_read_back [of plain_times 9 "''new''" create_demo "wire_rule 9 ''new'' wire_demo"
        "decimal_codec JNull (wire_rule 9 ''new'' wire_demo)" 0 0 Map.empty]
    by (simp add: case_prod_beta)
qed

text \<open>A client that sends a rule back as it got it takes the tests of the rule away.\<close>

lemma unchanged_update_loses_tests:
  assumes "rules_get c n n' t (ru_id r) = Some r" and "ru_id r \<noteq> []" and "time_conv_ok k (ru_created r)" and "rule_json_ok r"
    and "get_rule c k n n' None t (ru_id r) = Reply p" and "rule_text_ok c (wire_rule now fresh r)"
  shows "rules_get c n n' (snd (update_rule c k now fresh None (ru_id r) (Some p) t)) (ru_id r) = Some (wire_rule now fresh r)"
proof -
  have "p = core_rule_to_proto k r" using assms(1,5) by (simp add: get_rule_def found_def)
  then have "proto_to_core_rule k now fresh p = Reply (wire_rule now fresh r)"
    using rule_wire_reply [OF assms(3,4)] by simp
  moreover have id: "(wire_rule now fresh r)\<lparr> ru_id := ru_id r \<rparr> = wire_rule now fresh r" "ru_id (wire_rule now fresh r) = ru_id r"
    using assms(2) by (simp_all add: wire_rule_def)
  ultimately have "snd (update_rule c k now fresh None (ru_id r) (Some p) t) = rules_upsert c t (wire_rule now fresh r)"
    by (simp only: update_rule_def required_rule_def store_rule_def option.case grpc_bind.simps grpc.case snd_conv)
  moreover obtain row where "rules_upsert c t (wire_rule now fresh r) (ru_id r) = Some row"
      "rw_rule_json row = k_rule_show c (wire_rule now fresh r)"
    using rules_upsert_row [of c t "wire_rule now fresh r"] id by metis
  ultimately show ?thesis
    using assms(6) by (simp add: rules_get_def table_get_def parse_rule_def rule_text_ok_def)
qed

text \<open>A restarted collector is enabled and in no known state, and stays so until it reports itself.\<close>

lemma restart_leaves_state_unknown:
  assumes "collector_get reg i = Some s"
  shows "collector_status_of (snd (restart_collector i reg)) i =
    Reply ((collector_info_of s)\<lparr> ci_enabled := True, ci_state := 0 \<rparr>)"
  using assms
  by (simp add: restart_collector_def collector_status_of_def collector_get_def collector_update_state_def
      collector_info_of_def collector_state_code_def collector_stats_of_def)

text \<open>The alerts that are listed show neither their state nor any date.\<close>

lemma listed_alerts_hide_state:
  "alert_brief c (a\<lparr> al_state := st, al_created_at := d, al_updated_at := d', al_acknowledged_by := who,
     al_acknowledged_at := d'', al_events := es, al_correlation_id := i \<rparr>) = alert_brief c a"
  by (simp add: alert_brief_def)

text \<open>A test never fails its expectation: what it finds is what it expects.\<close>

lemma test_expects_what_it_finds:
  assumes "test_rule k now fresh compile execute p events = Reply (results, passed)"
  shows "list_all (\<lambda>r. tr_expected_match r = tr_matched r) results \<and> map tr_event_id results = map ev_id events
    \<and> (passed \<longleftrightarrow> events \<noteq> [] \<and> list_all tr_matched results)"
proof -
  obtain r where "grpc_bind (required_rule p) (proto_to_core_rule k now fresh) = Reply r"
    using assms by (cases "grpc_bind (required_rule p) (proto_to_core_rule k now fresh)") (simp_all add: test_rule_def)
  with assms show ?thesis by (auto simp: test_rule_def Let_def list_all_iff)
qed

end
