(* ===== verification/Proc_Netlink.thy ===== *)
theory Proc_Netlink
  imports Sock_Diag
begin

text \<open>
  The kernel's process events (collectors/src/process/netlink_bindings.rs and the parser of
  netlink_monitor.rs).  The C structs have a fixed layout, so a struct is read from its bytes at
  the offsets of its fields, on a little-endian machine.  The parser makes references through raw pointers:
  the model keeps the list of the ranges they point to.  A reference that is not aligned for its type is
  undefined in the language.  A build with debug assertions checks it and aborts; in an optimised build
  the model takes the bytes that are there, as the machines the program is built for do
  (\<open>parse_netlink_datagram\<close>).
\<close>

section \<open>Layouts (netlink_bindings.rs)\<close>

abbreviation CN_IDX_PROC :: u32 where "CN_IDX_PROC \<equiv> 1"
abbreviation CN_VAL_PROC :: u32 where "CN_VAL_PROC \<equiv> 1"
abbreviation PROC_EVENT_FORK :: u32 where "PROC_EVENT_FORK \<equiv> 0x00000001"
abbreviation PROC_EVENT_EXEC :: u32 where "PROC_EVENT_EXEC \<equiv> 0x00000002"
abbreviation PROC_EVENT_UID :: u32 where "PROC_EVENT_UID \<equiv> 0x00000004"
abbreviation PROC_EVENT_PTRACE :: u32 where "PROC_EVENT_PTRACE \<equiv> 0x00000100"
abbreviation PROC_EVENT_COMM :: u32 where "PROC_EVENT_COMM \<equiv> 0x00000200"
abbreviation PROC_EVENT_COREDUMP :: u32 where "PROC_EVENT_COREDUMP \<equiv> 0x40000000"
abbreviation PROC_EVENT_EXIT :: u32 where "PROC_EVENT_EXIT \<equiv> 0x80000000"

text \<open>The sizes \<open>size_of\<close> gives: the largest member of the union of \<open>proc_event\<close> is the 24 bytes
  of \<open>comm_proc_event\<close>, so an event has 40 and not the 32 of \<open>assert_sizes\<close>, a function that nothing calls.\<close>

abbreviation nlmsghdr_size :: nat where "nlmsghdr_size \<equiv> 16"
abbreviation cn_msg_size :: nat where "cn_msg_size \<equiv> 20"
abbreviation proc_event_size :: nat where "proc_event_size \<equiv> 40"

definition le64 :: "u8 list \<Rightarrow> u64" where
  "le64 bs = ucast (le32 bs) + 2 ^ 32 * ucast (le32 (drop 4 bs))"

text \<open>The field of four bytes at an offset.\<close>

definition field32 :: "u8 list \<Rightarrow> nat \<Rightarrow> u32" where
  "field32 bs n = le32 (drop n bs)"

record cb_id =
  cb_idx :: u32
  cb_val :: u32

record proc_event =
  pv_what :: u32
  pv_cpu :: u32
  pv_timestamp_ns :: u64
  pv_data :: "u8 list"

definition read_cb_id :: "u8 list \<Rightarrow> cb_id" where
  "read_cb_id bs = \<lparr> cb_idx = field32 bs 0, cb_val = field32 bs 4 \<rparr>"

definition read_proc_event :: "u8 list \<Rightarrow> proc_event" where
  "read_proc_event bs = \<lparr> pv_what = field32 bs 0, pv_cpu = field32 bs 4, pv_timestamp_ns = le64 (drop 8 bs),
     pv_data = take 24 (drop 16 bs) \<rparr>"

section \<open>Decoding (netlink_monitor.rs)\<close>

datatype proc_netlink_event =
  Fork (fk_parent_pid: i32) (fk_parent_tgid: i32) (fk_child_pid: i32) (fk_child_tgid: i32) (fk_time: u64)
| Exec i32 i32 u64
| Exit i32 i32 u32 u32 u64
| Comm i32 i32 "u8 list" u64
| Uid i32 i32 u32 u32 u64
| Ptrace i32 i32 i32 i32 u64
| Coredump i32 i32 i32 i32 u64

definition decode_proc_event :: "proc_event \<Rightarrow> proc_netlink_event option" where
  "decode_proc_event pe =
     (let w = pv_what pe; ts = pv_timestamp_ns pe; f = field32 (pv_data pe) in
      if w = PROC_EVENT_FORK then Some (Fork (f 0) (f 4) (f 8) (f 12) ts)
      else if w = PROC_EVENT_EXEC then Some (Exec (f 0) (f 4) ts)
      else if w = PROC_EVENT_EXIT then Some (Exit (f 0) (f 4) (f 8) (f 12) ts)
      else if w = PROC_EVENT_UID then Some (Uid (f 0) (f 4) (f 8) (f 12) ts)
      else if w = PROC_EVENT_PTRACE then Some (Ptrace (f 0) (f 4) (f 8) (f 12) ts)
      else if w = PROC_EVENT_COMM then Some (Comm (f 0) (f 4) (take 16 (drop 8 (pv_data pe))) ts)
      else if w = PROC_EVENT_COREDUMP then Some (Coredump (f 0) (f 4) (f 8) (f 12) ts)
      else None)"

section \<open>The parser\<close>

text \<open>A range of the buffer: its offset and its size.\<close>

type_synonym range = "nat \<times> nat"

text \<open>The message at \<open>offset\<close> whose length is \<open>len\<close>: the ranges that are read and the event.  What is read is the
  bytes that are there, whatever the alignment of the reference: so an optimised build, of which the language
  promises nothing.  The alignment is the matter of \<open>parse_netlink_datagram\<close> below.\<close>

definition parse_message :: "u8 list \<Rightarrow> nat \<Rightarrow> nat \<Rightarrow> range list \<times> proc_netlink_event list" where
  "parse_message buf offset len =
     (let payload_offset = offset + nlmsghdr_size; payload_end = offset + len in
      if payload_offset + cn_msg_size \<le> payload_end then
        let i = read_cb_id (drop payload_offset buf); reads = [(payload_offset, cn_msg_size)] in
        if cb_idx i = CN_IDX_PROC \<and> cb_val i = CN_VAL_PROC then
          let proc_offset = payload_offset + cn_msg_size in
          if proc_offset + proc_event_size \<le> payload_end then
            (reads @ [(proc_offset, proc_event_size)],
             case decode_proc_event (read_proc_event (drop proc_offset buf)) of None \<Rightarrow> [] | Some ev \<Rightarrow> [ev])
          else (reads, [])
        else (reads, [])
      else ([], []))"

text \<open>The loop; after a message the offset grows by its length, at least a header.  The last test
  of the code, for a length of zero, is never met.\<close>

function netlink_loop :: "u8 list \<Rightarrow> nat \<Rightarrow> range list \<times> proc_netlink_event list" where
  "netlink_loop buf offset =
     (if length buf < offset + nlmsghdr_size then ([], [])
      else
        let len = nlmsg_len (drop offset buf); header = [(offset, nlmsghdr_size)] in
        if len = 0 \<or> length buf - offset < len then (header, [])
        else case parse_message buf offset len of (reads, evs) \<Rightarrow>
          case netlink_loop buf (offset + max len nlmsghdr_size) of (reads', evs') \<Rightarrow>
            (header @ reads @ reads', evs @ evs'))"
  by pat_completeness auto
termination by (relation "measure (\<lambda>(buf, offset). length buf - offset)") auto

declare netlink_loop.simps [simp del]

definition parse_netlink_messages :: "u8 list \<Rightarrow> proc_netlink_event list" where
  "parse_netlink_messages buf = snd (netlink_loop buf 0)"

text \<open>Every range that a parse reads.\<close>

definition netlink_reads :: "u8 list \<Rightarrow> range list" where
  "netlink_reads buf = fst (netlink_loop buf 0)"

text \<open>The alignment of the struct of a size: \<open>proc_event\<close> has a field of eight bytes, the headers have
  fields of at most four.\<close>

definition align_of :: "nat \<Rightarrow> nat" where
  "align_of n = (if n = proc_event_size then 8 else 4)"

text \<open>The parse of a datagram, in a build with debug assertions or without.  The buffer is a fresh vector of
  4096 bytes, which the allocator aligns to 16; the abort at a misaligned reference is \<open>None\<close>.\<close>

definition parse_netlink_datagram :: "bool \<Rightarrow> u8 list \<Rightarrow> proc_netlink_event list option" where
  "parse_netlink_datagram checked buf =
     (if checked \<and> \<not> list_all (\<lambda>(off, n). align_of n dvd off) (netlink_reads buf) then None
      else Some (parse_netlink_messages buf))"

section \<open>Memory safety\<close>

lemma parse_message_in_bounds:
  "offset + len \<le> length buf \<Longrightarrow> (o', n) \<in> set (fst (parse_message buf offset len)) \<Longrightarrow>
     offset \<le> o' \<and> o' + n \<le> offset + len"
  by (auto simp: parse_message_def Let_def split: if_splits option.splits)

lemma netlink_loop_in_bounds:
  "(o', n) \<in> set (fst (netlink_loop buf offset)) \<Longrightarrow> offset \<le> o' \<and> o' + n \<le> length buf"
proof (induction buf offset arbitrary: o' n rule: netlink_loop.induct)
  case (1 buf offset)
  let ?len = "nlmsg_len (drop offset buf)"
  show ?case
  proof (cases "length buf < offset + nlmsghdr_size \<or> ?len = 0 \<or> length buf - offset < ?len")
    case True
    with 1(2) show ?thesis by (subst (asm) netlink_loop.simps) (auto simp: Let_def split: if_splits)
  next
    case False
    then have room: "offset + ?len \<le> length buf" by linarith
    from False 1(2) have "(o', n) = (offset, nlmsghdr_size) \<or> (o', n) \<in> set (fst (parse_message buf offset ?len)) \<or>
        (o', n) \<in> set (fst (netlink_loop buf (offset + max ?len nlmsghdr_size)))"
      by (subst (asm) netlink_loop.simps) (auto simp: Let_def case_prod_beta)
    then show ?thesis
    proof (elim disjE)
      assume "(o', n) \<in> set (fst (netlink_loop buf (offset + max ?len nlmsghdr_size)))"
      moreover have "\<And>p x. parse_message buf offset ?len = (p, x) \<Longrightarrow>
          (o', n) \<in> set (fst (netlink_loop buf (offset + max ?len nlmsghdr_size))) \<Longrightarrow>
          offset + max ?len nlmsghdr_size \<le> o' \<and> o' + n \<le> length buf"
        using 1(1) False by auto
      ultimately show ?thesis by (cases "parse_message buf offset ?len") fastforce
    qed (use False room parse_message_in_bounds [OF room] in fastforce)+
  qed
qed

text \<open>
  C17: The unsafe reads of the parser stay inside the buffer: whatever bytes a datagram has and
  whatever lengths its headers claim, every struct it looks at lies wholly between the start and
  the end of what was received.
\<close>

theorem netlink_reads_in_bounds:
  "list_all (\<lambda>(off, n). off + n \<le> length buf) (netlink_reads buf)"
  using netlink_loop_in_bounds [of _ _ buf 0] by (auto simp: list_all_iff netlink_reads_def)

section \<open>Messages of the kernel\<close>

definition le_bytes32 :: "u32 \<Rightarrow> u8 list" where
  "le_bytes32 w = [ucast w, ucast (drop_bit 8 w), ucast (drop_bit 16 w), ucast (drop_bit 24 w)]"

definition le_bytes64 :: "u64 \<Rightarrow> u8 list" where
  "le_bytes64 w = le_bytes32 (ucast w) @ le_bytes32 (ucast (drop_bit 32 w))"

lemma length_le_bytes [simp]: "length (le_bytes32 w) = 4" "length (le_bytes64 v) = 8"
  by (simp_all add: le_bytes32_def le_bytes64_def)

lemma nat_drop_bit: "unat (drop_bit k w) = unat w div 2 ^ k" for w :: "'a::len word"
  using unat_drop_bit_eq [of k w] by (simp only: drop_bit_eq_div)

lemma byte_of_word: "unat (ucast (drop_bit k w) :: u8) = unat w div 2 ^ k mod 256" for w :: u32
  by (simp add: unsigned_ucast_eq take_bit_eq_mod nat_drop_bit)

lemma ucast_of_unat: "(ucast w :: 'b::len word) = word_of_nat (unat w)" for w :: "'a::len word"
  by simp

lemma byte_in_word: "(ucast (ucast (drop_bit k w) :: u8) :: u32) = word_of_nat (unat w div 2 ^ k mod 256)" for w :: u32
  by (metis ucast_of_unat byte_of_word)

lemma nat_bytes4:
  assumes "n < (4294967296 :: nat)"
  shows "n mod 256 + 256 * (n div 256 mod 256) + 65536 * (n div 65536 mod 256) + 16777216 * (n div 16777216 mod 256) = n"
proof -
  have e: "n div 65536 = n div 256 div 256" "n div 16777216 = n div 256 div 256 div 256"
    by (simp_all add: div_mult2_eq [symmetric])
  have small: "n div 256 div 256 div 256 < 256" using assms by simp
  have split: "m mod 256 + 256 * (m div 256) = m" for m :: nat by simp
  show ?thesis
    using split [of n] split [of "n div 256"] split [of "n div 256 div 256"] mod_less [OF small]
    unfolding e by linarith
qed

lemma le32_bytes [simp]: "le32 (le_bytes32 w @ r) = w"
proof -
  have "le32 (le_bytes32 w @ r) = word_of_nat (unat w mod 256 + 256 * (unat w div 256 mod 256)
      + 65536 * (unat w div 65536 mod 256) + 16777216 * (unat w div 16777216 mod 256))"
    using byte_in_word [of 0 w] byte_in_word [of 8 w] byte_in_word [of 16 w] byte_in_word [of 24 w]
    by (simp add: le32_def le_bytes32_def)
  then show ?thesis
    by (simp only: nat_bytes4 [OF unat_u32_less]) simp
qed

lemma le32_bytes' [simp]: "le32 (le_bytes32 w) = w"
  using le32_bytes [of w "[]"] by simp

lemma le64_bytes [simp]: "le64 (le_bytes64 w @ r) = w"
proof -
  have "unat w < 2 ^ LENGTH(64)" by (rule unsigned_less)
  then have "unat (ucast w :: u32) = unat w mod 2 ^ 32" "unat (ucast (drop_bit 32 w) :: u32) = unat w div 2 ^ 32"
    by (simp_all add: unsigned_ucast_eq take_bit_eq_mod nat_drop_bit)
  then have "(ucast (ucast w :: u32) :: u64) = word_of_nat (unat w mod 2 ^ 32)"
    "(ucast (ucast (drop_bit 32 w) :: u32) :: u64) = word_of_nat (unat w div 2 ^ 32)"
    by (metis ucast_of_unat)+
  then have "le64 (le_bytes64 w @ r) = word_of_nat (unat w mod 2 ^ 32) + 2 ^ 32 * word_of_nat (unat w div 2 ^ 32)"
    by (simp only: le64_def le_bytes64_def append_assoc le32_bytes) simp
  also have "\<dots> = word_of_nat (unat w mod 2 ^ 32 + 2 ^ 32 * (unat w div 2 ^ 32))"
    by (simp only: of_nat_add of_nat_mult of_nat_power of_nat_numeral)
  also have "unat w mod 2 ^ 32 + 2 ^ 32 * (unat w div 2 ^ 32) = unat w"
    by (rule mod_mult_div_eq)
  finally show ?thesis by simp
qed

text \<open>What the kernel puts into the \<open>what\<close> and the union of the event, padded with zeros.\<close>

fun event_what :: "proc_netlink_event \<Rightarrow> u32" where
  "event_what (Fork _ _ _ _ _) = PROC_EVENT_FORK"
| "event_what (Exec _ _ _) = PROC_EVENT_EXEC"
| "event_what (Exit _ _ _ _ _) = PROC_EVENT_EXIT"
| "event_what (Comm _ _ _ _) = PROC_EVENT_COMM"
| "event_what (Uid _ _ _ _ _) = PROC_EVENT_UID"
| "event_what (Ptrace _ _ _ _ _) = PROC_EVENT_PTRACE"
| "event_what (Coredump _ _ _ _ _) = PROC_EVENT_COREDUMP"

definition words4 :: "u32 \<Rightarrow> u32 \<Rightarrow> u32 \<Rightarrow> u32 \<Rightarrow> u8 list" where
  "words4 a b c d = le_bytes32 a @ le_bytes32 b @ le_bytes32 c @ le_bytes32 d @ replicate 8 0"

fun event_data :: "proc_netlink_event \<Rightarrow> u8 list" where
  "event_data (Fork a b c d _) = words4 a b c d"
| "event_data (Exec a b _) = words4 a b 0 0"
| "event_data (Exit a b c d _) = words4 a b c d"
| "event_data (Comm a b comm _) = le_bytes32 a @ le_bytes32 b @ comm"
| "event_data (Uid a b c d _) = words4 a b c d"
| "event_data (Ptrace a b c d _) = words4 a b c d"
| "event_data (Coredump a b c d _) = words4 a b c d"

fun event_time :: "proc_netlink_event \<Rightarrow> u64" where
  "event_time (Fork _ _ _ _ t) = t"
| "event_time (Exec _ _ t) = t"
| "event_time (Exit _ _ _ _ t) = t"
| "event_time (Comm _ _ _ t) = t"
| "event_time (Uid _ _ _ _ t) = t"
| "event_time (Ptrace _ _ _ _ t) = t"
| "event_time (Coredump _ _ _ _ t) = t"

text \<open>A \<open>comm\<close> has sixteen bytes.\<close>

fun event_ok :: "proc_netlink_event \<Rightarrow> bool" where
  "event_ok (Comm _ _ comm _) \<longleftrightarrow> length comm = 16"
| "event_ok _ \<longleftrightarrow> True"

text \<open>The message: the header with the length 76, the connector header, the event; the type, the
  flags and the sequence numbers of the headers do not matter.\<close>

definition kernel_message :: "u32 \<times> u32 \<times> u32 \<times> u32 \<Rightarrow> proc_netlink_event \<Rightarrow> u8 list" where
  "kernel_message h ev = (case h of (kind, seq, pid, cpu) \<Rightarrow>
     le_bytes32 76 @ le_bytes32 kind @ le_bytes32 seq @ le_bytes32 pid @
     le_bytes32 CN_IDX_PROC @ le_bytes32 CN_VAL_PROC @ le_bytes32 seq @ le_bytes32 0 @ le_bytes32 40 @
     le_bytes32 (event_what ev) @ le_bytes32 cpu @ le_bytes64 (event_time ev) @ event_data ev)"

lemma length_event_data: "event_ok ev \<Longrightarrow> length (event_data ev) = 24"
  by (cases ev) (simp_all add: words4_def)

lemma length_kernel_message: "event_ok ev \<Longrightarrow> length (kernel_message h ev) = 76"
  by (cases h) (simp add: kernel_message_def length_event_data)

lemma decode_event:
  assumes "event_ok ev"
  shows "decode_proc_event (read_proc_event (le_bytes32 (event_what ev) @ le_bytes32 cpu @
    le_bytes64 (event_time ev) @ event_data ev @ rest)) = Some ev"
proof -
  have "read_proc_event (le_bytes32 (event_what ev) @ le_bytes32 cpu @ le_bytes64 (event_time ev) @ event_data ev @ rest)
      = \<lparr> pv_what = event_what ev, pv_cpu = cpu, pv_timestamp_ns = event_time ev, pv_data = event_data ev \<rparr>"
    by (simp add: read_proc_event_def field32_def length_event_data [OF assms])
  then show ?thesis
    using assms by (cases ev) (simp_all add: decode_proc_event_def field32_def words4_def Let_def)
qed

lemma parse_message_event:
  assumes "read_cb_id (drop (offset + 16) buf) = \<lparr> cb_idx = CN_IDX_PROC, cb_val = CN_VAL_PROC \<rparr>"
    and "decode_proc_event (read_proc_event (drop (offset + 36) buf)) = Some ev"
  shows "parse_message buf offset 76 = ([(offset + 16, cn_msg_size), (offset + 36, proc_event_size)], [ev])"
  using assms by (simp add: parse_message_def Let_def add.commute)

lemma kernel_message_parsed:
  assumes "event_ok ev"
  shows "nlmsg_len (drop (length pre) (pre @ kernel_message h ev @ rest)) = 76"
    "parse_message (pre @ kernel_message h ev @ rest) (length pre) 76
      = ([(length pre + 16, cn_msg_size), (length pre + 36, proc_event_size)], [ev])"
proof -
  obtain kind seq pid cpu where h: "h = (kind, seq, pid, cpu)" by (cases h)
  let ?buf = "pre @ kernel_message h ev @ rest"
  show "nlmsg_len (drop (length pre) ?buf) = 76"
    by (simp add: nlmsg_len_def kernel_message_def h)
  have "read_cb_id (drop (length pre + 16) ?buf) = \<lparr> cb_idx = CN_IDX_PROC, cb_val = CN_VAL_PROC \<rparr>"
    by (simp add: kernel_message_def h read_cb_id_def field32_def)
  moreover have "drop (length pre + 36) ?buf = le_bytes32 (event_what ev) @ le_bytes32 cpu @
      le_bytes64 (event_time ev) @ event_data ev @ rest"
    by (simp add: kernel_message_def h length_event_data [OF assms])
  ultimately show "parse_message ?buf (length pre) 76
      = ([(length pre + 16, cn_msg_size), (length pre + 36, proc_event_size)], [ev])"
    using parse_message_event [of "length pre" ?buf ev] decode_event [OF assms, of cpu rest] by (simp only:)
qed

lemma netlink_loop_message:
  assumes "event_ok ev"
  shows "snd (netlink_loop (pre @ kernel_message h ev @ rest) (length pre))
      = ev # snd (netlink_loop (pre @ kernel_message h ev @ rest) (length pre + 76))"
    and "(length pre + 36, proc_event_size) \<in> set (fst (netlink_loop (pre @ kernel_message h ev @ rest) (length pre)))"
  using kernel_message_parsed [OF assms, of pre h rest] length_kernel_message [OF assms, of h]
  by (subst netlink_loop.simps, simp add: Let_def case_prod_beta)+

text \<open>The first event lies 36 bytes into the buffer, which is no multiple of eight.\<close>

lemma first_event_misaligned:
  assumes "event_ok ev"
  shows "parse_netlink_datagram True (kernel_message h ev @ rest) = None"
proof -
  have "(36, proc_event_size) \<in> set (netlink_reads (kernel_message h ev @ rest))"
    using netlink_loop_message(2) [OF assms, of "[]" h rest] by (simp add: netlink_reads_def)
  moreover have "\<not> align_of proc_event_size dvd 36" by (simp add: align_of_def)
  ultimately have "\<not> list_all (\<lambda>(off, n). align_of n dvd off) (netlink_reads (kernel_message h ev @ rest))"
    unfolding list_all_iff by blast
  then show ?thesis by (simp add: parse_netlink_datagram_def)
qed



section \<open>The monitor\<close>

abbreviation PROC_CN_MCAST_LISTEN :: u32 where "PROC_CN_MCAST_LISTEN \<equiv> 1"
abbreviation PROC_CN_MCAST_IGNORE :: u32 where "PROC_CN_MCAST_IGNORE \<equiv> 2"

text \<open>The bytes \<open>send_control\<close> writes: the two headers and the operation.\<close>

definition control_packet :: "u32 \<Rightarrow> u32 \<Rightarrow> u8 list" where
  "control_packet pid op =
     le_bytes32 40 @ [3, 0, 0, 0] @ le_bytes32 1 @ le_bytes32 pid @
     le_bytes32 CN_IDX_PROC @ le_bytes32 CN_VAL_PROC @ le_bytes32 0 @ le_bytes32 0 @ [4, 0, 0, 0] @ le_bytes32 op"

lemma control_packet_length: "nlmsg_len (control_packet pid op) = length (control_packet pid op)"
  by (simp add: control_packet_def nlmsg_len_def)

text \<open>What the calls of \<open>connect\<close> give: a socket, the binding, the write of the subscription.  A
  failed write leaves the socket open but is reported like the others.\<close>

definition monitor_connect :: "bool \<Rightarrow> bool \<Rightarrow> bool \<Rightarrow> bool" where
  "monitor_connect socket_ok bind_ok write_ok = (socket_ok \<and> bind_ok \<and> write_ok)"

datatype read_result = Would_Block | Read_Failed | End_Of_File | Received "u8 list"

text \<open>\<open>run\<close> over the results of its reads: the events it sends and whether it has returned, or the abort of the
  program (\<open>None\<close>).  The receiver takes \<open>k\<close> events before it goes away.\<close>

fun monitor_run :: "bool \<Rightarrow> nat \<Rightarrow> read_result list \<Rightarrow> (proc_netlink_event list \<times> bool) option" where
  "monitor_run checked k [] = Some ([], False)"
| "monitor_run checked k (Would_Block # rs) = monitor_run checked k rs"
| "monitor_run checked k (Read_Failed # rs) = Some ([], True)"
| "monitor_run checked k (End_Of_File # rs) = Some ([], True)"
| "monitor_run checked k (Received buf # rs) = (case parse_netlink_datagram checked buf of None \<Rightarrow> None
     | Some evs \<Rightarrow> (if k < length evs then Some (take k evs, True)
         else map_option (apfst ((@) evs)) (monitor_run checked (k - length evs) rs)))"

text \<open>With debug assertions the first process event is the end of the program.\<close>

lemma checked_monitor_aborts: "event_ok ev \<Longrightarrow> monitor_run True k (Received (kernel_message h ev) # rs) = None"
  using first_event_misaligned [of ev h "[]"] by simp

end
