(* ===== verification/Proc_Reader.thy ===== *)
theory Proc_Reader
  imports Net_Monitor
begin

text \<open>
  What the process collector reads of a process (collectors/src/process/proc_reader.rs).  The
  files under /proc, the user database, SHA-256 with its hexadecimal form and the lossy decoding
  of bytes are parameters; a file that cannot be read has no content.
\<close>

section \<open>The environment\<close>

record proc_files =
  pq_status :: "string option"
  pq_cmdline :: "string option"
  pq_exe :: "string option"
  pq_comm :: "string option"
  pq_cwd :: "string option"
  pq_stat :: "string option"
  pq_exe_len :: "nat option"
  pq_exe_data :: "string option"

record proc_env =
  pn_files :: "u32 \<Rightarrow> proc_files"
  pn_username :: "u32 \<Rightarrow> string option"
  pn_sha256 :: "string \<Rightarrow> string"
  pn_lossy :: "string \<Rightarrow> string"

section \<open>The readers\<close>

definition cmdline_text :: "(string \<Rightarrow> string) \<Rightarrow> string \<Rightarrow> string" where
  "cmdline_text lossy data = (if data = [] then []
     else str_join '' '' (map lossy (filter (\<lambda>s. s \<noteq> []) (str_split (\<lambda>b. b = CHR 0x00) data))))"

definition read_cmdline :: "proc_env \<Rightarrow> u32 \<Rightarrow> string option" where
  "read_cmdline v pid = map_option (cmdline_text (pn_lossy v)) (pq_cmdline (pn_files v pid))"

record status_info =
  si_name :: string
  si_ppid :: u32
  si_tgid :: u32
  si_uid :: u32

definition status_info_default :: status_info where
  "status_info_default = \<lparr> si_name = [], si_ppid = 0, si_tgid = 0, si_uid = 0 \<rparr>"

definition parse_or_zero :: "string \<Rightarrow> u32" where
  "parse_or_zero s = (case parse_u32 s of None \<Rightarrow> 0 | Some n \<Rightarrow> n)"

text \<open>\<open>split_once(':')\<close>.\<close>

definition split_colon :: "string \<Rightarrow> (string \<times> string) option" where
  "split_colon line = map_option (\<lambda>i. (take i line, drop (Suc i) line)) (find_char (\<lambda>c. c = CHR '':'') line)"

definition status_line :: "status_info \<Rightarrow> string \<Rightarrow> status_info" where
  "status_line info line = (case split_colon line of None \<Rightarrow> info
   | Some (key, v) \<Rightarrow>
       (let val = str_trim v in
        if key = ''Name'' then info\<lparr> si_name := val \<rparr>
        else if key = ''PPid'' then info\<lparr> si_ppid := parse_or_zero val \<rparr>
        else if key = ''Tgid'' then info\<lparr> si_tgid := parse_or_zero val \<rparr>
        else if key = ''Uid'' then info\<lparr> si_uid := (case split_whitespace val of [] \<Rightarrow> 0 | w # _ \<Rightarrow> parse_or_zero w) \<rparr>
        else info))"

definition parse_status :: "string \<Rightarrow> status_info" where
  "parse_status data = foldl status_line status_info_default (str_lines data)"

definition read_status :: "proc_env \<Rightarrow> u32 \<Rightarrow> status_info option" where
  "read_status v pid = map_option parse_status (pq_status (pn_files v pid))"

definition read_cwd :: "proc_env \<Rightarrow> u32 \<Rightarrow> string" where
  "read_cwd v pid = (case pq_cwd (pn_files v pid) of None \<Rightarrow> [] | Some p \<Rightarrow> pn_lossy v p)"

definition read_exe_path :: "proc_env \<Rightarrow> u32 \<Rightarrow> string" where
  "read_exe_path v pid = (case pq_exe (pn_files v pid) of Some p \<Rightarrow> pn_lossy v p
   | None \<Rightarrow> (case pq_comm (pn_files v pid) of Some s \<Rightarrow> ''['' @ str_trim s @ '']'' | None \<Rightarrow> []))"

definition hash_exe_sha256 :: "proc_env \<Rightarrow> u32 \<Rightarrow> string" where
  "hash_exe_sha256 v pid =
     (if 50 * 1024 * 1024 < (case pq_exe_len (pn_files v pid) of None \<Rightarrow> 0 | Some n \<Rightarrow> n) then []
      else case pq_exe_data (pn_files v pid) of Some d \<Rightarrow> pn_sha256 v d | None \<Rightarrow> [])"

definition uid_to_username :: "proc_env \<Rightarrow> u32 \<Rightarrow> string" where
  "uid_to_username v uid = (case pn_username v uid of Some s \<Rightarrow> s | None \<Rightarrow> show_word uid)"

text \<open>The text after the last parenthesis and the character that follows it; the outer \<open>None\<close> is
  the panic of a slice that begins beyond the end.\<close>

definition after_paren :: "string \<Rightarrow> string option" where
  "after_paren data = (case rfind_char (\<lambda>c. c = CHR '')'') data of
     None \<Rightarrow> Some [] | Some i \<Rightarrow> (if length data < i + 2 then None else Some (drop (i + 2) data)))"

definition read_start_time_ticks :: "proc_env \<Rightarrow> u32 \<Rightarrow> u64 option" where
  "read_start_time_ticks v pid = (case pq_stat (pn_files v pid) of None \<Rightarrow> Some 0
   | Some data \<Rightarrow> map_option (\<lambda>s. let ws = split_whitespace s in
       if length ws \<le> 19 then 0 else case parse_u64 (ws ! 19) of None \<Rightarrow> 0 | Some n \<Rightarrow> n) (after_paren data))"

record proc_pid_info =
  pi_pid :: u32
  pi_ppid :: u32
  pi_tgid :: u32
  pi_comm :: string
  pi_exe_path :: string
  pi_cmdline :: string
  pi_uid :: u32
  pi_username :: string
  pi_cwd :: string
  pi_sha256 :: string
  pi_start_time_ticks :: u64

text \<open>\<open>rsplit('/').next()\<close>: the part after the last slash.\<close>

definition last_segment :: "string \<Rightarrow> string" where
  "last_segment path = last (str_split (\<lambda>c. c = CHR ''/'') path)"

definition gather_pid_info :: "proc_env \<Rightarrow> u32 \<Rightarrow> proc_pid_info option" where
  "gather_pid_info v pid =
     (let st = (case read_status v pid of None \<Rightarrow> status_info_default | Some s \<Rightarrow> s) in
      map_option (\<lambda>ticks. \<lparr> pi_pid = pid, pi_ppid = si_ppid st, pi_tgid = si_tgid st,
        pi_comm = (if si_name st = [] then last_segment (read_exe_path v pid) else si_name st),
        pi_exe_path = read_exe_path v pid,
        pi_cmdline = (case read_cmdline v pid of None \<Rightarrow> [] | Some s \<Rightarrow> s),
        pi_uid = si_uid st, pi_username = uid_to_username v (si_uid st), pi_cwd = read_cwd v pid,
        pi_sha256 = hash_exe_sha256 v pid, pi_start_time_ticks = ticks \<rparr>) (read_start_time_ticks v pid))"

section \<open>What the kernel writes is what is read\<close>

lemma find_char_append: "(\<And>c. c \<in> set a \<Longrightarrow> \<not> P c) \<Longrightarrow> P d \<Longrightarrow> find_char P (a @ d # b) = Some (length a)"
  by (induction a) auto

lemma rfind_char_append: "(\<And>c. c \<in> set b \<Longrightarrow> \<not> P c) \<Longrightarrow> P d \<Longrightarrow> rfind_char P (a @ d # b) = Some (length a)"
  using find_char_append [of "rev b" P d "rev a"] by (simp add: rfind_char_def)

definition plain_word :: "string \<Rightarrow> bool" where
  "plain_word w \<longleftrightarrow> w \<noteq> [] \<and> list_all (\<lambda>c. \<not> is_whitespace c) w"

lemma split_whitespace_word:
  "plain_word w \<Longrightarrow> is_whitespace c \<Longrightarrow> split_whitespace (w @ c # s) = w # split_whitespace s"
  by (simp add: split_whitespace_def plain_word_def list_all_iff str_split_append)

lemma split_whitespace_words:
  "list_all plain_word ws \<Longrightarrow> ws \<noteq> [] \<Longrightarrow> split_whitespace (str_join '' '' ws @ [CHR 0x0A]) = ws"
proof (induction ws rule: induct_list012)
  case (2 w)
  then show ?case
    using split_whitespace_word [of w "CHR 0x0A" "[]"] by (simp add: is_whitespace_def split_whitespace_def [of "[]"])
next
  case (3 w w' ws)
  then show ?case
    using split_whitespace_word [of w "CHR '' ''" "str_join '' '' (w' # ws) @ [CHR 0x0A]"]
    by (simp add: is_whitespace_def)
qed simp

text \<open>The line of /proc/<pid>/stat: the id, the name in parentheses, the other fields.\<close>

definition stat_line :: "u32 \<Rightarrow> string \<Rightarrow> string list \<Rightarrow> string" where
  "stat_line pid comm fs = show_word pid @ '' ('' @ comm @ '') '' @ str_join '' '' fs @ [CHR 0x0A]"

lemma str_join_chars: "c \<in> set (str_join sep ws) \<Longrightarrow> c \<in> set sep \<or> (\<exists>w \<in> set ws. c \<in> set w)"
  by (induction sep ws rule: str_join.induct) auto

lemma after_paren_append:
  "(\<And>c. c \<in> set (d # b) \<Longrightarrow> c \<noteq> CHR '')'') \<Longrightarrow> after_paren (a @ CHR '')'' # d # b) = Some b"
  using rfind_char_append [of "d # b" "\<lambda>c. c = CHR '')''" "CHR '')''" a] by (simp add: after_paren_def)

text \<open>
  No process can disturb the reading of its start time by the name it gives itself.  Whatever
  the name holds, spaces and parentheses included, the reader takes the start time from the
  field the kernel wrote it into, and never panics.
\<close>

theorem start_time_whatever_the_name:
  assumes "pq_stat (pn_files v pid) = Some (stat_line pid comm fs)"
    and "list_all (\<lambda>w. plain_word w \<and> CHR '')'' \<notin> set w) fs" and "19 < length fs"
    and "fs ! 19 = show_nat n" and "n < 2 ^ 64"
  shows "read_start_time_ticks v pid = Some (of_nat n)"
proof -
  let ?tail = "CHR '' '' # str_join '' '' fs @ [CHR 0x0A]"
  have clean: "\<not> c = CHR '')''" if "c \<in> set ?tail" for c
    using that assms(2) str_join_chars [of c "'' ''" fs] by (auto simp: list_all_iff)
  have split: "stat_line pid comm fs = (show_word pid @ '' ('' @ comm) @ CHR '')'' # ?tail"
    by (simp add: stat_line_def)
  have "after_paren (stat_line pid comm fs) = Some (str_join '' '' fs @ [CHR 0x0A])"
    unfolding split by (rule after_paren_append) (use clean in auto)
  moreover have "split_whitespace (str_join '' '' fs @ [CHR 0x0A]) = fs"
    by (rule split_whitespace_words) (use assms(2,3) in \<open>auto simp: list_all_iff\<close>)
  moreover have "parse_u64 (show_nat n) = Some (of_nat n)"
    using assms(5) by (simp add: parse_u64_def parse_show_nat)
  ultimately show ?thesis
    using assms(1,3,4) by (simp add: read_start_time_ticks_def)
qed

definition no_files :: proc_files where
  "no_files = \<lparr> pq_status = None, pq_cmdline = None, pq_exe = None, pq_comm = None, pq_cwd = None, pq_stat = None,
     pq_exe_len = None, pq_exe_data = None \<rparr>"

definition one_process :: "proc_files \<Rightarrow> proc_env" where
  "one_process f = \<lparr> pn_files = (\<lambda>_. f), pn_username = (\<lambda>_. None), pn_sha256 = (\<lambda>d. d), pn_lossy = (\<lambda>s. s) \<rparr>"

lemma start_time_whatever_the_name_witness:
  "read_start_time_ticks (one_process (no_files\<lparr> pq_stat := Some (stat_line 7 '') 9 (x'' (''S'' # replicate 18 ''0'' @ [''123''])) \<rparr>)) 7 = Some 123"
proof -
  have "list_all (\<lambda>w. plain_word w \<and> CHR '')'' \<notin> set w) (''S'' # replicate 18 ''0'' @ [''123''])" by code_simp
  moreover have "(''S'' # replicate 18 ''0'' @ [''123'']) ! 19 = show_nat 123" by code_simp
  ultimately show ?thesis
    using start_time_whatever_the_name [where comm = "'') 9 (x''" and fs = "''S'' # replicate 18 ''0'' @ [''123'']" and n = 123]
    by (simp add: one_process_def)
qed

section \<open>The status file\<close>

definition tab :: char where "tab = CHR 0x09"

abbreviation newline :: char where "newline \<equiv> CHR 0x0A"

text \<open>The lines of a status file as the kernel prints them: key, colon, tabulator, value.\<close>

definition status_text :: "(string \<times> string) list \<Rightarrow> string" where
  "status_text kvs = concat (map (\<lambda>(k, v). k @ '':'' @ tab # v @ [newline]) kvs)"

definition status_entry_ok :: "string \<times> string \<Rightarrow> bool" where
  "status_entry_ok kv \<longleftrightarrow> CHR '':'' \<notin> set (fst kv) \<and> newline \<notin> set (fst kv @ snd kv) \<and> CHR 0x0D \<notin> set (snd kv)"

lemma str_lines_entry:
  assumes "newline \<notin> set l" and "\<not> ends_with l [CHR 0x0D]"
  shows "str_lines (l @ newline # s) = l # str_lines s"
proof -
  have sp: "str_split (\<lambda>c. c = newline) (l @ newline # s) = l # str_split (\<lambda>c. c = newline) s"
    by (rule str_split_append) (use assms(1) in auto)
  then show ?thesis
    using assms(2) by (simp add: str_lines_def Let_def)
qed

lemma split_colon_entry: "CHR '':'' \<notin> set k \<Longrightarrow> split_colon (k @ CHR '':'' # r) = Some (k, r)"
proof -
  assume "CHR '':'' \<notin> set k"
  then have "find_char (\<lambda>c. c = CHR '':'') (k @ CHR '':'' # r) = Some (length k)"
    by (intro find_char_append) auto
  then show ?thesis by (simp add: split_colon_def)
qed

lemma trim_tab: "str_trim (tab # v) = str_trim v"
  by (simp add: str_trim_def trim_matches_def tab_def is_whitespace_def)

text \<open>The lines of the file and what one of them does.\<close>

definition status_entry :: "status_info \<Rightarrow> string \<times> string \<Rightarrow> status_info" where
  "status_entry info kv = status_line info (fst kv @ '':'' @ tab # snd kv)"

lemma str_lines_status:
  "list_all status_entry_ok kvs \<Longrightarrow> str_lines (status_text kvs) = map (\<lambda>kv. fst kv @ '':'' @ tab # snd kv) kvs"
proof (induction kvs)
  case Nil
  show ?case by (simp add: status_text_def str_lines_def)
next
  case (Cons kv kvs)
  obtain k v where kv: "kv = (k, v)" by (cases kv)
  have nl: "newline \<notin> set (k @ '':'' @ tab # v)"
    using Cons.prems kv by (auto simp: status_entry_ok_def tab_def)
  have cr: "\<not> ends_with (k @ '':'' @ tab # v) [CHR 0x0D]"
  proof
    assume "ends_with (k @ '':'' @ tab # v) [CHR 0x0D]"
    then obtain u where "k @ '':'' @ tab # v = u @ [CHR 0x0D]"
      unfolding ends_with_def by (metis append_take_drop_id)
    then have "(if v = [] then tab else last v) = CHR 0x0D"
      by (metis append_is_Nil_conv last.simps last_appendR last_snoc list.distinct(1))
    then have "CHR 0x0D = tab \<or> CHR 0x0D \<in> set v" by (metis last_in_set)
    with Cons.prems kv show False by (auto simp: status_entry_ok_def tab_def)
  qed
  from str_lines_entry [OF nl cr, of "status_text kvs"] Cons show ?case
    by (simp add: kv status_text_def)
qed

lemma status_entry_simps:
  assumes "status_entry_ok (k, v)"
  shows "status_entry info (k, v) =
    (if k = ''Name'' then info\<lparr> si_name := str_trim v \<rparr>
     else if k = ''PPid'' then info\<lparr> si_ppid := parse_or_zero (str_trim v) \<rparr>
     else if k = ''Tgid'' then info\<lparr> si_tgid := parse_or_zero (str_trim v) \<rparr>
     else if k = ''Uid'' then info\<lparr> si_uid := (case split_whitespace (str_trim v) of [] \<Rightarrow> 0 | w # _ \<Rightarrow> parse_or_zero w) \<rparr>
     else info)"
  using assms split_colon_entry [of k "tab # v"]
  by (simp add: status_entry_def status_line_def status_entry_ok_def trim_tab Let_def)

text \<open>The value of a key, from the last line that has it.\<close>

definition last_value :: "(string \<times> string) list \<Rightarrow> string \<Rightarrow> string option" where
  "last_value kvs k = map_of (rev kvs) k"

text \<open>
  The status file is read as the kernel wrote it: the name, the parent, the thread group and the
  user of a process are the values of their lines, the last where a key occurs twice, whatever
  other lines there are and in whatever order.  A name therefore cannot pose as another line.
\<close>

theorem status_fields_read:
  assumes "list_all status_entry_ok kvs"
  shows "parse_status (status_text kvs) =
    \<lparr> si_name = (case last_value kvs ''Name'' of None \<Rightarrow> [] | Some v \<Rightarrow> str_trim v),
      si_ppid = (case last_value kvs ''PPid'' of None \<Rightarrow> 0 | Some v \<Rightarrow> parse_or_zero (str_trim v)),
      si_tgid = (case last_value kvs ''Tgid'' of None \<Rightarrow> 0 | Some v \<Rightarrow> parse_or_zero (str_trim v)),
      si_uid = (case last_value kvs ''Uid'' of None \<Rightarrow> 0
        | Some v \<Rightarrow> (case split_whitespace (str_trim v) of [] \<Rightarrow> 0 | w # _ \<Rightarrow> parse_or_zero w)) \<rparr>"
proof -
  have "parse_status (status_text kvs) = foldl status_entry status_info_default kvs"
    using assms by (simp add: parse_status_def str_lines_status foldl_map status_entry_def [abs_def])
  also have "\<dots> = \<lparr> si_name = (case last_value kvs ''Name'' of None \<Rightarrow> [] | Some v \<Rightarrow> str_trim v),
      si_ppid = (case last_value kvs ''PPid'' of None \<Rightarrow> 0 | Some v \<Rightarrow> parse_or_zero (str_trim v)),
      si_tgid = (case last_value kvs ''Tgid'' of None \<Rightarrow> 0 | Some v \<Rightarrow> parse_or_zero (str_trim v)),
      si_uid = (case last_value kvs ''Uid'' of None \<Rightarrow> 0
        | Some v \<Rightarrow> (case split_whitespace (str_trim v) of [] \<Rightarrow> 0 | w # _ \<Rightarrow> parse_or_zero w)) \<rparr>"
    using assms
  proof (induction kvs rule: rev_induct)
    case (snoc kv kvs)
    obtain k v where kv: "kv = (k, v)" by (cases kv)
    from snoc show ?case
      by (simp add: kv status_entry_simps last_value_def)
  qed (simp add: status_info_default_def last_value_def)
  finally show ?thesis .
qed

lemma status_fields_read_witness:
  "si_uid (parse_status (status_text [(''Name'', ''x: Uid: 0''), (''Tgid'', ''7''), (''PPid'', ''4''), (''Uid'', ''33 33 33 33'')])) = 33"
proof -
  have "list_all status_entry_ok [(''Name'', ''x: Uid: 0''), (''Tgid'', ''7''), (''PPid'', ''4''), (''Uid'', ''33 33 33 33'')]"
    by code_simp
  moreover have "split_whitespace (str_trim ''33 33 33 33'') = [''33'', ''33'', ''33'', ''33'']"
    and "show_word (33 :: u32) = ''33''"
    by code_simp+
  moreover from this have "parse_or_zero ''33'' = 33"
    using parse_u32_show_word [of 33] by (simp add: parse_or_zero_def)
  ultimately show ?thesis
    by (simp add: status_fields_read last_value_def)
qed

text \<open>The words of a command line cannot be told from spaces inside them.\<close>

lemma cmdline_ambiguous:
  "cmdline_text (\<lambda>s. s) (''rm'' @ CHR 0x00 # ''a b'' @ [CHR 0x00]) = cmdline_text (\<lambda>s. s) (''rm'' @ CHR 0x00 # ''a'' @ CHR 0x00 # ''b'' @ [CHR 0x00])"
  by (simp add: cmdline_text_def)

end
