(* ===== verification/Process_Monitor.thy ===== *)
theory Process_Monitor
  imports Proc_Netlink Proc_Reader Net_Events Config_Collectors
begin

text \<open>
  The process collector (collectors/src/process/process_collector.rs and mod.rs): the events made
  of what the kernel reports, the conversion tasks, the fallback that polls /proc, and the way
  start_process_monitor connects them.  An operation that may panic while it reads /proc has an
  optional result; stamps are the identifiers and times of new events.
\<close>

section \<open>Events of processes (process_collector.rs)\<close>

datatype process_event_action = PA_Create | PA_Terminate | PA_Open | PA_Access | PA_Inject | PA_Hollow | PA_Dump

text \<open>The name the derived \<open>Debug\<close> prints.\<close>

fun action_debug :: "process_event_action \<Rightarrow> string" where
  "action_debug PA_Create = ''Create''"
| "action_debug PA_Terminate = ''Terminate''"
| "action_debug PA_Open = ''Open''"
| "action_debug PA_Access = ''Access''"
| "action_debug PA_Inject = ''Inject''"
| "action_debug PA_Hollow = ''Hollow''"
| "action_debug PA_Dump = ''Dump''"

fun action_code :: "process_event_action \<Rightarrow> i32" where
  "action_code PA_Create = 1"
| "action_code PA_Terminate = 2"
| "action_code PA_Open = 3"
| "action_code PA_Access = 4"
| "action_code PA_Inject = 5"
| "action_code PA_Hollow = 6"
| "action_code PA_Dump = 7"

fun action_tags :: "process_event_action \<Rightarrow> string list" where
  "action_tags PA_Create = [''mitre:T1059'']"
| "action_tags PA_Inject = [''mitre:T1055'', ''ptrace'']"
| "action_tags PA_Dump = [''mitre:T1003'', ''coredump'']"
| "action_tags _ = []"

fun action_risk :: "process_event_action \<Rightarrow> u32" where
  "action_risk PA_Inject = 40"
| "action_risk PA_Dump = 50"
| "action_risk _ = 10"

definition user_of :: "proc_pid_info \<Rightarrow> user_context" where
  "user_of info = \<lparr> uc_sid = pi_username info, uc_username = pi_username info, uc_domain = [],
     uc_is_elevated = (pi_uid info = 0), uc_is_system = (pi_uid info = 0) \<rparr>"

text \<open>The parent of a process, if its executable is known.\<close>

definition parent_context :: "proc_env \<Rightarrow> u32 \<Rightarrow> process_context option option" where
  "parent_context v ppid = (if 0 < ppid then map_option (\<lambda>p.
       if pi_exe_path p \<noteq> []
       then Some (ProcessContext ppid 0 (pi_comm p) (pi_exe_path p) (pi_cmdline p) [] None [] None [] 0 (pi_sha256 p) None)
       else None) (gather_pid_info v ppid)
     else Some None)"

definition build_event ::
    "proc_env \<Rightarrow> stamp \<Rightarrow> u32 \<Rightarrow> proc_pid_info \<Rightarrow> process_event_action \<Rightarrow> process_collector_config \<Rightarrow> event option" where
  "build_event v s pid info action config = map_option (\<lambda>parent.
     event_default \<lparr> ev_id := st_id s, ev_type := to_lowercase (''sentinel.process.'' @ action_debug action),
       ev_source := ''process'', ev_timestamp := Some (st_timestamp s), ev_ingest_timestamp := Some (st_ingest s),
       ev_severity := severity_i32 Info,
       ev_process := Some (ProcessContext pid (pi_ppid info) (pi_comm info) (pi_exe_path info)
         (if procc_include_command_line config then pi_cmdline info else []) (pi_cwd info) (Some (user_of info))
         [] None [] 0 (pi_sha256 info) parent),
       ev_payload := Some (ProcessPayload \<lparr> pe_action = action_code action, pe_target = None, pe_desired_access = 0 \<rparr>),
       ev_tags := action_tags action, ev_metadata := None, ev_risk_score := action_risk action,
       ev_correlation := None, ev_host_id := [], ev_schema_version := 1 \<rparr>) (parent_context v (pi_ppid info))"

text \<open>A change of the payload of a process event.\<close>

definition with_payload :: "(process_event \<Rightarrow> process_event) \<Rightarrow> event \<Rightarrow> event" where
  "with_payload f e = (case ev_payload e of Some (ProcessPayload pe) \<Rightarrow> e\<lparr> ev_payload := Some (ProcessPayload (f pe)) \<rparr>
     | _ \<Rightarrow> e)"

definition add_tag :: "string \<Rightarrow> event \<Rightarrow> event" where
  "add_tag t e = e\<lparr> ev_tags := ev_tags e @ [t] \<rparr>"

definition comm_slice :: "u8 list \<Rightarrow> u8 list" where
  "comm_slice comm = takeWhile (\<lambda>b. b \<noteq> 0) (take 16 comm)"

text \<open>The bytes as text; \<open>trim_end_matches\<close> removes trailing zeros.\<close>

definition comm_name :: "proc_env \<Rightarrow> u8 list \<Rightarrow> string" where
  "comm_name v comm = rev (dropWhile (\<lambda>c. c = CHR 0x00)
     (rev (pn_lossy v (map (\<lambda>b. char_of (unat b)) (comm_slice comm)))))"

text \<open>A process id of the kernel \<open>as u32\<close> keeps its bits.\<close>

definition with_target :: "i32 \<Rightarrow> proc_pid_info \<Rightarrow> process_event \<Rightarrow> process_event" where
  "with_target tgid info pe = pe\<lparr> pe_target := Some (ProcessContext tgid tgid (pi_comm info) (pi_exe_path info)
     [] [] None [] None [] 0 [] None) \<rparr>"

fun netlink_to_sentinel_event_inner ::
    "proc_env \<Rightarrow> stamp \<Rightarrow> process_collector_config \<Rightarrow> proc_netlink_event \<Rightarrow> event option option" where
  "netlink_to_sentinel_event_inner v s config (Fork parent_pid parent_tgid child_pid child_tgid ts) =
     Option.bind (gather_pid_info v child_tgid) (\<lambda>info.
     map_option Some (build_event v s child_tgid info PA_Create config))"
| "netlink_to_sentinel_event_inner v s config (Exec pid tgid ts) =
     Option.bind (gather_pid_info v tgid) (\<lambda>info.
     map_option Some (build_event v s tgid info PA_Create config))"
| "netlink_to_sentinel_event_inner v s config (Exit pid tgid exit_code exit_signal ts) =
     Option.bind (gather_pid_info v tgid) (\<lambda>info.
     map_option (\<lambda>e. Some (add_tag (''exit_signal:'' @ show_word exit_signal)
         (with_payload (\<lambda>pe. pe\<lparr> pe_desired_access := exit_code \<rparr>) e)))
       (build_event v s tgid info PA_Terminate config))"
| "netlink_to_sentinel_event_inner v s config (Comm pid tgid comm ts) =
     Option.bind (gather_pid_info v tgid) (\<lambda>info.
     let name = comm_name v comm; info' = (if name \<noteq> [] then info\<lparr> pi_comm := name \<rparr> else info) in
     map_option Some (build_event v s tgid info' PA_Create config))"
| "netlink_to_sentinel_event_inner v s config (Ptrace pid tgid tracer_pid tracer_tgid ts) =
     Option.bind (gather_pid_info v tracer_tgid) (\<lambda>tracer.
     Option.bind (gather_pid_info v tgid) (\<lambda>target.
     map_option (\<lambda>e. Some (add_tag (''tracer_pid:'' @ show_int (sint tracer_pid)) (with_payload (with_target tgid target) e)))
       (build_event v s tracer_tgid tracer PA_Inject config)))"
| "netlink_to_sentinel_event_inner v s config (Coredump pid tgid parent_pid parent_tgid ts) =
     Option.bind (gather_pid_info v tgid) (\<lambda>info.
     map_option Some (build_event v s tgid info PA_Dump config))"
| "netlink_to_sentinel_event_inner v s config (Uid pid tgid ruid euid ts) = Some None"

section \<open>The conversion task of the collector (process_collector.rs)\<close>

text \<open>What the task meets in a round of its loop: the cancellation, the end of the channel, or an
  event with the backpressure at that moment, the state of /proc and whether the bus is open.\<close>

datatype conv_input =
  Cancelled
| Channel_Closed
| Kernel_Event "backpressure_signal option" proc_env stamp bool proc_netlink_event

text \<open>The events it sends; a conversion that panics ends it.\<close>

fun convert_events :: "process_collector_config \<Rightarrow> conv_input list \<Rightarrow> event list" where
  "convert_events config [] = []"
| "convert_events config (Cancelled # is) = []"
| "convert_events config (Channel_Closed # is) = []"
| "convert_events config (Kernel_Event bp v s bus_open nl # is) =
     (if bp = Some Critical_Pressure \<or> bp = Some Overflow then convert_events config is
      else case netlink_to_sentinel_event_inner v s config nl of
        None \<Rightarrow> []
      | Some None \<Rightarrow> convert_events config is
      | Some (Some e) \<Rightarrow> (if bus_open then e # convert_events config is else []))"

section \<open>The fallback\<close>

definition fallback_event :: "stamp \<Rightarrow> u32 \<Rightarrow> proc_pid_info \<Rightarrow> event" where
  "fallback_event s pid info = event_default \<lparr> ev_id := st_id s, ev_type := ''sentinel.process.create'',
     ev_source := ''process'', ev_timestamp := Some (st_timestamp s), ev_ingest_timestamp := Some (st_ingest s),
     ev_severity := severity_i32 Info,
     ev_process := Some (ProcessContext pid (pi_ppid info) (pi_comm info) (pi_exe_path info) (pi_cmdline info) []
       (Some (user_of info)) [] None [] 0 (pi_sha256 info) None) \<rparr>"

text \<open>The process ids among the names of a directory.\<close>

definition listed_pids :: "string list \<Rightarrow> u32 list" where
  "listed_pids names = List.map_filter parse_u32 names"

text \<open>One scan: the events of the new processes.\<close>

fun fallback_scan :: "proc_env \<Rightarrow> (u32 \<Rightarrow> stamp) \<Rightarrow> u32 set \<Rightarrow> u32 list \<Rightarrow> event list option" where
  "fallback_scan v stamps known [] = Some []"
| "fallback_scan v stamps known (pid # pids) =
     (if pid \<in> known then fallback_scan v stamps known pids
      else Option.bind (gather_pid_info v pid) (\<lambda>info.
        map_option (\<lambda>es. (if 0 < pi_ppid info then [fallback_event (stamps pid) pid info] else []) @ es)
          (fallback_scan v stamps known pids)))"

text \<open>A tick: the names in /proc, if it can be read, and its state.\<close>

type_synonym tick = "string list option \<times> proc_env \<times> (u32 \<Rightarrow> stamp)"

text \<open>The loop over the ticks; a panic ends it.  What has been sent is the result.\<close>

fun fallback_loop :: "u32 set \<Rightarrow> tick list \<Rightarrow> event list" where
  "fallback_loop known [] = []"
| "fallback_loop known ((None, v, stamps) # ts) = fallback_loop known ts"
| "fallback_loop known ((Some names, v, stamps) # ts) =
     (case fallback_scan v stamps known (listed_pids names) of
        None \<Rightarrow> []
      | Some es \<Rightarrow> es @ fallback_loop (set (listed_pids names)) ts)"

text \<open>The fallback of the collector knows no process at first; the one of \<open>start_process_monitor\<close>
  is seeded with a silent scan, and gives up when /proc cannot be read then.\<close>

definition warning_fallback_mode :: "tick list \<Rightarrow> event list" where
  "warning_fallback_mode ts = fallback_loop {} ts"

definition seeded_fallback :: "string list option \<Rightarrow> tick list \<Rightarrow> event list" where
  "seeded_fallback seed ts = (case seed of None \<Rightarrow> [] | Some names \<Rightarrow> fallback_loop (set (listed_pids names)) ts)"

section \<open>What the events say\<close>

text \<open>The report of a kernel event, written out: the process it is about, the type, the code of the
  action, the risk, the tags, the access and the target.\<close>

record process_report =
  rp_pid :: u32
  rp_type :: string
  rp_action :: i32
  rp_risk :: u32
  rp_tags :: "string list"
  rp_access :: u32
  rp_target :: "i32 option"

fun event_report :: "proc_netlink_event \<Rightarrow> process_report option" where
  "event_report (Fork _ _ _ child_tgid _) = Some \<lparr> rp_pid = child_tgid, rp_type = ''sentinel.process.create'',
     rp_action = 1, rp_risk = 10, rp_tags = [''mitre:T1059''], rp_access = 0, rp_target = None \<rparr>"
| "event_report (Exec _ tgid _) = Some \<lparr> rp_pid = tgid, rp_type = ''sentinel.process.create'',
     rp_action = 1, rp_risk = 10, rp_tags = [''mitre:T1059''], rp_access = 0, rp_target = None \<rparr>"
| "event_report (Comm _ tgid _ _) = Some \<lparr> rp_pid = tgid, rp_type = ''sentinel.process.create'',
     rp_action = 1, rp_risk = 10, rp_tags = [''mitre:T1059''], rp_access = 0, rp_target = None \<rparr>"
| "event_report (Exit _ tgid exit_code exit_signal _) = Some \<lparr> rp_pid = tgid, rp_type = ''sentinel.process.terminate'',
     rp_action = 2, rp_risk = 10, rp_tags = [''exit_signal:'' @ show_word exit_signal], rp_access = exit_code, rp_target = None \<rparr>"
| "event_report (Ptrace _ tgid tracer_pid tracer_tgid _) = Some \<lparr> rp_pid = tracer_tgid, rp_type = ''sentinel.process.inject'',
     rp_action = 5, rp_risk = 40, rp_tags = [''mitre:T1055'', ''ptrace'', ''tracer_pid:'' @ show_int (sint tracer_pid)],
     rp_access = 0, rp_target = Some tgid \<rparr>"
| "event_report (Coredump _ tgid _ _ _) = Some \<lparr> rp_pid = tgid, rp_type = ''sentinel.process.dump'',
     rp_action = 7, rp_risk = 50, rp_tags = [''mitre:T1003'', ''coredump''], rp_access = 0, rp_target = None \<rparr>"
| "event_report (Uid _ _ _ _ _) = None"

definition describes :: "process_collector_config \<Rightarrow> process_report \<Rightarrow> event \<Rightarrow> bool" where
  "describes config r e \<longleftrightarrow> ev_source e = ''process'' \<and> ev_type e = rp_type r \<and> ev_risk_score e = rp_risk r
     \<and> ev_tags e = rp_tags r \<and> ev_severity e = 2 \<and> ev_schema_version e = 1
     \<and> (case ev_payload e of Some (ProcessPayload pe) \<Rightarrow> pe_action pe = rp_action r
          \<and> pe_desired_access pe = rp_access r \<and> map_option pc_pid (pe_target pe) = rp_target r | _ \<Rightarrow> False)
     \<and> (case ev_process e of Some p \<Rightarrow> pc_pid p = rp_pid r \<and> (procc_include_command_line config \<or> pc_command_line p = []) | None \<Rightarrow> False)"

text \<open>What the tables of the collector come to for an action, before the additions of an event.\<close>

lemma event_types_written_out:
  "to_lowercase (''sentinel.process.'' @ action_debug PA_Create) = ''sentinel.process.create''"
  "to_lowercase (''sentinel.process.'' @ action_debug PA_Terminate) = ''sentinel.process.terminate''"
  "to_lowercase (''sentinel.process.'' @ action_debug PA_Inject) = ''sentinel.process.inject''"
  "to_lowercase (''sentinel.process.'' @ action_debug PA_Dump) = ''sentinel.process.dump''"
  by code_simp+

definition action_report :: "u32 \<Rightarrow> process_event_action \<Rightarrow> process_report" where
  "action_report pid a = \<lparr> rp_pid = pid, rp_type = to_lowercase (''sentinel.process.'' @ action_debug a),
     rp_action = action_code a, rp_risk = action_risk a, rp_tags = action_tags a, rp_access = 0, rp_target = None \<rparr>"

lemma action_reports:
  "action_report pid PA_Create = \<lparr> rp_pid = pid, rp_type = ''sentinel.process.create'', rp_action = 1, rp_risk = 10,
     rp_tags = [''mitre:T1059''], rp_access = 0, rp_target = None \<rparr>"
  "action_report pid PA_Terminate = \<lparr> rp_pid = pid, rp_type = ''sentinel.process.terminate'', rp_action = 2, rp_risk = 10,
     rp_tags = [], rp_access = 0, rp_target = None \<rparr>"
  "action_report pid PA_Inject = \<lparr> rp_pid = pid, rp_type = ''sentinel.process.inject'', rp_action = 5, rp_risk = 40,
     rp_tags = [''mitre:T1055'', ''ptrace''], rp_access = 0, rp_target = None \<rparr>"
  "action_report pid PA_Dump = \<lparr> rp_pid = pid, rp_type = ''sentinel.process.dump'', rp_action = 7, rp_risk = 50,
     rp_tags = [''mitre:T1003'', ''coredump''], rp_access = 0, rp_target = None \<rparr>"
  unfolding action_report_def event_types_written_out by simp_all

lemma describes_built:
  "build_event v s pid info a config = Some e \<Longrightarrow> describes config (action_report pid a) e"
  by (auto simp: build_event_def describes_def action_report_def severity_i32_def)

lemma describes_changed:
  assumes "describes config r e"
    and "\<And>pe. pe_desired_access pe = rp_access r \<Longrightarrow> map_option pc_pid (pe_target pe) = rp_target r \<Longrightarrow>
      pe_action (f pe) = pe_action pe \<and> pe_desired_access (f pe) = acc \<and> map_option pc_pid (pe_target (f pe)) = tgt"
  shows "describes config (r\<lparr> rp_tags := rp_tags r @ [t], rp_access := acc, rp_target := tgt \<rparr>) (add_tag t (with_payload f e))"
  using assms by (auto simp: describes_def with_payload_def add_tag_def split: option.splits payload.splits)

text \<open>
  C19: Every event of the process collector says what the kernel reported.  Creation, termination, injection and
  dump are reported for the kinds of kernel events that stand for them, with the type, the code of the action
  in the protocol, the risk and the tags listed in \<open>event_report\<close>, about the process the kernel named (the tracing
  one for ptrace, with the traced one as target), and with the exit code and signal of an exit.  Changes of
  the user id are the only events left out.  Without the option no command line is in it.
\<close>

theorem process_events_well_typed:
  assumes "netlink_to_sentinel_event_inner v s config nl = Some r"
  shows "case event_report nl of None \<Rightarrow> r = None
    | Some report \<Rightarrow> (case r of None \<Rightarrow> False | Some e \<Rightarrow> describes config report e)"
proof (cases nl)
  case (Exit pid tgid exit_code exit_signal ts)
  with assms obtain info e where e: "build_event v s tgid info PA_Terminate config = Some e"
    and r: "r = Some (add_tag (''exit_signal:'' @ show_word exit_signal)
      (with_payload (\<lambda>pe. pe\<lparr> pe_desired_access := exit_code \<rparr>) e))"
    by (auto simp: bind_eq_Some_conv)
  have "describes config (the (event_report nl)) (the r)"
    using describes_changed [OF describes_built [OF e], of "\<lambda>pe. pe\<lparr> pe_desired_access := exit_code \<rparr>" exit_code None]
    unfolding Exit r by (simp add: action_reports)
  then show ?thesis by (simp add: Exit r)
next
  case (Ptrace pid tgid tracer_pid tracer_tgid ts)
  with assms obtain tracer target e where e: "build_event v s tracer_tgid tracer PA_Inject config = Some e"
    and r: "r = Some (add_tag (''tracer_pid:'' @ show_int (sint tracer_pid)) (with_payload (with_target tgid target) e))"
    by (auto simp: bind_eq_Some_conv)
  have "describes config (the (event_report nl)) (the r)"
    using describes_changed [OF describes_built [OF e], of "with_target tgid target" 0 "Some tgid"]
    unfolding Ptrace r by (simp add: action_reports with_target_def)
  then show ?thesis by (simp add: Ptrace r)
qed (use assms in \<open>auto simp: bind_eq_Some_conv Let_def action_reports dest!: describes_built\<close>)

lemma process_events_well_typed_witness:
  "\<exists>e. netlink_to_sentinel_event_inner (one_process no_files) \<lparr> st_id = ''i'', st_timestamp = \<lparr> ts_seconds = 1, ts_nanos = 0 \<rparr>,
       st_ingest = \<lparr> ts_seconds = 1, ts_nanos = 0 \<rparr> \<rparr> process_collector_config_default (Coredump 5 5 1 1 0) = Some (Some e)
     \<and> ev_risk_score e = 50 \<and> ev_tags e = [''mitre:T1003'', ''coredump'']"
proof -
  define s where "s = \<lparr> st_id = ''i'', st_timestamp = \<lparr> ts_seconds = 1, ts_nanos = 0 \<rparr>, st_ingest = \<lparr> ts_seconds = 1, ts_nanos = 0 \<rparr> \<rparr>"
  obtain e where e: "netlink_to_sentinel_event_inner (one_process no_files) s process_collector_config_default (Coredump 5 5 1 1 0) = Some (Some e)"
    by (simp add: gather_pid_info_def one_process_def no_files_def read_status_def read_start_time_ticks_def
        build_event_def parent_context_def status_info_default_def)
  from process_events_well_typed [OF e] e show ?thesis unfolding s_def by (auto simp: describes_def)
qed

text \<open>The new process of a fork is reported alike whether it is a process or a thread.\<close>

lemma thread_reported_as_process:
  "netlink_to_sentinel_event_inner v s config (Fork parent tgid thread tgid ts) =
   netlink_to_sentinel_event_inner v s config (Exec thread tgid ts)"
  by simp

text \<open>
  A process that is gone when the collector looks, as every process is that has exited, is
  reported as a process of the superuser: an unreadable status counts as user 0, so the event
  says that the process was elevated and a system process.
\<close>

theorem gone_process_reported_as_root:
  assumes "pn_files v tgid = no_files"
  shows "case netlink_to_sentinel_event_inner v s config (Exit pid tgid code sig ts) of
      Some (Some e) \<Rightarrow> (case ev_process e of
          Some p \<Rightarrow> pc_name p = [] \<and> pc_path p = [] \<and> pc_user p = Some \<lparr> uc_sid = uid_to_username v 0,
            uc_username = uid_to_username v 0, uc_domain = [], uc_is_elevated = True, uc_is_system = True \<rparr>
        | None \<Rightarrow> False)
    | _ \<Rightarrow> False"
  using assms
  by (simp add: gather_pid_info_def no_files_def read_status_def read_start_time_ticks_def build_event_def
      parent_context_def status_info_default_def with_payload_def add_tag_def user_of_def last_segment_def
      read_exe_path_def)

lemma gone_process_reported_as_root_witness:
  "case netlink_to_sentinel_event_inner (one_process no_files) \<lparr> st_id = ''i'', st_timestamp = \<lparr> ts_seconds = 1, ts_nanos = 0 \<rparr>,
       st_ingest = \<lparr> ts_seconds = 1, ts_nanos = 0 \<rparr> \<rparr> process_collector_config_default (Exit 7 7 0 17 9) of
     Some (Some e) \<Rightarrow> (case ev_process e of Some p \<Rightarrow> map_option uc_is_elevated (pc_user p) = Some True | None \<Rightarrow> False)
   | _ \<Rightarrow> False"
  using gone_process_reported_as_root [of "one_process no_files" 7
      "\<lparr> st_id = ''i'', st_timestamp = \<lparr> ts_seconds = 1, ts_nanos = 0 \<rparr>, st_ingest = \<lparr> ts_seconds = 1, ts_nanos = 0 \<rparr> \<rparr>"
      process_collector_config_default 7 0 17 9]
  by (auto simp: one_process_def split: option.splits)

text \<open>Under pressure events are lost, not delayed.\<close>

lemma pressure_drops_events:
  "bp = Some Critical_Pressure \<or> bp = Some Overflow \<Longrightarrow>
   convert_events config (Kernel_Event bp v s bus_open nl # is) = convert_events config is"
  by auto

text \<open>What the fallback announces: the processes that were not there before and have a parent.\<close>

definition has_parent :: "proc_env \<Rightarrow> u32 \<Rightarrow> bool" where
  "has_parent v pid = (case gather_pid_info v pid of None \<Rightarrow> False | Some info \<Rightarrow> 0 < pi_ppid info)"

definition event_pid :: "event \<Rightarrow> u32 option" where
  "event_pid e = map_option pc_pid (ev_process e)"

lemma fallback_scan_announces:
  "fallback_scan v stamps known pids = Some es \<Longrightarrow>
     map event_pid es = map Some (filter (\<lambda>p. p \<notin> known \<and> has_parent v p) pids)"
  by (induction pids arbitrary: es)
    (auto simp: bind_eq_Some_conv has_parent_def fallback_event_def event_pid_def split: if_splits)

end
