(* ===== verification/Process_Start.thy ===== *)
theory Process_Start
  imports Process_Monitor
begin

text \<open>
  How start_process_monitor (collectors/src/process/mod.rs) wires the process collector: the
  monitor runs in a blocking task, and the converter first awaits that task.  A step relation over
  the monitor, the unbounded channel between them, and the converter.  The build is an optimised one: with
  debug assertions the first process event received ends the program (\<open>first_event_misaligned\<close>).
\<close>

section \<open>The state\<close>

text \<open>The blocking task: before its \<open>connect\<close>, inside \<open>run\<close>, or finished with its result.\<close>

datatype monitor_task = MT_Starting | MT_Running | MT_Done bool

datatype converter_task = CT_Awaiting | CT_Netlink | CT_Fallback "u32 set" | CT_Ended

text \<open>\<open>ms_received\<close> and \<open>ms_taken\<close> record what went into the channel and what came out of it.\<close>

record monitor_state =
  ms_monitor :: monitor_task
  ms_queue :: "proc_netlink_event list"
  ms_converter :: converter_task
  ms_published :: "event list"
  ms_registry :: collector_registry
  ms_received :: "proc_netlink_event list"
  ms_taken :: "proc_netlink_event list"

definition monitor_init :: "datetime \<Rightarrow> collector_registry \<Rightarrow> monitor_state" where
  "monitor_init now reg = \<lparr> ms_monitor = MT_Starting, ms_queue = [], ms_converter = CT_Awaiting, ms_published = [],
     ms_registry = collector_register reg (collector_status_new now ''process'' ''Process Monitor''
       ''CN_PROC netlink real-time process events''), ms_received = [], ms_taken = [] \<rparr>"

definition publish_event :: "datetime \<Rightarrow> event \<Rightarrow> monitor_state \<Rightarrow> monitor_state" where
  "publish_event now e s = s\<lparr> ms_published := ms_published s @ [e],
     ms_registry := collector_increment_events now ''process'' 1 (ms_registry s) \<rparr>"

definition take_event :: "proc_netlink_event \<Rightarrow> proc_netlink_event list \<Rightarrow> monitor_state \<Rightarrow> monitor_state" where
  "take_event nl q s = s\<lparr> ms_queue := q, ms_taken := ms_taken s @ [nl] \<rparr>"

section \<open>The steps\<close>

inductive monitor_step :: "monitor_state \<Rightarrow> monitor_state \<Rightarrow> bool" where
  connected: "ms_monitor s = MT_Starting \<Longrightarrow> monitor_step s (s\<lparr> ms_monitor := MT_Running \<rparr>)"
| refused: "ms_monitor s = MT_Starting \<Longrightarrow> monitor_step s (s\<lparr> ms_monitor := MT_Done False \<rparr>)"
| received: "ms_monitor s = MT_Running \<Longrightarrow> monitor_step s (s\<lparr> ms_queue := ms_queue s @ parse_netlink_messages buf,
      ms_received := ms_received s @ parse_netlink_messages buf \<rparr>)"
| returned: "ms_monitor s = MT_Running \<Longrightarrow> monitor_step s (s\<lparr> ms_monitor := MT_Done True \<rparr>)"
| released: "ms_converter s = CT_Awaiting \<Longrightarrow> ms_monitor s = MT_Done True \<Longrightarrow>
    monitor_step s (s\<lparr> ms_converter := CT_Netlink \<rparr>)"
| seeded: "ms_converter s = CT_Awaiting \<Longrightarrow> ms_monitor s = MT_Done False \<Longrightarrow>
    monitor_step s (s\<lparr> ms_converter := (case seed of None \<Rightarrow> CT_Ended | Some names \<Rightarrow> CT_Fallback (set (listed_pids names))) \<rparr>)"
| converted: "ms_converter s = CT_Netlink \<Longrightarrow> ms_queue s = nl # q \<Longrightarrow>
    netlink_to_sentinel_event_inner v stamp process_collector_config_default nl = Some (Some e) \<Longrightarrow>
    monitor_step s (publish_event now e (take_event nl q s))"
| skipped: "ms_converter s = CT_Netlink \<Longrightarrow> ms_queue s = nl # q \<Longrightarrow>
    netlink_to_sentinel_event_inner v stamp process_collector_config_default nl = Some None \<Longrightarrow>
    monitor_step s (take_event nl q s)"
| bus_closed: "ms_converter s = CT_Netlink \<Longrightarrow> ms_queue s = nl # q \<Longrightarrow>
    monitor_step s ((take_event nl q s)\<lparr> ms_converter := CT_Ended \<rparr>)"
| drained: "ms_converter s = CT_Netlink \<Longrightarrow> ms_queue s = [] \<Longrightarrow> monitor_step s (s\<lparr> ms_converter := CT_Ended \<rparr>)"
| ticked: "ms_converter s = CT_Fallback known \<Longrightarrow> fallback_scan v stamps known (listed_pids names) = Some es \<Longrightarrow>
    monitor_step s ((fold (publish_event now) es s)\<lparr> ms_converter := CT_Fallback (set (listed_pids names)) \<rparr>)"
| panicked: "ms_converter s = CT_Fallback known \<Longrightarrow> monitor_step s (s\<lparr> ms_converter := CT_Ended \<rparr>)"

inductive monitor_reachable :: "datetime \<Rightarrow> collector_registry \<Rightarrow> monitor_state \<Rightarrow> bool" for now reg where
  start: "monitor_reachable now reg (monitor_init now reg)"
| step: "monitor_reachable now reg s \<Longrightarrow> monitor_step s s' \<Longrightarrow> monitor_reachable now reg s'"

text \<open>\<open>started.await\<close> is over only when the blocking task is.\<close>

definition await_inv :: "monitor_state \<Rightarrow> bool" where
  "await_inv s \<longleftrightarrow> ((\<forall>b. ms_monitor s \<noteq> MT_Done b) \<longrightarrow> ms_converter s = CT_Awaiting)
     \<and> (ms_converter s = CT_Awaiting \<longrightarrow> ms_published s = [] \<and> ms_taken s = [])
     \<and> (ms_converter s = CT_Netlink \<longrightarrow> ms_monitor s = MT_Done True)
     \<and> ms_received s = ms_taken s @ ms_queue s"

lemma fold_publish:
  "ms_monitor (fold (publish_event now) es s) = ms_monitor s \<and> ms_queue (fold (publish_event now) es s) = ms_queue s
   \<and> ms_taken (fold (publish_event now) es s) = ms_taken s \<and> ms_received (fold (publish_event now) es s) = ms_received s
   \<and> ms_converter (fold (publish_event now) es s) = ms_converter s
   \<and> ms_published (fold (publish_event now) es s) = ms_published s @ es"
  by (induction es arbitrary: s) (simp_all add: publish_event_def)

lemma await_inv_step: "monitor_step s s' \<Longrightarrow> await_inv s \<Longrightarrow> await_inv s'"
  by (induction rule: monitor_step.induct)
    (auto simp: await_inv_def publish_event_def take_event_def fold_publish split: option.splits)

lemma await_inv_reachable: "monitor_reachable now reg s \<Longrightarrow> await_inv s"
proof (induction rule: monitor_reachable.induct)
  case start
  show ?case by (simp add: await_inv_def monitor_init_def)
next
  case (step s s')
  then show ?case using await_inv_step by blast
qed

text \<open>
  C15: While the kernel is being watched nothing is reported.  The converter awaits the task in which
  the monitor runs, so as long as the monitor has not returned no process event is published, and
  everything the kernel has sent since the start is still in the channel, which has no bound.
\<close>

theorem nothing_published_while_watching:
  assumes "monitor_reachable now reg s" and "ms_monitor s \<in> {MT_Starting, MT_Running}"
  shows "ms_published s = [] \<and> ms_converter s = CT_Awaiting \<and> ms_queue s = ms_received s"
  using await_inv_reachable [OF assms(1)] assms(2) by (auto simp: await_inv_def)

text \<open>A state in which the kernel's events wait.\<close>

lemma watching_state:
  "monitor_reachable 0 Map.empty ((monitor_init 0 Map.empty)\<lparr> ms_monitor := MT_Running,
     ms_queue := [Fork 1 1 9 9 5], ms_received := [Fork 1 1 9 9 5] \<rparr>)"
proof -
  let ?s = "monitor_init 0 Map.empty" and ?buf = "kernel_message (3, 0, 0, 0) (Fork 1 1 9 9 5)"
  have parsed: "parse_netlink_messages ?buf = [Fork 1 1 9 9 5]"
    using netlink_loop_message [of "Fork 1 1 9 9 5" "[]" "(3, 0, 0, 0)" "[]"]
    by (simp add: parse_netlink_messages_def netlink_loop.simps [of _ 76] length_kernel_message)
  have "monitor_step ?s (?s\<lparr> ms_monitor := MT_Running \<rparr>)"
    by (rule connected) (simp add: monitor_init_def)
  then have run: "monitor_reachable 0 Map.empty (?s\<lparr> ms_monitor := MT_Running \<rparr>)"
    by (rule monitor_reachable.step [OF monitor_reachable.start])
  have "monitor_step (?s\<lparr> ms_monitor := MT_Running \<rparr>) (?s\<lparr> ms_monitor := MT_Running, ms_queue := [Fork 1 1 9 9 5], ms_received := [Fork 1 1 9 9 5] \<rparr>)"
    using received [of "?s\<lparr> ms_monitor := MT_Running \<rparr>" ?buf] by (simp add: parsed) (simp add: monitor_init_def)
  from monitor_reachable.step [OF run this] show ?thesis .
qed

lemma nothing_published_while_watching_witness:
  "ms_published ((monitor_init 0 Map.empty)\<lparr> ms_monitor := MT_Running,
     ms_queue := [Fork 1 1 9 9 5], ms_received := [Fork 1 1 9 9 5] \<rparr>) = []"
  using nothing_published_while_watching [OF watching_state] by simp

end
