(* ===== verification/File_Watch.thy ===== *)
theory File_Watch
  imports Proc_Netlink
begin

text \<open>
  The fanotify watcher of the file collector (collectors/src/file/fanotify_watcher.rs): the marks,
  the parser of the kernel's messages and the blocking loop.  Which path a descriptor leads to
  is the kernel's answer to a link and so a parameter; the machine is little-endian.
\<close>

section \<open>Events\<close>

datatype file_action = FA_Open | FA_Modify | FA_CloseWrite | FA_Delete | FA_Exec

record raw_file_event =
  rf_action :: file_action
  rf_path :: string
  rf_pid :: i32
  rf_timestamp_secs :: u64

abbreviation FAN_MODIFY :: u64 where "FAN_MODIFY \<equiv> 0x0002"
abbreviation FAN_CLOSE_WRITE :: u64 where "FAN_CLOSE_WRITE \<equiv> 0x0008"
abbreviation FAN_OPEN :: u64 where "FAN_OPEN \<equiv> 0x0020"
abbreviation FAN_OPEN_EXEC :: u64 where "FAN_OPEN_EXEC \<equiv> 0x1000"
abbreviation FAN_DELETE :: u64 where "FAN_DELETE \<equiv> 0x0200"
abbreviation FAN_DELETE_SELF :: u64 where "FAN_DELETE_SELF \<equiv> 0x0400"
abbreviation FAN_MOVE_SELF :: u64 where "FAN_MOVE_SELF \<equiv> 0x0800"
abbreviation FAN_ONDIR :: u64 where "FAN_ONDIR \<equiv> 0x40000000"

text \<open>The mask \<open>fanotify_mark\<close> asks for.\<close>

definition watch_mask :: u64 where
  "watch_mask = FAN_OPEN OR FAN_MODIFY OR FAN_CLOSE_WRITE OR FAN_DELETE OR FAN_DELETE_SELF OR FAN_MOVE_SELF
     OR FAN_OPEN_EXEC OR FAN_ONDIR"

definition classify_action :: "u64 \<Rightarrow> file_action" where
  "classify_action msk =
     (if msk AND FAN_DELETE \<noteq> 0 \<or> msk AND FAN_DELETE_SELF \<noteq> 0 then FA_Delete
      else if msk AND FAN_OPEN_EXEC \<noteq> 0 then FA_Exec
      else if msk AND FAN_CLOSE_WRITE \<noteq> 0 then FA_CloseWrite
      else if msk AND FAN_MODIFY \<noteq> 0 then FA_Modify
      else if msk AND FAN_OPEN \<noteq> 0 then FA_Open
      else if msk AND FAN_MOVE_SELF \<noteq> 0 then FA_Delete
      else FA_Modify)"

section \<open>The parser\<close>

record fanotify_event_metadata =
  fm_event_len :: u32
  fm_mask :: u64
  fm_fd :: i32
  fm_pid :: i32

abbreviation metadata_size :: nat where "metadata_size \<equiv> 24"

text \<open>The version, the reserved byte and the length of the metadata (offsets 4 to 7) are not used.\<close>

definition read_metadata :: "u8 list \<Rightarrow> fanotify_event_metadata" where
  "read_metadata bs = \<lparr> fm_event_len = field32 bs 0, fm_mask = le64 (drop 8 bs), fm_fd = field32 bs 16,
     fm_pid = field32 bs 20 \<rparr>"

text \<open>\<open>link\<close> gives the target of /proc/self/fd/<fd>, if it can be read.\<close>

definition resolve_path :: "(i32 \<Rightarrow> string option) \<Rightarrow> fanotify_event_metadata \<Rightarrow> string" where
  "resolve_path link meta = (if 0 \<le> sint (fm_fd meta)
     then (case link (fm_fd meta) of Some p \<Rightarrow> p | None \<Rightarrow> []) else [])"

definition file_event_of :: "(i32 \<Rightarrow> string option) \<Rightarrow> u64 \<Rightarrow> fanotify_event_metadata \<Rightarrow> raw_file_event list" where
  "file_event_of link now meta = (let action = classify_action (fm_mask meta) in
     if action = FA_Open then []
     else [\<lparr> rf_action = action, rf_path = resolve_path link meta, rf_pid = fm_pid meta, rf_timestamp_secs = now \<rparr>])"

text \<open>The ranges of the buffer that are read, and the events.\<close>

function fanotify_loop ::
    "(i32 \<Rightarrow> string option) \<Rightarrow> u64 \<Rightarrow> u8 list \<Rightarrow> nat \<Rightarrow> range list \<times> raw_file_event list" where
  "fanotify_loop link now buf offset =
     (if length buf < offset + metadata_size then ([], [])
      else
        let meta = read_metadata (drop offset buf); len = unat (fm_event_len meta); header = [(offset, metadata_size)] in
        if len = 0 \<or> length buf - offset < len then (header, [])
        else case fanotify_loop link now buf (offset + len) of (reads, evs) \<Rightarrow>
          (header @ reads, file_event_of link now meta @ evs))"
  by pat_completeness auto
termination by (relation "measure (\<lambda>(link, now, buf, offset). length buf - offset)") auto

declare fanotify_loop.simps [simp del]

definition parse_events :: "(i32 \<Rightarrow> string option) \<Rightarrow> u64 \<Rightarrow> u8 list \<Rightarrow> raw_file_event list" where
  "parse_events link now buf = snd (fanotify_loop link now buf 0)"

section \<open>The watcher\<close>

text \<open>\<open>init\<close>: a failed call ends it; the marks are set in order until one fails.  The result is the
  list of the watched paths.\<close>

fun mark_paths :: "(string \<Rightarrow> bool) \<Rightarrow> string list \<Rightarrow> string list option" where
  "mark_paths mark_ok [] = Some []"
| "mark_paths mark_ok (p # ps) = (if mark_ok p then map_option ((#) p) (mark_paths mark_ok ps) else None)"

definition watcher_init :: "bool \<Rightarrow> (string \<Rightarrow> bool) \<Rightarrow> (string \<Rightarrow> bool) \<Rightarrow> string list \<Rightarrow> string list option" where
  "watcher_init init_ok exists mark_ok paths =
     (if \<not> init_ok then None
      else case mark_paths mark_ok (filter exists paths) of
        None \<Rightarrow> None | Some watched \<Rightarrow> (if watched = [] then None else Some watched))"

datatype fan_read = Fan_Interrupted | Fan_Failed | Fan_Eof | Fan_Data u64 "u8 list"

text \<open>\<open>run_blocking\<close> over the results of its reads.\<close>

fun run_blocking :: "(i32 \<Rightarrow> string option) \<Rightarrow> fan_read list \<Rightarrow> raw_file_event list" where
  "run_blocking link [] = []"
| "run_blocking link (Fan_Interrupted # rs) = run_blocking link rs"
| "run_blocking link (Fan_Failed # rs) = []"
| "run_blocking link (Fan_Eof # rs) = []"
| "run_blocking link (Fan_Data now buf # rs) = parse_events link now buf @ run_blocking link rs"

section \<open>Memory safety\<close>

lemma fanotify_reads_in_bounds:
  "(o', n) \<in> set (fst (fanotify_loop link now buf offset)) \<Longrightarrow> o' + n \<le> length buf"
proof (induction link now buf offset rule: fanotify_loop.induct)
  case (1 link now buf offset)
  let ?len = "unat (fm_event_len (read_metadata (drop offset buf)))"
  show ?case
  proof (cases "length buf < offset + metadata_size \<or> ?len = 0 \<or> length buf - offset < ?len")
    case True
    with 1(2) show ?thesis by (subst (asm) fanotify_loop.simps) (auto simp: Let_def split: if_splits)
  next
    case False
    with 1(2) have "(o', n) = (offset, metadata_size) \<or> (o', n) \<in> set (fst (fanotify_loop link now buf (offset + ?len)))"
      by (subst (asm) fanotify_loop.simps) (auto simp: Let_def case_prod_beta)
    with 1(1) False show ?thesis by auto
  qed
qed

section \<open>What is read of the kernel's messages\<close>

text \<open>A message of the kernel: the metadata, and the information records after it.\<close>

definition fanotify_message :: "u8 list \<Rightarrow> bool" where
  "fanotify_message m \<longleftrightarrow> metadata_size \<le> length m \<and> unat (fm_event_len (read_metadata m)) = length m"

lemma le32_append: "4 \<le> length bs \<Longrightarrow> le32 (bs @ r) = le32 bs"
  by (auto simp: le32_def numeral_eq_Suc Suc_le_length_iff)

lemma le64_append: "8 \<le> length bs \<Longrightarrow> le64 (bs @ r) = le64 bs"
  by (simp add: le64_def le32_append)

lemma read_metadata_append: "metadata_size \<le> length m \<Longrightarrow> read_metadata (m @ r) = read_metadata m"
  by (simp add: read_metadata_def field32_def le64_append le32_append)

lemma fanotify_loop_messages:
  "list_all fanotify_message ms \<Longrightarrow> snd (fanotify_loop link now (pre @ concat ms) (length pre))
     = concat (map (file_event_of link now \<circ> read_metadata) ms)"
proof (induction ms arbitrary: pre)
  case Nil
  show ?case by (simp add: fanotify_loop.simps)
next
  case (Cons m ms)
  have m: "metadata_size \<le> length m" "unat (fm_event_len (read_metadata m)) = length m" "m \<noteq> []"
    using Cons.prems by (auto simp: fanotify_message_def)
  have "read_metadata (drop (length pre) (pre @ concat (m # ms))) = read_metadata m"
    using read_metadata_append [OF m(1)] by simp
  with m Cons.IH [of "pre @ m"] Cons.prems show ?case
    by (subst fanotify_loop.simps) (simp add: Let_def case_prod_beta comp_def)
qed

text \<open>
  Every message of the kernel gives one event, in order, with the action its mask says, the
  process and the path of its descriptor; only mere openings are left out, whatever information
  records follow the metadata.
\<close>

theorem fanotify_messages_read:
  assumes "list_all fanotify_message ms"
  shows "parse_events link now (concat ms) = map (\<lambda>m. \<lparr> rf_action = classify_action (fm_mask (read_metadata m)),
      rf_path = resolve_path link (read_metadata m), rf_pid = fm_pid (read_metadata m), rf_timestamp_secs = now \<rparr>)
    (filter (\<lambda>m. classify_action (fm_mask (read_metadata m)) \<noteq> FA_Open) ms)"
proof -
  have "concat (map (file_event_of link now \<circ> read_metadata) ms) = map (\<lambda>m. \<lparr> rf_action = classify_action (fm_mask (read_metadata m)),
      rf_path = resolve_path link (read_metadata m), rf_pid = fm_pid (read_metadata m), rf_timestamp_secs = now \<rparr>)
    (filter (\<lambda>m. classify_action (fm_mask (read_metadata m)) \<noteq> FA_Open) ms)"
    by (induction ms) (simp_all add: file_event_of_def Let_def)
  with fanotify_loop_messages [OF assms, of link now "[]"] show ?thesis
    by (simp add: parse_events_def)
qed

text \<open>A deletion of process 7 reported without a descriptor.\<close>

definition fid_message :: "u8 list" where
  "fid_message = [24, 0, 0, 0, 3, 0, 24, 0] @ [0, 2, 0, 0, 0, 0, 0, 0] @ [255, 255, 255, 255] @ [7, 0, 0, 0]"

lemma fid_message_fields:
  "fanotify_message fid_message" "fm_mask (read_metadata fid_message) = FAN_DELETE"
  "sint (fm_fd (read_metadata fid_message)) = - 1" "fm_pid (read_metadata fid_message) = 7"
  by code_simp+

lemma fanotify_messages_read_witness:
  "parse_events (\<lambda>_. Some ''/etc/passwd'') 5 fid_message = [\<lparr> rf_action = FA_Delete, rf_path = [], rf_pid = 7, rf_timestamp_secs = 5 \<rparr>]"
  using fanotify_messages_read [of "[fid_message]" "\<lambda>_. Some ''/etc/passwd''" 5]
  by (simp add: fid_message_fields resolve_path_def classify_action_def)

text \<open>A deletion outweighs everything else in the mask, and an execution all but a deletion.\<close>

lemma classify_priority:
  "msk AND FAN_DELETE \<noteq> 0 \<Longrightarrow> classify_action msk = FA_Delete"
  "msk AND FAN_DELETE = 0 \<Longrightarrow> msk AND FAN_DELETE_SELF = 0 \<Longrightarrow> msk AND FAN_OPEN_EXEC \<noteq> 0 \<Longrightarrow> classify_action msk = FA_Exec"
  by (simp_all add: classify_action_def)

end
