(* ===== verification/File_Hash.thy ===== *)
theory File_Hash
  imports Float64 "HOL-Library.Multiset"
begin

text \<open>
  The file hasher (collectors/src/file/file_hasher.rs): size limit, digest, Shannon entropy and
  MIME type.  Parameters are what the file system holds, SHA-256 (of a crate), the binary
  logarithm of the platform's mathematics library and the measured time.
\<close>

section \<open>Floating point operations of the hasher\<close>

fun f64_sub :: "f64 \<Rightarrow> f64 \<Rightarrow> f64" where
  "f64_sub (Fin a) (Fin b) = f64_of (a - b)"
| "f64_sub NaN _ = NaN"
| "f64_sub _ NaN = NaN"
| "f64_sub PInf PInf = NaN"
| "f64_sub NInf NInf = NaN"
| "f64_sub PInf _ = PInf"
| "f64_sub NInf _ = NInf"
| "f64_sub (Fin a) PInf = NInf"
| "f64_sub (Fin a) NInf = PInf"

text \<open>\<open>f64::round\<close>: to the nearest integer, halves away from zero.\<close>

fun f64_round :: "f64 \<Rightarrow> f64" where
  "f64_round (Fin a) = Fin (if 0 \<le> a then of_int \<lfloor>a + 1 / 2\<rfloor> else - of_int \<lfloor>- a + 1 / 2\<rfloor>)"
| "f64_round x = x"

text \<open>Division by a finite number.\<close>

fun f64_div_by :: "f64 \<Rightarrow> rat \<Rightarrow> f64" where
  "f64_div_by (Fin a) b = f64_div_fin (Fin a) (Fin b)"
| "f64_div_by NaN b = NaN"
| "f64_div_by PInf b = (if 0 \<le> b then PInf else NInf)"
| "f64_div_by NInf b = (if 0 \<le> b then NInf else PInf)"

text \<open>A decimal with \<open>k\<close> digits after the point, as \<open>{:.k}\<close> prints it.\<close>

definition fixed_digits :: "nat \<Rightarrow> nat \<Rightarrow> string" where
  "fixed_digits k n = (let d = show_nat (n mod 10 ^ k) in
     show_nat (n div 10 ^ k) @ (if k = 0 then [] else CHR ''.'' # replicate (k - length d) (CHR ''0'') @ d))"

fun f64_fixed :: "nat \<Rightarrow> f64 \<Rightarrow> string" where
  "f64_fixed k NaN = ''NaN''"
| "f64_fixed k PInf = ''inf''"
| "f64_fixed k NInf = ''-inf''"
| "f64_fixed k (Fin a) = (if a < 0 then ''-'' else []) @ fixed_digits k (nat (round_even (\<bar>a\<bar> * 10 ^ k)))"

section \<open>Entropy\<close>

text \<open>\<open>counts[byte] += 1\<close> for every byte.\<close>

definition byte_counts :: "u8 list \<Rightarrow> u64 list" where
  "byte_counts bytes = foldl (\<lambda>counts b. counts[unat b := counts ! unat b + 1]) (replicate 256 0) bytes"

definition entropy_term :: "(f64 \<Rightarrow> f64) \<Rightarrow> f64 \<Rightarrow> f64 \<Rightarrow> u64 \<Rightarrow> f64" where
  "entropy_term log2 len entropy cnt =
     (if 0 < cnt then let p = f64_div_fin (f64_of_nat (unat cnt)) len in f64_sub entropy (f64_mul p (log2 p))
      else entropy)"

definition compute_entropy :: "(f64 \<Rightarrow> f64) \<Rightarrow> u8 list \<Rightarrow> f64" where
  "compute_entropy log2 bytes =
     (if bytes = [] then Fin 0
      else f64_div_by (f64_round (f64_mul
        (foldl (entropy_term log2 (f64_of_nat (length bytes))) (Fin 0) (byte_counts bytes)) (Fin 100))) 100)"

section \<open>MIME types\<close>

definition has_extension :: "string \<Rightarrow> string list \<Rightarrow> bool" where
  "has_extension lower exts \<longleftrightarrow> list_ex (ends_with lower) exts"

definition detect_mime_from_ext :: "string \<Rightarrow> string" where
  "detect_mime_from_ext path = (let lower = to_lowercase path in
     if has_extension lower [''.sh'', ''.bash'', ''.zsh''] then ''text/x-shellscript''
     else if has_extension lower [''.py''] then ''text/x-python''
     else if has_extension lower [''.rb''] then ''text/x-ruby''
     else if has_extension lower [''.js''] then ''application/javascript''
     else if has_extension lower [''.pl''] then ''text/x-perl''
     else if has_extension lower [''.php''] then ''text/x-php''
     else if has_extension lower [''.exe'', ''.dll''] then ''application/x-dosexec''
     else if has_extension lower [''.so'', ''.o''] then ''application/x-sharedlib''
     else if has_extension lower [''.rpm'', ''.deb''] then ''application/x-package''
     else if has_extension lower [''.tar'', ''.gz'', ''.bz2'', ''.xz''] then ''application/x-archive''
     else if has_extension lower [''.json''] then ''application/json''
     else if has_extension lower [''.xml''] then ''application/xml''
     else if has_extension lower [''.yaml'', ''.yml''] then ''application/x-yaml''
     else if has_extension lower [''.toml'', ''.ini'', ''.cfg'', ''.conf''] then ''text/x-config''
     else if has_extension lower [''.log'', ''.txt'', ''.md''] then ''text/plain''
     else ''application/octet-stream'')"

definition magic_mime :: "u8 \<Rightarrow> u8 \<Rightarrow> string option" where
  "magic_mime a b =
     (if a = 0xFF \<and> b = 0xD8 then Some ''image/jpeg''
      else if a = 0x89 \<and> b = 0x50 then Some ''image/png''
      else if a = 0x47 \<and> b = 0x49 then Some ''image/gif''
      else if a = 0x25 \<and> b = 0x50 then Some ''application/pdf''
      else if a = 0x50 \<and> b = 0x4B then Some ''application/zip''
      else if a = 0x1F \<and> b = 0x8B then Some ''application/gzip''
      else if a = 0x7F \<and> b = 0x45 then Some ''application/x-elf''
      else if a = 0xCA \<and> b = 0xFE then Some ''application/x-mach-o''
      else None)"

definition detect_mime :: "u8 list \<Rightarrow> string \<Rightarrow> string" where
  "detect_mime bytes path =
     (case (if 2 \<le> length bytes then magic_mime (bytes ! 0) (bytes ! 1) else None) of
        Some t \<Rightarrow> t
      | None \<Rightarrow> (if 4 \<le> length bytes \<and> bytes ! 0 = 0x00 \<and> bytes ! 1 = 0x00 \<and> bytes ! 2 = 0x01 \<and> bytes ! 3 = 0x00
                 then ''font/ttf'' else detect_mime_from_ext path))"

section \<open>Hashing a file\<close>

record file_hash_result =
  hr_sha256 :: string
  hr_entropy :: f64
  hr_mime_type :: string
  hr_size :: u64
  hr_duration_ms :: u64

definition file_hash_empty :: file_hash_result where
  "file_hash_empty = \<lparr> hr_sha256 = [], hr_entropy = Fin 0, hr_mime_type = [], hr_size = 0, hr_duration_ms = 0 \<rparr>"

text \<open>The environment: what \<open>std::fs::read\<close> gives, the digest in hexadecimal, the logarithm, the
  duration, and whether the blocking task can be joined.\<close>

record file_env =
  fv_read :: "string \<Rightarrow> u8 list option"
  fv_sha256 :: "u8 list \<Rightarrow> string"
  fv_log2 :: "f64 \<Rightarrow> f64"
  fv_duration_ms :: u64
  fv_joined :: bool

definition hash_file_sync :: "file_env \<Rightarrow> string \<Rightarrow> u64 \<Rightarrow> file_hash_result" where
  "hash_file_sync v path max_bytes = (case fv_read v path of
       None \<Rightarrow> file_hash_empty
     | Some d \<Rightarrow>
         if max_bytes < of_nat (length d) then
           \<lparr> hr_sha256 = [], hr_entropy = compute_entropy (fv_log2 v) (take (min 4096 (length d)) d),
             hr_mime_type = detect_mime_from_ext path, hr_size = of_nat (length d), hr_duration_ms = fv_duration_ms v \<rparr>
         else
           \<lparr> hr_sha256 = fv_sha256 v d, hr_entropy = compute_entropy (fv_log2 v) d,
             hr_mime_type = detect_mime d path, hr_size = of_nat (length d), hr_duration_ms = fv_duration_ms v \<rparr>)"

definition hash_file :: "file_env \<Rightarrow> string \<Rightarrow> u64 \<Rightarrow> file_hash_result" where
  "hash_file v path max_bytes = (if fv_joined v then hash_file_sync v path max_bytes else file_hash_empty)"

section \<open>Entropy is a function of the histogram\<close>

lemma unat_u8_less: "unat b < 256" for b :: u8
  using unsigned_less [of b] by simp

lemma u8_index_iff: "i < 256 \<Longrightarrow> unat b = i \<longleftrightarrow> b = of_nat i" for b :: u8
  by (auto simp: unat_of_nat take_bit_nat_eq_self)

lemma byte_counts_step:
  "length cs = 256 \<Longrightarrow> i < 256 \<Longrightarrow> foldl (\<lambda>counts b. counts[unat b := counts ! unat b + 1]) cs bytes ! i
     = cs ! i + of_nat (count (mset bytes) (of_nat i))" for bytes :: "u8 list" and cs :: "u64 list"
proof (induction bytes arbitrary: cs)
  case (Cons b bytes)
  then show ?case
    using unat_u8_less [of b] u8_index_iff [of i b] by (cases "unat b = i") (auto simp: nth_list_update)
qed simp

lemma length_byte_counts [simp]: "length (byte_counts bytes) = 256"
proof -
  have "length (foldl (\<lambda>counts b. counts[unat b := counts ! unat b + 1]) cs bytes) = length cs" for cs :: "u64 list"
    by (induction bytes arbitrary: cs) simp_all
  then show ?thesis by (simp add: byte_counts_def)
qed

text \<open>The table holds how often each byte occurs.\<close>

lemma byte_counts_histogram: "i < 256 \<Longrightarrow> byte_counts bytes ! i = of_nat (count (mset bytes) (of_nat i))"
  by (simp add: byte_counts_def byte_counts_step)

lemma byte_counts_mset: "mset a = mset b \<Longrightarrow> byte_counts a = byte_counts b"
  by (rule nth_equalityI) (simp_all add: byte_counts_histogram)

text \<open>The entropy does not depend on the order of the bytes.\<close>

lemma entropy_order_free:
  assumes "mset a = mset b"
  shows "compute_entropy log2 a = compute_entropy log2 b"
proof -
  have "length a = length b" "byte_counts a = byte_counts b"
    using assms by (rule mset_eq_length) (rule byte_counts_mset [OF assms])
  then show ?thesis by (auto simp: compute_entropy_def)
qed

section \<open>Boundary cases\<close>

lemma f64_of_int: "\<bar>n\<bar> \<le> 2 ^ 53 \<Longrightarrow> f64_of (of_int n) = Fin (of_int n)"
proof -
  assume n: "\<bar>n\<bar> \<le> 2 ^ 53"
  have "\<bar>of_int n :: rat\<bar> \<le> of_int (2 ^ 53)"
    using n by (simp only: of_int_abs [symmetric] of_int_le_iff)
  moreover have "(of_int (2 ^ 53) :: rat) \<le> f64_max"
    by (simp add: f64_max_def)
  ultimately show ?thesis
    using rnd64_int [OF n] by (auto simp: f64_of_def Let_def)
qed

lemma f64_of_zero [simp]: "f64_of 0 = Fin 0"
  using f64_of_int [of 0] by (simp only: of_int_0 abs_zero zero_le_power zero_le_numeral)

lemma f64_of_one [simp]: "f64_of 1 = Fin 1"
proof -
  have "\<bar>1\<bar> \<le> (2 :: int) ^ 53" by simp
  from f64_of_int [OF this] show ?thesis by (simp only: of_int_1)
qed

lemma f64_of_nat_exact: "n \<le> 2 ^ 53 \<Longrightarrow> f64_of_nat n = Fin (of_nat n)"
proof -
  assume "n \<le> 2 ^ 53"
  then have "\<bar>int n\<bar> \<le> 2 ^ 53" by simp
  from f64_of_int [OF this] show ?thesis by (simp only: f64_of_nat_def of_int_of_nat_eq)
qed

lemma entropy_term_zero:
  assumes "c = 0 \<or> unat c = n" and "0 < n" and "n \<le> 2 ^ 53" and "log2 (Fin 1) = Fin 0"
  shows "entropy_term log2 (f64_of_nat n) (Fin 0) c = Fin 0"
proof (cases "0 < c")
  case True
  then have "unat c = n" using assms(1) by auto
  then show ?thesis
    using assms(2,4) by (simp add: entropy_term_def f64_of_nat_exact [OF assms(3)])
qed (simp add: entropy_term_def)

lemma foldl_entropy_zero:
  "0 < n \<Longrightarrow> n \<le> 2 ^ 53 \<Longrightarrow> log2 (Fin 1) = Fin 0 \<Longrightarrow> list_all (\<lambda>c. c = 0 \<or> unat c = n) cs \<Longrightarrow>
     foldl (entropy_term log2 (f64_of_nat n)) (Fin 0) cs = Fin 0"
  by (induction cs) (simp_all add: entropy_term_zero)

text \<open>A file that repeats one byte has entropy zero, given that the logarithm of one is zero.\<close>

lemma entropy_constant:
  assumes "0 < n" and "n \<le> 2 ^ 53" and "log2 (Fin 1) = Fin 0"
  shows "compute_entropy log2 (replicate n b) = Fin 0"
proof -
  have "list_all (\<lambda>c. c = 0 \<or> unat c = n) (byte_counts (replicate n b))"
    using assms by (auto simp: list_all_length byte_counts_histogram unat_of_nat take_bit_nat_eq_self)
  with assms have "foldl (entropy_term log2 (f64_of_nat n)) (Fin 0) (byte_counts (replicate n b)) = Fin 0"
    by (intro foldl_entropy_zero)
  moreover have "\<lfloor>1 / 2 :: rat\<rfloor> = 0"
    by (simp add: floor_eq_iff)
  ultimately show ?thesis
    using assms(1) by (simp add: compute_entropy_def)
qed

text \<open>Fractions with a power of two below them are exact.\<close>

lemma rnd_pos_scaled:
  assumes "0 < n" and "n < 2 ^ 53" and "k \<le> 1074"
  shows "rnd_pos (of_int n / 2 ^ k) = of_int n / 2 ^ k"
proof -
  let ?x = "of_int n / 2 ^ k :: rat"
  have "(of_int n :: rat) < of_int (2 ^ 53)"
    using assms(2) by (simp only: of_int_less_iff)
  moreover have "(2 :: rat) powi (53 - int k) * 2 ^ k = 2 powi 53"
    by (simp add: power_int_diff)
  ultimately have "?x < 2 powi (53 - int k)"
    by (simp add: divide_less_eq)
  then have "ilog2 ?x < 53 - int k"
    using assms(1) by (intro ilog2_less) simp_all
  then have "ulp_exp ?x \<le> - int k"
    using assms(3) by (simp add: ulp_exp_def)
  then have q: "2 powi (- int k) / 2 powi ulp_exp ?x = (of_int (2 ^ nat (- int k - ulp_exp ?x)) :: rat)"
    by (rule power2_int_quotient)
  have "?x / 2 powi ulp_exp ?x = of_int n * (2 powi (- int k) / 2 powi ulp_exp ?x)"
    by (simp add: power_int_minus field_simps)
  also have "\<dots> = of_int (n * 2 ^ nat (- int k - ulp_exp ?x))"
    unfolding q by simp
  finally have "?x / 2 powi ulp_exp ?x = of_int (n * 2 ^ nat (- int k - ulp_exp ?x))" .
  then show ?thesis by (rule rnd_pos_multiple)
qed

lemma f64_of_scaled:
  assumes "\<bar>n\<bar> < 2 ^ 53" and "k \<le> 1074"
  shows "f64_of (of_int n / 2 ^ k) = Fin (of_int n / 2 ^ k)"
proof -
  have r: "rnd64 (of_int n / 2 ^ k) = of_int n / 2 ^ k"
  proof (cases n "0 :: int" rule: linorder_cases)
    case less
    with assms have "rnd_pos (of_int (- n) / 2 ^ k) = of_int (- n) / 2 ^ k"
      by (intro rnd_pos_scaled) simp_all
    with less show ?thesis by (simp add: rnd64_def divide_less_0_iff zero_less_divide_iff)
  next
    case greater
    with assms have "rnd_pos (of_int n / 2 ^ k) = of_int n / 2 ^ k"
      by (intro rnd_pos_scaled) simp_all
    with greater show ?thesis by (simp add: rnd64_def zero_less_divide_iff)
  qed (simp add: rnd64_def)
  have "\<bar>of_int n / 2 ^ k\<bar> \<le> \<bar>of_int n :: rat\<bar> / 1"
    unfolding abs_divide by (intro divide_mono) simp_all
  moreover have "\<bar>of_int n :: rat\<bar> < of_int (2 ^ 53)"
    using assms(1) by (simp only: of_int_abs [symmetric] of_int_less_iff)
  moreover have "of_int (2 ^ 53) \<le> f64_max"
    by (simp add: f64_max_def)
  ultimately have "\<bar>of_int n / 2 ^ k\<bar> < f64_max" by linarith
  then have "\<not> f64_max < of_int n / 2 ^ k" "\<not> of_int n / 2 ^ k < - f64_max" by linarith+
  then show ?thesis by (simp only: f64_of_def Let_def r if_False)
qed

lemma foldl_entropy_uniform:
  "log2 (Fin (1 / 256)) = Fin (- 8) \<Longrightarrow> n + m \<le> 256 \<Longrightarrow>
     foldl (entropy_term log2 (Fin 256)) (Fin (of_nat n / 32)) (replicate m 1) = Fin (of_nat (n + m) / 32)"
proof (induction m arbitrary: n)
  case (Suc m)
  have "f64_of (1 / 256) = Fin (1 / 256)"
    using f64_of_scaled [of 1 8] by simp
  moreover have "f64_of (- (1 / 32)) = Fin (- (1 / 32))"
    using f64_of_scaled [of "- 1" 5] by simp
  moreover have "f64_of (of_nat (Suc n) / 32) = Fin (of_nat (Suc n) / 32)"
    using f64_of_scaled [of "int (Suc n)" 5] Suc.prems by simp
  ultimately have "entropy_term log2 (Fin 256) (Fin (of_nat n / 32)) 1 = Fin (of_nat (Suc n) / 32)"
    using Suc.prems(1) by (simp add: entropy_term_def f64_of_nat_def Let_def field_simps)
  with Suc.IH [of "Suc n"] Suc.prems show ?case by simp
qed simp

text \<open>Content in which every byte occurs once has the highest entropy, eight.\<close>

lemma entropy_uniform:
  assumes "mset bytes = mset (map of_nat [0..<256])" and "log2 (Fin (1 / 256)) = Fin (- 8)"
  shows "compute_entropy log2 bytes = Fin 8"
proof -
  have l: "length bytes = 256"
    using mset_eq_length [OF assms(1)] by simp
  have "count (mset bytes) (of_nat i) = 1" if "i < 256" for i
  proof -
    have d: "distinct (map (of_nat :: nat \<Rightarrow> u8) [0..<256])"
      by (auto simp: distinct_map word_unat_eq_iff unat_of_nat take_bit_nat_eq_self intro!: inj_onI)
    have "(of_nat i :: u8) \<in> set (map of_nat [0..<256])"
      using that by simp
    with d show ?thesis
      unfolding assms(1) by (subst (asm) distinct_count_atmost_1) simp
  qed
  then have c: "byte_counts bytes = replicate 256 1"
    by (intro nth_equalityI) (simp_all add: byte_counts_histogram)
  have "foldl (entropy_term log2 (Fin 256)) (Fin 0) (replicate 256 1) = Fin 8"
    using foldl_entropy_uniform [of log2 0 256] assms(2) by simp
  moreover have "f64_of 800 = Fin 800" "f64_of 8 = Fin 8" "\<lfloor>800 + 1 / 2 :: rat\<rfloor> = 800"
    using f64_of_int [of 800] f64_of_int [of 8] by (simp_all add: floor_eq_iff)
  ultimately show ?thesis
    using l f64_of_nat_exact [of 256] by (auto simp: compute_entropy_def c)
qed

lemma hash_limit:
  "fv_read v path = Some d \<Longrightarrow> unat max_bytes < length d \<Longrightarrow> length d < 2 ^ 64 \<Longrightarrow> fv_joined v \<Longrightarrow>
     hr_sha256 (hash_file v path max_bytes) = []"
  by (simp add: hash_file_def hash_file_sync_def word_less_nat_alt unat_of_nat take_bit_nat_eq_self)

lemma mime_of_unreadable: "fv_read v path = None \<Longrightarrow> hash_file v path max_bytes = file_hash_empty"
  by (simp add: hash_file_def hash_file_sync_def)

end
