(* ===== verification/File_Monitor.thy ===== *)
theory File_Monitor
  imports File_Watch File_Hash Net_Events
begin

text \<open>
  The file collector (collectors/src/file/mod.rs): the loop over the watcher's events with its
  detection of mass encryption, and the fallback that polls the directories.  The loops run over
  the sequence of what they meet; their result is the events they hand to the bus.
\<close>

section \<open>Paths\<close>

definition is_sensitive_path :: "string \<Rightarrow> bool" where
  "is_sensitive_path path \<longleftrightarrow>
     starts_with path ''/etc/'' \<or> starts_with path ''/tmp/'' \<or> starts_with path ''/var/log/''
     \<or> starts_with path ''/var/spool/cron/''
     \<or> str_contains path ''/.ssh/'' \<or> str_contains path ''/.bash'' \<or> str_contains path ''/.zsh''
     \<or> str_contains path ''/.profile''
     \<or> ends_with path ''.sh'' \<or> ends_with path ''.py'' \<or> ends_with path ''.rb'' \<or> ends_with path ''.pl''
     \<or> ends_with path ''.php'' \<or> ends_with path ''.so'' \<or> ends_with path ''.service'' \<or> ends_with path ''.timer''"

section \<open>Mass encryption\<close>

abbreviation MAX_HASH_BYTES :: u64 where "MAX_HASH_BYTES \<equiv> 10 * 1024 * 1024"
abbreviation RANSOMWARE_WINDOW :: nat where "RANSOMWARE_WINDOW \<equiv> 10 * nanos_per_sec"
abbreviation RANSOMWARE_ENTROPY_THRESHOLD :: f64 where "RANSOMWARE_ENTROPY_THRESHOLD \<equiv> Fin (75 / 10)"
abbreviation RANSOMWARE_MIN_FILES :: nat where "RANSOMWARE_MIN_FILES \<equiv> 3"

record entropy_record =
  er_path :: string
  er_entropy :: f64
  er_timestamp :: instant

text \<open>The records that are too old leave at the front; every test reads the clock.\<close>

fun prune_window :: "clock \<Rightarrow> nat \<Rightarrow> entropy_record list \<Rightarrow> entropy_record list" where
  "prune_window clk i [] = []"
| "prune_window clk i (r # rs) =
     (if RANSOMWARE_WINDOW < elapsed (clk i) (er_timestamp r) then prune_window clk (Suc i) rs else r # rs)"

definition build_ransomware_alert :: "stamp \<Rightarrow> string list \<Rightarrow> nat \<Rightarrow> event" where
  "build_ransomware_alert s paths n = event_default \<lparr> ev_id := st_id s, ev_type := ''sentinel.file.ransomware'',
     ev_source := ''file'', ev_timestamp := Some (st_timestamp s), ev_ingest_timestamp := Some (st_ingest s),
     ev_severity := severity_i32 Critical, ev_risk_score := 95, ev_host_id := [], ev_schema_version := 1,
     ev_payload := Some (FilePayload (file_event_default \<lparr> fe_action := 6,
       fe_path := (case paths of [] \<Rightarrow> [] | p # ps \<Rightarrow> p), fe_entropy := show_nat n @ ''_files'',
       fe_is_sensitive_path := True,
       fe_attributes := Some (file_attributes_default \<lparr> fa_encrypted := True \<rparr>) \<rparr>)),
     ev_tags := [''ransomware'', ''mitre:T1486'', ''files_encrypted:'' @ show_nat n] \<rparr>"

text \<open>The window after a close-write of high entropy, and the alert it raises; \<open>clk 0\<close> is the
  instant of the record.\<close>

definition ransomware_step ::
    "clock \<Rightarrow> stamp \<Rightarrow> string \<Rightarrow> f64 \<Rightarrow> entropy_record list \<Rightarrow> event option \<times> entropy_record list" where
  "ransomware_step clk s path entropy window =
     (let w = prune_window clk 1 (window @ [\<lparr> er_path = path, er_entropy = entropy, er_timestamp = clk 0 \<rparr>])
      in if RANSOMWARE_MIN_FILES \<le> length w
         then (Some (build_ransomware_alert s (map er_path w) (length w)), [])
         else (None, w))"

section \<open>Events\<close>

text \<open>The name \<open>{:?}\<close> prints.\<close>

fun file_action_debug :: "file_action \<Rightarrow> string" where
  "file_action_debug FA_Open = ''Open''"
| "file_action_debug FA_Modify = ''Modify''"
| "file_action_debug FA_CloseWrite = ''CloseWrite''"
| "file_action_debug FA_Delete = ''Delete''"
| "file_action_debug FA_Exec = ''Exec''"

fun file_action_code :: "file_action \<Rightarrow> i32" where
  "file_action_code FA_Open = 5"
| "file_action_code FA_Modify = 2"
| "file_action_code FA_CloseWrite = 6"
| "file_action_code FA_Delete = 3"
| "file_action_code FA_Exec = 7"

definition above :: "f64 \<Rightarrow> rat \<Rightarrow> bool" where
  "above x t \<longleftrightarrow> f64_lt (Fin t) x"

fun file_severity :: "file_action \<Rightarrow> f64 \<Rightarrow> severity" where
  "file_severity FA_Exec e = Notice"
| "file_severity FA_Delete e = Warning"
| "file_severity FA_CloseWrite e = (if above e 6 then Notice else Info)"
| "file_severity _ e = Info"

definition file_risk :: "file_action \<Rightarrow> string \<Rightarrow> f64 \<Rightarrow> u32" where
  "file_risk action path e =
     (if action = FA_Exec \<and> is_sensitive_path path then 35
      else if action = FA_Delete \<and> is_sensitive_path path then 50
      else if action = FA_CloseWrite \<and> above e 7 then 40
      else if action = FA_CloseWrite then 10
      else if action = FA_Modify \<and> is_sensitive_path path then 20
      else 5)"

definition file_tags :: "raw_file_event \<Rightarrow> file_hash_result \<Rightarrow> string list" where
  "file_tags raw h =
     (if is_sensitive_path (rf_path raw) then [''sensitive_path''] else [])
     @ (if above (hr_entropy h) (75 / 10) then [''high_entropy:'' @ f64_fixed 1 (hr_entropy h)] else [])
     @ (if rf_action raw = FA_Exec then [''executable''] else [])
     @ (if hr_mime_type h \<noteq> [] then [''mime:'' @ hr_mime_type h] else [])"

definition file_payload :: "raw_file_event \<Rightarrow> file_hash_result \<Rightarrow> file_event" where
  "file_payload raw h = \<lparr> fe_action = file_action_code (rf_action raw), fe_path = rf_path raw, fe_destination = [],
     fe_size = hr_size h, fe_sha256 = hr_sha256 h,
     fe_entropy = (if above (hr_entropy h) 0 then f64_fixed 2 (hr_entropy h) else []),
     fe_attributes = Some (file_attributes_default \<lparr> fa_encrypted := above (hr_entropy h) 7 \<rparr>),
     fe_is_executable = (rf_action raw = FA_Exec
       \<or> str_contains (hr_mime_type h) ''x-elf'' \<or> str_contains (hr_mime_type h) ''x-mach-o''
       \<or> str_contains (hr_mime_type h) ''dosexec'' \<or> str_contains (hr_mime_type h) ''shellscript''),
     fe_mime_type = hr_mime_type h, fe_is_sensitive_path = is_sensitive_path (rf_path raw) \<rparr>"

definition build_file_event :: "stamp \<Rightarrow> raw_file_event \<Rightarrow> file_hash_result \<Rightarrow> event" where
  "build_file_event s raw h = event_default \<lparr> ev_id := st_id s,
     ev_type := to_lowercase (''sentinel.file.'' @ file_action_debug (rf_action raw)), ev_source := ''file'',
     ev_timestamp := Some (st_timestamp s), ev_ingest_timestamp := Some (st_ingest s),
     ev_severity := severity_i32 (file_severity (rf_action raw) (hr_entropy h)),
     ev_risk_score := file_risk (rf_action raw) (rf_path raw) (hr_entropy h), ev_host_id := [], ev_schema_version := 1,
     ev_process := (if 0 < sint (rf_pid raw)
       then Some (ProcessContext (rf_pid raw) 0 [] [] [] [] None [] None [] 0 [] None) else None),
     ev_payload := Some (FilePayload (file_payload raw h)), ev_tags := file_tags raw h \<rparr>"

section \<open>The event loop\<close>

text \<open>What a round reads of its surroundings: the file system, the clocks, the stamps of the alert
  and of the event, and whether the bus takes the event.\<close>

record file_round =
  fq_files :: file_env
  fq_clock :: clock
  fq_now :: datetime
  fq_alert_stamp :: stamp
  fq_stamp :: stamp
  fq_bus_open :: bool

definition skipped_path :: "string \<Rightarrow> bool" where
  "skipped_path path \<longleftrightarrow> path = [] \<or> ends_with path ''/''"

definition round_hash :: "file_round \<Rightarrow> raw_file_event \<Rightarrow> file_hash_result" where
  "round_hash q raw = (if is_sensitive_path (rf_path raw)
     then hash_file (fq_files q) (rf_path raw) MAX_HASH_BYTES else file_hash_empty)"

definition round_alert ::
    "file_round \<Rightarrow> raw_file_event \<Rightarrow> entropy_record list \<Rightarrow> event option \<times> entropy_record list" where
  "round_alert q raw window = (let h = round_hash q raw in
     if rf_action raw = FA_CloseWrite \<and> f64_lt RANSOMWARE_ENTROPY_THRESHOLD (hr_entropy h)
     then ransomware_step (fq_clock q) (fq_alert_stamp q) (rf_path raw) (hr_entropy h) window
     else (None, window))"

fun run_event_loop ::
    "(file_round \<times> raw_file_event) list \<Rightarrow> entropy_record list \<Rightarrow> collector_registry \<Rightarrow> event list \<times> collector_registry" where
  "run_event_loop [] window reg = ([], reg)"
| "run_event_loop ((q, raw) # rest) window reg =
     (if skipped_path (rf_path raw) then run_event_loop rest window reg
      else case round_alert q raw window of (alert, window') \<Rightarrow>
        let reg' = (if alert = None then reg else collector_increment_events (fq_now q) ''file'' 1 reg);
            evs = (case alert of None \<Rightarrow> [] | Some a \<Rightarrow> [a]) @ [build_file_event (fq_stamp q) raw (round_hash q raw)]
        in if fq_bus_open q
           then case run_event_loop rest window' reg' of (es, r) \<Rightarrow> (evs @ es, r)
           else (evs, collector_increment_events (fq_now q) ''file'' 1 reg'))"

section \<open>Polling\<close>

text \<open>What the file system says of a directory entry, links followed: whether it is a file, its
  time of modification in nanoseconds of the Unix epoch and its length.\<close>

record file_meta =
  mt_is_file :: bool
  mt_modified :: "int option"
  mt_len :: u64

definition mtime_secs :: "file_meta \<Rightarrow> u64" where
  "mtime_secs meta = (case mt_modified meta of Some t \<Rightarrow> of_nat (nat t div nanos_per_sec) | None \<Rightarrow> 0)"

type_synonym known_files = "string \<rightharpoonup> u64 \<times> u64"

definition build_poll_event :: "string \<Rightarrow> string \<Rightarrow> u64 \<Rightarrow> i32 \<Rightarrow> event" where
  "build_poll_event ulid path sz action = event_default \<lparr> ev_id := ulid,
     ev_type := (if action = 1 then ''sentinel.file.create'' else if action = 2 then ''sentinel.file.modify''
       else if action = 3 then ''sentinel.file.delete'' else ''sentinel.file.modify''),
     ev_source := ''file'', ev_severity := severity_i32 Info, ev_risk_score := 10, ev_host_id := [],
     ev_schema_version := 1,
     ev_payload := Some (FilePayload (file_event_default \<lparr> fe_action := action, fe_path := path, fe_size := sz,
       fe_is_sensitive_path := is_sensitive_path path \<rparr>)),
     ev_tags := [''polling_mode''] \<rparr>"

text \<open>A finding of a scan: path, size and action (1 create, 2 modify, 3 delete).\<close>

type_synonym scan_finding = "string \<times> u64 \<times> i32"

text \<open>The loop over the entries; an entry without metadata is passed over.\<close>

fun scan_entries :: "(string \<times> file_meta option) list \<Rightarrow> known_files \<Rightarrow> scan_finding list \<times> known_files" where
  "scan_entries [] known = ([], known)"
| "scan_entries ((path, None) # es) known = scan_entries es known"
| "scan_entries ((path, Some meta) # es) known =
     (if \<not> mt_is_file meta then scan_entries es known
      else let now = (mtime_secs meta, mt_len meta) in
        case known path of
          Some prev \<Rightarrow>
            if prev \<noteq> now then (case scan_entries es (known(path \<mapsto> now)) of (fs, k) \<Rightarrow> ((path, mt_len meta, 2) # fs, k))
            else scan_entries es known
        | None \<Rightarrow> (case scan_entries es (known(path \<mapsto> now)) of (fs, k) \<Rightarrow> ((path, mt_len meta, 1) # fs, k)))"

text \<open>A directory at the time of its scan: its entries, and the entries of the second reading with
  whether they are files; None if it cannot be read.\<close>

record dir_view =
  dv_entries :: "(string \<times> file_meta option) list option"
  dv_again :: "(string \<times> bool) list option"

definition current_paths :: "dir_view \<Rightarrow> string set" where
  "current_paths v = (case dv_again v of None \<Rightarrow> {} | Some es \<Rightarrow> set (map fst (filter snd es)))"

text \<open>\<open>order\<close> is the order in which the hash map yields a set of its keys.\<close>

definition scan_dir ::
    "(string set \<Rightarrow> string list) \<Rightarrow> dir_view \<Rightarrow> known_files \<Rightarrow> scan_finding list \<times> known_files" where
  "scan_dir order v known = (case dv_entries v of
       None \<Rightarrow> ([], known)
     | Some es \<Rightarrow> (case scan_entries es known of (fs, k) \<Rightarrow>
         let deleted = order (dom k - current_paths v)
         in (fs @ map (\<lambda>p. (p, 0, 3)) deleted, k |` (- set deleted))))"

text \<open>A tick: every watched directory in turn, None for one that does not exist.\<close>

fun poll_tick ::
    "(string set \<Rightarrow> string list) \<Rightarrow> dir_view option list \<Rightarrow> known_files \<Rightarrow> scan_finding list \<times> known_files" where
  "poll_tick order [] known = ([], known)"
| "poll_tick order (None # vs) known = poll_tick order vs known"
| "poll_tick order (Some v # vs) known = (case scan_dir order v known of (fs, k) \<Rightarrow>
     case poll_tick order vs k of (gs, k') \<Rightarrow> (fs @ gs, k'))"

text \<open>\<open>run_polling_loop\<close> from an empty map; \<open>ulids\<close> names the events in their order.\<close>

fun poll_ticks ::
    "(string set \<Rightarrow> string list) \<Rightarrow> dir_view option list list \<Rightarrow> known_files \<Rightarrow> scan_finding list" where
  "poll_ticks order [] known = []"
| "poll_ticks order (vs # ticks) known = (case poll_tick order vs known of (fs, k) \<Rightarrow> fs @ poll_ticks order ticks k)"

definition count_events :: "(nat \<Rightarrow> datetime) \<Rightarrow> nat \<Rightarrow> collector_registry \<Rightarrow> collector_registry" where
  "count_events nows n reg = foldl (\<lambda>r i. collector_increment_events (nows i) ''file'' 1 r) reg [0..<n]"

definition run_polling_loop ::
    "(string set \<Rightarrow> string list) \<Rightarrow> (nat \<Rightarrow> string) \<Rightarrow> (nat \<Rightarrow> datetime) \<Rightarrow> dir_view option list list \<Rightarrow>
     collector_registry \<Rightarrow> event list \<times> collector_registry" where
  "run_polling_loop order ulids nows ticks reg = (let fs = poll_ticks order ticks Map.empty in
     (map (\<lambda>(i, p, sz, a). build_poll_event (ulids i) p sz a) (enumerate 0 fs), count_events nows (length fs) reg))"

section \<open>The start\<close>

definition DEFAULT_WATCH_PATHS :: "string list" where
  "DEFAULT_WATCH_PATHS = [''/etc'', ''/tmp'', ''/var/log'', ''/var/spool/cron'']"

text \<open>What the collector meets: the answers of the kernel to its calls and reads, and the surroundings
  of the two loops.\<close>

record file_world =
  fw_exists :: "string \<Rightarrow> bool"
  fw_init_ok :: bool
  fw_mark_ok :: "string \<Rightarrow> bool"
  fw_link :: "i32 \<Rightarrow> string option"
  fw_reads :: "fan_read list"
  fw_rounds :: "file_round list"
  fw_order :: "string set \<Rightarrow> string list"
  fw_ulids :: "nat \<Rightarrow> string"
  fw_nows :: "nat \<Rightarrow> datetime"
  fw_ticks :: "dir_view option list list"

definition start_file_monitor :: "datetime \<Rightarrow> file_world \<Rightarrow> collector_registry \<Rightarrow> event list \<times> collector_registry" where
  "start_file_monitor now w reg =
     (let reg' = collector_register reg (collector_status_new now ''file'' ''File Monitor'' ''File collector'');
          paths = filter (fw_exists w) DEFAULT_WATCH_PATHS
      in case watcher_init (fw_init_ok w) (fw_exists w) (fw_mark_ok w) paths of
           Some watched \<Rightarrow> run_event_loop (zip (fw_rounds w) (run_blocking (fw_link w) (fw_reads w))) [] reg'
         | None \<Rightarrow> run_polling_loop (fw_order w) (fw_ulids w) (fw_nows w) (fw_ticks w) reg')"

end
