(* ===== verification/File_Start.thy ===== *)
theory File_Start
  imports File_Monitor "HOL-Library.Sublist" "HOL-Library.List_Lexorder" "HOL-Library.Char_ord"
begin

text \<open>
  Properties of the file collector: what the fanotify mode can report at all, when an alert of mass
  encryption is raised, and what the polling fallback reports.
\<close>

section \<open>Without descriptors\<close>

lemma parse_events_no_paths:
  assumes "list_all (\<lambda>m. fanotify_message m \<and> sint (fm_fd (read_metadata m)) < 0) ms"
  shows "list_all (\<lambda>raw. rf_path raw = []) (parse_events link now (concat ms))"
proof -
  have "list_all fanotify_message ms"
    using assms by (simp add: list_all_iff)
  then have "parse_events link now (concat ms) = concat (map (file_event_of link now \<circ> read_metadata) ms)"
    using fanotify_loop_messages [of ms link now "[]"] by (simp add: parse_events_def)
  then show ?thesis
    using assms by (auto simp: list_all_iff file_event_of_def resolve_path_def Let_def split: if_splits)
qed

lemma run_blocking_no_paths:
  "list_all (list_all (\<lambda>m. fanotify_message m \<and> sint (fm_fd (read_metadata m)) < 0)) batches \<Longrightarrow>
     list_all (\<lambda>raw. rf_path raw = []) (run_blocking link (map (\<lambda>ms. Fan_Data now (concat ms)) batches))"
  by (induction batches) (simp_all add: parse_events_no_paths)

lemma event_loop_no_paths:
  "list_all (\<lambda>raw. rf_path raw = []) raws \<Longrightarrow> run_event_loop (zip qs raws) window reg = ([], reg)"
proof (induction raws arbitrary: qs)
  case (Cons raw raws)
  then show ?case by (cases qs) (simp_all add: skipped_path_def)
qed simp

text \<open>
  The watcher asks for file identifiers instead of descriptors, and then the kernel sends
  FAN_NOFD, a negative descriptor, in every message.  With such messages no file event is ever
  published, whatever happens to the watched files.
\<close>

theorem fanotify_mode_reports_nothing:
  assumes "watcher_init (fw_init_ok w) (fw_exists w) (fw_mark_ok w) (filter (fw_exists w) DEFAULT_WATCH_PATHS) \<noteq> None"
    and "fw_reads w = map (\<lambda>ms. Fan_Data now (concat ms)) batches"
    and "list_all (list_all (\<lambda>m. fanotify_message m \<and> sint (fm_fd (read_metadata m)) < 0)) batches"
  shows "fst (start_file_monitor started w reg) = []"
  using assms event_loop_no_paths [OF run_blocking_no_paths [OF assms(3)]]
  by (auto simp: start_file_monitor_def Let_def)

definition sample_files :: file_env where
  "sample_files = \<lparr> fv_read = (\<lambda>_. Some (map of_nat [0..<256])), fv_sha256 = (\<lambda>_. ''ab''),
     fv_log2 = (\<lambda>x. if x = Fin 1 then Fin 0 else Fin (- 8)),
     fv_duration_ms = 1, fv_joined = True \<rparr>"

definition sample_stamp :: stamp where
  "sample_stamp = \<lparr> st_id = ''01'', st_timestamp = \<lparr> ts_seconds = 5, ts_nanos = 0 \<rparr>, st_ingest = \<lparr> ts_seconds = 5, ts_nanos = 0 \<rparr> \<rparr>"

definition sample_round :: file_round where
  "sample_round = \<lparr> fq_files = sample_files, fq_clock = (\<lambda>n. int n), fq_now = 0, fq_alert_stamp = sample_stamp,
     fq_stamp = sample_stamp, fq_bus_open = True \<rparr>"

definition sample_world :: file_world where
  "sample_world = \<lparr> fw_exists = (\<lambda>p. p = ''/etc''), fw_init_ok = True, fw_mark_ok = (\<lambda>_. True),
     fw_link = (\<lambda>_. Some ''/etc/passwd''), fw_reads = [Fan_Data 5 fid_message], fw_rounds = [sample_round],
     fw_order = (\<lambda>_. []), fw_ulids = (\<lambda>_. []), fw_nows = (\<lambda>_. 0), fw_ticks = [] \<rparr>"

lemma fanotify_mode_reports_nothing_witness:
  "fst (start_file_monitor 0 sample_world Map.empty) = []"
proof -
  have "list_all (list_all (\<lambda>m. fanotify_message m \<and> sint (fm_fd (read_metadata m)) < 0)) [[fid_message]]"
    by (simp add: fid_message_fields)
  then show ?thesis
    by (intro fanotify_mode_reports_nothing [where batches = "[[fid_message]]" and now = 5])
      (simp_all add: sample_world_def watcher_init_def DEFAULT_WATCH_PATHS_def)
qed

section \<open>Alerts of mass encryption\<close>

text \<open>The writes that count, and their records.\<close>

definition is_high_write :: "file_round \<times> raw_file_event \<Rightarrow> bool" where
  "is_high_write = (\<lambda>(q, raw). \<not> skipped_path (rf_path raw) \<and> rf_action raw = FA_CloseWrite
     \<and> f64_lt RANSOMWARE_ENTROPY_THRESHOLD (hr_entropy (round_hash q raw)))"

definition write_record :: "file_round \<times> raw_file_event \<Rightarrow> entropy_record" where
  "write_record = (\<lambda>(q, raw). \<lparr> er_path = rf_path raw, er_entropy = hr_entropy (round_hash q raw),
     er_timestamp = fq_clock q 0 \<rparr>)"

definition high_writes :: "(file_round \<times> raw_file_event) list \<Rightarrow> entropy_record list" where
  "high_writes xs = map write_record (filter is_high_write xs)"

lemma high_write_sensitive: "is_high_write (q, raw) \<Longrightarrow> is_sensitive_path (rf_path raw)"
  by (auto simp: is_high_write_def round_hash_def file_hash_empty_def f64_lt_def split: if_splits)

lemma prune_window_suffix: "suffix (prune_window clk i w) w"
  by (induction clk i w rule: prune_window.induct) (auto intro: suffix_ConsI)

lemma prune_window_hd:
  "prune_window clk i w \<noteq> [] \<Longrightarrow> \<exists>j\<ge>i. elapsed (clk j) (er_timestamp (hd (prune_window clk i w))) \<le> RANSOMWARE_WINDOW"
  by (induction clk i w rule: prune_window.induct) (auto split: if_splits dest: Suc_leD intro: exI)

lemma high_writes_snoc:
  "high_writes (pre @ [x]) = (if is_high_write x then high_writes pre @ [write_record x] else high_writes pre)"
  by (simp add: high_writes_def)

text \<open>An alert is justified by a round of the run that is a high write, and at least three of the last
  high writes up to it; the first of them, which the alert names, is at most ten seconds older.\<close>

definition justified :: "(file_round \<times> raw_file_event) list \<Rightarrow> event \<Rightarrow> bool" where
  "justified xs e \<longleftrightarrow> (\<exists>pre q raw rest w. xs = pre @ (q, raw) # rest \<and> is_high_write (q, raw)
     \<and> suffix w (high_writes (pre @ [(q, raw)])) \<and> 3 \<le> length w
     \<and> e = build_ransomware_alert (fq_alert_stamp q) (map er_path w) (length w)
     \<and> elapsed (fq_clock q 0) (er_timestamp (hd w)) \<le> 10 * nanos_per_sec)"

lemma ransomware_window:
  assumes "suffix window ws" and "ransomware_step clk s path e window = (alert, window')" and "mono clk"
    and "r = \<lparr> er_path = path, er_entropy = e, er_timestamp = clk 0 \<rparr>"
  shows "suffix window' (ws @ [r])"
    and "alert = None \<or> (\<exists>w. suffix w (ws @ [r]) \<and> 3 \<le> length w
      \<and> alert = Some (build_ransomware_alert s (map er_path w) (length w))
      \<and> elapsed (clk 0) (er_timestamp (hd w)) \<le> 10 * nanos_per_sec)"
proof -
  define w where "w = prune_window clk 1 (window @ [r])"
  have suf: "suffix w (ws @ [r])"
    using assms(1) prune_window_suffix [of clk 1 "window @ [r]"]
    by (metis suffix_appendI suffix_order.order_trans same_suffix_suffix w_def)
  have recent: "elapsed (clk 0) (er_timestamp (hd w)) \<le> RANSOMWARE_WINDOW" if nonempty: "w \<noteq> []"
  proof -
    obtain j where "elapsed (clk j) (er_timestamp (hd w)) \<le> RANSOMWARE_WINDOW"
      using prune_window_hd [of clk 1 "window @ [r]"] nonempty by (auto simp: w_def)
    moreover have "clk 0 \<le> clk j"
      using assms(3) by (simp add: monoD)
    ultimately show ?thesis
      using elapsed_mono [of "clk 0" "clk j" "er_timestamp (hd w)"] by linarith
  qed
  have step: "(alert, window') = (if 3 \<le> length w then (Some (build_ransomware_alert s (map er_path w) (length w)), []) else (None, w))"
    using assms(2,4) by (auto simp: ransomware_step_def w_def Let_def split: if_splits)
  then show "suffix window' (ws @ [r])"
    using suf by (auto split: if_splits)
  show "alert = None \<or> (\<exists>w. suffix w (ws @ [r]) \<and> 3 \<le> length w
      \<and> alert = Some (build_ransomware_alert s (map er_path w) (length w))
      \<and> elapsed (clk 0) (er_timestamp (hd w)) \<le> 10 * nanos_per_sec)"
  proof (cases "3 \<le> length w")
    case True
    then have "w \<noteq> []" by auto
    with True step suf recent show ?thesis by auto
  qed (use step in simp)
qed

lemma round_alert_window:
  assumes "\<not> skipped_path (rf_path raw)" and "suffix window (high_writes pre)"
    and "round_alert q raw window = (alert, window')" and "mono (fq_clock q)"
  shows "suffix window' (high_writes (pre @ [(q, raw)]))"
    and "alert = Some a \<Longrightarrow> justified (pre @ (q, raw) # rest) a"
proof -
  have "suffix window' (high_writes (pre @ [(q, raw)])) \<and> (alert = Some a \<longrightarrow> justified (pre @ (q, raw) # rest) a)"
  proof (cases "is_high_write (q, raw)")
    case True
    then have "ransomware_step (fq_clock q) (fq_alert_stamp q) (rf_path raw) (hr_entropy (round_hash q raw)) window
        = (alert, window')"
      using assms(3) by (simp add: round_alert_def is_high_write_def Let_def)
    note w = ransomware_window [OF assms(2) this assms(4) refl]
    have h: "high_writes (pre @ [(q, raw)]) = high_writes pre @ [\<lparr> er_path = rf_path raw,
        er_entropy = hr_entropy (round_hash q raw), er_timestamp = fq_clock q 0 \<rparr>]"
      using True by (simp add: high_writes_snoc write_record_def)
    have "justified (pre @ (q, raw) # rest) a" if a: "alert = Some a"
    proof -
      from w(2) a obtain v where v: "suffix v (high_writes (pre @ [(q, raw)]))" "3 \<le> length v"
        "a = build_ransomware_alert (fq_alert_stamp q) (map er_path v) (length v)"
        "elapsed (fq_clock q 0) (er_timestamp (hd v)) \<le> 10 * nanos_per_sec"
        unfolding h by blast
      show ?thesis
        unfolding justified_def
        by (rule exI [of _ pre], rule exI [of _ q], rule exI [of _ raw], rule exI [of _ rest], rule exI [of _ v])
          (intro conjI refl True v)
    qed
    with w(1) show ?thesis unfolding h by blast
  next
    case False
    then have "(alert, window') = (None, window)"
      using assms(1,3) by (auto simp: round_alert_def is_high_write_def Let_def split: if_splits)
    with False assms(2) show ?thesis by (simp add: high_writes_snoc)
  qed
  then show "suffix window' (high_writes (pre @ [(q, raw)]))"
    and "alert = Some a \<Longrightarrow> justified (pre @ (q, raw) # rest) a" by auto
qed

lemma file_event_no_alert: "ev_type (build_file_event s raw h) \<noteq> ''sentinel.file.ransomware''"
  by (cases "rf_action raw") (simp_all add: build_file_event_def to_lowercase_def char_lower_def)

lemma event_loop_alerts:
  assumes "list_all (\<lambda>(q, raw). mono (fq_clock q)) xs" and "suffix window (high_writes pre)"
    and "e \<in> set (fst (run_event_loop xs window reg))" and "ev_type e = ''sentinel.file.ransomware''"
  shows "justified (pre @ xs) e"
  using assms
proof (induction xs arbitrary: pre window reg)
  case (Cons x xs)
  obtain q raw where x: "x = (q, raw)" by fastforce
  show ?case
  proof (cases "skipped_path (rf_path raw)")
    case True
    then have "high_writes (pre @ [x]) = high_writes pre"
      by (simp add: high_writes_snoc x is_high_write_def)
    with Cons.IH [of window "pre @ [x]" reg] Cons.prems True show ?thesis by (simp add: x)
  next
    case False
    obtain alert window' where a: "round_alert q raw window = (alert, window')" by fastforce
    note w = round_alert_window [OF False Cons.prems(2) a]
    consider "alert = Some e" | r where "e \<in> set (fst (run_event_loop xs window' r))"
      using Cons.prems(3,4) False a file_event_no_alert
      by (auto simp: x Let_def case_prod_beta split: if_splits option.splits)
    then show ?thesis
    proof cases
      case 1
      with w(2) [of e xs] Cons.prems(1) show ?thesis by (simp add: x)
    next
      case 2
      with Cons.IH [of window' "pre @ [x]" r] w(1) Cons.prems show ?thesis by (simp add: x)
    qed
  qed
qed simp

text \<open>
  C31: An alert of mass encryption is justified: it counts at least three of the last close-writes of
  sensitive files whose content had an entropy above 7.5, up to the write that raised it, and names
  the first of them, which is at most ten seconds older.
\<close>

theorem ransomware_alert_justified:
  assumes "list_all (\<lambda>(q, raw). mono (fq_clock q)) xs"
    and "e \<in> set (fst (run_event_loop xs [] reg))" and "ev_type e = ''sentinel.file.ransomware''"
  shows "justified xs e"
  using event_loop_alerts [OF assms(1) _ assms(2,3), of "[]"] by simp

text \<open>Three files of random content.\<close>

definition written :: "string \<Rightarrow> file_round \<times> raw_file_event" where
  "written p = (sample_round, \<lparr> rf_action = FA_CloseWrite, rf_path = p, rf_pid = 7, rf_timestamp_secs = 5 \<rparr>)"

lemma sample_hash: "is_sensitive_path (rf_path raw) \<Longrightarrow> hr_entropy (round_hash sample_round raw) = Fin 8"
  by (simp add: round_hash_def sample_round_def sample_files_def hash_file_def hash_file_sync_def entropy_uniform)

lemma sample_alert_raised:
  "build_ransomware_alert sample_stamp [''/tmp/a'', ''/tmp/b'', ''/tmp/c''] 3
     \<in> set (fst (run_event_loop (map written [''/tmp/a'', ''/tmp/b'', ''/tmp/c'']) [] Map.empty))"
proof -
  have paths: "is_sensitive_path ''/tmp/a''" "is_sensitive_path ''/tmp/b''" "is_sensitive_path ''/tmp/c''"
    "\<not> skipped_path ''/tmp/a''" "\<not> skipped_path ''/tmp/b''" "\<not> skipped_path ''/tmp/c''"
    by code_simp+
  have clk: "fq_clock sample_round n = int n" "fq_alert_stamp sample_round = sample_stamp" "fq_bus_open sample_round" for n
    by (simp_all add: sample_round_def)
  have high: "round_alert sample_round \<lparr> rf_action = FA_CloseWrite, rf_path = p, rf_pid = 7, rf_timestamp_secs = 5 \<rparr> window
      = ransomware_step (fq_clock sample_round) sample_stamp p (Fin 8) window" if "is_sensitive_path p" for p window
    using that by (simp add: round_alert_def sample_hash f64_lt_def clk)
  show ?thesis
    by (simp add: written_def paths high clk ransomware_step_def elapsed_def Let_def) (simp add: numeral_3_eq_3)
qed

lemma ransomware_alert_justified_witness:
  "justified (map written [''/tmp/a'', ''/tmp/b'', ''/tmp/c''])
     (build_ransomware_alert sample_stamp [''/tmp/a'', ''/tmp/b'', ''/tmp/c''] 3)"
  by (rule ransomware_alert_justified [OF _ sample_alert_raised])
    (simp_all add: written_def sample_round_def monoI build_ransomware_alert_def)

text \<open>
  The content of other files is never looked at: as long as no sensitive path is written, no alert
  of mass encryption is raised, however many files are encrypted.
\<close>

theorem encryption_elsewhere_unseen:
  assumes "list_all (\<lambda>(q, raw). mono (fq_clock q) \<and> \<not> is_sensitive_path (rf_path raw)) xs"
    and "e \<in> set (fst (run_event_loop xs [] reg))"
  shows "ev_type e \<noteq> ''sentinel.file.ransomware''"
proof
  assume "ev_type e = ''sentinel.file.ransomware''"
  moreover have "list_all (\<lambda>(q, raw). mono (fq_clock q)) xs"
    using assms(1) by (auto simp: list_all_iff)
  ultimately have "justified xs e"
    using event_loop_alerts [OF _ _ assms(2), of "[]"] by simp
  then show False
    using assms(1) high_write_sensitive by (auto simp: justified_def)
qed

lemma encryption_elsewhere_unseen_witness:
  "ev_type (hd (fst (run_event_loop [written ''/home/u/a''] [] Map.empty))) \<noteq> ''sentinel.file.ransomware''"
proof -
  have p: "\<not> is_sensitive_path ''/home/u/a''" "\<not> skipped_path ''/home/u/a''"
    by code_simp+
  show ?thesis
  proof (rule encryption_elsewhere_unseen)
    show "list_all (\<lambda>(q, raw). mono (fq_clock q) \<and> \<not> is_sensitive_path (rf_path raw)) [written ''/home/u/a'']"
      by (simp add: written_def sample_round_def monoI p)
    show "hd (fst (run_event_loop [written ''/home/u/a''] [] Map.empty)) \<in> set (fst (run_event_loop [written ''/home/u/a''] [] Map.empty))"
      by (rule hd_in_set) (simp add: written_def p case_prod_beta Let_def)
  qed
qed

section \<open>Polling\<close>

text \<open>The files of a listing, and a view of a directory that does not change during the scan.\<close>

definition listed_files :: "(string \<times> file_meta option) list \<Rightarrow> known_files" where
  "listed_files es = map_of (List.map_filter (\<lambda>(p, m). case m of
     Some meta \<Rightarrow> if mt_is_file meta then Some (p, mtime_secs meta, mt_len meta) else None | None \<Rightarrow> None) es)"

definition settled_view :: "(string \<times> file_meta option) list \<Rightarrow> dir_view" where
  "settled_view es = \<lparr> dv_entries = Some es, dv_again = Some (map (\<lambda>(p, m). (p, case m of Some meta \<Rightarrow> mt_is_file meta | None \<Rightarrow> False)) es) \<rparr>"

lemma listed_files_Nil: "listed_files [] = Map.empty"
  by (simp add: listed_files_def map_filter_simps)

lemma listed_files_Cons: "listed_files ((p, m) # es) = (case m of
     Some meta \<Rightarrow> if mt_is_file meta then (listed_files es)(p \<mapsto> (mtime_secs meta, mt_len meta)) else listed_files es
   | None \<Rightarrow> listed_files es)"
  by (simp add: listed_files_def map_filter_simps split: option.splits)

lemma listed_files_dom: "listed_files es p = Some x \<Longrightarrow> p \<in> fst ` set es"
  by (induction es) (auto simp: listed_files_Nil listed_files_Cons split: option.splits if_splits)

lemma current_paths_settled: "current_paths (settled_view es) = dom (listed_files es)"
  unfolding current_paths_def settled_view_def
  by (induction es) (auto simp: listed_files_Nil listed_files_Cons split: option.splits if_splits)

lemma dv_entries_settled: "dv_entries (settled_view es) = Some es"
  by (simp add: settled_view_def)

text \<open>The differences between what is known and what is listed.\<close>

definition scan_diff :: "known_files \<Rightarrow> known_files \<Rightarrow> scan_finding set" where
  "scan_diff known listed = {(p, sz, a). \<exists>t. listed p = Some (t, sz) \<and>
     (known p = None \<and> a = 1 \<or> (\<exists>prev. known p = Some prev \<and> prev \<noteq> (t, sz) \<and> a = 2))}"

lemma scan_entries_diff:
  "distinct (map fst es) \<Longrightarrow> snd (scan_entries es known) = known ++ listed_files es
     \<and> set (fst (scan_entries es known)) = scan_diff known (listed_files es)"
proof (induction es arbitrary: known)
  case Nil
  show ?case by (simp add: listed_files_Nil scan_diff_def)
next
  case (Cons e es)
  obtain p m where e: "e = (p, m)" by fastforce
  have fresh: "listed_files es p = None"
    using Cons.prems listed_files_dom [of es p] by (cases "listed_files es p") (auto simp: e)
  have "scan_diff (known(p \<mapsto> x)) (listed_files es) = scan_diff known (listed_files es)" for x
    using fresh by (auto simp: scan_diff_def split: if_splits)
  moreover have "known(p \<mapsto> x) ++ listed_files es = known ++ (listed_files es)(p \<mapsto> x)" for x
    using fresh by (auto simp: map_add_def fun_eq_iff split: option.splits)
  ultimately show ?case
    using Cons fresh by (auto simp: e listed_files_Cons scan_diff_def case_prod_beta Let_def map_add_def fun_eq_iff split: option.splits if_splits)
qed

lemma scan_dir_settled:
  assumes "distinct (map fst es)" and "set (order (dom known - dom (listed_files es))) = dom known - dom (listed_files es)"
  shows "snd (scan_dir order (settled_view es) known) = listed_files es"
    and "set (fst (scan_dir order (settled_view es) known)) = scan_diff known (listed_files es)
      \<union> {(p, 0, 3) | p. p \<in> dom known - dom (listed_files es)}"
proof -
  obtain fs k where es: "scan_entries es known = (fs, k)" by fastforce
  with scan_entries_diff [OF assms(1), of known]
  have k: "k = known ++ listed_files es" and fs: "set fs = scan_diff known (listed_files es)" by simp_all
  have gone: "dom k - dom (listed_files es) = dom known - dom (listed_files es)" by (auto simp: k)
  have scan: "scan_dir order (settled_view es) known = (fs @ map (\<lambda>p. (p, 0, 3)) (order (dom known - dom (listed_files es))),
      k |` (- set (order (dom known - dom (listed_files es)))))"
    by (simp add: scan_dir_def es current_paths_settled gone Let_def dv_entries_settled)
  show "snd (scan_dir order (settled_view es) known) = listed_files es"
    by (rule ext) (simp add: scan assms(2) k restrict_map_def map_add_def domIff del: not_None_eq split: option.splits)
  show "set (fst (scan_dir order (settled_view es) known)) = scan_diff known (listed_files es)
      \<union> {(p, 0, 3) | p. p \<in> dom known - dom (listed_files es)}"
    by (auto simp: scan fs assms(2))
qed

text \<open>
  C13: One scan of a directory reports exactly what has changed since the last: the files that have
  appeared, those whose time or size differs, and those that are gone; and it then knows exactly the
  files of this directory.
\<close>

theorem scan_reports_the_difference:
  assumes "distinct (map fst es)" and "\<forall>S. finite S \<longrightarrow> set (order S) = S" and "finite (dom known)"
  shows "set (fst (scan_dir order (settled_view es) known)) = {(p, sz, 1) | p t sz. listed_files es p = Some (t, sz) \<and> known p = None}
      \<union> {(p, sz, 2) | p t sz prev. listed_files es p = Some (t, sz) \<and> known p = Some prev \<and> prev \<noteq> (t, sz)}
      \<union> {(p, 0, 3) | p. known p \<noteq> None \<and> listed_files es p = None}
    \<and> snd (scan_dir order (settled_view es) known) = listed_files es"
proof -
  have order: "set (order (dom known - dom (listed_files es))) = dom known - dom (listed_files es)"
    using assms(2,3) by simp
  have diff: "scan_diff known (listed_files es) = {(p, sz, 1) | p t sz. listed_files es p = Some (t, sz) \<and> known p = None}
      \<union> {(p, sz, 2) | p t sz prev. listed_files es p = Some (t, sz) \<and> known p = Some prev \<and> prev \<noteq> (t, sz)}"
    by (auto simp: scan_diff_def)
  have gone: "{(p, 0, 3) | p. p \<in> dom known - dom (listed_files es)} = {(p, 0, 3) | p. known p \<noteq> None \<and> listed_files es p = None}"
    by (auto simp only: Diff_iff domIff not_not)
  show ?thesis
    unfolding scan_dir_settled [of es order known, OF assms(1) order] diff gone by simp
qed

definition sample_meta :: file_meta where
  "sample_meta = \<lparr> mt_is_file = True, mt_modified = Some 7000000000, mt_len = 12 \<rparr>"

lemma sample_listed: "listed_files [(p, Some sample_meta)] = [p \<mapsto> (7, 12)]"
  by (simp add: listed_files_Cons listed_files_Nil sample_meta_def mtime_secs_def)

lemma scan_reports_the_difference_witness:
  "(''/etc/a'', 12, 1) \<in> set (fst (scan_dir sorted_list_of_set (settled_view [(''/etc/a'', Some sample_meta)]) [''/etc/b'' \<mapsto> (1, 1)]))"
  using scan_reports_the_difference [of "[(''/etc/a'', Some sample_meta)]" sorted_list_of_set "[''/etc/b'' \<mapsto> (1, 1)]"]  by (simp add: sample_listed)

text \<open>
  The directories share one map of known files, so each scan takes the files of the others for
  deleted.  With two directories whose files never change, every round reports every file once as
  created and once as deleted.
\<close>

theorem unchanged_files_reported_every_round:
  assumes "distinct (map fst a)" and "distinct (map fst b)" and "dom (listed_files a) \<inter> dom (listed_files b) = {}"
    and "\<forall>S. finite S \<longrightarrow> set (order S) = S"
    and "poll_tick order [Some (settled_view a), Some (settled_view b)] (listed_files b) = (fs, known)"
  shows "known = listed_files b \<and> set fs = {(p, sz, 1) | p t sz. (listed_files a ++ listed_files b) p = Some (t, sz)}
      \<union> {(p, 0, 3) | p. (listed_files a ++ listed_files b) p \<noteq> None}"
proof -
  let ?A = "listed_files a" and ?B = "listed_files b"
  have fin: "finite (dom (listed_files es))" for es
    by (simp add: listed_files_def finite_dom_map_of)
  have dis: "dom ?B - dom ?A = dom ?B" "dom ?A - dom ?B = dom ?A"
    using assms(3) by auto
  note sa = scan_dir_settled [OF assms(1), of order ?B] and sb = scan_dir_settled [OF assms(2), of order ?A]
  have new: "scan_diff k l = {(p, sz, 1) | p t sz. l p = Some (t, sz)}" if "dom k \<inter> dom l = {}" for k l
    using that by (force simp: scan_diff_def domIff)
  have tick: "fs = fst (scan_dir order (settled_view a) ?B) @ fst (scan_dir order (settled_view b) ?A)"
    "known = snd (scan_dir order (settled_view b) ?A)"
    using assms(5) sa(1) assms(4) fin by (auto simp: case_prod_beta prod_eq_iff)
  have "known = ?B \<and> set fs = ({(p, sz, 1) | p t sz. ?A p = Some (t, sz)} \<union> {(p, 0, 3) | p. p \<in> dom ?B})
      \<union> ({(p, sz, 1) | p t sz. ?B p = Some (t, sz)} \<union> {(p, 0, 3) | p. p \<in> dom ?A})"
    using assms(3,4) fin by (simp add: tick sa sb dis new Int_commute)
  moreover have "(?A ++ ?B) p = Some x \<longleftrightarrow> ?A p = Some x \<or> ?B p = Some x" for p x
    using assms(3) by (auto simp: map_add_def split: option.splits)
  ultimately show ?thesis by (auto simp: domIff)
qed

lemma unchanged_files_reported_every_round_witness:
  "(''/etc/a'', 0, 3) \<in> set (fst (poll_tick sorted_list_of_set
     [Some (settled_view [(''/etc/a'', Some sample_meta)]), Some (settled_view [(''/tmp/b'', Some sample_meta)])] [''/tmp/b'' \<mapsto> (7, 12)]))"
  using unchanged_files_reported_every_round [of "[(''/etc/a'', Some sample_meta)]" "[(''/tmp/b'', Some sample_meta)]" sorted_list_of_set]
      by (auto simp: sample_listed prod_eq_iff)

end
