(* ===== verification/Usb.thy ===== *)
theory Usb
  imports Net_Events "HOL-Library.List_Lexorder" "HOL-Library.Char_ord"
begin

text \<open>
  The USB collector (collectors/src/usb/mod.rs): the devices of a scan of sysfs, the events, and the
  polling loop, whose result is the events it hands to the bus.
\<close>

section \<open>Devices\<close>

record usb_device =
  ud_vendor_id :: string
  ud_product_id :: string
  ud_serial :: string
  ud_product_name :: string

text \<open>An entry of the directory: its name and its attribute files.\<close>

type_synonym sysfs_entry = "string \<times> (string \<Rightarrow> string option)"

definition read_sysfs_attr :: "(string \<Rightarrow> string option) \<Rightarrow> string \<Rightarrow> string" where
  "read_sysfs_attr attrs a = (case attrs a of None \<Rightarrow> [] | Some s \<Rightarrow> str_trim s)"

definition skipped_entry :: "string \<Rightarrow> bool" where
  "skipped_entry name \<longleftrightarrow> CHR ''-'' \<in> set name \<or> CHR '':'' \<in> set name"

definition usb_device_of :: "(string \<Rightarrow> string option) \<Rightarrow> usb_device" where
  "usb_device_of attrs = \<lparr> ud_vendor_id = read_sysfs_attr attrs ''idVendor'',
     ud_product_id = read_sysfs_attr attrs ''idProduct'', ud_serial = read_sysfs_attr attrs ''serial'',
     ud_product_name = read_sysfs_attr attrs ''product'' \<rparr>"

text \<open>\<open>None\<close> is a directory that is missing or cannot be read.\<close>

definition scan_usb_devices :: "sysfs_entry list option \<Rightarrow> usb_device list" where
  "scan_usb_devices listing = (case listing of None \<Rightarrow> []
     | Some es \<Rightarrow> filter (\<lambda>d. ud_vendor_id d \<noteq> [])
         (map (\<lambda>(name, attrs). usb_device_of attrs) (filter (\<lambda>(name, attrs). \<not> skipped_entry name) es)))"

definition device_key :: "usb_device \<Rightarrow> string" where
  "device_key d = ud_vendor_id d @ '':'' @ ud_product_id d @ '':'' @ ud_serial d"

text \<open>The device a key is taken apart into: \<open>splitn(3, ':')\<close>, with question marks for what is missing.\<close>

definition device_of_key :: "string \<Rightarrow> usb_device" where
  "device_of_key key = (case find_char (\<lambda>c. c = CHR '':'') key of
       None \<Rightarrow> \<lparr> ud_vendor_id = key, ud_product_id = ''?'', ud_serial = [], ud_product_name = [] \<rparr>
     | Some i \<Rightarrow> (let rest = drop (Suc i) key in case find_char (\<lambda>c. c = CHR '':'') rest of
           None \<Rightarrow> \<lparr> ud_vendor_id = take i key, ud_product_id = rest, ud_serial = [], ud_product_name = [] \<rparr>
         | Some j \<Rightarrow> \<lparr> ud_vendor_id = take i key, ud_product_id = take j rest, ud_serial = drop (Suc j) rest,
             ud_product_name = [] \<rparr>))"

section \<open>Events\<close>

datatype usb_action = DeviceConnect | DeviceDisconnect

fun usb_type :: "usb_action \<Rightarrow> string" where
  "usb_type DeviceConnect = ''sentinel.usb.connect''"
| "usb_type DeviceDisconnect = ''sentinel.usb.disconnect''"

fun usb_action_code :: "usb_action \<Rightarrow> i32" where
  "usb_action_code DeviceConnect = 1"
| "usb_action_code DeviceDisconnect = 2"

definition device_to_event :: "stamp \<Rightarrow> usb_device \<Rightarrow> usb_action \<Rightarrow> event" where
  "device_to_event s d action = event_default \<lparr> ev_id := st_id s, ev_type := usb_type action, ev_source := ''usb'',
     ev_timestamp := Some (st_timestamp s), ev_ingest_timestamp := Some (st_ingest s),
     ev_severity := severity_i32 Notice, ev_risk_score := (if action = DeviceConnect then 15 else 5),
     ev_host_id := [], ev_schema_version := 1,
     ev_payload := Some (UsbPayload (usb_event_default \<lparr> ue_action := usb_action_code action,
       ue_device_id := device_key d, ue_vendor_id := ud_vendor_id d, ue_product_id := ud_product_id d,
       ue_serial_number := ud_serial d, ue_manufacturer := [], ue_product := ud_product_name d \<rparr>)),
     ev_tags := [''usb'', ''removable_media''] \<rparr>"

section \<open>The loop\<close>

text \<open>A tick over the known keys: the new devices in the order of the scan, then the keys that are
  gone, in the order in which the set yields them.\<close>

type_synonym usb_finding = "usb_action \<times> usb_device"

definition usb_tick ::
    "(string set \<Rightarrow> string list) \<Rightarrow> string set \<Rightarrow> usb_device list \<Rightarrow> usb_finding list" where
  "usb_tick order known devices =
     map (Pair DeviceConnect) (filter (\<lambda>d. device_key d \<notin> known) devices)
     @ map (\<lambda>k. (DeviceDisconnect, device_of_key k)) (order (known - device_key ` set devices))"

fun usb_ticks :: "(string set \<Rightarrow> string list) \<Rightarrow> string set \<Rightarrow> sysfs_entry list option list \<Rightarrow> usb_finding list" where
  "usb_ticks order known [] = []"
| "usb_ticks order known (listing # ls) = (let devices = scan_usb_devices listing in
     usb_tick order known devices @ usb_ticks order (device_key ` set devices) ls)"

text \<open>\<open>start_usb_monitor\<close>: no device is known at first; every event is counted.\<close>

definition start_usb_monitor ::
    "datetime \<Rightarrow> (string set \<Rightarrow> string list) \<Rightarrow> (nat \<Rightarrow> stamp) \<Rightarrow> (nat \<Rightarrow> datetime) \<Rightarrow> sysfs_entry list option list \<Rightarrow>
     collector_registry \<Rightarrow> event list \<times> collector_registry" where
  "start_usb_monitor now order stamps nows listings reg =
     (let fs = usb_ticks order {} listings;
          reg' = collector_register reg (collector_status_new now ''usb'' ''Usb Monitor'' ''Usb collector'')
      in (map (\<lambda>(i, action, d). device_to_event (stamps i) d action) (enumerate 0 fs),
          foldl (\<lambda>r i. collector_increment_events (nows i) ''usb'' 1 r) reg' [0..<length fs]))"

section \<open>Keys\<close>

abbreviation colon :: "char \<Rightarrow> bool" where "colon \<equiv> (\<lambda>c. c = CHR '':'')"

lemma find_colon_append: "CHR '':'' \<notin> set w \<Longrightarrow> find_char colon (w @ CHR '':'' # s) = Some (length w)"
  by (induction w) auto

lemma find_char_SomeD:
  "find_char P s = Some i \<Longrightarrow> i < length s \<and> P (s ! i) \<and> filter P (take i s) = [] \<and> s = take i s @ s ! i # drop (Suc i) s"
  by (induction s arbitrary: i) (auto split: if_splits)

lemma find_char_NoneD: "find_char P s = None \<Longrightarrow> filter P s = []"
  by (induction s) (auto split: if_splits)

text \<open>A key names its device: vendor and product are hexadecimal numbers, without a colon.\<close>

lemma device_of_key_key:
  assumes "CHR '':'' \<notin> set (ud_vendor_id d)" and "CHR '':'' \<notin> set (ud_product_id d)"
  shows "device_of_key (device_key d) = d\<lparr> ud_product_name := [] \<rparr>"
proof -
  have "find_char colon (device_key d) = Some (length (ud_vendor_id d))"
    using find_colon_append [OF assms(1)] by (simp add: device_key_def)
  moreover have "drop (Suc (length (ud_vendor_id d))) (device_key d) = ud_product_id d @ '':'' @ ud_serial d"
    by (simp add: device_key_def)
  moreover have "find_char colon (ud_product_id d @ '':'' @ ud_serial d) = Some (length (ud_product_id d))"
    using find_colon_append [OF assms(2)] by simp
  ultimately show ?thesis
    by (simp add: device_of_key_def Let_def) (simp add: device_key_def)
qed

text \<open>Taking the key of a device apart keeps the key, whatever it holds.\<close>

lemma key_of_device_of_key: "device_key (device_of_key (device_key d)) = device_key d"
proof -
  have two: "2 \<le> length (filter colon (device_key d))"
    by (simp add: device_key_def)
  then obtain i where i: "find_char colon (device_key d) = Some i"
    using find_char_NoneD [of colon "device_key d"] by (cases "find_char colon (device_key d)") auto
  note si = find_char_SomeD [OF i]
  have "filter colon (device_key d) = CHR '':'' # filter colon (drop (Suc i) (device_key d))"
    using si by (metis (mono_tags, lifting) append_Nil filter.simps(2) filter_append)
  with two obtain j where j: "find_char colon (drop (Suc i) (device_key d)) = Some j"
    using find_char_NoneD [of colon "drop (Suc i) (device_key d)"]
    by (cases "find_char colon (drop (Suc i) (device_key d))") auto
  have "device_key (device_of_key (device_key d)) = take i (device_key d) @ CHR '':'' #
      take j (drop (Suc i) (device_key d)) @ CHR '':'' # drop (Suc j) (drop (Suc i) (device_key d))"
    by (subst device_key_def) (simp add: device_of_key_def i j Let_def)
  also have "\<dots> = device_key d"
    using si find_char_SomeD [OF j] by (metis (no_types))
  finally show ?thesis .
qed

section \<open>Which devices are seen\<close>

text \<open>
  Devices behind a port do not count.  Their directories have names such as 1-1, and the scan
  skips every name with a dash: with these entries removed from each listing the collector publishes
  the same events, so no plugged-in device is ever reported, only root hubs are.
\<close>

theorem plugged_devices_ignored:
  "start_usb_monitor now order stamps nows (map (map_option (filter (\<lambda>(name, attrs). CHR ''-'' \<notin> set name))) listings) reg
     = start_usb_monitor now order stamps nows listings reg"
proof -
  have scan: "scan_usb_devices (map_option (filter (\<lambda>(name, attrs). CHR ''-'' \<notin> set name)) l) = scan_usb_devices l" for l
    by (cases l) (auto simp: scan_usb_devices_def skipped_entry_def split_def intro!: arg_cong [where f = "filter _"] arg_cong [where f = "map _"] filter_cong)
  have "usb_ticks order known (map (map_option (filter (\<lambda>(name, attrs). CHR ''-'' \<notin> set name))) listings)
      = usb_ticks order known listings" for known
    by (induction listings arbitrary: known) (simp_all add: scan)
  then show ?thesis by (simp add: start_usb_monitor_def)
qed

section \<open>Connections and disconnections alternate\<close>

text \<open>What is said of one key.\<close>

definition key_findings :: "string \<Rightarrow> usb_finding list \<Rightarrow> usb_action list" where
  "key_findings k fs = map fst (filter (\<lambda>(a, d). device_key d = k) fs)"

fun in_turns :: "bool \<Rightarrow> usb_action list \<Rightarrow> bool" where
  "in_turns present [] \<longleftrightarrow> True"
| "in_turns present (a # as) \<longleftrightarrow> a = (if present then DeviceDisconnect else DeviceConnect) \<and> in_turns (\<not> present) as"

text \<open>The known keys are keys of devices.\<close>

definition device_keys :: "string set \<Rightarrow> bool" where
  "device_keys known \<longleftrightarrow> finite known \<and> known \<subseteq> range device_key"

lemma filter_key: "distinct (map f xs) \<Longrightarrow> map f (filter (\<lambda>x. f x = k) xs) = (if k \<in> f ` set xs then [k] else [])"
  by (induction xs) (auto simp: filter_empty_conv)

text \<open>How many devices of a scan have the key.\<close>

definition key_count :: "string \<Rightarrow> usb_device list \<Rightarrow> nat" where
  "key_count k devices = length (filter (\<lambda>d. device_key d = k) devices)"

lemma key_count_pos: "0 < key_count k devices \<longleftrightarrow> k \<in> device_key ` set devices"
  by (auto simp: key_count_def filter_empty_conv)

lemma key_findings_tick:
  assumes "device_keys known" and "set (order (known - device_key ` set devices)) = known - device_key ` set devices"
    and "distinct (order (known - device_key ` set devices))"
  shows "key_findings k (usb_tick order known devices) =
    (if k \<in> known then (if key_count k devices = 0 then [DeviceDisconnect] else [])
     else replicate (key_count k devices) DeviceConnect)"
proof -
  let ?gone = "order (known - device_key ` set devices)"
  have same: "device_key (device_of_key k') = k'" if "k' \<in> set ?gone" for k'
    using that assms(1,2) key_of_device_of_key by (auto simp: device_keys_def)
  have "filter (\<lambda>k'. device_key (device_of_key k') = k) ?gone = filter (\<lambda>k'. k' = k) ?gone"
    by (rule filter_cong) (simp_all add: same)
  also have "\<dots> = (if k \<in> known \<and> k \<notin> device_key ` set devices then [k] else [])"
    using assms(2,3) filter_key [of id ?gone k] by simp
  finally have gone: "key_findings k (map (\<lambda>k. (DeviceDisconnect, device_of_key k)) ?gone)
      = (if k \<in> known \<and> k \<notin> device_key ` set devices then [DeviceDisconnect] else [])"
    by (simp add: key_findings_def filter_map comp_def)
  have "key_findings k (map (Pair DeviceConnect) (filter (\<lambda>d. device_key d \<notin> known) devices))
      = (if k \<in> known then [] else replicate (key_count k devices) DeviceConnect)"
    by (induction devices) (auto simp: key_findings_def key_count_def)
  with gone key_count_pos [of k devices] show ?thesis
    by (auto simp: usb_tick_def key_findings_def key_count_def)
qed

text \<open>The events of a key, from how often each scan shows it: as many connections as there are devices when it
  appears, one disconnection when the last is gone.\<close>

fun key_history :: "bool \<Rightarrow> nat list \<Rightarrow> usb_action list" where
  "key_history present [] = []"
| "key_history present (n # ns) = (if present then if n = 0 then [DeviceDisconnect] else []
     else replicate n DeviceConnect) @ key_history (0 < n) ns"

lemma usb_ticks_history:
  assumes "\<forall>S. finite S \<longrightarrow> set (order S) = S \<and> distinct (order S)" and "device_keys known"
  shows "key_findings k (usb_ticks order known listings)
    = key_history (k \<in> known) (map (key_count k \<circ> scan_usb_devices) listings)"
  using assms(2)
proof (induction listings arbitrary: known)
  case (Cons l ls)
  let ?ds = "scan_usb_devices l"
  have keys: "device_keys (device_key ` set ?ds)"
    by (auto simp: device_keys_def)
  have fin: "finite (known - device_key ` set ?ds)"
    using Cons.prems by (simp add: device_keys_def)
  have "key_findings k (usb_ticks order known (l # ls)) = key_findings k (usb_tick order known ?ds)
      @ key_findings k (usb_ticks order (device_key ` set ?ds) ls)"
    by (simp add: key_findings_def Let_def)
  then show ?case
    using Cons.IH [OF keys] key_count_pos [of k ?ds] key_findings_tick [OF Cons.prems] assms(1) fin by simp
qed (simp add: key_findings_def)

lemma key_history_start: "key_history present ns = [] \<or> hd (key_history present ns) = (if present then DeviceDisconnect else DeviceConnect)"
  by (induction present ns rule: key_history.induct) auto

lemma remdups_adj_block:
  "xs = [] \<or> hd xs \<noteq> a \<Longrightarrow> remdups_adj (replicate (Suc n) a @ xs) = a # remdups_adj xs"
  by (induction n) (cases xs; auto)+

lemma key_history_turns: "in_turns present (remdups_adj (key_history present ns))"
proof (induction present ns rule: key_history.induct)
  case (2 present n ns)
  note start = key_history_start [of "0 < n" ns]
  show ?case
  proof (cases n)
    case 0
    with 2 start remdups_adj_block [of "key_history False ns" DeviceDisconnect 0] show ?thesis by (cases present) auto
  next
    case (Suc k)
    with 2 start remdups_adj_block [of "key_history True ns" DeviceConnect k] show ?thesis
      by (cases present) (auto simp del: replicate.simps)
  qed
qed simp

lemma key_history_single: "list_all (\<lambda>n. n \<le> 1) ns \<Longrightarrow> in_turns present (key_history present ns)"
  by (induction present ns rule: key_history.induct) (auto simp: le_Suc_eq)

lemma key_count_distinct: "distinct (map device_key ds) \<Longrightarrow> key_count k ds \<le> 1"
proof -
  assume "distinct (map device_key ds)"
  then have "length (map device_key (filter (\<lambda>d. device_key d = k) ds)) \<le> 1"
    by (simp only: filter_key) simp
  then show ?thesis by (simp add: key_count_def)
qed

text \<open>
  C18: The events of a run for any device key are determined by how many devices each scan shows with that key: when
  it appears there is one connection for each of them, and when the last of them is gone there is one
  disconnection.  So with repeated connections counted once, connections and disconnections alternate,
  beginning with a connection; and they alternate as they are if no scan shows two devices with one key.
  The order in which the set of known keys is gone through is any.
\<close>

theorem usb_connections_alternate:
  assumes "\<forall>S. finite S \<longrightarrow> set (order S) = S \<and> distinct (order S)"
  shows "key_findings k (usb_ticks order {} listings) = key_history False (map (key_count k \<circ> scan_usb_devices) listings)
    \<and> in_turns False (remdups_adj (key_findings k (usb_ticks order {} listings)))
    \<and> (list_all (\<lambda>l. distinct (map device_key (scan_usb_devices l))) listings \<longrightarrow>
        in_turns False (key_findings k (usb_ticks order {} listings)))"
proof -
  have history: "key_findings k (usb_ticks order {} listings) = key_history False (map (key_count k \<circ> scan_usb_devices) listings)"
    using usb_ticks_history [OF assms, of "{}" k] by (simp add: device_keys_def)
  have "list_all (\<lambda>n. n \<le> 1) (map (key_count k \<circ> scan_usb_devices) listings)"
    if "list_all (\<lambda>l. distinct (map device_key (scan_usb_devices l))) listings"
    using that key_count_distinct by (simp add: list_all_iff)
  then show ?thesis
    unfolding history using key_history_turns key_history_single by blast
qed

text \<open>Two hubs of one kind without serial numbers, then none.\<close>

lemma usb_connections_alternate_witness:
  "key_findings ''1d6b:0002:'' (usb_ticks sorted_list_of_set {}
     [Some [(''usb1'', [''idVendor'' \<mapsto> ''1d6b'', ''idProduct'' \<mapsto> ''0002'']), (''usb2'', [''idVendor'' \<mapsto> ''1d6b'', ''idProduct'' \<mapsto> ''0002''])],
      None]) = [DeviceConnect, DeviceConnect, DeviceDisconnect]"
proof -
  have "\<forall>S. finite S \<longrightarrow> set (sorted_list_of_set S) = S \<and> distinct (sorted_list_of_set (S :: string set))" by simp
  from usb_connections_alternate [OF this, of "''1d6b:0002:''"
      "[Some [(''usb1'', [''idVendor'' \<mapsto> ''1d6b'', ''idProduct'' \<mapsto> ''0002'']), (''usb2'', [''idVendor'' \<mapsto> ''1d6b'', ''idProduct'' \<mapsto> ''0002''])], None]"]
  have h: "key_findings ''1d6b:0002:'' (usb_ticks sorted_list_of_set {}
     [Some [(''usb1'', [''idVendor'' \<mapsto> ''1d6b'', ''idProduct'' \<mapsto> ''0002'']), (''usb2'', [''idVendor'' \<mapsto> ''1d6b'', ''idProduct'' \<mapsto> ''0002''])], None])
    = key_history False (map (key_count ''1d6b:0002:'' \<circ> scan_usb_devices)
       [Some [(''usb1'', [''idVendor'' \<mapsto> ''1d6b'', ''idProduct'' \<mapsto> ''0002'']), (''usb2'', [''idVendor'' \<mapsto> ''1d6b'', ''idProduct'' \<mapsto> ''0002''])], None])"
    by blast
  have "map (key_count ''1d6b:0002:'' \<circ> scan_usb_devices)
       [Some [(''usb1'', [''idVendor'' \<mapsto> ''1d6b'', ''idProduct'' \<mapsto> ''0002'']), (''usb2'', [''idVendor'' \<mapsto> ''1d6b'', ''idProduct'' \<mapsto> ''0002''])], None] = [2, 0]"
    by code_simp
  with h show ?thesis by (simp add: numeral_2_eq_2)
qed

text \<open>Two devices with one key count as one: the second is not missed when it is removed.\<close>

lemma usb_twins:
  "device_key a = device_key b \<Longrightarrow> usb_tick order {device_key a} [a] = usb_tick order {device_key a} [a, b]"
  by (simp add: usb_tick_def)

end
