(* ===== verification/Std_Path.thy ===== *)
theory Std_Path
  imports Sentinel_Prelude
begin

text \<open>
  The parts of the standard library's paths that the collectors use, on Unix: a path is its string,
  separated by slashes.  And the loop they share: what is new to a set is reported and inserted.
\<close>

section \<open>Joining and taking apart\<close>

text \<open>\<open>Path::join\<close>: an absolute path replaces the base.\<close>

definition path_join :: "string \<Rightarrow> string \<Rightarrow> string" where
  "path_join base p = (if starts_with p ''/'' then p
     else if base = [] \<or> ends_with base ''/'' then base @ p else base @ ''/'' @ p)"

text \<open>\<open>Path::file_name\<close>: the last component, if it is a name; repeated and trailing slashes and inner
  dots are no components.\<close>

definition path_components :: "string \<Rightarrow> string list" where
  "path_components p = filter (\<lambda>c. c \<noteq> [] \<and> c \<noteq> ''.'') (str_split (\<lambda>c. c = CHR ''/'') p)"

definition path_file_name :: "string \<Rightarrow> string option" where
  "path_file_name p = (case rev (path_components p) of [] \<Rightarrow> None | c # _ \<Rightarrow> if c = ''..'' then None else Some c)"

text \<open>\<open>extension\<close> and \<open>file_stem\<close> split the name at its last dot, unless that is its first character.\<close>

definition split_name :: "string \<Rightarrow> string \<times> string option" where
  "split_name name = (case rfind_char (\<lambda>c. c = CHR ''.'') name of None \<Rightarrow> (name, None)
     | Some i \<Rightarrow> if i = 0 then (name, None) else (take i name, Some (drop (Suc i) name)))"

definition path_ext :: "string \<Rightarrow> string option" where
  "path_ext p = Option.bind (path_file_name p) (\<lambda>n. snd (split_name n))"

definition path_stem :: "string \<Rightarrow> string option" where
  "path_stem p = map_option (\<lambda>n. fst (split_name n)) (path_file_name p)"

definition or_empty :: "string option \<Rightarrow> string" where
  "or_empty x = (case x of None \<Rightarrow> [] | Some s \<Rightarrow> s)"

section \<open>A name in a directory\<close>

text \<open>The names of directory entries.\<close>

definition entry_name :: "string \<Rightarrow> bool" where
  "entry_name n \<longleftrightarrow> n \<noteq> [] \<and> n \<noteq> ''.'' \<and> n \<noteq> ''..'' \<and> CHR ''/'' \<notin> set n"

lemma str_split_last:
  "(\<And>c. c \<in> set w \<Longrightarrow> \<not> P c) \<Longrightarrow> P d \<Longrightarrow> str_split P (s @ d # w) = str_split P s @ [w]"
proof (induction s)
  case Nil
  then show ?case by (simp add: str_split_single)
next
  case (Cons c s)
  then show ?case by (auto split: list.splits simp: append_eq_Cons_conv)
qed

lemma file_name_join:
  assumes "entry_name n"
  shows "path_file_name (path_join d n) = Some n"
proof -
  have n: "\<not> starts_with n ''/''" "\<And>c. c \<in> set n \<Longrightarrow> \<not> c = CHR ''/''" "n \<noteq> []" "n \<noteq> ''.''" "n \<noteq> ''..''"
    using assms by (auto simp: entry_name_def starts_with_iff)
  have one: "path_components (s @ CHR ''/'' # n) = path_components s @ [n]" for s
    using n by (simp add: path_components_def str_split_last)
  consider "d = []" | s where "d = s @ ''/''" | "d \<noteq> []" "\<not> ends_with d ''/''"
    by (metis append_take_drop_id ends_with_def)
  then show ?thesis
  proof cases
    case 1
    then show ?thesis
      using n by (simp add: path_join_def path_file_name_def path_components_def str_split_single)
  next
    case (2 s)
    then show ?thesis
      using n one [of s] by (simp add: path_join_def path_file_name_def)
  next
    case 3
    then show ?thesis
      using n one [of d] by (simp add: path_join_def path_file_name_def)
  qed
qed

section \<open>New elements\<close>

text \<open>\<open>HashSet::insert\<close> in a loop: the elements it was true for, and the set.\<close>

fun insert_new :: "'a list \<Rightarrow> 'a set \<Rightarrow> 'a list \<times> 'a set" where
  "insert_new [] known = ([], known)"
| "insert_new (x # xs) known = (if x \<in> known then insert_new xs known
     else case insert_new xs (insert x known) of (new, k) \<Rightarrow> (x # new, k))"

lemma insert_new_exact:
  "insert_new xs known = (new, k) \<Longrightarrow> k = known \<union> set xs \<and> distinct new \<and> set new = set xs - known"
proof (induction xs arbitrary: known new k)
  case (Cons x xs)
  show ?case
  proof (cases "x \<in> known")
    case True
    with Cons.IH [of known new k] Cons.prems show ?thesis by auto
  next
    case False
    obtain ys q where q: "insert_new xs (insert x known) = (ys, q)" by fastforce
    with False Cons.prems have "new = x # ys" "k = q" by simp_all
    with Cons.IH [OF q] False show ?thesis by auto
  qed
qed simp

end
