(* ===== verification/Persistence.thy ===== *)
theory Persistence
  imports Net_Events Std_Path
begin

text \<open>
  The persistence collectors: autostart entries (collectors/src/startup/mod.rs) and systemd user
  services (collectors/src/registry/mod.rs), on Linux.  The file system and the user's directories
  are parameters.
\<close>

section \<open>The file system\<close>

record fs_env =
  fs_exists :: "string \<Rightarrow> bool"
  fs_is_file :: "string \<Rightarrow> bool"
  fs_read :: "string \<Rightarrow> string option"
  fs_dir :: "string \<Rightarrow> string list option"
  fs_config_dir :: "string option"
  fs_home_dir :: "string option"

text \<open>The entries of a directory, none if it cannot be read.\<close>

definition dir_names :: "fs_env \<Rightarrow> string \<Rightarrow> string list" where
  "dir_names v d = (case fs_dir v d of None \<Rightarrow> [] | Some ns \<Rightarrow> ns)"

section \<open>Autostart entries\<close>

datatype location = Cron | Systemd | ProfileScript | BrowserExtension

fun location_code :: "location \<Rightarrow> i32" where
  "location_code Cron = 10"
| "location_code Systemd = 8"
| "location_code ProfileScript = 12"
| "location_code BrowserExtension = 7"

fun location_debug :: "location \<Rightarrow> string" where
  "location_debug Cron = ''Cron''"
| "location_debug Systemd = ''Systemd''"
| "location_debug ProfileScript = ''ProfileScript''"
| "location_debug BrowserExtension = ''BrowserExtension''"

definition startup_event_of :: "string \<Rightarrow> location \<Rightarrow> string \<times> string \<Rightarrow> event" where
  "startup_event_of ulid loc = (\<lambda>(name, command). event_default \<lparr> ev_id := ulid, ev_type := ''sentinel.startup.add'',
     ev_source := ''startup'', ev_severity := 3, ev_risk_score := 15, ev_host_id := [], ev_schema_version := 1,
     ev_payload := Some (StartupPayload \<lparr> se_action = 1, se_location = location_code loc, se_name = name,
       se_command = command, se_arguments = [], se_user = [], se_is_signed = False, se_publisher = [] \<rparr>),
     ev_tags := [''persistence'', ''startup:'' @ location_debug loc] \<rparr>)"

definition cron_dirs :: "string list" where
  "cron_dirs = [''/etc/crontab'', ''/var/spool/cron'', ''/etc/cron.d'', ''/etc/cron.daily'', ''/etc/cron.hourly'',
     ''/etc/cron.weekly'', ''/etc/cron.monthly'']"

definition crontab_lines :: "string \<Rightarrow> string list" where
  "crontab_lines content = filter (\<lambda>l. l \<noteq> [] \<and> \<not> starts_with l ''#'') (map str_trim (str_lines content))"

text \<open>The files of a directory that can be read, with their content.\<close>

definition read_dir_files :: "fs_env \<Rightarrow> string \<Rightarrow> string list \<Rightarrow> (string \<times> string) list" where
  "read_dir_files v d names = List.map_filter (\<lambda>n. map_option (Pair n) (fs_read v (path_join d n))) names"

definition scan_cron_path :: "fs_env \<Rightarrow> string \<Rightarrow> (string \<times> string) list" where
  "scan_cron_path v p =
     (if \<not> fs_exists v p then []
      else if fs_is_file v p then (case fs_read v p of None \<Rightarrow> []
        | Some content \<Rightarrow> map (\<lambda>l. (''cron:'' @ or_empty (path_file_name p), l)) (crontab_lines content))
      else map (\<lambda>(n, content). (''cron:'' @ n, content)) (read_dir_files v p (dir_names v p)))"

definition scan_cron_jobs :: "fs_env \<Rightarrow> (string \<times> string) list" where
  "scan_cron_jobs v = concat (map (scan_cron_path v) cron_dirs)"

text \<open>The files with an extension in a directory, named by their stem.\<close>

definition scan_ext_dir :: "fs_env \<Rightarrow> string \<Rightarrow> string \<Rightarrow> string \<Rightarrow> (string \<times> string) list" where
  "scan_ext_dir v ext prefix d = (if fs_exists v d
     then map (\<lambda>(n, content). (prefix @ or_empty (path_stem (path_join d n)), content))
       (read_dir_files v d (filter (\<lambda>n. path_ext (path_join d n) = Some ext) (dir_names v d)))
     else [])"

definition systemd_dirs :: "fs_env \<Rightarrow> string list" where
  "systemd_dirs v = [''/etc/systemd/system'', ''/usr/lib/systemd/system'', ''/lib/systemd/system'']
     @ (case fs_config_dir v of None \<Rightarrow> [] | Some c \<Rightarrow> [path_join (path_join c ''systemd'') ''user''])"

definition scan_systemd_services :: "fs_env \<Rightarrow> (string \<times> string) list" where
  "scan_systemd_services v = concat (map (scan_ext_dir v ''service'' ''systemd:'') (systemd_dirs v))"

definition shell_profiles :: "string list" where
  "shell_profiles = [''.bashrc'', ''.bash_profile'', ''.profile'', ''.zshrc'', ''.zprofile'', ''.config/fish/config.fish'']"

definition scan_shell_profiles :: "fs_env \<Rightarrow> (string \<times> string) list" where
  "scan_shell_profiles v = (case fs_home_dir v of None \<Rightarrow> []
     | Some home \<Rightarrow> List.map_filter (\<lambda>p. if fs_exists v (path_join home p)
         then map_option (Pair (''profile:'' @ p)) (fs_read v (path_join home p)) else None) shell_profiles)"

definition autostart_dirs :: "fs_env \<Rightarrow> string list" where
  "autostart_dirs v = (case fs_config_dir v of None \<Rightarrow> [] | Some c \<Rightarrow> [path_join c ''autostart''])
     @ (if fs_exists v ''/etc/xdg/autostart'' then [''/etc/xdg/autostart''] else [])"

definition scan_xdg_autostart :: "fs_env \<Rightarrow> (string \<times> string) list" where
  "scan_xdg_autostart v = concat (map (scan_ext_dir v ''desktop'' ''autostart:'') (autostart_dirs v))"

definition startup_scan :: "fs_env \<Rightarrow> (location \<times> string \<times> string) list" where
  "startup_scan v = map (Pair Cron) (scan_cron_jobs v) @ map (Pair Systemd) (scan_systemd_services v)
     @ map (Pair ProfileScript) (scan_shell_profiles v) @ map (Pair BrowserExtension) (scan_xdg_autostart v)"

text \<open>\<open>start_startup_monitor\<close>: a scan at the start and one at every tick; each event is counted twice.
  \<open>ulids\<close> and \<open>nows\<close> are the identifiers and the times in the order of the events.\<close>

definition startup_count :: "datetime \<Rightarrow> collector_registry \<Rightarrow> collector_registry" where
  "startup_count now reg = collector_increment_events now ''startup'' 1 (collector_increment_events now ''startup'' 1 reg)"

definition start_startup_monitor ::
    "datetime \<Rightarrow> (nat \<Rightarrow> string) \<Rightarrow> (nat \<Rightarrow> datetime) \<Rightarrow> fs_env \<Rightarrow> fs_env list \<Rightarrow> collector_registry \<Rightarrow>
     event list \<times> collector_registry" where
  "start_startup_monitor now ulids nows initial ticks reg =
     (let found = concat (map startup_scan (initial # ticks));
          reg' = collector_register reg (collector_status_new now ''startup'' ''Startup Monitor'' ''Startup collector'')
      in (map (\<lambda>(i, loc, e). startup_event_of (ulids i) loc e) (enumerate 0 found),
          foldl (\<lambda>r i. startup_count (nows i) r) reg' [0..<length found]))"

section \<open>Systemd user services\<close>

definition registry_persistence_event :: "stamp \<Rightarrow> string \<Rightarrow> event" where
  "registry_persistence_event s file_name = event_default \<lparr> ev_id := st_id s, ev_type := ''sentinel.registry.persistence'',
     ev_source := ''registry'', ev_timestamp := Some (st_timestamp s), ev_ingest_timestamp := Some (st_ingest s),
     ev_severity := severity_i32 Notice, ev_risk_score := 15, ev_host_id := [], ev_schema_version := 1,
     ev_payload := Some (RegistryPayload \<lparr> ge_action = 3, ge_hive = 2, ge_key_path = ''systemd/user/'' @ file_name,
       ge_value_name = [], ge_value_data = Some registry_value_data_default, ge_old_value = [] \<rparr>),
     ev_tags := [''persistence'', ''mitre:T1543''] \<rparr>"

text \<open>The services of a tick: none without a home directory or when the directory cannot be read.\<close>

definition user_services :: "fs_env \<Rightarrow> string list" where
  "user_services v = (case fs_home_dir v of None \<Rightarrow> []
     | Some h \<Rightarrow> (let d = path_join h ''.config/systemd/user'' in
         if fs_exists v d then map (\<lambda>n. or_empty (path_file_name (path_join d n)))
           (filter (\<lambda>n. path_ext (path_join d n) = Some ''service'') (dir_names v d)) else []))"

fun registry_ticks :: "string set \<Rightarrow> fs_env list \<Rightarrow> string list" where
  "registry_ticks reported [] = []"
| "registry_ticks reported (v # vs) = (case insert_new (user_services v) reported of (fs, r) \<Rightarrow> fs @ registry_ticks r vs)"

definition start_registry_monitor ::
    "datetime \<Rightarrow> (nat \<Rightarrow> stamp) \<Rightarrow> (nat \<Rightarrow> datetime) \<Rightarrow> fs_env list \<Rightarrow> collector_registry \<Rightarrow> event list \<times> collector_registry" where
  "start_registry_monitor now stamps nows ticks reg =
     (let found = registry_ticks {} ticks;
          reg' = collector_register reg (collector_status_new now ''registry'' ''Registry Monitor'' ''Systemd user service persistence'')
      in (map (\<lambda>(i, n). registry_persistence_event (stamps i) n) (enumerate 0 found),
          foldl (\<lambda>r i. collector_increment_events (nows i) ''registry'' 1 r) reg' [0..<length found]))"

section \<open>What is reported\<close>

lemma map_enumerate: "(\<And>i x. f (i, x) = g x) \<Longrightarrow> map f (enumerate n xs) = map g xs"
  by (induction xs arbitrary: n) simp_all

lemma registry_ticks_exact:
  "distinct (registry_ticks reported vs) \<and> set (registry_ticks reported vs) = (\<Union>v\<in>set vs. set (user_services v)) - reported"
proof (induction vs arbitrary: reported)
  case (Cons v vs)
  obtain fs r where r: "insert_new (user_services v) reported = (fs, r)" by fastforce
  from insert_new_exact [OF this] Cons.IH [of r] show ?case by (auto simp: r)
qed simp

text \<open>The services a run reports, taken from the events.\<close>

definition service_key :: "event \<Rightarrow> string option" where
  "service_key e = (case ev_payload e of Some (RegistryPayload g) \<Rightarrow> Some (ge_key_path g) | _ \<Rightarrow> None)"

text \<open>
  Every user service that is present at some tick is reported exactly once over the whole run:
  a service that is removed and installed again, or changed, is not reported again.
\<close>

theorem services_reported_once:
  "distinct (map service_key (fst (start_registry_monitor now stamps nows ticks reg)))
   \<and> set (map service_key (fst (start_registry_monitor now stamps nows ticks reg)))
       = (\<lambda>n. Some (''systemd/user/'' @ n)) ` (\<Union>v\<in>set ticks. set (user_services v))"
proof -
  have keys: "map service_key (fst (start_registry_monitor now stamps nows ticks reg))
      = map (\<lambda>n. Some (''systemd/user/'' @ n)) (registry_ticks {} ticks)"
    unfolding start_registry_monitor_def Let_def fst_conv map_map
    by (rule map_enumerate) (simp add: service_key_def registry_persistence_event_def)
  show ?thesis
    unfolding keys using registry_ticks_exact [of "{}" ticks] by (auto simp: distinct_map inj_on_def)
qed

section \<open>Repeated reports of autostart entries\<close>

definition startup_key :: "event \<Rightarrow> (i32 \<times> string \<times> string) option" where
  "startup_key e = (case ev_payload e of Some (StartupPayload g) \<Rightarrow> Some (se_location g, se_name g, se_command g) | _ \<Rightarrow> None)"

lemma count_startup_events:
  assumes "reg ''startup'' = Some st"
  shows "\<exists>st'. foldl (\<lambda>r i. startup_count (nows i) r) reg [0..<n] ''startup'' = Some st'
    \<and> cs_events_produced st' = cs_events_produced st + 2 * of_nat n"
proof (induction n)
  case 0
  show ?case using assms by simp
next
  case (Suc n)
  then obtain st' where "foldl (\<lambda>r i. startup_count (nows i) r) reg [0..<n] ''startup'' = Some st'"
    "cs_events_produced st' = cs_events_produced st + 2 * of_nat n" by blast
  then show ?case
    by (simp add: startup_count_def collector_increment_events_def algebra_simps)
qed

text \<open>
  Autostart entries are not remembered.  When nothing changes, every entry is announced as added
  again at each scan, once at the start and once at each of the \<open>n\<close> ticks, and the counter of the
  collector grows by two for every event.
\<close>

theorem autostart_announced_every_scan:
  "map startup_key (fst (start_startup_monitor now ulids nows v (replicate n v) reg))
     = concat (replicate (Suc n) (map (\<lambda>(loc, name, command). Some (location_code loc, name, command)) (startup_scan v)))
   \<and> map_option cs_events_produced (snd (start_startup_monitor now ulids nows v (replicate n v) reg) ''startup'')
     = Some (2 * of_nat (length (fst (start_startup_monitor now ulids nows v (replicate n v) reg))))"
proof
  have "map startup_key (fst (start_startup_monitor now ulids nows v (replicate n v) reg))
      = map (\<lambda>(loc, name, command). Some (location_code loc, name, command)) (concat (map startup_scan (replicate (Suc n) v)))"
    unfolding start_startup_monitor_def Let_def fst_conv map_map replicate_Suc
    by (rule map_enumerate) (simp add: startup_key_def startup_event_of_def split_def)
  then show "map startup_key (fst (start_startup_monitor now ulids nows v (replicate n v) reg))
     = concat (replicate (Suc n) (map (\<lambda>(loc, name, command). Some (location_code loc, name, command)) (startup_scan v)))"
    by (simp only: map_concat map_replicate)
  let ?reg = "collector_register reg (collector_status_new now ''startup'' ''Startup Monitor'' ''Startup collector'')"
  have "?reg ''startup'' = Some (collector_status_new now ''startup'' ''Startup Monitor'' ''Startup collector'')"
    by (simp add: collector_register_def collector_status_new_def)
  then show "map_option cs_events_produced (snd (start_startup_monitor now ulids nows v (replicate n v) reg) ''startup'')
     = Some (2 * of_nat (length (fst (start_startup_monitor now ulids nows v (replicate n v) reg))))"
    using count_startup_events [of ?reg _ nows "length (concat (map startup_scan (v # replicate n v)))"]
    by (fastforce simp: start_startup_monitor_def Let_def collector_status_new_def)
qed

text \<open>Entries of a crontab: its lines without blank lines and comments.\<close>

lemma crontab_lines_clean: "l \<in> set (crontab_lines c) \<Longrightarrow> l \<noteq> [] \<and> hd l \<noteq> CHR 0x23"
  by (cases l) (auto simp: crontab_lines_def starts_with_def)

end
