(* ===== verification/Framework.thy ===== *)
theory Framework
  imports Errors Event_Bus Float64
begin

text \<open>
  The collector framework (collectors/src/framework/mod.rs and the collector types of
  crates/sentinel-core/src/traits.rs): the manager of collectors, the registry of their metrics and
  the base collector.  A collector is a value with operations; the operations a manager calls are
  the interface \<open>collector\<close>, whose law the base collector meets.  A channel is a number, and every
  registration or restart makes a new one, with a task that forwards it to the bus.
\<close>

section \<open>Types (traits.rs)\<close>

datatype collector_state = CS_Stopped | CS_Starting | CS_Running | CS_Degraded | CS_Error

record collector_health =
  ch_state :: collector_state
  ch_message :: "string option"
  ch_last_event :: "datetime option"
  ch_events_per_sec :: f64
  ch_error_rate :: f64

record collector_metrics =
  mx_events_produced :: u64
  mx_events_dropped :: u64
  mx_errors :: u64
  mx_avg_latency_ms :: f64
  mx_cpu_percent :: f64
  mx_memory_bytes :: u64

definition collector_metrics_default :: collector_metrics where
  "collector_metrics_default = \<lparr> mx_events_produced = 0, mx_events_dropped = 0, mx_errors = 0,
     mx_avg_latency_ms = Fin 0, mx_cpu_percent = Fin 0, mx_memory_bytes = 0 \<rparr>"

text \<open>What a manager hands to a collector: the channel and the metrics registered for it.\<close>

record collector_context =
  cx_channel :: nat
  cx_metrics :: collector_metrics

section \<open>The metrics registry\<close>

type_synonym collector_metrics_registry = "string \<rightharpoonup> collector_metrics"

definition for_collector :: "collector_metrics_registry \<Rightarrow> string \<Rightarrow> collector_metrics" where
  "for_collector ms i = (case ms i of None \<Rightarrow> collector_metrics_default | Some m \<Rightarrow> m)"

definition metrics_register :: "string \<Rightarrow> collector_metrics \<Rightarrow> collector_metrics_registry \<Rightarrow> collector_metrics_registry" where
  "metrics_register i m ms = ms(i \<mapsto> m)"

section \<open>The manager\<close>

text \<open>The operations of a collector: an error, or nothing, and its new state.\<close>

record ('c, 'j) collector_ops =
  op_id :: "'c \<Rightarrow> string"
  op_start :: "collector_context \<Rightarrow> 'c \<Rightarrow> string option \<times> 'c"
  op_stop :: "bool \<Rightarrow> 'c \<Rightarrow> string option \<times> 'c"
  op_health :: "'c \<Rightarrow> collector_health"
  op_reconfigure :: "'j \<Rightarrow> 'c \<Rightarrow> string option \<times> 'c"

record 'c collector_manager =
  cm_collectors :: "string \<rightharpoonup> 'c"
  cm_contexts :: "string \<rightharpoonup> collector_context"
  cm_metrics :: collector_metrics_registry
  cm_channels :: nat

definition collector_manager_new :: "collector_metrics_registry \<Rightarrow> 'c collector_manager" where
  "collector_manager_new ms = \<lparr> cm_collectors = Map.empty, cm_contexts = Map.empty, cm_metrics = ms, cm_channels = 0 \<rparr>"

text \<open>The context of a new channel.\<close>

definition new_context :: "string \<Rightarrow> 'c collector_manager \<Rightarrow> collector_context \<times> 'c collector_manager" where
  "new_context i m = (\<lparr> cx_channel = cm_channels m, cx_metrics = for_collector (cm_metrics m) i \<rparr>,
     m\<lparr> cm_channels := Suc (cm_channels m) \<rparr>)"

definition insert_collector :: "string \<Rightarrow> 'c \<Rightarrow> collector_context \<Rightarrow> 'c collector_manager \<Rightarrow> 'c collector_manager" where
  "insert_collector i c ctx m = m\<lparr> cm_collectors := (cm_collectors m)(i \<mapsto> c), cm_contexts := (cm_contexts m)(i \<mapsto> ctx) \<rparr>"

definition manager_register ::
    "('c, 'j) collector_ops \<Rightarrow> 'c \<Rightarrow> 'c collector_manager \<Rightarrow> (string + unit) \<times> 'c collector_manager" where
  "manager_register ops c m = (let i = op_id ops c in case new_context i m of (ctx, m') \<Rightarrow>
     case op_start ops ctx c of
       (Some e, c') \<Rightarrow> (Inl (''Failed to start collector '' @ i @ '': '' @ e), m')
     | (None, c') \<Rightarrow> (Inr (), insert_collector i c' ctx m'))"

definition manager_unregister ::
    "('c, 'j) collector_ops \<Rightarrow> string \<Rightarrow> 'c collector_manager \<Rightarrow> (string + unit) \<times> 'c collector_manager" where
  "manager_unregister ops i m = (case cm_collectors m i of
       None \<Rightarrow> (Inr (), m)
     | Some c \<Rightarrow> (let m' = m\<lparr> cm_collectors := (cm_collectors m)(i := None) \<rparr> in
         case op_stop ops True c of
           (Some e, c') \<Rightarrow> (Inl e, m')
         | (None, c') \<Rightarrow> (Inr (), m'\<lparr> cm_contexts := (cm_contexts m')(i := None) \<rparr>)))"

definition manager_restart ::
    "('c, 'j) collector_ops \<Rightarrow> string \<Rightarrow> 'c collector_manager \<Rightarrow> (string + unit) \<times> 'c collector_manager" where
  "manager_restart ops i m = (case cm_collectors m i of
       None \<Rightarrow> (Inr (), m)
     | Some c \<Rightarrow> (let m' = m\<lparr> cm_collectors := (cm_collectors m)(i := None) \<rparr> in
         case op_stop ops True c of
           (Some e, c') \<Rightarrow> (Inl e, m')
         | (None, c') \<Rightarrow> (case new_context i m' of (ctx, m'') \<Rightarrow>
             case op_start ops ctx c' of
               (Some e, c'') \<Rightarrow> (Inl (''Failed to restart collector '' @ i @ '': '' @ e), m'')
             | (None, c'') \<Rightarrow> (Inr (), insert_collector i c'' ctx m''))))"

definition manager_health :: "('c, 'j) collector_ops \<Rightarrow> string \<Rightarrow> 'c collector_manager \<Rightarrow> collector_health option" where
  "manager_health ops i m = map_option (op_health ops) (cm_collectors m i)"

definition manager_all_health :: "('c, 'j) collector_ops \<Rightarrow> 'c collector_manager \<Rightarrow> (string \<rightharpoonup> collector_health)" where
  "manager_all_health ops m = map_option (op_health ops) \<circ> cm_collectors m"

definition manager_reconfigure ::
    "('c, 'j) collector_ops \<Rightarrow> string \<Rightarrow> 'j \<Rightarrow> 'c collector_manager \<Rightarrow> (string + unit) \<times> 'c collector_manager" where
  "manager_reconfigure ops i config m = (case cm_collectors m i of
       None \<Rightarrow> (Inl (''Collector not found: '' @ i), m)
     | Some c \<Rightarrow> (case op_reconfigure ops config c of (r, c') \<Rightarrow>
         ((case r of None \<Rightarrow> Inr () | Some e \<Rightarrow> Inl e), m\<lparr> cm_collectors := (cm_collectors m)(i \<mapsto> c') \<rparr>)))"

definition manager_list :: "'c collector_manager \<Rightarrow> string set" where
  "manager_list m = dom (cm_collectors m)"

section \<open>The base collector\<close>

text \<open>The descriptive fields are constant; the channel is set by \<open>start\<close>.\<close>

record base_collector =
  bc_id :: string
  bc_name :: string
  bc_description :: string
  bc_event_types :: "string list"
  bc_required_capabilities :: "string list"
  bc_state :: collector_state
  bc_health :: collector_health
  bc_metrics :: collector_metrics
  bc_event_tx :: "nat option"
  bc_backpressure :: bool

definition base_new :: "string \<Rightarrow> string \<Rightarrow> string \<Rightarrow> string list \<Rightarrow> string list \<Rightarrow> base_collector" where
  "base_new i name description types capabilities = \<lparr> bc_id = i, bc_name = name, bc_description = description,
     bc_event_types = types, bc_required_capabilities = capabilities, bc_state = CS_Stopped,
     bc_health = \<lparr> ch_state = CS_Stopped, ch_message = None, ch_last_event = None, ch_events_per_sec = Fin 0, ch_error_rate = Fin 0 \<rparr>,
     bc_metrics = collector_metrics_default, bc_event_tx = None, bc_backpressure = False \<rparr>"

text \<open>\<open>publish\<close>: the event goes into the channel, if there is one and it is open.\<close>

definition base_publish :: "(nat \<Rightarrow> bool) \<Rightarrow> 'e \<Rightarrow> base_collector \<Rightarrow> (sentinel_error + unit) \<times> (nat \<times> 'e) option \<times> base_collector" where
  "base_publish is_open e b = (case bc_event_tx b of
       None \<Rightarrow> (Inr (), None, b)
     | Some ch \<Rightarrow> (if is_open ch
         then (Inr (), Some (ch, e), b\<lparr> bc_metrics := (bc_metrics b)\<lparr> mx_events_produced := mx_events_produced (bc_metrics b) + 1 \<rparr> \<rparr>)
         else (Inl (Err_EventBus (BE_ChannelFull ''Channel closed'')), None, b)))"

definition check_backpressure :: "backpressure_signal \<Rightarrow> base_collector \<Rightarrow> backpressure_signal" where
  "check_backpressure current b = (if bc_backpressure b then current else Normal)"

definition update_health :: "datetime \<Rightarrow> collector_state \<Rightarrow> string option \<Rightarrow> base_collector \<Rightarrow> base_collector" where
  "update_health now st message b = (let m = bc_metrics b in b\<lparr> bc_health := \<lparr> ch_state = st, ch_message = message,
     ch_last_event = Some now, ch_events_per_sec = f64_of_nat (unat (mx_events_produced m)),
     ch_error_rate = (if 0 < mx_events_produced m
       then f64_div_fin (f64_of_nat (unat (mx_errors m))) (f64_of_nat (unat (mx_events_produced m))) else Fin 0) \<rparr> \<rparr>)"

definition base_start :: "datetime \<Rightarrow> collector_context \<Rightarrow> base_collector \<Rightarrow> string option \<times> base_collector" where
  "base_start now ctx b =
     (let b1 = update_health now CS_Starting None (b\<lparr> bc_event_tx := Some (cx_channel ctx), bc_backpressure := True, bc_state := CS_Starting \<rparr>)
      in (None, update_health now CS_Running (Some ''Started successfully'') (b1\<lparr> bc_state := CS_Running \<rparr>)))"

definition base_stop :: "datetime \<Rightarrow> bool \<Rightarrow> base_collector \<Rightarrow> string option \<times> base_collector" where
  "base_stop now graceful b = (None, update_health now CS_Stopped (Some ''Stopped'') (b\<lparr> bc_state := CS_Stopped \<rparr>))"

definition base_reconfigure :: "'j \<Rightarrow> base_collector \<Rightarrow> string option \<times> base_collector" where
  "base_reconfigure config b = (None, b)"

definition base_ops :: "datetime \<Rightarrow> (base_collector, 'j) collector_ops" where
  "base_ops now = \<lparr> op_id = bc_id, op_start = base_start now, op_stop = base_stop now, op_health = bc_health,
     op_reconfigure = base_reconfigure \<rparr>"

section \<open>The interface\<close>

text \<open>What a manager relies on, at any time \<open>t\<close>: no operation changes the identifier of a collector.\<close>

locale collector =
  fixes ops :: "datetime \<Rightarrow> ('c, 'j) collector_ops"
    and cid :: "'c \<Rightarrow> string"
  assumes cid: "op_id (ops t) c = cid c"
    and start_id: "cid (snd (op_start (ops t) ctx c)) = cid c"
    and stop_id: "cid (snd (op_stop (ops t) graceful c)) = cid c"
    and reconfigure_id: "cid (snd (op_reconfigure (ops t) j c)) = cid c"

text \<open>The states a manager reaches.\<close>

inductive manager_reachable :: "(datetime \<Rightarrow> ('c, 'j) collector_ops) \<Rightarrow> 'c collector_manager \<Rightarrow> bool" for ops where
  created: "manager_reachable ops (collector_manager_new ms)"
| registered: "manager_reachable ops m \<Longrightarrow> manager_reachable ops (snd (manager_register (ops t) c m))"
| unregistered: "manager_reachable ops m \<Longrightarrow> manager_reachable ops (snd (manager_unregister (ops t) i m))"
| restarted: "manager_reachable ops m \<Longrightarrow> manager_reachable ops (snd (manager_restart (ops t) i m))"
| reconfigured: "manager_reachable ops m \<Longrightarrow> manager_reachable ops (snd (manager_reconfigure (ops t) i j m))"

text \<open>Every collector is filed under its identifier and has a context; channels are never shared.\<close>

definition manager_inv :: "('c \<Rightarrow> string) \<Rightarrow> 'c collector_manager \<Rightarrow> bool" where
  "manager_inv cid m \<longleftrightarrow>
     (\<forall>i c. cm_collectors m i = Some c \<longrightarrow> cid c = i \<and> cm_contexts m i \<noteq> None)
     \<and> (\<forall>i ctx. cm_contexts m i = Some ctx \<longrightarrow> cx_channel ctx < cm_channels m)
     \<and> (\<forall>i j x y. cm_contexts m i = Some x \<longrightarrow> cm_contexts m j = Some y \<longrightarrow> cx_channel x = cx_channel y \<longrightarrow> i = j)"

text \<open>Removing a collector and perhaps its context, making a channel, and inserting with a new channel.\<close>

lemma inv_remove: "manager_inv cid m \<Longrightarrow> manager_inv cid (m\<lparr> cm_collectors := (cm_collectors m)(i := None) \<rparr>)"
  by (auto simp: manager_inv_def)

lemma inv_remove_both: "manager_inv cid m \<Longrightarrow>
    manager_inv cid (m\<lparr> cm_collectors := (cm_collectors m)(i := None), cm_contexts := (cm_contexts m)(i := None) \<rparr>)"
  by (auto simp: manager_inv_def)

lemma inv_new_context: "manager_inv cid m \<Longrightarrow> manager_inv cid (snd (new_context i m))"
  by (fastforce simp: manager_inv_def new_context_def)

lemma inv_insert:
  assumes "manager_inv cid m" and "new_context i m = (ctx, m')" and "cid c = i"
  shows "manager_inv cid (insert_collector i c ctx m')"
proof -
  have ctx: "cx_channel ctx = cm_channels m" "m' = m\<lparr> cm_channels := Suc (cm_channels m) \<rparr>"
    using assms(2) by (auto simp: new_context_def)
  show ?thesis
    using assms(1,3) unfolding manager_inv_def insert_collector_def ctx(2) by (auto simp: ctx(1)) fastforce+
qed

context collector
begin

lemma register_inv: "manager_inv cid m \<Longrightarrow> manager_inv cid (snd (manager_register (ops t) c m))"
  using start_id [of t _ c] inv_insert [of cid m "cid c"] inv_new_context [of cid m "cid c"]
  by (auto simp: manager_register_def cid Let_def split: prod.splits option.splits) (metis snd_conv)+

lemma unregister_inv: "manager_inv cid m \<Longrightarrow> manager_inv cid (snd (manager_unregister (ops t) i m))"
  using inv_remove [of cid m i] inv_remove_both [of cid m i]
  by (simp add: manager_unregister_def Let_def split: prod.splits option.splits)

lemma restart_inv:
  assumes "manager_inv cid m"
  shows "manager_inv cid (snd (manager_restart (ops t) i m))"
proof (cases "cm_collectors m i")
  case (Some c)
  let ?m = "m\<lparr> cm_collectors := (cm_collectors m)(i := None) \<rparr>"
  have inv: "manager_inv cid ?m" by (rule inv_remove [OF assms])
  obtain r c' where stop: "op_stop (ops t) True c = (r, c')" by fastforce
  obtain ctx m' where new: "new_context i ?m = (ctx, m')" by fastforce
  obtain r' c'' where start: "op_start (ops t) ctx c' = (r', c'')" by fastforce
  have "cid c = i"
    using assms Some by (simp add: manager_inv_def)
  then have "cid c'' = i"
    using stop_id [of t True c] start_id [of t ctx c'] stop start by simp
  then show ?thesis
    using inv inv_insert [OF inv new] inv_new_context [OF inv, of i]
    by (simp add: manager_restart_def Some stop new start Let_def split: option.split)
qed (simp add: manager_restart_def assms)

lemma reconfigure_inv: "manager_inv cid m \<Longrightarrow> manager_inv cid (snd (manager_reconfigure (ops t) i j m))"
  using reconfigure_id [of t j]
  by (auto simp: manager_reconfigure_def manager_inv_def split: option.splits prod.splits) (metis snd_conv)+

lemma reachable_inv: "manager_reachable ops m \<Longrightarrow> manager_inv cid m"
proof (induction rule: manager_reachable.induct)
  case (created ms)
  show ?case by (simp add: manager_inv_def collector_manager_new_def)
qed (rule register_inv unregister_inv restart_inv reconfigure_inv; assumption)+

end

interpretation base: collector base_ops bc_id
  by unfold_locales (simp_all add: base_ops_def base_start_def base_stop_def base_reconfigure_def update_health_def Let_def)

section \<open>Properties\<close>

text \<open>The contract of the interface for collectors of any kind, whose operations may fail at any time.\<close>

definition identity_kept :: "(datetime \<Rightarrow> ('c, 'j) collector_ops) \<Rightarrow> ('c \<Rightarrow> string) \<Rightarrow> bool" where
  "identity_kept ops cid \<longleftrightarrow> (\<forall>t c. op_id (ops t) c = cid c
     \<and> (\<forall>ctx. cid (snd (op_start (ops t) ctx c)) = cid c)
     \<and> (\<forall>graceful. cid (snd (op_stop (ops t) graceful c)) = cid c)
     \<and> (\<forall>j. cid (snd (op_reconfigure (ops t) j c)) = cid c))"

lemma identity_kept_collector: "identity_kept ops cid \<longleftrightarrow> collector ops cid"
  by (auto simp: identity_kept_def collector_def)

lemma base_identity_kept: "identity_kept base_ops bc_id"
  unfolding identity_kept_collector by (rule base.collector_axioms)

text \<open>
  C24: In every state of a manager each collector is filed under its own identifier and has a context, and no two
  contexts share a channel.  The collectors are of any kind: registrations, restarts, reconfigurations and
  removals may succeed or fail at any of their steps, in any order; all that is asked of a collector is
  that none of its operations changes its identifier.
\<close>

theorem manager_keeps_identities:
  assumes "identity_kept ops cid" and "manager_reachable ops m" and "cm_collectors m i = Some c"
  shows "op_id (ops t) c = i \<and> (\<exists>ctx. cm_contexts m i = Some ctx \<and> cx_channel ctx < cm_channels m \<and>
    (\<forall>j. j \<noteq> i \<longrightarrow> map_option cx_channel (cm_contexts m j) \<noteq> Some (cx_channel ctx)))"
proof -
  have "collector ops cid" using assms(1) by (simp add: identity_kept_collector)
  from collector.reachable_inv [OF this assms(2)] assms(1,3) show ?thesis
    unfolding manager_inv_def identity_kept_def by fastforce
qed

definition sample_manager :: "base_collector collector_manager" where
  "sample_manager = snd (manager_register (base_ops 5 :: (base_collector, string) collector_ops) (base_new ''p'' [] [] [] []) (collector_manager_new Map.empty))"

lemmas sample_manager_defs = sample_manager_def manager_register_def new_context_def insert_collector_def collector_manager_new_def
  base_ops_def base_new_def base_start_def base_stop_def update_health_def

text \<open>Collectors that cannot be started any more after some time: the restart of one of them fails.\<close>

definition flaky_ops :: "datetime \<Rightarrow> (base_collector, string) collector_ops" where
  "flaky_ops t = (if t < 10 then base_ops t else (base_ops t)\<lparr> op_start := (\<lambda>ctx b. (Some ''no permission'', b)) \<rparr>)"

definition flaky_manager :: "base_collector collector_manager" where
  "flaky_manager = snd (manager_restart (flaky_ops 11) ''q''
     (snd (manager_register (flaky_ops 6) (base_new ''q'' [] [] [] []) (snd (manager_register (flaky_ops 5) (base_new ''p'' [] [] [] [])
       (collector_manager_new Map.empty))))))"

lemma flaky_identity_kept: "identity_kept flaky_ops bc_id"
  using base_identity_kept by (auto simp: identity_kept_def flaky_ops_def)

lemma flaky_manager_reachable: "manager_reachable flaky_ops flaky_manager"
  unfolding flaky_manager_def by (intro restarted registered created)

lemma manager_keeps_identities_witness:
  "''q'' \<notin> manager_list flaky_manager \<and> (\<exists>b. cm_collectors flaky_manager ''p'' = Some b \<and> op_id (flaky_ops 0) b = ''p'')"
proof -
  have lost: "cm_collectors flaky_manager ''q'' = None" and "cm_collectors flaky_manager ''p'' \<noteq> None"
    by (simp_all add: flaky_manager_def flaky_ops_def manager_restart_def sample_manager_defs Let_def)
  then obtain b where b: "cm_collectors flaky_manager ''p'' = Some b" by blast
  from manager_keeps_identities [OF flaky_identity_kept flaky_manager_reachable b, of 0] b lost show ?thesis
    by (auto simp: manager_list_def)
qed

text \<open>
  When a restart fails, whether while stopping or while starting, the collector is gone: it has
  no health, cannot be reconfigured, and restarting or unregistering it again succeeds without doing
  anything, while its old context stays.
\<close>

theorem failed_restart_loses_collector:
  assumes "manager_restart ops i m = (Inl e, m')"
  shows "manager_health ops i m' = None \<and> i \<notin> manager_list m'
    \<and> manager_restart ops i m' = (Inr (), m') \<and> manager_unregister ops i m' = (Inr (), m')
    \<and> manager_reconfigure ops i j m' = (Inl (''Collector not found: '' @ i), m')
    \<and> cm_contexts m' = cm_contexts m"
proof -
  have gone: "cm_collectors m' i = None \<and> cm_contexts m' = cm_contexts m"
    using assms by (auto simp: manager_restart_def new_context_def Let_def split: option.splits prod.splits)
  then show ?thesis
    by (auto simp: manager_health_def manager_list_def manager_restart_def manager_unregister_def manager_reconfigure_def)
qed

text \<open>A collector that cannot be started a second time.\<close>

definition failing_ops :: "(base_collector, string) collector_ops" where
  "failing_ops = (base_ops 5)\<lparr> op_start := (\<lambda>ctx b. (Some ''no permission'', b)) \<rparr>"

lemma failed_restart_loses_collector_witness:
  "manager_health failing_ops ''p'' (snd (manager_restart failing_ops ''p'' sample_manager)) = None"
proof -
  have "fst (manager_restart failing_ops ''p'' sample_manager) = Inl ''Failed to restart collector p: no permission''"
    by (simp add: manager_restart_def failing_ops_def sample_manager_defs Let_def)
  then have "manager_restart failing_ops ''p'' sample_manager
      = (Inl ''Failed to restart collector p: no permission'', snd (manager_restart failing_ops ''p'' sample_manager))"
    by (simp add: prod_eq_iff)
  from failed_restart_loses_collector [OF this] show ?thesis by blast
qed

text \<open>The life of a base collector.\<close>

lemma base_start_running:
  "base_start now ctx b = (r, b') \<Longrightarrow> r = None \<and> bc_state b' = CS_Running \<and> ch_state (bc_health b') = CS_Running
     \<and> bc_event_tx b' = Some (cx_channel ctx) \<and> bc_metrics b' = bc_metrics b"
  by (auto simp: base_start_def update_health_def Let_def)

text \<open>A collector that was not started takes events and loses them without an error or a count; a
  stopped one still publishes.\<close>

lemma publish_before_start: "base_publish is_open e (base_new i n d ts cs) = (Inr (), None, base_new i n d ts cs)"
  by (simp add: base_publish_def base_new_def)

lemma publish_after_stop:
  "bc_event_tx b = Some ch \<Longrightarrow> is_open ch \<Longrightarrow>
     fst (snd (base_publish is_open e (snd (base_stop now graceful b)))) = Some (ch, e)"
  by (simp add: base_publish_def base_stop_def update_health_def Let_def)

end
