(* ===== verification/Metrics.thy ===== *)
theory Metrics
  imports Core_Types Float64
begin

text \<open>
  The metrics of crates/sentinel-core/src/metrics.rs.  The registry of the prometheus client is a
  list of what has been registered with it: the name, the help text and the kind; the number of an
  entry stands for the shared metric.  The builders return that number.
\<close>

section \<open>The registry\<close>

datatype metric_kind = Counter | Gauge | Histogram "f64 list"

record registered_metric =
  rm_name :: string
  rm_help :: string
  rm_kind :: metric_kind

text \<open>\<open>mr_collectors\<close> holds the custom collectors; \<open>gather\<close> does not look at them.\<close>

record 'c metrics_registry =
  mr_metrics :: "registered_metric list"
  mr_collectors :: "string \<rightharpoonup> 'c"

definition metrics_registry_new :: "'c metrics_registry" where
  "metrics_registry_new = \<lparr> mr_metrics = [], mr_collectors = Map.empty \<rparr>"

definition register_collector :: "string \<Rightarrow> 'c \<Rightarrow> 'c metrics_registry \<Rightarrow> 'c metrics_registry" where
  "register_collector name c r = r\<lparr> mr_collectors := (mr_collectors r)(name \<mapsto> c) \<rparr>"

definition unregister_collector :: "string \<Rightarrow> 'c metrics_registry \<Rightarrow> 'c metrics_registry" where
  "unregister_collector name r = r\<lparr> mr_collectors := (mr_collectors r)(name := None) \<rparr>"

definition gather :: "(registered_metric list \<Rightarrow> string) \<Rightarrow> 'c metrics_registry \<Rightarrow> string" where
  "gather encode r = encode (mr_metrics r)"

definition register_metric :: "registered_metric \<Rightarrow> 'c metrics_registry \<Rightarrow> nat \<times> 'c metrics_registry" where
  "register_metric m r = (length (mr_metrics r), r\<lparr> mr_metrics := mr_metrics r @ [m] \<rparr>)"

section \<open>Builders\<close>

record metric_builder =
  mb_name :: string
  mb_help :: string
  mb_labels :: "(string \<times> string) list"

definition builder_new :: "string \<Rightarrow> metric_builder" where
  "builder_new name = \<lparr> mb_name = name, mb_help = [], mb_labels = [] \<rparr>"

definition builder_help :: "string \<Rightarrow> metric_builder \<Rightarrow> metric_builder" where
  "builder_help h b = b\<lparr> mb_help := h \<rparr>"

definition builder_label :: "string \<Rightarrow> string \<Rightarrow> metric_builder \<Rightarrow> metric_builder" where
  "builder_label k v b = b\<lparr> mb_labels := mb_labels b @ [(k, v)] \<rparr>"

definition counter_build :: "metric_builder \<Rightarrow> 'c metrics_registry \<Rightarrow> nat \<times> 'c metrics_registry" where
  "counter_build b = register_metric \<lparr> rm_name = mb_name b, rm_help = mb_help b, rm_kind = Counter \<rparr>"

definition gauge_build :: "metric_builder \<Rightarrow> 'c metrics_registry \<Rightarrow> nat \<times> 'c metrics_registry" where
  "gauge_build b = register_metric \<lparr> rm_name = mb_name b, rm_help = mb_help b, rm_kind = Gauge \<rparr>"

record histogram_builder = metric_builder +
  hb_buckets :: "f64 list"

definition default_buckets :: "f64 list" where
  "default_buckets = map f64_of [1 / 1000, 5 / 1000, 1 / 100, 25 / 1000, 5 / 100, 1 / 10, 25 / 100, 5 / 10, 1, 25 / 10, 5, 10]"

definition histogram_new :: "string \<Rightarrow> histogram_builder" where
  "histogram_new name = \<lparr> mb_name = name, mb_help = [], mb_labels = [], hb_buckets = default_buckets \<rparr>"

definition histogram_build :: "histogram_builder \<Rightarrow> 'c metrics_registry \<Rightarrow> nat \<times> 'c metrics_registry" where
  "histogram_build b = register_metric \<lparr> rm_name = mb_name b, rm_help = mb_help b, rm_kind = Histogram (hb_buckets b) \<rparr>"

section \<open>Groups of metrics\<close>

text \<open>A group is built member by member, in the order of its fields.\<close>

datatype member = MCounter string string | MGauge string string | MHistogram string string

fun build_member :: "member \<Rightarrow> 'c metrics_registry \<Rightarrow> nat \<times> 'c metrics_registry" where
  "build_member (MCounter n h) = counter_build (builder_help h (builder_new n))"
| "build_member (MGauge n h) = gauge_build (builder_help h (builder_new n))"
| "build_member (MHistogram n h) = histogram_build ((histogram_new n)\<lparr> mb_help := h \<rparr>)"

fun build_group :: "member list \<Rightarrow> 'c metrics_registry \<Rightarrow> nat list \<times> 'c metrics_registry" where
  "build_group [] r = ([], r)"
| "build_group (m # ms) r = (case build_member m r of (i, r') \<Rightarrow> case build_group ms r' of (is, r'') \<Rightarrow> (i # is, r''))"

definition underscored :: "string \<Rightarrow> string" where
  "underscored s = str_replace s ''-'' ''_''"

definition module_metric_group :: "string \<Rightarrow> member list" where
  "module_metric_group name = (let prefix = ''sentinel_'' @ underscored name in
     [MCounter (prefix @ ''_events_processed_total'') ''Total number of events processed'',
      MCounter (prefix @ ''_events_dropped_total'') ''Total number of events dropped due to backpressure'',
      MCounter (prefix @ ''_errors_total'') ''Total number of errors'',
      MHistogram (prefix @ ''_processing_time_seconds'') ''Event processing time in seconds'',
      MGauge (prefix @ ''_queue_depth'') ''Current event queue depth'',
      MGauge (prefix @ ''_memory_bytes'') ''Memory usage in bytes'',
      MGauge (prefix @ ''_cpu_percent'') ''CPU usage percentage''])"

definition collector_metric_group :: "string \<Rightarrow> member list" where
  "collector_metric_group i = (let prefix = ''sentinel_collector_'' @ underscored i in
     [MCounter (prefix @ ''_events_produced_total'') ''Total events produced by this collector'',
      MCounter (prefix @ ''_events_dropped_total'') ''Total events dropped by this collector'',
      MCounter (prefix @ ''_errors_total'') ''Total errors in this collector'',
      MGauge (prefix @ ''_avg_latency_ms'') ''Average event processing latency in milliseconds'',
      MGauge (prefix @ ''_cpu_percent'') ''CPU usage percentage'',
      MGauge (prefix @ ''_memory_bytes'') ''Memory usage in bytes''])"

definition rule_engine_metric_group :: "member list" where
  "rule_engine_metric_group =
     [MGauge ''sentinel_rule_engine_rules_loaded'' ''Number of loaded rules'',
      MGauge ''sentinel_rule_engine_rules_enabled'' ''Number of enabled rules'',
      MCounter ''sentinel_rule_engine_evaluations_total'' ''Total rule evaluations'',
      MCounter ''sentinel_rule_engine_matches_total'' ''Total rule matches'',
      MHistogram ''sentinel_rule_engine_evaluation_seconds'' ''Rule evaluation time in seconds'']"

definition correlation_metric_group :: "member list" where
  "correlation_metric_group =
     [MGauge ''sentinel_correlation_active_chains'' ''Number of active correlation chains'',
      MCounter ''sentinel_correlation_events_correlated_total'' ''Total events correlated'',
      MCounter ''sentinel_correlation_chains_detected_total'' ''Total attack chains detected'',
      MHistogram ''sentinel_correlation_chain_length'' ''Length of detected chains'']"

definition risk_metric_group :: "member list" where
  "risk_metric_group =
     [MGauge ''sentinel_risk_current_score'' ''Current aggregate risk score'',
      MGauge ''sentinel_risk_peak_24h'' ''Peak risk score in last 24 hours'',
      MCounter ''sentinel_risk_alerts_generated_total'' ''Total alerts generated'',
      MCounter ''sentinel_risk_alerts_escalated_total'' ''Total alerts escalated'',
      MCounter ''sentinel_risk_alerts_suppressed_total'' ''Total alerts suppressed (flapping)'']"

definition ai_metric_group :: "member list" where
  "ai_metric_group =
     [MCounter ''sentinel_ai_requests_total'' ''Total AI requests'',
      MHistogram ''sentinel_ai_request_latency_seconds'' ''AI request latency in seconds'',
      MCounter ''sentinel_ai_tokens_used_total'' ''Total tokens used'',
      MCounter ''sentinel_ai_errors_total'' ''Total AI errors'',
      MCounter ''sentinel_ai_cache_hits_total'' ''Total cache hits'',
      MCounter ''sentinel_ai_cache_misses_total'' ''Total cache misses'']"

definition plugin_metric_group :: "member list" where
  "plugin_metric_group =
     [MGauge ''sentinel_plugins_loaded'' ''Number of loaded plugins'',
      MGauge ''sentinel_plugins_running'' ''Number of running plugins'',
      MCounter ''sentinel_plugin_errors_total'' ''Total plugin errors'',
      MCounter ''sentinel_plugin_action_calls_total'' ''Total plugin action calls'',
      MHistogram ''sentinel_plugin_action_latency_seconds'' ''Plugin action latency in seconds'']"

section \<open>Names\<close>

text \<open>The names Prometheus takes: letters, digits, underscores and colons, no digit first.\<close>

definition name_char :: "char \<Rightarrow> bool" where
  "name_char c \<longleftrightarrow> (let n = of_char c :: nat in 65 \<le> n \<and> n \<le> 90 \<or> 97 \<le> n \<and> n \<le> 122 \<or> 48 \<le> n \<and> n \<le> 58 \<or> n = 95)"

definition valid_metric_name :: "string \<Rightarrow> bool" where
  "valid_metric_name s \<longleftrightarrow> s \<noteq> [] \<and> \<not> is_digit (hd s) \<and> list_all name_char s"

definition registered_names :: "'c metrics_registry \<Rightarrow> string list" where
  "registered_names r = map rm_name (mr_metrics r)"

fun member_name :: "member \<Rightarrow> string" where
  "member_name (MCounter n h) = n"
| "member_name (MGauge n h) = n"
| "member_name (MHistogram n h) = n"

text \<open>A group registers its members in order and returns their entries.\<close>

lemma registered_names_group: "registered_names (snd (build_group ms r)) = registered_names r @ map member_name ms"
proof (induction ms arbitrary: r)
  case (Cons m ms)
  have "registered_names (snd (build_member m r)) = registered_names r @ [member_name m]"
    by (cases m) (simp_all add: registered_names_def counter_build_def gauge_build_def histogram_build_def
        register_metric_def builder_help_def builder_new_def histogram_new_def)
  with Cons show ?case by (simp add: case_prod_beta)
qed (simp add: registered_names_def)

lemma underscored_map: "underscored s = map (\<lambda>c. if c = CHR ''-'' then CHR ''_'' else c) s"
proof (induction s)
  case Nil
  show ?case by (simp add: underscored_def str_replace.simps)
next
  case (Cons c s)
  then show ?case
    by (simp add: underscored_def str_replace.simps [of "c # s"] starts_with_def)
qed

lemma module_metrics_valid:
  assumes "list_all (\<lambda>c. name_char c \<or> c = CHR ''-'') name" and "m \<in> set (module_metric_group name)"
  shows "valid_metric_name (member_name m)"
proof -
  have "list_all name_char (underscored name)"
    using assms(1) by (auto simp: underscored_map list_all_iff name_char_def)
  then show ?thesis
    using assms(2) by (auto simp: module_metric_group_def valid_metric_name_def Let_def is_digit_def name_char_def)
qed

text \<open>Labels have no effect.\<close>

lemma labels_ignored: "counter_build (builder_label k v b) = counter_build b" "gauge_build (builder_label k v b) = gauge_build b"
  by (simp_all add: counter_build_def gauge_build_def builder_label_def)

text \<open>Two names that differ only in dashes and underscores give the same metrics, which are registered twice.\<close>

lemma dashes_collide: "underscored m = underscored n \<Longrightarrow> module_metric_group m = module_metric_group n"
  by (simp add: module_metric_group_def)

lemma registered_twice:
  "registered_names (snd (build_group ms (snd (build_group ms metrics_registry_new)))) = map member_name (ms @ ms)"
  by (simp add: registered_names_group) (simp add: registered_names_def metrics_registry_new_def)

end
