(* ===== verification/Browser.thy ===== *)
theory Browser
  imports Net_Events Std_Path "HOL-Library.List_Lexorder"
begin

text \<open>
  The browser collector (collectors/src/browser/mod.rs): discovery of the profiles, the incremental
  readers over the output of the sqlite3 program, the detection helpers and the events.  The file
  system, sqlite3 and SHA-256 are parameters.
\<close>

section \<open>Tables\<close>

abbreviation SUSPICIOUS_DL_WINDOW :: int where "SUSPICIOUS_DL_WINDOW \<equiv> 300"
abbreviation SUSPICIOUS_DL_THRESHOLD :: nat where "SUSPICIOUS_DL_THRESHOLD \<equiv> 3"
abbreviation MAX_DB_COPY_BYTES :: nat where "MAX_DB_COPY_BYTES \<equiv> 100 * 1024 * 1024"

definition MALICIOUS_EXTENSIONS :: "string list" where
  "MALICIOUS_EXTENSIONS =
     [''kfclfkdkobhcchbhmfdboddphkfoakdg'', ''lkdpbfpmehkdggjmhlncopmbkgbmjgej'', ''lfcgiflbpkgedpohgffeeamcegfkined'',
      ''cmfefdghcnmejmhoeknhkpodpfjflkod'', ''jlgmijgohgphlgmpppeighedppkgpifh'', ''hnmpcagpplbolnmiinmjdfbcepgkcoph'',
      ''pglamkbkmhmjjnakjclciigehbmbninj'']"

definition SUSPICIOUS_TLDS :: "string list" where
  "SUSPICIOUS_TLDS = [''.tk'', ''.ml'', ''.ga'', ''.cf'', ''.gq'', ''.xyz'', ''.top'', ''.club'', ''.work'', ''.click'',
     ''.download'', ''.review'', ''.country'', ''.stream'']"

definition DANGEROUS_EXTENSIONS :: "string list" where
  "DANGEROUS_EXTENSIONS = [''.exe'', ''.dll'', ''.msi'', ''.scr'', ''.ps1'', ''.bat'', ''.cmd'', ''.vbs'', ''.js'', ''.hta'',
     ''.sh'', ''.shs'', ''.app'', ''.dmg'', ''.pkg'', ''.deb'', ''.rpm'', ''.apk'', ''.jar'']"

section \<open>Profiles\<close>

datatype browser = Chrome | Firefox | Edge | Brave | Vivaldi | Opera

fun browser_code :: "browser \<Rightarrow> i32" where
  "browser_code Chrome = 1"
| "browser_code Firefox = 2"
| "browser_code Edge = 3"
| "browser_code Brave = 5"
| "browser_code Vivaldi = 6"
| "browser_code Opera = 7"

record browser_env =
  bv_exists :: "string \<Rightarrow> bool"
  bv_is_dir :: "string \<Rightarrow> bool"
  bv_read :: "string \<Rightarrow> string option"
  bv_dir :: "string \<Rightarrow> string list option"
  bv_len :: "string \<Rightarrow> nat option"
  bv_copy_ok :: bool
  bv_home :: "string option"
  bv_tmp :: "string \<Rightarrow> string"
  bv_sqlite :: "string \<Rightarrow> string \<Rightarrow> string option"
  bv_sha256 :: "string \<Rightarrow> string"

record browser_profile =
  bp_name :: string
  bp_browser :: browser
  bp_history_db :: "string option"
  bp_downloads_db :: "string option"
  bp_extensions_dir :: "string option"
  bp_last_history_ts :: int
  bp_last_downloads_ts :: int

definition browser_configs :: "(string \<times> browser \<times> string \<times> string \<times> string) list" where
  "browser_configs =
     [(''google-chrome'', Chrome, ''History'', ''History'', ''.config''),
      (''chromium'', Chrome, ''History'', ''History'', ''.config''),
      (''BraveSoftware/Brave-Browser'', Brave, ''History'', ''History'', ''.config''),
      (''microsoft-edge'', Edge, ''History'', ''History'', ''.config''),
      (''vivaldi'', Vivaldi, ''History'', ''History'', ''.config''),
      (''opera'', Opera, ''History'', ''History'', ''.config''),
      (''mozilla/firefox'', Firefox, ''places.sqlite'', ''places.sqlite'', ''.''),
      (''snap/chromium/common/chromium'', Chrome, ''Default/History'', ''Default/History'', ''snap''),
      (''snap/firefox/common/.mozilla/firefox'', Firefox, ''places.sqlite'', ''places.sqlite'', ''snap''),
      (''snap/opera/common/opera'', Opera, ''History'', ''History'', ''snap''),
      (''snap/brave/common/brave'', Brave, ''History'', ''History'', ''snap''),
      (''var/app/com.google.Chrome/config/google-chrome'', Chrome, ''Default/History'', ''Default/History'',
       ''.local/share/flatpak/exports/share''),
      (''var/app/org.mozilla.firefox/.mozilla/firefox'', Firefox, ''places.sqlite'', ''places.sqlite'',
       ''.local/share/flatpak/exports/share'')]"

definition resolve_browser_base :: "browser_env \<Rightarrow> string \<Rightarrow> string \<Rightarrow> string \<Rightarrow> string" where
  "resolve_browser_base v home dir_name prefix =
     (if prefix = ''.config'' then path_join (path_join home ''.config'') dir_name
      else if prefix = ''.'' then path_join home (''.'' @ dir_name)
      else if prefix = ''snap'' then path_join home dir_name
      else if prefix = ''.local/share/flatpak/exports/share'' then
        (let flatpak_base = ''/var/lib/flatpak/exports/share'' in
         if bv_exists v (path_join flatpak_base dir_name) then path_join flatpak_base dir_name
         else path_join (path_join home ''.local/share/flatpak/exports/share'') dir_name)
      else path_join home dir_name)"

text \<open>The directories profiles.ini names.\<close>

definition ini_profiles :: "browser_env \<Rightarrow> string \<Rightarrow> string \<Rightarrow> string list" where
  "ini_profiles v base hist_file =
     (if bv_exists v (path_join base ''profiles.ini'') then
        (case bv_read v (path_join base ''profiles.ini'') of None \<Rightarrow> []
         | Some content \<Rightarrow> filter (\<lambda>abs. bv_exists v (path_join abs hist_file))
             (map (\<lambda>line. path_join base (drop 5 line)) (filter (\<lambda>line. starts_with line ''Path='') (str_lines content))))
      else [])"

definition discover_profiles :: "browser_env \<Rightarrow> string \<Rightarrow> string \<Rightarrow> string list" where
  "discover_profiles v base hist_file =
     (let default = path_join base ''Default'' in
      if bv_exists v (path_join default hist_file) then [default]
      else if ini_profiles v base hist_file \<noteq> [] then ini_profiles v base hist_file
      else filter (\<lambda>p. bv_is_dir v p \<and> bv_exists v (path_join p hist_file))
        (map (path_join base) (case bv_dir v base of None \<Rightarrow> [] | Some ns \<Rightarrow> ns)))"

definition profile_of :: "browser_env \<Rightarrow> string \<times> browser \<times> string \<times> string \<times> string \<Rightarrow> string \<Rightarrow> browser_profile" where
  "profile_of v = (\<lambda>(dir_name, browser, hist_file, dl_file, prefix) profile.
     \<lparr> bp_name = dir_name @ '':'' @ or_empty (path_file_name profile), bp_browser = browser,
       bp_history_db = Some (path_join profile hist_file),
       bp_downloads_db = (if bv_exists v (path_join profile dl_file) then Some (path_join profile dl_file) else None),
       bp_extensions_dir = Some (path_join profile ''Extensions''), bp_last_history_ts = 0, bp_last_downloads_ts = 0 \<rparr>)"

definition config_profiles :: "browser_env \<Rightarrow> string \<Rightarrow> string \<times> browser \<times> string \<times> string \<times> string \<Rightarrow> browser_profile list" where
  "config_profiles v home = (\<lambda>(dir_name, browser, hist_file, dl_file, prefix).
     let base = resolve_browser_base v home dir_name prefix in
     if bv_exists v base then map (profile_of v (dir_name, browser, hist_file, dl_file, prefix))
       (filter (\<lambda>p. bv_exists v (path_join p hist_file)) (discover_profiles v base hist_file))
     else [])"

definition find_profiles :: "browser_env \<Rightarrow> browser_profile list" where
  "find_profiles v = (let home = (case bv_home v of None \<Rightarrow> ''/home/user'' | Some h \<Rightarrow> h)
     in concat (map (config_profiles v home) browser_configs))"

section \<open>Readers\<close>

text \<open>\<open>str::parse::<i64>\<close>.\<close>

definition parse_i64 :: "string \<Rightarrow> int option" where
  "parse_i64 s = (case s of [] \<Rightarrow> None | c # cs \<Rightarrow>
     if c = CHR ''-'' then (if cs \<noteq> [] \<and> list_all is_digit cs \<and> digits_value cs \<le> 2 ^ 63 then Some (- int (digits_value cs)) else None)
     else map_option int (parse_nat (2 ^ 63) s))"

text \<open>Division of i64 truncates.\<close>

definition chrome_time_to_unix :: "int \<Rightarrow> int" where
  "chrome_time_to_unix ts = (if 1000000000000000 < ts
     then (let d = ts - 11644473600000000 in if 0 \<le> d then d div 1000000 else - (- d div 1000000)) else ts)"

text \<open>A row: the fields of a line, the third of which is its time.\<close>

definition row_fields :: "string \<Rightarrow> string list" where
  "row_fields line = str_split (\<lambda>c. c = CHR ''|'') line"

definition row_key :: "string list \<Rightarrow> string" where
  "row_key parts = parts ! 0 @ ''|'' @ parts ! 2"

definition row_time :: "string list \<Rightarrow> int" where
  "row_time parts = (case parse_i64 (str_trim (parts ! 2)) of None \<Rightarrow> 0 | Some ts \<Rightarrow> ts)"

text \<open>An entry: the first two fields and the Unix time.\<close>

type_synonym db_entry = "string \<times> string \<times> int"

text \<open>The loop over the lines: a new key gives an entry and may raise the latest time.\<close>

fun read_rows :: "(string list \<Rightarrow> bool) \<Rightarrow> string list \<Rightarrow> string set \<Rightarrow> int \<Rightarrow> db_entry list \<times> string set \<times> int" where
  "read_rows ok [] known max_ts = ([], known, max_ts)"
| "read_rows ok (line # lines) known max_ts =
     (let parts = row_fields line in
      if 3 \<le> length parts \<and> ok parts \<and> row_key parts \<notin> known then
        (case read_rows ok lines (insert (row_key parts) known) (max (row_time parts) max_ts) of (es, k, m) \<Rightarrow>
          ((parts ! 0, parts ! 1, chrome_time_to_unix (row_time parts)) # es, k, m))
      else read_rows ok lines known max_ts)"

definition read_db ::
    "(string list \<Rightarrow> bool) \<Rightarrow> string option \<Rightarrow> string set \<Rightarrow> int \<Rightarrow> db_entry list \<times> string set \<times> int" where
  "read_db ok output known last_ts = (case output of None \<Rightarrow> ([], known, last_ts)
     | Some text \<Rightarrow> read_rows ok (str_lines text) known last_ts)"

definition history_sql :: "int \<Rightarrow> string" where
  "history_sql ts = ''SELECT url, title, last_visit_time FROM urls WHERE last_visit_time > '' @ show_int ts
     @ '' ORDER BY last_visit_time DESC LIMIT 100;''"

definition read_history_incremental ::
    "browser_env \<Rightarrow> string \<Rightarrow> string set \<Rightarrow> int \<Rightarrow> db_entry list \<times> string set \<times> int" where
  "read_history_incremental v db known last_ts =
     read_db (\<lambda>parts. parts ! 0 \<noteq> []) (bv_sqlite v db (history_sql last_ts)) known last_ts"

definition downloads_sql :: "string \<Rightarrow> int \<Rightarrow> string" where
  "downloads_sql db ts = (if str_contains db ''places.sqlite''
     then ''SELECT content, url, dateAdded FROM moz_annos WHERE anno_attribute_id = 3 AND dateAdded > '' @ show_int ts
       @ '' ORDER BY dateAdded DESC LIMIT 50;''
     else ''SELECT target_path, tab_url, start_time FROM downloads WHERE start_time > '' @ show_int ts
       @ '' ORDER BY start_time DESC LIMIT 50;'')"

definition read_downloads_incremental ::
    "browser_env \<Rightarrow> string \<Rightarrow> string set \<Rightarrow> int \<Rightarrow> db_entry list \<times> string set \<times> int" where
  "read_downloads_incremental v db known last_ts =
     read_db (\<lambda>parts. True) (bv_sqlite v db (downloads_sql db last_ts)) known last_ts"

text \<open>A database that gives nothing may be locked: a copy is read, unless it is too large.\<close>

definition safe_read_db ::
    "browser_env \<Rightarrow> string \<Rightarrow> string set \<Rightarrow> int \<Rightarrow>
     (string \<Rightarrow> string set \<Rightarrow> int \<Rightarrow> db_entry list \<times> string set \<times> int) \<Rightarrow> db_entry list \<times> string set \<times> int" where
  "safe_read_db v db known last_ts query = (case query db known last_ts of (es, k, t) \<Rightarrow>
     if es \<noteq> [] \<or> \<not> bv_exists v db then (es, k, t)
     else if (case bv_len v db of None \<Rightarrow> False | Some n \<Rightarrow> MAX_DB_COPY_BYTES < n) then ([], k, t)
     else if bv_copy_ok v then query (bv_tmp v (or_empty (path_file_name db))) k t
     else ([], k, t))"

definition read_extensions :: "browser_env \<Rightarrow> string \<Rightarrow> string set \<Rightarrow> string list \<times> string set" where
  "read_extensions v d known = (if \<not> bv_exists v d then ([], known)
     else case bv_dir v d of None \<Rightarrow> ([], known) | Some ns \<Rightarrow> insert_new ns known)"

end
