(* ===== verification/Browser_Monitor.thy ===== *)
theory Browser_Monitor
  imports Browser
begin

text \<open>
  The browser collector, continued: URL and download checks, the events, the tracker of suspicious
  downloads, and the monitor.  A run gives the findings in order; their events are built from them.
\<close>

section \<open>Addresses\<close>

text \<open>\<open>str::parse::<IpAddr>\<close>: decimal octets without leading zeros, or groups of up to four
  hexadecimal digits with at most one gap, the last two groups perhaps as an IPv4 address.\<close>

definition is_octet :: "string \<Rightarrow> bool" where
  "is_octet s \<longleftrightarrow> s \<noteq> [] \<and> length s \<le> 3 \<and> list_all is_digit s \<and> digits_value s \<le> 255 \<and> (length s = 1 \<or> hd s \<noteq> CHR ''0'')"

definition is_ipv4 :: "string \<Rightarrow> bool" where
  "is_ipv4 s \<longleftrightarrow> (let parts = str_split (\<lambda>c. c = CHR ''.'') s in length parts = 4 \<and> list_all is_octet parts)"

definition is_hex_char :: "char \<Rightarrow> bool" where
  "is_hex_char c \<longleftrightarrow> is_digit c \<or> (let n = of_char (char_lower c) :: nat in 97 \<le> n \<and> n \<le> 102)"

definition is_hex_group :: "string \<Rightarrow> bool" where
  "is_hex_group s \<longleftrightarrow> s \<noteq> [] \<and> length s \<le> 4 \<and> list_all is_hex_char s"

text \<open>The number of groups of a sequence without a gap; \<open>v4\<close> allows an IPv4 address at its end.\<close>

definition hex_groups :: "bool \<Rightarrow> string \<Rightarrow> nat option" where
  "hex_groups v4 s = (if s = [] then Some 0
     else let parts = str_split (\<lambda>c. c = CHR '':'') s in
       if list_all is_hex_group (butlast parts) then
         (if is_hex_group (last parts) then Some (length parts)
          else if v4 \<and> is_ipv4 (last parts) then Some (Suc (length parts)) else None)
       else None)"

definition is_ipv6 :: "string \<Rightarrow> bool" where
  "is_ipv6 s \<longleftrightarrow> (case str_find s ''::'' of
       None \<Rightarrow> hex_groups True s = Some 8
     | Some i \<Rightarrow> (case (hex_groups False (take i s), hex_groups True (drop (i + 2) s)) of
         (Some a, Some b) \<Rightarrow> a + b \<le> 7 | _ \<Rightarrow> False))"

definition is_ip_addr :: "string \<Rightarrow> bool" where
  "is_ip_addr s \<longleftrightarrow> is_ipv4 s \<or> is_ipv6 s"

section \<open>Checks\<close>

definition is_malicious_extension :: "string \<Rightarrow> bool" where
  "is_malicious_extension i \<longleftrightarrow> i \<in> set MALICIOUS_EXTENSIONS"

text \<open>The host of a URL: the second piece between the scheme separators, or all of it, up to a slash.\<close>

definition url_host :: "string \<Rightarrow> string" where
  "url_host url = takeWhile (\<lambda>c. c \<noteq> CHR ''/'') (case str_find url ''://'' of None \<Rightarrow> url
     | Some i \<Rightarrow> (let rest = drop (i + 3) url in case str_find rest ''://'' of None \<Rightarrow> rest | Some j \<Rightarrow> take j rest))"

definition url_has_ip_address :: "string \<Rightarrow> bool" where
  "url_has_ip_address url \<longleftrightarrow> is_ip_addr (url_host url)"

definition url_has_suspicious_tld :: "string \<Rightarrow> bool" where
  "url_has_suspicious_tld url \<longleftrightarrow> list_ex (ends_with (url_host (to_lowercase url))) SUSPICIOUS_TLDS"

definition is_dangerous_download :: "string \<Rightarrow> bool" where
  "is_dangerous_download path \<longleftrightarrow> list_ex (ends_with (to_lowercase path)) DANGEROUS_EXTENSIONS"

section \<open>Events\<close>

definition browser_event_of :: "string \<Rightarrow> string \<Rightarrow> severity \<Rightarrow> u32 \<Rightarrow> browser_event \<Rightarrow> string list \<Rightarrow> event" where
  "browser_event_of ulid ty sev risk payload tags = event_default \<lparr> ev_id := ulid, ev_type := ty, ev_source := ''browser'',
     ev_severity := severity_i32 sev, ev_risk_score := risk, ev_host_id := [], ev_schema_version := 1,
     ev_payload := Some (BrowserPayload payload), ev_tags := tags \<rparr>"

definition navigation_risk :: "string \<Rightarrow> u32" where
  "navigation_risk url = 5 + (if url_has_ip_address url then 15 else 0) + (if url_has_suspicious_tld url then 10 else 0)"

definition navigation_tags :: "string \<Rightarrow> string list" where
  "navigation_tags url = [''browser''] @ (if url_has_ip_address url then [''ip_url''] else [])
     @ (if url_has_suspicious_tld url then [''suspicious_tld''] else [])"

definition navigation_to_event :: "string \<Rightarrow> string \<Rightarrow> string \<Rightarrow> browser \<Rightarrow> event" where
  "navigation_to_event ulid url title browser = browser_event_of ulid ''sentinel.browser.navigation''
     (if 10 < navigation_risk url then Notice else Debug) (navigation_risk url)
     (browser_event_default \<lparr> be_browser := browser_code browser, be_action := 1, be_url := url, be_title := title \<rparr>)
     (navigation_tags url)"

text \<open>The risk and the tags of a download; \<open>hash\<close> is empty when the file is gone.\<close>

definition download_risk :: "string \<Rightarrow> string \<Rightarrow> string \<Rightarrow> u32" where
  "download_risk path url hash = (if is_dangerous_download path then 30 + 15 else 10)
     + (if hash \<noteq> [] then 10 else 0) + (if url_has_ip_address url then 5 else 0)"

definition download_tags :: "string \<Rightarrow> string \<Rightarrow> string \<Rightarrow> string list" where
  "download_tags path url hash = [''browser'', ''download''] @ (if is_dangerous_download path then [''dangerous_ext''] else [])
     @ (if hash \<noteq> [] then [''hashed''] else []) @ (if url_has_ip_address url then [''ip_url''] else [])"

definition download_to_event :: "string \<Rightarrow> string \<Rightarrow> string \<Rightarrow> string \<Rightarrow> browser \<Rightarrow> event" where
  "download_to_event ulid path url hash browser = browser_event_of ulid ''sentinel.browser.download_complete''
     (if 30 < download_risk path url hash then Warning else Notice) (download_risk path url hash)
     (browser_event_default \<lparr> be_browser := browser_code browser, be_action := 3, be_url := url,
       be_download_path := path, be_download_hash := hash \<rparr>)
     (download_tags path url hash)"

definition extension_to_event :: "string \<Rightarrow> string \<Rightarrow> browser \<Rightarrow> event" where
  "extension_to_event ulid ext browser = browser_event_of ulid ''sentinel.browser.extension_install''
     (if is_malicious_extension ext then Warning else Notice) (if is_malicious_extension ext then 80 else 20)
     (browser_event_default \<lparr> be_browser := browser_code browser, be_action := 4, be_extension_id := ext, be_extension_name := ext \<rparr>)
     ([''browser'', ''extension''] @ (if is_malicious_extension ext then [''malicious_extension''] else []))"

section \<open>Suspicious downloads\<close>

text \<open>\<open>ts - t\<close> is computed in 64 bits.\<close>

definition i64_sub :: "int \<Rightarrow> int \<Rightarrow> int" where
  "i64_sub a b = sint (word_of_int (a - b) :: u64)"

type_synonym download_records = "(string \<times> int) list"

definition tracker_record :: "string \<Rightarrow> int \<Rightarrow> download_records \<Rightarrow> nat option \<times> download_records" where
  "tracker_record path ts records =
     (if \<not> is_dangerous_download path then (None, records)
      else let records' = filter (\<lambda>(_, t). i64_sub ts t < SUSPICIOUS_DL_WINDOW) records @ [(path, ts)]
        in (if SUSPICIOUS_DL_THRESHOLD \<le> length records' then Some (length records') else None, records'))"

section \<open>The monitor\<close>

datatype browser_finding =
  Found_Navigation string string browser
| Found_Download string string string browser "nat option"
| Found_Extension string browser

fun finding_event :: "string \<Rightarrow> browser_finding \<Rightarrow> event" where
  "finding_event ulid (Found_Navigation url title b) = navigation_to_event ulid url title b"
| "finding_event ulid (Found_Download path url hash b suspicious) =
     (let e = download_to_event ulid path url hash b in case suspicious of None \<Rightarrow> e
      | Some n \<Rightarrow> e\<lparr> ev_severity := severity_i32 Warning, ev_risk_score := 60,
                     ev_tags := ev_tags e @ [''suspicious_downloads:'' @ show_nat n] \<rparr>)"
| "finding_event ulid (Found_Extension ext b) = extension_to_event ulid ext b"

record browser_state =
  bs_urls :: "string set"
  bs_downloads :: "string set"
  bs_extensions :: "string set"
  bs_profile_ts :: "string \<rightharpoonup> int \<times> int"
  bs_tracker :: download_records

definition browser_state_init :: browser_state where
  "browser_state_init = \<lparr> bs_urls = {}, bs_downloads = {}, bs_extensions = {}, bs_profile_ts = Map.empty, bs_tracker = [] \<rparr>"

text \<open>\<open>compute_sha256\<close> of the file if it exists.\<close>

definition download_hash :: "browser_env \<Rightarrow> string \<Rightarrow> string" where
  "download_hash v path = (if bv_exists v path then bv_sha256 v path else [])"

fun report_downloads ::
    "browser_env \<Rightarrow> browser \<Rightarrow> db_entry list \<Rightarrow> download_records \<Rightarrow> browser_finding list \<times> download_records" where
  "report_downloads v b [] records = ([], records)"
| "report_downloads v b ((path, url, ts) # es) records = (case tracker_record path ts records of (n, r) \<Rightarrow>
     case report_downloads v b es r of (fs, r') \<Rightarrow> (Found_Download path url (download_hash v path) b n # fs, r'))"

definition scan_history ::
    "browser_env \<Rightarrow> browser_profile \<Rightarrow> int \<Rightarrow> browser_state \<Rightarrow> browser_finding list \<times> int \<times> browser_state" where
  "scan_history v p ts s = (case bp_history_db p of None \<Rightarrow> ([], ts, s)
     | Some db \<Rightarrow> (case safe_read_db v db (bs_urls s) ts (read_history_incremental v) of (es, k, t) \<Rightarrow>
         (map (\<lambda>(url, title, _). Found_Navigation url title (bp_browser p)) es, t, s\<lparr> bs_urls := k \<rparr>)))"

definition scan_downloads ::
    "browser_env \<Rightarrow> browser_profile \<Rightarrow> int \<Rightarrow> browser_state \<Rightarrow> browser_finding list \<times> int \<times> browser_state" where
  "scan_downloads v p ts s = (case bp_downloads_db p of None \<Rightarrow> ([], ts, s)
     | Some db \<Rightarrow> (case safe_read_db v db (bs_downloads s) ts (read_downloads_incremental v) of (es, k, t) \<Rightarrow>
         case report_downloads v (bp_browser p) es (bs_tracker s) of (fs, r) \<Rightarrow>
         (fs, t, s\<lparr> bs_downloads := k, bs_tracker := r \<rparr>)))"

definition scan_extensions :: "browser_env \<Rightarrow> browser_profile \<Rightarrow> browser_state \<Rightarrow> browser_finding list \<times> browser_state" where
  "scan_extensions v p s = (case bp_extensions_dir p of None \<Rightarrow> ([], s)
     | Some d \<Rightarrow> (case read_extensions v d (bs_extensions s) of (ns, k) \<Rightarrow>
         (map (\<lambda>n. Found_Extension n (bp_browser p)) ns, s\<lparr> bs_extensions := k \<rparr>)))"

definition scan_profile :: "browser_env \<Rightarrow> browser_profile \<Rightarrow> browser_state \<Rightarrow> browser_finding list \<times> browser_state" where
  "scan_profile v p s =
     (case (case bs_profile_ts s (bp_name p) of None \<Rightarrow> (0, 0) | Some x \<Rightarrow> x) of (hist_ts, dl_ts) \<Rightarrow>
      case scan_history v p hist_ts s of (navs, hist_ts', s1) \<Rightarrow>
      case scan_downloads v p dl_ts s1 of (dls, dl_ts', s2) \<Rightarrow>
      case scan_extensions v p s2 of (exts, s3) \<Rightarrow>
      (navs @ dls @ exts, s3\<lparr> bs_profile_ts := (bs_profile_ts s3)(bp_name p \<mapsto> (hist_ts', dl_ts')) \<rparr>))"

fun scan_profiles :: "browser_env \<Rightarrow> browser_profile list \<Rightarrow> browser_state \<Rightarrow> browser_finding list \<times> browser_state" where
  "scan_profiles v [] s = ([], s)"
| "scan_profiles v (p # ps) s = (case scan_profile v p s of (fs, s') \<Rightarrow>
     case scan_profiles v ps s' of (gs, s'') \<Rightarrow> (fs @ gs, s''))"

fun browser_ticks :: "browser_env list \<Rightarrow> browser_state \<Rightarrow> browser_finding list \<times> browser_state" where
  "browser_ticks [] s = ([], s)"
| "browser_ticks (v # vs) s = (case scan_profiles v (find_profiles v) s of (fs, s') \<Rightarrow>
     case browser_ticks vs s' of (gs, s'') \<Rightarrow> (fs @ gs, s''))"

text \<open>A publication: an event is counted, but of the navigations only those the bus refuses.\<close>

fun counts_event :: "bool \<Rightarrow> browser_finding \<Rightarrow> bool" where
  "counts_event taken (Found_Navigation _ _ _) \<longleftrightarrow> \<not> taken"
| "counts_event taken _ \<longleftrightarrow> True"

fun publish_findings ::
    "(string \<times> bool \<times> datetime) list \<Rightarrow> browser_finding list \<Rightarrow> collector_registry \<Rightarrow> event list \<times> collector_registry" where
  "publish_findings ((ulid, taken, now) # ps) (f # fs) reg =
     (case publish_findings ps fs (if counts_event taken f then collector_increment_events now ''browser'' 1 reg else reg) of
        (es, r) \<Rightarrow> (finding_event ulid f # es, r))"
| "publish_findings _ _ reg = ([], reg)"

definition start_browser_monitor ::
    "datetime \<Rightarrow> bool \<Rightarrow> (string \<times> bool \<times> datetime) list \<Rightarrow> browser_env list \<Rightarrow> collector_registry \<Rightarrow> event list \<times> collector_registry" where
  "start_browser_monitor now sqlite3_available ps ticks reg =
     (let reg' = collector_register reg (collector_status_new now ''browser'' ''Browser Monitor'' ''Browser history + downloads + extensions'')
      in if \<not> sqlite3_available then ([], collector_update_state ''browser'' ''error'' reg')
         else publish_findings ps (fst (browser_ticks ticks browser_state_init)) reg')"

section \<open>The window of suspicious downloads\<close>

lemma i64_sub_small: "\<bar>a\<bar> \<le> 2 ^ 62 \<Longrightarrow> \<bar>b\<bar> < 2 ^ 62 \<Longrightarrow> i64_sub a b = a - b"
  unfolding i64_sub_def sint_sbintrunc' by (simp add: signed_take_bit_int_eq_self)

lemma tracker_record_later:
  assumes "is_dangerous_download path" and "\<bar>ts\<bar> < 2 ^ 62"
    and "list_all (\<lambda>(_, t). ts \<le> t \<and> \<bar>t\<bar> < 2 ^ 62) records"
  shows "tracker_record path ts records =
    (if 2 \<le> length records then Some (Suc (length records)) else None, records @ [(path, ts)])"
proof -
  have "filter (\<lambda>(_, t). i64_sub ts t < SUSPICIOUS_DL_WINDOW) records = records"
    using assms(2,3) by (auto simp: filter_id_conv list_all_iff i64_sub_small)
  then show ?thesis
    using assms(1) by (simp add: tracker_record_def Let_def numeral_3_eq_3 numeral_2_eq_2)
qed

text \<open>A batch of dangerous downloads in descending order of time, as the query returns it.\<close>

definition descending_downloads :: "db_entry list \<Rightarrow> bool" where
  "descending_downloads es \<longleftrightarrow> list_all (\<lambda>(path, url, ts). is_dangerous_download path \<and> \<bar>ts\<bar> < 2 ^ 62) es
     \<and> sorted_wrt (\<lambda>(_, _, t) (_, _, t'). t' \<le> t) es"

lemma report_descending:
  assumes "descending_downloads es"
    and "list_all (\<lambda>(_, t). \<bar>t\<bar> < 2 ^ 62 \<and> list_all (\<lambda>(_, _, t'). t' \<le> t) es) records"
  shows "fst (report_downloads v b es records) =
    map (\<lambda>(i, path, url, ts). Found_Download path url (download_hash v path) b (if 2 \<le> i then Some (Suc i) else None))
      (enumerate (length records) es)"
  using assms
proof (induction es arbitrary: records)
  case (Cons e es)
  obtain path url ts where e: "e = (path, url, ts)" by (cases e)
  have r: "tracker_record path ts records =
    (if 2 \<le> length records then Some (Suc (length records)) else None, records @ [(path, ts)])"
    using Cons.prems by (intro tracker_record_later) (auto simp: e descending_downloads_def list_all_iff)
  have "fst (report_downloads v b es (records @ [(path, ts)])) =
    map (\<lambda>(i, path, url, ts). Found_Download path url (download_hash v path) b (if 2 \<le> i then Some (Suc i) else None))
      (enumerate (length (records @ [(path, ts)])) es)"
    using Cons.prems by (intro Cons.IH) (auto simp: e descending_downloads_def list_all_iff)
  then show ?case by (simp add: e r case_prod_beta)
qed simp

text \<open>
  The window of five minutes is not kept.  The query returns the latest download first, and the
  tracker drops only records that are older than the current one, so in a batch nothing is dropped:
  from the third dangerous download on every one is reported as part of a burst, even years apart.
\<close>

theorem burst_without_window:
  assumes "descending_downloads es"
  shows "fst (report_downloads v b es []) =
    map (\<lambda>(i, path, url, ts). Found_Download path url (download_hash v path) b (if 2 \<le> i then Some (Suc i) else None))
      (enumerate 0 es)"
  using report_descending [OF assms, of "[]"] by simp

definition sample_browser :: browser_env where
  "sample_browser = \<lparr> bv_exists = (\<lambda>_. False), bv_is_dir = (\<lambda>_. False), bv_read = (\<lambda>_. None), bv_dir = (\<lambda>_. None),
     bv_len = (\<lambda>_. None), bv_copy_ok = True, bv_home = None, bv_tmp = (\<lambda>n. n), bv_sqlite = (\<lambda>_ _. None), bv_sha256 = (\<lambda>_. []) \<rparr>"

text \<open>Three installers, fetched in 2023, 2020 and 2017.\<close>

lemma burst_without_window_witness:
  "last (fst (report_downloads sample_browser Chrome
     [(''a.deb'', [], 1700000000), (''b.deb'', [], 1600000000), (''c.deb'', [], 1500000000)] []))
   = Found_Download ''c.deb'' [] [] Chrome (Some 3)"
proof -
  have "is_dangerous_download ''a.deb''" "is_dangerous_download ''b.deb''" "is_dangerous_download ''c.deb''"
    by code_simp+
  then have "descending_downloads [(''a.deb'', [], 1700000000), (''b.deb'', [], 1600000000), (''c.deb'', [], 1500000000)]"
    by (simp add: descending_downloads_def)
  from burst_without_window [OF this, of sample_browser Chrome] show ?thesis
    by (simp add: download_hash_def sample_browser_def numeral_2_eq_2)
qed

text \<open>In ascending order the window is exact: only downloads of the last five minutes count.\<close>

lemma tracker_record_window:
  assumes "is_dangerous_download path" and "\<bar>ts\<bar> < 2 ^ 62" and "list_all (\<lambda>(_, t). \<bar>t\<bar> < 2 ^ 62) records"
  shows "snd (tracker_record path ts records) = filter (\<lambda>(_, t). ts - 300 < t) records @ [(path, ts)]"
proof -
  have "filter (\<lambda>(_, t). i64_sub ts t < SUSPICIOUS_DL_WINDOW) records = filter (\<lambda>(_, t). ts - 300 < t) records"
    using assms(2,3) by (intro filter_cong) (auto simp: list_all_iff i64_sub_small)
  then show ?thesis
    using assms(1) by (simp add: tracker_record_def Let_def)
qed

section \<open>Addresses with a port\<close>

lemma set_str_join: "set (str_join ''.'' ws) \<subseteq> insert (CHR ''.'') (\<Union>w\<in>set ws. set w)"
  by (induction "''.''" ws rule: str_join.induct) auto

lemma is_ipv4_chars:
  assumes "is_ipv4 s" and "c \<in> set s"
  shows "is_digit c \<or> c = CHR ''.''"
proof -
  have "c \<in> set (str_join ''.'' (str_split (\<lambda>c. c = CHR ''.'') s))"
    using assms(2) by (simp only: str_join_split)
  then have "c = CHR ''.'' \<or> (\<exists>w\<in>set (str_split (\<lambda>c. c = CHR ''.'') s). c \<in> set w)"
    using set_str_join by fastforce
  then show ?thesis
    using assms(1) by (auto simp: is_ipv4_def is_octet_def list_all_iff Let_def)
qed

lemma digit_no_colon: "is_digit c \<Longrightarrow> c \<noteq> CHR '':''" and digit_no_slash: "is_digit c \<Longrightarrow> c \<noteq> CHR ''/''"
  by (auto simp: is_digit_def)

lemma str_find_split: "str_find s p = Some i \<Longrightarrow> \<exists>u w. s = u @ p @ w"
  using str_find_Some [of s p i] by (metis append_take_drop_id)

text \<open>With one colon only, what follows it decides whether a pattern that starts with a colon occurs.\<close>

lemma one_colon:
  assumes "CHR '':'' \<notin> set h" and "CHR '':'' \<notin> set t" and "h @ CHR '':'' # t = u @ CHR '':'' # w"
  shows "t = w"
  using append_Cons_eq_iff [OF assms(1,2), of u w] assms(3) by simp

lemma ipv4_with_port_no_address:
  assumes "is_ipv4 h" and "list_all is_digit port"
  shows "\<not> is_ip_addr (h @ CHR '':'' # port)"
proof -
  let ?s = "h @ CHR '':'' # port"
  have h: "CHR '':'' \<notin> set h" and p: "CHR '':'' \<notin> set port"
    using is_ipv4_chars [OF assms(1)] assms(2) digit_no_colon by (auto simp: list_all_iff)
  have "\<not> is_ipv4 ?s"
    using is_ipv4_chars [of ?s "CHR '':''"] by (auto simp: is_digit_def)
  moreover have "str_find ?s ''::'' = None"
  proof (cases "str_find ?s ''::''")
    case (Some i)
    then obtain u w where "?s = u @ CHR '':'' # CHR '':'' # w"
      using str_find_split by fastforce
    from one_colon [OF h p this] p show ?thesis by simp
  qed
  moreover have "str_split (\<lambda>c. c = CHR '':'') ?s = [h, port]"
    using h p by (subst str_split_append) (auto intro: str_split_single)
  ultimately show ?thesis
    by (auto simp: is_ip_addr_def is_ipv6_def hex_groups_def Let_def split: if_splits)
qed

text \<open>
  A page at a numeric address with a port is not noticed: http://<address>:<port>/<path> is
  reported like any other page, although the address alone would be flagged.
\<close>

theorem address_with_port_not_flagged:
  assumes "is_ipv4 h" and "list_all is_digit port" and "port \<noteq> []" and "CHR '':'' \<notin> set path"
  shows "\<not> url_has_ip_address (''http://'' @ h @ CHR '':'' # port @ CHR ''/'' # path) \<and> url_has_ip_address (''http://'' @ h @ CHR ''/'' # path)"
proof -
  have slash: "CHR ''/'' \<notin> set h" "CHR ''/'' \<notin> set port" and h: "CHR '':'' \<notin> set h" and p: "CHR '':'' \<notin> set port"
    using is_ipv4_chars [OF assms(1)] assms(2) digit_no_slash digit_no_colon by (auto simp: list_all_iff)
  have host: "url_host (''http://'' @ r) = takeWhile (\<lambda>c. c \<noteq> CHR ''/'') r" if "str_find r ''://'' = None" for r
    using that by (simp add: url_host_def starts_with_def Let_def)
  have "str_find (h @ CHR '':'' # port @ CHR ''/'' # path) ''://'' = None"
  proof (cases "str_find (h @ CHR '':'' # port @ CHR ''/'' # path) ''://''")
    case (Some i)
    then obtain u w where "h @ CHR '':'' # port @ CHR ''/'' # path = u @ CHR '':'' # ''//'' @ w"
      using str_find_split by fastforce
    from one_colon [OF h _ this] p assms(4) have "port @ CHR ''/'' # path = ''//'' @ w" by simp
    with assms(3) slash(2) show ?thesis by (cases port) auto
  qed
  moreover have "str_find (h @ CHR ''/'' # path) ''://'' = None"
  proof (cases "str_find (h @ CHR ''/'' # path) ''://''")
    case (Some i)
    then obtain u w where "h @ CHR ''/'' # path = u @ ''://'' @ w"
      using str_find_split by fastforce
    then have "CHR '':'' \<in> set (h @ CHR ''/'' # path)" by simp
    with h assms(4) show ?thesis by simp
  qed
  moreover have "takeWhile (\<lambda>c. c \<noteq> CHR ''/'') (h @ CHR '':'' # port @ CHR ''/'' # path) = h @ CHR '':'' # port"
    "takeWhile (\<lambda>c. c \<noteq> CHR ''/'') (h @ CHR ''/'' # path) = h"
    using slash by (simp_all add: takeWhile_append)
  ultimately show ?thesis
    using ipv4_with_port_no_address [OF assms(1,2)] assms(1)
    by (simp only: url_has_ip_address_def host) (simp add: is_ip_addr_def)
qed

lemma address_with_port_not_flagged_witness:
  "\<not> url_has_ip_address ''http://192.168.1.1:8080/admin''"
proof -
  have "is_ipv4 ''192.168.1.1''" by code_simp
  moreover have "list_all is_digit ''8080''" by code_simp
  ultimately show ?thesis
    using address_with_port_not_flagged [of "''192.168.1.1''" "''8080''" "''admin''"] by simp
qed

section \<open>Every row and every extension once\<close>

text \<open>Of a list, the first element with each key that is not known yet.\<close>

fun first_by :: "('a \<Rightarrow> 'b) \<Rightarrow> 'a list \<Rightarrow> 'b set \<Rightarrow> 'a list" where
  "first_by key [] known = []"
| "first_by key (x # xs) known =
     (if key x \<in> known then first_by key xs known else x # first_by key xs (insert (key x) known))"

lemma first_by_append: "first_by key (xs @ ys) known = first_by key xs known @ first_by key ys (known \<union> key ` set xs)"
  by (induction xs arbitrary: known) (auto simp: insert_absorb)

lemma first_by_keys: "distinct (map key (first_by key xs known)) \<and> key ` set (first_by key xs known) = key ` set xs - known"
  by (induction xs arbitrary: known) auto

lemma insert_new_first_by: "insert_new xs known = (first_by (\<lambda>x. x) xs known, known \<union> set xs)"
  by (induction xs arbitrary: known) (auto simp: insert_absorb)

text \<open>The rows of a text that the readers take: three fields at least, and what the query asks for.\<close>

definition valid_rows :: "(string list \<Rightarrow> bool) \<Rightarrow> string list \<Rightarrow> string list list" where
  "valid_rows ok ls = filter (\<lambda>parts. 3 \<le> length parts \<and> ok parts) (map row_fields ls)"

text \<open>Address and title, of a row and of an entry.\<close>

abbreviation row_page :: "string list \<Rightarrow> string \<times> string" where
  "row_page parts \<equiv> (parts ! 0, parts ! 1)"

abbreviation entry_page :: "db_entry \<Rightarrow> string \<times> string" where
  "entry_page e \<equiv> (fst e, fst (snd e))"

lemma read_rows_first_by:
  "read_rows ok ls known m = (es, k, t) \<Longrightarrow>
     map entry_page es = map row_page (first_by row_key (valid_rows ok ls) known) \<and> k = known \<union> row_key ` set (valid_rows ok ls)"
proof (induction ok ls known m arbitrary: es k t rule: read_rows.induct)
  case (2 ok line lines known m)
  let ?parts = "row_fields line"
  show ?case
  proof (cases "3 \<le> length ?parts \<and> ok ?parts \<and> row_key ?parts \<notin> known")
    case True
    obtain es' where r: "read_rows ok lines (insert (row_key ?parts) known) (max (row_time ?parts) m) = (es', k, t)"
      "es = (?parts ! 0, ?parts ! 1, chrome_time_to_unix (row_time ?parts)) # es'"
      using "2.prems"(1) True by (auto simp: Let_def split: prod.splits)
    from "2.IH"(1) [OF refl True r(1)] True show ?thesis
      by (auto simp: r(2) valid_rows_def)
  next
    case False
    with "2.prems" "2.IH"(2) [OF refl False] show ?thesis by (auto simp: Let_def valid_rows_def)
  qed
qed (simp add: valid_rows_def)

text \<open>What sqlite3 returns to the history query of a database, and to the query of the copy when there is one.\<close>

definition history_rows :: "browser_env \<Rightarrow> string \<Rightarrow> int \<Rightarrow> string list list" where
  "history_rows v db ts = (case bv_sqlite v db (history_sql ts) of None \<Rightarrow> []
     | Some output \<Rightarrow> valid_rows (\<lambda>parts. parts ! 0 \<noteq> []) (str_lines output))"

definition database_rows :: "browser_env \<Rightarrow> string \<Rightarrow> string set \<Rightarrow> int \<Rightarrow> string list list" where
  "database_rows v db known ts = (case read_history_incremental v db known ts of (es, k, t) \<Rightarrow>
     history_rows v db ts @ (if es = [] \<and> bv_exists v db \<and> \<not> (case bv_len v db of None \<Rightarrow> False | Some n \<Rightarrow> MAX_DB_COPY_BYTES < n)
         \<and> bv_copy_ok v
       then history_rows v (bv_tmp v (or_empty (path_file_name db))) t else []))"

lemma read_history_first_by:
  assumes "read_history_incremental v db known m = (es, k, t)"
  shows "map entry_page es = map row_page (first_by row_key (history_rows v db m) known) \<and> k = known \<union> row_key ` set (history_rows v db m)"
proof (cases "bv_sqlite v db (history_sql m)")
  case None
  with assms show ?thesis by (auto simp: read_history_incremental_def read_db_def history_rows_def)
next
  case (Some content)
  with assms have "read_rows (\<lambda>parts. parts ! 0 \<noteq> []) (str_lines content) known m = (es, k, t)"
    by (simp add: read_history_incremental_def read_db_def)
  from read_rows_first_by [OF this] Some show ?thesis by (simp add: history_rows_def)
qed

lemma safe_read_first_by:
  assumes "safe_read_db v db known m (read_history_incremental v) = (es, k, t)"
  shows "map entry_page es = map row_page (first_by row_key (database_rows v db known m) known)
    \<and> k = known \<union> row_key ` set (database_rows v db known m)"
proof -
  obtain es1 k1 t1 where q: "read_history_incremental v db known m = (es1, k1, t1)" by (cases "read_history_incremental v db known m")
  note one = read_history_first_by [OF q]
  let ?again = "es1 = [] \<and> bv_exists v db \<and> \<not> (case bv_len v db of None \<Rightarrow> False | Some n \<Rightarrow> MAX_DB_COPY_BYTES < n) \<and> bv_copy_ok v"
  let ?copy = "bv_tmp v (or_empty (path_file_name db))"
  show ?thesis
  proof (cases ?again)
    case True
    then have again: "read_history_incremental v ?copy k1 t1 = (es, k, t)"
      using assms by (simp add: safe_read_db_def q)
    have "first_by row_key (history_rows v db m) known = []" using one True by simp
    with read_history_first_by [OF again] one True show ?thesis
      by (simp add: database_rows_def q first_by_append image_Un Un_assoc)
  next
    case False
    then have "(es, k, t) = (es1, k1, t1)"
      using assms by (auto simp: safe_read_db_def q split: if_splits)
    moreover have "database_rows v db known m = history_rows v db m"
      using False by (auto simp: database_rows_def q)
    ultimately show ?thesis using one by simp
  qed
qed

fun navigation_of :: "browser_finding \<Rightarrow> (string \<times> string) option" where
  "navigation_of (Found_Navigation url title _) = Some (url, title)"
| "navigation_of _ = None"

fun extension_of :: "browser_finding \<Rightarrow> string option" where
  "extension_of (Found_Extension n _) = Some n"
| "extension_of _ = None"

text \<open>All rows that a run is given by sqlite3 for its history queries, and all names of extension directories that
  it lists, in order.\<close>

definition profile_times :: "browser_profile \<Rightarrow> browser_state \<Rightarrow> int \<times> int" where
  "profile_times p s = (case bs_profile_ts s (bp_name p) of None \<Rightarrow> (0, 0) | Some x \<Rightarrow> x)"

definition profile_rows :: "browser_env \<Rightarrow> browser_profile \<Rightarrow> browser_state \<Rightarrow> string list list" where
  "profile_rows v p s = (case bp_history_db p of None \<Rightarrow> [] | Some db \<Rightarrow> database_rows v db (bs_urls s) (fst (profile_times p s)))"

definition profile_extensions :: "browser_env \<Rightarrow> browser_profile \<Rightarrow> string list" where
  "profile_extensions v p = (case bp_extensions_dir p of None \<Rightarrow> []
     | Some d \<Rightarrow> if bv_exists v d then (case bv_dir v d of None \<Rightarrow> [] | Some ns \<Rightarrow> ns) else [])"

fun profiles_rows :: "browser_env \<Rightarrow> browser_profile list \<Rightarrow> browser_state \<Rightarrow> string list list" where
  "profiles_rows v [] s = []"
| "profiles_rows v (p # ps) s = profile_rows v p s @ profiles_rows v ps (snd (scan_profile v p s))"

fun run_rows :: "browser_env list \<Rightarrow> browser_state \<Rightarrow> string list list" where
  "run_rows [] s = []"
| "run_rows (v # vs) s = profiles_rows v (find_profiles v) s @ run_rows vs (snd (scan_profiles v (find_profiles v) s))"

definition run_extensions :: "browser_env list \<Rightarrow> string list" where
  "run_extensions vs = concat (map (\<lambda>v. concat (map (profile_extensions v) (find_profiles v))) vs)"

text \<open>What a part of a run did with the rows and names it was given.\<close>

definition accounted :: "browser_state \<Rightarrow> string list list \<Rightarrow> string list \<Rightarrow> browser_finding list \<Rightarrow> browser_state \<Rightarrow> bool" where
  "accounted s rows names fs s' \<longleftrightarrow>
     List.map_filter navigation_of fs = map row_page (first_by row_key rows (bs_urls s)) \<and> bs_urls s' = bs_urls s \<union> row_key ` set rows
     \<and> List.map_filter extension_of fs = first_by (\<lambda>n. n) names (bs_extensions s) \<and> bs_extensions s' = bs_extensions s \<union> set names"

lemma accounted_nothing: "accounted s [] [] [] s"
  by (simp add: accounted_def map_filter_simps)

lemma accounted_trans:
  assumes "accounted s rows names fs t" and "accounted t rows' names' gs u"
  shows "accounted s (rows @ rows') (names @ names') (fs @ gs) u"
  using assms by (simp add: accounted_def map_filter_def first_by_append image_Un Un_assoc)

lemma report_downloads_only:
  "report_downloads v b es r = (fs, r') \<Longrightarrow> List.map_filter navigation_of fs = [] \<and> List.map_filter extension_of fs = []"
  by (induction v b es r arbitrary: fs r' rule: report_downloads.induct) (auto simp: map_filter_simps split: prod.splits)

lemma history_findings:
  "List.map_filter navigation_of (map (\<lambda>(url, title, _). Found_Navigation url title b) es) = map entry_page es"
  "List.map_filter extension_of (map (\<lambda>(url, title, _). Found_Navigation url title b) es) = []"
  by (induction es) (auto simp: map_filter_simps)

lemma extension_findings:
  "List.map_filter navigation_of (map (\<lambda>n. Found_Extension n b) ns) = []"
  "List.map_filter extension_of (map (\<lambda>n. Found_Extension n b) ns) = ns"
  by (induction ns) (auto simp: map_filter_simps)

lemma scan_history_accounted:
  assumes "scan_history v p (fst (profile_times p s)) s = (fs, ts', s')"
  shows "accounted s (profile_rows v p s) [] fs s'"
proof (cases "bp_history_db p")
  case None
  with assms accounted_nothing show ?thesis by (simp add: scan_history_def profile_rows_def)
next
  case (Some db)
  let ?ts = "fst (profile_times p s)"
  obtain es k t where r: "safe_read_db v db (bs_urls s) ?ts (read_history_incremental v) = (es, k, t)"
    by (cases "safe_read_db v db (bs_urls s) ?ts (read_history_incremental v)")
  with assms Some have "fs = map (\<lambda>(url, title, _). Found_Navigation url title (bp_browser p)) es" "s' = s\<lparr> bs_urls := k \<rparr>"
    by (simp_all add: scan_history_def)
  with safe_read_first_by [OF r] Some show ?thesis
    by (simp add: accounted_def history_findings profile_rows_def)
qed

lemma scan_downloads_accounted: "scan_downloads v p ts s = (fs, ts', s') \<Longrightarrow> accounted s [] [] fs s'"
  using report_downloads_only by (fastforce simp: scan_downloads_def accounted_def map_filter_simps split: option.splits prod.splits)

lemma scan_extensions_accounted:
  assumes "scan_extensions v p s = (fs, s')"
  shows "accounted s [] (profile_extensions v p) fs s'"
proof (cases "bp_extensions_dir p")
  case None
  with assms accounted_nothing show ?thesis by (simp add: scan_extensions_def profile_extensions_def)
next
  case (Some d)
  have "read_extensions v d known = (first_by (\<lambda>n. n) (profile_extensions v p) known, known \<union> set (profile_extensions v p))" for known
  proof (cases "bv_exists v d")
    case True
    then show ?thesis
      using Some by (cases "bv_dir v d") (auto simp: read_extensions_def profile_extensions_def insert_new_first_by)
  next
    case False
    then show ?thesis using Some by (simp add: read_extensions_def profile_extensions_def)
  qed
  with assms Some show ?thesis
    by (auto simp: scan_extensions_def accounted_def extension_findings)
qed

lemma accounted_ts: "accounted s rows names fs (s'\<lparr> bs_profile_ts := x \<rparr>) \<longleftrightarrow> accounted s rows names fs s'"
  by (simp add: accounted_def)

lemma scan_profile_accounted: "accounted s (profile_rows v p s) (profile_extensions v p) (fst (scan_profile v p s)) (snd (scan_profile v p s))"
proof -
  obtain hist_ts dl_ts where ts: "profile_times p s = (hist_ts, dl_ts)" by fastforce
  obtain navs ts1 s1 where h: "scan_history v p hist_ts s = (navs, ts1, s1)" by (cases "scan_history v p hist_ts s")
  obtain dls ds1 s2 where d: "scan_downloads v p dl_ts s1 = (dls, ds1, s2)" by (cases "scan_downloads v p dl_ts s1")
  obtain exts s3 where e: "scan_extensions v p s2 = (exts, s3)" by fastforce
  have "scan_profile v p s = (navs @ dls @ exts, s3\<lparr> bs_profile_ts := (bs_profile_ts s3)(bp_name p \<mapsto> (ts1, ds1)) \<rparr>)"
    using ts h d e by (simp add: scan_profile_def profile_times_def)
  moreover have "accounted s (profile_rows v p s) [] navs s1"
    using scan_history_accounted [of v p s navs ts1 s1] h ts by simp
  note accounted_trans [OF this accounted_trans [OF scan_downloads_accounted [OF d] scan_extensions_accounted [OF e]]]
  ultimately show ?thesis by (simp add: accounted_ts)
qed

lemma scan_profiles_accounted:
  "accounted s (profiles_rows v ps s) (concat (map (profile_extensions v) ps)) (fst (scan_profiles v ps s)) (snd (scan_profiles v ps s))"
proof (induction ps arbitrary: s)
  case (Cons p ps)
  from accounted_trans [OF scan_profile_accounted Cons.IH, of s v p] show ?case
    by (simp add: case_prod_beta)
qed (simp add: accounted_nothing)

lemma browser_ticks_accounted:
  "accounted s (run_rows vs s) (run_extensions vs) (fst (browser_ticks vs s)) (snd (browser_ticks vs s))"
proof (induction vs arbitrary: s)
  case (Cons v vs)
  from accounted_trans [OF scan_profiles_accounted Cons.IH, of s v "find_profiles v"] show ?case
    by (simp add: case_prod_beta run_extensions_def)
qed (simp add: accounted_nothing run_extensions_def)


section \<open>Profiles that are missed\<close>

text \<open>With a history in the profile Default no other profile of the browser is looked at.\<close>

lemma default_profile_only:
  "bv_exists v (path_join (path_join base ''Default'') hist_file) \<Longrightarrow> discover_profiles v base hist_file = [path_join base ''Default'']"
  by (simp add: discover_profiles_def Let_def)

text \<open>The configurations of the Snap and Flatpak builds of Chromium name the file Default/History, which
  is then looked for inside the profile: the usual layout, base/Default/History, is never found.\<close>

lemma snap_chromium_never_found:
  assumes "\<And>p. bv_exists v (path_join (path_join base p) ''Default/History'') \<Longrightarrow> False"
    and "\<not> bv_exists v (path_join base ''profiles.ini'')"
  shows "discover_profiles v base ''Default/History'' = []"
  using assms by (auto simp: discover_profiles_def ini_profiles_def Let_def filter_empty_conv)

text \<open>The times of Firefox are microseconds of the Unix epoch; they are taken for times of Chrome.\<close>

lemma chrome_times: "0 \<le> s \<Longrightarrow> chrome_time_to_unix ((s + 11644473600) * 1000000) = s"
  by (simp add: chrome_time_to_unix_def Let_def)

lemma firefox_times: "1000000000 < s \<Longrightarrow> s < 11644473600 \<Longrightarrow> chrome_time_to_unix (s * 1000000) = s - 11644473600"
  by (simp add: chrome_time_to_unix_def Let_def)

end
