(* ===== verification/Ai_Engine.thy ===== *)
theory Ai_Engine
  imports Repositories Net_Events "HOL-Library.AList"
begin

text \<open>
  The AI engine (crates/sentinel-ai): its configuration from the environment, the prompts, the HTTP
  provider, the cache and the cleaning of responses.  A slice of a string at a byte that is not the
  start of a character panics, so the engine's calls have optional results.  What a provider answers,
  the times and the environment are parameters.
\<close>

section \<open>Configuration (lib.rs)\<close>

text \<open>The temperature is the exact value of the single precision number.\<close>

record llm_config =
  ac_provider :: string
  ac_host :: string
  ac_port :: u16
  ac_model :: string
  ac_temperature :: rat
  ac_timeout_secs :: u64
  ac_enabled :: bool
  ac_api_key :: "string option"
  ac_api_base :: "string option"

type_synonym environment = "string \<Rightarrow> string option"

definition env_or :: "environment \<Rightarrow> string \<Rightarrow> string \<Rightarrow> string" where
  "env_or env name d = (case env name of None \<Rightarrow> d | Some v \<Rightarrow> v)"

definition parse_bool :: "string \<Rightarrow> bool option" where
  "parse_bool s = (if s = ''true'' then Some True else if s = ''false'' then Some False else None)"

definition ai_config_default :: "environment \<Rightarrow> llm_config" where
  "ai_config_default env = (let provider = env_or env ''SENTINEL_AI_PROVIDER'' ''ollama'' in
     \<lparr> ac_provider = provider, ac_host = env_or env ''SENTINEL_AI_HOST'' ''localhost'',
       ac_port = (if provider = ''openrouter'' \<or> provider = ''openai'' then 443 else 11434),
       ac_model = env_or env ''SENTINEL_AI_MODEL'' (if provider = ''openrouter'' then ''openai/gpt-4o-mini''
         else if provider = ''openai'' then ''gpt-4o-mini'' else ''llama3.2:3b''),
       ac_temperature = 10066330 / 33554432, ac_timeout_secs = 60,
       ac_enabled = (case Option.bind (env ''SENTINEL_AI_ENABLED'') parse_bool of None \<Rightarrow> True | Some b \<Rightarrow> b),
       ac_api_key = env ''SENTINEL_AI_API_KEY'', ac_api_base = env ''SENTINEL_AI_API_BASE'' \<rparr>)"

section \<open>Providers (providers.rs)\<close>

datatype ai_error = Backend string | Timed_Out

definition ai_error_display :: "ai_error \<Rightarrow> string" where
  "ai_error_display e = (case e of Backend m \<Rightarrow> ''backend: '' @ m | Timed_Out \<Rightarrow> ''timeout'')"

record chat_message =
  cm_role :: string
  cm_content :: string

record chat_request =
  cr_url :: string
  cr_authorization :: string
  cr_model :: string
  cr_messages :: "chat_message list"
  cr_temperature :: rat

text \<open>What becomes of a request: too late, failed, refused with a status, answered with a body that
  cannot be read, or with the contents of its choices.\<close>

datatype chat_reply =
  Reply_Timeout
| Reply_Failed string
| Reply_Status string
| Reply_Unreadable string
| Reply_Choices "string option list"

datatype llm_provider = Http_Provider (hp_config: llm_config) (hp_url: string) | Ollama_Provider (op_config: llm_config)

definition for_openrouter :: "llm_config \<Rightarrow> llm_provider" where
  "for_openrouter c = Http_Provider c
     ((case ac_api_base c of None \<Rightarrow> ''https://openrouter.ai/api/v1'' | Some b \<Rightarrow> b) @ ''/chat/completions'')"

definition for_openai :: "llm_config \<Rightarrow> llm_provider" where
  "for_openai c = Http_Provider c
     ((case ac_api_base c of None \<Rightarrow> ''https://api.openai.com/v1'' | Some b \<Rightarrow> b) @ ''/chat/completions'')"

definition create_provider :: "llm_config \<Rightarrow> llm_provider" where
  "create_provider c = (if ac_provider c = ''openrouter'' then for_openrouter c
     else if ac_provider c = ''openai'' then for_openai c else Ollama_Provider c)"

definition http_request_of :: "llm_config \<Rightarrow> string \<Rightarrow> string \<Rightarrow> chat_request" where
  "http_request_of c url prompt = \<lparr> cr_url = url,
     cr_authorization = ''Bearer '' @ (case ac_api_key c of None \<Rightarrow> ''missing-api-key'' | Some k \<Rightarrow> k),
     cr_model = ac_model c,
     cr_messages = [\<lparr> cm_role = ''system'', cm_content = ''You are a helpful security analyst assistant. Be concise.'' \<rparr>,
                    \<lparr> cm_role = ''user'', cm_content = prompt \<rparr>],
     cr_temperature = ac_temperature c \<rparr>"

definition reply_result :: "chat_reply \<Rightarrow> ai_error + string" where
  "reply_result r = (case r of
       Reply_Timeout \<Rightarrow> Inl Timed_Out
     | Reply_Failed e \<Rightarrow> Inl (Backend e)
     | Reply_Status status \<Rightarrow> Inl (Backend (''HTTP '' @ status))
     | Reply_Unreadable e \<Rightarrow> Inl (Backend e)
     | Reply_Choices cs \<Rightarrow> Inr (case cs of Some content # _ \<Rightarrow> content | _ \<Rightarrow> ''(empty response)''))"

text \<open>\<open>generate\<close>: \<open>post\<close> answers a request, \<open>ollama\<close> a prompt for a model.\<close>

fun provider_generate ::
    "(chat_request \<Rightarrow> chat_reply) \<Rightarrow> (llm_config \<Rightarrow> string \<Rightarrow> ai_error + string) \<Rightarrow> llm_provider \<Rightarrow> string \<Rightarrow> ai_error + string" where
  "provider_generate post ollama (Http_Provider c url) prompt = reply_result (post (http_request_of c url prompt))"
| "provider_generate post ollama (Ollama_Provider c) prompt = ollama c prompt"

fun provider_available :: "(llm_config \<Rightarrow> bool) \<Rightarrow> llm_provider \<Rightarrow> bool" where
  "provider_available ping (Http_Provider c url) \<longleftrightarrow> ac_api_key c \<noteq> None"
| "provider_available ping (Ollama_Provider c) \<longleftrightarrow> ping c"

section \<open>Prompts (lib.rs)\<close>

fun severity_debug :: "severity \<Rightarrow> string" where
  "severity_debug Debug = ''Debug''"
| "severity_debug Info = ''Info''"
| "severity_debug Notice = ''Notice''"
| "severity_debug Warning = ''Warning''"
| "severity_debug Error = ''Error''"
| "severity_debug Critical = ''Critical''"
| "severity_debug Alert = ''Alert''"
| "severity_debug Emergency = ''Emergency''"

definition anonymise_path :: "environment \<Rightarrow> string \<Rightarrow> string" where
  "anonymise_path env s = (case env ''HOME'' of None \<Rightarrow> s | Some home \<Rightarrow> str_replace s home ''~'')"

definition process_note :: "environment \<Rightarrow> event \<Rightarrow> string" where
  "process_note env e = (case ev_process e of None \<Rightarrow> []
     | Some p \<Rightarrow> '' ['' @ anonymise_path env (pc_name p) @ '' pid='' @ show_word (pc_pid p) @ '']'')"

definition event_line :: "environment \<Rightarrow> nat \<times> event \<Rightarrow> string" where
  "event_line env = (\<lambda>(i, e). ''  '' @ show_nat (i + 1) @ ''. ['' @ ev_source e @ ''] '' @ ev_type e
     @ '' (sev='' @ show_int (sint (ev_severity e)) @ '')'' @ process_note env e)"

definition summarise_events :: "environment \<Rightarrow> event list \<Rightarrow> string" where
  "summarise_events env es = (if es = [] then ''(no related events)''
     else str_join [CHR 0x0A] (map (event_line env) (enumerate 0 es)))"

definition nl2 :: string where
  "nl2 = [CHR 0x0A, CHR 0x0A]"

definition alert_header :: "alert \<Rightarrow> string" where
  "alert_header a = ''You are a security analyst assistant.'' @ nl2 @ ''Alert: Rule='' @ al_rule_id a
     @ '' Risk='' @ show_word (al_risk_score a) @ ''/1000 Severity='' @ severity_debug (al_severity a)
     @ nl2 @ ''Related events:'' @ [CHR 0x0A]"

definition explain_prompt :: "environment \<Rightarrow> alert \<Rightarrow> event list \<Rightarrow> string" where
  "explain_prompt env a es = alert_header a @ summarise_events env es @ nl2
     @ ''Explain in 2-3 sentences: what happened, likely threat, and recommended action.''"

definition chain_prompt :: "environment \<Rightarrow> event list \<Rightarrow> string" where
  "chain_prompt env es = ''Summarise this security event chain:'' @ nl2 @ summarise_events env es @ nl2 @ ''Summary:''"

definition investigate_prompt :: "environment \<Rightarrow> alert \<Rightarrow> event list \<Rightarrow> string" where
  "investigate_prompt env a es = ''Recommend 3-5 investigation steps for: Alert='' @ al_rule_id a @ '' (risk=''
     @ show_word (al_risk_score a) @ ''/1000)'' @ nl2 @ summarise_events env es @ nl2 @ ''Steps:''"

section \<open>Responses\<close>

text \<open>\<open>str::is_char_boundary\<close> on UTF-8: not inside a character.\<close>

definition is_char_boundary :: "string \<Rightarrow> nat \<Rightarrow> bool" where
  "is_char_boundary s i \<longleftrightarrow> i = length s \<or> i < length s \<and> \<not> (let n = of_char (s ! i) :: nat in 128 \<le> n \<and> n < 192)"

definition slice_to :: "string \<Rightarrow> nat \<Rightarrow> string option" where
  "slice_to s i = (if is_char_boundary s i then Some (take i s) else None)"

text \<open>\<open>trim_start_matches\<close> and \<open>trim_end_matches\<close> with a string.\<close>

function strip_prefix_all :: "string \<Rightarrow> string \<Rightarrow> string" where
  "strip_prefix_all p s = (if p \<noteq> [] \<and> starts_with s p then strip_prefix_all p (drop (length p) s) else s)"
  by pat_completeness auto
termination by (relation "measure (\<lambda>(p, s). length s)") (auto simp: starts_with_iff)

declare strip_prefix_all.simps [simp del]

definition strip_suffix_all :: "string \<Rightarrow> string \<Rightarrow> string" where
  "strip_suffix_all p s = rev (strip_prefix_all (rev p) (rev s))"

definition sanitise :: "string \<Rightarrow> string option" where
  "sanitise response = (let s = str_trim (strip_suffix_all ''```'' (strip_prefix_all ''```'' (str_trim response))) in
     if 2000 < length s then map_option (\<lambda>t. t @ ''...'') (slice_to s 1997) else Some s)"

section \<open>The engine\<close>

record ai_engine =
  ae_config :: llm_config
  ae_cache :: "(string \<times> string) list"
  ae_requests :: u64
  ae_latency_ns :: u64

definition ai_engine_new :: "llm_config \<Rightarrow> ai_engine" where
  "ai_engine_new c = \<lparr> ae_config = c, ae_cache = [], ae_requests = 0, ae_latency_ns = 0 \<rparr>"

definition avg_latency_ms :: "ai_engine \<Rightarrow> f64" where
  "avg_latency_ms s = (if ae_requests s = 0 then Fin 0
     else f64_div_fin (f64_div_fin (f64_of_nat (unat (ae_latency_ns s))) (f64_of_nat (unat (ae_requests s)))) (Fin 1000000))"

definition fallback_text :: "string \<Rightarrow> u32 \<Rightarrow> string" where
  "fallback_text rule risk = ''Alert from rule '' @ [CHR 0x27] @ rule @ [CHR 0x27] @ '' (risk '' @ show_word risk
     @ ''/1000). Review process tree and network connections.''"

definition fallback :: "alert \<Rightarrow> string" where
  "fallback a = fallback_text (al_rule_id a) (al_risk_score a)"

text \<open>\<open>cached_generate\<close>: \<open>gen\<close> is the provider, \<open>ns\<close> the nanoseconds the request takes.  The
  result is None when the call panics, at the key or at the cleaning of the response; the counters
  have changed by then.  The text for a failed request is that of the default alert.\<close>

definition cached_generate ::
    "(string \<Rightarrow> ai_error + string) \<Rightarrow> u64 \<Rightarrow> ai_engine \<Rightarrow> string \<Rightarrow> nat \<Rightarrow> ai_engine \<times> string option" where
  "cached_generate gen ns s prompt max_cache =
     (case slice_to prompt (min (length prompt) 200) of
        None \<Rightarrow> (s, None)
      | Some key \<Rightarrow>
          (case map_of (ae_cache s) key of
             Some cached \<Rightarrow> (s, Some cached)
           | None \<Rightarrow>
               let s1 = s\<lparr>ae_requests := ae_requests s + 1\<rparr> in
               (case gen prompt of
                  Inl e \<Rightarrow> (s1, Some (fallback_text [] 0))
                | Inr response \<Rightarrow>
                    let s2 = s1\<lparr>ae_latency_ns := ae_latency_ns s1 + ns\<rparr> in
                    (case sanitise response of
                       None \<Rightarrow> (s2, None)
                     | Some cleaned \<Rightarrow>
                         (s2\<lparr>ae_cache := AList.update key cleaned (if max_cache \<le> length (ae_cache s2) then [] else ae_cache s2)\<rparr>,
                          Some cleaned)))))"

definition explain_alert ::
    "environment \<Rightarrow> (string \<Rightarrow> ai_error + string) \<Rightarrow> u64 \<Rightarrow> ai_engine \<Rightarrow> alert \<Rightarrow> event list \<Rightarrow> ai_engine \<times> string option" where
  "explain_alert env gen ns s a es = (if \<not> ac_enabled (ae_config s) then (s, Some (fallback a))
     else cached_generate gen ns s (explain_prompt env a es) 128)"

definition summarise_chain ::
    "environment \<Rightarrow> (string \<Rightarrow> ai_error + string) \<Rightarrow> u64 \<Rightarrow> ai_engine \<Rightarrow> event list \<Rightarrow> ai_engine \<times> string option" where
  "summarise_chain env gen ns s es = (if es = [] then (s, Some ''No events to summarise.'')
     else cached_generate gen ns s (chain_prompt env es) 64)"

definition investigate ::
    "environment \<Rightarrow> (string \<Rightarrow> ai_error + string) \<Rightarrow> u64 \<Rightarrow> ai_engine \<Rightarrow> alert \<Rightarrow> event list \<Rightarrow> ai_engine \<times> string option" where
  "investigate env gen ns s a es =
     (if \<not> ac_enabled (ae_config s) then (s, Some ''Review the process tree and network connections.'')
      else cached_generate gen ns s (investigate_prompt env a es) 64)"

text \<open>The calls of the engine as a sequence of steps.\<close>

datatype ai_call = Explain alert "event list" | Summarise "event list" | Investigate alert "event list"

fun ai_step ::
    "environment \<Rightarrow> (string \<Rightarrow> ai_error + string) \<Rightarrow> ai_call \<times> u64 \<Rightarrow> ai_engine \<Rightarrow> ai_engine" where
  "ai_step env gen (Explain a es, t) s = fst (explain_alert env gen t s a es)"
| "ai_step env gen (Summarise es, t) s = fst (summarise_chain env gen t s es)"
| "ai_step env gen (Investigate a es, t) s = fst (investigate env gen t s a es)"

section \<open>The cache\<close>

definition ai_cache_ok :: "ai_engine \<Rightarrow> bool" where
  "ai_cache_ok s \<longleftrightarrow> distinct (map fst (ae_cache s)) \<and> length (ae_cache s) \<le> 128
     \<and> (\<forall>(k, v) \<in> set (ae_cache s). length k \<le> 200 \<and> length v \<le> 2000)"

lemma length_alist_update: "length (AList.update k v al) \<le> Suc (length al)"
  by (induction al) auto

lemma set_alist_update: "x \<in> set (AList.update k v al) \<Longrightarrow> x = (k, v) \<or> x \<in> set al"
  by (induction al) (auto split: if_splits)

lemma slice_to_Some: "slice_to s i = Some t \<Longrightarrow> t = take i s \<and> i \<le> length s"
  by (auto simp: slice_to_def is_char_boundary_def split: if_splits)

lemma sanitise_length: "sanitise r = Some v \<Longrightarrow> length v \<le> 2000"
  by (auto simp: sanitise_def Let_def dest!: slice_to_Some split: if_splits)

lemma cached_generate_cases:
  obtains (panic) "snd (cached_generate gen t s p m) = None" "ae_cache (fst (cached_generate gen t s p m)) = ae_cache s"
  | (same) "ae_cache (fst (cached_generate gen t s p m)) = ae_cache s"
  | (fresh) key v r where "slice_to p (min (length p) 200) = Some key" "gen p = Inr r" "sanitise r = Some v"
      "ae_cache (fst (cached_generate gen t s p m))
         = AList.update key v (if m \<le> length (ae_cache s) then [] else ae_cache s)"
proof (cases "slice_to p (min (length p) 200)")
  case None
  then show ?thesis using panic by (simp add: cached_generate_def)
next
  case key: (Some key)
  show ?thesis
  proof (cases "map_of (ae_cache s) key")
    case Some
    then show ?thesis using key same by (simp add: cached_generate_def)
  next
    case miss: None
    show ?thesis
    proof (cases "gen p")
      case Inl
      then show ?thesis using key miss same by (simp add: cached_generate_def)
    next
      case (Inr r)
      then show ?thesis
        using key miss fresh [OF key Inr] same by (cases "sanitise r") (simp_all add: cached_generate_def)
    qed
  qed
qed

lemma cached_generate_cache:
  assumes "ai_cache_ok s" "0 < m" "m \<le> 128"
  shows "ai_cache_ok (fst (cached_generate gen t s p m))"
proof (cases rule: cached_generate_cases [of gen t s p m])
  case (fresh key v r)
  let ?c = "if m \<le> length (ae_cache s) then [] else ae_cache s"
  have c: "distinct (map fst ?c)" "length ?c < 128" "\<forall>(k, v) \<in> set ?c. length k \<le> 200 \<and> length v \<le> 2000"
    using assms by (auto simp: ai_cache_ok_def)
  have "length (AList.update key v ?c) \<le> 128"
    using length_alist_update [of key v ?c] c(2) by simp
  moreover have "distinct (map fst (AList.update key v ?c))"
    using c(1) by (rule distinct_update)
  moreover have "\<forall>(k, v) \<in> set (AList.update key v ?c). length k \<le> 200 \<and> length v \<le> 2000"
    using c(3) slice_to_Some [OF fresh(1)] sanitise_length [OF fresh(3)]
    by (fastforce dest!: set_alist_update)
  ultimately show ?thesis
    unfolding ai_cache_ok_def fresh(4) by simp
qed (use assms in \<open>simp_all add: ai_cache_ok_def\<close>)

lemma ai_step_cache: "ai_cache_ok s \<Longrightarrow> ai_cache_ok (ai_step env gen c s)"
  by (cases "(env, gen, c, s)" rule: ai_step.cases)
    (auto simp: explain_alert_def summarise_chain_def investigate_def intro: cached_generate_cache)

lemma ai_steps_cache: "ai_cache_ok s \<Longrightarrow> ai_cache_ok (fold (ai_step env gen) calls s)"
  by (induction calls arbitrary: s) (simp_all add: ai_step_cache)

lemma cached_generate_again:
  assumes "cached_generate gen t s p m = (s', Some v)" "gen p = Inr r"
    and "length p \<ge> 200" "take 200 p = take 200 q" "length q \<ge> 200" "is_char_boundary q 200"
  shows "cached_generate gen' t' s' q m' = (s', Some v)"
proof -
  have key: "slice_to q (min (length q) 200) = Some (take 200 p)"
    using assms by (simp add: slice_to_def min_def)
  have "map_of (ae_cache s') (take 200 p) = Some v"
    using assms(1-3)
    by (auto simp: cached_generate_def slice_to_def min_def Let_def update_conv' split: option.splits if_splits)
  then show ?thesis
    by (simp add: cached_generate_def key)
qed

section \<open>Properties\<close>

text \<open>
  C37: The cache is bounded: after any calls of a new engine, with any provider and times, it holds
  at most 128 answers of at most 2000 bytes under keys of at most 200 bytes.\<close>

theorem ai_cache_bounded: "ai_cache_ok (fold (ai_step env gen) calls (ai_engine_new c))"
  by (rule ai_steps_cache) (simp add: ai_cache_ok_def ai_engine_new_def)

text \<open>An answer is remembered under the first 200 bytes of the prompt: once an alert has been
  explained, another alert, or the same rule with other events, whose prompt begins with the same 200
  bytes receives the explanation of the first one, without a request to the provider.\<close>

theorem explanation_of_another_alert:
  assumes "ac_enabled (ae_config s)"
    and "explain_alert env gen t s a es = (s', Some v)" "gen (explain_prompt env a es) = Inr r"
    and "take 200 (explain_prompt env a es) = take 200 (explain_prompt env b fs)"
    and "200 \<le> length (explain_prompt env a es)" "200 \<le> length (explain_prompt env b fs)"
    and "is_char_boundary (explain_prompt env b fs) 200"
  shows "explain_alert env gen' t' s' b fs = (s', Some v)"
proof -
  have c: "ae_config (fst (cached_generate gen t s p m)) = ae_config s" for p m
    by (simp add: cached_generate_def Let_def split: option.splits sum.splits)
  have gen: "cached_generate gen t s (explain_prompt env a es) 128 = (s', Some v)"
    using assms(1,2) by (simp add: explain_alert_def)
  have "ae_config s' = ae_config s"
    using c [of "explain_prompt env a es" 128] gen by simp
  then show ?thesis
    using cached_generate_again [OF gen assms(3,5,4,6,7)] assms(1) by (simp add: explain_alert_def)
qed

definition splits_char :: "string \<Rightarrow> nat \<Rightarrow> bool" where
  "splits_char s i \<longleftrightarrow> i < length s \<and> \<not> is_char_boundary s i"

definition cleaned :: "string \<Rightarrow> string" where
  "cleaned r = str_trim (strip_suffix_all ''```'' (strip_prefix_all ''```'' (str_trim r)))"

text \<open>A call of the engine panics exactly when the prompt has a character across its byte 200, or
  when the provider answers and the cleaned answer is longer than 2000 bytes with a character across
  byte 1997.  In particular no text of one-byte characters makes it panic.\<close>

theorem ai_panics_exactly:
  "snd (cached_generate gen t s p m) = None \<longleftrightarrow>
     splits_char p 200
     \<or> map_of (ae_cache s) (take 200 p) = None \<and> (case gen p of Inl e \<Rightarrow> False
         | Inr r \<Rightarrow> 2000 < length (cleaned r) \<and> splits_char (cleaned r) 1997)"
proof -
  have key: "slice_to p (min (length p) 200) = (if splits_char p 200 then None else Some (take 200 p))"
    by (auto simp: slice_to_def splits_char_def is_char_boundary_def min_def)
  have san: "sanitise r = None \<longleftrightarrow> 2000 < length (cleaned r) \<and> splits_char (cleaned r) 1997" for r
    by (auto simp: sanitise_def Let_def cleaned_def [symmetric] slice_to_def splits_char_def)
  show ?thesis
  proof (cases "gen p")
    case Inl
    then show ?thesis
      by (simp add: cached_generate_def key Let_def split: option.split)
  next
    case (Inr r)
    then show ?thesis
      using san [of r]
      by (cases "sanitise r") (simp_all add: cached_generate_def key Let_def split: option.split)
  qed
qed

text \<open>A disabled engine answers explanations and investigations with fixed texts, without a request
  and without changing; but the summary of a chain does not look at the setting and sends the events to
  the provider.\<close>

theorem disabled_engine_still_summarises:
  assumes "\<not> ac_enabled (ae_config s)" "es \<noteq> []" "map_of (ae_cache s) (take 200 (chain_prompt env es)) = None"
    and "\<not> splits_char (chain_prompt env es) 200"
  shows "explain_alert env gen t s a es = (s, Some (fallback a))
    \<and> investigate env gen t s a es = (s, Some ''Review the process tree and network connections.'')
    \<and> ae_requests (fst (summarise_chain env gen t s es)) = ae_requests s + 1"
proof -
  let ?p = "chain_prompt env es"
  have "slice_to ?p (min (length ?p) 200) = Some (take 200 ?p)"
    using assms(4) by (auto simp: slice_to_def splits_char_def is_char_boundary_def min_def)
  then have "ae_requests (fst (summarise_chain env gen t s es)) = ae_requests s + 1"
    using assms(2,3)
    by (simp add: summarise_chain_def cached_generate_def Let_def split: sum.split option.split)
  then show ?thesis
    using assms(1) by (simp add: explain_alert_def investigate_def)
qed

text \<open>Instances.\<close>

definition demo_ai :: "bool \<Rightarrow> ai_engine" where
  "demo_ai on = ai_engine_new (ai_config_default (\<lambda>v. if v = ''SENTINEL_AI_ENABLED'' \<and> \<not> on then Some ''false'' else None))"

definition demo_alert :: "u32 \<Rightarrow> alert" where
  "demo_alert risk = \<lparr> al_id = 1, al_rule_id = replicate 150 CHR ''r'', al_correlation_id = 2, al_risk_score = risk,
     al_severity = Info, al_state = AS_New, al_created_at = 0, al_updated_at = 0, al_acknowledged_by = None,
     al_acknowledged_at = None, al_events = [], al_context = JNull, al_ai_summary = None \<rparr>"

lemma explanation_of_another_alert_witness:
  "snd (explain_alert (\<lambda>_. None) (\<lambda>_. Inr ''quiet'') 5
     (fst (explain_alert (\<lambda>_. None) (\<lambda>_. Inr ''noise'') 7 (demo_ai True) (demo_alert 400) []))
     (demo_alert 1000) []) = Some ''noise''"
proof -
  let ?e = "explain_alert (\<lambda>_. None) (\<lambda>_. Inr ''noise'') 7 (demo_ai True) (demo_alert 400) []"
  have n: "snd ?e = Some ''noise''"
    by code_simp
  then have "?e = (fst ?e, Some ''noise'')"
    by (simp add: prod_eq_iff)
  moreover have "ac_enabled (ae_config (demo_ai True))"
    by code_simp
  moreover have "take 200 (explain_prompt (\<lambda>_. None) (demo_alert 400) [])
      = take 200 (explain_prompt (\<lambda>_. None) (demo_alert 1000) [])"
    by code_simp
  moreover have "200 \<le> length (explain_prompt (\<lambda>_. None) (demo_alert 400) [])"
      "200 \<le> length (explain_prompt (\<lambda>_. None) (demo_alert 1000) [])"
    by code_simp+
  moreover have "is_char_boundary (explain_prompt (\<lambda>_. None) (demo_alert 1000) []) 200"
    by code_simp
  ultimately show ?thesis
    using explanation_of_another_alert
      [of "demo_ai True" "\<lambda>_. None" "\<lambda>_. Inr ''noise''" 7 "demo_alert 400" "[]" "fst ?e" "''noise''" "''noise''"
          "demo_alert 1000" "[]" "\<lambda>_. Inr ''quiet''" 5] n
    by simp
qed

definition demo_event :: event where
  "demo_event = event_default\<lparr>ev_source := ''proc''\<rparr>"

lemma disabled_engine_still_summarises_witness:
  "ae_requests (fst (summarise_chain (\<lambda>_. None) (\<lambda>_. Inr ''noise'') 7 (demo_ai False) [demo_event])) = 1"
proof -
  have "ae_requests (fst (summarise_chain (\<lambda>_. None) (\<lambda>_. Inr ''noise'') 7 (demo_ai False) [demo_event]))
      = ae_requests (demo_ai False) + 1"
  proof (rule disabled_engine_still_summarises [THEN conjunct2, THEN conjunct2])
    show "\<not> ac_enabled (ae_config (demo_ai False))" by code_simp
    show "[demo_event] \<noteq> []" by simp
    show "map_of (ae_cache (demo_ai False)) (take 200 (chain_prompt (\<lambda>_. None) [demo_event])) = None"
      by (simp add: demo_ai_def ai_engine_new_def)
    show "\<not> splits_char (chain_prompt (\<lambda>_. None) [demo_event]) 200" by code_simp
  qed
  then show ?thesis
    by (simp add: demo_ai_def ai_engine_new_def)
qed

end
