(* ===== verification/Fleet.thy ===== *)
theory Fleet
  imports Events Core_Types Float64 "HOL-Library.AList"
begin

text \<open>
  The management server (apps/sentinel-mgmt): the fleet of registered agents (fleet.rs) and the gRPC
  service over it (service.rs).  Times are nanoseconds; the agents are in the iteration order of the
  hash map, which the statements do not depend on.
\<close>

section \<open>Agents (fleet.rs)\<close>

datatype agent_status = Agent_Online | Agent_Degraded | Agent_Offline | Agent_Unknown

record registered_agent =
  rg_host_id :: string
  rg_hostname :: string
  rg_os :: string
  rg_version :: string
  rg_last_heartbeat :: datetime
  rg_status :: agent_status
  rg_tags :: "string list"

definition from_heartbeat_age :: "int \<Rightarrow> agent_status" where
  "from_heartbeat_age age_secs = (if age_secs \<le> 30 then Agent_Online
     else if age_secs \<le> 120 then Agent_Degraded else Agent_Offline)"

text \<open>\<open>TimeDelta::num_seconds\<close> rounds towards zero.\<close>

definition num_seconds :: "int \<Rightarrow> int" where
  "num_seconds d = (if 0 \<le> d then d div 1000000000 else - ((- d) div 1000000000))"

type_synonym fleet = "(string \<times> registered_agent) list"

record fleet_summary =
  fl_agents :: "registered_agent list"
  fl_total_events :: u64
  fl_total_alerts :: u64
  fl_active_threats :: u64

definition fleet_new :: fleet where
  "fleet_new = []"

definition fleet_register :: "fleet \<Rightarrow> registered_agent \<Rightarrow> fleet" where
  "fleet_register f a = AList.update (rg_host_id a) a f"

definition fleet_heartbeat :: "datetime \<Rightarrow> string \<Rightarrow> fleet \<Rightarrow> fleet \<times> bool" where
  "fleet_heartbeat now h f = (case map_of f h of
       Some _ \<Rightarrow> (AList.map_entry h (\<lambda>a. a\<lparr> rg_last_heartbeat := now, rg_status := Agent_Online \<rparr>) f, True)
     | None \<Rightarrow> (f, False))"

definition aged :: "datetime \<Rightarrow> registered_agent \<Rightarrow> registered_agent" where
  "aged now a = a\<lparr> rg_status := from_heartbeat_age (num_seconds (now - rg_last_heartbeat a)) \<rparr>"

definition fleet_state :: "datetime \<Rightarrow> fleet \<Rightarrow> fleet_summary" where
  "fleet_state now f = \<lparr> fl_agents = map (\<lambda>(h, a). aged now a) f, fl_total_events = 0, fl_total_alerts = 0,
     fl_active_threats = 0 \<rparr>"

definition online_count :: "datetime \<Rightarrow> fleet \<Rightarrow> nat" where
  "online_count now f = length (filter (\<lambda>a. rg_status a = Agent_Online) (fl_agents (fleet_state now f)))"

section \<open>Messages (agent.proto)\<close>

record register_request =
  rr_host_id :: string
  rr_hostname :: string
  rr_os :: string
  rr_version :: string
  rr_tags :: "string list"

record register_response =
  rs_agent_id :: string
  rs_server_version :: string
  rs_heartbeat_interval_secs :: "64 word"

record agent_stats =
  st_events_processed :: u64
  st_alerts_generated :: u64
  st_rules_evaluated :: u64
  st_cpu_percent :: f64
  st_memory_bytes :: u64
  st_event_queue_depth :: u64

record heartbeat_request =
  hq_agent_id :: string
  hq_stats :: "agent_stats option"

record heartbeat_response =
  hs_acknowledged :: bool
  hs_server_time_unix :: "64 word"

record agent_event =
  av_agent_id :: string
  av_event :: "event option"

datatype agent_command =
  KillProcessCmd u32
| QuarantineFileCmd string
| BlockNetworkCmd string u32
| IsolateHostCmd u64
| CollectSnapshotCmd
| UpdateConfigCmd string

record command_request =
  cq_command_id :: string
  cq_agent_id :: string
  cq_command :: "agent_command option"

record command_response =
  cs_command_id :: string
  cs_success :: bool
  cs_message :: string

section \<open>The service (service.rs)\<close>

definition mgmt_register :: "string \<Rightarrow> datetime \<Rightarrow> register_request \<Rightarrow> fleet \<Rightarrow> fleet \<times> register_response" where
  "mgmt_register version now r f =
     (fleet_register f \<lparr> rg_host_id = rr_host_id r, rg_hostname = rr_hostname r, rg_os = rr_os r,
        rg_version = rr_version r, rg_last_heartbeat = now, rg_status = Agent_Online, rg_tags = rr_tags r \<rparr>,
      \<lparr> rs_agent_id = rr_host_id r, rs_server_version = version, rs_heartbeat_interval_secs = 30 \<rparr>)"

definition mgmt_heartbeat :: "datetime \<Rightarrow> heartbeat_request \<Rightarrow> fleet \<Rightarrow> fleet \<times> heartbeat_response" where
  "mgmt_heartbeat now r f = (let (f', found) = fleet_heartbeat now (hq_agent_id r) f in
     (f', \<lparr> hs_acknowledged = found, hs_server_time_unix = word_of_int (now div 1000000000) \<rparr>))"

definition stream_message :: "datetime \<Rightarrow> agent_event \<Rightarrow> fleet \<Rightarrow> fleet" where
  "stream_message now e f = fst (fleet_heartbeat now (av_agent_id e) f)"

text \<open>The inbound messages are read until the stream ends or fails: a result per read.  The sender of
  the commands is dropped when the handler returns, so the stream of commands is empty and ends.\<close>

fun stream_inbound :: "(datetime \<times> (string + agent_event option)) list \<Rightarrow> fleet \<Rightarrow> fleet" where
  "stream_inbound ((now, Inr (Some e)) # ms) f = stream_inbound ms (stream_message now e f)"
| "stream_inbound _ f = f"

definition mgmt_stream ::
    "(datetime \<times> (string + agent_event option)) list \<Rightarrow> fleet \<Rightarrow> fleet \<times> command_request list" where
  "mgmt_stream inbound f = (stream_inbound inbound f, [])"

definition send_command :: "command_request \<Rightarrow> command_response" where
  "send_command c = \<lparr> cs_command_id = cq_command_id c, cs_success = False,
     cs_message = ''command routing not yet implemented'' \<rparr>"

text \<open>The server as a sequence of calls.  A stream contributes a call per message, since its task runs
  beside the others.\<close>

datatype mgmt_call =
  Call_Register register_request
| Call_Heartbeat heartbeat_request
| Call_Stream agent_event
| Call_Command command_request

fun mgmt_step :: "string \<Rightarrow> datetime \<times> mgmt_call \<Rightarrow> fleet \<Rightarrow> fleet" where
  "mgmt_step v (now, Call_Register r) f = fst (mgmt_register v now r f)"
| "mgmt_step v (now, Call_Heartbeat r) f = fst (mgmt_heartbeat now r f)"
| "mgmt_step v (now, Call_Stream e) f = stream_message now e f"
| "mgmt_step v (now, Call_Command c) f = f"

section \<open>The fleet as a store\<close>

interpretation agents: updatable_store rg_host_id map_of fleet_register
    "\<lambda>f s k. AList.map_entry k f s" "\<lambda>f. True"
  by unfold_locales (auto simp: fleet_register_def update_conv' map_of_map_entry split: option.splits)

fun agent_status_rank :: "agent_status \<Rightarrow> nat" where
  "agent_status_rank Agent_Online = 0"
| "agent_status_rank Agent_Degraded = 1"
| "agent_status_rank Agent_Offline = 2"
| "agent_status_rank Agent_Unknown = 3"

interpretation age_band: banding from_heartbeat_age agent_status_rank
  by unfold_locales (auto simp: from_heartbeat_age_def)

lemma num_seconds_mono: "x \<le> y \<Longrightarrow> num_seconds x \<le> num_seconds y"
  unfolding num_seconds_def by (auto simp: zdiv_mono1 intro: order_trans [of _ 0])

lemma num_seconds_of: "num_seconds (int n * 1000000000) = int n"
  by (simp add: num_seconds_def)

text \<open>The specification: when an agent was last heard of.  A registration counts, a heartbeat or a
  streamed message only once it is registered.\<close>

fun contact_after :: "string \<Rightarrow> datetime \<times> mgmt_call \<Rightarrow> datetime option \<Rightarrow> datetime option" where
  "contact_after h (now, Call_Register r) t = (if rr_host_id r = h then Some now else t)"
| "contact_after h (now, Call_Heartbeat r) t = (if hq_agent_id r = h \<and> t \<noteq> None then Some now else t)"
| "contact_after h (now, Call_Stream e) t = (if av_agent_id e = h \<and> t \<noteq> None then Some now else t)"
| "contact_after h (now, Call_Command c) t = t"

definition last_contact :: "string \<Rightarrow> (datetime \<times> mgmt_call) list \<Rightarrow> datetime option" where
  "last_contact h calls = fold (contact_after h) calls None"

fun caller :: "mgmt_call \<Rightarrow> string option" where
  "caller (Call_Register r) = Some (rr_host_id r)"
| "caller (Call_Heartbeat r) = Some (hq_agent_id r)"
| "caller (Call_Stream e) = Some (av_agent_id e)"
| "caller (Call_Command c) = None"

lemma heartbeat_lookup:
  "map_of (fst (fleet_heartbeat now h f)) k =
     (if k = h then map_option (\<lambda>a. a\<lparr> rg_last_heartbeat := now, rg_status := Agent_Online \<rparr>) (map_of f h) else map_of f k)"
  by (simp add: fleet_heartbeat_def agents.lookup_modify split: option.split)

text \<open>A state of the server: the keys are distinct and each entry has the key of its agent.\<close>

definition fleet_ok :: "fleet \<Rightarrow> bool" where
  "fleet_ok f \<longleftrightarrow> distinct (map fst f) \<and> (\<forall>(h, a) \<in> set f. rg_host_id a = h)"

lemma fleet_ok_new: "fleet_ok fleet_new"
  by (simp add: fleet_ok_def fleet_new_def)

lemma fleet_ok_keyed:
  "fleet_ok f \<longleftrightarrow> distinct (map fst f) \<and> (\<forall>h a. map_of f h = Some a \<longrightarrow> rg_host_id a = h)"
  by (auto simp: fleet_ok_def dest: map_of_SomeD)

lemma fleet_ok_register: "fleet_ok f \<Longrightarrow> fleet_ok (fleet_register f a)"
  by (auto simp: fleet_ok_keyed fleet_register_def update_conv' distinct_update split: if_splits)

lemma fleet_ok_heartbeat: "fleet_ok f \<Longrightarrow> fleet_ok (fst (fleet_heartbeat now h f))"
  unfolding fleet_ok_keyed heartbeat_lookup
  by (auto simp: fleet_heartbeat_def distinct_map_entry split: option.split)

lemma fleet_ok_step: "fleet_ok f \<Longrightarrow> fleet_ok (mgmt_step v c f)"
  by (cases "(v, c, f)" rule: mgmt_step.cases)
    (auto simp: mgmt_register_def mgmt_heartbeat_def stream_message_def Let_def case_prod_beta
      intro: fleet_ok_register fleet_ok_heartbeat)

lemma fleet_ok_run: "fleet_ok f \<Longrightarrow> fleet_ok (fold (mgmt_step v) calls f)"
  by (induction calls arbitrary: f) (simp_all add: fleet_ok_step)

definition heard :: "fleet \<Rightarrow> string \<Rightarrow> datetime option" where
  "heard f h = map_option rg_last_heartbeat (map_of f h)"

lemma heard_step: "heard (mgmt_step v c f) h = contact_after h c (heard f h)"
  by (cases "(v, c, f)" rule: mgmt_step.cases)
    (auto simp: heard_def mgmt_register_def mgmt_heartbeat_def stream_message_def Let_def case_prod_beta
      agents.lookup_register heartbeat_lookup)

lemma heard_run: "heard (fold (mgmt_step v) calls f) h = fold (contact_after h) calls (heard f h)"
  by (induction calls arbitrary: f) (simp_all add: heard_step)

lemma heard_is_last_contact: "heard (fold (mgmt_step v) calls fleet_new) h = last_contact h calls"
  by (simp add: heard_run last_contact_def) (simp add: heard_def fleet_new_def)

definition shown_status :: "fleet_summary \<Rightarrow> string \<Rightarrow> agent_status option" where
  "shown_status s h = map_option rg_status (find (\<lambda>a. rg_host_id a = h) (fl_agents s))"

lemma shown_status_heard:
  "fleet_ok f \<Longrightarrow> shown_status (fleet_state now f) h
     = map_option (\<lambda>t. from_heartbeat_age (num_seconds (now - t))) (heard f h)"
  by (induction f) (auto simp: shown_status_def fleet_state_def heard_def aged_def fleet_ok_def)

lemma contact_other: "caller (snd c) \<noteq> Some h \<Longrightarrow> contact_after h c t = t"
  by (cases "(h, c, t)" rule: contact_after.cases) auto

lemma contact_others: "(\<forall>c \<in> set calls. caller (snd c) \<noteq> Some h) \<Longrightarrow> fold (contact_after h) calls t = t"
  by (induction calls) (simp_all add: contact_other)

lemma online_count_heard:
  assumes "fleet_ok f"
  shows "online_count now f = card {h. \<exists>t. heard f h = Some t \<and> num_seconds (now - t) \<le> 30}"
  using assms
proof (induction f)
  case Nil
  then show ?case by (simp add: online_count_def fleet_state_def heard_def)
next
  case (Cons p f)
  obtain h a where p: "p = (h, a)" by (cases p)
  have f: "fleet_ok f" "h \<notin> fst ` set f"
    using Cons.prems by (auto simp: fleet_ok_def p)
  then have none: "heard f h = None"
    by (simp add: heard_def map_of_eq_None_iff)
  let ?on = "\<lambda>f. {h. \<exists>t. heard f h = Some t \<and> num_seconds (now - t) \<le> 30}"
  have "?on f \<subseteq> fst ` set f"
    by (auto simp: heard_def dest!: map_of_SomeD intro: rev_image_eqI)
  then have fin: "finite (?on f)"
    by (rule finite_subset) simp
  have "?on (p # f) = (if num_seconds (now - rg_last_heartbeat a) \<le> 30 then insert h (?on f) else ?on f)"
    using none by (auto simp: heard_def p split: if_splits)
  moreover have "h \<notin> ?on f"
    using none by simp
  ultimately have "card (?on (p # f)) = card (?on f) + (if num_seconds (now - rg_last_heartbeat a) \<le> 30 then 1 else 0)"
    using fin by simp
  moreover have "online_count now (p # f)
      = online_count now f + (if num_seconds (now - rg_last_heartbeat a) \<le> 30 then 1 else 0)"
    by (simp add: online_count_def fleet_state_def p aged_def from_heartbeat_age_def)
  ultimately show ?case
    using Cons.IH [OF f(1)] by simp
qed

section \<open>Properties\<close>

text \<open>
  C33: What the server shows of an agent after any calls depends on its last contact only: the band
  of the time since then, nothing for a host that never registered, whatever other agents do.\<close>

theorem status_is_age_of_last_contact:
  "shown_status (fleet_state now (fold (mgmt_step v) calls fleet_new)) h
     = map_option (\<lambda>t. from_heartbeat_age (num_seconds (now - t))) (last_contact h calls)"
  by (simp add: shown_status_heard fleet_ok_run fleet_ok_new heard_is_last_contact)

definition run_state :: "string \<Rightarrow> (nat \<Rightarrow> datetime \<times> mgmt_call) \<Rightarrow> nat \<Rightarrow> fleet" where
  "run_state v run n = fold (mgmt_step v) (map run [0..<n]) fleet_new"

text \<open>C36: An agent that falls silent is shown as offline in the end and for ever: in any endless run of
  the server, if a registered agent makes no call from some step on and the clock passes every time,
  there is a step after which every look at the fleet finds it offline.\<close>

theorem silent_agent_goes_offline:
  assumes "last_contact h (map run [0..<n]) = Some t"
    and "\<forall>k \<ge> n. caller (snd (run k)) \<noteq> Some h"
    and "\<forall>d. \<exists>m. \<forall>k \<ge> m. d \<le> clock k"
  shows "\<exists>m. \<forall>k \<ge> m. shown_status (fleet_state (clock k) (run_state v run k)) h = Some Agent_Offline"
proof -
  obtain m where m: "\<And>k. k \<ge> m \<Longrightarrow> t + 121 * 1000000000 \<le> clock k"
    using assms(3) by blast
  have "shown_status (fleet_state (clock k) (run_state v run k)) h = Some Agent_Offline" if k: "k \<ge> max m n" for k
  proof -
    have "[0..<k] = [0..<n] @ [n..<k]"
      using k upt_add_eq_append [of 0 n "k - n"] by simp
    then have "last_contact h (map run [0..<k]) = fold (contact_after h) (map run [n..<k]) (Some t)"
      using assms(1) by (simp add: last_contact_def)
    also have "\<dots> = Some t"
      by (rule contact_others) (use assms(2) in auto)
    finally have "heard (run_state v run k) h = Some t"
      by (simp add: run_state_def heard_is_last_contact)
    moreover have "121 \<le> num_seconds (clock k - t)"
      using num_seconds_mono [of "121 * 1000000000" "clock k - t"] m [of k] k num_seconds_of [of 121] by simp
    then have "from_heartbeat_age (num_seconds (clock k - t)) = Agent_Offline"
      by (simp add: from_heartbeat_age_def)
    moreover have "fleet_ok (run_state v run k)"
      by (simp add: run_state_def fleet_ok_run fleet_ok_new)
    ultimately show ?thesis
      by (simp add: shown_status_heard)
  qed
  then show ?thesis by blast
qed

definition demo_calls :: "nat \<Rightarrow> datetime \<times> mgmt_call" where
  "demo_calls n = (int n * 1000000000, if n = 0 then Call_Register
     \<lparr> rr_host_id = ''a'', rr_hostname = ''a'', rr_os = ''linux'', rr_version = ''1'', rr_tags = [] \<rparr>
     else Call_Heartbeat \<lparr> hq_agent_id = ''b'', hq_stats = None \<rparr>)"

lemma silent_agent_goes_offline_witness:
  "\<exists>m. \<forall>k \<ge> m. shown_status (fleet_state (fst (demo_calls k)) (run_state ''1'' demo_calls k)) ''a'' = Some Agent_Offline"
proof (rule silent_agent_goes_offline)
  show "last_contact ''a'' (map demo_calls [0..<1]) = Some 0"
    by (simp add: last_contact_def demo_calls_def)
  show "\<forall>k \<ge> 1. caller (snd (demo_calls k)) \<noteq> Some ''a''"
    by (simp add: demo_calls_def)
  show "\<forall>d. \<exists>m. \<forall>k \<ge> m. d \<le> fst (demo_calls k)"
  proof
    fix d :: int
    have "d \<le> int k * 1000000000" if "k \<ge> nat d" for k
      using that by linarith
    then show "\<exists>m. \<forall>k \<ge> m. d \<le> fst (demo_calls k)"
      by (auto simp: demo_calls_def)
  qed
qed

text \<open>The number of agents online is the number of hosts whose last contact is less than 31 seconds
  old (a contact in the future counts), and a heartbeat is acknowledged exactly when its host has
  registered.\<close>

theorem online_count_exact:
  "online_count now (fold (mgmt_step v) calls fleet_new)
     = card {h. \<exists>t. last_contact h calls = Some t \<and> num_seconds (now - t) \<le> 30}
   \<and> hs_acknowledged (snd (mgmt_heartbeat now r (fold (mgmt_step v) calls fleet_new)))
     = (\<exists>t. last_contact (hq_agent_id r) calls = Some t)"
proof
  let ?f = "fold (mgmt_step v) calls fleet_new"
  show "online_count now ?f = card {h. \<exists>t. last_contact h calls = Some t \<and> num_seconds (now - t) \<le> 30}"
    by (simp add: online_count_heard fleet_ok_run fleet_ok_new heard_is_last_contact)
  have "hs_acknowledged (snd (mgmt_heartbeat now r ?f)) = (heard ?f (hq_agent_id r) \<noteq> None)"
    by (simp add: mgmt_heartbeat_def fleet_heartbeat_def heard_def split: option.split)
  then show "hs_acknowledged (snd (mgmt_heartbeat now r ?f)) = (\<exists>t. last_contact (hq_agent_id r) calls = Some t)"
    by (simp add: heard_is_last_contact)
qed

end
