(* ===== verification/Notify.thy ===== *)
theory Notify
  imports Ai_Engine Risk
begin

text \<open>
  The notifications of the service (apps/sentinel-core-service/src/notifier.rs) through the plugins
  discord, telegram, slack, email and home-assistant.  Strings are their UTF-8 bytes.  The answers of
  the servers only go to the log; what is modelled is what is sent.
\<close>

section \<open>Messages\<close>

text \<open>A post with its bearer token, if any, or a mail given to sendmail (sender, recipient, input).\<close>

datatype outgoing =
  Post (og_url: string) (og_bearer: "string option") (og_body: json)
| Sendmail (og_from: string) (og_to: string) (og_input: string)

record notice =
  no_id :: string
  no_rule :: string
  no_risk :: u32
  no_severity :: string
  no_source :: string
  no_details :: "string option"

definition nl :: string where
  "nl = [CHR 0x0A]"

definition em_dash :: string where
  "em_dash = [CHR 0xE2, CHR 0x80, CHR 0x94]"

definition tick :: string where
  "tick = [CHR 0x60]"

definition optional_field :: "string \<Rightarrow> json option \<Rightarrow> (string \<times> json) list" where
  "optional_field k v = (case v of None \<Rightarrow> [] | Some j \<Rightarrow> [(k, j)])"

section \<open>Discord\<close>

definition severity_color :: "string \<Rightarrow> int" where
  "severity_color s = (if s \<in> {''Emergency'', ''Critical''} then 0xFF0000 else if s = ''Error'' then 0xFF4444
     else if s = ''Warning'' then 0xFFA500 else if s = ''Notice'' then 0x3498DB else 0x808080)"

definition red_circle :: string where "red_circle = [CHR 0xF0, CHR 0x9F, CHR 0x94, CHR 0xB4]"
definition orange_circle :: string where "orange_circle = [CHR 0xF0, CHR 0x9F, CHR 0x9F, CHR 0xA0]"
definition yellow_circle :: string where "yellow_circle = [CHR 0xF0, CHR 0x9F, CHR 0x9F, CHR 0xA1]"
definition blue_circle :: string where "blue_circle = [CHR 0xF0, CHR 0x9F, CHR 0x94, CHR 0xB5]"
definition white_circle :: string where "white_circle = [CHR 0xE2, CHR 0x9A, CHR 0xAA]"

definition discord_emoji :: "string \<Rightarrow> string" where
  "discord_emoji s = (if s = ''Emergency'' then red_circle else if s = ''Critical'' then red_circle
     else if s = ''Error'' then orange_circle else if s = ''Warning'' then yellow_circle
     else if s = ''Notice'' then blue_circle else white_circle)"

definition discord_field :: "string \<Rightarrow> string \<Rightarrow> bool \<Rightarrow> json" where
  "discord_field name v inline = JObject [(''name'', JString name), (''value'', JString v), (''inline'', JBool inline)]"

definition discord_embed :: "string \<Rightarrow> notice \<Rightarrow> json" where
  "discord_embed now n = JObject
     [(''title'', JString (discord_emoji (no_severity n) @ '' '' @ no_severity n @ '' Alert: '' @ no_rule n)),
      (''description'', JString (''Sentinel AI detected a **'' @ to_lowercase (no_severity n) @ ''** severity security alert.'')),
      (''color'', JInt (severity_color (no_severity n))),
      (''fields'', JArray
        ([discord_field ''Alert ID'' (tick @ no_id n @ tick) True,
          discord_field ''Risk Score'' (''**'' @ show_word (no_risk n) @ ''**'') True,
          discord_field ''Source'' (no_source n) True]
         @ (case no_details n of None \<Rightarrow> [] | Some d \<Rightarrow> [discord_field ''Details'' d False]))),
      (''footer'', JObject [(''text'', JString (''Sentinel AI '' @ em_dash @ '' Local Security Assistant''))]),
      (''timestamp'', JString now)]"

definition discord_alert :: "string \<Rightarrow> string \<Rightarrow> notice \<Rightarrow> outgoing" where
  "discord_alert now url n = Post url None
     (JObject [(''username'', JString ''Sentinel AI''), (''embeds'', JArray [discord_embed now n])])"

definition discord_webhook :: "environment \<Rightarrow> string option" where
  "discord_webhook env = env ''SENTINEL_DISCORD_WEBHOOK''"

definition discord_enabled :: "environment \<Rightarrow> bool" where
  "discord_enabled env \<longleftrightarrow> env ''SENTINEL_DISCORD_WEBHOOK'' \<noteq> None"

section \<open>Telegram\<close>

definition telegram_emoji :: "string \<Rightarrow> string" where
  "telegram_emoji s = (if s \<in> {''Emergency'', ''Critical''} then red_circle else if s = ''Error'' then orange_circle
     else if s = ''Warning'' then yellow_circle else white_circle)"

definition telegram_text :: "notice \<Rightarrow> string" where
  "telegram_text n = telegram_emoji (no_severity n) @ '' *'' @ no_severity n @ '' Alert: '' @ no_rule n @ ''*'' @ nl
     @ ''Risk Score: *'' @ show_word (no_risk n) @ ''* | Source: '' @ tick @ no_source n @ tick @ nl
     @ ''Alert ID: '' @ tick @ no_id n @ tick
     @ (case no_details n of None \<Rightarrow> [] | Some d \<Rightarrow> nl @ nl @ ''_'' @ d @ ''_'')
     @ nl @ nl @ ''_Sentinel AI '' @ em_dash @ '' Local Security Assistant_''"

definition telegram_alert :: "string \<Rightarrow> string \<Rightarrow> notice \<Rightarrow> outgoing" where
  "telegram_alert token chat n = Post (''https://api.telegram.org/bot'' @ token @ ''/sendMessage'') None
     (JObject [(''chat_id'', JString chat), (''text'', JString (telegram_text n)), (''parse_mode'', JString ''Markdown'')])"

definition telegram_token :: "environment \<Rightarrow> string option" where
  "telegram_token env = env ''SENTINEL_TELEGRAM_BOT_TOKEN''"

definition telegram_chat_id :: "environment \<Rightarrow> string option" where
  "telegram_chat_id env = env ''SENTINEL_TELEGRAM_CHAT_ID''"

definition telegram_enabled :: "environment \<Rightarrow> bool" where
  "telegram_enabled env \<longleftrightarrow> env ''SENTINEL_TELEGRAM_BOT_TOKEN'' \<noteq> None \<and> env ''SENTINEL_TELEGRAM_CHAT_ID'' \<noteq> None"

section \<open>Slack\<close>

definition slack_emoji :: "string \<Rightarrow> string" where
  "slack_emoji s = (let l = to_lowercase s in
     if l \<in> {''emergency'', ''critical''} then '':red_circle:'' else if l = ''error'' then '':large_orange_diamond:''
     else if l = ''warning'' then '':warning:'' else '':information_source:'')"

definition slack_plain :: "string \<Rightarrow> json" where
  "slack_plain t = JObject [(''type'', JString ''plain_text''), (''text'', JString t), (''emoji'', JBool True)]"

definition slack_markdown :: "string \<Rightarrow> json" where
  "slack_markdown t = JObject [(''type'', JString ''mrkdwn''), (''text'', JString t)]"

datatype slack_block =
  Slack_Header json
| Slack_Section json "json list option"
| Slack_Divider
| Slack_Context "json list"

fun slack_block_json :: "slack_block \<Rightarrow> json" where
  "slack_block_json (Slack_Header t) = JObject [(''type'', JString ''header''), (''text'', t)]"
| "slack_block_json (Slack_Section t fs) = JObject ([(''type'', JString ''section''), (''text'', t)]
     @ optional_field ''fields'' (map_option JArray fs))"
| "slack_block_json Slack_Divider = JObject [(''type'', JString ''divider'')]"
| "slack_block_json (Slack_Context es) = JObject [(''type'', JString ''context''), (''elements'', JArray es)]"

definition slack_blocks :: "notice \<Rightarrow> slack_block list" where
  "slack_blocks n =
     [Slack_Header (slack_plain (slack_emoji (no_severity n) @ '' Sentinel AI Alert'')),
      Slack_Section (slack_markdown (''*'' @ no_rule n @ ''* '' @ em_dash @ '' '' @ no_severity n @ '' severity'' @ nl
          @ (case no_details n of None \<Rightarrow> ''Security alert detected by Sentinel AI.'' | Some d \<Rightarrow> d)))
        (Some [slack_markdown (''*Alert ID*'' @ nl @ tick @ no_id n @ tick),
               slack_markdown (''*Risk Score*'' @ nl @ show_word (no_risk n)),
               slack_markdown (''*Source*'' @ nl @ no_source n)]),
      Slack_Divider,
      Slack_Context [slack_markdown ('':shield: *Sentinel AI* '' @ em_dash @ '' Local Security Assistant'')]]"

definition slack_alert :: "environment \<Rightarrow> notice \<Rightarrow> outgoing list" where
  "slack_alert env n = (case env ''SENTINEL_SLACK_WEBHOOK'' of None \<Rightarrow> []
     | Some url \<Rightarrow> [Post url None (JObject [(''blocks'', JArray (map slack_block_json (slack_blocks n)))])])"

definition slack_enabled :: "environment \<Rightarrow> bool" where
  "slack_enabled env \<longleftrightarrow> env ''SENTINEL_SLACK_WEBHOOK'' \<noteq> None"

section \<open>Email\<close>

definition email_subject :: "notice \<Rightarrow> string" where
  "email_subject n = ''['' @ to_ascii_uppercase (no_severity n) @ ''] Sentinel AI Alert: '' @ no_rule n
     @ '' (risk: '' @ show_word (no_risk n) @ '')''"

definition email_body :: "notice \<Rightarrow> string" where
  "email_body n = ''Sentinel AI Alert'' @ nl @ ''Rule: '' @ no_rule n @ nl @ ''Severity: '' @ no_severity n @ nl
     @ ''Risk Score: '' @ show_word (no_risk n) @ nl @ ''Source: '' @ no_source n @ nl
     @ ''Alert ID: '' @ no_id n @ nl @ (case no_details n of None \<Rightarrow> [] | Some d \<Rightarrow> d) @ nl @ nl
     @ ''-- '' @ nl @ ''Sentinel AI '' @ em_dash @ '' Local Security Assistant'' @ nl"

definition email_headers :: "string \<Rightarrow> string \<Rightarrow> notice \<Rightarrow> string" where
  "email_headers from to n = ''From: '' @ from @ nl @ ''To: '' @ to @ nl @ ''Subject: '' @ email_subject n @ nl @ nl"

definition email_alert :: "environment \<Rightarrow> notice \<Rightarrow> outgoing list" where
  "email_alert env n = (case env ''SENTINEL_EMAIL_TO'' of None \<Rightarrow> []
     | Some to \<Rightarrow> (let from = env_or env ''SENTINEL_EMAIL_FROM'' ''sentinel@localhost'' in
         [Sendmail from to (email_headers from to n @ email_body n)]))"

definition email_enabled :: "environment \<Rightarrow> bool" where
  "email_enabled env \<longleftrightarrow> env ''SENTINEL_EMAIL_TO'' \<noteq> None"

section \<open>Home Assistant\<close>

definition ha_api_url :: "environment \<Rightarrow> string option" where
  "ha_api_url env = map_option (strip_suffix_all ''/'') (env ''SENTINEL_HA_URL'')"

definition ha_api_token :: "environment \<Rightarrow> string option" where
  "ha_api_token env = env ''SENTINEL_HA_TOKEN''"

definition ha_enabled :: "environment \<Rightarrow> bool" where
  "ha_enabled env \<longleftrightarrow> ha_api_url env \<noteq> None \<and> ha_api_token env \<noteq> None"

text \<open>A token that is no header value is replaced.\<close>

definition ha_bearer :: "(string \<Rightarrow> bool) \<Rightarrow> string \<Rightarrow> string" where
  "ha_bearer header_ok token = (if header_ok (''Bearer '' @ token) then token else ''invalid'')"

definition ha_notification ::
    "environment \<Rightarrow> (string \<Rightarrow> bool) \<Rightarrow> int \<Rightarrow> string \<Rightarrow> string option \<Rightarrow> outgoing list" where
  "ha_notification env header_ok now message title = (case (ha_api_url env, ha_api_token env) of
       (Some base, Some token) \<Rightarrow>
         [Post (base @ ''/api/services/persistent_notification/create'') (Some (ha_bearer header_ok token))
            (JObject ([(''message'', JString message)] @ optional_field ''title'' (map_option JString title)
               @ [(''notification_id'', JString (''sentinel_'' @ show_int now))]))]
     | _ \<Rightarrow> [])"

definition ha_default_attributes :: "string \<Rightarrow> json" where
  "ha_default_attributes entity = JObject [(''source'', JString ''Sentinel AI''),
     (''friendly_name'', JString (str_replace (str_replace entity ''sensor.'' []) ''_'' '' ''))]"

definition ha_sensor ::
    "environment \<Rightarrow> (string \<Rightarrow> bool) \<Rightarrow> string \<Rightarrow> json \<Rightarrow> json option \<Rightarrow> outgoing list" where
  "ha_sensor env header_ok entity state attributes = (case (ha_api_url env, ha_api_token env) of
       (Some base, Some token) \<Rightarrow>
         [Post (base @ ''/api/states/'' @ entity) (Some (ha_bearer header_ok token))
            (JObject [(''state'', state),
              (''attributes'', case attributes of None \<Rightarrow> ha_default_attributes entity | Some j \<Rightarrow> j)])]
     | _ \<Rightarrow> [])"

definition ha_alert :: "environment \<Rightarrow> (string \<Rightarrow> bool) \<Rightarrow> int \<Rightarrow> notice \<Rightarrow> outgoing list" where
  "ha_alert env header_ok now n =
     ha_notification env header_ok now
       (no_severity n @ '' Alert: '' @ no_rule n @ '' (risk: '' @ show_word (no_risk n) @ '', source: ''
        @ no_source n @ '') ['' @ no_id n @ '']'')
       (Some (''Sentinel AI '' @ em_dash @ '' '' @ no_severity n @ '' Alert''))
     @ ha_sensor env header_ok (env_or env ''SENTINEL_HA_SENSOR_ID'' ''sensor.sentinel_last_alert'')
       (JInt (uint (no_risk n)))
       (Some (JObject [(''source'', JString ''Sentinel AI''), (''alert_id'', JString (no_id n)),
          (''rule'', JString (no_rule n)), (''severity'', JString (no_severity n)),
          (''source_entity'', JString (no_source n)),
          (''details'', JString (case no_details n of None \<Rightarrow> [] | Some d \<Rightarrow> d))]))"

section \<open>The notifier\<close>

text \<open>\<open>notify_alerts\<close>: the tasks it starts, each with what it sends in order.  \<open>rfc3339\<close> shows the
  date for Discord, \<open>now\<close> is in seconds.\<close>

definition notify_alerts ::
    "environment \<Rightarrow> (string \<Rightarrow> bool) \<Rightarrow> (int \<Rightarrow> string) \<Rightarrow> int \<Rightarrow>
     string \<Rightarrow> string \<Rightarrow> u32 \<Rightarrow> string \<Rightarrow> string \<Rightarrow> nat \<Rightarrow> outgoing list list" where
  "notify_alerts env header_ok rfc3339 now rule_id rule_name risk severity source chain_events =
     (let n = \<lparr> no_id = rule_id, no_rule = rule_name, no_risk = risk, no_severity = severity, no_source = source,
                no_details = Some (show_nat chain_events @ '' events in chain'') \<rparr> in
      (if discord_enabled env then (case discord_webhook env of Some url \<Rightarrow> [[discord_alert (rfc3339 now) url n]] | None \<Rightarrow> [])
       else [])
      @ (if telegram_enabled env then (case (telegram_token env, telegram_chat_id env) of
            (Some token, Some chat) \<Rightarrow> [[telegram_alert token chat n]] | _ \<Rightarrow> []) else [])
      @ (if ha_enabled env then [ha_alert env header_ok now n] else [])
      @ (if slack_enabled env then [slack_alert env n] else [])
      @ (if email_enabled env then [email_alert env n] else []))"

text \<open>The call of the main loop for an alert of the risk engine.\<close>

definition notify_risk_alert ::
    "environment \<Rightarrow> (string \<Rightarrow> bool) \<Rightarrow> (int \<Rightarrow> string) \<Rightarrow> int \<Rightarrow> string \<Rightarrow> risk_alert \<Rightarrow> outgoing list list" where
  "notify_risk_alert env header_ok rfc3339 now source a =
     notify_alerts env header_ok rfc3339 now (ra_rule_id a) (ra_rule_name a) (ra_risk_score a)
       (alert_severity_debug (ra_severity a)) source (length (ra_event_ids a))"

section \<open>The header of a mail\<close>

text \<open>What a mail program reads as header: the lines before the first empty one.\<close>

definition is_nl :: "char \<Rightarrow> bool" where
  "is_nl c \<longleftrightarrow> c = CHR 0x0A"

definition mail_header_lines :: "string \<Rightarrow> string list" where
  "mail_header_lines input = takeWhile (\<lambda>l. l \<noteq> []) (str_split is_nl input)"

lemma str_split_at: "P d \<Longrightarrow> str_split P (a @ d # b) = str_split P a @ str_split P b"
  by (induction a) (auto split: list.split)

lemma str_split_nl: "str_split is_nl (a @ nl @ b) = str_split is_nl a @ str_split is_nl b"
  using str_split_at [of is_nl "CHR 0x0A" a b] by (simp add: nl_def is_nl_def)

lemma str_split_line: "CHR 0x0A \<notin> set a \<Longrightarrow> str_split is_nl a = [a]"
  by (rule str_split_single) (auto simp: is_nl_def)

lemma takeWhile_at_empty: "takeWhile (\<lambda>l. l \<noteq> []) (xs @ [] # ys) = takeWhile (\<lambda>l. l \<noteq> []) xs"
  by (induction xs) auto

lemma mail_header_lines_subject:
  assumes "CHR 0x0A \<notin> set from" "CHR 0x0A \<notin> set to"
  shows "mail_header_lines (email_headers from to n @ body) =
     (''From: '' @ from) # (''To: '' @ to) # takeWhile (\<lambda>l. l \<noteq> []) (str_split is_nl (''Subject: '' @ email_subject n))"
proof -
  have sender: "str_split is_nl (''From: '' @ from) = [''From: '' @ from]"
      and recipient: "str_split is_nl (''To: '' @ to) = [''To: '' @ to]"
    using assms by (intro str_split_line; simp)+
  have "email_headers from to n @ body
      = (''From: '' @ from) @ nl @ ((''To: '' @ to) @ nl @ ((''Subject: '' @ email_subject n) @ nl @ ([] @ nl @ body)))"
    by (simp add: email_headers_def)
  then have "str_split is_nl (email_headers from to n @ body) =
      (''From: '' @ from) # (''To: '' @ to) # str_split is_nl (''Subject: '' @ email_subject n)
        @ [] # str_split is_nl body"
    by (simp only: str_split_nl sender recipient) simp
  then show ?thesis
    by (simp only: mail_header_lines_def takeWhile.simps takeWhile_at_empty) simp
qed

lemma char_upper_newline: "char_upper c = CHR 0x0A \<Longrightarrow> c = CHR 0x0A"
proof (rule ccontr)
  assume c: "char_upper c = CHR 0x0A" "c \<noteq> CHR 0x0A"
  let ?n = "of_char c :: nat"
  have n: "97 \<le> ?n" "?n \<le> 122" "char_of (?n - 32) = CHR 0x0A"
    using c by (auto simp: char_upper_def Let_def split: if_splits)
  then have "of_char (char_of (?n - 32) :: char) = (10 :: nat)"
    by simp
  then show False
    using n(1,2) by simp
qed

lemma show_nat_newline: "CHR 0x0A \<notin> set (show_nat n)"
proof -
  have "is_whitespace (CHR 0x0A)" by code_simp
  then show ?thesis using show_nat_clean by blast
qed

section \<open>Properties\<close>

text \<open>The text around the name of the rule in the subject.\<close>

definition subject_start :: "notice \<Rightarrow> string" where
  "subject_start n = ''Subject: ['' @ to_ascii_uppercase (no_severity n) @ ''] Sentinel AI Alert: ''"

definition subject_end :: "notice \<Rightarrow> string" where
  "subject_end n = '' (risk: '' @ show_word (no_risk n) @ '')''"

lemma str_split_prefix:
  "CHR 0x0A \<notin> set p \<Longrightarrow> str_split is_nl (p @ s) = (p @ hd (str_split is_nl s)) # tl (str_split is_nl s)"
  by (induction p) (auto simp: is_nl_def)

lemma str_split_suffix:
  "CHR 0x0A \<notin> set q \<Longrightarrow> str_split is_nl (s @ q) = butlast (str_split is_nl s) @ [last (str_split is_nl s) @ q]"
proof (induction s)
  case (Cons c s)
  obtain w ws where "str_split is_nl s = w # ws" by (cases "str_split is_nl s") auto
  with Cons show ?case by (cases ws) auto
qed (simp add: str_split_line)

text \<open>
  C10: The name of a rule is written into the subject of a mail as it is.  The header of the mail is exactly: the
  sender, the recipient, the first line of the name after the start of the subject, and then every further
  line of the name as a line of the header of its own, the last one followed by the risk, up to the first of
  these that is empty, where the header ends early.  With a name of one line these are the three lines From,
  To and Subject; with more, whoever writes the name
  writes lines of the header (one that starts with a blank continues the line before it).  Sender, recipient and severity
  hold no line break.
\<close>

theorem mail_headers_injected:
  assumes "CHR 0x0A \<notin> set (from @ to @ no_severity n)"
  shows "mail_header_lines (email_headers from to n @ body) =
    [''From: '' @ from, ''To: '' @ to] @
      (case str_split is_nl (no_rule n) of [] \<Rightarrow> []
       | line # others \<Rightarrow> if others = [] then [subject_start n @ line @ subject_end n]
           else (subject_start n @ line) # takeWhile (\<lambda>l. l \<noteq> []) (butlast others @ [last others @ subject_end n]))"
proof -
  have ends: "CHR 0x0A \<notin> set (subject_start n)" "CHR 0x0A \<notin> set (subject_end n)"
    using assms char_upper_newline show_nat_newline
    by (auto simp: subject_start_def subject_end_def show_word_def to_ascii_uppercase_def) (metis image_eqI char_upper_newline)
  obtain line others where lines: "str_split is_nl (no_rule n) = line # others"
    by (cases "str_split is_nl (no_rule n)") auto
  have "''Subject: '' @ email_subject n = subject_start n @ no_rule n @ subject_end n"
    by (simp add: email_subject_def subject_start_def subject_end_def)
  then have "str_split is_nl (''Subject: '' @ email_subject n)
      = (if others = [] then [subject_start n @ line @ subject_end n]
         else (subject_start n @ line) # butlast others @ [last others @ subject_end n])"
    by (simp only: str_split_prefix [OF ends(1)] str_split_suffix [OF ends(2)] lines) simp
  moreover have "subject_start n \<noteq> []" by (simp add: subject_start_def)
  ultimately show ?thesis
    using assms by (subst mail_header_lines_subject) (simp_all add: lines)
qed

definition demo_notice :: notice where
  "demo_notice = \<lparr> no_id = ''r'', no_rule = ''x'' @ nl @ ''Bcc: a@b'' @ nl @ ''y'', no_risk = 400,
     no_severity = ''High'', no_source = ''proc'', no_details = None \<rparr>"

lemma mail_headers_injected_witness:
  "mail_header_lines (email_headers ''s@h'' ''u@h'' demo_notice @ email_body demo_notice)
     = [''From: s@h'', ''To: u@h'', ''Subject: [HIGH] Sentinel AI Alert: x'', ''Bcc: a@b'', ''y (risk: 400)'']"
proof -
  have "CHR 0x0A \<notin> set (''s@h'' @ ''u@h'' @ no_severity demo_notice)"
    by (simp add: demo_notice_def)
  note t = mail_headers_injected [OF this, of "email_body demo_notice"]
  have "str_split is_nl (no_rule demo_notice) = [''x'', ''Bcc: a@b'', ''y'']"
    "subject_start demo_notice = ''Subject: [HIGH] Sentinel AI Alert: ''" "subject_end demo_notice = '' (risk: 400)''"
    by code_simp+
  with t show ?thesis by simp
qed

text \<open>The severities of the risk engine are not those the plugins know.  Of an alert that the engine
  raises only the critical level is shown as such; high and medium look like an unknown severity in
  Discord, Telegram and Slack alike.\<close>

theorem high_alerts_look_harmless:
  assumes "fst (should_alert clk utc rid rname score src ids corr e) = Some a"
  shows "let s = alert_severity_debug (ra_severity a); critical = rt_critical (rc_thresholds (rk_config e)) \<le> score in
     severity_color s = (if critical then 0xFF0000 else severity_color ''unknown'')
     \<and> discord_emoji s = (if critical then red_circle else discord_emoji ''unknown'')
     \<and> telegram_emoji s = (if critical then red_circle else telegram_emoji ''unknown'')
     \<and> slack_emoji s = (if critical then '':red_circle:'' else slack_emoji ''unknown'')"
proof -
  have "ra_severity a = from_score score (rc_thresholds (rk_config e))"
    using assms by (auto simp: should_alert_def Let_def split: if_splits option.splits)
  then have "ra_severity a = AS_Critical \<longleftrightarrow> rt_critical (rc_thresholds (rk_config e)) \<le> score"
    by (simp add: from_score_def)
  moreover have "slack_emoji ''Low'' = slack_emoji ''unknown''" "slack_emoji ''Medium'' = slack_emoji ''unknown''"
      "slack_emoji ''High'' = slack_emoji ''unknown''" "slack_emoji ''Critical'' = '':red_circle:''"
    by code_simp+
  ultimately show ?thesis
    by (cases "ra_severity a") (simp_all add: Let_def severity_color_def discord_emoji_def telegram_emoji_def)
qed

lemma high_alerts_look_harmless_witness:
  "severity_color (alert_severity_debug AS_High) = severity_color ''unknown''"
proof -
  let ?r = "should_alert (\<lambda>_. 0) 0 ''r'' ''r'' 700 ''proc'' [] None (risk_engine_new risk_config_default)"
  have t: "\<not> rt_critical (rc_thresholds (rk_config (risk_engine_new risk_config_default))) \<le> 700"
      "from_score 700 (rc_thresholds (rk_config (risk_engine_new risk_config_default))) = AS_High"
    by code_simp+
  obtain a where a: "fst ?r = Some a" "ra_severity a = AS_High"
    using t(2) by (auto simp: should_alert_def Let_def risk_engine_new_def risk_config_default_def)
  show ?thesis
    using high_alerts_look_harmless [OF a(1)] a(2) t(1) by (simp add: Let_def)
qed

end
