(* ===== verification/Core_Service.thy ===== *)
theory Core_Service
  imports Alerting Notify Config
begin

text \<open>
  The service (apps/sentinel-core-service/src/main.rs): how the configuration reaches the components,
  the signals, and the main loop with everything an event causes: the chain, the alerts, the prompt for
  the explanation and the notifications.  A panic anywhere ends the process (the release profile of
  the workspace aborts), so handling an event has an optional result.
\<close>

section \<open>Configuration\<close>

definition default_config_paths :: "string list" where
  "default_config_paths = [''/etc/sentinel/config.toml'', ''~/.config/sentinel/config.toml'', ''sentinel-local/config.toml'']"

definition config_paths_of :: "string list \<Rightarrow> string list" where
  "config_paths_of args = (if args = [] then default_config_paths else args)"

record sqlite_config =
  sq_path :: string
  sq_wal_mode :: bool
  sq_busy_timeout_ms :: u32
  sq_max_connections :: u32

definition sqlite_config_of :: "storage_config \<Rightarrow> sqlite_config" where
  "sqlite_config_of c = \<lparr> sq_path = store_sqlite_path c, sq_wal_mode = store_sqlite_wal_mode c,
     sq_busy_timeout_ms = store_sqlite_busy_timeout_ms c, sq_max_connections = 5 \<rparr>"

definition channel_config_of :: "event_bus_config \<Rightarrow> channel_config" where
  "channel_config_of c = \<lparr> cc_ingest = ebus_ingest_channel_size c, cc_broadcast = ebus_broadcast_channel_size c,
     cc_storage = ebus_storage_channel_size c, cc_plugin = ebus_plugin_channel_size c, cc_ipc = ebus_ipc_channel_size c \<rparr>"

text \<open>The components of the main loop.  Only the rules depend on the configuration: the other engines
  are built from their defaults.  \<open>rules\<close> builds the rule engine from its section.\<close>

record 'p core_service =
  co_service :: "'p service"
  co_ai :: ai_engine
  co_privacy :: privacy_engine

definition core_service_new ::
    "environment \<Rightarrow> string \<Rightarrow> (rule_engine_config \<Rightarrow> 'p rule_engine option) \<Rightarrow> alert_manager \<Rightarrow> app_config
      \<Rightarrow> 'p core_service option" where
  "core_service_new env home rules alerts c = map_option (\<lambda>r.
     \<lparr> co_service = \<lparr> sv_correlation = correlation_engine_new correlation_config_default, sv_rules = r,
         sv_risk = risk_engine_new risk_config_default, sv_alerts = alerts \<rparr>,
       co_ai = ai_engine_new (ai_config_default env),
       co_privacy = privacy_engine_new home privacy_config_default \<rparr>) (rules (ac_rule_engine c))"

section \<open>Signals\<close>

text \<open>The task of the signals waits for Ctrl+C first and listens for SIGTERM only afterwards.  A signal
  that is not listened for has its default action and ends the process.  Listening for Ctrl+C installs
  its handler for good, so a second one is swallowed.\<close>

datatype os_signal = Sig_Int | Sig_Term

datatype signal_task = Await_Ctrl_C | Await_Sigterm | Signals_Done

datatype process_state = Running signal_task bool | Killed

fun on_signal :: "os_signal \<Rightarrow> process_state \<Rightarrow> process_state" where
  "on_signal Sig_Int (Running Await_Ctrl_C stop) = Running Await_Sigterm True"
| "on_signal Sig_Term (Running Await_Ctrl_C stop) = Killed"
| "on_signal Sig_Term (Running Await_Sigterm stop) = Running Signals_Done True"
| "on_signal s p = p"

definition process_started :: process_state where
  "process_started = Running Await_Ctrl_C False"

section \<open>What an alert causes\<close>

text \<open>The alert that the explanation is asked for: fresh identifiers, and always the severity Info.\<close>

definition ai_alert :: "ulid \<Rightarrow> ulid \<Rightarrow> datetime \<Rightarrow> datetime \<Rightarrow> risk_alert \<Rightarrow> alert" where
  "ai_alert i k created updated a = \<lparr> al_id = i, al_rule_id = ra_rule_id a, al_correlation_id = k,
     al_risk_score = ra_risk_score a, al_severity = Info, al_state = AS_New, al_created_at = created,
     al_updated_at = updated, al_acknowledged_by = None, al_acknowledged_at = None, al_events = [],
     al_context = JNull, al_ai_summary = None \<rparr>"

text \<open>The world around the service: environment variables, header check, dates, hash, provider, times,
  and the identifiers and dates of the alerts for the AI.\<close>

record world =
  wd_env :: environment
  wd_header_ok :: "string \<Rightarrow> bool"
  wd_rfc3339 :: "int \<Rightarrow> string"
  wd_secs :: int
  wd_hash :: "string \<Rightarrow> string"
  wd_generate :: "string \<Rightarrow> ai_error + string"
  wd_ns :: u64
  wd_ids :: "ulid \<times> ulid \<times> datetime \<times> datetime"

record effect =
  ef_alert :: risk_alert
  ef_explanation :: string
  ef_sent :: "outgoing list list"

definition alert_effect ::
    "world \<Rightarrow> event \<Rightarrow> event \<Rightarrow> risk_alert \<Rightarrow> ai_engine \<Rightarrow> (effect \<times> ai_engine) option" where
  "alert_effect w e clean a ai = (case wd_ids w of (i, k, created, updated) \<Rightarrow>
     (case explain_alert (wd_env w) (wd_generate w) (wd_ns w) ai (ai_alert i k created updated a) [clean] of
        (ai', None) \<Rightarrow> None
      | (ai', Some text') \<Rightarrow> Some (\<lparr> ef_alert = a, ef_explanation = text',
          ef_sent = notify_risk_alert (wd_env w) (wd_header_ok w) (wd_rfc3339 w) (wd_secs w) (ev_source e) a \<rparr>, ai')))"

fun alert_effects ::
    "world \<Rightarrow> event \<Rightarrow> event \<Rightarrow> risk_alert list \<Rightarrow> ai_engine \<Rightarrow> (effect list \<times> ai_engine) option" where
  "alert_effects w e clean [] ai = Some ([], ai)"
| "alert_effects w e clean (a # as) ai = (case alert_effect w e clean a ai of
     None \<Rightarrow> None
   | Some (x, ai') \<Rightarrow> map_option (\<lambda>(xs, ai''). (x # xs, ai'')) (alert_effects w e clean as ai'))"

section \<open>The main loop\<close>

text \<open>What one turn of the loop is given: the clocks and identifiers of \<open>handle_event\<close>.\<close>

record turn =
  tn_clock :: clock
  tn_ulid :: string
  tn_now :: "string \<Rightarrow> datetime"
  tn_took :: nat
  tn_match :: "nat \<Rightarrow> match_env"
  tn_world :: world
  tn_intel :: intel

definition service_turn ::
    "codec \<Rightarrow> string \<Rightarrow> (f64 \<Rightarrow> f64 \<Rightarrow> f64) \<Rightarrow> ('p \<Rightarrow> activation \<Rightarrow> string + cel_value) \<Rightarrow> turn \<times> event
      \<Rightarrow> 'p core_service \<Rightarrow> (effect list \<times> 'p core_service) option" where
  "service_turn c msg powf execute te s = (case te of (t, ev) \<Rightarrow> let e = enrich (tn_intel t) ev in
     (case sanitize_event (wd_hash (tn_world t)) (co_privacy s) e of
        None \<Rightarrow> None
      | Some clean \<Rightarrow>
          (let (raised, sv) = handle_event c msg powf execute (tn_intel t) (tn_clock t) (tn_ulid t) (tn_now t)
                                (tn_took t) (tn_match t) ev (co_service s)
           in map_option (\<lambda>(effects, ai). (effects, s\<lparr> co_service := sv, co_ai := ai \<rparr>))
                (alert_effects (tn_world t) e clean raised (co_ai s)))))"

text \<open>The effects of the loop, and the state it reaches unless the process has ended.\<close>

fun main_loop ::
    "codec \<Rightarrow> string \<Rightarrow> (f64 \<Rightarrow> f64 \<Rightarrow> f64) \<Rightarrow> ('p \<Rightarrow> activation \<Rightarrow> string + cel_value) \<Rightarrow> (turn \<times> event) list
      \<Rightarrow> 'p core_service \<Rightarrow> effect list \<times> 'p core_service option" where
  "main_loop c msg powf execute [] s = ([], Some s)"
| "main_loop c msg powf execute (te # ts) s = (case service_turn c msg powf execute te s of
     None \<Rightarrow> ([], None)
   | Some (effects, s') \<Rightarrow> (case main_loop c msg powf execute ts s' of (later, r) \<Rightarrow> (effects @ later, r)))"

section \<open>Runs\<close>

lemma service_turn_privacy:
  "service_turn c msg powf execute te s = Some (fx, s') \<Longrightarrow> co_privacy s' = co_privacy s"
  by (auto simp: service_turn_def Let_def split: prod.splits option.splits)

lemma main_loop_append:
  "main_loop c msg powf execute (ts @ us) s = (case main_loop c msg powf execute ts s of
     (fx, None) \<Rightarrow> (fx, None)
   | (fx, Some s') \<Rightarrow> (case main_loop c msg powf execute us s' of (gx, r) \<Rightarrow> (fx @ gx, r)))"
  by (induction ts arbitrary: s) (auto split: option.splits prod.splits)

lemma main_loop_privacy:
  "main_loop c msg powf execute ts s = (fx, Some s') \<Longrightarrow> co_privacy s' = co_privacy s"
  by (induction ts arbitrary: s fx)
    (auto split: option.splits prod.splits dest!: service_turn_privacy)

lemma sanitize_cut_path:
  assumes "ev_process e = Some p" "sh_file_paths (pf_sharing (pg_filter g)) \<in> {AL_Anonymized, AL_Redacted}"
    and "256 < length (rewrite_path hash (pc_path p) (pf_home_dir (pg_filter g)))"
    and "continuation_byte (rewrite_path hash (pc_path p) (pf_home_dir (pg_filter g)) ! 253)"
  shows "sanitize_event hash g e = None"
proof -
  have "anonymize_path hash (pg_filter g) (pc_path p) = None"
    using assms(2-4) by (auto simp: do_anonymize_path_def str_slice_to_def Let_def)
  then show ?thesis
    using assms(1) by (cases p) (auto simp: sanitize_event_def split: option.split)
qed

section \<open>Properties\<close>

text \<open>
  C35: One process is enough to stop the service.  If an event comes from a program whose rewritten
  path is longer than 256 bytes and has a character across byte 253, the main loop panics at that
  event: neither it nor any later event has an effect, whatever they are, and the process ends.\<close>

theorem long_path_stops_service:
  assumes "ev_process ev = Some p"
    and "sh_file_paths (pf_sharing (pg_filter (co_privacy s))) \<in> {AL_Anonymized, AL_Redacted}"
    and "256 < length (rewrite_path (wd_hash (tn_world t)) (pc_path p) (pf_home_dir (pg_filter (co_privacy s))))"
    and "continuation_byte (rewrite_path (wd_hash (tn_world t)) (pc_path p) (pf_home_dir (pg_filter (co_privacy s))) ! 253)"
  shows "main_loop c msg powf execute (ts @ (t, ev) # us) s = (fst (main_loop c msg powf execute ts s), None)"
proof -
  have "service_turn c msg powf execute (t, ev) s' = None" if "co_privacy s' = co_privacy s" for s'
    using that assms sanitize_cut_path [of "enrich (tn_intel t) ev" p "co_privacy s" "wd_hash (tn_world t)"] enrich_keeps [of "tn_intel t" ev]
    by (simp add: service_turn_def Let_def)
  then show ?thesis
    by (auto simp: main_loop_append split: option.split prod.split dest: main_loop_privacy)
qed

definition demo_world :: world where
  "demo_world = \<lparr> wd_env = (\<lambda>_. None), wd_header_ok = (\<lambda>_. True), wd_rfc3339 = (\<lambda>_. []), wd_secs = 0,
     wd_hash = (\<lambda>s. take 1 s), wd_generate = (\<lambda>_. Inl Timed_Out), wd_ns = 0, wd_ids = (1, 2, 0, 0) \<rparr>"

definition demo_turn :: turn where
  "demo_turn = \<lparr> tn_clock = (\<lambda>_. 0), tn_ulid = ''chain-1'', tn_now = (\<lambda>_. 0), tn_took = 1, tn_match = (\<lambda>_. demo_env),
     tn_world = demo_world, tn_intel = no_intel \<rparr>"

definition demo_core :: "unit core_service" where
  "demo_core = \<lparr> co_service = demo_service, co_ai = ai_engine_new (ai_config_default (\<lambda>_. None)),
     co_privacy = privacy_engine_new ''/h'' privacy_config_default \<rparr>"

definition hostile_process :: process_context where
  "hostile_process = ProcessContext 7 1 ''x'' (''/h/'' @ concat (replicate 130 [CHR 0xC3, CHR 0xA9])) [] [] None []
     None [] 0 [] None"

lemma long_path_stops_service_witness:
  "main_loop alert_codec ''dup'' (\<lambda>_ _. Fin 1) (\<lambda>_ _. Inr (CBool True))
     [(demo_turn, event_default), (demo_turn, event_default\<lparr> ev_process := Some hostile_process \<rparr>)] demo_core
   = (fst (main_loop alert_codec ''dup'' (\<lambda>_ _. Fin 1) (\<lambda>_ _. Inr (CBool True)) [(demo_turn, event_default)] demo_core),
      None)"
proof -
  have p: "ev_process (event_default\<lparr> ev_process := Some hostile_process \<rparr>) = Some hostile_process" by simp
  have l: "sh_file_paths (pf_sharing (pg_filter (co_privacy demo_core))) \<in> {AL_Anonymized, AL_Redacted}"
    by (simp add: demo_core_def privacy_engine_new_def privacy_config_default_def sharing_config_default_def)
  have r: "rewrite_path (wd_hash (tn_world demo_turn)) (pc_path hostile_process) (pf_home_dir (pg_filter (co_privacy demo_core)))
      = rewrite_path (\<lambda>s. take 1 s) (''/h/'' @ concat (replicate 130 [CHR 0xC3, CHR 0xA9])) ''/h''"
    by (simp add: demo_turn_def demo_world_def hostile_process_def demo_core_def privacy_engine_new_def)
  have "256 < length (rewrite_path (\<lambda>s. take 1 s) (''/h/'' @ concat (replicate 130 [CHR 0xC3, CHR 0xA9])) ''/h'')"
      "continuation_byte (rewrite_path (\<lambda>s. take 1 s) (''/h/'' @ concat (replicate 130 [CHR 0xC3, CHR 0xA9])) ''/h'' ! 253)"
    by code_simp+
  from long_path_stops_service [OF p l, of demo_turn alert_codec "''dup''" "\<lambda>_ _. Fin 1" "\<lambda>_ _. Inr (CBool True)"
      "[(demo_turn, event_default)]" "[]", unfolded r, OF this]
  show ?thesis by simp
qed

text \<open>
  C11: What leaves the host for an alert depends on the event through its source, type and severity
  and the name and number of its process only: two events that agree on these have the same effects,
  prompt and notifications included, whatever their payloads, paths, command lines and users.\<close>

theorem effects_see_names_only:
  assumes "sanitize_event (wd_hash w) g e = Some clean" "sanitize_event (wd_hash w) g e' = Some clean'"
    and "ev_source e = ev_source e'" "ev_type e = ev_type e'" "ev_severity e = ev_severity e'"
    and "map_option (\<lambda>p. (pc_name p, pc_pid p)) (ev_process e) = map_option (\<lambda>p. (pc_name p, pc_pid p)) (ev_process e')"
  shows "alert_effects w e clean raised ai = alert_effects w e' clean' raised ai"
proof -
  have clean: "ev_source x = ev_source y \<and> ev_type x = ev_type y \<and> ev_severity x = ev_severity y
      \<and> map_option (\<lambda>p. (pc_name p, pc_pid p)) (ev_process x) = map_option (\<lambda>p. (pc_name p, pc_pid p)) (ev_process y)"
    if "sanitize_event (wd_hash w) g y = Some x" for x y
  proof (cases "ev_process y")
    case (Some p)
    then show ?thesis
      using that by (cases p) (auto simp: sanitize_event_def split: option.splits)
  qed (use that in \<open>simp add: sanitize_event_def\<close>)
  have same: "ev_source clean = ev_source clean'" "ev_type clean = ev_type clean'" "ev_severity clean = ev_severity clean'"
      "map_option (\<lambda>p. (pc_name p, pc_pid p)) (ev_process clean) = map_option (\<lambda>p. (pc_name p, pc_pid p)) (ev_process clean')"
    using clean [OF assms(1)] clean [OF assms(2)] assms(3-6) by simp_all
  have "process_note env clean = process_note env clean'" for env
    using same(4) by (cases "ev_process clean"; cases "ev_process clean'") (simp_all add: process_note_def)
  then have "event_line env (i, clean) = event_line env (i, clean')" for env i
    using same by (simp add: event_line_def)
  then have "summarise_events env [clean] = summarise_events env [clean']" for env
    by (simp add: summarise_events_def)
  then have explain: "explain_alert env gen t s a [clean] = explain_alert env gen t s a [clean']" for env gen t s a
    by (simp add: explain_alert_def explain_prompt_def)
  have "alert_effect w e clean a ai = alert_effect w e' clean' a ai" for a ai
    unfolding alert_effect_def assms(3) explain by (rule refl)
  then show ?thesis
    by (induction raised arbitrary: ai) (simp_all cong: option.case_cong)
qed

definition demo_raised :: risk_alert where
  "demo_raised = \<lparr> ra_rule_id = ''r1'', ra_rule_name = ''always'', ra_risk_score = 900, ra_severity = AS_Critical,
     ra_source = [], ra_event_ids = [''2''], ra_correlation_id = None, ra_created_at = 0, ra_summary = [] \<rparr>"

lemma effects_see_names_only_witness:
  "alert_effects demo_world event_default event_default [demo_raised] (ai_engine_new (ai_config_default (\<lambda>_. None)))
   = alert_effects demo_world (event_default\<lparr> ev_id := ''2'', ev_tags := [''t''] \<rparr>) (event_default\<lparr> ev_id := ''2'', ev_tags := [''t''] \<rparr>)
       [demo_raised] (ai_engine_new (ai_config_default (\<lambda>_. None)))"
  by (rule effects_see_names_only [where g = "privacy_engine_new ''/h'' privacy_config_default"])
    (simp_all add: sanitize_event_def event_default_def)

text \<open>The service stops gracefully only if its first signal is Ctrl+C.  A SIGTERM that comes first,
  as from a service manager, kills it: nothing listens for it before the first Ctrl+C.\<close>

theorem graceful_stop_needs_ctrl_c:
  "(fold on_signal ss process_started = Killed \<longleftrightarrow> (\<exists>r. ss = Sig_Term # r))
   \<and> ((\<exists>phase. fold on_signal ss process_started = Running phase True) \<longleftrightarrow> (\<exists>r. ss = Sig_Int # r))"
proof -
  have stopped: "\<exists>phase. phase \<noteq> Await_Ctrl_C \<and> fold on_signal r (Running q True) = Running phase True"
    if "q \<noteq> Await_Ctrl_C" for q r
    using that
  proof (induction r arbitrary: q)
    case (Cons x r)
    then obtain q' where "on_signal x (Running q True) = Running q' True" "q' \<noteq> Await_Ctrl_C"
      by (cases x; cases q) auto
    then show ?case using Cons.IH [of q'] by simp
  qed simp
  have killed: "fold on_signal r Killed = Killed" for r
    by (induction r) (auto elim: on_signal.elims)
  show ?thesis
  proof (cases ss)
    case Nil
    then show ?thesis by (simp add: process_started_def)
  next
    case (Cons x r)
    then show ?thesis
      using stopped [of Await_Sigterm r] killed [of r] by (cases x) (auto simp: process_started_def)
  qed
qed

end
