(* ===== verification/Duckdb.thy ===== *)
theory Duckdb
  imports Repositories
begin

text \<open>
  The analytics store (crates/sentinel-storage/src/duckdb.rs): the schema, the statements it sends with
  their parameters, the rows it writes and reads, and its cursor.  The database itself is not part of
  the repository; what it refuses to convert is a parameter.
\<close>

section \<open>Configuration and schema\<close>

record duckdb_config =
  dc_path :: string
  dc_memory_limit_mb :: u32
  dc_threads :: u32
  dc_read_only :: bool

definition duckdb_config_default :: duckdb_config where
  "duckdb_config_default = \<lparr> dc_path = ''data/events.duckdb'', dc_memory_limit_mb = 256, dc_threads = 2,
     dc_read_only = False \<rparr>"

definition squote :: string where
  "squote = [CHR 0x27]"

definition duck_pragmas :: "duckdb_config \<Rightarrow> string list" where
  "duck_pragmas c = [''PRAGMA memory_limit='' @ squote @ show_word (dc_memory_limit_mb c) @ ''MB'' @ squote,
     ''PRAGMA threads='' @ show_word (dc_threads c)]"

definition json_path :: "string \<Rightarrow> string \<Rightarrow> string" where
  "json_path col field = ''JSON_EXTRACT('' @ col @ '', '' @ squote @ ''$.'' @ field @ squote @ '')''"

definition duck_event_columns :: columns where
  "duck_event_columns = [(''id'', ''VARCHAR PRIMARY KEY''), (''type'', ''VARCHAR NOT NULL''),
     (''source'', ''VARCHAR NOT NULL''), (''timestamp'', ''TIMESTAMP NOT NULL''),
     (''ingest_timestamp'', ''TIMESTAMP NOT NULL''), (''severity'', ''INTEGER NOT NULL''), (''process_json'', ''JSON''),
     (''payload_json'', ''JSON NOT NULL''), (''tags'', ''VARCHAR[]''), (''metadata_json'', ''JSON''),
     (''risk_score'', ''INTEGER DEFAULT 0''), (''correlation_json'', ''JSON''), (''host_id'', ''VARCHAR''),
     (''schema_version'', ''INTEGER DEFAULT 1''), (''created_at'', ''TIMESTAMP DEFAULT CURRENT_TIMESTAMP'')]"

definition duck_schema :: "ddl list" where
  "duck_schema = [CreateTable ''events'' duck_event_columns [],
     CreateIndex ''idx_events_timestamp'' ''events'' ''timestamp'', CreateIndex ''idx_events_type'' ''events'' ''type'',
     CreateIndex ''idx_events_source'' ''events'' ''source'', CreateIndex ''idx_events_severity'' ''events'' ''severity'',
     CreateIndex ''idx_events_risk_score'' ''events'' ''risk_score'', CreateIndex ''idx_events_host_id'' ''events'' ''host_id'',
     CreateIndex ''idx_events_process_name'' ''events'' (json_path ''process_json'' ''name''),
     CreateIndex ''idx_events_correlation_id'' ''events'' (json_path ''correlation_json'' ''correlation_id''),
     CreateIndex ''idx_events_flow_id'' ''events'' (json_path ''correlation_json'' ''flow_id''),
     CreateTable ''hourly_risk'' [(''hour'', ''TIMESTAMP PRIMARY KEY''), (''host_id'', ''VARCHAR''), (''risk_score'', ''INTEGER''),
       (''event_count'', ''BIGINT''), (''alert_count'', ''INTEGER''), (''by_category'', ''JSON''), (''by_tactic'', ''JSON'')] [],
     CreateTable ''daily_mitre'' [(''day'', ''DATE PRIMARY KEY''), (''tactic'', ''VARCHAR''), (''technique'', ''VARCHAR''),
       (''count'', ''BIGINT'')] [],
     CreateTable ''process_behavior'' [(''hour'', ''TIMESTAMP''), (''process_name'', ''VARCHAR''), (''pid'', ''INTEGER''),
       (''event_count'', ''BIGINT''), (''risk_score'', ''INTEGER''), (''mitre_techniques'', ''VARCHAR[]'')]
       [''PRIMARY KEY (hour, process_name, pid)'']]"

section \<open>Writing\<close>

record duck_row =
  dr_id :: string
  dr_type :: string
  dr_source :: string
  dr_timestamp :: string
  dr_ingest_timestamp :: string
  dr_severity :: int
  dr_process_json :: string
  dr_payload_json :: string
  dr_tags :: string
  dr_metadata_json :: string
  dr_risk_score :: int
  dr_correlation_json :: string
  dr_host_id :: string
  dr_schema_version :: int

type_synonym duck_table = "duck_row table"

definition duck_insert_columns :: "string list" where
  "duck_insert_columns = [''id'', ''type'', ''source'', ''timestamp'', ''ingest_timestamp'', ''severity'', ''process_json'',
     ''payload_json'', ''tags'', ''metadata_json'', ''risk_score'', ''correlation_json'', ''host_id'', ''schema_version'']"

definition duck_insert_sql :: string where
  "duck_insert_sql = ''INSERT INTO events ('' @ str_join '', '' duck_insert_columns @ '') VALUES ('' @ str_join '', '' (replicate 14 ''?'') @ '')''"

definition json_or_none :: "codec \<Rightarrow> ('a \<Rightarrow> json) \<Rightarrow> 'a option \<Rightarrow> string" where
  "json_or_none c f x = (case x of None \<Rightarrow> [] | Some y \<Rightarrow> k_json_show c (f y))"

definition duck_row_of :: "codec \<Rightarrow> event \<Rightarrow> duck_row" where
  "duck_row_of c e = \<lparr> dr_id = ev_id e, dr_type = ev_type e, dr_source = ev_source e,
     dr_timestamp = ts_to_rfc3339 (k_ts_show c) (ev_timestamp e),
     dr_ingest_timestamp = ts_to_rfc3339 (k_ts_show c) (ev_ingest_timestamp e),
     dr_severity = sint (ev_severity e),
     dr_process_json = json_or_none c process_to_json (ev_process e),
     dr_payload_json = json_or_none c payload_to_json (ev_payload e),
     dr_tags = str_join '','' (ev_tags e),
     dr_metadata_json = json_or_none c struct_to_json (ev_metadata e),
     dr_risk_score = uint (ev_risk_score e),
     dr_correlation_json = json_or_none c correlation_to_json (ev_correlation e),
     dr_host_id = ev_host_id e, dr_schema_version = sint (ev_schema_version e) \<rparr>"

text \<open>\<open>check\<close> is the database's own refusal of a row, for instance of a value that is no JSON.\<close>

definition duck_insert :: "(duck_row \<Rightarrow> string option) \<Rightarrow> string \<Rightarrow> duck_table \<Rightarrow> duck_row \<Rightarrow> string + duck_table" where
  "duck_insert check msg t r = (case check r of
       Some e \<Rightarrow> Inl e
     | None \<Rightarrow> if t (dr_id r) = None then Inr (t(dr_id r \<mapsto> r)) else Inl msg)"

text \<open>The rows are inserted one by one, without a transaction.\<close>

fun duck_append_rows ::
    "(duck_row \<Rightarrow> string option) \<Rightarrow> string \<Rightarrow> codec \<Rightarrow> duck_table \<Rightarrow> event list \<Rightarrow> duck_table \<times> (string + unit)" where
  "duck_append_rows check msg c t [] = (t, Inr ())"
| "duck_append_rows check msg c t (e # es) = (case duck_insert check msg t (duck_row_of c e) of
     Inl m \<Rightarrow> (t, Inl m)
   | Inr t' \<Rightarrow> duck_append_rows check msg c t' es)"

definition duck_append ::
    "(duck_row \<Rightarrow> string option) \<Rightarrow> string \<Rightarrow> codec \<Rightarrow> duck_table \<Rightarrow> event list \<Rightarrow> duck_table \<times> (string + unit)" where
  "duck_append check msg c t es = (if es = [] then (t, Inr ()) else duck_append_rows check msg c t es)"

section \<open>Queries\<close>

definition duck_free_text :: "string option \<Rightarrow> bound_cond list" where
  "duck_free_text t = (case t of None \<Rightarrow> []
     | Some s \<Rightarrow> [(C_LikeEither ''payload_json'' (json_path ''process_json'' ''command_line''), [like_text s, like_text s])])"

definition duck_event_conds :: "(datetime \<Rightarrow> string) \<Rightarrow> event_query \<Rightarrow> bound_cond list" where
  "duck_event_conds rfc q =
     opt_cond (C_Ge ''timestamp'') rfc (eq_start_time q)
   @ opt_cond (C_Le ''timestamp'') rfc (eq_end_time q)
   @ in_cond ''type'' id (eq_event_types q)
   @ in_cond ''source'' id (eq_sources q)
   @ in_cond ''severity'' show_severity (eq_severities q)
   @ in_cond (json_path ''process_json'' ''name'') id (eq_process_names q)
   @ in_cond (json_path ''process_json'' ''pid'') show_word (eq_pids q)
   @ opt_cond (C_Eq (json_path ''correlation_json'' ''correlation_id'')) id (eq_correlation_id q)
   @ opt_cond (C_Eq (json_path ''correlation_json'' ''flow_id'')) id (eq_flow_id q)
   @ opt_cond (C_Ge ''risk_score'') show_word (eq_min_risk_score q)
   @ like_conds ''tags'' like_text (eq_tags q)
   @ duck_free_text (eq_free_text q)"

text \<open>The column to sort by is taken as it is.\<close>

definition duck_sort_by :: "event_query \<Rightarrow> string" where
  "duck_sort_by q = (case eq_sort_by q of None \<Rightarrow> ''timestamp'' | Some s \<Rightarrow> s)"

definition duck_event_sql :: "(datetime \<Rightarrow> string) \<Rightarrow> event_query \<Rightarrow> string" where
  "duck_event_sql rfc q = ''SELECT * FROM events WHERE 1=1'' @ conds_sql (duck_event_conds rfc q)
     @ '' ORDER BY '' @ duck_sort_by q @ '' '' @ (if eq_sort_desc q then ''DESC'' else ''ASC'') @ '' LIMIT ? OFFSET ?''"

definition duck_event_params :: "(datetime \<Rightarrow> string) \<Rightarrow> event_query \<Rightarrow> string list" where
  "duck_event_params rfc q = conds_params (duck_event_conds rfc q) @ [show_word (eq_limit q), show_word (eq_offset q)]"

definition duck_count_conds :: "(datetime \<Rightarrow> string) \<Rightarrow> event_query \<Rightarrow> bound_cond list" where
  "duck_count_conds rfc q =
     opt_cond (C_Ge ''timestamp'') rfc (eq_start_time q) @ opt_cond (C_Le ''timestamp'') rfc (eq_end_time q)"

definition duck_count_sql :: "(datetime \<Rightarrow> string) \<Rightarrow> event_query \<Rightarrow> string" where
  "duck_count_sql rfc q = ''SELECT COUNT(*) FROM events WHERE 1=1'' @ conds_sql (duck_count_conds rfc q)"

text \<open>\<open>get_event\<close> is a stub.\<close>

definition duck_get :: "duck_table \<Rightarrow> ulid \<Rightarrow> event option" where
  "duck_get t i = None"

definition duck_hour :: string where
  "duck_hour = ''strftime('' @ squote @ ''%Y-%m-%d %H:00:00'' @ squote @ '', timestamp)''"

definition duck_group_by :: "string \<Rightarrow> string" where
  "duck_group_by g = (if g = ''hour'' then duck_hour else if g = ''day'' then ''date(timestamp)''
     else if g = ''type'' then ''type'' else if g = ''source'' then ''source''
     else if g = ''severity'' then ''severity'' else duck_hour)"

definition duck_aggregate_sql :: "string \<Rightarrow> string" where
  "duck_aggregate_sql g = ''SELECT '' @ duck_group_by g
     @ '' as group_key, COUNT(*) as count, AVG(risk_score) as avg_risk, MIN(risk_score) as min_risk, MAX(risk_score) as max_risk FROM events WHERE timestamp >= ? AND timestamp <= ? GROUP BY ''
     @ duck_group_by g"

record aggregation_bucket =
  ab_key :: string
  ab_count :: u64
  ab_avg_risk :: "f64 option"
  ab_min_risk :: "u32 option"
  ab_max_risk :: "u32 option"

text \<open>The casts of the integers of a result row keep the low bits.\<close>

definition duck_bucket :: "string \<times> int \<times> f64 option \<times> int option \<times> int option \<Rightarrow> aggregation_bucket" where
  "duck_bucket r = (case r of (key, n, avg, lo, hi) \<Rightarrow>
     \<lparr> ab_key = key, ab_count = word_of_int n, ab_avg_risk = avg, ab_min_risk = map_option word_of_int lo,
       ab_max_risk = map_option word_of_int hi \<rparr>)"

record duck_retention_policy =
  rp_event_type_pattern :: string
  rp_max_age_days :: u32
  rp_max_count :: u64

text \<open>The line breaks and indentation of the statement are written as single spaces.\<close>

definition duck_retention_sql :: string where
  "duck_retention_sql = (let old = ''type LIKE ? AND timestamp < datetime('' @ squote @ ''now'' @ squote @ '', ?)'' in
     ''DELETE FROM events WHERE '' @ old @ '' AND id IN ( SELECT id FROM events WHERE '' @ old
     @ '' ORDER BY timestamp DESC LIMIT ? )'')"

definition duck_retention_params :: "duck_retention_policy \<Rightarrow> string list" where
  "duck_retention_params p = (let age = ''-'' @ show_word (rp_max_age_days p) @ '' days'' in
     [rp_event_type_pattern p, age, rp_event_type_pattern p, age, show_int (sint (rp_max_count p))])"

section \<open>Reading\<close>

definition duck_parse_timestamp :: "(string \<Rightarrow> datetime option) \<Rightarrow> string \<Rightarrow> timestamp option" where
  "duck_parse_timestamp parse s = map_option (\<lambda>d. \<lparr> ts_seconds = d div 1000000000, ts_nanos = d mod 1000000000 \<rparr>) (parse s)"

definition duck_row_to_event :: "codec \<Rightarrow> duck_row \<Rightarrow> event" where
  "duck_row_to_event c r = \<lparr> ev_id = dr_id r, ev_type = dr_type r, ev_source = dr_source r,
     ev_timestamp = duck_parse_timestamp (k_date_parse c) (dr_timestamp r),
     ev_ingest_timestamp = duck_parse_timestamp (k_date_parse c) (dr_ingest_timestamp r),
     ev_severity = word_of_int (dr_severity r), ev_process = None, ev_payload = None,
     ev_tags = filter (\<lambda>s. s \<noteq> []) (str_split (\<lambda>ch. ch = CHR '','') (dr_tags r)), ev_metadata = None,
     ev_risk_score = word_of_int (dr_risk_score r), ev_correlation = None, ev_host_id = dr_host_id r,
     ev_schema_version = word_of_int (dr_schema_version r) \<rparr>"

record duck_cursor =
  du_events :: "event list"
  du_index :: nat

definition duck_query :: "codec \<Rightarrow> duck_row list \<Rightarrow> duck_cursor" where
  "duck_query c rows = \<lparr> du_events = map (duck_row_to_event c) rows, du_index = 0 \<rparr>"

definition duck_next :: "duck_cursor \<Rightarrow> event option \<times> duck_cursor" where
  "duck_next d = (if du_index d < length (du_events d)
     then (Some (du_events d ! du_index d), d\<lparr> du_index := du_index d + 1 \<rparr>) else (None, d))"

fun duck_collect :: "nat \<Rightarrow> duck_cursor \<Rightarrow> event list \<times> duck_cursor" where
  "duck_collect 0 d = ([], d)"
| "duck_collect (Suc n) d = (case duck_next d of
     (None, d') \<Rightarrow> ([], d')
   | (Some e, d') \<Rightarrow> (case duck_collect n d' of (es, d'') \<Rightarrow> (e # es, d'')))"

definition duck_total_count :: "duck_cursor \<Rightarrow> u64" where
  "duck_total_count d = of_nat (length (du_events d))"

section \<open>Statements\<close>

lemma json_path_marks: "marks (json_path col field) = marks col + marks field"
  by (simp add: json_path_def squote_def)

lemma well_bound_duck_text [bound_intros]: "list_all well_bound (duck_free_text t)"
  by (cases t) (simp_all add: duck_free_text_def well_bound_def cond_arity_def cond_columns_def json_path_marks)

lemma well_bound_duck:
  "list_all well_bound (duck_event_conds rfc q)" "list_all well_bound (duck_count_conds rfc q)"
  unfolding duck_event_conds_def duck_count_conds_def
  by (intro bound_intros; simp add: cond_arity_def cond_columns_def json_path_marks)+

lemma duck_placeholders:
  "marks (duck_event_sql rfc q) = length (duck_event_params rfc q) + marks (duck_sort_by q)
   \<and> marks (duck_count_sql rfc q) = length (conds_params (duck_count_conds rfc q))"
  by (simp add: duck_event_sql_def duck_event_params_def duck_count_sql_def
      marks_conds [OF well_bound_duck(1)] marks_conds [OF well_bound_duck(2)])

lemma duck_insert_fits: "duck_insert_columns = butlast (map fst duck_event_columns)"
  by (simp add: duck_insert_columns_def duck_event_columns_def)

lemma conds_sql_duck_sort: "conds_sql (duck_event_conds rfc (q\<lparr> eq_sort_by := s \<rparr>)) = conds_sql (duck_event_conds rfc q)"
  by (simp add: duck_event_conds_def)

text \<open>The text to sort by reaches the statement as it is: whatever string a query asks to sort by
  stands in the statement between two parts that do not depend on it, so it can hold any SQL.\<close>

theorem duck_sort_injected:
  "\<exists>before after. \<forall>s. duck_event_sql rfc (q\<lparr> eq_sort_by := Some s \<rparr>) = before @ s @ after"
proof -
  have "duck_event_sql rfc (q\<lparr> eq_sort_by := Some s \<rparr>)
      = (''SELECT * FROM events WHERE 1=1'' @ conds_sql (duck_event_conds rfc q) @ '' ORDER BY '') @ s
        @ ('' '' @ (if eq_sort_desc q then ''DESC'' else ''ASC'') @ '' LIMIT ? OFFSET ?'')" for s
    by (simp add: duck_event_sql_def duck_sort_by_def conds_sql_duck_sort)
  then show ?thesis by blast
qed

text \<open>The count of the analytics store looks at the time range only: it counts every row that the query
  selects, and it is the same for two queries of one range, whatever their filters are.\<close>

theorem duck_count_ignores_filters:
  "(row_matches (duck_event_conds rfc q) row \<longrightarrow> row_matches (duck_count_conds rfc q) row)
   \<and> (eq_start_time q' = eq_start_time q \<and> eq_end_time q' = eq_end_time q \<longrightarrow>
        duck_count_sql rfc q' = duck_count_sql rfc q \<and> duck_count_conds rfc q' = duck_count_conds rfc q)"
  by (simp add: row_matches_def duck_event_conds_def duck_count_conds_def duck_count_sql_def)

lemma duck_count_ignores_filters_witness:
  "duck_count_sql (\<lambda>_. ''t'') (event_query_default\<lparr> eq_sources := [''usb''] \<rparr>) = duck_count_sql (\<lambda>_. ''t'') event_query_default"
  using duck_count_ignores_filters [of "\<lambda>_. ''t''" event_query_default "\<lambda>_. SInt 0" "event_query_default\<lparr> eq_sources := [''usb''] \<rparr>"]
  by simp

section \<open>Appending\<close>

text \<open>An append is not atomic.  It succeeds exactly when every row is accepted in turn; when it fails,
  the events before the refused one stay in the table, and those after it are not tried.\<close>

theorem duck_append_keeps_prefix:
  assumes "duck_append check msg c t es = (t', Inl m)"
  shows "\<exists>stored e rest. es = stored @ e # rest
     \<and> duck_append check msg c t stored = (t', Inr ())
     \<and> duck_insert check msg t' (duck_row_of c e) = Inl m"
proof -
  have "duck_append_rows check msg c t es = (t', Inl m) \<Longrightarrow>
      \<exists>stored e rest. es = stored @ e # rest \<and> duck_append_rows check msg c t stored = (t', Inr ())
        \<and> duck_insert check msg t' (duck_row_of c e) = Inl m" for t
  proof (induction es arbitrary: t)
    case (Cons e es)
    show ?case
    proof (cases "duck_insert check msg t (duck_row_of c e)")
      case (Inl m')
      then have "e # es = [] @ e # es \<and> duck_append_rows check msg c t [] = (t', Inr ())
          \<and> duck_insert check msg t' (duck_row_of c e) = Inl m"
        using Cons.prems by simp
      then show ?thesis by blast
    next
      case (Inr u)
      then obtain stored x rest where "es = stored @ x # rest"
          "duck_append_rows check msg c u stored = (t', Inr ())" "duck_insert check msg t' (duck_row_of c x) = Inl m"
        using Cons.IH [of u] Cons.prems by auto
      then have "e # es = (e # stored) @ x # rest \<and> duck_append_rows check msg c t (e # stored) = (t', Inr ())
          \<and> duck_insert check msg t' (duck_row_of c x) = Inl m"
        using Inr by simp
      then show ?thesis by blast
    qed
  qed simp
  moreover have "duck_append check msg c t xs = duck_append_rows check msg c t xs" for xs
    by (simp add: duck_append_def)
  ultimately show ?thesis
    using assms by metis
qed

definition demo_duck :: "duck_table \<times> (string + unit)" where
  "demo_duck = duck_append (\<lambda>_. None) ''dup'' (decimal_codec JNull (rule_default 0 0)) Map.empty
     [event_default\<lparr> ev_id := ''a'' \<rparr>, event_default\<lparr> ev_id := ''a'' \<rparr>]"

lemma duck_append_keeps_prefix_witness:
  "\<exists>stored e rest. [event_default\<lparr> ev_id := ''a'' \<rparr>, event_default\<lparr> ev_id := ''a'' \<rparr>] = stored @ e # rest
     \<and> duck_append (\<lambda>_. None) ''dup'' (decimal_codec JNull (rule_default 0 0)) Map.empty stored = (fst demo_duck, Inr ())
     \<and> duck_insert (\<lambda>_. None) ''dup'' (fst demo_duck) (duck_row_of (decimal_codec JNull (rule_default 0 0)) e) = Inl ''dup''"
  by (rule duck_append_keeps_prefix)
    (simp add: demo_duck_def duck_append_def duck_insert_def duck_row_of_def event_default_def)

section \<open>Events that went through the store\<close>

definition duck_stored :: "event \<Rightarrow> event" where
  "duck_stored e = e\<lparr> ev_process := None, ev_payload := None, ev_metadata := None, ev_correlation := None \<rparr>"

definition duck_time_ok :: "codec \<Rightarrow> timestamp option \<Rightarrow> bool" where
  "duck_time_ok c t \<longleftrightarrow> (case t of None \<Rightarrow> k_date_parse c [] = None
     | Some ts \<Rightarrow> 0 \<le> ts_nanos ts \<and> ts_nanos ts < 1000000000
         \<and> k_date_parse c (ts_to_rfc3339 (k_ts_show c) t) = Some (ts_seconds ts * 1000000000 + ts_nanos ts))"

definition duck_event_ok :: "codec \<Rightarrow> event \<Rightarrow> bool" where
  "duck_event_ok c e \<longleftrightarrow> duck_time_ok c (ev_timestamp e) \<and> duck_time_ok c (ev_ingest_timestamp e)
     \<and> list_all (\<lambda>t. t \<noteq> [] \<and> CHR '','' \<notin> set t) (ev_tags e)"

lemma duck_time: "duck_time_ok c t \<Longrightarrow> duck_parse_timestamp (k_date_parse c) (ts_to_rfc3339 (k_ts_show c) t) = t"
  by (cases t) (auto simp: duck_time_ok_def duck_parse_timestamp_def ts_to_rfc3339_def [of _ None])

lemma split_joined:
  "list_all (\<lambda>t. t \<noteq> [] \<and> CHR '','' \<notin> set t) ws \<Longrightarrow>
   filter (\<lambda>s. s \<noteq> []) (str_split (\<lambda>ch. ch = CHR '','') (str_join '','' ws)) = ws"
proof (induction "'',''" ws rule: str_join.induct)
  case (2 w)
  then have "str_split (\<lambda>ch. ch = CHR '','') w = [w]"
    by (intro str_split_single) auto
  then show ?case using 2 by simp
next
  case (3 w v ws)
  then have "str_split (\<lambda>ch. ch = CHR '','') (w @ CHR '','' # str_join '','' (v # ws))
      = w # str_split (\<lambda>ch. ch = CHR '','') (str_join '','' (v # ws))"
    by (intro str_split_append) auto
  then show ?case using 3 by simp
qed simp

text \<open>An event that is written and read again keeps its identity, type, source, times, severity, tags,
  risk score, host and version, and loses its process, payload, metadata and correlation; for tags
  without commas and times the date library reads back.\<close>

theorem duck_roundtrip:
  assumes "duck_event_ok c e"
  shows "duck_row_to_event c (duck_row_of c e) = duck_stored e"
  using assms duck_time [of c "ev_timestamp e"] duck_time [of c "ev_ingest_timestamp e"] split_joined [of "ev_tags e"]
  by (simp add: duck_event_ok_def duck_row_to_event_def duck_row_of_def duck_stored_def)

definition demo_codec :: codec where
  "demo_codec = (decimal_codec JNull (rule_default 0 0))
     \<lparr> k_ts_show := \<lambda>s n. Some (show_int (s * 1000000000 + int n)) \<rparr>"

lemma duck_roundtrip_witness:
  "duck_row_to_event demo_codec (duck_row_of demo_codec
     (event_default\<lparr> ev_id := ''a'', ev_tags := [''x'', ''y''], ev_timestamp := Some \<lparr> ts_seconds = 5, ts_nanos = 7 \<rparr> \<rparr>))
   = duck_stored (event_default\<lparr> ev_id := ''a'', ev_tags := [''x'', ''y''], ev_timestamp := Some \<lparr> ts_seconds = 5, ts_nanos = 7 \<rparr> \<rparr>)"
proof (rule duck_roundtrip)
  have "read_int [] = None" by code_simp
  moreover have "read_int (show_int 5000000007) = Some 5000000007" by simp
  ultimately show "duck_event_ok demo_codec
      (event_default\<lparr> ev_id := ''a'', ev_tags := [''x'', ''y''], ev_timestamp := Some \<lparr> ts_seconds = 5, ts_nanos = 7 \<rparr> \<rparr>)"
    by (simp add: duck_event_ok_def duck_time_ok_def demo_codec_def decimal_codec_def event_default_def ts_to_rfc3339_def)
qed

section \<open>Cursors\<close>

text \<open>The interface of an event cursor (traits.rs): \<open>remaining\<close> is what it has still to deliver.\<close>

locale event_cursor =
  fixes next_event :: "'c \<Rightarrow> 'e option \<times> 'c"
    and collect :: "nat \<Rightarrow> 'c \<Rightarrow> 'e list \<times> 'c"
    and remaining :: "'c \<Rightarrow> 'e list"
  assumes next_spec: "fst (next_event c) = (case remaining c of [] \<Rightarrow> None | e # es \<Rightarrow> Some e)"
    and next_rest: "remaining (snd (next_event c)) = tl (remaining c)"
    and collect_spec: "fst (collect n c) = take n (remaining c)"
    and collect_rest: "remaining (snd (collect n c)) = drop n (remaining c)"
begin

lemma next_none: "fst (next_event c) = None \<longleftrightarrow> remaining c = []"
  by (simp add: next_spec split: list.split)

lemma collect_all: "length (remaining c) \<le> n \<Longrightarrow> fst (collect n c) = remaining c \<and> remaining (snd (collect n c)) = []"
  by (simp add: collect_spec collect_rest)

end

fun run_calls ::
    "('c \<Rightarrow> 'e option \<times> 'c) \<Rightarrow> (nat \<Rightarrow> 'c \<Rightarrow> 'e list \<times> 'c) \<Rightarrow> cursor_call list \<Rightarrow> 'c \<Rightarrow> 'e list" where
  "run_calls nx col [] c = []"
| "run_calls nx col (Next # ops) c = (case fst (nx c) of None \<Rightarrow> [] | Some e \<Rightarrow> [e]) @ run_calls nx col ops (snd (nx c))"
| "run_calls nx col (Collect n # ops) c = fst (col n c) @ run_calls nx col ops (snd (col n c))"

context event_cursor
begin

lemma run_calls_remaining:
  "run_calls next_event collect ops c = take (sum_list (map call_size ops)) (remaining c)"
proof (induction ops arbitrary: c)
  case (Cons op ops)
  show ?case
  proof (cases op)
    case Next
    then show ?thesis
      using Cons.IH [of "snd (next_event c)"] by (cases "remaining c") (simp_all add: next_spec next_rest)
  next
    case (Collect n)
    then show ?thesis
      using Cons.IH [of "snd (collect n c)"] by (simp add: collect_spec collect_rest take_add)
  qed
qed simp

end

lemma cursor_position_drop: "cursor_collect n c = (take n (drop (cu_position c) (cu_events c)),
    c\<lparr> cu_position := cu_position c + min n (length (cu_events c) - cu_position c) \<rparr>)"
  by (simp add: cursor_collect_def Let_def min_def)

interpretation sqlite: event_cursor cursor_next cursor_collect "\<lambda>c. drop (cu_position c) (cu_events c)"
proof unfold_locales
  fix c :: "'a cursor" and n
  show "fst (cursor_next c) = (case drop (cu_position c) (cu_events c) of [] \<Rightarrow> None | e # es \<Rightarrow> Some e)"
    by (cases "cu_position c < length (cu_events c)") (simp_all add: cursor_next_def Cons_nth_drop_Suc [symmetric])
  show "drop (cu_position (snd (cursor_next c))) (cu_events (snd (cursor_next c))) = tl (drop (cu_position c) (cu_events c))"
    by (simp add: cursor_next_def tl_drop drop_Suc)
  show "fst (cursor_collect n c) = take n (drop (cu_position c) (cu_events c))"
    by (simp add: cursor_position_drop)
  show "drop (cu_position (snd (cursor_collect n c))) (cu_events (snd (cursor_collect n c)))
      = drop n (drop (cu_position c) (cu_events c))"
    by (simp add: cursor_position_drop add.commute min_def)
qed

definition duck_remaining :: "duck_cursor \<Rightarrow> event list" where
  "duck_remaining d = drop (du_index d) (du_events d)"

lemma duck_next_cases:
  obtains (more) e es where "duck_remaining d = e # es" "duck_next d = (Some e, d\<lparr> du_index := du_index d + 1 \<rparr>)"
      "duck_remaining (d\<lparr> du_index := du_index d + 1 \<rparr>) = es"
  | (none) "duck_remaining d = []" "duck_next d = (None, d)"
proof (cases "du_index d < length (du_events d)")
  case True
  then show ?thesis
    by (intro more) (simp_all add: duck_remaining_def duck_next_def Cons_nth_drop_Suc [symmetric])
next
  case False
  then show ?thesis
    by (intro none) (simp_all add: duck_remaining_def duck_next_def)
qed

lemma duck_collect_remaining:
  "fst (duck_collect n d) = take n (duck_remaining d) \<and> duck_remaining (snd (duck_collect n d)) = drop n (duck_remaining d)"
proof (induction n arbitrary: d)
  case (Suc n)
  show ?case
  proof (cases rule: duck_next_cases [of d])
    case (more e es)
    then show ?thesis
      using Suc.IH [of "d\<lparr> du_index := du_index d + 1 \<rparr>"] by (simp add: case_prod_beta)
  qed simp
qed simp

interpretation duck: event_cursor duck_next duck_collect duck_remaining
proof unfold_locales
  fix c n
  show "fst (duck_next c) = (case duck_remaining c of [] \<Rightarrow> None | e # es \<Rightarrow> Some e)"
    by (cases rule: duck_next_cases [of c]) simp_all
  show "duck_remaining (snd (duck_next c)) = tl (duck_remaining c)"
    by (cases rule: duck_next_cases [of c]) simp_all
qed (simp_all add: duck_collect_remaining)

text \<open>
  The two stores have the same cursor: on the same rows, any mix of calls of \<open>next\<close> and
  \<open>collect\<close> delivers the same events, the first ones in order.\<close>

theorem duck_cursor_agrees:
  "run_calls duck_next duck_collect ops (duck_query c rows)
     = run_calls cursor_next cursor_collect ops (cursor_new (map (duck_row_to_event c) rows))"
  by (simp only: duck.run_calls_remaining sqlite.run_calls_remaining)
    (simp add: duck_remaining_def duck_query_def cursor_new_def)

end
