(* ===== verification/Ui_State.thy ===== *)
theory Ui_State
  imports Api Ai_Engine Fleet File_Hash
begin

text \<open>
  The backend of the desktop interface (ui/tauri-app/src-tauri/src/state/mod.rs and the types of
  commands.rs).  It reads the database of the service through the SQLite repositories; the tables are
  parameters, as are the processes of the system, the environment and the files.
\<close>

section \<open>Queries of events\<close>

record ui_event_query =
  ue_start_time :: "string option"
  ue_end_time :: "string option"
  ue_event_types :: "string list option"
  ue_sources :: "string list option"
  ue_min_risk_score :: "u32 option"
  ue_limit :: "usize option"
  ue_offset :: "usize option"

definition ui_query_of :: "codec \<Rightarrow> ui_event_query \<Rightarrow> event_query" where
  "ui_query_of c q = \<lparr> eq_start_time = Option.bind (ue_start_time q) (k_date_parse c),
     eq_end_time = Option.bind (ue_end_time q) (k_date_parse c),
     eq_event_types = unwrap_or (ue_event_types q) [], eq_sources = unwrap_or (ue_sources q) [],
     eq_severities = [], eq_process_names = [], eq_pids = [], eq_correlation_id = None, eq_flow_id = None,
     eq_min_risk_score = ue_min_risk_score q, eq_tags = [], eq_free_text = None,
     eq_limit = unwrap_or (ue_limit q) 100, eq_offset = unwrap_or (ue_offset q) 0,
     eq_sort_by = Some ''timestamp'', eq_sort_desc = True \<rparr>"

definition ui_process_json :: "process_context \<Rightarrow> json" where
  "ui_process_json p = JObject [(''pid'', json_u32 (pc_pid p)), (''ppid'', json_u32 (pc_ppid p)), (''name'', JString (pc_name p)),
     (''path'', JString (pc_path p)), (''command_line'', JString (pc_command_line p)), (''tree_depth'', json_u32 (pc_tree_depth p))]"

definition ui_correlation_json :: "correlation_context \<Rightarrow> json" where
  "ui_correlation_json x = JObject [(''session_id'', JString (cx_session_id x)), (''correlation_id'', JString (cx_correlation_id x)),
     (''flow_id'', JString (cx_flow_id x)), (''root_event_id'', JString (cx_root_event_id x)),
     (''cause_event_id'', JString (cx_cause_event_id x)), (''sequence'', json_u32 (cx_sequence x))]"

definition ui_seconds :: "timestamp option \<Rightarrow> json" where
  "ui_seconds t = json_option (\<lambda>ts. JInt (ts_seconds ts)) t"

definition ui_event_json :: "event \<Rightarrow> json" where
  "ui_event_json e = JObject [(''id'', JString (ev_id e)), (''type'', JString (ev_type e)), (''source'', JString (ev_source e)),
     (''severity'', json_i32 (ev_severity e)), (''risk_score'', json_u32 (ev_risk_score e)), (''host_id'', JString (ev_host_id e)),
     (''schema_version'', json_u32 (ev_schema_version e)), (''tags'', json_strings (ev_tags e)),
     (''timestamp'', ui_seconds (ev_timestamp e)), (''ingest_timestamp'', ui_seconds (ev_ingest_timestamp e)),
     (''process'', json_option ui_process_json (ev_process e)),
     (''correlation'', json_option ui_correlation_json (ev_correlation e))]"

text \<open>The rows of the event table and the order of the database among equal rows.\<close>

type_synonym row_order = "string \<Rightarrow> bool \<Rightarrow> event_row list \<Rightarrow> event_row list"

definition ui_cursor :: "codec \<Rightarrow> row_order \<Rightarrow> event_row list \<Rightarrow> event_query \<Rightarrow> event cursor" where
  "ui_cursor c order rows q = cursor_new (events_query c order q rows)"

definition ui_fetch :: "codec \<Rightarrow> row_order \<Rightarrow> event_row list \<Rightarrow> event_query \<Rightarrow> nat \<Rightarrow> event list" where
  "ui_fetch c order rows q n = fst (cursor_collect n (ui_cursor c order rows q))"

record events_response =
  es_events :: "json list"
  es_total_count :: u64
  es_has_more :: bool

definition ui_query_events :: "codec \<Rightarrow> row_order \<Rightarrow> event_row list \<Rightarrow> ui_event_query \<Rightarrow> events_response" where
  "ui_query_events c order rows q =
     (let cursor = ui_cursor c order rows (ui_query_of c q); total = of_nat (cu_total_count cursor) in
      \<lparr> es_events = map ui_event_json (fst (cursor_collect 1000 cursor)), es_total_count = total,
        es_has_more = (unwrap_or (ue_limit q) 100 + unwrap_or (ue_offset q) 0 < total) \<rparr>)"

section \<open>Health and status\<close>

definition ui_health :: "bool \<Rightarrow> string \<times> (string \<times> string) list" where
  "ui_health storage_healthy = (if storage_healthy then ''healthy'' else ''degraded'',
     [(''core'', ''healthy''), (''storage'', if storage_healthy then ''healthy'' else ''unhealthy''),
      (''event_bus'', ''healthy''), (''rule_engine'', ''healthy''), (''collectors'', ''healthy''),
      (''config'', ''healthy''), (''ai_engine'', ''healthy'')])"

definition trunc_div :: "int \<Rightarrow> int \<Rightarrow> int" where
  "trunc_div a b = (if 0 \<le> a then a div b else - ((- a) div b))"

definition ui_uptime :: "int \<Rightarrow> string" where
  "ui_uptime d = (let s = num_seconds d; mins = trunc_div s 60 in
     show_int (trunc_div s 3600) @ ''h '' @ show_int (mins - 60 * trunc_div mins 60) @ ''m'')"

record ui_status =
  us_uptime :: string
  us_event_queue_depth :: u64
  us_total_alerts :: u64

text \<open>Both counts are taken from a page of one row; a failing query would count as zero.\<close>

definition ui_get_status ::
    "codec \<Rightarrow> row_order \<Rightarrow> (alert_row list \<Rightarrow> alert_row list) \<Rightarrow> ulid \<Rightarrow> ulid \<Rightarrow> int \<Rightarrow> event_row list \<Rightarrow> alert_row list \<Rightarrow> ui_status" where
  "ui_get_status c order newest_first fresh fresh' up rows alerts = \<lparr> us_uptime = ui_uptime up,
     us_event_queue_depth = of_nat (cu_total_count (ui_cursor c order rows (event_query_default\<lparr> eq_limit := 1 \<rparr>))),
     us_total_alerts = of_nat (length (alerts_query c newest_first fresh fresh' (alert_query_default\<lparr> aq_limit := 1 \<rparr>) alerts)) \<rparr>"

section \<open>Alerts\<close>

record ui_alert_query =
  ua_state :: "string option"
  ua_min_severity :: "string option"
  ua_limit :: "usize option"

definition ui_alert_state :: "string \<Rightarrow> alert_state option" where
  "ui_alert_state s = (if s = ''new'' then Some AS_New else if s = ''acknowledged'' then Some AS_Acknowledged
     else if s = ''investigating'' then Some AS_Investigating
     else if s = ''resolved_true_positive'' then Some AS_ResolvedTruePositive
     else if s = ''resolved_false_positive'' then Some AS_ResolvedFalsePositive
     else if s = ''suppressed'' then Some AS_Suppressed else None)"

definition ui_severity :: "string \<Rightarrow> severity option" where
  "ui_severity s = (if s = ''emergency'' then Some Emergency else if s = ''critical'' then Some Critical
     else if s = ''error'' then Some Error else if s = ''warning'' then Some Warning else None)"

definition ui_alert_query_of :: "ui_alert_query \<Rightarrow> alert_query" where
  "ui_alert_query_of q = \<lparr> aq_state = Option.bind (ua_state q) ui_alert_state,
     aq_min_severity = Option.bind (ua_min_severity q) ui_severity, aq_start_time = None, aq_end_time = None,
     aq_limit = unwrap_or (ua_limit q) 100, aq_offset = 0 \<rparr>"

definition ui_get_alerts ::
    "codec \<Rightarrow> (alert_row list \<Rightarrow> alert_row list) \<Rightarrow> ulid \<Rightarrow> ulid \<Rightarrow> alert_row list \<Rightarrow> ui_alert_query \<Rightarrow> alert list \<times> u64" where
  "ui_get_alerts c newest_first fresh fresh' rows q =
     (let alerts = alerts_query c newest_first fresh fresh' (ui_alert_query_of q) rows in (alerts, of_nat (length alerts)))"

record explanation_response =
  xr_explanation :: string
  xr_risk_level :: string
  xr_immediate_actions :: "string list"
  xr_investigation_steps :: "string list"
  xr_prevention_recommendations :: "string list"

fun ui_risk_level :: "severity \<Rightarrow> string" where
  "ui_risk_level Emergency = ''Critical''"
| "ui_risk_level Critical = ''Critical''"
| "ui_risk_level Error = ''High''"
| "ui_risk_level Warning = ''Medium''"
| "ui_risk_level s = ''Low''"

definition ui_quote :: string where
  "ui_quote = [CHR 0x27]"

text \<open>\<open>why\<close> is the message of the library for a text that is no identifier.\<close>

definition ui_explain_alert :: "codec \<Rightarrow> string \<Rightarrow> ulid \<Rightarrow> ulid \<Rightarrow> alert_table \<Rightarrow> string \<Rightarrow> string + explanation_response" where
  "ui_explain_alert c why fresh fresh' t alert_id = (case k_ulid_parse c alert_id of
       None \<Rightarrow> Inl (''Invalid alert ID: '' @ why)
     | Some i \<Rightarrow> (case alert_get c fresh fresh' t i of
         Some a \<Rightarrow> Inr \<lparr> xr_explanation = ''Alert '' @ ui_quote @ alert_id @ ui_quote @ '' (rule: '' @ al_rule_id a
             @ '') has risk score '' @ show_word (al_risk_score a) @ '' and severity '' @ severity_debug (al_severity a) @ ''.'',
           xr_risk_level = ui_risk_level (al_severity a),
           xr_immediate_actions = [''Investigate the alert context'', ''Review related events''],
           xr_investigation_steps = [''Check parent process chain'', ''Review network connections''],
           xr_prevention_recommendations = [''Enable additional monitoring''] \<rparr>
       | None \<Rightarrow> Inr \<lparr> xr_explanation = ''Alert '' @ alert_id @ '' not found in storage'', xr_risk_level = ''Unknown'',
           xr_immediate_actions = [], xr_investigation_steps = [], xr_prevention_recommendations = [] \<rparr>))"

section \<open>The assistant and the configuration\<close>

definition ui_ai_enabled :: "environment \<Rightarrow> bool" where
  "ui_ai_enabled env = (case env ''SENTINEL_AI_ENABLED'' of None \<Rightarrow> True | Some v \<Rightarrow> v = ''1'' \<or> v = ''true'')"

definition ui_chat :: "environment \<Rightarrow> alert list \<Rightarrow> string \<Rightarrow> string \<Rightarrow> string option \<Rightarrow> string \<times> string" where
  "ui_chat env alerts uuid message cid =
     (if \<not> ui_ai_enabled env
      then (''AI engine is disabled. Set SENTINEL_AI_ENABLED=1 to enable.'', unwrap_or cid [])
      else (''Sentinel AI running locally with '' @ env_or env ''SENTINEL_AI_PROVIDER'' ''ollama'' @ ''/''
             @ env_or env ''SENTINEL_AI_MODEL'' ''llama3.2:3b'' @ ''. ''
             @ show_nat (length (filter (\<lambda>a. al_ai_summary a \<noteq> None) alerts))
             @ '' alerts have AI summaries. Your question: '' @ [CHR 0x22] @ message @ [CHR 0x22],
            unwrap_or cid uuid))"

text \<open>The files: absent, not readable, or with their contents.\<close>

definition ui_default_toml :: "environment \<Rightarrow> string" where
  "ui_default_toml env = (let lf = [CHR 0x0A]; q = [CHR 0x22] in
     ''# Sentinel AI '' @ [CHR 0xE2, CHR 0x80, CHR 0x94] @ '' Runtime Configuration'' @ lf
     @ ''# No config file found. Using environment defaults.'' @ lf
     @ ''ai_enabled = '' @ env_or env ''SENTINEL_AI_ENABLED'' ''true'' @ lf
     @ ''ai_provider = '' @ q @ env_or env ''SENTINEL_AI_PROVIDER'' ''ollama'' @ q @ lf
     @ ''ai_model = '' @ q @ env_or env ''SENTINEL_AI_MODEL'' ''llama3.2:3b'' @ q @ lf)"

definition ui_config_paths :: "string option \<Rightarrow> string list" where
  "ui_config_paths config_dir = (case config_dir of None \<Rightarrow> [] | Some d \<Rightarrow> [d @ ''/sentinel/config.toml''])
     @ [''/etc/sentinel/config.toml'']"

definition ui_get_config ::
    "environment \<Rightarrow> string option \<Rightarrow> (string \<Rightarrow> (string + string) option) \<Rightarrow> string + string \<times> u64" where
  "ui_get_config env config_dir files =
     (case find (\<lambda>p. files p \<noteq> None) (ui_config_paths config_dir) of
        None \<Rightarrow> Inr (ui_default_toml env, 1)
      | Some p \<Rightarrow> (case files p of
          Some (Inl e) \<Rightarrow> Inl (''Cannot read config: '' @ e)
        | Some (Inr s) \<Rightarrow> Inr (if s = [] then ui_default_toml env else s, 1)
        | None \<Rightarrow> Inr (ui_default_toml env, 1)))"

definition ui_update_config :: "json \<Rightarrow> string \<times> u64" where
  "ui_update_config cfg = (''# Config update coming soon'' @ [CHR 0x0A], 2)"

definition ui_default_db_path :: "string option \<Rightarrow> string" where
  "ui_default_db_path data_dir = (case data_dir of None \<Rightarrow> ''sentinel.db'' | Some d \<Rightarrow> d @ ''/sentinel/sentinel.db'')"

section \<open>Processes\<close>

record ui_process = sys_process +
  up_cpu_usage :: f64
  up_memory :: u64
  up_user_id :: "string option"
  up_start_time :: u64

definition ui_process_row :: "ui_process \<Rightarrow> json" where
  "ui_process_row p = JObject [(''pid'', json_u32 (sp_pid p)), (''ppid'', json_option json_u32 (sp_parent p)),
     (''name'', JString (sp_name p)), (''exe'', json_option JString (sp_exe p)), (''cmd'', JString (str_join '' '' (sp_cmd p))),
     (''cpu_usage'', json_number (up_cpu_usage p)), (''memory_bytes'', JInt (uint (up_memory p))),
     (''user_id'', json_option JString (up_user_id p)), (''start_time'', JInt (uint (up_start_time p)))]"

definition ui_get_processes :: "ui_process list \<Rightarrow> json list" where
  "ui_get_processes ps = map ui_process_row (take 200 ps)"

definition ui_tree_node :: "ui_process \<Rightarrow> json" where
  "ui_tree_node p = JObject [(''id'', json_u32 (sp_pid p)), (''pid'', json_u32 (sp_pid p)),
     (''ppid'', json_u32 (unwrap_or (sp_parent p) 0)), (''name'', JString (sp_name p)), (''cpu'', json_number (up_cpu_usage p)),
     (''memory_mb'', json_number (f64_div_by (f64_of_nat (unat (up_memory p))) 1048576)), (''risk'', JInt 0),
     (''exe'', json_option JString (sp_exe p)), (''cmd'', JString (str_join '' '' (sp_cmd p)))]"

definition ui_get_process_tree :: "ui_process list \<Rightarrow> json list" where
  "ui_get_process_tree ps = map ui_tree_node (take 200 ps)"

end
