(* ===== verification/Ui_Views.thy ===== *)
theory Ui_Views
  imports Ui_State
begin

text \<open>
  The views of the desktop interface over stored events (state/mod.rs): connections, risk timeline,
  MITRE heatmap and network graph.
\<close>

section \<open>Connections and timeline\<close>

definition ui_protocol :: "i32 \<Rightarrow> string" where
  "ui_protocol p = (if p = 1 then ''tcp'' else ''udp'')"

definition ui_network_query :: "usize \<Rightarrow> event_query" where
  "ui_network_query limit = event_query_default\<lparr> eq_event_types := [''sentinel.network.connect''], eq_limit := limit \<rparr>"

definition ui_connection :: "event \<Rightarrow> json option" where
  "ui_connection e = (case ev_payload e of
       Some (NetworkPayload ne) \<Rightarrow> Some (JObject [(''local_addr'', JString (ne_local_addr ne)),
         (''local_port'', json_u32 (ne_local_port ne)), (''remote_addr'', JString (ne_remote_addr ne)),
         (''remote_port'', json_u32 (ne_remote_port ne)), (''protocol'', JString (ui_protocol (ne_protocol ne))),
         (''hostname'', JString (ne_hostname ne)),
         (''timestamp'', JInt (case ev_timestamp e of None \<Rightarrow> 0 | Some t \<Rightarrow> ts_seconds t)),
         (''pid'', json_u32 (case ev_process e of None \<Rightarrow> 0 | Some p \<Rightarrow> pc_pid p)),
         (''process_name'', JString (case ev_process e of None \<Rightarrow> [] | Some p \<Rightarrow> pc_name p))])
     | _ \<Rightarrow> None)"

text \<open>What the database answers: the message of its error, which the view passes on, or the rows of the table.\<close>

type_synonym ui_database = "string + event_row list"

definition ui_network_connections :: "codec \<Rightarrow> row_order \<Rightarrow> ui_database \<Rightarrow> string + json list" where
  "ui_network_connections c order db =
     map_sum id (\<lambda>rows. List.map_filter ui_connection (ui_fetch c order rows (ui_network_query 200) 200)) db"

text \<open>\<open>now - Duration::hours(h)\<close> panics below the earliest time that chrono can represent, which is an
  input here; then there is no answer.\<close>

definition ui_timeline_start :: "datetime \<Rightarrow> u32 option \<Rightarrow> datetime" where
  "ui_timeline_start now hours = now - int (unat (unwrap_or hours 24)) * 3600 * 1000000000"

definition ui_timeline_query :: "datetime \<Rightarrow> u32 option \<Rightarrow> event_query" where
  "ui_timeline_query now hours = event_query_default
     \<lparr> eq_start_time := Some (ui_timeline_start now hours), eq_end_time := Some now,
       eq_limit := 1440, eq_sort_desc := False \<rparr>"

definition ui_point :: "event \<Rightarrow> json option" where
  "ui_point e = map_option (\<lambda>t. JObject [(''timestamp'', JInt (ts_seconds t)), (''risk_score'', json_u32 (ev_risk_score e)),
     (''event_type'', JString (ev_type e))]) (ev_timestamp e)"

definition ui_risk_timeline ::
    "codec \<Rightarrow> row_order \<Rightarrow> datetime \<Rightarrow> ui_database \<Rightarrow> datetime \<Rightarrow> u32 option \<Rightarrow> (string + json list) option" where
  "ui_risk_timeline c order earliest db now hours =
     (if ui_timeline_start now hours < earliest then None
      else Some (map_sum id (\<lambda>rows. List.map_filter ui_point (ui_fetch c order rows (ui_timeline_query now hours) 1440)) db))"

section \<open>The heatmap\<close>

definition ui_tactics :: "(string \<times> string) list" where
  "ui_tactics = [(''Initial Access'', ''TA0001''), (''Execution'', ''TA0002''), (''Persistence'', ''TA0003''),
     (''Privilege Escalation'', ''TA0004''), (''Defense Evasion'', ''TA0005''), (''Credential Access'', ''TA0006''),
     (''Discovery'', ''TA0007''), (''Lateral Movement'', ''TA0008''), (''Collection'', ''TA0009''),
     (''Command and Control'', ''TA0011''), (''Exfiltration'', ''TA0010''), (''Impact'', ''TA0040'')]"

text \<open>A count and the highest risk per tactic.\<close>

type_synonym heat_counts = "string \<rightharpoonup> u32 \<times> u32"

definition heat_start :: heat_counts where
  "heat_start = fold (\<lambda>(name, _) m. m(name \<mapsto> (0, 0))) ui_tactics Map.empty"

definition heat_bump :: "u32 \<Rightarrow> string \<times> string \<Rightarrow> heat_counts \<Rightarrow> heat_counts" where
  "heat_bump risk t m = (case m (fst t) of None \<Rightarrow> m | Some (n, r) \<Rightarrow> m(fst t \<mapsto> (n + 1, max r risk)))"

definition heat_tag :: "u32 \<Rightarrow> string \<Rightarrow> heat_counts \<Rightarrow> heat_counts" where
  "heat_tag risk tag m = (if starts_with tag ''mitre:'' then fold (heat_bump risk) ui_tactics m else m)"

definition heat_event :: "event \<Rightarrow> heat_counts \<Rightarrow> heat_counts" where
  "heat_event e m = fold (heat_tag (ev_risk_score e)) (ev_tags e) m"

definition heat_entry :: "heat_counts \<Rightarrow> string \<times> string \<Rightarrow> json" where
  "heat_entry m t = (let (n, r) = unwrap_or (m (fst t)) (0, 0) in
     JObject [(''tactic'', JString (fst t)), (''id'', JString (snd t)), (''techniques_count'', json_u32 n), (''max_risk'', json_u32 r)])"

definition ui_mitre_heatmap :: "codec \<Rightarrow> row_order \<Rightarrow> ui_database \<Rightarrow> string + json list" where
  "ui_mitre_heatmap c order db = map_sum id (\<lambda>rows.
     map (heat_entry (fold heat_event (ui_fetch c order rows (event_query_default\<lparr> eq_limit := 5000 \<rparr>) 5000) heat_start)) ui_tactics) db"

section \<open>The network graph\<close>

type_synonym node_table = "(string \<times> u32) list \<times> u32"

record graph_edge =
  ge_from :: u32
  ge_to :: u32
  ge_protocol :: string
  ge_local_port :: u32
  ge_remote_port :: u32

definition graph_node :: "string \<Rightarrow> node_table \<Rightarrow> u32 \<times> node_table" where
  "graph_node key t = (case t of (nodes, next_id) \<Rightarrow> (case map_of nodes key of
       Some i \<Rightarrow> (i, t)
     | None \<Rightarrow> (next_id, ((key, next_id) # nodes, next_id + 1))))"

definition graph_event :: "event \<Rightarrow> node_table \<times> graph_edge list \<Rightarrow> node_table \<times> graph_edge list" where
  "graph_event e s = (case (s, ev_payload e) of
       ((t, edges), Some (NetworkPayload ne)) \<Rightarrow>
         (if ne_remote_addr ne \<noteq> [] \<and> ne_local_addr ne \<noteq> [] then
            (let (lid, t1) = graph_node (''local:'' @ ne_local_addr ne) t; (rid, t2) = graph_node (''remote:'' @ ne_remote_addr ne) t1 in
             (t2, edges @ [\<lparr> ge_from = lid, ge_to = rid, ge_protocol = ui_protocol (ne_protocol ne),
                ge_local_port = ne_local_port ne, ge_remote_port = ne_remote_port ne \<rparr>]))
          else s)
     | _ \<Rightarrow> s)"

definition graph_of :: "event list \<Rightarrow> node_table \<times> graph_edge list" where
  "graph_of es = fold graph_event es (([], 0), [])"

definition graph_node_json :: "string \<times> u32 \<Rightarrow> json" where
  "graph_node_json n = (let (label, risk) = (if starts_with (fst n) ''local:'' then (drop 6 (fst n), 0)
       else if starts_with (fst n) ''remote:'' then (drop 7 (fst n), 10) else (''?'', 10)) in
     JObject [(''id'', json_u32 (snd n)), (''label'', JString label), (''risk'', JInt risk)])"

definition ui_network_graph :: "codec \<Rightarrow> row_order \<Rightarrow> ui_database \<Rightarrow> string + json list \<times> graph_edge list" where
  "ui_network_graph c order db = map_sum id (\<lambda>rows.
     case graph_of (ui_fetch c order rows (ui_network_query 500) 500) of ((nodes, _), edges) \<Rightarrow>
       (map graph_node_json nodes, edges)) db"

section \<open>Lemmas\<close>

text \<open>What a stored event has lost.\<close>

lemma ui_fetch_subset: "set (ui_fetch c order rows q n) \<subseteq> range (row_to_event c)"
proof -
  have "ui_fetch c order rows q n = take n (events_query c order q rows)"
    by (simp add: ui_fetch_def ui_cursor_def cursor_collect_def cursor_new_def Let_def min_def)
  then show ?thesis
    using set_take_subset [of n "events_query c order q rows"] by (auto simp: events_query_def)
qed

lemma ui_fetch_stored: "e \<in> set (ui_fetch c order rows q n) \<Longrightarrow> ev_payload e = None \<and> ev_timestamp e = None"
  using ui_fetch_subset [of c order rows q n] by (auto simp: row_to_event_def)

lemma map_filter_none: "(\<And>x. x \<in> set xs \<Longrightarrow> f x = None) \<Longrightarrow> List.map_filter f xs = []"
  by (induction xs) (simp_all add: map_filter_simps)

lemma fold_same: "(\<And>x s. x \<in> set xs \<Longrightarrow> f x s = s) \<Longrightarrow> fold f xs s = s"
  by (induction xs arbitrary: s) simp_all

lemma page_length: "length (events_query c order q rows) \<le> unat (eq_limit q)"
  by (simp add: events_query_def select_page_def)

lemma cursor_total: "cu_total_count (ui_cursor c order rows q) \<le> unat (eq_limit q)"
  by (simp add: ui_cursor_def cursor_new_def page_length)

section \<open>Properties\<close>

text \<open>The interface never offers a next page: the total it compares with is the number of rows of the
  page it has asked for, which is at most its limit, so \<open>has_more\<close> is false whatever is stored; and the
  status counts at most one event and one alert.\<close>

theorem ui_never_has_more:
  assumes "unat (unwrap_or (ue_limit q) 100) + unat (unwrap_or (ue_offset q) 0) < 2 ^ 64"
  shows "\<not> es_has_more (ui_query_events c order rows q)
    \<and> us_event_queue_depth (ui_get_status c order newest_first fresh fresh' up rows alerts) \<le> 1
    \<and> us_total_alerts (ui_get_status c order newest_first fresh fresh' up rows alerts) \<le> 1"
proof -
  let ?limit = "unwrap_or (ue_limit q) 100" and ?offset = "unwrap_or (ue_offset q) 0"
  have t: "cu_total_count (ui_cursor c order rows (ui_query_of c q)) \<le> unat ?limit"
    using cursor_total [of c order rows "ui_query_of c q"] by (simp add: ui_query_of_def)
  have "unat (of_nat (cu_total_count (ui_cursor c order rows (ui_query_of c q))) :: u64) \<le> unat ?limit"
    using t le_unat_uoi [OF t] by simp
  also have "\<dots> \<le> unat (?limit + ?offset)"
    using unat_add_lem [of ?limit ?offset] assms by simp
  finally have "\<not> es_has_more (ui_query_events c order rows q)"
    by (simp add: ui_query_events_def Let_def word_less_nat_alt)
  moreover have "of_nat n \<le> (1 :: u64)" if "n \<le> 1" for n
    using that by (cases n) auto
  moreover have "cu_total_count (ui_cursor c order rows (event_query_default\<lparr> eq_limit := 1 \<rparr>)) \<le> 1"
    using cursor_total [of c order rows "event_query_default\<lparr> eq_limit := 1 \<rparr>"] by simp
  moreover have "length (alerts_query c newest_first fresh fresh' (alert_query_default\<lparr> aq_limit := 1 \<rparr>) alerts) \<le> 1"
    by (simp add: alerts_query_def)
  ultimately show ?thesis
    by (simp add: ui_get_status_def)
qed

definition demo_codec_ui :: codec where
  "demo_codec_ui = decimal_codec JNull (rule_default 0 0)"

definition demo_ui_query :: ui_event_query where
  "demo_ui_query = \<lparr> ue_start_time = None, ue_end_time = None, ue_event_types = None, ue_sources = None,
     ue_min_risk_score = None, ue_limit = None, ue_offset = None \<rparr>"

lemma ui_never_has_more_witness:
  "\<not> es_has_more (ui_query_events demo_codec_ui (\<lambda>_ _ rows. rows)
     (replicate 200 (event_row_of demo_codec_ui event_default)) demo_ui_query)"
  by (rule ui_never_has_more [THEN conjunct1]) (simp add: demo_ui_query_def unwrap_or_def)

text \<open>
  C38: The views of the network and of the risk over time are empty whatever the database holds: reading
  an event drops its payload and its times, which these views are made of.  An error of the database is passed
  on, and so many hours that chrono cannot go back so far leave the timeline without an answer.\<close>

theorem ui_views_always_empty:
  "ui_network_connections c order db = map_sum id (\<lambda>_. []) db
   \<and> ui_network_graph c order db = map_sum id (\<lambda>_. ([], [])) db
   \<and> ui_risk_timeline c order earliest db now hours =
       (if ui_timeline_start now hours < earliest then None else Some (map_sum id (\<lambda>_. []) db))"
proof (intro conjI)
  have "List.map_filter ui_connection (ui_fetch c order rows q n) = []" for rows q n
    by (rule map_filter_none) (drule ui_fetch_stored, simp add: ui_connection_def)
  then show "ui_network_connections c order db = map_sum id (\<lambda>_. []) db"
    by (simp add: ui_network_connections_def)
  have "List.map_filter ui_point (ui_fetch c order rows q n) = []" for rows q n
    by (rule map_filter_none) (drule ui_fetch_stored, simp add: ui_point_def)
  then show "ui_risk_timeline c order earliest db now hours =
       (if ui_timeline_start now hours < earliest then None else Some (map_sum id (\<lambda>_. []) db))"
    by (simp add: ui_risk_timeline_def)
  have "graph_of (ui_fetch c order rows q n) = (([], 0), [])" for rows q n
    unfolding graph_of_def
    by (rule fold_same) (drule ui_fetch_stored, simp add: graph_event_def split: prod.split)
  then show "ui_network_graph c order db = map_sum id (\<lambda>_. ([], [])) db"
    by (simp add: ui_network_graph_def)
qed

lemma heat_bump_all:
  "distinct (map fst ts) \<Longrightarrow> fold (heat_bump risk) ts m k =
     (if k \<in> fst ` set ts then map_option (\<lambda>(n, r). (n + 1, max r risk)) (m k) else m k)"
proof (induction ts arbitrary: m)
  case (Cons t ts)
  then have "k = fst t \<Longrightarrow> k \<notin> fst ` set ts" by auto
  then show ?case
    using Cons.IH [of "heat_bump risk t m"] Cons.prems
    by (auto simp: heat_bump_def split: option.splits)
qed simp

lemma tactics_distinct: "distinct (map fst ui_tactics)"
  by (simp add: ui_tactics_def)

definition mitre_tags :: "event \<Rightarrow> nat" where
  "mitre_tags e = length (filter (\<lambda>tag. starts_with tag ''mitre:'') (ev_tags e))"

lemma heat_tags:
  "\<forall>k \<in> fst ` set ui_tactics. m k = Some (n, r) \<Longrightarrow>
   \<exists>r'. \<forall>k \<in> fst ` set ui_tactics. fold (heat_tag risk) tags m k
      = Some (n + of_nat (length (filter (\<lambda>tag. starts_with tag ''mitre:'') tags)), r')"
proof (induction tags arbitrary: m n r)
  case Nil
  then show ?case by auto
next
  case (Cons tag tags)
  show ?case
  proof (cases "starts_with tag ''mitre:''")
    case True
    then have "\<forall>k \<in> fst ` set ui_tactics. heat_tag risk tag m k = Some (n + 1, max r risk)"
      using Cons.prems by (auto simp: heat_tag_def heat_bump_all [OF tactics_distinct])
    from Cons.IH [OF this] True show ?thesis by (simp add: add.assoc)
  next
    case False
    then show ?thesis using Cons.IH [OF Cons.prems] by (simp add: heat_tag_def)
  qed
qed

lemma heat_events:
  "\<forall>k \<in> fst ` set ui_tactics. m k = Some (n, r) \<Longrightarrow>
   \<exists>r'. \<forall>k \<in> fst ` set ui_tactics. fold heat_event es m k = Some (n + of_nat (sum_list (map mitre_tags es)), r')"
proof (induction es arbitrary: m n r)
  case Nil
  then show ?case by auto
next
  case (Cons e es)
  obtain r' where "\<forall>k \<in> fst ` set ui_tactics. heat_event e m k = Some (n + of_nat (mitre_tags e), r')"
    using heat_tags [OF Cons.prems, of "ev_risk_score e" "ev_tags e"] by (auto simp: heat_event_def mitre_tags_def)
  from Cons.IH [OF this] show ?case by (simp add: add.assoc)
qed

lemma heat_start_zero: "\<forall>k \<in> fst ` set ui_tactics. heat_start k = Some (0, 0)"
  by (simp add: heat_start_def ui_tactics_def)

text \<open>The heatmap does not tell tactics apart: every technique of every event is counted for each of
  the twelve tactics, so all of them show one number, that of all tags with a technique, and one risk.\<close>

theorem heatmap_is_uniform:
  "\<exists>risk. ui_mitre_heatmap c order (Inr rows) =
     Inr (map (\<lambda>t. JObject [(''tactic'', JString (fst t)), (''id'', JString (snd t)),
       (''techniques_count'', json_u32 (of_nat (sum_list (map mitre_tags
          (ui_fetch c order rows (event_query_default\<lparr> eq_limit := 5000 \<rparr>) 5000))))), (''max_risk'', json_u32 risk)]) ui_tactics)"
proof -
  let ?es = "ui_fetch c order rows (event_query_default\<lparr> eq_limit := 5000 \<rparr>) 5000"
  obtain r where "\<forall>k \<in> fst ` set ui_tactics. fold heat_event ?es heat_start k = Some (of_nat (sum_list (map mitre_tags ?es)), r)"
    using heat_events [OF heat_start_zero, of ?es] by auto
  then have "map (heat_entry (fold heat_event ?es heat_start)) ui_tactics
      = map (\<lambda>t. JObject [(''tactic'', JString (fst t)), (''id'', JString (snd t)),
         (''techniques_count'', json_u32 (of_nat (sum_list (map mitre_tags ?es)))), (''max_risk'', json_u32 r)]) ui_tactics"
    by (intro map_cong) (auto simp: heat_entry_def unwrap_or_def)
  then show ?thesis
    unfolding ui_mitre_heatmap_def by auto
qed

section \<open>The graph is well formed\<close>

definition nodes_ok :: "node_table \<Rightarrow> bool" where
  "nodes_ok t \<longleftrightarrow> distinct (map fst (fst t)) \<and> map snd (fst t) = map of_nat (rev [0..<length (fst t)])
     \<and> snd t = of_nat (length (fst t))"

lemma nodes_ok_insert: "nodes_ok (nodes, n) \<Longrightarrow> key \<notin> fst ` set nodes \<Longrightarrow> nodes_ok ((key, n) # nodes, n + 1)"
  by (simp add: nodes_ok_def)

lemma graph_node_ok:
  assumes "nodes_ok t" "graph_node key t = (i, t')"
  shows "nodes_ok t' \<and> i \<in> snd ` set (fst t') \<and> set (fst t) \<subseteq> set (fst t') \<and> length (fst t') \<le> length (fst t) + 1"
proof -
  obtain nodes n where t: "t = (nodes, n)" by (cases t)
  show ?thesis
  proof (cases "map_of nodes key")
    case None
    then have "t' = ((key, n) # nodes, n + 1)" "i = n"
      using assms(2) by (auto simp: graph_node_def t)
    moreover have "nodes_ok ((key, n) # nodes, n + 1)"
      using nodes_ok_insert [of nodes n key] assms(1) None by (simp add: t map_of_eq_None_iff)
    ultimately show ?thesis
      by (simp add: t subset_insertI)
  next
    case (Some j)
    then have "t' = t" "i = j"
      using assms(2) by (auto simp: graph_node_def t)
    moreover have "j \<in> snd ` set nodes"
      using map_of_SomeD [OF Some] by force
    ultimately show ?thesis
      using assms(1) by (simp add: t)
  qed
qed

definition graph_ok :: "nat \<Rightarrow> node_table \<times> graph_edge list \<Rightarrow> bool" where
  "graph_ok n g \<longleftrightarrow> nodes_ok (fst g) \<and> length (fst (fst g)) \<le> 2 * n \<and> length (snd g) \<le> n
     \<and> (\<forall>e \<in> set (snd g). ge_from e \<in> snd ` set (fst (fst g)) \<and> ge_to e \<in> snd ` set (fst (fst g)))"

lemma graph_event_ok:
  assumes "graph_ok n g"
  shows "graph_ok (Suc n) (graph_event e g)"
proof (cases "\<exists>ne. ev_payload e = Some (NetworkPayload ne) \<and> ne_remote_addr ne \<noteq> [] \<and> ne_local_addr ne \<noteq> []")
  case True
  then obtain ne where ne: "ev_payload e = Some (NetworkPayload ne)" "ne_remote_addr ne \<noteq> []" "ne_local_addr ne \<noteq> []"
    by blast
  obtain t edges where g: "g = (t, edges)" by (cases g)
  obtain lid t1 where n1: "graph_node (''local:'' @ ne_local_addr ne) t = (lid, t1)"
    by (cases "graph_node (''local:'' @ ne_local_addr ne) t")
  obtain rid t2 where n2: "graph_node (''remote:'' @ ne_remote_addr ne) t1 = (rid, t2)"
    by (cases "graph_node (''remote:'' @ ne_remote_addr ne) t1")
  have ok: "nodes_ok t" using assms by (simp add: graph_ok_def g)
  note s1 = graph_node_ok [OF ok n1]
  note s2 = graph_node_ok [OF conjunct1 [OF s1] n2]
  have "graph_event e g = (t2, edges @ [\<lparr> ge_from = lid, ge_to = rid, ge_protocol = ui_protocol (ne_protocol ne),
      ge_local_port = ne_local_port ne, ge_remote_port = ne_remote_port ne \<rparr>])"
    using ne n1 n2 by (simp add: graph_event_def g)
  moreover have "snd ` set (fst t) \<subseteq> snd ` set (fst t2)" "snd ` set (fst t1) \<subseteq> snd ` set (fst t2)"
    using s1 s2 by auto
  ultimately show ?thesis
    using assms s1 s2 by (auto simp: graph_ok_def g subset_iff)
next
  case False
  then have "graph_event e g = g"
    by (auto simp: graph_event_def split: prod.split option.split payload.split)
  then show ?thesis
    using assms by (auto simp: graph_ok_def)
qed

lemma graph_events_ok: "graph_ok n g \<Longrightarrow> graph_ok (n + length es) (fold graph_event es g)"
proof (induction es arbitrary: n g)
  case (Cons e es)
  from Cons.IH [OF graph_event_ok [OF Cons.prems]] show ?case by simp
qed simp

text \<open>
  C40: The network graph of the events of a query is well formed: its nodes have distinct addresses and
  distinct numbers, every edge joins two of its nodes, and there are at most two nodes and one edge for
  an event.\<close>

theorem network_graph_well_formed:
  assumes "length es \<le> 500" and "graph_of es = ((nodes, next_id), edges)"
  shows "distinct (map fst nodes) \<and> distinct (map snd nodes) \<and> length nodes \<le> 1000 \<and> length edges \<le> length es
    \<and> (\<forall>e \<in> set edges. ge_from e \<in> snd ` set nodes \<and> ge_to e \<in> snd ` set nodes)"
proof -
  have "graph_ok 0 (([], 0), [])"
    by (simp add: graph_ok_def nodes_ok_def)
  from graph_events_ok [OF this, of es] have ok: "graph_ok (length es) ((nodes, next_id), edges)"
    using assms(2) by (simp add: graph_of_def)
  then have n: "length nodes \<le> 1000"
    using assms(1) by (simp add: graph_ok_def)
  have "inj_on (of_nat :: nat \<Rightarrow> u32) {0..<length nodes}"
  proof (rule inj_onI)
    fix x y assume "x \<in> {0..<length nodes}" "y \<in> {0..<length nodes}" "(of_nat x :: u32) = of_nat y"
    then have "unat (of_nat x :: u32) = unat (of_nat y :: u32)" "x < 2 ^ 32" "y < 2 ^ 32"
      using n by simp_all
    then show "x = y" by (simp add: unat_of_nat)
  qed
  then have "distinct (map (of_nat :: nat \<Rightarrow> u32) (rev [0..<length nodes]))"
    by (simp add: distinct_map)
  then show ?thesis
    using ok n by (simp add: graph_ok_def nodes_ok_def)
qed

definition demo_net :: "string \<Rightarrow> event" where
  "demo_net remote = event_default\<lparr> ev_payload := Some (NetworkPayload (network_event_default
     \<lparr> ne_local_addr := ''10.0.0.1'', ne_remote_addr := remote \<rparr>)) \<rparr>"

lemma network_graph_well_formed_witness:
  "distinct (map snd (fst (fst (graph_of [demo_net ''a'', demo_net ''b'', demo_net ''a'']))))"
  using network_graph_well_formed [of "[demo_net ''a'', demo_net ''b'', demo_net ''a'']"
      "fst (fst (graph_of [demo_net ''a'', demo_net ''b'', demo_net ''a'']))"
      "snd (fst (graph_of [demo_net ''a'', demo_net ''b'', demo_net ''a'']))"
      "snd (graph_of [demo_net ''a'', demo_net ''b'', demo_net ''a''])"]
  by simp

text \<open>The two programs read one variable differently: the interface takes the assistant as enabled when
  SENTINEL_AI_ENABLED is absent, 1 or true, the service unless it is false.  With 0, for instance, the
  interface says that it is disabled while the service sends its prompts.\<close>

lemma ai_switch_disagrees:
  "ac_enabled (ai_config_default env) \<longleftrightarrow> env ''SENTINEL_AI_ENABLED'' \<noteq> Some ''false''"
  "ui_ai_enabled env \<longleftrightarrow> env ''SENTINEL_AI_ENABLED'' \<in> {None, Some ''1'', Some ''true''}"
  by (cases "env ''SENTINEL_AI_ENABLED''"; simp add: ai_config_default_def ui_ai_enabled_def parse_bool_def Let_def)+

end
