(* ===== verification/Cli.thy ===== *)
theory Cli
  imports Sigma Repositories Config_Engine Std_Path
begin

text \<open>
  The command line tool (apps/sentinel-cli/src/main.rs): importing Sigma rules into rule files and
  exporting alerts as JSON or CSV.  The YAML and JSON printers, the file system and the database are
  parameters; the argument parser is not modelled.  What was printed before an error is not recorded.
\<close>

section \<open>Importing rules\<close>

text \<open>The files written so far, and what is printed.\<close>

type_synonym files = "string \<Rightarrow> string option"

definition write_file :: "files \<Rightarrow> string \<times> string \<Rightarrow> files" where
  "write_file fs p = fs(fst p \<mapsto> snd p)"

definition rule_file_name :: "string \<Rightarrow> sentinel_rule_inner \<Rightarrow> string" where
  "rule_file_name output r = output @ ''/'' @ str_replace (sx_id r) ''sigma-'' [] @ ''.yaml''"

fun write_rules ::
    "(sentinel_rule_inner \<Rightarrow> string + string) \<Rightarrow> (string \<Rightarrow> bool) \<Rightarrow> string \<Rightarrow> sentinel_rule_inner list
      \<Rightarrow> files \<Rightarrow> files \<times> (string + string list)" where
  "write_rules to_yaml writable output [] fs = (fs, Inr [])"
| "write_rules to_yaml writable output (r # rs) fs =
     (case to_yaml r of Inl e \<Rightarrow> (fs, Inl e)
      | Inr yaml \<Rightarrow>
          let name = rule_file_name output r in
          if \<not> writable name then (fs, Inl ''write'')
          else case write_rules to_yaml writable output rs (write_file fs (name, yaml)) of (fs', res) \<Rightarrow>
            (fs', map_sum (\<lambda>e. e) (\<lambda>out. (''Imported: '' @ name) # out) res))"

definition import_sigma_command ::
    "(sentinel_rule_inner \<Rightarrow> string + string) \<Rightarrow> (string \<Rightarrow> bool) \<Rightarrow> (string \<Rightarrow> string + unit) \<Rightarrow> string
      \<Rightarrow> bool \<Rightarrow> string + sentinel_rule_inner list \<Rightarrow> string + sentinel_rule_inner \<Rightarrow> files \<Rightarrow> files \<times> (string + string list)" where
  "import_sigma_command to_yaml writable create_dir output dir rules rule fs =
     (if dir then
        case bind_result rules (\<lambda>rs. bind_result (create_dir output) (\<lambda>_. Inr rs)) of
          Inl e \<Rightarrow> (fs, Inl e)
        | Inr rs \<Rightarrow> (case write_rules to_yaml writable output rs fs of (fs', res) \<Rightarrow>
            (fs', map_sum (\<lambda>e. e) (\<lambda>out. out
               @ [''Imported '' @ show_nat (length rs) @ '' rules to '' @ output]) res))
      else
        case bind_result rule (\<lambda>r. bind_result (create_dir output) (\<lambda>_. bind_result (to_yaml r) (\<lambda>y. Inr (r, y)))) of
          Inl e \<Rightarrow> (fs, Inl e)
        | Inr (r, yaml) \<Rightarrow>
            let name = rule_file_name output r in
            if writable name then (write_file fs (name, yaml), Inr [''Imported 1 rule to '' @ name])
            else (fs, Inl ''write''))"

section \<open>Exporting alerts\<close>

datatype export_format = Csv | Json

record cli_row =
  cl_id :: string
  cl_rule_id :: string
  cl_risk_score :: int
  cl_severity :: int
  cl_state :: int
  cl_created_at :: string
  cl_updated_at :: string
  cl_acknowledged_by :: "string option"
  cl_acknowledged_at :: "string option"
  cl_events :: string
  cl_ai_summary :: "string option"

definition csv_header :: string where
  "csv_header = ''id,rule_id,risk_score,severity,state,created_at,updated_at,acknowledged_by,acknowledged_at,events,ai_summary''"

definition csv_escape :: "string \<Rightarrow> string" where
  "csv_escape s = dq @ str_replace s dq (dq @ dq) @ dq"

definition csv_optional :: "string option \<Rightarrow> string" where
  "csv_optional x = (case x of None \<Rightarrow> [] | Some s \<Rightarrow> csv_escape s)"

definition csv_cells :: "cli_row \<Rightarrow> string list" where
  "csv_cells r = [csv_escape (cl_id r), csv_escape (cl_rule_id r), show_int (cl_risk_score r), show_int (cl_severity r),
     show_int (cl_state r), csv_escape (cl_created_at r), csv_escape (cl_updated_at r), csv_optional (cl_acknowledged_by r),
     csv_optional (cl_acknowledged_at r), csv_escape (cl_events r), csv_optional (cl_ai_summary r)]"

definition to_csv_row :: "cli_row \<Rightarrow> string" where
  "to_csv_row r = str_join '','' (csv_cells r)"

definition newline :: string where
  "newline = [CHR 0x0A]"

definition csv_text :: "cli_row list \<Rightarrow> string" where
  "csv_text rows = csv_header @ newline @ concat (map (\<lambda>r. to_csv_row r @ newline) rows)"

definition cli_state_number :: "string \<Rightarrow> int option" where
  "cli_state_number s = map_of [(''new'', 0), (''acknowledged'', 1), (''investigating'', 2),
     (''resolved_true_positive'', 3), (''resolved_false_positive'', 4), (''suppressed'', 5)] s"

definition export_sql :: "int option \<Rightarrow> u32 \<Rightarrow> string" where
  "export_sql st max_rows =
     ''SELECT id, rule_id, risk_score, severity, state, created_at, updated_at, acknowledged_by, acknowledged_at, events, ai_summary FROM alerts WHERE 1=1''
     @ (case st of None \<Rightarrow> [] | Some n \<Rightarrow> '' AND state = '' @ show_int n)
     @ '' ORDER BY created_at DESC LIMIT '' @ show_word max_rows"

definition default_db_path :: "string option \<Rightarrow> string" where
  "default_db_path data_dir = (case data_dir of None \<Rightarrow> ''sentinel.db''
     | Some d \<Rightarrow> path_join (path_join d ''sentinel'') ''sentinel.db'')"

text \<open>What the command does when it succeeds: it prints, or writes one file.\<close>

datatype export_effect = Print string | WriteFile string string nat

definition export_query ::
    "(string \<Rightarrow> string + unit) \<Rightarrow> (string \<Rightarrow> string + cli_row list) \<Rightarrow> string \<Rightarrow> string option \<Rightarrow> u32 \<Rightarrow> string + cli_row list" where
  "export_query connect fetch db_path st max_rows =
     bind_result (connect (''sqlite:'' @ db_path @ ''?mode=ro'')) (\<lambda>_.
     case st of None \<Rightarrow> fetch (export_sql None max_rows)
     | Some s \<Rightarrow> (case cli_state_number s of None \<Rightarrow> Inl (''Unknown state: '' @ s)
                  | Some n \<Rightarrow> fetch (export_sql (Some n) max_rows)))"

definition export_command ::
    "(string \<Rightarrow> bool) \<Rightarrow> (string \<Rightarrow> string + unit) \<Rightarrow> (string \<Rightarrow> string + cli_row list) \<Rightarrow> (cli_row list \<Rightarrow> string + string)
      \<Rightarrow> (string \<Rightarrow> bool) \<Rightarrow> string option \<Rightarrow> export_format \<Rightarrow> string option \<Rightarrow> u32 \<Rightarrow> string option \<Rightarrow> string option
      \<Rightarrow> string + export_effect" where
  "export_command path_exists connect fetch pretty writable data_dir format output max_rows st db =
     (let db_path = (case db of Some p \<Rightarrow> p | None \<Rightarrow> default_db_path data_dir) in
      if \<not> path_exists db_path then Inl (''Database not found at '' @ db_path
        @ ''. Start sentinel-core-service first to collect data.'')
      else bind_result (export_query connect fetch db_path st max_rows) (\<lambda>alerts.
        bind_result (case format of Json \<Rightarrow> pretty alerts | Csv \<Rightarrow> Inr (csv_text alerts)) (\<lambda>text.
          case output of None \<Rightarrow> Inr (Print text)
          | Some path \<Rightarrow> if writable path then Inr (WriteFile path text (length alerts)) else Inl ''write'')))"

text \<open>The columns that are selected, from a stored row.\<close>

definition cli_row_of :: "alert_row \<Rightarrow> cli_row" where
  "cli_row_of r = \<lparr> cl_id = ar_id r, cl_rule_id = ar_rule_id r, cl_risk_score = ar_risk_score r, cl_severity = ar_severity r,
     cl_state = ar_state r, cl_created_at = ar_created_at r, cl_updated_at = ar_updated_at r,
     cl_acknowledged_by = ar_acknowledged_by r, cl_acknowledged_at = ar_acknowledged_at r, cl_events = ar_events r,
     cl_ai_summary = ar_ai_summary r \<rparr>"

section \<open>Files of imported rules\<close>

text \<open>The directory is a store of texts under the names of their files.\<close>

definition file_entry :: "files \<Rightarrow> string \<Rightarrow> (string \<times> string) option" where
  "file_entry fs k = map_option (Pair k) (fs k)"

interpretation rule_files: keyed_store fst file_entry write_file
  by unfold_locales (auto simp: file_entry_def write_file_def)

definition yaml_text :: "(sentinel_rule_inner \<Rightarrow> string + string) \<Rightarrow> sentinel_rule_inner \<Rightarrow> string" where
  "yaml_text to_yaml r = (case to_yaml r of Inl e \<Rightarrow> e | Inr y \<Rightarrow> y)"

lemma write_rules_written:
  "write_rules to_yaml writable output rs fs = (fs', Inr out) \<Longrightarrow> length out = length rs \<and>
     fs' = foldl write_file fs (map (\<lambda>r. (rule_file_name output r, yaml_text to_yaml r)) rs)"
proof (induction rs arbitrary: fs out)
  case (Cons r rs)
  obtain fs'' res where w: "write_rules to_yaml writable output rs
      (write_file fs (rule_file_name output r, yaml_text to_yaml r)) = (fs'', res)" by fastforce
  obtain y where y: "to_yaml r = Inr y" "writable (rule_file_name output r)"
    using Cons.prems by (auto simp: Let_def split: sum.splits if_splits)
  with w have w': "write_rules to_yaml writable output rs (write_file fs (rule_file_name output r, y)) = (fs'', res)"
    by (simp add: yaml_text_def)
  from Cons.prems y w' obtain out' where "res = Inr out'" "fs'' = fs'" "length out = Suc (length out')"
    by (cases res) (auto simp: Let_def)
  with Cons.IH [of _ out'] w show ?case by auto
qed simp

lemma find_mapped: "find P (map f xs) = map_option f (find (\<lambda>x. P (f x)) xs)"
  by (induction xs) auto

text \<open>
  A directory of Sigma rules that is imported without an error leaves in every file the last rule
  of that file name: since the names drop every "sigma-" of the identifiers, rules can share a file,
  and then all but one are lost, while each of them is reported as imported.
\<close>

theorem import_keeps_last:
  assumes "import_sigma_command to_yaml writable create_dir output True (Inr rs) rule fs = (fs', Inr out)"
  shows "length out = Suc (length rs) \<and> fs' k = (case find (\<lambda>r. rule_file_name output r = k) (rev rs) of
      Some r \<Rightarrow> Some (yaml_text to_yaml r) | None \<Rightarrow> fs k)"
proof -
  obtain res where w: "write_rules to_yaml writable output rs fs = (fs', res)" and r: "\<exists>o'. res = Inr o' \<and> length out = Suc (length o')"
    using assms unfolding import_sigma_command_def
    by (cases "create_dir output"; cases "write_rules to_yaml writable output rs fs"; cases "snd (write_rules to_yaml writable output rs fs)") auto
  then obtain out' where out': "res = Inr out'" "length out = Suc (length out')" by blast
  note written = write_rules_written [OF w [unfolded out'(1)]]
  have "file_entry fs' k = (case find (\<lambda>v. fst v = k) (rev (map (\<lambda>r. (rule_file_name output r, yaml_text to_yaml r)) rs)) of
      Some v \<Rightarrow> Some v | None \<Rightarrow> file_entry fs k)"
    using written by (simp only: rule_files.lookup_register_all)
  then have "fs' k = (case find (\<lambda>r. rule_file_name output r = k) (rev rs) of
      Some r \<Rightarrow> Some (yaml_text to_yaml r) | None \<Rightarrow> fs k)"
    by (cases "fs' k"; cases "fs k") (auto simp: file_entry_def find_mapped rev_map split: option.splits)
  with written out' show ?thesis by simp
qed

definition demo_sigma_rule :: "string \<Rightarrow> sentinel_rule_inner" where
  "demo_sigma_rule i = (convert_sigma_to_sentinel [] [] demo_sigma)\<lparr> sx_id := i \<rparr>"

lemma demo_sigma_rule_id [simp]: "sx_id (demo_sigma_rule i) = i"
  by (simp add: demo_sigma_rule_def)

lemma import_keeps_last_witness:
  "fst (import_sigma_command (\<lambda>r. Inr (sx_id r)) (\<lambda>_. True) (\<lambda>_. Inr ()) ''o'' True
     (Inr [demo_sigma_rule ''sigma-a'', demo_sigma_rule ''a'']) (Inl []) Map.empty) ''o/a.yaml'' = Some ''a''"
proof -
  have n: "rule_file_name ''o'' (demo_sigma_rule ''sigma-a'') = ''o/a.yaml''" "rule_file_name ''o'' (demo_sigma_rule ''a'') = ''o/a.yaml''"
    by (simp_all add: rule_file_name_def demo_sigma_rule_def str_replace.simps starts_with_def)
  obtain fs' out where c: "import_sigma_command (\<lambda>r. Inr (sx_id r)) (\<lambda>_. True) (\<lambda>_. Inr ()) ''o'' True
     (Inr [demo_sigma_rule ''sigma-a'', demo_sigma_rule ''a'']) (Inl []) Map.empty = (fs', Inr out)"
    by (simp add: import_sigma_command_def Let_def)
  from import_keeps_last [OF c, of "''o/a.yaml''"] show ?thesis
    unfolding c by (simp add: n yaml_text_def)
qed

section \<open>Reading CSV\<close>

text \<open>A reader of CSV with the quoting of RFC 4180 and the line ends that the program writes, a line feed
  where the RFC asks for CR and LF: a quoted cell ends at the first quote that is not
  doubled, another one at a comma or at the end of the line.\<close>

abbreviation quote_char :: char where
  "quote_char \<equiv> CHR 0x22"

fun quoted_rest :: "string \<Rightarrow> (string \<times> string) option" where
  "quoted_rest [] = None"
| "quoted_rest [c] = (if c = quote_char then Some ([], []) else None)"
| "quoted_rest (c # d # cs) =
     (if c \<noteq> quote_char then map_option (apfst ((#) c)) (quoted_rest (d # cs))
      else if d = quote_char then map_option (apfst ((#) quote_char)) (quoted_rest cs) else Some ([], d # cs))"

definition unquoted :: "char \<Rightarrow> bool" where
  "unquoted c \<longleftrightarrow> c \<noteq> CHR '','' \<and> c \<noteq> CHR 0x0A"

definition csv_cell :: "string \<Rightarrow> (string \<times> string) option" where
  "csv_cell s = (case s of c # cs \<Rightarrow> if c = quote_char then quoted_rest cs
       else Some (takeWhile unquoted s, dropWhile unquoted s)
     | [] \<Rightarrow> Some ([], []))"

lemma quoted_rest_shorter: "quoted_rest s = Some (f, r) \<Longrightarrow> length r \<le> length s"
  by (induction s arbitrary: f r rule: quoted_rest.induct) (fastforce split: if_splits)+

lemma csv_cell_shorter: "csv_cell s = Some (f, r) \<Longrightarrow> length r \<le> length s"
  by (auto simp: csv_cell_def length_dropWhile_le le_Suc_eq split: list.splits if_splits dest: quoted_rest_shorter)

function csv_record :: "string \<Rightarrow> (string list \<times> string) option" where
  "csv_record s = (case csv_cell s of None \<Rightarrow> None
     | Some (f, []) \<Rightarrow> Some ([f], [])
     | Some (f, c # rest) \<Rightarrow> if c = CHR '','' then map_option (apfst ((#) f)) (csv_record rest)
         else if c = CHR 0x0A then Some ([f], rest) else None)"
  by pat_completeness auto
termination
  by (relation "measure length") (auto dest: csv_cell_shorter)

declare csv_record.simps [simp del]

lemma csv_record_shorter: "csv_record s = Some (fs, r) \<Longrightarrow> s \<noteq> [] \<Longrightarrow> length r < length s"
proof (induction s arbitrary: fs rule: csv_record.induct)
  case (1 s)
  obtain f t where cell: "csv_cell s = Some (f, t)"
    using "1.prems"(1) by (subst (asm) csv_record.simps) (auto split: option.splits)
  show ?case
  proof (cases t)
    case Nil
    then show ?thesis using "1.prems" cell by (subst (asm) csv_record.simps) auto
  next
    case (Cons c rest)
    then have len: "length rest < length s" using csv_cell_shorter [OF cell] by simp
    show ?thesis
    proof (cases "c = CHR '',''")
      case True
      then obtain fs' where sub: "csv_record rest = Some (fs', r)"
        using "1.prems" cell Cons by (subst (asm) csv_record.simps) auto
      show ?thesis
      proof (cases rest)
        case Nil
        then show ?thesis using sub "1.prems"(2) by (subst (asm) csv_record.simps) (simp add: csv_cell_def)
      next
        case (Cons a list)
        then have "length r < length rest"
          using "1.IH" [OF cell, OF refl \<open>t = c # rest\<close>, OF True sub] by simp
        with len show ?thesis by simp
      qed
    next
      case False
      then have "r = rest" using "1.prems" cell Cons by (subst (asm) csv_record.simps) (auto split: if_splits)
      with len show ?thesis by simp
    qed
  qed
qed

function csv_records :: "string \<Rightarrow> string list list option" where
  "csv_records s = (if s = [] then Some [] else case csv_record s of None \<Rightarrow> None
     | Some (fs, rest) \<Rightarrow> map_option ((#) fs) (csv_records rest))"
  by pat_completeness auto
termination
  by (relation "measure length") (auto dest: csv_record_shorter)

declare csv_records.simps [simp del]

section \<open>Round trip\<close>

lemma str_replace_char: "str_replace s [c] r = concat (map (\<lambda>x. if x = c then r else [x]) s)"
  by (induction s) (subst str_replace.simps; simp add: starts_with_def)+

text \<open>A cell is read for what it says when a comma or the end of a line follows.\<close>

definition reads_as :: "string \<Rightarrow> string \<Rightarrow> bool" where
  "reads_as cell f \<longleftrightarrow> (\<forall>c rest. c = CHR '','' \<or> c = CHR 0x0A \<longrightarrow> csv_cell (cell @ c # rest) = Some (f, c # rest))"

lemma quoted_rest_other: "x \<noteq> quote_char \<Longrightarrow> quoted_rest (x # s) = map_option (apfst ((#) x)) (quoted_rest s)"
  by (cases s) simp_all

lemma quoted_rest_escaped:
  "c \<noteq> quote_char \<Longrightarrow> quoted_rest (concat (map (\<lambda>x. if x = quote_char then [quote_char, quote_char] else [x]) s) @ quote_char # c # rest)
     = Some (s, c # rest)"
proof (induction s)
  case (Cons x s)
  then show ?case
    by (cases "x = quote_char") (simp_all add: quoted_rest_other)
qed simp

lemma reads_escaped: "reads_as (csv_escape s) s"
proof -
  have "csv_cell (csv_escape s @ c # rest) = Some (s, c # rest)" if "c \<noteq> quote_char" for c rest
    using quoted_rest_escaped [OF that, of s rest] by (simp add: csv_escape_def csv_cell_def dq_def str_replace_char)
  then show ?thesis by (auto simp: reads_as_def)
qed

lemma reads_plain:
  assumes "list_all (\<lambda>c. unquoted c \<and> c \<noteq> quote_char) s"
  shows "reads_as s s"
proof -
  have u: "\<forall>x \<in> set s. unquoted x" using assms by (auto simp: list_all_iff)
  have "csv_cell (s @ c # rest) = Some (s, c # rest)" if "c = CHR '','' \<or> c = CHR 0x0A" for c rest
  proof -
    have c: "\<not> unquoted c" "c \<noteq> quote_char" using that by (auto simp: unquoted_def)
    with u have "takeWhile unquoted (s @ c # rest) = s" "dropWhile unquoted (s @ c # rest) = c # rest"
      by simp_all
    with c assms show ?thesis by (cases s) (auto simp: csv_cell_def)
  qed
  then show ?thesis by (simp add: reads_as_def)
qed

lemma reads_optional: "reads_as (csv_optional x) (or_empty x)"
  using reads_escaped reads_plain [of "[]"] by (cases x) (simp_all add: csv_optional_def or_empty_def)

lemma reads_int: "reads_as (show_int n) (show_int n)"
proof (rule reads_plain)
  have "list_all (\<lambda>c. unquoted c \<and> c \<noteq> quote_char) (show_nat k)" for k
    using show_nat_digits [of k] by (auto simp: list_all_iff is_digit_def unquoted_def Let_def)
  then show "list_all (\<lambda>c. unquoted c \<and> c \<noteq> quote_char) (show_int n)"
    by (simp add: show_int_def unquoted_def)
qed

lemma csv_record_last: "reads_as cell f \<Longrightarrow> csv_record (cell @ newline @ rest) = Some ([f], rest)"
  by (subst csv_record.simps) (simp add: reads_as_def newline_def)

lemma csv_record_next: "reads_as cell f \<Longrightarrow>
    csv_record (cell @ '','' @ rest) = map_option (apfst ((#) f)) (csv_record rest)"
  by (subst csv_record.simps) (simp add: reads_as_def)

lemma csv_record_cells:
  "list_all2 reads_as cells fs \<Longrightarrow> cells \<noteq> [] \<Longrightarrow>
     csv_record (str_join '','' cells @ newline @ rest) = Some (fs, rest)"
proof (induction cells arbitrary: fs rule: induct_list012)
  case (2 cell)
  then show ?case by (auto simp: list_all2_Cons1 csv_record_last)
next
  case (3 cell cell' cells)
  then show ?case
    by (auto simp: list_all2_Cons1 csv_record_next [simplified])
qed simp

definition csv_names :: "string list" where
  "csv_names = [''id'', ''rule_id'', ''risk_score'', ''severity'', ''state'', ''created_at'', ''updated_at'',
     ''acknowledged_by'', ''acknowledged_at'', ''events'', ''ai_summary'']"

definition csv_values :: "cli_row \<Rightarrow> string list" where
  "csv_values r = [cl_id r, cl_rule_id r, show_int (cl_risk_score r), show_int (cl_severity r), show_int (cl_state r),
     cl_created_at r, cl_updated_at r, or_empty (cl_acknowledged_by r), or_empty (cl_acknowledged_at r), cl_events r,
     or_empty (cl_ai_summary r)]"

lemma csv_record_row: "csv_record (to_csv_row r @ newline @ rest) = Some (csv_values r, rest)"
  unfolding to_csv_row_def
  by (rule csv_record_cells)
    (simp_all add: csv_cells_def csv_values_def reads_escaped reads_optional reads_int)

lemma csv_record_header: "csv_record (csv_header @ newline @ rest) = Some (csv_names, rest)"
proof -
  have "list_all2 reads_as csv_names csv_names"
    by (simp add: csv_names_def reads_plain unquoted_def)
  from csv_record_cells [OF this, of rest] have "csv_record (str_join '','' csv_names @ newline @ rest) = Some (csv_names, rest)"
    by (simp add: csv_names_def)
  moreover have "csv_header = str_join '','' csv_names"
    by (simp add: csv_header_def csv_names_def)
  ultimately show ?thesis
    by simp
qed

lemma csv_records_rows: "csv_records (concat (map (\<lambda>r. to_csv_row r @ newline) rows)) = Some (map csv_values rows)"
proof (induction rows)
  case Nil
  show ?case by (subst csv_records.simps) simp
next
  case (Cons r rows)
  have "to_csv_row r @ newline @ rest \<noteq> []" for rest by (simp add: newline_def)
  then have "csv_records (to_csv_row r @ newline @ rest) = map_option ((#) (csv_values r)) (csv_records rest)" for rest
    by (subst csv_records.simps) (simp only: csv_record_row option.case prod.case if_False)
  with Cons show ?case by simp
qed

text \<open>
  C29: The CSV export can be read back.  Whatever quotes, commas and line breaks the texts of the alerts
  hold, a reader of the format finds the header and then for every alert its eleven values in order;
  only an absent optional value and an empty one read alike.
\<close>

theorem csv_export_reads_back:
  "csv_records (csv_text rows) = Some (csv_names # map csv_values rows)"
proof -
  have "csv_text rows \<noteq> []" by (simp add: csv_text_def csv_header_def)
  then show ?thesis
    by (subst csv_records.simps) (simp add: csv_text_def csv_record_header csv_records_rows)
qed

text \<open>The states of the command line are the states of the store.\<close>

lemma cli_states_are_stored_states:
  "cli_state_number s = Some n \<Longrightarrow> alert_state_code (alert_state_of_code n) = n"
  by (auto simp: cli_state_number_def alert_state_of_code_def split: if_splits)

text \<open>
  Without --db the tool looks for a database that the service does not use by default: the service keeps it
  at data/sentinel.db below its working directory.
\<close>

lemma default_db_is_not_the_services: "default_db_path d \<noteq> store_sqlite_path storage_config_default"
proof (cases d)
  case None
  then show ?thesis by (simp add: default_db_path_def storage_config_default_def)
next
  case (Some p)
  have "path_join (path_join p ''sentinel'') ''sentinel.db'' \<noteq> ''data/sentinel.db''"
  proof
    assume eq: "path_join (path_join p ''sentinel'') ''sentinel.db'' = ''data/sentinel.db''"
    obtain q where "path_join p ''sentinel'' = q @ ''sentinel''"
      by (simp add: path_join_def starts_with_def split: if_splits) (metis append_Cons append_Nil append_assoc)
    with eq have "q @ ''sentinel/sentinel.db'' = ''data/sentinel.db''"
      by (simp add: path_join_def starts_with_def ends_with_def)
    from arg_cong [OF this, of length] show False by simp
  qed
  with Some show ?thesis by (simp add: default_db_path_def storage_config_default_def)
qed

text \<open>The identifier of a rule is not checked: its file can lie outside the output directory.\<close>

lemma rule_file_outside:
  "rule_file_name ''out'' (r\<lparr> sx_id := ''sigma-../../etc/cron.d/x'' \<rparr>) = ''out/../../etc/cron.d/x.yaml''"
  by (simp add: rule_file_name_def str_replace.simps starts_with_def)

end
