(* ===== verification/Intel_Clients.thy ===== *)
theory Intel_Clients
  imports Enrichment Ai_Engine Std_Path
begin

text \<open>
  The clients of the threat intelligence services (src/plugins/*/src/lib.rs): when a request is sent,
  what it holds, and which answers give a report; and the enrichment of an event with what they send
  (apps/sentinel-core-service/src/enrichment.rs).  The services are parameters: a function from the
  request to the reply, whose body is the value the JSON reader found.
\<close>

section \<open>Requests and replies\<close>

record http_request =
  hq_method :: string
  hq_url :: string
  hq_headers :: "(string \<times> string) list"
  hq_form :: "(string \<times> string) list"

datatype 'b http_reply = No_Reply | Reply nat "'b option"

definition is_success :: "nat \<Rightarrow> bool" where
  "is_success status \<longleftrightarrow> 200 \<le> status \<and> status < 300"

definition http_get :: "string \<Rightarrow> (string \<times> string) list \<Rightarrow> http_request" where
  "http_get url headers = \<lparr> hq_method = ''GET'', hq_url = url, hq_headers = headers, hq_form = [] \<rparr>"

text \<open>A lookup is what was sent and what came of it.\<close>

type_synonym 'r lookup = "http_request list \<times> 'r option"

definition no_lookup :: "'r lookup" where
  "no_lookup = ([], None)"

section \<open>VirusTotal\<close>

record vt_stats =
  vx_malicious :: "u32 option"
  vx_suspicious :: "u32 option"
  vx_harmless :: "u32 option"
  vx_undetected :: "u32 option"

record vt_attributes =
  vx_meaningful_name :: "string option"
  vx_stats :: "vt_stats option"

record vt_response =
  vx_data :: "vt_attributes option option"
  vx_error :: "string option"

definition vt_no_stats :: vt_stats where
  "vt_no_stats = \<lparr> vx_malicious = None, vx_suspicious = None, vx_harmless = None, vx_undetected = None \<rparr>"

definition vt_no_attributes :: vt_attributes where
  "vt_no_attributes = \<lparr> vx_meaningful_name = None, vx_stats = None \<rparr>"

definition vt_key :: "environment \<Rightarrow> string option" where
  "vt_key env = env ''SENTINEL_VIRUSTOTAL_API_KEY''"

definition vt_base_url :: "environment \<Rightarrow> string" where
  "vt_base_url env = env_or env ''SENTINEL_VIRUSTOTAL_TEST_URL'' ''https://www.virustotal.com''"

definition vt_enabled :: "environment \<Rightarrow> bool" where
  "vt_enabled env \<longleftrightarrow> vt_key env \<noteq> None"

definition vt_attributes_of :: "vt_attributes option \<Rightarrow> string option \<times> vt_stats" where
  "vt_attributes_of a = (let attrs = or_default vt_no_attributes a in
     (vx_meaningful_name attrs, or_default vt_no_stats (vx_stats attrs)))"

definition vt_file_report :: "vt_attributes option \<Rightarrow> file_report" where
  "vt_file_report a = (case vt_attributes_of a of (name, s) \<Rightarrow>
     virustotal_report name (vx_malicious s) (vx_suspicious s) (vx_harmless s) (vx_undetected s))"

definition vt_lookup_hash :: "environment \<Rightarrow> (http_request \<Rightarrow> vt_response http_reply) \<Rightarrow> string \<Rightarrow> file_report lookup" where
  "vt_lookup_hash env send sha256 = (case vt_key env of None \<Rightarrow> no_lookup
     | Some key \<Rightarrow>
         let q = http_get (vt_base_url env @ ''/api/v3/files/'' @ sha256)
               [(''x-apikey'', key), (''accept'', ''application/json'')]
         in ([q], case send q of No_Reply \<Rightarrow> None
            | Reply status body \<Rightarrow>
                if status = 404 then None
                else Option.bind body (\<lambda>b. if vx_error b \<noteq> None then None
                       else map_option vt_file_report (vx_data b))))"

text \<open>The function called base64_url_safe: two hexadecimal digits for every byte.\<close>

definition vt_url_id :: "string \<Rightarrow> string" where
  "vt_url_id s = concat (map (\<lambda>c. lower_hex2 (of_char c)) s)"

definition vt_url_text :: "vt_stats \<Rightarrow> string" where
  "vt_url_text s = (let m = or_default 0 (vx_malicious s); p = or_default 0 (vx_suspicious s);
       h = or_default 0 (vx_harmless s); u = or_default 0 (vx_undetected s)
     in ''URL: '' @ show_word (m + p) @ ''/'' @ show_word (m + p + h + u) @ '' detections (malicious: ''
        @ show_word m @ '', suspicious: '' @ show_word p @ '')'')"

definition vt_lookup_url :: "environment \<Rightarrow> (http_request \<Rightarrow> vt_response http_reply) \<Rightarrow> string \<Rightarrow> string lookup" where
  "vt_lookup_url env send url = (case vt_key env of None \<Rightarrow> no_lookup
     | Some key \<Rightarrow>
         let q = http_get (vt_base_url env @ ''/api/v3/urls/'' @ vt_url_id url) [(''x-apikey'', key)]
         in ([q], case send q of No_Reply \<Rightarrow> None
            | Reply status body \<Rightarrow>
                if is_success status
                then Option.bind body (\<lambda>b. map_option (\<lambda>a. vt_url_text (snd (vt_attributes_of a))) (vx_data b))
                else None))"

section \<open>Shodan\<close>

record shodan_host =
  sh_ports :: "u16 list option"
  sh_vulns :: "string list option"

definition shodan_key :: "environment \<Rightarrow> string option" where
  "shodan_key env = env ''SENTINEL_SHODAN_API_KEY''"

definition shodan_base_url :: "environment \<Rightarrow> string" where
  "shodan_base_url env = env_or env ''SENTINEL_SHODAN_TEST_URL'' ''https://api.shodan.io''"

definition shodan_enabled :: "environment \<Rightarrow> bool" where
  "shodan_enabled env \<longleftrightarrow> shodan_key env \<noteq> None"

definition shodan_lookup_host :: "environment \<Rightarrow> (http_request \<Rightarrow> shodan_host http_reply) \<Rightarrow> string \<Rightarrow> shodan_report lookup" where
  "shodan_lookup_host env send ip = (case shodan_key env of None \<Rightarrow> no_lookup
     | Some key \<Rightarrow>
         let q = http_get (shodan_base_url env @ ''/shodan/host/'' @ ip @ ''?key='' @ key) []
         in ([q], case send q of No_Reply \<Rightarrow> None
            | Reply status body \<Rightarrow>
                if \<not> is_success status then None
                else map_option (\<lambda>h. shodan_lookup (sh_ports h) (sh_vulns h)) body))"

text \<open>The encoding of a search works on characters, given by their code points; \<open>c as u8\<close> keeps the low byte.\<close>

definition url_unreserved :: "nat \<Rightarrow> bool" where
  "url_unreserved c \<longleftrightarrow> 48 \<le> c \<and> c \<le> 57 \<or> 65 \<le> c \<and> c \<le> 90 \<or> 97 \<le> c \<and> c \<le> 122
     \<or> c = 45 \<or> c = 95 \<or> c = 46 \<or> c = 126"

definition url_encode :: "nat list \<Rightarrow> string" where
  "url_encode s = concat (map (\<lambda>c. if c = 32 then ''%20''
     else if url_unreserved c then [char_of c] else CHR ''%'' # upper_hex2 (of_nat c)) s)"

definition shodan_search ::
    "environment \<Rightarrow> (http_request \<Rightarrow> string option list option http_reply) \<Rightarrow> nat list \<Rightarrow> string list lookup" where
  "shodan_search env send query = (case shodan_key env of None \<Rightarrow> no_lookup
     | Some key \<Rightarrow>
         let q = http_get (shodan_base_url env @ ''/shodan/host/search?key='' @ key @ ''&query='' @ url_encode query
               @ ''&minify=true'') []
         in ([q], case send q of No_Reply \<Rightarrow> None
            | Reply status body \<Rightarrow> map_option (\<lambda>matches. List.map_filter (\<lambda>m. m) (or_default [] matches)) body))"

section \<open>AbuseIPDB\<close>

record abuse_response =
  ax_data :: "abuse_data option"
  ax_errors :: "string list option"

definition abuse_key :: "environment \<Rightarrow> string option" where
  "abuse_key env = env ''SENTINEL_ABUSEIPDB_API_KEY''"

definition abuse_base_url :: "environment \<Rightarrow> string" where
  "abuse_base_url env = env_or env ''SENTINEL_ABUSEIPDB_TEST_URL'' ''https://api.abuseipdb.com''"

definition abuse_enabled :: "environment \<Rightarrow> bool" where
  "abuse_enabled env \<longleftrightarrow> abuse_key env \<noteq> None"

definition abuse_max_age :: "environment \<Rightarrow> u32" where
  "abuse_max_age env = or_default 90 (Option.bind (env ''SENTINEL_ABUSEIPDB_MAX_AGE'') parse_u32)"

definition abuse_check_ip :: "environment \<Rightarrow> (http_request \<Rightarrow> abuse_response http_reply) \<Rightarrow> string \<Rightarrow> abuse_report lookup" where
  "abuse_check_ip env send ip = (case abuse_key env of None \<Rightarrow> no_lookup
     | Some key \<Rightarrow>
         let q = http_get (abuse_base_url env @ ''/api/v2/check?ipAddress='' @ ip @ ''&maxAgeInDays=''
               @ show_word (abuse_max_age env)) [(''Key'', key), (''Accept'', ''application/json'')]
         in ([q], case send q of No_Reply \<Rightarrow> None
            | Reply status body \<Rightarrow> Option.bind body (\<lambda>b. abuse_check (ax_data b) (ax_errors b))))"

fun abuse_check_bulk ::
    "environment \<Rightarrow> (http_request \<Rightarrow> abuse_response http_reply) \<Rightarrow> string list \<Rightarrow> http_request list \<times> abuse_report list" where
  "abuse_check_bulk env send [] = ([], [])"
| "abuse_check_bulk env send (ip # ips) =
     (case abuse_check_ip env send ip of (qs, r) \<Rightarrow>
        case abuse_check_bulk env send ips of (qs', rs) \<Rightarrow>
          (qs @ qs', (case r of None \<Rightarrow> rs | Some x \<Rightarrow> x # rs)))"

section \<open>OTX\<close>

record otx_response =
  ot_reputation :: "i32 option"
  ot_pulse_count :: "u32 option"
  ot_pulses :: "(string list option \<times> string option) list option"
  ot_validation :: "string option list option"

definition otx_key :: "environment \<Rightarrow> string option" where
  "otx_key env = env ''SENTINEL_OTX_API_KEY''"

definition otx_base_url :: "environment \<Rightarrow> string" where
  "otx_base_url env = env_or env ''SENTINEL_OTX_TEST_URL'' ''https://otx.alienvault.com''"

definition otx_enabled :: "environment \<Rightarrow> bool" where
  "otx_enabled env \<longleftrightarrow> otx_key env \<noteq> None"

definition query_otx ::
    "environment \<Rightarrow> (http_request \<Rightarrow> otx_response http_reply) \<Rightarrow> string \<Rightarrow> string \<Rightarrow> otx_report lookup" where
  "query_otx env send indicator kind = (case otx_key env of None \<Rightarrow> no_lookup
     | Some key \<Rightarrow>
         let q = http_get (otx_base_url env @ ''/api/v1/indicators/'' @ kind @ ''/'' @ indicator @ ''/general'')
               [(''X-OTX-API-KEY'', key)]
         in ([q], case send q of No_Reply \<Rightarrow> None
            | Reply status body \<Rightarrow>
                if \<not> is_success status then None
                else map_option (\<lambda>d. otx_query (ot_pulse_count d) (ot_reputation d) (or_default [] (ot_pulses d))
                       (or_default [] (ot_validation d))) body))"

definition otx_check_ip :: "environment \<Rightarrow> (http_request \<Rightarrow> otx_response http_reply) \<Rightarrow> string \<Rightarrow> otx_report lookup" where
  "otx_check_ip env send ip = query_otx env send ip ''IPv4''"

definition otx_check_domain :: "environment \<Rightarrow> (http_request \<Rightarrow> otx_response http_reply) \<Rightarrow> string \<Rightarrow> otx_report lookup" where
  "otx_check_domain env send domain = query_otx env send domain ''domain''"

definition otx_check_hash :: "environment \<Rightarrow> (http_request \<Rightarrow> otx_response http_reply) \<Rightarrow> string \<Rightarrow> otx_report lookup" where
  "otx_check_hash env send hash = query_otx env send hash ''file''"

section \<open>GreyNoise and URLhaus\<close>

record gn_response =
  gx_noise :: "bool option"
  gx_riot :: "bool option"
  gx_classification :: "string option"
  gx_name :: "string option"
  gx_message :: "string option"

definition greynoise_key :: "environment \<Rightarrow> string option" where
  "greynoise_key env = env ''SENTINEL_GREYNOISE_API_KEY''"

definition greynoise_enabled :: "environment \<Rightarrow> bool" where
  "greynoise_enabled env \<longleftrightarrow> greynoise_key env \<noteq> None"

definition greynoise_check_ip ::
    "environment \<Rightarrow> (http_request \<Rightarrow> gn_response http_reply) \<Rightarrow> string \<Rightarrow> greynoise_report lookup" where
  "greynoise_check_ip env send ip = (case greynoise_key env of None \<Rightarrow> no_lookup
     | Some key \<Rightarrow>
         let q = http_get (''https://api.greynoise.io/v3/community/'' @ ip) [(''key'', key), (''Accept'', ''application/json'')]
         in ([q], case send q of No_Reply \<Rightarrow> None
            | Reply status body \<Rightarrow>
                if status = 404 \<or> \<not> is_success status then None
                else Option.bind body (\<lambda>d. greynoise_check (gx_message d) (gx_classification d) (gx_name d)
                       (gx_noise d) (gx_riot d))))"

record urlhaus_response =
  ux_query_status :: "string option"
  ux_url_status :: "string option"
  ux_threat :: "string option"
  ux_tags :: "string list option"
  ux_reference :: "string option"

definition urlhaus_base_url :: "environment \<Rightarrow> string" where
  "urlhaus_base_url env = env_or env ''SENTINEL_URLHAUS_TEST_URL'' ''https://urlhaus-api.abuse.ch''"

definition urlhaus_request :: "environment \<Rightarrow> string \<Rightarrow> http_request" where
  "urlhaus_request env url = \<lparr> hq_method = ''POST'', hq_url = urlhaus_base_url env @ ''/v1/url/'', hq_headers = [],
     hq_form = [(''url'', url)] \<rparr>"

definition urlhaus_check_url :: "environment \<Rightarrow> (http_request \<Rightarrow> urlhaus_response http_reply) \<Rightarrow> string \<Rightarrow> url_report lookup" where
  "urlhaus_check_url env send url =
     (let q = urlhaus_request env url in ([q], case send q of No_Reply \<Rightarrow> None
        | Reply status body \<Rightarrow>
            if \<not> is_success status then None
            else Option.bind body (\<lambda>d. urlhaus_check (ux_query_status d) (ux_url_status d) (ux_threat d) (ux_tags d)
                   (ux_reference d))))"

section \<open>GeoIP\<close>

text \<open>Which of the three databases are loaded: the file exists and can be opened.\<close>

record geo_resolver =
  gr_country_db :: bool
  gr_city_db :: bool
  gr_asn_db :: bool

definition geoip_dir :: "string option \<Rightarrow> string" where
  "geoip_dir config_dir = (case config_dir of None \<Rightarrow> ''geoip''
     | Some d \<Rightarrow> path_join (path_join d ''sentinel'') ''geoip'')"

definition geo_path :: "environment \<Rightarrow> string option \<Rightarrow> string \<Rightarrow> string \<Rightarrow> string" where
  "geo_path env config_dir var name = env_or env var (path_join (geoip_dir config_dir) name)"

definition geo_load :: "environment \<Rightarrow> string option \<Rightarrow> (string \<Rightarrow> bool) \<Rightarrow> (string \<Rightarrow> bool) \<Rightarrow> geo_resolver" where
  "geo_load env config_dir path_exists opens =
     (let usable = (\<lambda>p. path_exists p \<and> opens p);
          country_path = geo_path env config_dir ''SENTINEL_GEOIP_COUNTRY_DB'' ''GeoLite2-Country.mmdb'';
          city_path = geo_path env config_dir ''SENTINEL_GEOIP_CITY_DB'' ''GeoLite2-City.mmdb'';
          asn_path = geo_path env config_dir ''SENTINEL_GEOIP_ASN_DB'' ''GeoLite2-ASN.mmdb''
      in \<lparr> gr_country_db = usable country_path, gr_city_db = usable city_path, gr_asn_db = usable asn_path \<rparr>)"

definition geo_is_loaded :: "geo_resolver \<Rightarrow> bool" where
  "geo_is_loaded g \<longleftrightarrow> gr_country_db g \<or> gr_city_db g \<or> gr_asn_db g"

text \<open>What the loaded databases answer.\<close>

definition geo_answers_of :: "geo_resolver \<Rightarrow> geo_answers \<Rightarrow> geo_answers" where
  "geo_answers_of g a = \<lparr> ga_country = (if gr_country_db g then ga_country a else None),
     ga_city = (if gr_city_db g then ga_city a else None), ga_asn = (if gr_asn_db g then ga_asn a else None) \<rparr>"

section \<open>Enrichment with the services\<close>

record services =
  sv_abuse :: "http_request \<Rightarrow> abuse_response http_reply"
  sv_shodan :: "http_request \<Rightarrow> shodan_host http_reply"
  sv_otx :: "http_request \<Rightarrow> otx_response http_reply"
  sv_greynoise :: "http_request \<Rightarrow> gn_response http_reply"
  sv_vt :: "http_request \<Rightarrow> vt_response http_reply"
  sv_urlhaus :: "http_request \<Rightarrow> urlhaus_response http_reply"

text \<open>The local sources: the geographic databases and the indicators, for an address.\<close>

record local_intel =
  li_geo :: "string \<Rightarrow> geo_data option"
  li_ioc :: "string \<Rightarrow> u32 option"

definition network_stage :: "environment \<Rightarrow> services \<Rightarrow> local_intel \<Rightarrow> string \<Rightarrow> event \<Rightarrow> http_request list \<times> event" where
  "network_stage env sv li ip e =
     (let (qa, a) = (if abuse_enabled env then abuse_check_ip env (sv_abuse sv) ip else no_lookup);
          (qs, s) = (if shodan_enabled env then shodan_lookup_host env (sv_shodan sv) ip else no_lookup);
          (qo, x) = (if otx_enabled env then otx_check_ip env (sv_otx sv) ip else no_lookup);
          (qg, g) = (if greynoise_enabled env then greynoise_check_ip env (sv_greynoise sv) ip else no_lookup);
          e1 = with_report enrich_abuse a e;
          e2 = with_report enrich_shodan s e1;
          e3 = with_report enrich_otx x e2;
          e4 = with_report enrich_greynoise g e3;
          e5 = with_report enrich_geo (li_geo li ip) e4
      in (qa @ qs @ qo @ qg, with_report enrich_ioc (li_ioc li ip) e5))"

definition file_stage :: "environment \<Rightarrow> services \<Rightarrow> event \<Rightarrow> http_request list \<times> event" where
  "file_stage env sv e = (if \<not> vt_enabled env then ([], e)
     else case ev_process e of None \<Rightarrow> ([], e)
     | Some p \<Rightarrow> if pc_sha256 p = [] then ([], e)
         else case vt_lookup_hash env (sv_vt sv) (pc_sha256 p) of (q, r) \<Rightarrow> (q, with_report enrich_vt r e))"

definition url_stage :: "environment \<Rightarrow> services \<Rightarrow> event \<Rightarrow> http_request list \<times> event" where
  "url_stage env sv e = (case ev_payload e of
       Some (BrowserPayload be) \<Rightarrow>
         if ev_source e = ''browser'' \<and> be_url be \<noteq> []
         then case urlhaus_check_url env (sv_urlhaus sv) (be_url be) of (q, r) \<Rightarrow> (q, with_report enrich_url r e)
         else ([], e)
     | _ \<Rightarrow> ([], e))"

definition enrich_online :: "environment \<Rightarrow> services \<Rightarrow> local_intel \<Rightarrow> event \<Rightarrow> http_request list \<times> event" where
  "enrich_online env sv li e =
     (let (q1, e1) = (case ev_payload e of
                Some (NetworkPayload ne) \<Rightarrow>
                  if ev_source e = ''network'' \<and> ne_remote_addr ne \<noteq> [] then network_stage env sv li (ne_remote_addr ne) e
                  else ([], e)
              | _ \<Rightarrow> ([], e));
          (q2, e2) = file_stage env sv e1;
          (q3, e3) = url_stage env sv e2
      in (q1 @ q2 @ q3, e3))"

section \<open>The services only add\<close>

text \<open>The reports the enrichment of an event works with.\<close>

definition intel_for :: "environment \<Rightarrow> services \<Rightarrow> local_intel \<Rightarrow> event \<Rightarrow> intel" where
  "intel_for env sv li e =
     (let ip = (case ev_payload e of Some (NetworkPayload ne) \<Rightarrow> ne_remote_addr ne | _ \<Rightarrow> []);
          url = (case ev_payload e of Some (BrowserPayload be) \<Rightarrow> be_url be | _ \<Rightarrow> []);
          sha = (case ev_process e of Some p \<Rightarrow> pc_sha256 p | None \<Rightarrow> [])
      in \<lparr> in_abuse = snd (abuse_check_ip env (sv_abuse sv) ip), in_shodan = snd (shodan_lookup_host env (sv_shodan sv) ip),
           in_otx = snd (otx_check_ip env (sv_otx sv) ip), in_greynoise = snd (greynoise_check_ip env (sv_greynoise sv) ip),
           in_geo = li_geo li ip, in_ioc = li_ioc li ip,
           in_vt = (if vt_enabled env then snd (vt_lookup_hash env (sv_vt sv) sha) else None),
           in_url = snd (urlhaus_check_url env (sv_urlhaus sv) url) \<rparr>)"

lemmas key_defs = abuse_enabled_def shodan_enabled_def otx_enabled_def greynoise_enabled_def vt_enabled_def

lemmas client_defs = abuse_check_ip_def shodan_lookup_host_def otx_check_ip_def query_otx_def greynoise_check_ip_def
  vt_lookup_hash_def no_lookup_def

lemma disabled_lookups:
  "\<not> abuse_enabled env \<Longrightarrow> abuse_check_ip env f1 s = no_lookup"
  "\<not> shodan_enabled env \<Longrightarrow> shodan_lookup_host env f2 s = no_lookup"
  "\<not> otx_enabled env \<Longrightarrow> otx_check_ip env f3 s = no_lookup"
  "\<not> greynoise_enabled env \<Longrightarrow> greynoise_check_ip env f4 s = no_lookup"
  "\<not> vt_enabled env \<Longrightarrow> vt_lookup_hash env f5 s = no_lookup"
  by (simp_all add: key_defs client_defs)

lemma network_stage_eq:
  "network_stage env sv li ip e =
     (fst (abuse_check_ip env (sv_abuse sv) ip) @ fst (shodan_lookup_host env (sv_shodan sv) ip)
        @ fst (otx_check_ip env (sv_otx sv) ip) @ fst (greynoise_check_ip env (sv_greynoise sv) ip),
      with_report enrich_ioc (li_ioc li ip) (with_report enrich_geo (li_geo li ip)
        (with_report enrich_greynoise (snd (greynoise_check_ip env (sv_greynoise sv) ip))
          (with_report enrich_otx (snd (otx_check_ip env (sv_otx sv) ip))
            (with_report enrich_shodan (snd (shodan_lookup_host env (sv_shodan sv) ip))
              (with_report enrich_abuse (snd (abuse_check_ip env (sv_abuse sv) ip)) e))))))"
proof -
  have "(if abuse_enabled env then abuse_check_ip env (sv_abuse sv) ip else no_lookup) = abuse_check_ip env (sv_abuse sv) ip"
    "(if shodan_enabled env then shodan_lookup_host env (sv_shodan sv) ip else no_lookup) = shodan_lookup_host env (sv_shodan sv) ip"
    "(if otx_enabled env then otx_check_ip env (sv_otx sv) ip else no_lookup) = otx_check_ip env (sv_otx sv) ip"
    "(if greynoise_enabled env then greynoise_check_ip env (sv_greynoise sv) ip else no_lookup)
      = greynoise_check_ip env (sv_greynoise sv) ip"
    by (simp_all add: disabled_lookups)
  then show ?thesis
    unfolding network_stage_def by (simp only: Let_def case_prod_beta)
qed

text \<open>The event a stage hands on keeps what the next stages read.\<close>

lemma grows_keeps: "grows a b e e' \<Longrightarrow> ev_source e' = ev_source e \<and> ev_process e' = ev_process e \<and> ev_payload e' = ev_payload e"
  using event_rest_fields [of e' e] by (simp add: grows_def)

definition enrich_first :: "intel \<Rightarrow> event \<Rightarrow> event" where
  "enrich_first i e = (case ev_payload e of
     Some (NetworkPayload ne) \<Rightarrow> if ev_source e = ''network'' \<and> ne_remote_addr ne \<noteq> [] then enrich_network i e else e
   | _ \<Rightarrow> e)"

definition enrich_second :: "intel \<Rightarrow> event \<Rightarrow> event" where
  "enrich_second i e = (case ev_process e of None \<Rightarrow> e
     | Some p \<Rightarrow> if pc_sha256 p \<noteq> [] then with_report enrich_vt (in_vt i) e else e)"

lemma enrich_first_keeps:
  "ev_source (enrich_first i e) = ev_source e \<and> ev_process (enrich_first i e) = ev_process e
     \<and> ev_payload (enrich_first i e) = ev_payload e"
  using grows_keeps [OF grows_network [of i e]] by (simp add: enrich_first_def split: option.split payload.split)

lemma enrich_second_keeps:
  "ev_source (enrich_second i e) = ev_source e \<and> ev_process (enrich_second i e) = ev_process e
     \<and> ev_payload (enrich_second i e) = ev_payload e"
  using grows_keeps [OF grows_report [of vt_points 0 e enrich_vt "in_vt i", OF grows_vt]]
  by (simp add: enrich_second_def split: option.split)

text \<open>What the three services of an address, the one of a file and the one of a page are sent.\<close>

definition outgoing :: "event \<Rightarrow> string \<times> string \<times> string" where
  "outgoing e =
     ((case ev_payload e of Some (NetworkPayload ne) \<Rightarrow> if ev_source e = ''network'' then ne_remote_addr ne else [] | _ \<Rightarrow> []),
      (case ev_process e of Some p \<Rightarrow> pc_sha256 p | None \<Rightarrow> []),
      (case ev_payload e of Some (BrowserPayload be) \<Rightarrow> if ev_source e = ''browser'' then be_url be else [] | _ \<Rightarrow> []))"

definition with_key :: "string option \<Rightarrow> (string \<Rightarrow> http_request) \<Rightarrow> http_request list" where
  "with_key k f = (case k of None \<Rightarrow> [] | Some key \<Rightarrow> [f key])"

definition sent :: "environment \<Rightarrow> string \<times> string \<times> string \<Rightarrow> http_request list" where
  "sent env out = (case out of (ip, sha256, url) \<Rightarrow>
     (if ip = [] then [] else
        with_key (abuse_key env) (\<lambda>key. http_get (abuse_base_url env @ ''/api/v2/check?ipAddress='' @ ip @ ''&maxAgeInDays=''
               @ show_word (abuse_max_age env)) [(''Key'', key), (''Accept'', ''application/json'')])
        @ with_key (shodan_key env) (\<lambda>key. http_get (shodan_base_url env @ ''/shodan/host/'' @ ip @ ''?key='' @ key) [])
        @ with_key (otx_key env) (\<lambda>key. http_get (otx_base_url env @ ''/api/v1/indicators/IPv4/'' @ ip @ ''/general'')
               [(''X-OTX-API-KEY'', key)])
        @ with_key (greynoise_key env) (\<lambda>key. http_get (''https://api.greynoise.io/v3/community/'' @ ip)
               [(''key'', key), (''Accept'', ''application/json'')]))
     @ (if sha256 = [] then [] else
        with_key (vt_key env) (\<lambda>key. http_get (vt_base_url env @ ''/api/v3/files/'' @ sha256)
               [(''x-apikey'', key), (''accept'', ''application/json'')]))
     @ (if url = [] then [] else [urlhaus_request env url]))"

lemma client_requests:
  "fst (abuse_check_ip env f1 ip) = with_key (abuse_key env) (\<lambda>key. http_get (abuse_base_url env
       @ ''/api/v2/check?ipAddress='' @ ip @ ''&maxAgeInDays='' @ show_word (abuse_max_age env))
       [(''Key'', key), (''Accept'', ''application/json'')])"
  "fst (shodan_lookup_host env f2 ip) = with_key (shodan_key env)
     (\<lambda>key. http_get (shodan_base_url env @ ''/shodan/host/'' @ ip @ ''?key='' @ key) [])"
  "fst (otx_check_ip env f3 ip) = with_key (otx_key env)
     (\<lambda>key. http_get (otx_base_url env @ ''/api/v1/indicators/IPv4/'' @ ip @ ''/general'') [(''X-OTX-API-KEY'', key)])"
  "fst (greynoise_check_ip env f4 ip) = with_key (greynoise_key env)
     (\<lambda>key. http_get (''https://api.greynoise.io/v3/community/'' @ ip) [(''key'', key), (''Accept'', ''application/json'')])"
  "fst (vt_lookup_hash env f5 s) = with_key (vt_key env)
     (\<lambda>key. http_get (vt_base_url env @ ''/api/v3/files/'' @ s) [(''x-apikey'', key), (''accept'', ''application/json'')])"
  by (cases "abuse_key env", simp_all add: abuse_check_ip_def with_key_def no_lookup_def Let_def)
    (cases "shodan_key env"; cases "otx_key env"; cases "greynoise_key env"; cases "vt_key env";
     simp add: client_defs with_key_def Let_def)+

lemma network_requests:
  "fst (network_stage env sv li ip e) =
     with_key (abuse_key env) (\<lambda>key. http_get (abuse_base_url env @ ''/api/v2/check?ipAddress='' @ ip @ ''&maxAgeInDays=''
               @ show_word (abuse_max_age env)) [(''Key'', key), (''Accept'', ''application/json'')])
        @ with_key (shodan_key env) (\<lambda>key. http_get (shodan_base_url env @ ''/shodan/host/'' @ ip @ ''?key='' @ key) [])
        @ with_key (otx_key env) (\<lambda>key. http_get (otx_base_url env @ ''/api/v1/indicators/IPv4/'' @ ip @ ''/general'')
               [(''X-OTX-API-KEY'', key)])
        @ with_key (greynoise_key env) (\<lambda>key. http_get (''https://api.greynoise.io/v3/community/'' @ ip)
               [(''key'', key), (''Accept'', ''application/json'')])"
  unfolding network_stage_eq fst_conv client_requests by (rule refl)

lemma file_requests:
  "fst (file_stage env sv e) = (case ev_process e of None \<Rightarrow> [] | Some p \<Rightarrow> if pc_sha256 p = [] then [] else
     with_key (vt_key env) (\<lambda>key. http_get (vt_base_url env @ ''/api/v3/files/'' @ pc_sha256 p)
               [(''x-apikey'', key), (''accept'', ''application/json'')]))"
  using client_requests(5) [of env "sv_vt sv"]
  by (cases "vt_key env") (simp_all add: file_stage_def vt_enabled_def case_prod_beta with_key_def split: option.split)

lemma url_requests:
  "fst (url_stage env sv e) = (case ev_payload e of Some (BrowserPayload be) \<Rightarrow>
     if ev_source e = ''browser'' \<and> be_url be \<noteq> [] then [urlhaus_request env (be_url be)] else [] | _ \<Rightarrow> [])"
  by (simp add: url_stage_def urlhaus_check_url_def Let_def case_prod_beta split: option.split payload.split)

lemma first_stage:
  "(case ev_payload e of
      Some (NetworkPayload ne) \<Rightarrow>
        if ev_source e = ''network'' \<and> ne_remote_addr ne \<noteq> [] then network_stage env sv li (ne_remote_addr ne) e else ([], e)
    | _ \<Rightarrow> ([], e)) =
   (case ev_payload e of
      Some (NetworkPayload ne) \<Rightarrow>
        if ev_source e = ''network'' \<and> ne_remote_addr ne \<noteq> [] then fst (network_stage env sv li (ne_remote_addr ne) e) else []
    | _ \<Rightarrow> [], enrich_first (intel_for env sv li e) e)"
  by (simp add: enrich_first_def enrich_network_def intel_for_def network_stage_eq Let_def split: option.split payload.split)

lemma second_stage:
  "ev_process d = ev_process e \<Longrightarrow> snd (file_stage env sv d) = enrich_second (intel_for env sv li e) d"
  by (simp add: file_stage_def enrich_second_def intel_for_def disabled_lookups no_lookup_def with_report_def Let_def
      case_prod_beta split: option.split)

lemma third_stage:
  "ev_payload d = ev_payload e \<Longrightarrow> snd (url_stage env sv d) = (case ev_payload d of
      Some (BrowserPayload be) \<Rightarrow>
        if ev_source d = ''browser'' \<and> be_url be \<noteq> [] then with_report enrich_url (in_url (intel_for env sv li e)) d else d
    | _ \<Rightarrow> d)"
  by (simp add: url_stage_def intel_for_def Let_def case_prod_beta split: option.split payload.split)

text \<open>
  The enrichment with the services refines the enrichment by their reports: the event that leaves it is the
  one the reports of its own address, file and page give.
\<close>

theorem enrich_online_refines:
  "snd (enrich_online env sv li e) = enrich (intel_for env sv li e) e"
proof -
  let ?i = "intel_for env sv li e"
  let ?e1 = "enrich_first ?i e" let ?e2 = "enrich_second ?i ?e1"
  have "snd (enrich_online env sv li e) = snd (url_stage env sv (snd (file_stage env sv ?e1)))"
    unfolding enrich_online_def first_stage by (simp add: Let_def case_prod_beta)
  also have "\<dots> = snd (url_stage env sv ?e2)"
    using second_stage [of ?e1 e env sv li] enrich_first_keeps [of ?i e] by simp
  also have "\<dots> = enrich ?i e"
    using third_stage [of ?e2 e env sv li] enrich_first_keeps [of ?i e] enrich_second_keeps [of ?i ?e1]
    unfolding enrich_def Let_def enrich_first_def [symmetric] enrich_second_def [symmetric] by simp
  finally show ?thesis .
qed

lemma online_requests: "fst (enrich_online env sv li e) = sent env (outgoing e)"
proof -
  let ?e1 = "enrich_first (intel_for env sv li e) e"
  have "fst (enrich_online env sv li e) = (case ev_payload e of
      Some (NetworkPayload ne) \<Rightarrow>
        if ev_source e = ''network'' \<and> ne_remote_addr ne \<noteq> [] then fst (network_stage env sv li (ne_remote_addr ne) e) else []
    | _ \<Rightarrow> []) @ fst (file_stage env sv ?e1) @ fst (url_stage env sv (snd (file_stage env sv ?e1)))"
    unfolding enrich_online_def first_stage by (simp add: Let_def case_prod_beta)
  moreover have "snd (file_stage env sv ?e1) = enrich_second (intel_for env sv li e) ?e1"
    using enrich_first_keeps by (intro second_stage) simp
  ultimately show ?thesis
    using enrich_first_keeps [of "intel_for env sv li e" e] enrich_second_keeps [of "intel_for env sv li e" ?e1]
    by (simp add: network_requests file_requests url_requests sent_def outgoing_def split: option.split payload.split)
qed

text \<open>Without any key a browser event still leaves the host, with the whole address of the page.\<close>

lemma urlhaus_cannot_be_switched_off:
  "fst (enrich_online (\<lambda>_. None) sv li (event_default\<lparr> ev_source := ''browser'', ev_payload := Some (BrowserPayload be) \<rparr>))
     = (if be_url be = [] then [] else [urlhaus_request (\<lambda>_. None) (be_url be)])"
  by (simp add: online_requests sent_def outgoing_def with_key_def vt_key_def split: option.split)

text \<open>
  C25: What leaves the host is fixed by three texts of the event: the remote address of a network event, the hash
  of the process and the address of a browser event.  Each goes only to its services and only to those with a
  key, which is sent to no other; an address of a page goes to URLhaus in any case.  Nothing else of the event,
  no earlier answer and no local source has an influence.
\<close>

theorem only_indicators_leave:
  "fst (enrich_online env sv li e) = sent env (outgoing e)"
  by (rule online_requests)

section \<open>Encodings\<close>

text \<open>A reader of percent-encoding, as code points below 256.\<close>

fun pct_decode :: "string \<Rightarrow> nat list option" where
  "pct_decode [] = Some []"
| "pct_decode (c # cs) = (if c = CHR ''%'' then
       (case cs of a # b # rest \<Rightarrow> (case (hex_digit a, hex_digit b) of
            (Some x, Some y) \<Rightarrow> map_option ((#) (16 * x + y)) (pct_decode rest) | _ \<Rightarrow> None)
        | _ \<Rightarrow> None)
     else map_option ((#) (of_char c)) (pct_decode cs))"

lemma hex_upper: "d < 16 \<Longrightarrow> hex_digit (upper_digit d) = Some d"
  by (auto simp: hex_digit_def upper_digit_def Let_def)

lemma pct_decode_upper_hex: "pct_decode (CHR ''%'' # upper_hex2 w @ rest) = map_option ((#) (unat w)) (pct_decode rest)"
proof -
  have "unat w < 2 ^ LENGTH(8)" by (rule unsigned_less)
  then have "unat w div 16 < 16" "unat w mod 16 < 16" by (simp_all add: less_mult_imp_div_less)
  then show ?thesis by (simp add: upper_hex2_def hex_upper)
qed

lemma pct_decode_unreserved:
  assumes "url_unreserved c"
  shows "pct_decode (char_of c # rest) = map_option ((#) c) (pct_decode rest)"
proof -
  have "c < 256" "c \<noteq> 37" using assms by (auto simp: url_unreserved_def)
  then have "(of_char (char_of c :: char) :: nat) = c" by simp
  moreover have "(char_of c :: char) \<noteq> CHR ''%''"
  proof
    assume "(char_of c :: char) = CHR ''%''"
    then have "(of_char (char_of c :: char) :: nat) = 37" by simp
    with \<open>c < 256\<close> \<open>c \<noteq> 37\<close> show False by simp
  qed
  ultimately show ?thesis by simp
qed

text \<open>
  The query of a Shodan search arrives with every character cut to its low byte: text of code points below 256
  is read back by a decoder as it was, any other character becomes a different one.
\<close>

theorem search_query_truncated:
  "pct_decode (url_encode s) = Some (map (\<lambda>c. c mod 256) s)"
proof (induction s)
  case Nil
  show ?case by (simp add: url_encode_def)
next
  case (Cons c s)
  have pieces: "url_encode (c # s) = (if c = 32 then ''%20'' else if url_unreserved c then [char_of c]
      else CHR ''%'' # upper_hex2 (of_nat c)) @ url_encode s"
    by (simp add: url_encode_def)
  consider "c = 32" | "c \<noteq> 32" "url_unreserved c" | "c \<noteq> 32" "\<not> url_unreserved c" by blast
  then show ?case
  proof cases
    case 1
    then show ?thesis unfolding pieces using Cons by (simp add: hex_digit_def)
  next
    case 2
    then have "c < 256" by (auto simp: url_unreserved_def)
    with 2 show ?thesis using Cons by (simp add: pieces pct_decode_unreserved del: pct_decode.simps)
  next
    case 3
    have "unat (of_nat c :: u8) = c mod 256" by (simp add: unat_of_nat)
    with 3 show ?thesis
      using Cons pct_decode_upper_hex [of "of_nat c" "url_encode s"] by (simp add: pieces del: pct_decode.simps)
  qed
qed

text \<open>The identifier of a page at VirusTotal is hexadecimal, not the base 64 its name promises; it can be read back.\<close>

lemma vt_url_id_length: "length (vt_url_id s) = 2 * length s"
  by (induction s) (simp_all add: vt_url_id_def lower_hex2_def)

end
