(* ===== verification/Service_Start.thy ===== *)
theory Service_Start
  imports Core_Service Migrations
begin

text \<open>
  Opening the database (crates/sentinel-storage/src/sqlite.rs and lib.rs) and starting the service
  (apps/sentinel-core-service/src/main.rs): the steps in their order, each of which can fail, and what
  has been started when one does.  The system calls, the SQLite engine and the configuration reader are
  parameters that accept a step or return an error.
\<close>

section \<open>Opening the database\<close>

definition sqlite_config_default :: sqlite_config where
  "sqlite_config_default = \<lparr> sq_path = ''data/sentinel.db'', sq_wal_mode = True, sq_busy_timeout_ms = 5000,
     sq_max_connections = 5 \<rparr>"

datatype journal_mode = Journal_Wal | Journal_Delete

record connect_options =
  co_filename :: string
  co_create_if_missing :: bool
  co_journal_mode :: journal_mode
  co_busy_timeout_ms :: u64

datatype io_step = Create_Dir string | Connect u32 connect_options | Execute string

text \<open>\<open>Path::parent\<close>: what stands before the last component.\<close>

definition strip_slashes :: "string \<Rightarrow> string" where
  "strip_slashes p = rev (dropWhile (\<lambda>c. c = CHR ''/'') (rev p))"

definition path_parent :: "string \<Rightarrow> string option" where
  "path_parent p = (let q = strip_slashes p in if q = [] then None
     else case rfind_char (\<lambda>c. c = CHR ''/'') q of None \<Rightarrow> Some []
       | Some i \<Rightarrow> let d = strip_slashes (take i q) in Some (if d = [] then ''/'' else d))"

definition connect_options_of :: "sqlite_config \<Rightarrow> connect_options" where
  "connect_options_of c = \<lparr> co_filename = sq_path c, co_create_if_missing = True,
     co_journal_mode = (if sq_wal_mode c then Journal_Wal else Journal_Delete),
     co_busy_timeout_ms = of_nat (unat (sq_busy_timeout_ms c)) \<rparr>"

text \<open>The steps of \<open>SqliteStorage::new\<close> with the context of their errors.\<close>

definition sqlite_steps :: "sqlite_config \<Rightarrow> (io_step \<times> string option) list" where
  "sqlite_steps c = (case path_parent (sq_path c) of None \<Rightarrow> []
       | Some d \<Rightarrow> [(Create_Dir d, Some ''Failed to create database directory'')])
     @ [(Connect (sq_max_connections c) (connect_options_of c), Some ''Failed to connect to SQLite''),
        (Execute ''PRAGMA foreign_keys = ON'', None)]"

fun run_io_steps :: "(io_step \<Rightarrow> string option) \<Rightarrow> (io_step \<times> string option) list \<Rightarrow> io_step list \<times> (string + unit)" where
  "run_io_steps io [] = ([], Inr ())"
| "run_io_steps io ((s, ctx) # ss) = (case io s of
     Some e \<Rightarrow> ([], Inl (case ctx of None \<Rightarrow> e | Some m \<Rightarrow> m))
   | None \<Rightarrow> (case run_io_steps io ss of (trail, r) \<Rightarrow> (s # trail, r)))"

definition sqlite_storage_new :: "(io_step \<Rightarrow> string option) \<Rightarrow> sqlite_config \<Rightarrow> io_step list \<times> (string + unit)" where
  "sqlite_storage_new io c = run_io_steps io (sqlite_steps c)"

text \<open>The repositories are created when they are first asked for; a repository is the number of its creation.\<close>

datatype repo_kind = Repo_Events | Repo_Rules | Repo_Alerts | Repo_Config | Repo_Chains

record repo_cache =
  rc_repos :: "repo_kind \<Rightarrow> nat option"
  rc_created :: nat

definition repo_cache_new :: repo_cache where
  "repo_cache_new = \<lparr> rc_repos = (\<lambda>_. None), rc_created = 0 \<rparr>"

definition get_repo :: "repo_kind \<Rightarrow> repo_cache \<Rightarrow> nat \<times> repo_cache" where
  "get_repo k c = (case rc_repos c k of Some r \<Rightarrow> (r, c)
     | None \<Rightarrow> (rc_created c, c\<lparr> rc_repos := (rc_repos c)(k \<mapsto> rc_created c), rc_created := Suc (rc_created c) \<rparr>))"

section \<open>The storage manager\<close>

text \<open>The schema stands for the database; a run that fails is an error.  The analytics store is an option that
  is off by default.\<close>

definition storage_manager_new ::
    "(io_step \<Rightarrow> string option) \<Rightarrow> sqlite_config \<Rightarrow> schema \<Rightarrow> string + schema" where
  "storage_manager_new io c db = bind_result (snd (sqlite_storage_new io c)) (\<lambda>_. run_all db)"

definition sqlite_health :: "(io_step \<Rightarrow> string option) \<Rightarrow> string + unit" where
  "sqlite_health io = (case io (Execute ''SELECT 1'') of None \<Rightarrow> Inr () | Some e \<Rightarrow> Inl e)"

definition storage_health :: "(io_step \<Rightarrow> string option) \<Rightarrow> unit result" where
  "storage_health io = map_sum (\<lambda>e. Err_Storage (storage_error_of_anyhow e)) id (sqlite_health io)"

definition storage_migrate :: "schema \<Rightarrow> schema result" where
  "storage_migrate db = map_sum sentinel_error_of_anyhow id (run_all db)"

section \<open>Starting the service\<close>

record service_args =
  sa_config :: "string list"
  sa_foreground :: bool
  sa_validate_config :: bool
  sa_log_level :: string

text \<open>What accepts or refuses the steps of the start.\<close>

record boot_world =
  bw_log_level_ok :: "string \<Rightarrow> string option"
  bw_load_config :: "string list \<Rightarrow> string + app_config"
  bw_io :: "io_step \<Rightarrow> string option"
  bw_rules :: "rule_engine_config \<Rightarrow> string option"
  bw_subscribe :: "string option"

datatype boot_event =
  Config_Loaded "string list"
| Printed string
| Storage_Step io_step
| Migrated
| Bus_Running channel_config
| Rules_Loaded
| Grpc_Spawned string
| Subscribed string
| Collector_Started string

definition boot_collectors :: "string list" where
  "boot_collectors = [''process'', ''network'', ''file'', ''startup'', ''browser'', ''usb'', ''registry'']"

definition grpc_address :: string where
  "grpc_address = ''127.0.0.1:50051''"

text \<open>After the subscription nothing can fail.\<close>

definition boot_engines :: "boot_world \<Rightarrow> app_config \<Rightarrow> boot_event list \<times> (string + unit)" where
  "boot_engines w c =
     (case bw_rules w (ac_rule_engine c) of
        Some e \<Rightarrow> ([Bus_Running (channel_config_of (ac_event_bus c))], Inl ''Failed to initialize rule engine'')
      | None \<Rightarrow>
          let trail = [Bus_Running (channel_config_of (ac_event_bus c)), Rules_Loaded, Grpc_Spawned grpc_address] in
          (case bw_subscribe w of
             Some e \<Rightarrow> (trail, Inl (''Failed to subscribe: '' @ e))
           | None \<Rightarrow> (trail @ Subscribed ''*'' # map Collector_Started boot_collectors, Inr ())))"

definition boot_storage :: "boot_world \<Rightarrow> app_config \<Rightarrow> schema \<Rightarrow> boot_event list \<times> (string + schema)" where
  "boot_storage w c db =
     (case sqlite_storage_new (bw_io w) (sqlite_config_of (ac_storage c)) of
        (trail, Inl e) \<Rightarrow> (map Storage_Step trail, Inl ''Failed to initialize SQLite'')
      | (trail, Inr _) \<Rightarrow> (case run_all db of
            Inl e \<Rightarrow> (map Storage_Step trail, Inl ''Failed to run SQLite migrations'')
          | Inr db' \<Rightarrow> (map Storage_Step trail @ [Migrated], Inr db')))"

text \<open>The result: an error, or the schema and whether the service runs.\<close>

definition boot :: "boot_world \<Rightarrow> service_args \<Rightarrow> schema \<Rightarrow> boot_event list \<times> (string + schema \<times> bool)" where
  "boot w args db =
     (case bw_log_level_ok w (sa_log_level args) of Some e \<Rightarrow> ([], Inl e)
      | None \<Rightarrow>
          let paths = config_paths_of (sa_config args) in
          (case bw_load_config w paths of Inl e \<Rightarrow> ([], Inl ''Failed to load configuration'')
           | Inr c \<Rightarrow>
               if sa_validate_config args
               then ([Config_Loaded paths, Printed (''Configuration valid: '' @ core_instance_name (ac_core c))], Inr (db, False))
               else (case boot_storage w c db of
                   (trail, Inl e) \<Rightarrow> (Config_Loaded paths # trail, Inl e)
                 | (trail, Inr db') \<Rightarrow> (case boot_engines w c of
                       (trail', Inl e) \<Rightarrow> (Config_Loaded paths # trail @ trail', Inl e)
                     | (trail', Inr _) \<Rightarrow> (Config_Loaded paths # trail @ trail', Inr (db', True))))))"

section \<open>What a start guarantees\<close>

lemma collectors_last:
  "boot_engines w c = (trail, r) \<Longrightarrow> Collector_Started x \<in> set trail \<Longrightarrow>
     r = Inr () \<and> (\<exists>pre. trail = pre @ Subscribed ''*'' # map Collector_Started boot_collectors)"
  by (auto simp: boot_engines_def Let_def split: option.splits)

lemma storage_no_collectors: "boot_storage w c db = (trail, r) \<Longrightarrow> Collector_Started x \<notin> set trail"
  by (auto simp: boot_storage_def split: sum.splits prod.splits)

lemma boot_storage_migrates: "boot_storage w c db = (trail, Inr db') \<Longrightarrow> run_all db = Inr db'"
  by (auto simp: boot_storage_def split: sum.splits prod.splits)

text \<open>
  C32: Collectors start last and all together.  If one has been started, then all seven have, in the order of the
  code, directly after the rule engine's subscription, the service runs, and its database has every migration:
  no event can be published before it would be seen, and no error leaves a collector behind.
\<close>

theorem collectors_start_last:
  assumes "boot w args db = (trail, r)" and "Collector_Started x \<in> set trail"
  shows "(\<exists>pre. trail = pre @ Subscribed ''*'' # map Collector_Started boot_collectors \<and> Migrated \<in> set pre)
    \<and> (\<exists>db'. r = Inr (db', True) \<and> run_all db = Inr db' \<and> list_all (applied db') migrations)"
proof -
  obtain c where c: "bw_load_config w (config_paths_of (sa_config args)) = Inr c" "\<not> sa_validate_config args"
      "bw_log_level_ok w (sa_log_level args) = None"
    using assms by (auto simp: boot_def Let_def split: option.splits sum.splits if_splits)
  obtain l1 r1 where st: "boot_storage w c db = (l1, r1)" by fastforce
  obtain l2 r2 where en: "boot_engines w c = (l2, r2)" by fastforce
  obtain db' where r1: "r1 = Inr db'"
    using assms c st storage_no_collectors [OF st, of x] by (cases r1) (auto simp: boot_def Let_def)
  have l: "trail = Config_Loaded (config_paths_of (sa_config args)) # l1 @ l2" "Inr () = r2 \<Longrightarrow> r = Inr (db', True)"
    using assms c st en r1 by (cases r2; auto simp: boot_def Let_def)+
  with assms(2) storage_no_collectors [OF st, of x] have "Collector_Started x \<in> set l2" by simp
  from collectors_last [OF en this] obtain pre where l2: "r2 = Inr ()" "l2 = pre @ Subscribed ''*'' # map Collector_Started boot_collectors"
    by blast
  have "Migrated \<in> set l1"
    using st r1 by (auto simp: boot_storage_def split: sum.splits prod.splits)
  moreover have "run_all db = Inr db'" "list_all (applied db') migrations"
    using boot_storage_migrates st r1 run_all_idempotent by blast+
  ultimately show ?thesis
    using l l2 by (intro conjI exI [of _ "Config_Loaded (config_paths_of (sa_config args)) # l1 @ pre"]) auto
qed

lemma run_io_steps_accepted: "run_io_steps (\<lambda>_. None) ss = (map fst ss, Inr ())"
  by (induction ss) (auto split: prod.splits)

definition ready_world :: boot_world where
  "ready_world = \<lparr> bw_log_level_ok = (\<lambda>_. None), bw_load_config = (\<lambda>_. Inr app_config_default), bw_io = (\<lambda>_. None),
     bw_rules = (\<lambda>_. None), bw_subscribe = None \<rparr>"

lemma collectors_start_last_witness:
  "snd (boot ready_world \<lparr> sa_config = [], sa_foreground = False, sa_validate_config = False, sa_log_level = ''info'' \<rparr> empty_schema)
     = Inr (latest_schema, True)"
proof -
  let ?args = "\<lparr> sa_config = [], sa_foreground = False, sa_validate_config = False, sa_log_level = ''info'' \<rparr>"
  obtain trail r where b: "boot ready_world ?args empty_schema = (trail, r)" by fastforce
  have "Collector_Started ''usb'' \<in> set (fst (boot ready_world ?args empty_schema))"
    by (auto simp: boot_def ready_world_def boot_storage_def boot_engines_def sqlite_storage_new_def run_io_steps_accepted run_all_fresh Let_def
        boot_collectors_def split: prod.split sum.split)
  then have "Collector_Started ''usb'' \<in> set trail" by (simp add: b)
  from collectors_start_last [OF b this] show ?thesis
    by (auto simp: b run_all_fresh)
qed

text \<open>A database that was left by a migration cut off after its first index keeps the service from ever starting.\<close>

lemma half_done_never_boots:
  "sa_validate_config args = False \<Longrightarrow> \<exists>trail e. boot w args half_done = (trail, Inl e)"
  by (auto simp: boot_def boot_storage_def half_done_run_all Let_def split: option.split sum.split prod.split)

text \<open>The flag foreground has no influence.\<close>

lemma foreground_ignored: "boot w (args\<lparr> sa_foreground := b \<rparr>) db = boot w args db"
proof -
  let ?args = "args\<lparr> sa_foreground := b \<rparr>"
  have same: "sa_config ?args = sa_config args" "sa_validate_config ?args = sa_validate_config args"
      "sa_log_level ?args = sa_log_level args"
    by simp_all
  show ?thesis unfolding boot_def same by (rule refl)
qed

text \<open>The directory of the default database is created, also for a path without directories.\<close>

lemma parent_examples:
  "path_parent ''data/sentinel.db'' = Some ''data''" "path_parent ''x.db'' = Some []" "path_parent ''/x.db'' = Some ''/''"
  by code_simp+

section \<open>Repositories are created once\<close>

fun get_repos :: "repo_kind list \<Rightarrow> repo_cache \<Rightarrow> nat list \<times> repo_cache" where
  "get_repos [] c = ([], c)"
| "get_repos (k # ks) c = (case get_repo k c of (r, c') \<Rightarrow> case get_repos ks c' of (rs, c'') \<Rightarrow> (r # rs, c''))"

definition cache_ok :: "repo_cache \<Rightarrow> bool" where
  "cache_ok c \<longleftrightarrow> inj_on (rc_repos c) (dom (rc_repos c)) \<and> (\<forall>k r. rc_repos c k = Some r \<longrightarrow> r < rc_created c)"

lemma get_repo_ok:
  assumes "cache_ok c" and "get_repo k c = (r, c')"
  shows "cache_ok c' \<and> rc_repos c' k = Some r \<and> (\<forall>k' r'. rc_repos c k' = Some r' \<longrightarrow> rc_repos c' k' = Some r')"
proof (cases "rc_repos c k")
  case None
  then have c': "r = rc_created c" "rc_repos c' = (rc_repos c)(k \<mapsto> rc_created c)" "rc_created c' = Suc (rc_created c)"
    using assms(2) by (auto simp: get_repo_def)
  have "rc_repos c k' \<noteq> Some (rc_created c)" for k'
    using assms(1) by (auto simp: cache_ok_def)
  then have "inj_on (rc_repos c') (dom (rc_repos c'))"
    using assms(1) None by (auto simp: c' cache_ok_def inj_on_def dom_def)
  moreover have "\<forall>k r. rc_repos c' k = Some r \<longrightarrow> r < rc_created c'"
    using assms(1) by (auto simp: c' cache_ok_def less_Suc_eq)
  ultimately show ?thesis using None by (auto simp: cache_ok_def c')
next
  case (Some r')
  then show ?thesis using assms by (auto simp: get_repo_def)
qed

lemma get_repos_ok:
  "cache_ok c \<Longrightarrow> get_repos ks c = (rs, c') \<Longrightarrow> cache_ok c' \<and> map Some rs = map (rc_repos c') ks
     \<and> (\<forall>k' r'. rc_repos c k' = Some r' \<longrightarrow> rc_repos c' k' = Some r')"
proof (induction ks arbitrary: c rs)
  case (Cons k ks)
  obtain r d where g: "get_repo k c = (r, d)" by fastforce
  obtain rs' e where gs: "get_repos ks d = (rs', e)" by fastforce
  have "rs = r # rs'" "c' = e" using Cons.prems(2) g gs by simp_all
  with get_repo_ok [OF Cons.prems(1) g] Cons.IH [of d rs'] gs show ?case by auto
qed simp

text \<open>
  The storage hands out one repository of each kind.  In any sequence of requests two answers are the same
  repository exactly when the same kind was asked for.
\<close>

theorem repositories_are_shared:
  assumes "i < length ks" and "j < length ks"
  shows "fst (get_repos ks repo_cache_new) ! i = fst (get_repos ks repo_cache_new) ! j \<longleftrightarrow> ks ! i = ks ! j"
proof -
  obtain rs c where g: "get_repos ks repo_cache_new = (rs, c)" by fastforce
  have "cache_ok repo_cache_new" by (simp add: cache_ok_def repo_cache_new_def)
  from get_repos_ok [OF this g] have ok: "cache_ok c" "map Some rs = map (rc_repos c) ks" by auto
  then have "length rs = length ks" using map_eq_imp_length_eq by blast
  then have *: "rc_repos c (ks ! n) = Some (rs ! n)" if "n < length ks" for n
    using that ok(2) by (metis nth_map)
  show ?thesis
    using ok(1) * [OF assms(1)] * [OF assms(2)] by (auto simp: g cache_ok_def inj_on_def dom_def)
qed

lemma repositories_are_shared_witness:
  "fst (get_repos [Repo_Rules, Repo_Events, Repo_Rules] repo_cache_new) ! 0
     = fst (get_repos [Repo_Rules, Repo_Events, Repo_Rules] repo_cache_new) ! 2"
  using repositories_are_shared [of 0 "[Repo_Rules, Repo_Events, Repo_Rules]" 2] by simp

end
