(* ===== verification/Hot_Reload.thy ===== *)
theory Hot_Reload
  imports Service_Start Config_Manager Rule_Engine
begin

text \<open>
  The file watchers of the configuration manager (crates/sentinel-config/src/lib.rs) and of the rule
  engine (crates/sentinel-rule-engine/src/lib.rs): a callback of the operating system that sends into a
  bounded channel, and a task that waits, drains the channel and reloads.  Also the start of the
  manager, which watches the directories of its files, its provider interface, the key files of the
  secrets, and the actions of matched rules.
\<close>

section \<open>A watcher\<close>

text \<open>The phases of the task: waiting for a message, sleeping, and about to reload.\<close>

datatype watch_phase = Waiting | Debouncing | Reloading

text \<open>
  The files, the notifications the operating system has not delivered yet, the messages in the channel
  and what was loaded.  \<open>wt_unseen\<close> says that a change since the last load was not announced: the
  callback ignores removals, and before the watch began nothing is announced at all.
\<close>

record ('f, 's) watch_state =
  wt_files :: 'f
  wt_pending :: nat
  wt_queue :: nat
  wt_phase :: watch_phase
  wt_value :: 's
  wt_unseen :: bool

text \<open>The steps of the watcher itself.\<close>

inductive task_step :: "nat \<Rightarrow> ('f \<Rightarrow> 's \<Rightarrow> 's) \<Rightarrow> ('f, 's) watch_state \<Rightarrow> ('f, 's) watch_state \<Rightarrow> bool"
  for capacity reload where
  notified: "wt_pending w = Suc n \<Longrightarrow>
    task_step capacity reload w (w\<lparr> wt_pending := n, wt_queue := min capacity (Suc (wt_queue w)) \<rparr>)"
| received: "wt_phase w = Waiting \<Longrightarrow> wt_queue w = Suc n \<Longrightarrow>
    task_step capacity reload w (w\<lparr> wt_queue := n, wt_phase := Debouncing \<rparr>)"
| drained: "wt_phase w = Debouncing \<Longrightarrow> task_step capacity reload w (w\<lparr> wt_queue := 0, wt_phase := Reloading \<rparr>)"
| reloaded: "wt_phase w = Reloading \<Longrightarrow> task_step capacity reload w
    (w\<lparr> wt_value := reload (wt_files w) (wt_value w), wt_phase := Waiting, wt_unseen := False \<rparr>)"

text \<open>Between them the files change in any way.\<close>

inductive watch_step :: "nat \<Rightarrow> ('f \<Rightarrow> 's \<Rightarrow> 's) \<Rightarrow> ('f, 's) watch_state \<Rightarrow> ('f, 's) watch_state \<Rightarrow> bool"
  for capacity reload where
  file_written: "watch_step capacity reload w (w\<lparr> wt_files := f, wt_pending := Suc (wt_pending w) \<rparr>)"
| file_removed: "watch_step capacity reload w (w\<lparr> wt_files := f, wt_unseen := True \<rparr>)"
| task: "task_step capacity reload w w' \<Longrightarrow> watch_step capacity reload w w'"

definition watch_start :: "'f \<Rightarrow> 's \<Rightarrow> bool \<Rightarrow> ('f, 's) watch_state" where
  "watch_start files value unseen = \<lparr> wt_files = files, wt_pending = 0, wt_queue = 0, wt_phase = Waiting,
     wt_value = value, wt_unseen = unseen \<rparr>"

definition quiet :: "('f, 's) watch_state \<Rightarrow> bool" where
  "quiet w \<longleftrightarrow> wt_pending w = 0 \<and> wt_queue w = 0 \<and> wt_phase w = Waiting"

text \<open>How many steps a watcher has left when the files no longer change.\<close>

definition watch_work :: "('f, 's) watch_state \<Rightarrow> nat" where
  "watch_work w = 4 * wt_pending w + 3 * wt_queue w
     + (case wt_phase w of Waiting \<Rightarrow> 0 | Debouncing \<Rightarrow> 2 | Reloading \<Rightarrow> 1)"

text \<open>What a watcher needs of its channel: room for one message.\<close>

locale debounced_watch =
  fixes capacity :: nat
    and reload :: "'f \<Rightarrow> 's \<Rightarrow> 's"
  assumes capacity_pos: "0 < capacity"
begin

definition up_to_date :: "('f, 's) watch_state \<Rightarrow> bool" where
  "up_to_date w \<longleftrightarrow> (\<exists>s. wt_value w = reload (wt_files w) s)"

definition watch_inv :: "('f, 's) watch_state \<Rightarrow> bool" where
  "watch_inv w \<longleftrightarrow> (quiet w \<and> \<not> wt_unseen w \<longrightarrow> up_to_date w)"

lemma task_step_inv: "task_step capacity reload w w' \<Longrightarrow> watch_inv w \<Longrightarrow> watch_inv w'"
  using capacity_pos by (elim task_step.cases) (auto simp: watch_inv_def quiet_def up_to_date_def)

lemma watch_step_inv: "watch_step capacity reload w w' \<Longrightarrow> watch_inv w \<Longrightarrow> watch_inv w'"
  using task_step_inv by (elim watch_step.cases) (auto simp: watch_inv_def quiet_def)

lemma watch_run_inv: "(watch_step capacity reload)\<^sup>*\<^sup>* w w' \<Longrightarrow> watch_inv w \<Longrightarrow> watch_inv w'"
  by (induction rule: rtranclp_induct) (auto intro: watch_step_inv)

text \<open>No written change is lost: a watcher that has come to rest has loaded the files as they are.\<close>

lemma quiet_is_up_to_date:
  assumes "(watch_step capacity reload)\<^sup>*\<^sup>* (watch_start files value unseen) w"
    and "unseen \<or> (\<exists>s. value = reload files s)" and "quiet w" and "\<not> wt_unseen w"
  shows "\<exists>s. wt_value w = reload (wt_files w) s"
proof -
  have "watch_inv (watch_start files value unseen)"
    using assms(2) by (auto simp: watch_inv_def up_to_date_def watch_start_def)
  from watch_run_inv [OF assms(1) this] assms(3,4) show ?thesis
    by (simp add: watch_inv_def up_to_date_def)
qed

text \<open>Left alone, a watcher comes to rest: every step of its own is progress, and only at rest there is none.\<close>

lemma task_step_works: "task_step capacity reload w w' \<Longrightarrow> watch_work w' < watch_work w \<and> wt_files w' = wt_files w"
  by (elim task_step.cases) (auto simp: watch_work_def min_def)

lemma task_steps_work: "(task_step capacity reload ^^ n) w w' \<Longrightarrow> watch_work w' + n \<le> watch_work w \<and> wt_files w' = wt_files w"
proof (induction n arbitrary: w')
  case (Suc n)
  then obtain v where "(task_step capacity reload ^^ n) w v" "task_step capacity reload v w'" by auto
  with Suc.IH [of v] task_step_works [of v w'] show ?case by auto
qed simp

lemma stuck_is_quiet: "(\<nexists>w'. task_step capacity reload w w') \<longleftrightarrow> quiet w"
proof
  assume stuck: "\<nexists>w'. task_step capacity reload w w'"
  then have "wt_pending w = 0" using notified [of w "wt_pending w - 1"] by (cases "wt_pending w") auto
  moreover from stuck have "wt_phase w = Waiting" using drained [of w] reloaded [of w] by (cases "wt_phase w") blast+
  moreover from stuck this have "wt_queue w = 0" using received [of w "wt_queue w - 1"] by (cases "wt_queue w") auto
  ultimately show "quiet w" by (simp add: quiet_def)
qed (auto simp: quiet_def elim: task_step.cases)

lemma task_run_is_run: "(task_step capacity reload ^^ n) w w' \<Longrightarrow> (watch_step capacity reload)\<^sup>*\<^sup>* w w'"
proof (induction n arbitrary: w')
  case (Suc n)
  then show ?case by (auto intro: rtranclp.rtrancl_into_rtrancl task)
qed simp

lemma comes_to_rest: "\<exists>w' n. (task_step capacity reload ^^ n) w w' \<and> quiet w'"
proof (induction "watch_work w" arbitrary: w rule: less_induct)
  case less
  show ?case
  proof (cases "quiet w")
    case True
    then show ?thesis by (intro exI [of _ w] exI [of _ 0]) simp
  next
    case False
    then obtain v where v: "task_step capacity reload w v" using stuck_is_quiet by blast
    with less [of v] task_step_works [OF v] obtain w' n where "(task_step capacity reload ^^ n) v w'" "quiet w'" by blast
    then show ?thesis using relpowp_Suc_I2 [of "task_step capacity reload", OF v] by blast
  qed
qed

lemma watch_keeps:
  assumes "\<And>f s. P s \<Longrightarrow> P (reload f s)" and "(watch_step capacity reload)\<^sup>*\<^sup>* w w'" and "P (wt_value w)"
  shows "P (wt_value w')"
  using assms(2,3)
proof (induction rule: rtranclp_induct)
  case (step y z)
  from step.hyps(2) step.IH [OF step.prems] show ?case
    by (elim watch_step.cases task_step.cases) (auto intro: assms(1))
qed

end

section \<open>The configuration manager\<close>

text \<open>\<open>start_watcher\<close> watches the directory of every path and fails for one that cannot be watched.\<close>

datatype start_error = Load_Failed load_error | Watch_Failed string

definition watch_dirs :: "string list \<Rightarrow> string list" where
  "watch_dirs paths = List.map_filter path_parent paths"

definition config_manager_start ::
    "config_env \<Rightarrow> (string \<rightharpoonup> string) \<Rightarrow> (string \<Rightarrow> bool) \<Rightarrow> string list \<Rightarrow> start_error + config_manager" where
  "config_manager_start v fs watchable paths = (case manager_new v fs paths of
     Inl e \<Rightarrow> Inl (Load_Failed e)
   | Inr m \<Rightarrow> (case find (\<lambda>d. \<not> watchable d) (watch_dirs paths) of
       Some d \<Rightarrow> Inl (Watch_Failed d) | None \<Rightarrow> Inr m))"

definition config_channel :: nat where
  "config_channel = 1"

interpretation config_watch: debounced_watch config_channel "manager_reload v" for v
  by unfold_locales (simp add: config_channel_def)

text \<open>\<open>watch\<close>: a section, updated at every message of the manager; the messages are parameters because the
  manager never sends one.\<close>

definition watch_section :: "string \<Rightarrow> app_config \<Rightarrow> app_config list \<Rightarrow> json" where
  "watch_section path c0 messages = fold (\<lambda>c v. get_section_value path c) messages (get_section_value path c0)"

text \<open>The provider interface: a section that does not exist is found as null, and the schema is empty.\<close>

definition provider_get :: "config_manager \<Rightarrow> string \<Rightarrow> json option" where
  "provider_get m path = Some (get_section_value path (cg_config m))"

definition provider_schema :: config_schema where
  "provider_schema = \<lparr> sch_module = ''root'', sch_version = 1, sch_schema = JObject [] \<rparr>"

section \<open>Key files\<close>

text \<open>\<open>parse_identity\<close> is the reader of age, \<open>to_public\<close> the recipient of an identity.\<close>

definition secrets_with_key ::
    "(string \<Rightarrow> string + string) \<Rightarrow> (string \<Rightarrow> string) \<Rightarrow> string \<Rightarrow> string + secrets_manager" where
  "secrets_with_key parse_identity to_public key = (case parse_identity key of
     Inl e \<Rightarrow> Inl (''Failed to parse age identity: '' @ e)
   | Inr i \<Rightarrow> Inr \<lparr> sm_identity = Some i, sm_recipient = Some (to_public i), sm_secrets_path = None \<rparr>)"

definition secrets_with_key_file ::
    "(string \<Rightarrow> string + string) \<Rightarrow> (string \<Rightarrow> string) \<Rightarrow> (string \<rightharpoonup> string) \<Rightarrow> string \<Rightarrow> string + secrets_manager" where
  "secrets_with_key_file parse_identity to_public fs path = (case fs path of
     None \<Rightarrow> Inl (''Failed to read key file: '' @ path)
   | Some key \<Rightarrow> (case parse_identity key of
       Inl e \<Rightarrow> Inl (''Failed to parse age identity: '' @ e)
     | Inr i \<Rightarrow> Inr \<lparr> sm_identity = Some i, sm_recipient = Some (to_public i), sm_secrets_path = Some path \<rparr>))"

text \<open>Saving encrypts the values in the iteration order of the map; the first failure ends it.\<close>

fun encrypt_secrets :: "secrets_env \<Rightarrow> secrets_manager \<Rightarrow> (string \<times> string) list \<Rightarrow> string + (string \<times> string) list" where
  "encrypt_secrets v m [] = Inr []"
| "encrypt_secrets v m ((k, s) # ss) = (case secret_encrypt v m s of Inl e \<Rightarrow> Inl e
   | Inr c \<Rightarrow> map_sum id ((#) (k, c)) (encrypt_secrets v m ss))"

definition save_secrets_file ::
    "secrets_env \<Rightarrow> ((string \<times> string) list \<Rightarrow> string) \<Rightarrow> (string \<Rightarrow> bool) \<Rightarrow> secrets_manager \<Rightarrow> string
      \<Rightarrow> (string \<times> string) list \<Rightarrow> (string \<rightharpoonup> string) \<Rightarrow> string + (string \<rightharpoonup> string)" where
  "save_secrets_file v to_toml writable m path secrets fs = (case encrypt_secrets v m secrets of
     Inl e \<Rightarrow> Inl e
   | Inr cs \<Rightarrow> if writable path then Inr (fs(path \<mapsto> to_toml cs)) else Inl (''Failed to write secrets file: '' @ path))"

text \<open>Loading reads the file and counts its entries; the manager is left as it was.\<close>

definition load_secrets_file ::
    "(string \<Rightarrow> (string \<times> string) list option) \<Rightarrow> (string \<rightharpoonup> string) \<Rightarrow> string \<Rightarrow> secrets_manager
      \<Rightarrow> string + secrets_manager" where
  "load_secrets_file of_toml fs path m = (case fs path of
     None \<Rightarrow> Inl (''Failed to read secrets file: '' @ path)
   | Some text' \<Rightarrow> (case of_toml text' of None \<Rightarrow> Inl ''Failed to parse secrets file'' | Some ss \<Rightarrow> Inr m))"

section \<open>The rule engine\<close>

text \<open>Its task only sends a message that nobody receives.  The watcher is a local of \<open>start_watcher\<close> and stops
  with it, so the task does not even wake up; the steps below allow it to.\<close>

definition rule_channel :: nat where
  "rule_channel = 100"

definition rules_reload :: "(string \<rightharpoonup> string) \<Rightarrow> 'p rule_engine \<Rightarrow> 'p rule_engine" where
  "rules_reload files g = g"

interpretation rule_watch: debounced_watch rule_channel rules_reload
  by unfold_locales (simp add: rule_channel_def)

definition rule_watch_dirs :: "(string \<Rightarrow> bool) \<Rightarrow> string list \<Rightarrow> string list" where
  "rule_watch_dirs path_exists directories = filter path_exists directories"

text \<open>\<open>RuleEngine::new\<close>: the first load decides whether there is an engine; with hot reload the directories that
  exist are watched, and one that cannot be is an error.\<close>

definition rule_engine_new ::
    "(string + string \<Rightarrow> string + 'p compiled_rule) \<Rightarrow> (string \<Rightarrow> rules_dir) \<Rightarrow> (string \<Rightarrow> bool) \<Rightarrow> bool \<Rightarrow> string list
      \<Rightarrow> string + 'p rule_engine" where
  "rule_engine_new load dir_of watchable hot_reload directories =
     (case load_rules load (map dir_of directories) rule_engine_initial of
        (Inl e, g) \<Rightarrow> Inl e
      | (Inr _, g) \<Rightarrow>
          if hot_reload
          then (case find (\<lambda>d. \<not> watchable d) (rule_watch_dirs (\<lambda>d. dir_of d \<noteq> DirMissing) directories) of
                  Some d \<Rightarrow> Inl d | None \<Rightarrow> Inr g)
          else Inr g)"

text \<open>\<open>metrics\<close> reads the seven counters.\<close>

definition rule_engine_snapshot :: "'p rule_engine \<Rightarrow> rule_engine_metrics" where
  "rule_engine_snapshot g = (let m = rn_metrics g in \<lparr> re_rules_loaded = re_rules_loaded m, re_rules_enabled = re_rules_enabled m,
     re_evaluations_total = re_evaluations_total m, re_matches_total = re_matches_total m,
     re_suppressions_total = re_suppressions_total m, re_avg_eval_time_ms = re_avg_eval_time_ms m,
     re_rules_evaluated = re_rules_evaluated m \<rparr>)"

text \<open>The executor of the actions: a table of handlers by type.  A handler changes the world and may fail,
  which is only logged.\<close>

type_synonym 'w action_handler = "rule_match \<Rightarrow> event \<Rightarrow> json \<Rightarrow> 'w \<Rightarrow> 'w \<times> string option"

type_synonym 'w action_executor = "rule_action_type \<rightharpoonup> 'w action_handler"

definition action_executor_new :: "'w action_executor" where
  "action_executor_new = Map.empty"

definition execute_action :: "'w action_executor \<Rightarrow> rule_match \<Rightarrow> event \<Rightarrow> rule_action \<Rightarrow> 'w \<Rightarrow> 'w" where
  "execute_action x m e a w = (case x (ac_type a) of None \<Rightarrow> w | Some h \<Rightarrow> fst (h m e (ac_config a) w))"

definition execute_actions :: "'w action_executor \<Rightarrow> rule_match \<Rightarrow> event \<Rightarrow> 'w \<Rightarrow> 'w" where
  "execute_actions x m e = fold (execute_action x m e) (ma_actions m)"

definition suppression_check :: "string \<Rightarrow> event \<Rightarrow> bool" where
  "suppression_check rule_id e = False"

text \<open>\<open>evaluate\<close> with its last loop.\<close>

definition evaluate_and_act ::
    "'w action_executor \<Rightarrow> ('p \<Rightarrow> activation \<Rightarrow> string + cel_value) \<Rightarrow> (string \<Rightarrow> datetime) \<Rightarrow> nat \<Rightarrow> event
      \<Rightarrow> 'p rule_engine \<Rightarrow> 'w \<Rightarrow> (evaluation_result \<times> 'p rule_engine) \<times> 'w" where
  "evaluate_and_act x execute now took e g w = (let r = evaluate execute now took e g in
     (r, fold (\<lambda>m. execute_actions x m e) (er_matches (fst r)) w))"

section \<open>Properties\<close>

lemma manager_reload_keeps:
  "cg_paths (manager_reload v fs m) = cg_paths m \<and> cg_secrets (manager_reload v fs m) = cg_secrets m"
  by (simp add: manager_reload_def split: sum.split)

lemma manager_reload_current: "load_config v fs (manager_reload v fs m) = Inr c \<Longrightarrow> cg_config (manager_reload v fs m) = c"
  using load_config_manager [of "manager_reload v fs m" m v fs] manager_reload_keeps [of v fs m]
  by (auto simp: manager_reload_def split: sum.splits)

text \<open>
  C23: The configuration follows the files.  In whatever state writes, removals and the watcher itself have left it:
  if the files stop changing, the watcher comes to rest, within a number of its own steps that is bounded by what is
  pending, and when it is at rest and no removal since the last load went unnoticed, the configuration in force is
  the one the files hold, if they hold a valid one.  That notifications are dropped when the channel is full does no harm.
\<close>

theorem config_follows_files:
  assumes "(watch_step config_channel (manager_reload v))\<^sup>*\<^sup>* (watch_start fs m True) w"
  shows "(\<exists>n w'. (task_step config_channel (manager_reload v) ^^ n) w w' \<and> quiet w')
    \<and> (\<forall>n w'. (task_step config_channel (manager_reload v) ^^ n) w w' \<longrightarrow>
         n \<le> watch_work w \<and> wt_files w' = wt_files w
         \<and> ((\<nexists>w''. task_step config_channel (manager_reload v) w' w'') \<longrightarrow> \<not> wt_unseen w' \<longrightarrow>
              (\<forall>c. load_config v (wt_files w) (wt_value w') = Inr c \<longrightarrow> cg_config (wt_value w') = c)))"
proof (intro conjI allI impI)
  show "\<exists>n w'. (task_step config_channel (manager_reload v) ^^ n) w w' \<and> quiet w'"
    using config_watch.comes_to_rest by blast
  fix n w'
  assume run: "(task_step config_channel (manager_reload v) ^^ n) w w'"
  from config_watch.task_steps_work [OF this] show "n \<le> watch_work w" and files: "wt_files w' = wt_files w" by simp_all
  fix c
  assume "\<nexists>w''. task_step config_channel (manager_reload v) w' w''" and "\<not> wt_unseen w'"
    and c: "load_config v (wt_files w) (wt_value w') = Inr c"
  then obtain s where "wt_value w' = manager_reload v (wt_files w') s"
    using config_watch.quiet_is_up_to_date [OF rtranclp_trans [OF assms config_watch.task_run_is_run [OF run]]]
      config_watch.stuck_is_quiet by blast
  then show "cg_config (wt_value w') = c" using manager_reload_current [of v "wt_files w" s] c files by simp
qed

definition demo_watch :: "(string \<rightharpoonup> string, config_manager) watch_state" where
  "demo_watch = (watch_start [''sentinel.toml'' \<mapsto> ''x''] demo_manager True)
     \<lparr> wt_value := manager_reload demo_config_env [''sentinel.toml'' \<mapsto> ''x''] demo_manager, wt_unseen := False \<rparr>"

lemma demo_watch_reached:
  "(watch_step config_channel (manager_reload demo_config_env))\<^sup>*\<^sup>* (watch_start Map.empty demo_manager True) demo_watch"
proof -
  let ?fs = "[''sentinel.toml'' \<mapsto> ''x'']" let ?r = "manager_reload demo_config_env"
  define w0 where "w0 = watch_start (Map.empty :: string \<rightharpoonup> string) demo_manager True"
  define w1 where "w1 = w0\<lparr> wt_files := ?fs, wt_pending := Suc (wt_pending w0) \<rparr>"
  define w2 where "w2 = w1\<lparr> wt_pending := 0, wt_queue := min config_channel (Suc (wt_queue w1)) \<rparr>"
  define w3 where "w3 = w2\<lparr> wt_queue := 0, wt_phase := Debouncing \<rparr>"
  define w4 where "w4 = w3\<lparr> wt_queue := 0, wt_phase := Reloading \<rparr>"
  define w5 where "w5 = w4\<lparr> wt_value := ?r (wt_files w4) (wt_value w4), wt_phase := Waiting, wt_unseen := False \<rparr>"
  note defs = w0_def w1_def w2_def w3_def w4_def w5_def watch_start_def config_channel_def
  have "watch_step config_channel ?r w0 w1" unfolding w1_def by (rule file_written)
  moreover have "watch_step config_channel ?r w1 w2" unfolding w2_def by (intro task notified) (simp add: defs)
  moreover have "watch_step config_channel ?r w2 w3" unfolding w3_def by (intro task received) (simp_all add: defs)
  moreover have "watch_step config_channel ?r w3 w4" unfolding w4_def by (intro task drained) (simp add: defs)
  moreover have "watch_step config_channel ?r w4 w5" unfolding w5_def by (intro task reloaded) (simp add: defs)
  ultimately have "(watch_step config_channel ?r)\<^sup>*\<^sup>* w0 w5" by (meson converse_rtranclp_into_rtranclp rtranclp.rtrancl_refl)
  moreover have "w5 = demo_watch" by (simp add: defs demo_watch_def)
  ultimately show ?thesis by (simp add: w0_def)
qed

lemma config_follows_files_witness: "cg_config (wt_value demo_watch) = migrate app_config_default"
proof -
  have quiet: "quiet demo_watch" and seen: "\<not> wt_unseen demo_watch" by (simp_all add: demo_watch_def quiet_def watch_start_def)
  have "load_config demo_config_env [''sentinel.toml'' \<mapsto> ''x''] demo_manager = Inr (migrate app_config_default)"
    by (simp add: load_config_def demo_config_env_def demo_manager_def decrypt_config_def secrets_manager_new_def
        app_config_errors_def)
  then have load: "load_config demo_config_env (wt_files demo_watch) (wt_value demo_watch) = Inr (migrate app_config_default)"
    using manager_reload_keeps load_config_manager [of "manager_reload demo_config_env [''sentinel.toml'' \<mapsto> ''x''] demo_manager" demo_manager]
    by (simp add: demo_watch_def watch_start_def)
  have run: "(task_step config_channel (manager_reload demo_config_env) ^^ 0) demo_watch demo_watch" by simp
  from config_follows_files [OF demo_watch_reached, THEN conjunct2, rule_format, OF run] quiet seen load
  show ?thesis unfolding config_watch.stuck_is_quiet [of demo_config_env, symmetric] by blast
qed

text \<open>
  The manager starts only if every directory of its files exists.  With the default paths the service needs
  /etc/sentinel, sentinel-local and a directory that is literally called ~, although each file itself may be missing.
\<close>

theorem default_paths_need_every_directory:
  "(\<exists>m. config_manager_start v fs watchable default_config_paths = Inr m) \<longleftrightarrow>
     (\<exists>m. manager_new v fs default_config_paths = Inr m)
     \<and> watchable ''/etc/sentinel'' \<and> watchable ''~/.config/sentinel'' \<and> watchable ''sentinel-local''"
proof -
  have "watch_dirs default_config_paths = [''/etc/sentinel'', ''~/.config/sentinel'', ''sentinel-local'']"
    by code_simp
  then show ?thesis
    by (auto simp: config_manager_start_def split: sum.splits option.splits if_splits)
qed

text \<open>A changed rule file changes no rule: the task of the rule engine reloads nothing.\<close>

lemma rules_never_reloaded:
  "(watch_step rule_channel rules_reload)\<^sup>*\<^sup>* w w' \<Longrightarrow> wt_value w' = wt_value w"
  by (rule rule_watch.watch_keeps [where P = "\<lambda>g. g = wt_value w"]) (simp_all add: rules_reload_def)

text \<open>The actions of a rule are never executed: the executor of an engine has no handlers.\<close>

lemma actions_never_run: "snd (evaluate_and_act action_executor_new execute now took e g w) = w"
  for w :: 'w
proof -
  have "fold (execute_action action_executor_new m e) as w = w" for m as and w :: 'w
    by (induction as arbitrary: w) (simp_all add: execute_action_def action_executor_new_def)
  then have "fold (\<lambda>m. execute_actions action_executor_new m e) ms w = w" for ms and w :: 'w
    by (induction ms arbitrary: w) (simp_all add: execute_actions_def)
  then show ?thesis by (simp add: evaluate_and_act_def Let_def)
qed

text \<open>Whoever watches a section never hears of a reload.\<close>

lemma watchers_hear_nothing: "watch_section path c [] = get_section_value path c"
  by (simp add: watch_section_def)

text \<open>Secrets that were saved are of no use: loading them leaves the manager as it was.\<close>

lemma loaded_secrets_are_dropped: "load_secrets_file of_toml fs path m = Inr m' \<Longrightarrow> m' = m"
  by (auto simp: load_secrets_file_def split: option.splits)

text \<open>What is saved decrypts to what was given, entry by entry, if the cipher does.\<close>

lemma saved_secrets_decrypt:
  assumes "\<And>s c. secret_encrypt v m s = Inr c \<Longrightarrow> secret_decrypt v m c = Inr s"
  shows "encrypt_secrets v m ss = Inr cs \<Longrightarrow> map (\<lambda>(k, c). (k, secret_decrypt v m c)) cs = map (\<lambda>(k, s). (k, Inr s)) ss"
proof (induction ss arbitrary: cs)
  case (Cons p ss)
  obtain k s where p: "p = (k, s)" by fastforce
  with Cons.prems obtain c cs' where "secret_encrypt v m s = Inr c" "encrypt_secrets v m ss = Inr cs'" "cs = (k, c) # cs'"
    by (auto simp: map_sum_def split: sum.splits)
  with Cons.IH [of cs'] assms [of s c] p show ?case by simp
qed simp

end
