(* ===== verification/System_Core.thy ===== *)
theory System_Core
  imports Alerting Health Net_Monitor
begin

text \<open>
  The remaining parts of crates/sentinel-core: identifiers, the states of the system, the shutdown
  signal (lib.rs), uptime and memory of the process (health.rs); and the two readers of the alert
  manager (apps/sentinel-core-service/src/alert_manager.rs).
\<close>

section \<open>Identifiers (lib.rs)\<close>

text \<open>The ULID crate is the codec; \<open>msg\<close> is the text of its error.\<close>

definition ulid_from_string :: "codec \<Rightarrow> (string \<Rightarrow> string) \<Rightarrow> string \<Rightarrow> ulid result" where
  "ulid_from_string c msg s = (case k_ulid_parse c s of Some i \<Rightarrow> Inr i | None \<Rightarrow> Inl (Err_Parse (''invalid ULID: '' @ msg s)))"

definition ulid_serialize :: "codec \<Rightarrow> ulid \<Rightarrow> json" where
  "ulid_serialize c i = JString (k_ulid_show c i)"

definition ulid_deserialize :: "codec \<Rightarrow> (string \<Rightarrow> string) \<Rightarrow> json \<Rightarrow> string + ulid" where
  "ulid_deserialize c msg j = (case j of JString s \<Rightarrow> map_sum sentinel_error_display id (ulid_from_string c msg s)
     | _ \<Rightarrow> Inl ''invalid type'')"

lemma ulid_json_roundtrip:
  "k_ulid_parse c (k_ulid_show c i) = Some i \<Longrightarrow> ulid_deserialize c msg (ulid_serialize c i) = Inr i"
  by (simp add: ulid_deserialize_def ulid_serialize_def ulid_from_string_def)

record host_identity =
  hi_id :: string
  hi_created_at :: datetime
  hi_platform :: string
  hi_hostname :: string

definition host_identity_new :: "string \<Rightarrow> datetime \<Rightarrow> string \<Rightarrow> string \<Rightarrow> host_identity" where
  "host_identity_new uuid now platform hostname =
     \<lparr> hi_id = uuid, hi_created_at = now, hi_platform = platform, hi_hostname = hostname \<rparr>"

definition config_value_is_null :: "json \<Rightarrow> bool" where
  "config_value_is_null v \<longleftrightarrow> v = JNull"

section \<open>The shutdown signal (lib.rs)\<close>

text \<open>A watch channel: its last value, the number of messages and whether the sender is gone; the receiver has
  seen a number of messages.\<close>

record shutdown_signal =
  ss_value :: bool
  ss_version :: nat
  ss_closed :: bool
  ss_seen :: nat

definition shutdown_signal_new :: shutdown_signal where
  "shutdown_signal_new = \<lparr> ss_value = False, ss_version = 0, ss_closed = False, ss_seen = 0 \<rparr>"

datatype shutdown_op = Send_Shutdown bool | Drop_Sender

fun shutdown_apply :: "shutdown_op \<Rightarrow> shutdown_signal \<Rightarrow> shutdown_signal" where
  "shutdown_apply (Send_Shutdown b) s = (if ss_closed s then s else s\<lparr> ss_value := b, ss_version := Suc (ss_version s) \<rparr>)"
| "shutdown_apply Drop_Sender s = s\<lparr> ss_closed := True \<rparr>"

text \<open>\<open>wait\<close> works on a copy of the receiver, so it does not mark anything as seen; its result is ignored.\<close>

definition wait_returns :: "shutdown_signal \<Rightarrow> bool" where
  "wait_returns s \<longleftrightarrow> ss_version s \<noteq> ss_seen s \<or> ss_closed s"

definition is_shutdown :: "shutdown_signal \<Rightarrow> bool" where
  "is_shutdown s = ss_value s"

lemma shutdown_ends_wait:
  assumes "is_shutdown (fold shutdown_apply ops shutdown_signal_new)"
  shows "wait_returns (fold shutdown_apply ops shutdown_signal_new)"
proof -
  have "ss_seen s = 0 \<Longrightarrow> (ss_value s \<longrightarrow> 0 < ss_version s) \<Longrightarrow>
      ss_seen (fold shutdown_apply ops s) = 0 \<and>
      (ss_value (fold shutdown_apply ops s) \<longrightarrow> 0 < ss_version (fold shutdown_apply ops s))" for s
  proof (induction ops arbitrary: s)
    case (Cons op ops)
    then show ?case by (cases op) simp_all
  qed simp
  from this [of shutdown_signal_new] assms show ?thesis
    by (simp add: wait_returns_def is_shutdown_def shutdown_signal_new_def)
qed

text \<open>The converse fails: a waiter is also released by a message that says not to stop, and by a sender that
  is gone.\<close>

lemma wait_without_shutdown:
  "wait_returns (shutdown_apply (Send_Shutdown False) shutdown_signal_new)"
  "wait_returns (shutdown_apply Drop_Sender shutdown_signal_new)"
  "\<not> is_shutdown (shutdown_apply Drop_Sender shutdown_signal_new)"
  by (simp_all add: wait_returns_def is_shutdown_def shutdown_signal_new_def)

section \<open>Resources of the process (health.rs)\<close>

text \<open>\<open>num_seconds\<close> cuts towards zero, and the cast of a negative number wraps.\<close>

definition uptime_seconds :: "datetime \<Rightarrow> datetime \<Rightarrow> u64" where
  "uptime_seconds process_start now = (let d = now - process_start in
     word_of_int (if d < 0 then - (- d div 1000000000) else d div 1000000000))"

lemma uptime_after_clock_change: "uptime_seconds (10 * 1000000000) (8 * 1000000000) = - 2"
  by (simp add: uptime_seconds_def Let_def)

fun memory_of_lines :: "string list \<Rightarrow> u64 option" where
  "memory_of_lines [] = None"
| "memory_of_lines (line # ls) =
     (if starts_with line ''VmRSS:'' then
        (case split_whitespace line of a # b # _ \<Rightarrow> (case parse_u64 b of Some kb \<Rightarrow> Some (kb * 1024) | None \<Rightarrow> memory_of_lines ls)
         | _ \<Rightarrow> memory_of_lines ls)
      else memory_of_lines ls)"

definition tracker_memory_bytes :: "string option \<Rightarrow> u64 option" where
  "tracker_memory_bytes content = Option.bind content (\<lambda>t. memory_of_lines (str_lines t))"

lemma memory_skips: "list_all (\<lambda>l. \<not> starts_with l ''VmRSS:'') pre \<Longrightarrow> memory_of_lines (pre @ ls) = memory_of_lines ls"
  by (induction pre) simp_all

definition tracker_cpu_percent :: "string option \<Rightarrow> datetime \<Rightarrow> datetime \<Rightarrow> f64 option" where
  "tracker_cpu_percent content process_start now = cpu_percent content (uptime_seconds process_start now)"

section \<open>Reading alerts (alert_manager.rs)\<close>

definition manager_get :: "codec \<Rightarrow> ulid \<Rightarrow> ulid \<Rightarrow> alert_manager \<Rightarrow> ulid \<Rightarrow> alert option" where
  "manager_get c fresh fresh' m i = alert_get c fresh fresh' (am_repo m) i"

definition manager_count_query :: "alert_state option \<Rightarrow> alert_query" where
  "manager_count_query st = \<lparr> aq_state = st, aq_min_severity = None, aq_start_time = None, aq_end_time = None,
     aq_limit = 100000, aq_offset = 0 \<rparr>"

definition manager_count_by_state :: "(string \<times> string list \<Rightarrow> string + u64) \<Rightarrow> alert_state option \<Rightarrow> string + u64" where
  "manager_count_by_state run st = run (alert_count_sql (manager_count_query st), conds_params (alert_count_conds (manager_count_query st)))"

text \<open>The limit of the query is not part of the statement: all alerts of the state are counted.\<close>

lemma count_statement:
  "alert_count_sql (manager_count_query (Some st)) = ''SELECT COUNT(*) as cnt FROM alerts WHERE 1=1 AND state = ?''
   \<and> conds_params (alert_count_conds (manager_count_query (Some st))) = [show_int (alert_state_code st)]"
  by (cases st) code_simp+

end
