(* ===== verification/Alert_Stream.thy ===== *)
theory Alert_Stream
  imports Alerting "HOL-Library.Sublist"
begin

text \<open>
  The stream of alerts (crates/sentinel-api/src/lib.rs, \<open>stream_alerts\<close>): every client has a receiver of
  the broadcast channel of the service, which keeps the last 256 messages.  A receiver that is further
  behind is told how many it has missed and goes on with the oldest message that is kept; the stream
  logs that and says nothing to the client.
\<close>

section \<open>The channel and the stream\<close>

text \<open>The channel of main.rs.\<close>

definition broadcast_capacity :: nat where
  "broadcast_capacity = 256"

text \<open>All messages ever sent, the number of the next message of the receiver, what the client was sent
  and how many messages were skipped.\<close>

record 'm alert_stream =
  as_sent :: "'m list"
  as_closed :: bool
  as_next :: nat
  as_yielded :: "'m list"
  as_skipped :: nat
  as_ended :: bool

text \<open>A subscription begins with the messages sent after it.\<close>

definition stream_alerts :: "'m list \<Rightarrow> 'm alert_stream" where
  "stream_alerts sent = \<lparr> as_sent = sent, as_closed = False, as_next = length sent, as_yielded = [], as_skipped = 0,
     as_ended = False \<rparr>"

datatype 'm receive_result = Received 'm | Lagged nat | Channel_Closed | Receive_Waits

definition stream_recv :: "'m alert_stream \<Rightarrow> 'm receive_result" where
  "stream_recv s = (if as_next s + broadcast_capacity < length (as_sent s)
       then Lagged (length (as_sent s) - broadcast_capacity - as_next s)
     else if as_next s < length (as_sent s) then Received (as_sent s ! as_next s)
     else if as_closed s then Channel_Closed else Receive_Waits)"

text \<open>One turn of the loop.\<close>

definition stream_turn :: "'m alert_stream \<Rightarrow> 'm alert_stream" where
  "stream_turn s = (if as_ended s then s else case stream_recv s of
       Received m \<Rightarrow> s\<lparr> as_next := Suc (as_next s), as_yielded := as_yielded s @ [m] \<rparr>
     | Lagged n \<Rightarrow> s\<lparr> as_next := as_next s + n, as_skipped := as_skipped s + n \<rparr>
     | Channel_Closed \<Rightarrow> s\<lparr> as_ended := True \<rparr>
     | Receive_Waits \<Rightarrow> s)"

datatype 'm stream_op = Broadcast 'm | Close_Channel | Turn

definition stream_apply :: "'m stream_op \<Rightarrow> 'm alert_stream \<Rightarrow> 'm alert_stream" where
  "stream_apply x s = (case x of Broadcast m \<Rightarrow> (if as_closed s then s else s\<lparr> as_sent := as_sent s @ [m] \<rparr>)
     | Close_Channel \<Rightarrow> s\<lparr> as_closed := True \<rparr>
     | Turn \<Rightarrow> stream_turn s)"

definition stream_run :: "'m list \<Rightarrow> 'm stream_op list \<Rightarrow> 'm alert_stream" where
  "stream_run sent ops = fold stream_apply ops (stream_alerts sent)"

section \<open>What a client gets\<close>

text \<open>The messages of the channel, in their order; the receiver's position accounts for all of them.\<close>

definition stream_ok :: "nat \<Rightarrow> 'm alert_stream \<Rightarrow> bool" where
  "stream_ok start s \<longleftrightarrow> start \<le> as_next s \<and> as_next s \<le> length (as_sent s)
     \<and> as_next s = start + length (as_yielded s) + as_skipped s
     \<and> subseq (as_yielded s) (take (as_next s - start) (drop start (as_sent s)))
     \<and> (as_ended s \<longrightarrow> as_closed s \<and> as_next s = length (as_sent s))"

lemma window_next:
  "start \<le> n \<Longrightarrow> n < length xs \<Longrightarrow> take (Suc n - start) (drop start xs) = take (n - start) (drop start xs) @ [xs ! n]"
  by (simp add: Suc_diff_le take_Suc_conv_app_nth)

lemma window_more:
  assumes "subseq ys (take (n - start) (drop start xs))" and "n \<le> k"
  shows "subseq ys (take (k - start) (drop start xs))"
proof -
  have "take (n - start) (drop start xs) = take (n - start) (take (k - start) (drop start xs))"
    using assms(2) by simp
  then have "prefix (take (n - start) (drop start xs)) (take (k - start) (drop start xs))"
    by (metis take_is_prefix)
  with assms(1) show ?thesis
    using prefix_imp_subseq subseq_order.trans by blast
qed

lemma window_append: "n \<le> length xs \<Longrightarrow> take (n - start) (drop start (xs @ ys)) = take (n - start) (drop start xs)"
  by (simp add: le_diff_conv)

lemma stream_okD:
  assumes "stream_ok start s"
  shows "start \<le> as_next s" "as_next s \<le> length (as_sent s)" "as_next s = start + length (as_yielded s) + as_skipped s"
    "subseq (as_yielded s) (take (as_next s - start) (drop start (as_sent s)))"
    "as_ended s \<Longrightarrow> as_closed s \<and> as_next s = length (as_sent s)"
  using assms unfolding stream_ok_def by blast+

lemma stream_ok_skip:
  assumes "stream_ok start s" and "\<not> as_ended s" and "as_next s + k \<le> length (as_sent s)"
  shows "stream_ok start (s\<lparr> as_next := as_next s + k, as_skipped := as_skipped s + k \<rparr>)"
proof -
  have "subseq (as_yielded s) (take (as_next s + k - start) (drop start (as_sent s)))"
    by (rule window_more [OF stream_okD(4) [OF assms(1)]]) simp
  moreover note stream_okD(1,3) [OF assms(1)]
  ultimately show ?thesis
    using assms(2,3) unfolding stream_ok_def by (intro conjI) simp_all
qed

lemma stream_turn_ok:
  assumes "stream_ok start s"
  shows "stream_ok start (stream_turn s)"
proof (cases "as_ended s")
  case False
  consider (lag) "as_next s + broadcast_capacity < length (as_sent s)"
    | (item) "\<not> as_next s + broadcast_capacity < length (as_sent s)" "as_next s < length (as_sent s)"
    | (none) "length (as_sent s) \<le> as_next s"
    by linarith
  then show ?thesis
  proof cases
    case lag
    then have "stream_turn s = s\<lparr> as_next := as_next s + (length (as_sent s) - broadcast_capacity - as_next s),
        as_skipped := as_skipped s + (length (as_sent s) - broadcast_capacity - as_next s) \<rparr>"
      using False by (simp add: stream_turn_def stream_recv_def)
    moreover have "as_next s + (length (as_sent s) - broadcast_capacity - as_next s) \<le> length (as_sent s)"
      using lag by linarith
    ultimately show ?thesis
      using stream_ok_skip [OF assms False] by simp
  next
    case item
    then have t: "stream_turn s = s\<lparr> as_next := Suc (as_next s), as_yielded := as_yielded s @ [as_sent s ! as_next s] \<rparr>"
      using False by (simp add: stream_turn_def stream_recv_def)
    from window_next [OF stream_okD(1) [OF assms] item(2)]
    have "subseq (as_yielded s @ [as_sent s ! as_next s]) (take (Suc (as_next s) - start) (drop start (as_sent s)))"
      using list_emb_append_mono [OF stream_okD(4) [OF assms], of "[as_sent s ! as_next s]" "[as_sent s ! as_next s]"] by simp
    with assms item False show ?thesis by (simp add: t stream_ok_def)
  next
    case none
    then show ?thesis
      using assms False by (auto simp: stream_turn_def stream_recv_def stream_ok_def)
  qed
qed (use assms in \<open>simp add: stream_turn_def\<close>)

lemma stream_apply_ok:
  assumes "stream_ok start s"
  shows "stream_ok start (stream_apply x s)"
  using assms stream_turn_ok window_append [of "as_next s" "as_sent s" start]
  by (cases x) (auto simp: stream_apply_def stream_ok_def)

lemma stream_run_ok: "stream_ok (length sent) (stream_run sent ops)"
proof -
  have "stream_ok start s \<Longrightarrow> stream_ok start (fold stream_apply ops s)" for start and s :: "'a alert_stream"
    by (induction ops arbitrary: s) (simp_all add: stream_apply_ok)
  moreover have "stream_ok (length sent) (stream_alerts sent)" by (simp add: stream_ok_def stream_alerts_def)
  ultimately show ?thesis by (simp only: stream_run_def)
qed

text \<open>What a client is to see, without positions: a queue of the messages it has not got yet.  A turn with more than
  256 of them loses the oldest until 256 are left; otherwise it takes the first.  And a client keeps up if none
  of its turns finds more than 256.\<close>

fun client_view :: "bool \<Rightarrow> 'm list \<Rightarrow> 'm stream_op list \<Rightarrow> 'm list" where
  "client_view shut q [] = []"
| "client_view shut q (Broadcast m # ops) = client_view shut (if shut then q else q @ [m]) ops"
| "client_view shut q (Close_Channel # ops) = client_view True q ops"
| "client_view shut q (Turn # ops) =
     (if 256 < length q then client_view shut (drop (length q - 256) q) ops
      else case q of [] \<Rightarrow> client_view shut [] ops | m # q' \<Rightarrow> m # client_view shut q' ops)"

fun keeps_up :: "bool \<Rightarrow> nat \<Rightarrow> 'm stream_op list \<Rightarrow> bool" where
  "keeps_up shut n [] \<longleftrightarrow> True"
| "keeps_up shut n (Broadcast m # ops) \<longleftrightarrow> keeps_up shut (if shut then n else Suc n) ops"
| "keeps_up shut n (Close_Channel # ops) \<longleftrightarrow> keeps_up True n ops"
| "keeps_up shut n (Turn # ops) \<longleftrightarrow> n \<le> 256 \<and> keeps_up shut (n - 1) ops"

definition pending_of :: "'m alert_stream \<Rightarrow> 'm list" where
  "pending_of s = drop (as_next s) (as_sent s)"

lemma turn_view:
  assumes "stream_ok start s"
  shows "256 < length (pending_of s) \<Longrightarrow> pending_of (stream_turn s) = drop (length (pending_of s) - 256) (pending_of s)
      \<and> as_yielded (stream_turn s) = as_yielded s \<and> as_closed (stream_turn s) = as_closed s"
    and "length (pending_of s) \<le> 256 \<Longrightarrow> pending_of (stream_turn s) = tl (pending_of s) \<and> as_skipped (stream_turn s) = as_skipped s
      \<and> as_yielded (stream_turn s) = as_yielded s @ take 1 (pending_of s) \<and> as_closed (stream_turn s) = as_closed s"
proof -
  note ended = stream_okD(5) [OF assms] and le = stream_okD(2) [OF assms]
  show "pending_of (stream_turn s) = drop (length (pending_of s) - 256) (pending_of s)
      \<and> as_yielded (stream_turn s) = as_yielded s \<and> as_closed (stream_turn s) = as_closed s" if "256 < length (pending_of s)"
  proof -
    have lag: "as_next s + broadcast_capacity < length (as_sent s)"
      using that by (simp add: pending_of_def broadcast_capacity_def)
    then have "\<not> as_ended s" using ended by linarith
    with lag show ?thesis
      by (simp add: stream_turn_def stream_recv_def pending_of_def broadcast_capacity_def algebra_simps)
  qed
  show "pending_of (stream_turn s) = tl (pending_of s) \<and> as_skipped (stream_turn s) = as_skipped s
      \<and> as_yielded (stream_turn s) = as_yielded s @ take 1 (pending_of s) \<and> as_closed (stream_turn s) = as_closed s"
    if "length (pending_of s) \<le> 256"
  proof (cases "as_next s < length (as_sent s)")
    case True
    then have "\<not> as_ended s" "\<not> as_next s + broadcast_capacity < length (as_sent s)"
      using ended that by (auto simp: pending_of_def broadcast_capacity_def)
    with True show ?thesis
      by (simp add: stream_turn_def stream_recv_def pending_of_def drop_Suc tl_drop take_Suc hd_drop_conv_nth)
  next
    case False
    then show ?thesis
      by (auto simp: stream_turn_def stream_recv_def pending_of_def broadcast_capacity_def)
  qed
qed

lemma run_view:
  "stream_ok start s \<Longrightarrow> as_yielded (fold stream_apply ops s) = as_yielded s @ client_view (as_closed s) (pending_of s) ops
    \<and> (keeps_up (as_closed s) (length (pending_of s)) ops \<longrightarrow> as_skipped (fold stream_apply ops s) = as_skipped s)"
proof (induction ops arbitrary: s)
  case (Cons x ops)
  note next_ok = stream_apply_ok [OF Cons.prems, of x]
  note IH = Cons.IH [OF next_ok]
  show ?case
  proof (cases x)
    case (Broadcast m)
    have "as_next s \<le> length (as_sent s)" by (rule stream_okD(2) [OF Cons.prems])
    with IH Broadcast show ?thesis by (auto simp: stream_apply_def pending_of_def Suc_diff_le split: if_splits)
  next
    case Close_Channel
    with IH show ?thesis by (simp add: stream_apply_def pending_of_def)
  next
    case Turn
    have t: "stream_apply x s = stream_turn s" by (simp add: Turn stream_apply_def)
    show ?thesis
    proof (cases "256 < length (pending_of s)")
      case True
      with IH turn_view(1) [OF Cons.prems True] show ?thesis by (simp add: Turn t [unfolded Turn])
    next
      case False
      with IH turn_view(2) [OF Cons.prems] show ?thesis
        by (cases "pending_of s") (simp_all add: Turn t [unfolded Turn])
    qed
  qed
qed simp

text \<open>
  C34: A client of the alert stream gets exactly the alerts of the queue with 256 places: those sent after it
  subscribed, in the order in which they were sent and none twice, except that a turn which finds more than
  256 waiting loses the oldest of them, down to 256, and shows nothing.  So a client that never lets more than
  256 wait when it turns has got all of them up to its position and skipped none.  A stream that has
  ended has delivered or skipped every one.  What was skipped is never reported.
\<close>

theorem alert_stream_in_order:
  "as_yielded (stream_run sent ops) = client_view False [] ops
   \<and> subseq (as_yielded (stream_run sent ops)) (drop (length sent) (as_sent (stream_run sent ops)))
   \<and> (keeps_up False 0 ops \<longrightarrow> as_skipped (stream_run sent ops) = 0
        \<and> prefix (as_yielded (stream_run sent ops)) (drop (length sent) (as_sent (stream_run sent ops))))
   \<and> (as_ended (stream_run sent ops) \<longrightarrow>
        length (as_yielded (stream_run sent ops)) + as_skipped (stream_run sent ops)
          = length (as_sent (stream_run sent ops)) - length sent)"
proof -
  define s where "s = stream_run sent ops"
  define w where "w = take (as_next s - length sent) (drop (length sent) (as_sent s))"
  have ok: "stream_ok (length sent) s" unfolding s_def by (rule stream_run_ok)
  then have sub: "subseq (as_yielded s) w" unfolding stream_ok_def w_def by blast
  have w: "prefix w (drop (length sent) (as_sent s))" "length w = as_next s - length sent"
    using stream_okD(1,2) [OF ok] by (simp_all add: w_def take_is_prefix)
  have "stream_ok (length sent) (stream_alerts sent)" by (simp add: stream_ok_def stream_alerts_def)
  from run_view [OF this, of ops] have view: "as_yielded s = client_view False [] ops"
      "keeps_up False 0 ops \<longrightarrow> as_skipped s = 0"
    by (simp_all add: s_def stream_run_def stream_alerts_def pending_of_def)
  have "subseq (as_yielded s) (drop (length sent) (as_sent s))"
    using sub prefix_imp_subseq [OF w(1)] subseq_order.trans by blast
  moreover have "as_yielded s = w" if "as_skipped s = 0"
    using sub that w(2) stream_okD(3) [OF ok] by (intro subseq_same_length) simp_all
  moreover have "as_ended s \<longrightarrow> length (as_yielded s) + as_skipped s = length (as_sent s) - length sent"
    using stream_okD(3,5) [OF ok] by auto
  ultimately show ?thesis unfolding s_def [symmetric] using w(1) view by simp
qed

lemma alert_stream_in_order_witness:
  "prefix (as_yielded (stream_run [1 :: nat] [Broadcast 2, Broadcast 3, Turn])) [2, 3]
   \<and> as_yielded (stream_run [1 :: nat] [Broadcast 2, Broadcast 3, Turn]) = [2]"
proof -
  have "drop (length [1 :: nat]) (as_sent (stream_run [1 :: nat] [Broadcast 2, Broadcast 3, Turn])) = [2, 3]"
    by code_simp
  moreover have "keeps_up False 0 [Broadcast (2 :: nat), Broadcast 3, Turn]"
    "client_view False [] [Broadcast (2 :: nat), Broadcast 3, Turn] = [2]" by simp_all
  ultimately show ?thesis
    using alert_stream_in_order [of "[1 :: nat]" "[Broadcast 2, Broadcast 3, Turn]"] by simp
qed

lemma broadcasts: "\<not> as_closed s \<Longrightarrow> fold stream_apply (map Broadcast ms) s = s\<lparr> as_sent := as_sent s @ ms \<rparr>"
  by (induction ms arbitrary: s) (simp_all add: stream_apply_def)

text \<open>A client that sleeps while 257 alerts are sent never sees the first of them, and is not told.\<close>

lemma slow_client_loses_alerts:
  "as_yielded (stream_run [] (map Broadcast [0 ..< 257 :: nat] @ [Turn, Turn])) = [1]"
  by (simp add: stream_run_def broadcasts stream_alerts_def stream_apply_def stream_turn_def stream_recv_def
      broadcast_capacity_def del: upt_rec_numeral)

section \<open>The server and its empty answers\<close>

text \<open>\<open>serve\<close>: an address that is no socket address or a transport that fails is an error; otherwise the server
  runs until the shutdown channel changes.  \<open>parse_addr\<close> reads a socket address and \<open>transport\<close> is the
  result of serving at it.\<close>

definition serve :: "string + unit \<Rightarrow> (string \<Rightarrow> string + 'a) \<Rightarrow> ('a \<Rightarrow> string + unit) \<Rightarrow> string \<Rightarrow> string + unit" where
  "serve reflection parse_addr transport addr = (case reflection of Inl e \<Rightarrow> Inl (''reflection error: '' @ e)
     | Inr _ \<Rightarrow> (case parse_addr addr of Inl e \<Rightarrow> Inl e | Inr a \<Rightarrow> transport a))"

text \<open>Handlers that answer every request with the default message of their type, here \<open>d\<close>.\<close>

definition rpc_list_connections :: "'d \<Rightarrow> 'r \<Rightarrow> string + 'd" where
  "rpc_list_connections d request = Inr d"

definition rpc_connection_stats :: "'d \<Rightarrow> 'r \<Rightarrow> string + 'd" where
  "rpc_connection_stats d request = Inr d"

definition rpc_risk_summary :: "'d \<Rightarrow> 'r \<Rightarrow> string + 'd" where
  "rpc_risk_summary d request = Inr d"

definition rpc_risk_timeline :: "'d \<Rightarrow> 'r \<Rightarrow> string + 'd" where
  "rpc_risk_timeline d request = Inr d"

definition rpc_top_risks :: "'d \<Rightarrow> 'r \<Rightarrow> string + 'd" where
  "rpc_top_risks d request = Inr d"

definition rpc_explain_alert :: "'d \<Rightarrow> 'r \<Rightarrow> string + 'd" where
  "rpc_explain_alert d request = Inr d"

definition rpc_chat :: "'d \<Rightarrow> 'r \<Rightarrow> string + 'd" where
  "rpc_chat d request = Inr d"

definition rpc_get_config :: "'d \<Rightarrow> 'r \<Rightarrow> string + 'd" where
  "rpc_get_config d request = Inr d"

end
