(* ===== verification/Process_Collector.thy ===== *)
theory Process_Collector
  imports Process_Start Framework Config_Manager "HOL-Library.Sublist"
begin

text \<open>
  The process collector as an object (collectors/src/process/process_collector.rs): its fields and
  operations, the tasks that every start spawns, and their steps.  A start makes a new pipeline: the
  monitor in a blocking task, the unbounded channel, and the conversion task that the cancellation
  channel ends.  The pipelines are numbered by the starts.
\<close>

section \<open>The object\<close>

text \<open>\<open>pk_cancel\<close> is the start whose cancellation sender is held, \<open>pk_starts\<close> the number of senders made.\<close>

record process_collector =
  pk_id :: string
  pk_name :: string
  pk_description :: string
  pk_state :: collector_state
  pk_health :: collector_health
  pk_config :: process_collector_config
  pk_event_tx :: "nat option"
  pk_backpressure :: bool
  pk_metrics :: collector_metrics
  pk_cancel :: "nat option"
  pk_starts :: nat

definition collector_health_default :: collector_health where
  "collector_health_default = \<lparr> ch_state = CS_Stopped, ch_message = None, ch_last_event = None,
     ch_events_per_sec = Fin 0, ch_error_rate = Fin 0 \<rparr>"

definition process_collector_new :: "process_collector_config \<Rightarrow> process_collector" where
  "process_collector_new config = \<lparr> pk_id = ''process'', pk_name = ''Process Monitor'',
     pk_description = ''Monitors process creation, termination, and suspicious behaviour'',
     pk_state = CS_Stopped, pk_health = collector_health_default, pk_config = config, pk_event_tx = None,
     pk_backpressure = False, pk_metrics = collector_metrics_default, pk_cancel = None, pk_starts = 0 \<rparr>"

definition process_event_types :: "string list" where
  "process_event_types = [''sentinel.process.create'', ''sentinel.process.terminate'', ''sentinel.process.open'',
     ''sentinel.process.access'', ''sentinel.process.inject'', ''sentinel.process.hollow'', ''sentinel.process.dump'']"

definition process_capabilities :: "string list" where
  "process_capabilities = [''process:read'', ''process:enumerate'']"

definition schema_property :: "string \<Rightarrow> (string \<times> json) list \<Rightarrow> json \<Rightarrow> json" where
  "schema_property t bounds default' = JObject ((''type'', JString t) # bounds @ [(''default'', default')])"

definition process_schema_properties :: "(string \<times> json) list" where
  "process_schema_properties =
     [(''enabled'', schema_property ''boolean'' [] (JBool True)),
      (''sample_rate'', schema_property ''number'' [(''minimum'', JInt 0), (''maximum'', JInt 1)] (JFloat (Fin 1))),
      (''include_command_line'', schema_property ''boolean'' [] (JBool True)),
      (''include_environment'', schema_property ''boolean'' [] (JBool False)),
      (''resolve_signatures'', schema_property ''boolean'' [] (JBool True)),
      (''track_ancestry_depth'', schema_property ''integer'' [(''minimum'', JInt 1), (''maximum'', JInt 50)] (JInt 10)),
      (''monitor_injection'', schema_property ''boolean'' [] (JBool True)),
      (''monitor_hollowing'', schema_property ''boolean'' [] (JBool True)),
      (''monitor_dumps'', schema_property ''boolean'' [] (JBool True)),
      (''exclude_paths'', JObject [(''type'', JString ''array''), (''items'', JObject [(''type'', JString ''string'')])])]"

definition process_collector_schema :: config_schema where
  "process_collector_schema = \<lparr> sch_module = ''process_collector'', sch_version = 1, sch_schema = JObject
     [(''type'', JString ''object''), (''properties'', JObject process_schema_properties),
      (''required'', JArray [JString ''enabled''])] \<rparr>"

text \<open>The start itself cannot fail once there is a channel: the report of the monitor is awaited for three
  seconds and only logged.\<close>

definition do_start_inner :: "process_collector \<Rightarrow> collector_error option \<times> process_collector" where
  "do_start_inner c = (case pk_event_tx c of
     None \<Rightarrow> (Some (CoE_StartFailed ''event_tx not set''), c)
   | Some tx \<Rightarrow> (None, c\<lparr> pk_cancel := Some (pk_starts c), pk_starts := Suc (pk_starts c) \<rparr>))"

definition do_stop_inner :: "process_collector \<Rightarrow> collector_error option \<times> process_collector" where
  "do_stop_inner c = (None, c\<lparr> pk_cancel := None \<rparr>)"

text \<open>\<open>parse\<close> is the reader of the configuration.\<close>

definition do_reconfigure_inner ::
    "('j \<Rightarrow> string + process_collector_config) \<Rightarrow> 'j \<Rightarrow> process_collector \<Rightarrow> collector_error option \<times> process_collector" where
  "do_reconfigure_inner parse j c = (case parse j of
     Inl e \<Rightarrow> (Some (CoE_Configuration e), c) | Inr config \<Rightarrow> (None, c\<lparr> pk_config := config \<rparr>))"

text \<open>The operations a manager calls; an error is shown by its text.\<close>

definition error_text :: "collector_error option \<times> process_collector \<Rightarrow> string option \<times> process_collector" where
  "error_text r = (map_option (\<lambda>e. sentinel_error_display (Err_Collector e)) (fst r), snd r)"

definition process_start :: "collector_context \<Rightarrow> process_collector \<Rightarrow> string option \<times> process_collector" where
  "process_start ctx c = error_text (do_start_inner (c\<lparr> pk_event_tx := Some (cx_channel ctx), pk_backpressure := True \<rparr>))"

definition process_stop :: "bool \<Rightarrow> process_collector \<Rightarrow> string option \<times> process_collector" where
  "process_stop graceful c = error_text (do_stop_inner c)"

definition process_reconfigure ::
    "('j \<Rightarrow> string + process_collector_config) \<Rightarrow> 'j \<Rightarrow> process_collector \<Rightarrow> string option \<times> process_collector" where
  "process_reconfigure parse j c = error_text (do_reconfigure_inner parse j c)"

definition process_ops :: "('j \<Rightarrow> string + process_collector_config) \<Rightarrow> datetime \<Rightarrow> (process_collector, 'j) collector_ops" where
  "process_ops parse now = \<lparr> op_id = pk_id, op_start = process_start, op_stop = process_stop, op_health = pk_health,
     op_reconfigure = process_reconfigure parse \<rparr>"

lemmas process_op_defs = process_ops_def process_start_def process_stop_def process_reconfigure_def error_text_def
  do_start_inner_def do_stop_inner_def do_reconfigure_inner_def

interpretation process: collector "process_ops parse" pk_id for parse
  by unfold_locales (simp_all add: process_op_defs split: sum.split)

section \<open>The tasks of one start\<close>

text \<open>\<open>pl_received\<close> and \<open>pl_taken\<close> record what went into the channel and came out of it, \<open>pl_lost\<close> what was
  dropped under pressure.\<close>

record pipeline =
  pl_config :: process_collector_config
  pl_pressure :: bool
  pl_monitor :: monitor_task
  pl_queue :: "proc_netlink_event list"
  pl_converting :: bool
  pl_fallback :: "u32 set option"
  pl_published :: "event list"
  pl_received :: "proc_netlink_event list"
  pl_taken :: "proc_netlink_event list"
  pl_lost :: nat

definition pipeline_new :: "process_collector \<Rightarrow> pipeline" where
  "pipeline_new c = \<lparr> pl_config = pk_config c, pl_pressure = pk_backpressure c, pl_monitor = MT_Starting, pl_queue = [],
     pl_converting = True, pl_fallback = None, pl_published = [], pl_received = [], pl_taken = [], pl_lost = 0 \<rparr>"

definition pl_take :: "proc_netlink_event \<Rightarrow> proc_netlink_event list \<Rightarrow> pipeline \<Rightarrow> pipeline" where
  "pl_take nl q p = p\<lparr> pl_queue := q, pl_taken := pl_taken p @ [nl] \<rparr>"

text \<open>The steps; the parameter says that the sender of the cancellation was used or dropped.  The fallback is
  spawned by the blocking task when the kernel refuses, and belongs to nobody.\<close>

inductive pipeline_step :: "bool \<Rightarrow> pipeline \<Rightarrow> pipeline \<Rightarrow> bool" for cancelled where
  pl_connected: "pl_monitor p = MT_Starting \<Longrightarrow> pipeline_step cancelled p (p\<lparr> pl_monitor := MT_Running \<rparr>)"
| pl_refused: "pl_monitor p = MT_Starting \<Longrightarrow>
    pipeline_step cancelled p (p\<lparr> pl_monitor := MT_Done False, pl_fallback := Some {} \<rparr>)"
| pl_read: "pl_monitor p = MT_Running \<Longrightarrow> pl_converting p \<Longrightarrow>
    pipeline_step cancelled p (p\<lparr> pl_queue := pl_queue p @ parse_netlink_messages buf,
      pl_received := pl_received p @ parse_netlink_messages buf \<rparr>)"
| pl_send_failed: "pl_monitor p = MT_Running \<Longrightarrow> \<not> pl_converting p \<Longrightarrow> parse_netlink_messages buf \<noteq> [] \<Longrightarrow>
    pipeline_step cancelled p (p\<lparr> pl_monitor := MT_Done True \<rparr>)"
| pl_read_ended: "pl_monitor p = MT_Running \<Longrightarrow> pipeline_step cancelled p (p\<lparr> pl_monitor := MT_Done True \<rparr>)"
| pl_cancelled: "pl_converting p \<Longrightarrow> cancelled \<Longrightarrow> pipeline_step cancelled p (p\<lparr> pl_converting := False \<rparr>)"
| pl_throttled: "pl_converting p \<Longrightarrow> pl_queue p = nl # q \<Longrightarrow> pl_pressure p \<Longrightarrow>
    signal = Critical_Pressure \<or> signal = Overflow \<Longrightarrow>
    pipeline_step cancelled p ((pl_take nl q p)\<lparr> pl_lost := Suc (pl_lost p) \<rparr>)"
| pl_converted: "pl_converting p \<Longrightarrow> pl_queue p = nl # q \<Longrightarrow>
    netlink_to_sentinel_event_inner v stamp (pl_config p) nl = Some (Some e) \<Longrightarrow>
    pipeline_step cancelled p ((pl_take nl q p)\<lparr> pl_published := pl_published p @ [e] \<rparr>)"
| pl_skipped: "pl_converting p \<Longrightarrow> pl_queue p = nl # q \<Longrightarrow>
    netlink_to_sentinel_event_inner v stamp (pl_config p) nl = Some None \<Longrightarrow>
    pipeline_step cancelled p (pl_take nl q p)"
| pl_conversion_over: "pl_converting p \<Longrightarrow> pl_queue p = nl # q \<Longrightarrow>
    pipeline_step cancelled p ((pl_take nl q p)\<lparr> pl_converting := False \<rparr>)"
| pl_drained: "pl_converting p \<Longrightarrow> pl_queue p = [] \<Longrightarrow> pl_monitor p = MT_Done b \<Longrightarrow>
    pipeline_step cancelled p (p\<lparr> pl_converting := False \<rparr>)"
| pl_polled: "pl_fallback p = Some known \<Longrightarrow> fallback_scan v stamps known (listed_pids names) = Some es \<Longrightarrow>
    pipeline_step cancelled p (p\<lparr> pl_published := pl_published p @ es, pl_fallback := Some (set (listed_pids names)) \<rparr>)"
| pl_poll_panicked: "pl_fallback p = Some known \<Longrightarrow> fallback_scan v stamps known (listed_pids names) = None \<Longrightarrow>
    pipeline_step cancelled p (p\<lparr> pl_fallback := None \<rparr>)"

section \<open>The collector with its tasks\<close>

record process_system =
  sy_collector :: process_collector
  sy_pipelines :: "pipeline list"

inductive system_step :: "process_system \<Rightarrow> process_system \<Rightarrow> bool" where
  sy_started: "process_start ctx (sy_collector s) = (None, c) \<Longrightarrow>
    system_step s \<lparr> sy_collector = c, sy_pipelines = sy_pipelines s @ [pipeline_new c] \<rparr>"
| sy_stopped: "system_step s (s\<lparr> sy_collector := snd (process_stop graceful (sy_collector s)) \<rparr>)"
| sy_reconfigured: "system_step s (s\<lparr> sy_collector := snd (process_reconfigure parse (j :: json) (sy_collector s)) \<rparr>)"
| sy_ran: "i < length (sy_pipelines s) \<Longrightarrow> pipeline_step (pk_cancel (sy_collector s) \<noteq> Some i) (sy_pipelines s ! i) p \<Longrightarrow>
    system_step s (s\<lparr> sy_pipelines := (sy_pipelines s)[i := p] \<rparr>)"

inductive system_reachable :: "process_collector_config \<Rightarrow> process_system \<Rightarrow> bool" for config where
  sy_start: "system_reachable config \<lparr> sy_collector = process_collector_new config, sy_pipelines = [] \<rparr>"
| sy_step: "system_reachable config s \<Longrightarrow> system_step s s' \<Longrightarrow> system_reachable config s'"

section \<open>Properties\<close>

text \<open>The published events are conversions of events that were taken, in their order, and those lost are not among them.\<close>

definition converted_from :: "pipeline \<Rightarrow> bool" where
  "converted_from p \<longleftrightarrow> (\<exists>nls. subseq nls (pl_taken p) \<and> length nls + pl_lost p \<le> length (pl_taken p)
     \<and> list_all2 (\<lambda>nl e. \<exists>v stamp. netlink_to_sentinel_event_inner v stamp (pl_config p) nl = Some (Some e)) nls (pl_published p))"

definition pipeline_ok :: "pipeline \<Rightarrow> bool" where
  "pipeline_ok p \<longleftrightarrow> pl_received p = pl_taken p @ pl_queue p
     \<and> (pl_monitor p \<in> {MT_Starting, MT_Done False} \<longrightarrow> pl_received p = [])
     \<and> (pl_monitor p \<noteq> MT_Done False \<longrightarrow> pl_fallback p = None \<and> converted_from p)"

lemma converted_cong:
  "pl_taken p' = pl_taken p \<Longrightarrow> pl_lost p' = pl_lost p \<Longrightarrow> pl_config p' = pl_config p \<Longrightarrow> pl_published p' = pl_published p \<Longrightarrow>
     converted_from p' = converted_from p"
  by (simp add: converted_from_def)

lemma converted_take:
  assumes "converted_from p"
  shows "converted_from (pl_take nl q p)" and "converted_from ((pl_take nl q p)\<lparr> pl_lost := Suc (pl_lost p) \<rparr>)"
proof -
  obtain nls where nls: "subseq nls (pl_taken p)" "length nls + pl_lost p \<le> length (pl_taken p)"
    "list_all2 (\<lambda>nl e. \<exists>v stamp. netlink_to_sentinel_event_inner v stamp (pl_config p) nl = Some (Some e)) nls (pl_published p)"
    using assms unfolding converted_from_def by blast
  have "subseq nls (pl_taken p @ [nl])" using nls(1) by (rule list_emb_prefix)
  with nls(2,3) show "converted_from (pl_take nl q p)" "converted_from ((pl_take nl q p)\<lparr> pl_lost := Suc (pl_lost p) \<rparr>)"
    unfolding converted_from_def by (intro exI [of _ nls]; simp add: pl_take_def)+
qed

lemma converted_publish:
  assumes "converted_from p" and "netlink_to_sentinel_event_inner v stamp (pl_config p) nl = Some (Some e)"
  shows "converted_from ((pl_take nl q p)\<lparr> pl_published := pl_published p @ [e] \<rparr>)"
proof -
  obtain nls where nls: "subseq nls (pl_taken p)" "length nls + pl_lost p \<le> length (pl_taken p)"
    "list_all2 (\<lambda>nl e. \<exists>v stamp. netlink_to_sentinel_event_inner v stamp (pl_config p) nl = Some (Some e)) nls (pl_published p)"
    using assms(1) unfolding converted_from_def by blast
  have "subseq (nls @ [nl]) (pl_taken p @ [nl])" using nls(1) by simp
  then show ?thesis
    using nls assms(2) unfolding converted_from_def
    by (intro exI [of _ "nls @ [nl]"]) (auto simp: pl_take_def intro: list_all2_appendI)
qed

lemma pipeline_step_ok: "pipeline_step cancelled p p' \<Longrightarrow> pipeline_ok p \<Longrightarrow> pipeline_ok p'"
proof (induction rule: pipeline_step.induct)
  case (pl_throttled p nl q signal)
  then show ?case using converted_take(2) [of p nl q] by (auto simp: pipeline_ok_def pl_take_def)
next
  case (pl_converted p nl q v stamp e)
  then show ?case using converted_publish [of p v stamp nl e q] by (auto simp: pipeline_ok_def pl_take_def)
next
  case (pl_skipped p nl q v stamp)
  then show ?case using converted_take(1) [of p nl q] by (auto simp: pipeline_ok_def pl_take_def)
next
  case (pl_conversion_over p nl q)
  then have "converted_from (pl_take nl q p) \<or> pl_monitor p = MT_Done False"
    using converted_take(1) [of p nl q] by (auto simp: pipeline_ok_def)
  with pl_conversion_over show ?case
    using converted_cong [of "(pl_take nl q p)\<lparr> pl_converting := False \<rparr>" "pl_take nl q p"]
    by (auto simp: pipeline_ok_def pl_take_def)
qed (auto simp: pipeline_ok_def cong: converted_cong)

lemma pipeline_new_ok: "pipeline_ok (pipeline_new c)"
  by (simp add: pipeline_ok_def pipeline_new_def converted_from_def)

definition system_ok :: "process_system \<Rightarrow> bool" where
  "system_ok s \<longleftrightarrow> list_all pipeline_ok (sy_pipelines s) \<and> pk_starts (sy_collector s) = length (sy_pipelines s)
     \<and> pk_id (sy_collector s) = ''process'' \<and> pk_health (sy_collector s) = collector_health_default
     \<and> pk_state (sy_collector s) = CS_Stopped"

lemma system_step_ok: "system_step s s' \<Longrightarrow> system_ok s \<Longrightarrow> system_ok s'"
proof (induction rule: system_step.induct)
  case (sy_ran i s p)
  then show ?case
    using pipeline_step_ok by (auto simp: system_ok_def list_all_length nth_list_update)
qed (auto simp: system_ok_def process_op_defs pipeline_new_ok split: sum.split)

lemma system_reachable_ok: "system_reachable config s \<Longrightarrow> system_ok s"
proof (induction rule: system_reachable.induct)
  case sy_start
  show ?case by (simp add: system_ok_def process_collector_new_def)
next
  case (sy_step s s')
  then show ?case using system_step_ok by blast
qed

text \<open>
  A start reports either from the kernel or from polling, never both.  As long as the kernel has not
  refused, what is published are the conversions of the events received, in order, each at most once, and none
  that was lost under pressure; the others are still in the channel.  After a refusal nothing is ever received.
\<close>

theorem kernel_or_polling:
  assumes "system_reachable config s" and "p \<in> set (sy_pipelines s)"
  shows "pl_received p = pl_taken p @ pl_queue p
    \<and> (pl_monitor p = MT_Done False \<longrightarrow> pl_received p = [])
    \<and> (pl_monitor p \<noteq> MT_Done False \<longrightarrow> pl_fallback p = None
         \<and> (\<exists>nls. subseq nls (pl_taken p) \<and> length nls + pl_lost p \<le> length (pl_taken p)
              \<and> list_all2 (\<lambda>nl e. \<exists>v stamp. netlink_to_sentinel_event_inner v stamp (pl_config p) nl = Some (Some e))
                  nls (pl_published p)))"
  using system_reachable_ok [OF assms(1)] assms(2)
  unfolding system_ok_def pipeline_ok_def list_all_iff converted_from_def by auto

text \<open>The health the collector reports is that of a stopped one, whatever it does.\<close>

theorem always_reported_stopped:
  assumes "system_reachable config s"
  shows "op_health (process_ops parse now) (sy_collector s) = collector_health_default
    \<and> ch_state collector_health_default = CS_Stopped"
  using system_reachable_ok [OF assms] by (simp add: system_ok_def process_ops_def collector_health_default_def)

definition pollers :: "process_system \<Rightarrow> nat" where
  "pollers s = length (filter (\<lambda>p. pl_fallback p \<noteq> None) (sy_pipelines s))"

lemma sy_steps: "system_reachable config s \<Longrightarrow> system_step s s1 \<Longrightarrow> system_step s1 s2 \<Longrightarrow> system_step s2 s3 \<Longrightarrow> system_reachable config s3"
  by (blast intro: sy_step)

text \<open>
  Stopping does not stop the polling, and nothing else does: where the kernel refuses, every start adds a
  task that announces the same processes again, and a collector that is stopped can have any number of them.
\<close>

theorem pollers_pile_up:
  "\<exists>s. system_reachable config s \<and> pk_cancel (sy_collector s) = None \<and> pollers s = n \<and> length (sy_pipelines s) = n"
proof (induction n)
  case 0
  show ?case by (rule exI, intro conjI, rule sy_start) (simp_all add: process_collector_new_def pollers_def)
next
  case (Suc n)
  then obtain s where s: "system_reachable config s" "pk_cancel (sy_collector s) = None" "pollers s = n" "length (sy_pipelines s) = n"
    by blast
  define ctx where "ctx = \<lparr> cx_channel = 0, cx_metrics = collector_metrics_default \<rparr>"
  define c where "c = snd (process_start ctx (sy_collector s))"
  define p where "p = pipeline_new c"
  define s1 where "s1 = \<lparr> sy_collector = c, sy_pipelines = sy_pipelines s @ [p] \<rparr>"
  define p' where "p' = p\<lparr> pl_monitor := MT_Done False, pl_fallback := Some {} \<rparr>"
  define s2 where "s2 = s1\<lparr> sy_pipelines := (sy_pipelines s1)[n := p'] \<rparr>"
  define s3 where "s3 = s2\<lparr> sy_collector := snd (process_stop True (sy_collector s2)) \<rparr>"
  have "system_step s s1"
    unfolding s1_def p_def c_def by (rule sy_started [of ctx]) (simp add: process_op_defs)
  moreover have "pipeline_step (pk_cancel (sy_collector s1) \<noteq> Some n) (sy_pipelines s1 ! n) p'"
    using pl_refused [of p "pk_cancel c \<noteq> Some n"] s(4) by (simp add: s1_def nth_append p'_def p_def pipeline_new_def)
  then have "system_step s1 s2" unfolding s2_def by (rule sy_ran [rotated]) (simp add: s1_def s(4))
  moreover have "system_step s2 s3" unfolding s3_def by (rule sy_stopped)
  ultimately have "system_reachable config s3" by (rule sy_steps [OF s(1)])
  moreover have "sy_pipelines s3 = sy_pipelines s @ [p']"
    using s(4) by (simp add: s3_def s2_def s1_def list_update_append)
  moreover have "pk_cancel (sy_collector s3) = None" by (simp add: s3_def process_op_defs)
  ultimately show ?case using s(3,4) by (intro exI [of _ s3]) (simp add: pollers_def p'_def)
qed

text \<open>The schema describes the configuration: the same names in the same order, and the defaults of the code.\<close>

lemma schema_describes_defaults:
  "map fst process_schema_properties = (case process_collector_config_json process_collector_config_default of JObject fs \<Rightarrow> map fst fs)"
  "\<forall>(k, t) \<in> set process_schema_properties. json_get t ''default'' \<in>
     {None, json_get (process_collector_config_json process_collector_config_default) k}"
  by (simp_all add: process_schema_properties_def process_collector_config_json_def process_collector_config_default_def
      schema_property_def json_get_def json_of_f64_def)

end
