(* ===== verification/Retention.thy ===== *)
theory Retention
  imports Repositories Config_Engine
begin

text \<open>
  Retention and aggregation of the SQLite event repository (crates/sentinel-storage/src/sqlite.rs).  The
  statements are executed on a list of rows: \<open>LIKE\<close> and the comparison of texts are those of the queries, the
  date function of SQLite and the order of the rows are parameters.
\<close>

section \<open>Retention\<close>

text \<open>\<open>datetime('now', modifier)\<close> is the parameter \<open>sqlite_now\<close>; NULL compares with nothing.\<close>

definition age_modifier :: "retention_policy \<Rightarrow> string" where
  "age_modifier p = ''-'' @ show_word (retain_max_age_days p) @ '' days''"

definition text_less :: "string \<Rightarrow> string \<Rightarrow> bool" where
  "text_less a b \<longleftrightarrow> text_le a b \<and> a \<noteq> b"

definition expired :: "(string \<Rightarrow> string option) \<Rightarrow> retention_policy \<Rightarrow> event_row \<Rightarrow> bool" where
  "expired sqlite_now p r \<longleftrightarrow> like_match (retain_event_type_pattern p) (er_type r)
     \<and> (case sqlite_now (age_modifier p) of None \<Rightarrow> False | Some cutoff \<Rightarrow> text_less (er_timestamp r) cutoff)"

text \<open>\<open>LIMIT\<close> with the count as \<open>i64\<close>: a negative limit is none.\<close>

definition limited :: "u64 \<Rightarrow> 'r list \<Rightarrow> 'r list" where
  "limited n rs = (if sint n < 0 then rs else take (unat n) rs)"

text \<open>The number of rows affected and the rows that are left.\<close>

definition retention ::
    "(string \<Rightarrow> string option) \<Rightarrow> (event_row list \<Rightarrow> event_row list) \<Rightarrow> retention_policy \<Rightarrow> event_row list
      \<Rightarrow> u64 \<times> event_row list" where
  "retention sqlite_now newest_first p rows =
     (let ids = map er_id (limited (retain_max_count p) (newest_first (filter (expired sqlite_now p) rows)));
          deleted = (\<lambda>r. expired sqlite_now p r \<and> er_id r \<in> set ids)
      in (of_nat (length (filter deleted rows)), filter (\<lambda>r. \<not> deleted r) rows))"

section \<open>Aggregation\<close>

record event_bucket =
  bk_key :: string
  bk_count :: u64
  bk_avg_risk :: "f64 option"
  bk_min_risk :: "u32 option"
  bk_max_risk :: "u32 option"

text \<open>The rows between two times, the groups in the order \<open>group_order\<close> gives them, and the aggregates of a
  group.  A key is read as a text: on an INTEGER column that panics, the result \<open>None\<close>.\<close>

definition in_time :: "string \<Rightarrow> string \<Rightarrow> event_row \<Rightarrow> bool" where
  "in_time from_time to_time r \<longleftrightarrow> text_le from_time (er_timestamp r) \<and> text_le (er_timestamp r) to_time"

fun key_text :: "sql_value \<Rightarrow> string option" where
  "key_text (SText s) = Some s"
| "key_text (SInt n) = None"

definition bucket_of :: "string \<Rightarrow> event_row list \<Rightarrow> event_bucket" where
  "bucket_of key rs = (let risks = map er_risk_score rs in
     \<lparr> bk_key = key, bk_count = of_nat (length rs),
       bk_avg_risk = (if risks = [] then None else Some (f64_div_fin (f64_of (of_int (sum_list risks))) (f64_of_nat (length risks)))),
       bk_min_risk = (if risks = [] then None else Some (word_of_int (Min (set risks)))),
       bk_max_risk = (if risks = [] then None else Some (word_of_int (Max (set risks)))) \<rparr>)"

fun buckets_of :: "string \<Rightarrow> event_row list \<Rightarrow> sql_value list \<Rightarrow> event_bucket list option" where
  "buckets_of column rows [] = Some []"
| "buckets_of column rows (k # ks) = (case key_text k of None \<Rightarrow> None
     | Some key \<Rightarrow> map_option ((#) (bucket_of key (filter (\<lambda>r. event_column r column = k) rows))) (buckets_of column rows ks))"

definition aggregate ::
    "(datetime \<Rightarrow> string) \<Rightarrow> (sql_value list \<Rightarrow> sql_value list) \<Rightarrow> string \<Rightarrow> datetime \<Rightarrow> datetime \<Rightarrow> event_row list
      \<Rightarrow> string + event_bucket list option" where
  "aggregate rfc group_order group_by start_time end_time rows =
     (case aggregate_column group_by of Inl e \<Rightarrow> Inl e
      | Inr column \<Rightarrow> (let selected = filter (in_time (rfc start_time) (rfc end_time)) rows in
          Inr (buckets_of column selected (group_order (remdups (map (\<lambda>r. event_column r column) selected))))))"

section \<open>What retention deletes\<close>

lemma limited_subset: "set (limited n rs) \<subseteq> set rs"
  by (simp add: limited_def set_take_subset)

lemma limited_length: "length (limited n rs) = (if sint n < 0 then length rs else min (unat n) (length rs))"
  by (simp add: limited_def min.commute)

lemma filter_ids:
  assumes "distinct (map er_id rows)" and "set rs \<subseteq> set (filter P rows)"
  shows "filter (\<lambda>r. P r \<and> er_id r \<in> er_id ` set rs) rows = filter (\<lambda>r. r \<in> set rs) rows"
proof (rule filter_cong [OF refl])
  fix r
  assume r: "r \<in> set rows"
  have "r \<in> set rs" if "er_id r \<in> er_id ` set rs"
  proof -
    from that obtain q where q: "q \<in> set rs" "er_id q = er_id r" by force
    with assms(2) r have "q = r" using assms(1) by (auto simp: distinct_map dest: inj_onD)
    with q show ?thesis by simp
  qed
  with assms(2) show "(P r \<and> er_id r \<in> er_id ` set rs) = (r \<in> set rs)" by auto
qed

text \<open>
  Retention deletes expired events only, as many as the policy names, and keeps the others in place.
\<close>

theorem retention_deletes_expired:
  assumes "distinct (map er_id rows)" and "\<And>xs. mset (newest_first xs) = mset xs" and "length rows < 2 ^ 63"
  shows "set (snd (retention sqlite_now newest_first p rows)) \<subseteq> set rows
    \<and> filter (\<lambda>r. \<not> expired sqlite_now p r) (snd (retention sqlite_now newest_first p rows)) = filter (\<lambda>r. \<not> expired sqlite_now p r) rows
    \<and> unat (fst (retention sqlite_now newest_first p rows))
        = (let n = length (filter (expired sqlite_now p) rows) in
           if sint (retain_max_count p) < 0 then n else min (unat (retain_max_count p)) n)
    \<and> length (snd (retention sqlite_now newest_first p rows)) + unat (fst (retention sqlite_now newest_first p rows)) = length rows"
proof -
  let ?e = "expired sqlite_now p"
  define rs where "rs = limited (retain_max_count p) (newest_first (filter ?e rows))"
  have perm: "mset (newest_first (filter ?e rows)) = mset (filter ?e rows)" by (rule assms(2))
  have sub: "set rs \<subseteq> set (filter ?e rows)"
    using limited_subset [of "retain_max_count p" "newest_first (filter ?e rows)"] mset_eq_setD [OF perm] by (simp add: rs_def)
  have deleted: "filter (\<lambda>r. ?e r \<and> er_id r \<in> set (map er_id rs)) rows = filter (\<lambda>r. r \<in> set rs) rows"
    using filter_ids [OF assms(1) sub] by simp
  have "distinct rows" using assms(1) by (simp add: distinct_map)
  then have "distinct (newest_first (filter ?e rows))" using perm by (metis distinct_filter mset_eq_imp_distinct_iff)
  then have "distinct rs" by (simp add: rs_def limited_def)
  moreover have "set (filter (\<lambda>r. r \<in> set rs) rows) = set rs" using sub by auto
  ultimately have n: "length (filter (\<lambda>r. r \<in> set rs) rows) = length rs"
    using \<open>distinct rows\<close> by (metis distinct_card distinct_filter)
  have bound: "length rs < 2 ^ LENGTH(64)"
    using n length_filter_le [of "\<lambda>r. r \<in> set rs" rows] assms(3) by simp
  have len: "length rs = (let n = length (filter ?e rows) in
      if sint (retain_max_count p) < 0 then n else min (unat (retain_max_count p)) n)"
    using mset_eq_length [OF perm] by (simp add: rs_def limited_length Let_def)
  have ret: "retention sqlite_now newest_first p rows
      = (of_nat (length rs), filter (\<lambda>r. \<not> (?e r \<and> er_id r \<in> set (map er_id rs))) rows)"
    unfolding retention_def Let_def rs_def [symmetric] deleted n by (rule refl)
  have "length (filter (\<lambda>r. \<not> (?e r \<and> er_id r \<in> set (map er_id rs))) rows) + length rs = length rows"
    using sum_length_filter_compl [of "\<lambda>r. ?e r \<and> er_id r \<in> set (map er_id rs)" rows] deleted n by simp
  moreover have "unat (of_nat (length rs) :: u64) = length rs"
    using bound by (simp add: unat_of_nat)
  ultimately show ?thesis
    unfolding ret len [symmetric] by (auto intro!: filter_cong)
qed

text \<open>
  The rows the policy removes are the newest of the expired ones: with more than \<open>max_count\<close> expired rows the
  oldest stay.
\<close>

lemma sorted_wrt_take_drop:
  "sorted_wrt P xs \<Longrightarrow> a \<in> set (take n xs) \<Longrightarrow> b \<in> set (drop n xs) \<Longrightarrow> P a b"
  by (metis append_take_drop_id sorted_wrt_append)

lemma limited_keeps_order:
  assumes "sorted_wrt P xs" and "a \<in> set (limited n xs)" and "b \<in> set xs" and "b \<notin> set (limited n xs)"
  shows "P a b"
  using assms sorted_wrt_take_drop [of P xs a "unat n" b]
  by (auto simp: limited_def split: if_splits) (metis Un_iff append_take_drop_id set_append)

lemma oldest_expired_stay:
  assumes sorted: "sorted_wrt (\<lambda>a b. text_le (er_timestamp b) (er_timestamp a)) (newest_first (filter (expired sqlite_now p) rows))"
    and perm: "mset (newest_first (filter (expired sqlite_now p) rows)) = mset (filter (expired sqlite_now p) rows)"
    and kept: "k \<in> set (snd (retention sqlite_now newest_first p rows))" "expired sqlite_now p k"
    and deleted: "d \<in> set rows" "d \<notin> set (snd (retention sqlite_now newest_first p rows))" and ids: "distinct (map er_id rows)"
  shows "text_le (er_timestamp k) (er_timestamp d)"
proof -
  let ?s = "newest_first (filter (expired sqlite_now p) rows)"
  have set_s: "set ?s = {r \<in> set rows. expired sqlite_now p r}" using mset_eq_setD [OF perm] by simp
  have sub: "set (limited (retain_max_count p) ?s) \<subseteq> {r \<in> set rows. expired sqlite_now p r}"
    using limited_subset [of "retain_max_count p" ?s] set_s by simp
  from kept have k: "k \<in> set rows" "k \<notin> set (limited (retain_max_count p) ?s)"
    by (auto simp: retention_def Let_def)
  from deleted obtain q where q: "q \<in> set (limited (retain_max_count p) ?s)" "er_id q = er_id d"
    by (auto simp: retention_def Let_def)
  with sub ids deleted(1) have "q = d" by (auto simp: distinct_map dest: inj_onD)
  with q limited_keeps_order [OF sorted, of d "retain_max_count p" k] k kept(2) set_s show ?thesis by simp
qed

text \<open>
  \<open>datetime\<close> of SQLite separates the date and the time by a space, the stored timestamps do by a \<open>T\<close>: an event of
  the day of the cutoff is never expired, whatever its time.
\<close>

lemma text_le_common: "text_le (d @ s) (d @ t) = text_le s t"
  by (induction d) auto

lemma day_of_cutoff_never_expired:
  assumes "er_timestamp r = day @ CHR ''T'' # time" and "sqlite_now (age_modifier p) = Some (day @ CHR '' '' # time')"
  shows "\<not> expired sqlite_now p r"
  using assms by (simp add: expired_def text_less_def text_le_common)

text \<open>\<open>*\<close> is no wildcard of \<open>LIKE\<close>: no event type without a \<open>*\<close> matches one of the default policies.\<close>

lemma of_char_star: "of_char CHR ''*'' = (42 :: nat)"
  by simp

lemma char_lower_star: "char_lower CHR ''*'' = char_lower d \<Longrightarrow> d = CHR ''*''"
proof -
  assume "char_lower CHR ''*'' = char_lower d"
  then have d: "char_lower d = CHR ''*''" by (simp add: char_lower_def)
  show ?thesis
  proof (cases "65 \<le> (of_char d :: nat) \<and> (of_char d :: nat) \<le> 90")
    case True
    with d have "char_of (of_char d + 32 :: nat) = CHR ''*''" by (simp add: char_lower_def Let_def)
    then have "(of_char d + 32 :: nat) mod 256 = 42" by (metis of_char_of of_char_star)
    with True show ?thesis by simp
  qed (use d in \<open>auto simp: char_lower_def Let_def split: if_splits\<close>)
qed

lemma like_star: "like_match p s \<Longrightarrow> CHR ''*'' \<in> set p \<Longrightarrow> CHR ''*'' \<in> set s"
  by (induction p s rule: like_match.induct) (auto split: if_splits dest: char_lower_star)

lemma default_policies_delete_nothing:
  assumes "p \<in> set (store_retention storage_config_default)" and "\<And>r. r \<in> set rows \<Longrightarrow> CHR ''*'' \<notin> set (er_type r)"
  shows "retention sqlite_now newest_first p rows = (0, rows)"
proof -
  have star: "CHR ''*'' \<in> set (retain_event_type_pattern p)"
    using assms(1) by (auto simp: storage_config_default_def)
  have "\<not> expired sqlite_now p r" if "r \<in> set rows" for r
    using star assms(2) [OF that] by (auto simp: expired_def dest: like_star)
  then show ?thesis by (simp add: retention_def Let_def filter_empty_conv)
qed

section \<open>What an aggregation counts\<close>

lemma buckets_of_keys:
  "buckets_of column rows ks = Some bs \<Longrightarrow> map (Some \<circ> bk_key) bs = map key_text ks"
  by (induction ks arbitrary: bs) (auto simp: bucket_of_def Let_def split: option.splits)

lemma buckets_of_counts:
  assumes "length rows < 2 ^ 64"
  shows "buckets_of column rows ks = Some bs \<Longrightarrow>
    map (unat \<circ> bk_count) bs = map (\<lambda>k. length (filter (\<lambda>r. event_column r column = k) rows)) ks"
proof (induction ks arbitrary: bs)
  case (Cons k ks)
  have "length (filter (\<lambda>r. event_column r column = k) rows) < 2 ^ 64"
    using length_filter_le [of "\<lambda>r. event_column r column = k" rows] assms by linarith
  with Cons show ?case
    by (auto simp: bucket_of_def Let_def unat_of_nat split: option.splits)
qed simp

lemma groups_partition:
  "distinct ks \<Longrightarrow> f ` set rows \<subseteq> set ks \<Longrightarrow> (\<Sum>k \<leftarrow> ks. length (filter (\<lambda>r. f r = k) rows)) = length rows"
proof (induction rows)
  case (Cons r rs)
  have "(\<Sum>k \<leftarrow> ks. length (filter (\<lambda>x. f x = k) (r # rs)))
      = (\<Sum>k \<leftarrow> ks. (if f r = k then 1 else 0) + length (filter (\<lambda>x. f x = k) rs))"
    by (rule arg_cong [where f = sum_list], rule map_cong) auto
  also have "\<dots> = (\<Sum>k \<leftarrow> ks. if f r = k then 1 else 0) + length rs"
    using Cons by (simp add: sum_list_addf)
  also have "(\<Sum>k \<leftarrow> ks. if f r = k then 1 else 0) = (1 :: nat)"
    using Cons.prems by (simp add: sum_list_distinct_conv_sum_set)
  finally show ?case by simp
qed simp

text \<open>
  The buckets of an aggregation count every row between the two times once, however the engine orders the groups.
\<close>

theorem aggregate_counts_all:
  assumes "aggregate rfc group_order g a b rows = Inr (Some bs)"
    and "\<And>ks. mset (group_order ks) = mset ks" and "length rows < 2 ^ 64"
  shows "(\<Sum>c \<leftarrow> bs. unat (bk_count c)) = length (filter (in_time (rfc a) (rfc b)) rows) \<and> distinct (map bk_key bs)"
proof -
  let ?sel = "filter (in_time (rfc a) (rfc b)) rows"
  from assms(1) obtain column where bs: "buckets_of column ?sel
      (group_order (remdups (map (\<lambda>r. event_column r column) ?sel))) = Some bs"
    by (auto simp: aggregate_def Let_def split: sum.splits)
  define ks where "ks = group_order (remdups (map (\<lambda>r. event_column r column) ?sel))"
  have perm: "mset ks = mset (remdups (map (\<lambda>r. event_column r column) ?sel))" unfolding ks_def by (rule assms(2))
  have ks: "distinct ks" "set ks = (\<lambda>r. event_column r column) ` set ?sel"
    using mset_eq_imp_distinct_iff [OF perm] mset_eq_setD [OF perm] by auto
  have short: "length ?sel < 2 ^ 64" using assms(3) length_filter_le [of "in_time (rfc a) (rfc b)" rows] by linarith
  have "(\<Sum>c \<leftarrow> bs. unat (bk_count c)) = (\<Sum>k \<leftarrow> ks. length (filter (\<lambda>r. event_column r column = k) ?sel))"
    using arg_cong [OF buckets_of_counts [OF short bs], of sum_list] by (simp add: ks_def comp_def)
  also have "\<dots> = length ?sel" by (rule groups_partition) (simp_all add: ks)
  finally have "(\<Sum>c \<leftarrow> bs. unat (bk_count c)) = length ?sel" .
  moreover have "distinct (map (Some \<circ> bk_key) bs)"
  proof -
    have m: "map (Some \<circ> bk_key) bs = map key_text ks" using buckets_of_keys [OF bs] by (simp add: ks_def)
    have "inj_on key_text (set ks)"
    proof (rule inj_onI)
      fix x y
      assume xy: "x \<in> set ks" "y \<in> set ks" "key_text x = key_text y"
      have "key_text x \<in> set (map (Some \<circ> bk_key) bs)" unfolding m using xy(1) by simp
      then obtain t where "key_text x = Some t" by auto
      with xy(3) show "x = y" by (cases x; cases y) auto
    qed
    with ks(1) show ?thesis unfolding m by (simp add: distinct_map)
  qed
  then have "distinct (map bk_key bs)" by (auto simp: distinct_map inj_on_def)
  ultimately show ?thesis by simp
qed

text \<open>The severity is an INTEGER column and its bucket's key is a text: a selected row makes the aggregation panic.\<close>

lemma aggregate_by_severity_panics:
  assumes "\<And>ks. mset (group_order ks) = mset ks" and "filter (in_time (rfc a) (rfc b)) rows \<noteq> []"
  shows "aggregate rfc group_order ''severity'' a b rows = Inr None"
proof -
  let ?sel = "filter (in_time (rfc a) (rfc b)) rows"
  have none: "buckets_of ''severity'' ?sel ks = None" if "ks \<noteq> []" "\<And>k. k \<in> set ks \<Longrightarrow> key_text k = None" for ks
    using that by (cases ks) auto
  have set_ks: "set (group_order (remdups (map (\<lambda>r. event_column r ''severity'') ?sel))) = (\<lambda>r. event_column r ''severity'') ` set ?sel"
    using mset_eq_setD [OF assms(1) [of "remdups (map (\<lambda>r. event_column r ''severity'') ?sel)"]] by simp
  have "key_text (event_column r ''severity'') = None" for r by (simp add: event_column_def)
  then have "buckets_of ''severity'' ?sel (group_order (remdups (map (\<lambda>r. event_column r ''severity'') ?sel))) = None"
    using set_ks assms(2) by (intro none) auto
  moreover have "aggregate_column ''severity'' = Inr ''severity''"
    by (simp add: aggregate_column_def aggregate_columns_def)
  ultimately show ?thesis by (simp add: aggregate_def Let_def)
qed

end
