(* ===== verification/Collector_Tests.thy ===== *)
theory Collector_Tests
  imports Browser_Monitor Net_Events File_Monitor
begin

text \<open>
  The unit tests of the collectors, replayed on the model: each definition is the body of a test of the
  repository, with the model's functions in the place of the code's, and the theorem after it says
  that the model passes.  Clock readings, the file system and identifiers, which the tests take from the
  machine they run on, are parameters.
\<close>

section \<open>Browser collector (browser/mod.rs)\<close>

definition test_chrome_time_conversion :: bool where
  "test_chrome_time_conversion \<longleftrightarrow> chrome_time_to_unix 0 = 0 \<and> 1600000000 < chrome_time_to_unix 13300000000000000"

definition test_ip_url_detection :: bool where
  "test_ip_url_detection \<longleftrightarrow> url_has_ip_address ''http://192.168.1.1/admin''
     \<and> url_has_ip_address ''https://10.0.0.1/phish'' \<and> \<not> url_has_ip_address ''https://google.com''"

definition test_suspicious_tld :: bool where
  "test_suspicious_tld \<longleftrightarrow> url_has_suspicious_tld ''http://evil.xyz/payload''
     \<and> url_has_suspicious_tld ''https://free.tk/login'' \<and> \<not> url_has_suspicious_tld ''https://github.com''"

definition test_dangerous_extension :: bool where
  "test_dangerous_extension \<longleftrightarrow> is_dangerous_download ''/tmp/payload.exe'' \<and> is_dangerous_download ''/home/user/script.sh''
     \<and> \<not> is_dangerous_download ''/home/user/report.pdf'' \<and> \<not> is_dangerous_download ''/tmp/image.png''"

definition test_malicious_extension :: bool where
  "test_malicious_extension \<longleftrightarrow> is_malicious_extension ''kfclfkdkobhcchbhmfdboddphkfoakdg''
     \<and> \<not> is_malicious_extension ''google-translate-extension-id''"

definition test_navigation_event_has_tags :: "string \<Rightarrow> bool" where
  "test_navigation_event_has_tags ulid \<longleftrightarrow> (let e = navigation_to_event ulid ''https://test.com'' ''Test'' Chrome in
     ev_source e = ''browser'' \<and> ev_payload e \<noteq> None)"

definition test_download_event_has_tags :: "browser_env \<Rightarrow> string \<Rightarrow> bool" where
  "test_download_event_has_tags v ulid \<longleftrightarrow>
     (let e = download_to_event ulid ''/tmp/x'' ''https://x.com'' (download_hash v ''/tmp/x'') Firefox in
     ''download'' \<in> set (ev_tags e))"

definition test_dangerous_download_flagged :: "browser_env \<Rightarrow> string \<Rightarrow> bool" where
  "test_dangerous_download_flagged v ulid \<longleftrightarrow>
     (let e = download_to_event ulid ''/tmp/evil.exe'' ''https://malware.com/payload'' (download_hash v ''/tmp/evil.exe'') Chrome in
     ''dangerous_ext'' \<in> set (ev_tags e) \<and> 30 \<le> ev_risk_score e)"

definition test_ip_navigation_flagged :: "string \<Rightarrow> bool" where
  "test_ip_navigation_flagged ulid \<longleftrightarrow> (let e = navigation_to_event ulid ''http://45.33.32.156/login'' [] Chrome in
     ''ip_url'' \<in> set (ev_tags e) \<and> 5 < ev_risk_score e)"

definition test_extension_event :: "string \<Rightarrow> bool" where
  "test_extension_event ulid \<longleftrightarrow> ev_risk_score (extension_to_event ulid ''abc'' Edge) = 20"

definition test_malicious_extension_flagged :: "string \<Rightarrow> bool" where
  "test_malicious_extension_flagged ulid \<longleftrightarrow> (let e = extension_to_event ulid ''kfclfkdkobhcchbhmfdboddphkfoakdg'' Chrome in
     ''malicious_extension'' \<in> set (ev_tags e) \<and> ev_risk_score e = 80)"

text \<open>The program gives nothing for a file that does not exist.\<close>

definition test_empty_history_graceful :: "browser_env \<Rightarrow> bool" where
  "test_empty_history_graceful v \<longleftrightarrow> fst (read_history_incremental v ''/nonexistent'' {} 0) = []"

definition test_empty_downloads_graceful :: "browser_env \<Rightarrow> bool" where
  "test_empty_downloads_graceful v \<longleftrightarrow> fst (read_downloads_incremental v ''/nonexistent'' {} 0) = []"

definition test_browser_enum_values :: bool where
  "test_browser_enum_values \<longleftrightarrow> browser_code Chrome = 1 \<and> browser_code Firefox = 2 \<and> browser_code Edge = 3"

definition test_suspicious_download_burst :: bool where
  "test_suspicious_download_burst \<longleftrightarrow>
     (let (a, t) = tracker_record ''/tmp/a.exe'' 1700000000 []; (b, t) = tracker_record ''/tmp/b.exe'' (1700000000 + 1) t
      in a = None \<and> b = None \<and> fst (tracker_record ''/tmp/c.exe'' (1700000000 + 2) t) = Some 3)"

definition test_suspicious_download_window_expires :: bool where
  "test_suspicious_download_window_expires \<longleftrightarrow>
     (let (a, t) = tracker_record ''/tmp/a.exe'' 1700000000 []; (b, t) = tracker_record ''/tmp/b.exe'' (1700000000 + 1) t
      in fst (tracker_record ''/tmp/c.exe'' (1700000000 + SUSPICIOUS_DL_WINDOW + 10) t) = None)"

lemma test_chrome_time_conversion_passes: test_chrome_time_conversion
  by code_simp

lemma test_ip_url_detection_passes: test_ip_url_detection
  by code_simp

lemma test_suspicious_tld_passes: test_suspicious_tld
  by code_simp

lemma test_dangerous_extension_passes: test_dangerous_extension
  by code_simp

lemma test_malicious_extension_passes: test_malicious_extension
  by code_simp

lemma test_navigation_event_has_tags_passes: "test_navigation_event_has_tags ulid"
  by (simp add: test_navigation_event_has_tags_def navigation_to_event_def browser_event_of_def)

lemma test_download_event_has_tags_passes: "test_download_event_has_tags v ulid"
  by (simp add: test_download_event_has_tags_def download_to_event_def browser_event_of_def download_tags_def)

lemma test_dangerous_download_flagged_passes: "test_dangerous_download_flagged v ulid"
proof -
  have "is_dangerous_download ''/tmp/evil.exe''" "\<not> url_has_ip_address ''https://malware.com/payload''" by code_simp+
  then show ?thesis
    by (simp add: test_dangerous_download_flagged_def download_to_event_def browser_event_of_def download_tags_def download_risk_def Let_def)
qed

lemma test_ip_navigation_flagged_passes: "test_ip_navigation_flagged ulid"
proof -
  have "url_has_ip_address ''http://45.33.32.156/login''" by code_simp
  then show ?thesis
    by (simp add: test_ip_navigation_flagged_def navigation_to_event_def browser_event_of_def navigation_tags_def navigation_risk_def Let_def)
qed

lemma test_extension_event_passes: "test_extension_event ulid"
  by (simp add: test_extension_event_def extension_to_event_def browser_event_of_def is_malicious_extension_def MALICIOUS_EXTENSIONS_def)

lemma test_malicious_extension_flagged_passes: "test_malicious_extension_flagged ulid"
  by (simp add: test_malicious_extension_flagged_def extension_to_event_def browser_event_of_def is_malicious_extension_def
      MALICIOUS_EXTENSIONS_def)

lemma test_empty_history_graceful_passes:
  "(\<And>sql. bv_sqlite v ''/nonexistent'' sql = None) \<Longrightarrow> test_empty_history_graceful v"
  by (simp add: test_empty_history_graceful_def read_history_incremental_def read_db_def)

lemma test_empty_downloads_graceful_passes:
  "(\<And>sql. bv_sqlite v ''/nonexistent'' sql = None) \<Longrightarrow> test_empty_downloads_graceful v"
  by (simp add: test_empty_downloads_graceful_def read_downloads_incremental_def read_db_def)

lemma test_browser_enum_values_passes: test_browser_enum_values
  by (simp add: test_browser_enum_values_def)

lemma test_suspicious_download_burst_passes: test_suspicious_download_burst
  by code_simp

lemma test_suspicious_download_window_expires_passes: test_suspicious_download_window_expires
  by code_simp

section \<open>Scan detector (network/scan\_detector.rs)\<close>

text \<open>A connection of process 1000 and what the detector reports for it after others.\<close>

definition attempt :: "instant \<Rightarrow> string \<Rightarrow> u16 \<Rightarrow> conn_observation" where
  "attempt now host port = \<lparr> co_remote_host = host, co_remote_port = port, co_pid = 1000, co_timestamp = now \<rparr>"

definition report_after :: "nat \<Rightarrow> conn_observation list \<Rightarrow> conn_observation \<Rightarrow> scan_type option" where
  "report_after window h a = fst (scan_record (co_timestamp a) (co_remote_host a) (co_remote_port a) (co_pid a)
     (scan_all h (scan_detector_new window)))"

definition no_scan_with_few_connections :: "instant \<Rightarrow> bool" where
  "no_scan_with_few_connections t \<longleftrightarrow> list_all (\<lambda>n. report_after (from_secs 30)
     (map (\<lambda>i. attempt t ''8.8.8.8'' (of_nat i)) [1..<n]) (attempt t ''8.8.8.8'' (of_nat n)) = None) [1..<6]"

definition detects_vertical_scan :: "instant \<Rightarrow> bool" where
  "detects_vertical_scan t \<longleftrightarrow> report_after (from_secs 3600)
     (map (\<lambda>i. attempt t ''10.0.0.5'' (of_nat i)) [1..<15]) (attempt t ''10.0.0.5'' 15) = Some (VerticalScan ''10.0.0.5'' 15)"

definition detects_horizontal_scan :: "instant \<Rightarrow> bool" where
  "detects_horizontal_scan t \<longleftrightarrow> report_after (from_secs 3600)
     (map (\<lambda>i. attempt t (''192.168.1.'' @ show_nat i) 22) [1..<25]) (attempt t (''192.168.1.'' @ show_nat 25) 22)
       = Some (HorizontalScan 22 25)"

text \<open>The window is a millisecond; \<open>t'\<close> is the time after a sleep of two.\<close>

definition window_prunes_old_observations :: "instant \<Rightarrow> instant \<Rightarrow> bool" where
  "window_prunes_old_observations t t' \<longleftrightarrow> report_after (nanos_per_sec div 1000)
     (map (\<lambda>i. attempt t ''10.0.0.5'' (of_nat i)) [1..<16]) (attempt t' ''10.0.0.5'' 99) = None"

definition ignores_same_port_repeatedly :: "instant \<Rightarrow> bool" where
  "ignores_same_port_repeatedly t \<longleftrightarrow> list_all (\<lambda>n. report_after (from_secs 30)
     (replicate n (attempt t ''8.8.8.8'' 443)) (attempt t ''8.8.8.8'' 443) = None) [0..<50]"

lemmas attempt_simps [simp] = attempt_def [THEN arg_cong, of co_remote_host, simplified] attempt_def [THEN arg_cong, of co_remote_port, simplified]
  attempt_def [THEN arg_cong, of co_pid, simplified] attempt_def [THEN arg_cong, of co_timestamp, simplified]

text \<open>The exactness of the detector, for connections within the window.\<close>

lemma report_exact:
  assumes "time_ordered (h @ [a])"
  shows "report_after w h a =
    (let s = in_window w (co_timestamp a) (h @ [a]);
         ports = card (co_remote_port ` set (filter (\<lambda>b. co_remote_host b = co_remote_host a) s));
         hosts = card (co_remote_host ` set (filter (\<lambda>b. co_remote_port b = co_remote_port a) s));
         conns = length (filter (\<lambda>b. co_pid b = co_pid a) s)
     in if 10 \<le> ports then Some (VerticalScan (co_remote_host a) ports)
        else if 20 \<le> hosts then Some (HorizontalScan (co_remote_port a) hosts)
        else if 100 \<le> conns then Some (ConnectionStorm (co_pid a) conns) else None)"
  using scan_detector_exact [OF assms, of w] unfolding report_after_def Let_def case_prod_beta by blast

lemma same_time:
  assumes "\<forall>b \<in> set h. co_timestamp b = co_timestamp a"
  shows "time_ordered (h @ [a])" and "in_window w (co_timestamp a) (h @ [a]) = h @ [a]"
  using assms by (induction h) (auto simp: time_ordered_def in_window_def)

lemma card_image_filter: "card (f ` set (filter P xs)) \<le> length xs"
proof -
  have "card (f ` set (filter P xs)) \<le> length (filter P xs)"
    using card_length [of "map f (filter P xs)"] by simp
  also have "\<dots> \<le> length xs" by (rule length_filter_le)
  finally show ?thesis .
qed

lemma nothing_reported:
  assumes same: "\<forall>b \<in> set h. co_timestamp b = co_timestamp a"
    and ports: "card (co_remote_port ` set (filter (\<lambda>b. co_remote_host b = co_remote_host a) (h @ [a]))) < 10"
    and hosts: "card (co_remote_host ` set (filter (\<lambda>b. co_remote_port b = co_remote_port a) (h @ [a]))) < 20"
    and "length h < 99"
  shows "report_after w h a = None"
proof -
  have "length (filter (\<lambda>b. co_pid b = co_pid a) (h @ [a])) < 100"
    using length_filter_le [of "\<lambda>b. co_pid b = co_pid a" "h @ [a]"] assms(4) by (simp only: length_append list.size)
  then show ?thesis
    unfolding report_exact [OF same_time(1) [OF same]] same_time(2) [OF same] Let_def
    using ports hosts by (simp only: linorder_not_le [symmetric] if_False)
qed

lemma few_connections:
  assumes "\<forall>b \<in> set h. co_timestamp b = co_timestamp a" and "length h < 9"
  shows "report_after w h a = None"
proof (rule nothing_reported [OF assms(1)])
  have few: "card (f ` set (filter P (h @ [a]))) < 10" for f :: "conn_observation \<Rightarrow> 'x" and P
    using card_image_filter [of f P "h @ [a]"] assms(2) by (simp only: length_append list.size)
  show "card (co_remote_port ` set (filter (\<lambda>b. co_remote_host b = co_remote_host a) (h @ [a]))) < 10" by (rule few)
  have "card (co_remote_host ` set (filter (\<lambda>b. co_remote_port b = co_remote_port a) (h @ [a]))) < 10" by (rule few)
  then show "card (co_remote_host ` set (filter (\<lambda>b. co_remote_port b = co_remote_port a) (h @ [a]))) < 20" by linarith
qed (use assms(2) in simp)

text \<open>Cards of the attempts of a test.\<close>

lemma attempts_same_time: "\<forall>b \<in> set (map (\<lambda>i. attempt t (f i) (g i)) is). co_timestamp b = co_timestamp (attempt t host port)"
  by auto

lemma no_scan_with_few_connections_passes: "no_scan_with_few_connections t"
  unfolding no_scan_with_few_connections_def list_all_iff by (auto intro!: few_connections)

lemma detects_vertical_scan_passes: "detects_vertical_scan t"
proof -
  let ?h = "map (\<lambda>i. attempt t ''10.0.0.5'' (of_nat i)) [1..<15]" let ?a = "attempt t ''10.0.0.5'' 15"
  have "co_remote_port ` set (filter (\<lambda>b. co_remote_host b = co_remote_host ?a) (?h @ [?a])) = of_nat ` set [1..<16]"
    by (simp add: filter_map o_def image_image upt_rec)
  moreover have "card ((of_nat :: nat \<Rightarrow> u16) ` set [1..<16]) = 15" by code_simp
  ultimately show ?thesis
    unfolding detects_vertical_scan_def report_exact [OF same_time(1) [OF attempts_same_time]]
      same_time(2) [OF attempts_same_time] Let_def by simp
qed

lemma detects_horizontal_scan_passes: "detects_horizontal_scan t"
proof -
  let ?f = "\<lambda>i. ''192.168.1.'' @ show_nat i"
  have card_eq_1: "card {22 :: u16} = 1" by simp
  let ?h = "map (\<lambda>i. attempt t (?f i) 22) [1..<25]" let ?a = "attempt t (?f 25) 22"
  have "co_remote_port ` set (filter (\<lambda>b. co_remote_host b = co_remote_host ?a) (?h @ [?a])) \<subseteq> {22}"
    by auto
  then have "card (co_remote_port ` set (filter (\<lambda>b. co_remote_host b = co_remote_host ?a) (?h @ [?a]))) \<le> card {22 :: u16}"
    by (rule card_mono [rotated]) simp
  then have ports: "\<not> 10 \<le> card (co_remote_port ` set (filter (\<lambda>b. co_remote_host b = co_remote_host ?a) (?h @ [?a])))"
    using card_eq_1 by linarith
  have "co_remote_host ` set (filter (\<lambda>b. co_remote_port b = co_remote_port ?a) (?h @ [?a])) = ?f ` set ([1..<25] @ [25])"
    by (simp add: filter_map o_def image_image)
  moreover have "card (?f ` set ([1..<25] @ [25])) = 25" by code_simp
  ultimately have hosts: "card (co_remote_host ` set (filter (\<lambda>b. co_remote_port b = co_remote_port ?a) (?h @ [?a]))) = 25"
    by simp
  have "20 \<le> (25 :: nat)" by simp
  then show ?thesis
    unfolding detects_horizontal_scan_def report_exact [OF same_time(1) [OF attempts_same_time]]
      same_time(2) [OF attempts_same_time] Let_def if_not_P [OF ports] hosts by (simp only: if_True attempt_simps)
qed

lemma window_prunes_old_observations_passes:
  assumes "t + 2000000 \<le> t'"
  shows "window_prunes_old_observations t t'"
proof -
  let ?h = "map (\<lambda>i. attempt t ''10.0.0.5'' (of_nat i)) [1..<16]" let ?a = "attempt t' ''10.0.0.5'' 99"
  have old: "in_window (nanos_per_sec div 1000) (co_timestamp ?a) (?h @ [?a]) = [?a]"
    using assms by (auto simp: in_window_def elapsed_def filter_empty_conv)
  have "time_ordered (?h @ [?a])"
    using assms by (simp add: time_ordered_def sorted_append o_def map_replicate_const)
  from report_exact [OF this, of "nanos_per_sec div 1000"] show ?thesis
    unfolding window_prunes_old_observations_def old Let_def by simp
qed

lemma ignores_same_port_repeatedly_passes: "ignores_same_port_repeatedly t"
proof -
  let ?a = "attempt t ''8.8.8.8'' 443"
  have "report_after (from_secs 30) (replicate n ?a) ?a = None" if n: "n < 50" for n
  proof (rule nothing_reported)
    have sub: "f ` set (filter P (replicate n ?a @ [?a])) \<subseteq> {f ?a}" for f :: "conn_observation \<Rightarrow> 'x" and P
      by auto
    have one: "card (f ` set (filter P (replicate n ?a @ [?a]))) \<le> 1" for f :: "conn_observation \<Rightarrow> 'x" and P
      using card_mono [OF _ sub [of f P]] by (simp only: finite.intros card.empty card_insert_disjoint simp_thms empty_iff One_nat_def finite.emptyI)
    show "card (co_remote_port ` set (filter (\<lambda>b. co_remote_host b = co_remote_host ?a) (replicate n ?a @ [?a]))) < 10"
      by (rule le_less_trans [OF one]) simp
    show "card (co_remote_host ` set (filter (\<lambda>b. co_remote_port b = co_remote_port ?a) (replicate n ?a @ [?a]))) < 20"
      by (rule le_less_trans [OF one]) simp
  qed (use n in simp_all)
  then show ?thesis by (simp add: ignores_same_port_repeatedly_def list_all_iff)
qed

section \<open>Connection tracker (network/conn\_tracker.rs)\<close>

definition make_key :: "u16 \<Rightarrow> connection_key" where
  "make_key remote_port = \<lparr> ck_local_addr = ''10.0.0.1'', ck_local_port = 12345, ck_remote_addr = ''93.184.216.34'',
     ck_remote_port = remote_port, ck_protocol = Tcp \<rparr>"

definition make_meta :: "u32 \<Rightarrow> connection_meta" where
  "make_meta pid = \<lparr> cm_pid = pid, cm_process_name = ''test'', cm_uid = 1000, cm_inode = 10000 + ucast pid \<rparr>"

text \<open>The polls of a test at the times \<open>t1\<close>, \<open>t2\<close>.\<close>

definition detects_new_connection :: "instant \<Rightarrow> bool" where
  "detects_new_connection t1 \<longleftrightarrow> (let (events, tracker) = conn_update t1 [(make_key 443, make_meta 100)] conn_tracker_new in
     length events = 1 \<and> is_new (events ! 0) \<and> active_count tracker = 1)"

definition detects_closed_connection :: "instant \<Rightarrow> instant \<Rightarrow> bool" where
  "detects_closed_connection t1 t2 \<longleftrightarrow>
     (let tracker = snd (conn_update t1 [(make_key 443, make_meta 100)] conn_tracker_new);
          (events, tracker') = conn_update t2 [] tracker
      in length events = 1 \<and> \<not> is_new (events ! 0) \<and> active_count tracker' = 0)"

definition deduplicates_existing_connections :: "instant \<Rightarrow> instant \<Rightarrow> bool" where
  "deduplicates_existing_connections t1 t2 \<longleftrightarrow>
     (let (events, tracker) = conn_update t1 [(make_key 443, make_meta 100)] conn_tracker_new;
          (events', tracker') = conn_update t2 [(make_key 443, make_meta 100)] tracker
      in length events = 1 \<and> length events' = 0 \<and> active_count tracker' = 1)"

definition tracks_multiple_connections :: "instant \<Rightarrow> instant \<Rightarrow> bool" where
  "tracks_multiple_connections t1 t2 \<longleftrightarrow>
     (let current = map (\<lambda>i. (make_key (100 + of_nat i), make_meta (1000 + of_nat i))) [1, 2, 3, 4, 5];
          (events, tracker) = conn_update t1 current conn_tracker_new;
          (events', tracker') = conn_update t2 (take 2 current) tracker
      in length events = 5 \<and> active_count tracker = 5 \<and> length events' = 3 \<and> active_count tracker' = 2)"

definition handles_empty_poll :: "instant \<Rightarrow> bool" where
  "handles_empty_poll t1 \<longleftrightarrow> (let (events, tracker) = conn_update t1 [] conn_tracker_new in
     events = [] \<and> active_count tracker = 0)"

lemmas tracker_test_defs = conn_update_def conn_tracker_new_def close_events_def active_count_def make_key_def Let_def

lemma detects_new_connection_passes: "detects_new_connection t1"
  by code_simp

lemma detects_closed_connection_passes: "detects_closed_connection t1 t2"
  by code_simp

lemma deduplicates_existing_connections_passes: "deduplicates_existing_connections t1 t2"
  by code_simp

lemma tracks_multiple_connections_passes: "tracks_multiple_connections t1 t2"
  by code_simp

lemma handles_empty_poll_passes: "handles_empty_poll t1"
  by (simp add: handles_empty_poll_def tracker_test_defs)

section \<open>Addresses and names (network/dns\_resolver.rs, network/mod.rs)\<close>

definition detects_private_ips :: bool where
  "detects_private_ips \<longleftrightarrow> is_private_ip ''127.0.0.1'' \<and> is_private_ip ''10.1.2.3'' \<and> is_private_ip ''192.168.1.1''
     \<and> is_private_ip ''172.16.0.1'' \<and> is_private_ip ''0.0.0.0'' \<and> is_private_ip ''169.254.1.1''"

definition detects_public_ips :: bool where
  "detects_public_ips \<longleftrightarrow> \<not> is_private_ip ''8.8.8.8'' \<and> \<not> is_private_ip ''1.1.1.1'' \<and> \<not> is_private_ip ''93.184.216.34''"

definition cache_hit_present :: "instant \<Rightarrow> bool" where
  "cache_hit_present now \<longleftrightarrow> (let r = dns_resolver_new (from_secs 300) in
     cache_size (r\<lparr> dn_cache := AList.update ''8.8.8.8'' \<lparr> dn_hostname = ''dns.google'', dn_resolved_at = now \<rparr> (dn_cache r) \<rparr>) = 1)"

definition test_parse_ipv4 :: bool where
  "test_parse_ipv4 \<longleftrightarrow> parse_ip_port ''0100007F:0050'' = Some (''127.0.0.1'', 80)"

definition test_parse_ipv6 :: bool where
  "test_parse_ipv6 \<longleftrightarrow> parse_ip_port ''00000000000000000000000000000001:1F90''
     = Some (''0000:0000:0000:0000:0000:0000:0000:0001'', 8080)"

definition test_parse_empty_port :: bool where
  "test_parse_empty_port \<longleftrightarrow> parse_ip_port ''00000000:0000'' = Some (''0.0.0.0'', 0)"

definition test_parse_bogus_rejected :: bool where
  "test_parse_bogus_rejected \<longleftrightarrow> parse_ip_port ''nothex'' = None \<and> parse_ip_port ''1234:xyz'' = None"

text \<open>Whatever process 1 is called: its name is read as it is, or shown as a question mark.\<close>

definition test_read_process_name :: "proc_entry \<Rightarrow> bool" where
  "test_read_process_name init \<longleftrightarrow> read_process_name init \<noteq> []"

lemma detects_private_ips_passes: detects_private_ips
  by code_simp

lemma detects_public_ips_passes: detects_public_ips
  by code_simp

lemma cache_hit_present_passes: "cache_hit_present now"
  by (simp add: cache_hit_present_def dns_resolver_new_def cache_size_def)

lemma test_parse_ipv4_passes: test_parse_ipv4
proof -
  have "proc_net_v4 127 0 0 1 80 = ''0100007F:0050''" "dotted 127 0 0 1 = ''127.0.0.1''" by code_simp+
  with proc_net_v4_roundtrip [of 127 0 0 1 80] show ?thesis by (simp add: test_parse_ipv4_def)
qed

lemmas parse_address_defs = parse_ip_port_def parse_hex_v6_def parse_hex_group_def parse_hex_u8_def parse_hex_def
  slice_def hex_digit_def lower_hex2_def lower_digit_def Let_def upt_rec_numeral

lemma test_parse_ipv6_passes: test_parse_ipv6
  unfolding test_parse_ipv6_def by (simp add: parse_address_defs) code_simp

lemma test_parse_empty_port_passes: test_parse_empty_port
proof -
  have "proc_net_v4 0 0 0 0 0 = ''00000000:0000''" "dotted 0 0 0 0 = ''0.0.0.0''" by code_simp+
  with proc_net_v4_roundtrip [of 0 0 0 0 0] show ?thesis by (simp add: test_parse_empty_port_def)
qed

lemma test_parse_bogus_rejected_passes: test_parse_bogus_rejected
  unfolding test_parse_bogus_rejected_def by (simp add: parse_address_defs)

lemma test_read_process_name_passes:
  "pr_comm init = None \<or> (\<exists>s. pr_comm init = Some s \<and> str_trim s \<noteq> []) \<Longrightarrow> test_read_process_name init"
  by (auto simp: test_read_process_name_def read_process_name_def)

section \<open>File collector (file/mod.rs, file/file\_hasher.rs)\<close>

definition detects_sensitive_paths :: bool where
  "detects_sensitive_paths \<longleftrightarrow> is_sensitive_path ''/etc/passwd'' \<and> is_sensitive_path ''/tmp/malware.sh''
     \<and> is_sensitive_path ''/home/user/.ssh/authorized_keys'' \<and> is_sensitive_path ''/root/.bashrc''"

definition ignores_normal_paths :: bool where
  "ignores_normal_paths \<longleftrightarrow> \<not> is_sensitive_path ''/home/user/Documents/report.txt''
     \<and> \<not> is_sensitive_path ''/usr/share/icons/icon.png'' \<and> \<not> is_sensitive_path ''/opt/app/config.toml''"

definition script_extensions_are_sensitive :: bool where
  "script_extensions_are_sensitive \<longleftrightarrow> is_sensitive_path ''/tmp/script.sh'' \<and> is_sensitive_path ''/var/tmp/exploit.py''
     \<and> is_sensitive_path ''/dev/shm/backdoor.pl''"

definition service_files_are_sensitive :: bool where
  "service_files_are_sensitive \<longleftrightarrow> is_sensitive_path ''/etc/systemd/system/evil.service''
     \<and> is_sensitive_path ''/tmp/persistence.timer''"

text \<open>The entropies are compared with a tolerance; \<open>log2\<close> is that of the standard library.\<close>

definition entropy_of_all_zeros_is_zero :: "(f64 \<Rightarrow> f64) \<Rightarrow> bool" where
  "entropy_of_all_zeros_is_zero log2 \<longleftrightarrow> (\<exists>e. compute_entropy log2 (replicate 256 0) = Fin e \<and> \<bar>e - 0\<bar> < 1 / 100)"

definition entropy_of_uniform_is_eight :: "(f64 \<Rightarrow> f64) \<Rightarrow> bool" where
  "entropy_of_uniform_is_eight log2 \<longleftrightarrow> (\<exists>e. compute_entropy log2 (map of_nat [0..<256]) = Fin e \<and> \<bar>e - 8\<bar> < 1 / 10)"

definition entropy_of_empty_is_zero :: "(f64 \<Rightarrow> f64) \<Rightarrow> bool" where
  "entropy_of_empty_is_zero log2 \<longleftrightarrow> compute_entropy log2 [] = Fin 0"

definition detect_elf_binary :: bool where
  "detect_elf_binary \<longleftrightarrow> detect_mime [0x7F, 0x45, 0x4C, 0x46] ''unknown'' = ''application/x-elf''"

definition detect_shell_script_by_ext :: bool where
  "detect_shell_script_by_ext \<longleftrightarrow> detect_mime_from_ext ''/tmp/test.sh'' = ''text/x-shellscript''
     \<and> detect_mime_from_ext ''script.py'' = ''text/x-python'' \<and> detect_mime_from_ext ''payload.exe'' = ''application/x-dosexec''"

definition uuid_is_random :: bool where
  "uuid_is_random \<longleftrightarrow> detect_mime_from_ext ''a1b2c3d4-e5f6-7890-abcd-ef1234567890'' = ''application/octet-stream''"

lemma detects_sensitive_paths_passes: detects_sensitive_paths
  by code_simp

lemma ignores_normal_paths_passes: ignores_normal_paths
  by code_simp

lemma script_extensions_are_sensitive_passes: script_extensions_are_sensitive
  by code_simp

lemma service_files_are_sensitive_passes: service_files_are_sensitive
  by code_simp

lemma entropy_of_all_zeros_is_zero_passes: "log2 (Fin 1) = Fin 0 \<Longrightarrow> entropy_of_all_zeros_is_zero log2"
  using entropy_constant [of 256 log2 0] by (simp add: entropy_of_all_zeros_is_zero_def)

lemma entropy_of_uniform_is_eight_passes: "log2 (Fin (1 / 256)) = Fin (- 8) \<Longrightarrow> entropy_of_uniform_is_eight log2"
  using entropy_uniform [of "map of_nat [0..<256]" log2] by (simp add: entropy_of_uniform_is_eight_def)

lemma entropy_of_empty_is_zero_passes: "entropy_of_empty_is_zero log2"
  by (simp add: entropy_of_empty_is_zero_def compute_entropy_def)

lemma detect_elf_binary_passes: detect_elf_binary
  by code_simp

lemma detect_shell_script_by_ext_passes: detect_shell_script_by_ext
  by code_simp

lemma uuid_is_random_passes: uuid_is_random
  by code_simp

end
