(* ===== verification/Engine_Tests.thy ===== *)
theory Engine_Tests
  imports Risk File_Hash Correlation Sigma Privacy Ai_Engine Ioc Repositories Notify Intel_Clients Config
begin

text \<open>
  The unit tests of the engines, the storage and the plugins, replayed on the model: each definition is the
  body of a test of the repository, with the model's functions in the place of the code's, and the theorem
  after it says that the model passes.  What the tests take from their machine (clock, environment, digest,
  key pair) is a parameter; a test that depends on it passes under the condition stated.
\<close>

section \<open>Risk engine (sentinel-risk/src/lib.rs)\<close>

definition test_decay_halflife :: "(f64 \<Rightarrow> f64 \<Rightarrow> f64) \<Rightarrow> bool" where
  "test_decay_halflife powf \<longleftrightarrow> decay powf 100 600 600 = 50"

definition test_decay_no_time :: "(f64 \<Rightarrow> f64 \<Rightarrow> f64) \<Rightarrow> bool" where
  "test_decay_no_time powf \<longleftrightarrow> decay powf 100 0 600 = 100"

definition test_thresholds :: risk_thresholds where
  "test_thresholds = \<lparr> rt_low = 100, rt_medium = 300, rt_high = 600, rt_critical = 900 \<rparr>"

definition test_threshold_low :: bool where
  "test_threshold_low \<longleftrightarrow> from_score 50 test_thresholds = AS_Low"

definition test_threshold_critical :: bool where
  "test_threshold_critical \<longleftrightarrow> from_score 950 test_thresholds = AS_Critical"

definition test_calculate_cumulative :: "(f64 \<Rightarrow> f64 \<Rightarrow> f64) \<Rightarrow> clock \<Rightarrow> clock \<Rightarrow> bool" where
  "test_calculate_cumulative powf clk clk' \<longleftrightarrow>
     (let (s1, engine) = calculate powf clk 50 ''Warning'' (Fin 1) (Some ''chain-1'') (risk_engine_new risk_config_default);
          (s2, engine') = calculate powf clk' 30 ''Warning'' (Fin 1) (Some ''chain-1'') engine
      in s1 = 50 \<and> s2 = 80)"

definition test_should_alert_below_threshold :: "clock \<Rightarrow> datetime \<Rightarrow> bool" where
  "test_should_alert_below_threshold clk utc \<longleftrightarrow>
     fst (should_alert clk utc ''r1'' ''test'' 50 ''src'' [] None (risk_engine_new risk_config_default)) = None"

definition test_should_alert_generates :: "clock \<Rightarrow> datetime \<Rightarrow> bool" where
  "test_should_alert_generates clk utc \<longleftrightarrow>
     map_option ra_severity (fst (should_alert clk utc ''r1'' ''Test Rule'' 700 ''src'' [''ev1''] None
       (risk_engine_new risk_config_default))) = Some AS_High"

definition test_dedup_suppresses_second :: "clock \<Rightarrow> clock \<Rightarrow> datetime \<Rightarrow> bool" where
  "test_dedup_suppresses_second clk clk' utc \<longleftrightarrow>
     (let (a1, engine) = should_alert clk utc ''r1'' ''T'' 500 ''s'' [] None (risk_engine_new risk_config_default);
          (a2, engine') = should_alert clk' utc ''r1'' ''T'' 500 ''s'' [] None engine
      in a1 \<noteq> None \<and> a2 = None)"

text \<open>Half of the half-life is a half; whole numbers are exact in 64-bit floats.\<close>

lemma test_decay_halflife_passes:
  assumes "powf (Fin (1 / 2)) (Fin 1) = Fin (1 / 2)"
  shows "test_decay_halflife powf"
proof -
  have "f64_mul (f64_of_u32 100) (Fin (1 / 2)) = f64_of_u32 50"
    using f64_of_int [of 50] by (simp add: f64_of_u32_def)
  then show ?thesis
    using assms f64_of_nat_exact [of 600] by (simp add: test_decay_halflife_def decay_def Let_def)
qed

lemma decay_no_time:
  assumes "powf (Fin (1 / 2)) (Fin 0) = Fin 1" and "0 < h" and "unat h \<le> 2 ^ 53"
  shows "decay powf n 0 h = n"
proof -
  have "(of_nat (unat h) :: rat) \<noteq> 0" using assms(2) by (simp add: word_less_nat_alt del: of_nat_unat)
  then have "f64_div_fin (f64_of_nat 0) (f64_of_nat (unat h)) = Fin 0"
    using f64_of_nat_exact [of 0] f64_of_nat_exact [OF assms(3)] by (simp del: of_nat_unat)
  then show ?thesis using assms(1) f64_mul_one [of n] by (simp add: decay_def Let_def)
qed

lemma test_decay_no_time_passes: "powf (Fin (1 / 2)) (Fin 0) = Fin 1 \<Longrightarrow> test_decay_no_time powf"
  using decay_no_time [of powf 600 100] by (simp add: test_decay_no_time_def)

text \<open>The two calculations follow each other within a second.\<close>

lemma test_calculate_cumulative_passes:
  assumes "powf (Fin (1 / 2)) (Fin 0) = Fin 1" and "as_secs (elapsed (clk' 0) (clk 1)) = 0"
  shows "test_calculate_cumulative powf clk clk'"
proof -
  let ?e = "risk_engine_new risk_config_default"
  have new: "rk_scores ?e = Map.empty" "rc_half_lives (rk_config ?e) ''Warning'' = Some 900"
    by (simp_all add: risk_engine_new_def risk_config_default_def)
  have capped: "f64_to_u32 (f64_min (f64_of_u32 50) (Fin 1000)) = 50" "f64_to_u32 (f64_min (f64_of_u32 80) (Fin 1000)) = 80"
    using f64_capped_u32 [of 1000 50] f64_capped_u32 [of 1000 80] by simp_all
  have first: "calculate powf clk 50 ''Warning'' (Fin 1) (Some ''chain-1'') ?e
      = (50, ?e\<lparr> rk_scores := [''chain-1'' \<mapsto> (50, clk 1)] \<rparr>)"
    by (simp only: calculate_def new option.case Let_def prod.case f64_mul_one capped fun_upd_apply)
  have "decay powf 50 0 900 = 50" using decay_no_time [of powf 900 50] assms(1) by simp
  moreover have "min (saturating_add (50 :: u32) 30) 1000 = 80" by (simp add: saturating_add_def)
  ultimately have "fst (calculate powf clk' 30 ''Warning'' (Fin 1) (Some ''chain-1'')
      (?e\<lparr> rk_scores := [''chain-1'' \<mapsto> (50, clk 1)] \<rparr>)) = 80"
    using new(2) assms(2) by (simp add: calculate_def Let_def f64_mul_one capped)
  then show ?thesis
    by (simp add: test_calculate_cumulative_def first case_prod_beta)
qed

lemma test_threshold_low_passes: test_threshold_low
  by code_simp

lemma test_threshold_critical_passes: test_threshold_critical
  by code_simp

lemma test_should_alert_below_threshold_passes: "test_should_alert_below_threshold clk utc"
  by (simp add: test_should_alert_below_threshold_def should_alert_def risk_engine_new_def risk_config_default_def from_score_def)

lemma test_should_alert_generates_passes: "test_should_alert_generates clk utc"
  by (simp add: test_should_alert_generates_def should_alert_def risk_engine_new_def risk_config_default_def from_score_def Let_def)

text \<open>The second alert is within five minutes of the first.\<close>

lemma test_dedup_suppresses_second_passes:
  assumes "elapsed (clk' 0) (clk 3) < from_secs (rc_dedup_window_secs risk_config_default)"
  shows "test_dedup_suppresses_second clk clk' utc"
proof -
  have "from_score 500 (rc_thresholds risk_config_default) \<noteq> AS_Low"
    by (simp add: risk_config_default_def from_score_def)
  then show ?thesis
    using assms by (simp add: test_dedup_suppresses_second_def should_alert_def risk_engine_new_def Let_def dedup_key_def)
      (simp add: risk_config_default_def)
qed

section \<open>Correlation engine (sentinel-correlation/src/lib.rs)\<close>

definition make_event :: "string \<Rightarrow> string \<Rightarrow> u32 \<Rightarrow> u32 \<Rightarrow> event" where
  "make_event ty source pid ppid = event_default\<lparr> ev_id := ''ev-1'', ev_type := ty, ev_source := source, ev_severity := 3,
     ev_risk_score := 50, ev_host_id := ''host-1'', ev_schema_version := 1,
     ev_process := Some (ProcessContext pid ppid ''test.exe'' [] [] [] None [] None [] 0 [] None) \<rparr>"

definition test_causal_chain_parent_child :: "clock \<Rightarrow> clock \<Rightarrow> string \<Rightarrow> string \<Rightarrow> bool" where
  "test_causal_chain_parent_child clk clk' ulid ulid' \<longleftrightarrow>
     (let (chain1, engine) = ingest clk ulid (make_event ''sentinel.process.create'' ''process'' 100 0)
            (correlation_engine_new correlation_config_default);
          chain2 = fst (ingest clk' ulid' (make_event ''sentinel.process.create'' ''process'' 200 100) engine)
      in kc_pids chain1 = [100] \<and> kc_id chain2 = kc_id chain1 \<and> kc_pids chain2 = [100, 200])"

definition test_temporal_grouping :: "clock \<Rightarrow> clock \<Rightarrow> string \<Rightarrow> string \<Rightarrow> bool" where
  "test_temporal_grouping clk clk' ulid ulid' \<longleftrightarrow>
     (let (c1, engine) = ingest clk ulid (make_event ''sentinel.file.write'' ''file'' 0 0)
            (correlation_engine_new correlation_config_default);
          c2 = fst (ingest clk' ulid' (make_event ''sentinel.file.modify'' ''file'' 0 0) engine)
      in kc_id c1 = kc_id c2)"

lemmas ingest_stages = ingest_def link_own_pid_def link_parent_def after_causal_def link_temporal_def create_chain_def
  chain_new_def add_event_def correlation_engine_new_def make_event_def Let_def

lemma test_causal_chain_parent_child_passes: "test_causal_chain_parent_child clk clk' ulid ulid'"
  by (simp add: test_causal_chain_parent_child_def ingest_stages)

lemma test_temporal_grouping_passes: "test_temporal_grouping clk clk' ulid ulid'"
  by (simp add: test_temporal_grouping_def ingest_stages)

section \<open>Privacy filter (sentinel-privacy/src/filter.rs)\<close>

text \<open>\<open>PrivacyFilter::new\<close> takes the home directory of whoever runs the test.\<close>

definition test_filter :: "string \<Rightarrow> privacy_filter" where
  "test_filter home = \<lparr> pf_sharing = sharing_config_default, pf_home_dir = home \<rparr>"

definition test_redact_command_line_hides_home :: "(string \<Rightarrow> string) \<Rightarrow> string \<Rightarrow> bool" where
  "test_redact_command_line_hides_home hash home \<longleftrightarrow>
     (case redact_command_line hash (test_filter home) ''/home/fellcrack/malware.sh --password=secret123'' of
        None \<Rightarrow> False
      | Some r \<Rightarrow> str_contains r ''$HOME'' \<and> \<not> str_contains r ''secret123'' \<and> str_contains r ''***'')"

definition test_anonymize_path :: "(string \<Rightarrow> string) \<Rightarrow> string \<Rightarrow> bool" where
  "test_anonymize_path hash home \<longleftrightarrow> (case anonymize_path hash (test_filter home) (home @ ''/documents/private.txt'') of
     None \<Rightarrow> False | Some r \<Rightarrow> starts_with r ''$HOME'')"

definition test_anonymize_ip :: "(string \<Rightarrow> string) \<Rightarrow> string \<Rightarrow> bool" where
  "test_anonymize_ip hash home \<longleftrightarrow> (let r = anonymize_ip hash (test_filter home) ''192.168.1.100'' in
     str_contains r ''x.x'' \<and> \<not> str_contains r ''100'')"

definition test_hash_username :: "(string \<Rightarrow> string) \<Rightarrow> string \<Rightarrow> bool" where
  "test_hash_username hash home \<longleftrightarrow> (let r = hash_username hash (test_filter home) ''alice'' in r \<noteq> ''alice'' \<and> length r = 16)"

definition test_full_mode_preserves_data :: "(string \<Rightarrow> string) \<Rightarrow> string \<Rightarrow> bool" where
  "test_full_mode_preserves_data hash home \<longleftrightarrow>
     (let f = \<lparr> pf_sharing = \<lparr> sh_command_lines = AL_Full, sh_file_paths = AL_Full, sh_network_ips = AL_Full,
                sh_user_names = AL_Full, sh_process_names = AL_Full \<rparr>, pf_home_dir = home \<rparr>
      in redact_command_line hash f ''ls /tmp'' = Some ''ls /tmp'' \<and> anonymize_ip hash f ''8.8.8.8'' = ''8.8.8.8''
         \<and> hash_username hash f ''bob'' = ''bob'')"

text \<open>The first test names the author's home directory: it passes there and fails for another user.\<close>

lemma test_redact_command_line_hides_home_passes: "test_redact_command_line_hides_home hash ''/home/fellcrack''"
proof -
  have "do_redact_command_line ''/home/fellcrack/malware.sh --password=secret123'' ''/home/fellcrack''
      = ''$HOME/malware.sh --password=***''" by code_simp
  moreover have "str_contains ''$HOME/malware.sh --password=***'' ''$HOME''"
    "\<not> str_contains ''$HOME/malware.sh --password=***'' ''secret123''"
    "str_contains ''$HOME/malware.sh --password=***'' ''***''" by code_simp+
  ultimately show ?thesis
    by (simp add: test_redact_command_line_hides_home_def test_filter_def sharing_config_default_def)
qed

lemma test_redact_command_line_needs_home: "\<not> test_redact_command_line_hides_home hash ''/home/user''"
proof -
  have "do_redact_command_line ''/home/fellcrack/malware.sh --password=secret123'' ''/home/user''
      = ''/home/fellcrack/malware.sh --password=***''" by code_simp
  moreover have "\<not> str_contains ''/home/fellcrack/malware.sh --password=***'' ''$HOME''" by code_simp
  ultimately show ?thesis
    by (simp add: test_redact_command_line_hides_home_def test_filter_def sharing_config_default_def)
qed

lemma test_anonymize_path_passes: "test_anonymize_path hash ''/home/user''"
proof -
  have "rewrite_path hash ''/home/user/documents/private.txt'' ''/home/user'' = ''$HOME/documents/private.txt''"
  proof -
    have "path_starts_with ''/home/user/documents/private.txt'' ''/home/user''"
      "path_strip_prefix ''/home/user/documents/private.txt'' ''/home/user'' = ''documents/private.txt''" by code_simp+
    then show ?thesis by (simp add: rewrite_path_def)
  qed
  then show ?thesis
    by (simp add: test_anonymize_path_def test_filter_def sharing_config_default_def do_anonymize_path_def starts_with_def)
qed

lemma test_anonymize_ip_passes: "test_anonymize_ip hash home"
proof -
  have "mask_ip ''192.168.1.100'' = ''192.168.x.x''" by code_simp
  moreover have "str_contains ''192.168.x.x'' ''x.x'' \<and> \<not> str_contains ''192.168.x.x'' ''100''" by code_simp
  ultimately show ?thesis by (simp add: test_anonymize_ip_def anonymize_ip_def test_filter_def sharing_config_default_def)
qed

text \<open>A digest of eight bytes has sixteen hexadecimal digits.\<close>

lemma test_hash_username_passes: "length (hash ''alice'') = 16 \<Longrightarrow> test_hash_username hash home"
  by (auto simp: test_hash_username_def hash_username_def test_filter_def sharing_config_default_def)

lemma test_full_mode_preserves_data_passes: "test_full_mode_preserves_data hash home"
  by (simp add: test_full_mode_preserves_data_def anonymize_ip_def hash_username_def)

section \<open>Sigma importer (sentinel-sigma/src/lib.rs)\<close>

text \<open>The rules of the tests as the YAML parser reads them: absent texts are empty.\<close>

definition sigma_of :: "string \<Rightarrow> string \<Rightarrow> string \<Rightarrow> string \<Rightarrow> (yaml \<times> yaml) list \<Rightarrow> string list option \<Rightarrow> string \<Rightarrow> sigma_rule" where
  "sigma_of title i status category selection tags level = \<lparr> sr_title = title, sr_id = i, sr_status = status,
     sr_description = None, sr_author = [], sr_date = [], sr_tags = tags,
     sr_logsource = Some \<lparr> ls_category = Some category, ls_product = None, ls_service = None \<rparr>,
     sr_detection = \<lparr> sd_fields = [''selection'' \<mapsto> YMapping selection], sd_condition = ''selection'' \<rparr>,
     sr_falsepositives = None, sr_level = Some level \<rparr>"

definition test_parse_sigma_rule :: "string \<Rightarrow> string \<Rightarrow> bool" where
  "test_parse_sigma_rule uuid now \<longleftrightarrow>
     (let sigma = sigma_of ''Test Rule'' ''test-001'' ''stable'' ''process_creation''
            [(YString ''Image|endswith'', YString (CHR 0x5C # ''powershell.exe'')), (YString ''CommandLine|contains'', YString ''-enc'')]
            None ''high'';
          r = convert_sigma_to_sentinel uuid now (sigma\<lparr> sr_logsource :=
            Some \<lparr> ls_category = Some ''process_creation'', ls_product = Some ''windows'', ls_service = None \<rparr> \<rparr>)
      in str_contains (sx_condition r) ''sentinel.process.create'' \<and> str_contains (sx_condition r) ''powershell''
         \<and> sx_severity r = ''Error'')"

definition test_parse_with_mitre_tags :: "string \<Rightarrow> string \<Rightarrow> bool" where
  "test_parse_with_mitre_tags uuid now \<longleftrightarrow>
     (let r = convert_sigma_to_sentinel uuid now (sigma_of ''WMI Execution'' ''test-002'' ''stable'' ''process_creation''
            [(YString ''Image|contains'', YString ''wmic'')] (Some [''attack.t1047'', ''attack.execution'']) ''medium'')
      in sx_mitre r \<noteq> [] \<and> sk_base_score (sx_risk r) = 55)"

definition test_network_rule_mapping :: "string \<Rightarrow> string \<Rightarrow> bool" where
  "test_network_rule_mapping uuid now \<longleftrightarrow>
     (let r = convert_sigma_to_sentinel uuid now (sigma_of ''Suspicious Network'' ''test-003'' [] ''network_connection''
            [(YString ''DestinationPort'', YNumber ''4444'')] None ''critical'')
      in str_contains (sx_condition r) ''sentinel.network.connect'' \<and> sx_severity r = ''Critical'')"

text \<open>The fields of a converted rule, for a log source and a level.\<close>

definition rule_text :: "sigma_rule \<Rightarrow> string" where
  "rule_text sigma = (let cel = build_cel_condition (sr_detection sigma) in ''event.type == '' @ dq
     @ map_logsource_to_event_type (sr_logsource sigma) @ dq @ (if cel = [] then [] else '' && ('' @ cel @ '')''))"

lemma converted_rule:
  "sx_condition (convert_sigma_to_sentinel uuid now sigma) = rule_text sigma"
  "sx_severity (convert_sigma_to_sentinel uuid now sigma) = fst (map_level_to_severity (sr_level sigma))"
  "sk_base_score (sx_risk (convert_sigma_to_sentinel uuid now sigma)) = snd (map_level_to_severity (sr_level sigma))"
  "sx_mitre (convert_sigma_to_sentinel uuid now sigma) = map_mitre_tags (case sr_tags sigma of Some t \<Rightarrow> t | None \<Rightarrow> [])"
  by (simp_all add: convert_sigma_to_sentinel_def rule_text_def Let_def case_prod_beta)

lemma test_parse_sigma_rule_passes: "test_parse_sigma_rule uuid now"
  unfolding test_parse_sigma_rule_def Let_def converted_rule by code_simp

lemma test_parse_with_mitre_tags_passes: "test_parse_with_mitre_tags uuid now"
  unfolding test_parse_with_mitre_tags_def Let_def converted_rule by code_simp

lemma test_network_rule_mapping_passes: "test_network_rule_mapping uuid now"
  unfolding test_network_rule_mapping_def Let_def converted_rule by code_simp

section \<open>AI engine (sentinel-ai/src/lib.rs)\<close>

definition test_anonymise_path :: "environment \<Rightarrow> bool" where
  "test_anonymise_path env \<longleftrightarrow> (let home = (case env ''HOME'' of Some h \<Rightarrow> h | None \<Rightarrow> ''/home/test'') in
     starts_with (anonymise_path env (home @ ''/.ssh/id_rsa'')) ''~/.ssh/'')"

definition test_summarise_empty :: "environment \<Rightarrow> bool" where
  "test_summarise_empty env \<longleftrightarrow> summarise_events env [] = ''(no related events)''"

definition test_sanitise :: bool where
  "test_sanitise \<longleftrightarrow> sanitise (''```'' @ [CHR 0x0A] @ ''Hello'' @ [CHR 0x0A] @ ''```'') = Some ''Hello''"

lemma test_anonymise_path_passes: "test_anonymise_path [''HOME'' \<mapsto> ''/home/user'']"
  by code_simp

text \<open>It falls back to a home directory, but the function under test does not.\<close>

lemma test_anonymise_path_needs_home: "\<not> test_anonymise_path Map.empty"
  by (simp add: test_anonymise_path_def anonymise_path_def starts_with_def)

lemma test_summarise_empty_passes: "test_summarise_empty env"
  by (simp add: test_summarise_empty_def summarise_events_def)

lemma test_sanitise_passes: test_sanitise
  by code_simp

section \<open>IOC, GeoIP and GreyNoise plugins\<close>

definition engine_not_loaded_initially :: bool where
  "engine_not_loaded_initially \<longleftrightarrow> \<not> ioc_is_loaded ioc_database_empty"

text \<open>Without databases every answer is missing, whether or not the text is an address.\<close>

definition lookup_without_db :: "bool \<Rightarrow> bool" where
  "lookup_without_db parses \<longleftrightarrow> geo_lookup parses ''8.8.8.8'' \<lparr> ga_country = None, ga_city = None, ga_asn = None \<rparr> = None"

definition empty_ip_returns_none :: "bool \<Rightarrow> bool" where
  "empty_ip_returns_none parses \<longleftrightarrow> geo_lookup parses [] \<lparr> ga_country = None, ga_city = None, ga_asn = None \<rparr> = None"

definition test_enabled_without_key :: "environment \<Rightarrow> bool" where
  "test_enabled_without_key env \<longleftrightarrow> \<not> greynoise_enabled (env(''SENTINEL_GREYNOISE_API_KEY'' := None))"

definition test_enabled_with_key :: "environment \<Rightarrow> bool" where
  "test_enabled_with_key env \<longleftrightarrow> greynoise_enabled (env(''SENTINEL_GREYNOISE_API_KEY'' \<mapsto> ''test-key-123''))"

definition test_check_ip_no_key :: "environment \<Rightarrow> (http_request \<Rightarrow> gn_response http_reply) \<Rightarrow> bool" where
  "test_check_ip_no_key env send \<longleftrightarrow> snd (greynoise_check_ip (env(''SENTINEL_GREYNOISE_API_KEY'' := None)) send ''8.8.8.8'') = None"

lemma engine_not_loaded_initially_passes: engine_not_loaded_initially
  by (simp add: engine_not_loaded_initially_def ioc_is_loaded_def ioc_database_empty_def)

lemma lookup_without_db_passes: "lookup_without_db parses"
  by (simp add: lookup_without_db_def geo_lookup_def)

lemma empty_ip_returns_none_passes: "empty_ip_returns_none parses"
  by (simp add: empty_ip_returns_none_def geo_lookup_def)

lemma test_enabled_without_key_passes: "test_enabled_without_key env"
  by (simp add: test_enabled_without_key_def greynoise_enabled_def greynoise_key_def)

lemma test_enabled_with_key_passes: "test_enabled_with_key env"
  by (simp add: test_enabled_with_key_def greynoise_enabled_def greynoise_key_def)

lemma test_check_ip_no_key_passes: "test_check_ip_no_key env send"
  by (simp add: test_check_ip_no_key_def greynoise_check_ip_def greynoise_key_def no_lookup_def)

section \<open>Notification plugins\<close>

definition discord_disabled_without_webhook_url :: "environment \<Rightarrow> bool" where
  "discord_disabled_without_webhook_url env \<longleftrightarrow> \<not> discord_enabled (env(''SENTINEL_DISCORD_WEBHOOK_URL'' := None))"

definition disabled_without_token_and_chat_id :: "environment \<Rightarrow> bool" where
  "disabled_without_token_and_chat_id env \<longleftrightarrow>
     \<not> telegram_enabled (env(''SENTINEL_TELEGRAM_BOT_TOKEN'' := None, ''SENTINEL_TELEGRAM_CHAT_ID'' := None))"

definition slack_disabled_without_webhook_url :: "environment \<Rightarrow> bool" where
  "slack_disabled_without_webhook_url env \<longleftrightarrow> \<not> slack_enabled (env(''SENTINEL_SLACK_WEBHOOK_URL'' := None))"

definition disabled_without_token :: "environment \<Rightarrow> bool" where
  "disabled_without_token env \<longleftrightarrow>
     \<not> ha_enabled (env(''SENTINEL_HOME_ASSISTANT_TOKEN'' := None, ''SENTINEL_HOME_ASSISTANT_URL'' := None))"

lemmas notifier_enabled_defs = discord_enabled_def telegram_enabled_def slack_enabled_def ha_enabled_def

text \<open>The code reads other variables than three of the tests unset, so these pass only where the plugin is not
  configured anyway.\<close>

lemma discord_disabled_without_webhook_url_passes:
  "discord_disabled_without_webhook_url env \<longleftrightarrow> env ''SENTINEL_DISCORD_WEBHOOK'' = None"
  by (simp add: discord_disabled_without_webhook_url_def notifier_enabled_defs)

lemma disabled_without_token_and_chat_id_passes: "disabled_without_token_and_chat_id env"
  by (simp add: disabled_without_token_and_chat_id_def notifier_enabled_defs)

lemma slack_disabled_without_webhook_url_passes:
  "slack_disabled_without_webhook_url env \<longleftrightarrow> env ''SENTINEL_SLACK_WEBHOOK'' = None"
  by (simp add: slack_disabled_without_webhook_url_def notifier_enabled_defs)

lemma disabled_without_token_passes:
  "disabled_without_token env \<longleftrightarrow> env ''SENTINEL_HA_URL'' = None \<or> env ''SENTINEL_HA_TOKEN'' = None"
  by (simp add: disabled_without_token_def notifier_enabled_defs ha_api_url_def ha_api_token_def)

end
