(* ===== verification/Storage_Tests.thy ===== *)
theory Storage_Tests
  imports Repositories Migrations Event_Bus Config Hot_Reload
begin

text \<open>
  The unit tests of the event bus, the storage and the secrets, replayed on the model: each definition is
  the body of a test of the repository, with the model's functions in the place of the code's, and the
  theorem after it says that the model passes, under the documented behaviour of the JSON library and of
  the cipher where the test needs them.
\<close>

section \<open>Event bus (sentinel-event-bus/src/lib.rs)\<close>

definition make_bus_event :: "string \<Rightarrow> severity \<Rightarrow> event" where
  "make_bus_event ty sev = event_default\<lparr> ev_id := ''test-id'', ev_type := ty, ev_source := ''test'',
     ev_severity := severity_i32 sev, ev_host_id := ''host-1'', ev_schema_version := 1 \<rparr>"

text \<open>A publication, taken into the channel and routed by the running bus.\<close>

definition publish_and_route :: "event \<Rightarrow> event_bus \<Rightarrow> event_bus option" where
  "publish_and_route e b = Option.bind (publish_accept (length (eb_waiting b)) (publish_begin e b)) (process_one (\<lambda>_. False))"

definition test_publish_subscribe :: bool where
  "test_publish_subscribe \<longleftrightarrow>
     (let e = make_bus_event ''process.create'' Info; bus = bus_subscribe_type ''*'' 0 (event_bus_new channel_config_default)
      in map_option eb_delivered (publish_and_route e bus) = Some [(0, e)] \<and> ev_type e = ''process.create'')"

definition test_event_filter :: bool where
  "test_event_filter \<longleftrightarrow>
     (let filt = event_filter_default\<lparr> ef_event_types := Some [''process.create''] \<rparr>;
          bus = bus_subscribe filt 0 (event_bus_new channel_config_default);
          matching = make_bus_event ''process.create'' Warning; non_matching = make_bus_event ''file.write'' Warning
      in map_option eb_delivered (Option.bind (publish_and_route non_matching bus) (publish_and_route matching))
           = Some [(0, matching)])"

lemmas bus_test_defs = publish_and_route_def publish_begin_def publish_accept_def process_one_def route_def route_targets_def
  exact_subscribers_def router_subscribe_def add_type_def add_wildcard_def bus_subscribe_def bus_subscribe_type_def
  event_bus_new_def topic_router_new_def ingest_capacity_def channel_config_default_def matches_filter_def
  event_filter_default_def make_bus_event_def

lemma test_publish_subscribe_passes: test_publish_subscribe
  by (simp add: test_publish_subscribe_def bus_test_defs Let_def max_def)

lemma test_event_filter_passes: test_event_filter
  by (simp add: test_event_filter_def bus_test_defs Let_def max_def ends_with_def)

section \<open>Migrations (sentinel-storage/src/migrations.rs)\<close>

definition test_migrations :: bool where
  "test_migrations \<longleftrightarrow> (case run_all empty_schema of Inl e \<Rightarrow> False
     | Inr db \<Rightarrow> list_all (table_exists db) [''events'', ''alerts'', ''rules'', ''config'', ''process_tree'',
         ''correlation_chains'', ''chain_events'', ''migrations''])"

lemma test_migrations_passes: test_migrations
  by code_simp

section \<open>Event repository (sentinel-storage/src/sqlite.rs)\<close>

definition make_stored_event :: "string \<Rightarrow> string \<Rightarrow> i32 \<Rightarrow> event" where
  "make_stored_event i ty sev = event_default\<lparr> ev_id := i, ev_type := ty, ev_source := ''test'', ev_severity := sev,
     ev_risk_score := 75, ev_host_id := ''host-1'', ev_schema_version := 1, ev_tags := [''test''],
     ev_process := Some (ProcessContext 42 0 ''test.exe'' [] ''test.exe --verbose'' [] None [] None [] 0 [] None) \<rparr>"

text \<open>The rows of a table with the given ids.\<close>

definition rows_of :: "event_table \<Rightarrow> string list \<Rightarrow> event_row list" where
  "rows_of t ids = List.map_filter (table_get t) ids"

definition test_insert_and_query_event ::
    "codec \<Rightarrow> string \<Rightarrow> (string \<Rightarrow> bool \<Rightarrow> event_row list \<Rightarrow> event_row list) \<Rightarrow> bool" where
  "test_insert_and_query_event c msg order \<longleftrightarrow>
     (let e = make_stored_event ''ev-001'' ''sentinel.process.create'' 5;
          t = fst (events_append c msg Map.empty [e]);
          cursor = cursor_new (events_query c order (event_query_default\<lparr> eq_limit := 10 \<rparr>) (rows_of t [''ev-001'']))
      in cu_total_count cursor = 1 \<and> (case fst (cursor_next cursor) of None \<Rightarrow> False
         | Some r \<Rightarrow> ev_id r = ''ev-001'' \<and> ev_type r = ''sentinel.process.create'' \<and> ev_severity r = 5
             \<and> ev_risk_score r = 75 \<and> ev_tags r = [''test'']))"

definition test_insert_and_get_event :: "codec \<Rightarrow> string \<Rightarrow> string \<Rightarrow> bool" where
  "test_insert_and_get_event c msg ulid \<longleftrightarrow>
     (let e = make_stored_event ulid ''sentinel.network.connect'' 3; t = fst (events_append c msg Map.empty [e])
      in case events_get c t ulid of None \<Rightarrow> False
         | Some r \<Rightarrow> ev_id r = ulid \<and> ev_type r = ''sentinel.network.connect'')"

definition test_event_count :: "codec \<Rightarrow> string \<Rightarrow> bool" where
  "test_event_count c msg \<longleftrightarrow>
     (let ids = [''ev-00'', ''ev-01'', ''ev-02''];
          t = fold (\<lambda>i t. fst (events_append c msg t [make_stored_event i ''sentinel.proc.create'' 2])) ids Map.empty
      in event_count (k_date_show c) event_column (event_query_default\<lparr> eq_limit := 100 \<rparr>) (rows_of t ids) = 3)"

definition test_event_json_roundtrip_process ::
    "codec \<Rightarrow> string \<Rightarrow> (string \<Rightarrow> bool \<Rightarrow> event_row list \<Rightarrow> event_row list) \<Rightarrow> bool" where
  "test_event_json_roundtrip_process c msg order \<longleftrightarrow>
     (let e = make_stored_event ''ev-proc'' ''sentinel.process.create'' 5;
          t = fst (events_append c msg Map.empty [e]);
          cursor = cursor_new (events_query c order (event_query_default\<lparr> eq_limit := 10 \<rparr>) (rows_of t [''ev-proc'']))
      in case Option.bind (fst (cursor_next cursor)) ev_process of None \<Rightarrow> False
         | Some p \<Rightarrow> pc_name p = ''test.exe'' \<and> pc_pid p = 42 \<and> pc_command_line p = ''test.exe --verbose'')"

lemma append_one: "fst (events_append c msg Map.empty [e]) = [ev_id e \<mapsto> event_row_of c e]"
  by (simp add: events_append_def table_insert_def event_row_of_def)

lemma query_one:
  assumes "event_text_ok c e" and "\<And>s d r. order s d [r] = [r]"
  shows "events_query c order (event_query_default\<lparr> eq_limit := 10 \<rparr>) [event_row_of c e] = [stored_event e]"
  using assms by (simp add: events_query_def select_page_def event_conds_def event_query_default_def row_to_event_of
      opt_cond_def in_cond_def like_conds_def free_text_cond_def row_matches_def)

lemma test_insert_and_query_event_passes:
  assumes "event_text_ok c (make_stored_event ''ev-001'' ''sentinel.process.create'' 5)" and "\<And>s d r. order s d [r] = [r]"
  shows "test_insert_and_query_event c msg order"
  unfolding test_insert_and_query_event_def append_one
  by (simp add: rows_of_def List.map_filter_def table_get_def query_one [OF assms] cursor_new_def cursor_next_def Let_def)
    (simp add: make_stored_event_def rows_of_def List.map_filter_def table_get_def stored_event_def)

lemma test_insert_and_get_event_passes:
  assumes "event_text_ok c (make_stored_event ulid ''sentinel.network.connect'' 3)"
  shows "test_insert_and_get_event c msg ulid"
proof -
  have i: "ev_id (make_stored_event ulid ''sentinel.network.connect'' 3) = ulid" by (simp add: make_stored_event_def)
  show ?thesis
    unfolding test_insert_and_get_event_def append_one i
    by (simp add: events_get_def table_get_def row_to_event_of [OF assms] Let_def)
      (simp add: make_stored_event_def stored_event_def)
qed

lemma test_event_count_passes: "test_event_count c msg"
  by (simp add: test_event_count_def rows_of_def List.map_filter_def table_get_def events_append_def table_insert_def
      event_row_of_def make_stored_event_def event_count_def event_count_conds_def event_query_default_def opt_cond_def
      in_cond_def like_conds_def free_text_cond_def row_matches_def Let_def)

lemma test_event_json_roundtrip_process_passes:
  assumes "event_text_ok c (make_stored_event ''ev-proc'' ''sentinel.process.create'' 5)" and "\<And>s d r. order s d [r] = [r]"
  shows "test_event_json_roundtrip_process c msg order"
  unfolding test_event_json_roundtrip_process_def append_one
  by (simp add: rows_of_def List.map_filter_def table_get_def query_one [OF assms] cursor_new_def cursor_next_def Let_def)
    (simp add: make_stored_event_def stored_event_def)

section \<open>Secrets (sentinel-config/src/secrets.rs)\<close>

definition test_encrypt_decrypt ::
    "secrets_env \<Rightarrow> (string \<Rightarrow> string + string) \<Rightarrow> (string \<Rightarrow> string) \<Rightarrow> string \<Rightarrow> bool" where
  "test_encrypt_decrypt v parse_identity to_public identity \<longleftrightarrow>
     (case secrets_with_key parse_identity to_public identity of Inl e \<Rightarrow> False
      | Inr manager \<Rightarrow> (case secret_encrypt v manager ''my-secret-api-key-12345'' of Inl e \<Rightarrow> False
          | Inr encrypted \<Rightarrow> encrypted \<noteq> ''my-secret-api-key-12345''
              \<and> secret_decrypt v manager encrypted = Inr ''my-secret-api-key-12345''))"

definition test_is_encrypted ::
    "secrets_env \<Rightarrow> (string \<Rightarrow> string + string) \<Rightarrow> (string \<Rightarrow> string) \<Rightarrow> string \<Rightarrow> bool" where
  "test_is_encrypted v parse_identity to_public identity \<longleftrightarrow>
     (case secrets_with_key parse_identity to_public identity of Inl e \<Rightarrow> False
      | Inr manager \<Rightarrow> (case secret_encrypt v manager ''not-encrypted'' of Inl e \<Rightarrow> False
          | Inr encrypted \<Rightarrow> \<not> is_encrypted v ''not-encrypted'' \<and> is_encrypted v encrypted))"

text \<open>What the tests need of the cipher: an identity that was generated is accepted, encryption to its recipient
  succeeds with a long text in base64, and decryption gives back what was encrypted.\<close>

definition cipher_works :: "secrets_env \<Rightarrow> (string \<Rightarrow> string + string) \<Rightarrow> (string \<Rightarrow> string) \<Rightarrow> string \<Rightarrow> bool" where
  "cipher_works v parse_identity to_public identity \<longleftrightarrow> (\<exists>i. parse_identity identity = Inr i
     \<and> (\<forall>s. \<exists>e. sn_encrypt v (to_public i) s = Inr e \<and> is_encrypted v e \<and> sn_decrypt v i e = Inr s))"

lemma test_encrypt_decrypt_passes:
  "cipher_works v parse_identity to_public identity \<Longrightarrow> test_encrypt_decrypt v parse_identity to_public identity"
proof -
  assume "cipher_works v parse_identity to_public identity"
  then obtain i e where "parse_identity identity = Inr i" and e: "sn_encrypt v (to_public i) ''my-secret-api-key-12345'' = Inr e"
    "is_encrypted v e" "sn_decrypt v i e = Inr ''my-secret-api-key-12345''"
    unfolding cipher_works_def by blast
  moreover have "e \<noteq> ''my-secret-api-key-12345''" using e(2) by (auto simp: is_encrypted_def)
  ultimately show ?thesis
    by (simp add: test_encrypt_decrypt_def secrets_with_key_def secret_encrypt_def secret_decrypt_def is_encrypted_def)
qed

lemma test_is_encrypted_passes:
  "cipher_works v parse_identity to_public identity \<Longrightarrow> test_is_encrypted v parse_identity to_public identity"
proof -
  assume "cipher_works v parse_identity to_public identity"
  then obtain i e where "parse_identity identity = Inr i" "sn_encrypt v (to_public i) ''not-encrypted'' = Inr e" "is_encrypted v e"
    unfolding cipher_works_def by blast
  then show ?thesis
    by (simp add: test_is_encrypted_def secrets_with_key_def secret_encrypt_def is_encrypted_def)
qed

text \<open>Such a cipher exists.\<close>

lemma demo_cipher_works: "cipher_works demo_cipher Inr id ''k''"
  by (auto simp: cipher_works_def demo_cipher_def is_encrypted_def)

section \<open>Rule engine (sentinel-rule-engine/src/lib.rs)\<close>

text \<open>One directory with one file; \<open>parse_yaml\<close> reads its content as the rule of the test and \<open>compile\<close> accepts
  its condition.\<close>

definition loading_rule :: "datetime \<Rightarrow> rule" where
  "loading_rule midnight = \<lparr> ru_id = ''test-001'', ru_version = 1, ru_name = ''Test Rule'',
     ru_description = ''Test rule for unit tests'', ru_author = ''test'', ru_created = midnight, ru_modified = midnight,
     ru_enabled = True, ru_category = ''test'', ru_subcategory = None, ru_mitre = [], ru_severity = Error,
     ru_risk = \<lparr> rr_base_score = 50, rr_confidence = f64_of (8 / 10), rr_multipliers = [] \<rparr>,
     ru_condition = ''event.type == '' @ [CHR 0x22] @ ''test.event'' @ [CHR 0x22], ru_and_conditions = [],
     ru_or_conditions = [], ru_not_conditions = [], ru_actions = [\<lparr> ac_type = AT_Alert, ac_config = JObject [] \<rparr>],
     ru_suppressions = [], ru_tests = [] \<rparr>"

definition test_rule_loading :: "(string \<Rightarrow> string + 'p) \<Rightarrow> datetime \<Rightarrow> nat \<Rightarrow> bool" where
  "test_rule_loading compile midnight ms \<longleftrightarrow>
     (case rule_engine_new (load_rule_file compile (\<lambda>_. Inr (loading_rule midnight)) (of_nat ms))
        (\<lambda>_. DirEntries [(''test_rule.yaml'', Inr ''content'')] False) (\<lambda>_. True) False [''dir''] of
        Inl e \<Rightarrow> False
      | Inr g \<Rightarrow> re_rules_loaded (rule_engine_snapshot g) = 1 \<and> re_rules_enabled (rule_engine_snapshot g) = 1)"

lemma test_rule_loading_passes:
  assumes "compile (preprocess_cel (ru_condition (loading_rule midnight))) = Inr p"
  shows "test_rule_loading compile midnight ms"
proof -
  have "is_rule_file ''test_rule.yaml''" by code_simp
  then show ?thesis
    using assms by (simp add: test_rule_loading_def rule_engine_new_def load_rules_def load_entry_def load_rule_file_def
        loading_rule_def rule_default_def rule_risk_default_def rule_engine_initial_def rule_engine_metrics_new_def
        rule_engine_snapshot_def Let_def)
qed

end
