(* ===== verification/Spec2Isabelle.thy ===== *)
theory Spec2Isabelle
  imports Health Errors Response Event_Bus Risk Correlation Rule_Engine Sigma Repositories Alerting Net_Events
    Config_Manager Api_Control Process_Start File_Start Usb Persistence Framework Metrics Browser_Monitor Ai_Engine Fleet Notify Core_Service Duckdb Ui_Views
    Cli Intel_Clients Service_Start Hot_Reload System_Core Alert_Stream
    Process_Collector Retention Collector_Tests Engine_Tests Storage_Tests
begin

text \<open>
  Sentinel AI: a verification development for the host security agent of this repository.

  \<^bold>\<open>The program.\<close>  Collectors (src/collectors) watch the processes, connections, files, USB devices, autostart
  entries, services and browsers of a host and publish events on a bus (crates/sentinel-event-bus).  The main loop
  of the service (apps/sentinel-core-service) takes every event from the bus, enriches it with threat
  intelligence (src/plugins), links it to a chain (crates/sentinel-correlation), evaluates the rules
  (crates/sentinel-rule-engine), scores the matches (crates/sentinel-risk), stores alerts
  (crates/sentinel-storage), lets the AI engine explain them (crates/sentinel-ai), and notifies.  A gRPC service
  (crates/sentinel-api), a desktop interface (src/ui), a command line tool (apps/sentinel-cli) and a fleet server
  (apps/sentinel-mgmt) read and change what is stored.  The configuration (crates/sentinel-config) and the
  rules are reloaded while the service runs.

  \<^bold>\<open>Conventions.\<close>  A struct is a record, an enum a datatype, a method a function from the old state to the result
  and the new state.  Machine integers are words; \<open>f64\<close> is the IEEE-754 model of \<open>Float64\<close>.  Errors are the left
  values of a sum; a panic is \<open>None\<close>.  A method that reads the clock at several places takes its readings in
  program order.  Loops over files, messages or ticks are recursions over the list of what they meet, so that they
  are total without fuel; concurrent parts (bus, process monitor, watchers, alert stream, process collector) are
  step relations whose reachable states carry the invariants.  Strings are lists of bytes: a slice at a byte that
  does not start a character panics, as in Rust.  Where a build with overflow checks and debug assertions and an optimised
  one differ, in the parsers of netlink messages, a flag \<open>checked\<close> tells them apart: in the first a reference that
  is not aligned or an arithmetic overflow ends the program; the second reads the bytes that are there.

  \<^bold>\<open>Foundations.\<close>  \<open>Sentinel_Prelude\<close>: machine types, the standard library's string and number operations, the
  interfaces \<open>keyed_store\<close>, \<open>updatable_store\<close> (a store and its updates) and \<open>banding\<close> (monotone
  classification).  \<open>Float64\<close>: binary64 with rounding to nearest even as the interface \<open>rounding\<close>.  \<open>Json\<close>,
  \<open>Std_Path\<close>: JSON values and paths.

  \<^bold>\<open>Core\<close> (crates/sentinel-core, src/proto).  \<open>Core_Types\<close>: severities, channels, collector registry (lib.rs).
  \<open>Events\<close>: the event messages (event.proto).  \<open>Errors\<close>: errors.rs.  \<open>Health\<close>: health.rs.  \<open>Metrics\<close>: metrics.rs.
  \<open>Response\<close>: response.rs.  \<open>Rules\<close>: the rule format (traits.rs).  \<open>System_Core\<close>: identifiers, shutdown, resources.
  Shown: health is the worst report, error texts and conversions, a released response command has the
  confirmations its tier asks for, whatever commands are enqueued.

  \<^bold>\<open>Engines.\<close>  \<open>Event_Bus\<close>: ingestion (by \<open>publish\<close>, cancelled or not, and past it), routing, back-pressure; conservation of events and
  exact counters in every reachable state and refinement of the list of subscriptions.  \<open>Risk\<close>: decay, thresholds, deduplication, the limit of alerts per
  hour.  \<open>Correlation\<close>: chains and their indexes with their invariant.  \<open>Rule_Engine\<close>: loading, compilation,
  evaluation.  \<open>Sigma\<close>: import of Sigma rules.  \<open>Privacy\<close>: what leaves the host (crates/sentinel-privacy).
  \<open>Ai_Engine\<close>: prompts, provider, cache, cleaning (crates/sentinel-ai).

  \<^bold>\<open>Storage\<close> (crates/sentinel-storage).  \<open>Migrations\<close>: migrations.rs.  \<open>Sql_Query\<close>: the statements of sqlite.rs and what
  their conditions select.  \<open>Storage_Conv\<close>: conv.rs.  \<open>Storage\<close>, \<open>Repositories\<close>: the repositories and cursors.
  \<open>Retention\<close>: retention and aggregation.  \<open>Duckdb\<close>: duckdb.rs.  Shown: round trips, atomic failures, statements that
  fit the schema and bind all placeholders; both cursors meet the interface \<open>event_cursor\<close>.

  \<^bold>\<open>Collectors\<close> (src/collectors).  \<open>Framework\<close>: manager and base collector (framework/mod.rs), with the interface
  \<open>collector\<close>, which the process collector also meets.  \<open>Network\<close>, \<open>Net_Monitor\<close>, \<open>Sock_Diag\<close>, \<open>Net_Events\<close>: scan
  detector, connection tracker, DNS cache, /proc and netlink readers, the cycle (network/*.rs).  \<open>Proc_Netlink\<close>,
  \<open>Proc_Reader\<close>, \<open>Process_Monitor\<close>, \<open>Process_Start\<close>, \<open>Process_Collector\<close>: kernel events and /proc (process/*.rs).
  \<open>File_Hash\<close>, \<open>File_Watch\<close>, \<open>File_Monitor\<close>, \<open>File_Start\<close>: hasher, fanotify, mass encryption, polling (file/*.rs).
  \<open>Usb\<close>, \<open>Persistence\<close> (startup and registry), \<open>Browser\<close>, \<open>Browser_Monitor\<close>.  Shown: the parsers end, read
  inside their buffers and read back what is written; every event is well typed; what is reported is new, once,
  and in order.

  \<^bold>\<open>Intelligence and notifications\<close> (src/plugins).  \<open>Ioc\<close>: the indicator database.  \<open>Enrichment\<close>: reports and the
  enrichment of an event.  \<open>Intel_Clients\<close>: the requests of the services and what they may hold.  \<open>Notify\<close>: discord,
  telegram, slack, email, home-assistant.

  \<^bold>\<open>Service and its interfaces.\<close>  \<open>Alerting\<close>: alert manager and the body of the loop (alert_manager.rs, main.rs):
  every alert is justified by a rule match.  \<open>Core_Service\<close>: wiring, signals, the whole loop with its effects.
  \<open>Service_Start\<close>: opening the database and the start with every error exit.  \<open>Config_Engine\<close>, \<open>Config_Collectors\<close>,
  \<open>Config\<close>, \<open>Config_Manager\<close>: sections with defaults and validators, secrets, migration, loading and reloading
  (crates/sentinel-config).  \<open>Hot_Reload\<close>: the watchers of configuration and rules over the interface
  \<open>debounced_watch\<close>; files that are settled are the ones loaded.  \<open>Api_Rules\<close>, \<open>Api\<close>, \<open>Api_Control\<close>,
  \<open>Alert_Stream\<close>: the handlers of the gRPC service and the stream of alerts.  \<open>Fleet\<close>: apps/sentinel-mgmt.  \<open>Ui_State\<close>,
  \<open>Ui_Views\<close>: the backend of the desktop interface.  \<open>Cli\<close>: the command line tool.

  \<^bold>\<open>Interfaces.\<close>  Interpreted on the model's own definitions: \<open>keyed_store\<close> (configuration rows, registry of schemas,
  rule files), \<open>updatable_store\<close> (collector registry, alert rows, rule rows, agents), \<open>banding\<close> (risk levels, alert
  severities, back-pressure, age of a heartbeat), \<open>rounding\<close> (binary64), \<open>collector\<close> (base and process collector),
  \<open>event_cursor\<close> (SQLite and DuckDB), \<open>debounced_watch\<close> (configuration and rules).

  \<^bold>\<open>Unit tests.\<close>  \<open>Collector_Tests\<close>, \<open>Engine_Tests\<close> and \<open>Storage_Tests\<close> replay the tests inside the modelled files on
  the model: a check of the translation against what the authors expect.  Some pass under a condition on the
  machine only, which the lemma states.

  \<^bold>\<open>Parameters.\<close>  Third-party code and the system are arguments, with what is used of them as named hypotheses: CEL,
  YAML, TOML and JSON text, SHA-256, age, \<open>powf\<close> and \<open>log2\<close>, SQLite and DuckDB beyond the conditions of the
  queries, HTTP servers, file system, kernel, clock, environment.

  \<^bold>\<open>Not modelled.\<close>  apps/sentinel-core-service/src/agent.rs (no module declares it); the eBPF monitor
  (network/ebpf_monitor.rs, an optional feature whose loop is a placeholder); the plugin manager
  (crates/sentinel-plugins, a stub) and the stub crates of the operating systems; the shell of the desktop
  application; argument parsers, logging and the scheduling of tasks; raw calls of libc; connection pools and
  database engines; build scripts and generated code; integration tests, benches and test utilities; the parts of
  traits.rs that nothing implements.
\<close>

end
